(* ===== verification/Prelude.thy ===== *)
theory Prelude
  imports Main "HOL-Library.Char_ord" "HOL-Library.List_Lexorder" "HOL-Library.Sublist"
begin

text \<open>
  Shared material of the development: the operations of Go's standard library the
  program calls on strings (packages \<open>strings\<close>, \<open>sort\<close>), Go maps as association
  lists, run-time panics as values, and the generic lemmas on them.

  A Go string is a sequence of bytes, here a \<^typ>\<open>string\<close> of 8-bit characters. The
  case and white-space functions are those of the ASCII range: domain names reach the
  program in ASCII (lists are converted to punycode before they are used).

  A Go map that the program iterates over is an association list: the position of a pair
  in the list is its place in the iteration order, which Go leaves open, so a theorem
  about every association list is a theorem about every iteration order.
\<close>

named_theorems gostr "facts about the string operations of the Go library"

section \<open>Panics\<close>

datatype go_panic = SliceOutOfRange | IndexOutOfRange | NilDereference | DivideByZero

section \<open>Package strings\<close>

definition lower_char :: "char \<Rightarrow> char" where
  "lower_char c = (if CHR ''A'' \<le> c \<and> c \<le> CHR ''Z'' then char_of ((of_char c :: nat) + 32) else c)"

definition toLower :: "string \<Rightarrow> string" where
  "toLower s = map lower_char s"

definition isSpace :: "char \<Rightarrow> bool" where
  "isSpace c \<longleftrightarrow> c = CHR '' '' \<or> (CHR 0x09 \<le> c \<and> c \<le> CHR 0x0D)"

definition alphanumeric :: "char \<Rightarrow> bool" where
  "alphanumeric c \<longleftrightarrow> (CHR ''a'' \<le> c \<and> c \<le> CHR ''z'') \<or> (CHR ''A'' \<le> c \<and> c \<le> CHR ''Z'') \<or> (CHR ''0'' \<le> c \<and> c \<le> CHR ''9'')"

definition trimLeft :: "string \<Rightarrow> char \<Rightarrow> string" where
  "trimLeft s c = dropWhile (\<lambda>x. x = c) s"

definition trimRight :: "string \<Rightarrow> char \<Rightarrow> string" where
  "trimRight s c = rev (dropWhile (\<lambda>x. x = c) (rev s))"

definition trim :: "string \<Rightarrow> char \<Rightarrow> string" where
  "trim s c = trimRight (trimLeft s c) c"

definition trimRightSpace :: "string \<Rightarrow> string" where
  "trimRightSpace s = rev (dropWhile isSpace (rev s))"

definition trimSpace :: "string \<Rightarrow> string" where
  "trimSpace s = trimRightSpace (dropWhile isSpace s)"

definition hasPrefix :: "string \<Rightarrow> string \<Rightarrow> bool" where
  "hasPrefix s p \<longleftrightarrow> length p \<le> length s \<and> take (length p) s = p"

definition hasSuffix :: "string \<Rightarrow> string \<Rightarrow> bool" where
  "hasSuffix s p \<longleftrightarrow> length p \<le> length s \<and> drop (length s - length p) s = p"

definition trimPrefix :: "string \<Rightarrow> string \<Rightarrow> string" where
  "trimPrefix s p = (if hasPrefix s p then drop (length p) s else s)"

definition trimSuffix :: "string \<Rightarrow> string \<Rightarrow> string" where
  "trimSuffix s p = (if hasSuffix s p then take (length s - length p) s else s)"

text \<open>The index functions return the byte offset, and \<^const>\<open>None\<close> for Go's \<open>-1\<close>.\<close>

definition indexByte :: "string \<Rightarrow> char \<Rightarrow> nat option" where
  "indexByte s c = (let n = length (takeWhile (\<lambda>x. x \<noteq> c) s) in if n = length s then None else Some n)"

definition lastIndexByte :: "string \<Rightarrow> char \<Rightarrow> nat option" where
  "lastIndexByte s c =
     (let n = length (takeWhile (\<lambda>x. x \<noteq> c) (rev s)) in
      if n = length s then None else Some (length s - Suc n))"

definition countByte :: "string \<Rightarrow> char \<Rightarrow> nat" where
  "countByte s c = length (filter (\<lambda>x. x = c) s)"

fun splitOn :: "char \<Rightarrow> string \<Rightarrow> string list" where
  "splitOn c [] = [[]]"
| "splitOn c (x # xs) =
     (if x = c then [] # splitOn c xs
      else (case splitOn c xs of [] \<Rightarrow> [[x]] | w # ws \<Rightarrow> (x # w) # ws))"

fun joinStr :: "string \<Rightarrow> string list \<Rightarrow> string" where
  "joinStr sep [] = []"
| "joinStr sep [x] = x"
| "joinStr sep (x # y # ys) = x @ sep @ joinStr sep (y # ys)"

section \<open>Package sort\<close>

text \<open>
  \<open>sort.Search(n, f)\<close>: binary search for the smallest index in \<open>[0, n)\<close> where \<open>f\<close>
  is true. The loop narrows \<open>[i, j)\<close>.
\<close>

function sort_search_loop :: "(nat \<Rightarrow> bool) \<Rightarrow> nat \<Rightarrow> nat \<Rightarrow> nat" where
  "sort_search_loop f i j =
     (if i < j
      then (let h = (i + j) div 2 in
            if \<not> f h then sort_search_loop f (Suc h) j else sort_search_loop f i h)
      else i)"
  by pat_completeness auto
termination
  by (relation "measure (\<lambda>(f, i, j). j - i)") (auto simp: Let_def)

declare sort_search_loop.simps [simp del]

definition sort_Search :: "nat \<Rightarrow> (nat \<Rightarrow> bool) \<Rightarrow> nat" where
  "sort_Search n f = sort_search_loop f 0 n"

definition sort_SearchStrings :: "string list \<Rightarrow> string \<Rightarrow> nat" where
  "sort_SearchStrings a x = sort_Search (length a) (\<lambda>i. x \<le> a ! i)"

section \<open>Go maps as association lists\<close>

fun upd_assoc :: "'k \<Rightarrow> 'v \<Rightarrow> ('k \<times> 'v) list \<Rightarrow> ('k \<times> 'v) list" where
  "upd_assoc k v [] = [(k, v)]"
| "upd_assoc k v ((k', v') # m) = (if k = k' then (k, v) # m else (k', v') # upd_assoc k v m)"

definition del_assoc :: "'k \<Rightarrow> ('k \<times> 'v) list \<Rightarrow> ('k \<times> 'v) list" where
  "del_assoc k m = filter (\<lambda>(k', v). k' \<noteq> k) m"

definition keys_assoc :: "('k \<times> 'v) list \<Rightarrow> 'k list" where
  "keys_assoc m = map fst m"

section \<open>Lemmas\<close>

subsection \<open>Strings\<close>

lemma length_toLower [simp]: "length (toLower s) = length s"
  by (simp add: toLower_def)

lemma toLower_Nil_iff [simp]: "toLower s = [] \<longleftrightarrow> s = []"
  by (simp add: toLower_def)

lemma lower_char_idem [simp]: "lower_char (lower_char c) = lower_char c"
proof (cases "CHR ''A'' \<le> c \<and> c \<le> CHR ''Z''")
  case True
  then have "(of_char c :: nat) \<ge> 65" "(of_char c :: nat) \<le> 90"
    by (auto simp: less_eq_char_def)
  with True show ?thesis
    by (simp add: lower_char_def less_eq_char_def)
next
  case False
  then show ?thesis by (auto simp: lower_char_def)
qed

lemma toLower_idem [simp]: "toLower (toLower s) = toLower s"
  by (simp add: toLower_def)

lemma toLower_append [gostr]: "toLower (a @ b) = toLower a @ toLower b"
  by (simp add: toLower_def)

lemma lower_char_dot [simp]: "lower_char c = CHR ''.'' \<longleftrightarrow> c = CHR ''.''"
proof (cases "CHR ''A'' \<le> c \<and> c \<le> CHR ''Z''")
  case True
  then have b: "65 \<le> (of_char c :: nat)" "(of_char c :: nat) \<le> 90"
    by (auto simp: less_eq_char_def)
  then have "(of_char (lower_char c) :: nat) = of_char c + 32"
    using True by (simp add: lower_char_def)
  moreover have "(of_char CHR ''.'' :: nat) = 46" by simp
  ultimately show ?thesis using b by auto
next
  case False
  then show ?thesis by (auto simp: lower_char_def)
qed

lemma hasPrefix_iff [gostr]: "hasPrefix s p \<longleftrightarrow> (\<exists>r. s = p @ r)"
proof
  assume "hasPrefix s p"
  then have p: "take (length p) s = p" unfolding hasPrefix_def by (rule conjunct2)
  show "\<exists>r. s = p @ r" by (metis p append_take_drop_id)
qed (auto simp: hasPrefix_def)

lemma hasSuffix_iff [gostr]: "hasSuffix s p \<longleftrightarrow> (\<exists>r. s = r @ p)"
proof
  assume "hasSuffix s p"
  then have p: "drop (length s - length p) s = p" unfolding hasSuffix_def by (rule conjunct2)
  show "\<exists>r. s = r @ p" by (metis p append_take_drop_id)
qed (auto simp: hasSuffix_def)

lemma trimSuffix_append [simp]: "trimSuffix (r @ p) p = r"
  by (simp add: trimSuffix_def hasSuffix_def)

lemma trimSuffix_no [simp]: "\<not> hasSuffix s p \<Longrightarrow> trimSuffix s p = s"
  by (simp add: trimSuffix_def)

lemma trimPrefix_append [simp]: "trimPrefix (p @ r) p = r"
  by (simp add: trimPrefix_def hasPrefix_def)

lemma trimRight_append_no:
  "s = [] \<or> last s \<noteq> c \<Longrightarrow> trimRight s c = s"
  by (cases s rule: rev_cases) (auto simp: trimRight_def)

lemma trimRight_snoc [simp]: "trimRight (s @ [x]) c = (if x = c then trimRight s c else s @ [x])"
  by (simp add: trimRight_def)

lemma trimRight_Nil [simp]: "trimRight [] c = []"
  by (simp add: trimRight_def)

lemma hd_trimRight: "trimRight s c \<noteq> [] \<Longrightarrow> hd (trimRight s c) = hd s"
  by (induction s rule: rev_induct) (auto simp: hd_append split: if_splits)

lemma hd_trimLeft: "trimLeft s c \<noteq> [] \<Longrightarrow> hd (trimLeft s c) \<noteq> c"
  unfolding trimLeft_def using hd_dropWhile by fast

lemma hd_trim: "trim s c \<noteq> [] \<Longrightarrow> hd (trim s c) \<noteq> c"
proof -
  assume ne: "trim s c \<noteq> []"
  then have "hd (trim s c) = hd (trimLeft s c)" by (simp add: trim_def hd_trimRight)
  moreover have "trimLeft s c \<noteq> []" using ne by (auto simp: trim_def)
  ultimately show ?thesis using hd_trimLeft by metis
qed

lemma trimRight_last: "trimRight s c = [] \<or> last (trimRight s c) \<noteq> c"
  by (induction s rule: rev_induct) auto

lemma trimRight_decomp: "\<exists>n. s = trimRight s c @ replicate n c"
proof (induction s rule: rev_induct)
  case (snoc x s)
  then obtain n where n: "s = trimRight s c @ replicate n c" by blast
  show ?case
  proof (cases "x = c")
    case True
    have "trimRight (s @ [x]) c @ replicate (Suc n) c = (trimRight s c @ replicate n c) @ [x]"
      using True by (simp add: replicate_append_same)
    also have "\<dots> = s @ [x]" using n by argo
    finally show ?thesis by metis
  next
    case False
    then have "s @ [x] = trimRight (s @ [x]) c @ replicate 0 c" by simp
    then show ?thesis by blast
  qed
qed simp

lemma trimRight_prefix: "\<exists>r. s = trimRight s c @ r"
  using trimRight_decomp by blast

lemma lastIndexByte_None [gostr]: "lastIndexByte s c = None \<longleftrightarrow> c \<notin> set s"
proof -
  have "length (takeWhile (\<lambda>x. x \<noteq> c) (rev s)) = length s \<longleftrightarrow> takeWhile (\<lambda>x. x \<noteq> c) (rev s) = rev s"
    by (metis length_rev takeWhile_eq_take take_all order_refl)
  also have "\<dots> \<longleftrightarrow> c \<notin> set s"
    by (auto simp: takeWhile_eq_all_conv)
  finally show ?thesis by (simp add: lastIndexByte_def Let_def)
qed

lemma lastIndexByte_split:
  assumes "c \<notin> set b"
  shows "lastIndexByte (a @ c # b) c = Some (length a)"
proof -
  have "takeWhile (\<lambda>x. x \<noteq> c) (rev (a @ c # b)) = rev b"
    using assms by (simp add: takeWhile_append)
  then show ?thesis by (simp add: lastIndexByte_def Let_def del: rev_append)
qed

lemma last_split: "c \<in> set s \<Longrightarrow> \<exists>a b. s = a @ c # b \<and> c \<notin> set b"
  by (rule split_list_last)

lemma splitOn_nonempty [simp]: "splitOn c s \<noteq> []"
  by (induction s) (auto split: list.splits)

lemma splitOn_no [gostr]: "c \<notin> set s \<Longrightarrow> splitOn c s = [s]"
  by (induction s) auto

lemma splitOn_append_sep: "splitOn c (a @ c # b) = splitOn c a @ splitOn c b"
proof (induction a)
  case (Cons x a)
  then show ?case by (cases "splitOn c a") (auto simp: splitOn_nonempty)
qed simp

lemma splitOn_last: "c \<notin> set b \<Longrightarrow> splitOn c (a @ c # b) = splitOn c a @ [b]"
  by (simp add: splitOn_append_sep splitOn_no)

lemma joinStr_splitOn [simp]: "joinStr [c] (splitOn c s) = s"
proof (induction s)
  case (Cons x s)
  obtain w ws where w: "splitOn c s = w # ws" by (cases "splitOn c s") auto
  with Cons have "joinStr [c] (w # ws) = s" by simp
  with w show ?case by (cases ws) auto
qed simp

lemma joinStr_append:
  "xs \<noteq> [] \<Longrightarrow> ys \<noteq> [] \<Longrightarrow> joinStr sep (xs @ ys) = joinStr sep xs @ sep @ joinStr sep ys"
proof (induction sep xs rule: joinStr.induct)
  case (2 sep x)
  then show ?case by (cases ys) auto
qed auto

lemma suffix_splitOn:
  "suffix (splitOn c k) (splitOn c q) \<longleftrightarrow> q = k \<or> (\<exists>r. q = r @ c # k)"
proof
  assume "suffix (splitOn c k) (splitOn c q)"
  then obtain xs where xs: "splitOn c q = xs @ splitOn c k" by (auto simp: suffix_def)
  show "q = k \<or> (\<exists>r. q = r @ c # k)"
  proof (cases "xs = []")
    case True
    with xs show ?thesis by (metis joinStr_splitOn self_append_conv2)
  next
    case False
    have "joinStr [c] (splitOn c q) = joinStr [c] xs @ c # k"
      unfolding xs using False by (simp add: joinStr_append)
    then show ?thesis by auto
  qed
qed (auto simp: splitOn_append_sep suffix_def)

subsection \<open>Binary search\<close>

lemma sort_search_loop_spec:
  assumes "i \<le> j"
    and "\<And>k. k < i \<Longrightarrow> \<not> f k"
    and "\<And>a b. a \<le> b \<Longrightarrow> b < n \<Longrightarrow> f a \<Longrightarrow> f b"
    and "j \<le> n" and "j < n \<longrightarrow> f j"
  shows "sort_search_loop f i j \<le> n \<and> (\<forall>k < sort_search_loop f i j. \<not> f k)
    \<and> (sort_search_loop f i j < n \<longrightarrow> f (sort_search_loop f i j))"
  using assms
proof (induction f i j rule: sort_search_loop.induct)
  case (1 f i j)
  note step = sort_search_loop.simps [of f i j]
  show ?case
  proof (cases "i < j")
    case True
    define h where "h = (i + j) div 2"
    have h: "i \<le> h" "h < j" using True by (auto simp: h_def)
    show ?thesis
    proof (cases "f h")
      case True
      have "sort_search_loop f i h \<le> n \<and> (\<forall>k < sort_search_loop f i h. \<not> f k)
        \<and> (sort_search_loop f i h < n \<longrightarrow> f (sort_search_loop f i h))"
        by (rule "1.IH"(2)) (use "1.prems" h True \<open>i < j\<close> in \<open>auto simp: h_def\<close>)
      with True \<open>i < j\<close> step show ?thesis by (simp add: Let_def h_def)
    next
      case False
      have below: "\<not> f k" if "k < Suc h" for k
        using that False "1.prems"(3) [of k h] "1.prems"(4) h by auto
      have "sort_search_loop f (Suc h) j \<le> n \<and> (\<forall>k < sort_search_loop f (Suc h) j. \<not> f k)
        \<and> (sort_search_loop f (Suc h) j < n \<longrightarrow> f (sort_search_loop f (Suc h) j))"
        by (rule "1.IH"(1)) (use "1.prems" h False \<open>i < j\<close> below in \<open>auto simp: h_def\<close>)
      with False \<open>i < j\<close> step show ?thesis by (simp add: Let_def h_def)
    qed
  next
    case False
    with "1.prems" step show ?thesis by auto
  qed
qed

lemma sort_Search_spec:
  assumes "\<And>a b. a \<le> b \<Longrightarrow> b < n \<Longrightarrow> f a \<Longrightarrow> f b"
  shows "sort_Search n f \<le> n" and "k < sort_Search n f \<Longrightarrow> \<not> f k"
    and "sort_Search n f < n \<Longrightarrow> f (sort_Search n f)"
  using sort_search_loop_spec [of 0 n f n] assms unfolding sort_Search_def by auto

lemma sort_SearchStrings_spec:
  assumes "sorted a"
  shows "sort_SearchStrings a x \<le> length a"
    and "k < sort_SearchStrings a x \<Longrightarrow> a ! k < x"
    and "sort_SearchStrings a x < length a \<Longrightarrow> x \<le> a ! sort_SearchStrings a x"
proof -
  have mono: "x \<le> a ! j" if "i \<le> j" "j < length a" "x \<le> a ! i" for i j
    using that assms sorted_nth_mono [of a i j] by auto
  show "sort_SearchStrings a x \<le> length a"
    unfolding sort_SearchStrings_def by (rule sort_Search_spec(1)) (rule mono)
  show "a ! k < x" if "k < sort_SearchStrings a x"
  proof -
    have "\<not> x \<le> a ! k"
      using that unfolding sort_SearchStrings_def
      by (rule sort_Search_spec(2) [rotated]) (rule mono)
    then show ?thesis by simp
  qed
  show "x \<le> a ! sort_SearchStrings a x" if "sort_SearchStrings a x < length a"
    using that unfolding sort_SearchStrings_def
    by (rule sort_Search_spec(3) [rotated]) (rule mono)
qed

text \<open>The way the program asks for membership in a sorted slice.\<close>

lemma sort_SearchStrings_mem:
  assumes "sorted a"
  shows "sort_SearchStrings a x < length a \<and> a ! sort_SearchStrings a x = x \<longleftrightarrow> x \<in> set a"
proof
  assume "x \<in> set a"
  then obtain k where k: "k < length a" "a ! k = x" by (auto simp: in_set_conv_nth)
  let ?i = "sort_SearchStrings a x"
  have le: "?i \<le> k" using sort_SearchStrings_spec(2) [OF assms, of k x] k by fastforce
  then have lt: "?i < length a" using k by simp
  then have "x \<le> a ! ?i" using sort_SearchStrings_spec(3) [OF assms] by simp
  moreover have "a ! ?i \<le> x" using sorted_nth_mono [OF assms le] k by simp
  ultimately show "?i < length a \<and> a ! ?i = x" using lt by simp
next
  assume "sort_SearchStrings a x < length a \<and> a ! sort_SearchStrings a x = x"
  then show "x \<in> set a" using nth_mem by fastforce
qed

lemma sort_search_loop_cong:
  "(\<And>k. k < j \<Longrightarrow> f k = g k) \<Longrightarrow> sort_search_loop f i j = sort_search_loop g i j"
proof (induction f i j rule: sort_search_loop.induct)
  case (1 f i j)
  let ?h = "(i + j) div 2"
  show ?case
  proof (cases "i < j")
    case True
    then have h: "?h < j" by auto
    show ?thesis
    proof (cases "f ?h")
      case True
      have "sort_search_loop f i ?h = sort_search_loop g i ?h"
        using "1.IH"(2) [OF \<open>i < j\<close> refl] True "1.prems" h by fastforce
      with True \<open>i < j\<close> "1.prems" [OF h] show ?thesis
        by (simp add: sort_search_loop.simps [of _ i j])
    next
      case False
      have "sort_search_loop f (Suc ?h) j = sort_search_loop g (Suc ?h) j"
        using "1.IH"(1) [OF \<open>i < j\<close> refl] False "1.prems" by blast
      with False \<open>i < j\<close> "1.prems" [OF h] show ?thesis
        by (simp add: sort_search_loop.simps [of _ i j])
    qed
  next
    case False
    then show ?thesis by (simp add: sort_search_loop.simps [of _ i j])
  qed
qed

lemma sort_Search_strings:
  assumes "\<And>i. i < length a \<Longrightarrow> f i \<longleftrightarrow> x \<le> a ! i"
  shows "sort_Search (length a) f = sort_SearchStrings a x"
  unfolding sort_Search_def sort_SearchStrings_def
  by (rule sort_search_loop_cong) (use assms in auto)

text \<open>Where the element is missing, the index found is the place to insert it.\<close>

lemma sorted_insert_at:
  assumes "sorted a" and "ix = sort_SearchStrings a x"
  shows "sorted (take ix a @ x # drop ix a)"
proof -
  note spec = sort_SearchStrings_spec [where x = x, OF assms(1)]
  have "y < x" if "y \<in> set (take ix a)" for y
    using that spec(2) assms(2) by (auto simp: in_set_conv_nth)
  moreover have "x \<le> y" if "y \<in> set (drop ix a)" for y
  proof -
    from that obtain i where "i < length (drop ix a)" "y = drop ix a ! i"
      by (auto simp: in_set_conv_nth)
    then obtain k where k: "ix + k < length a" "y = a ! (ix + k)" by force
    then have "x \<le> a ! ix" "a ! ix \<le> a ! (ix + k)"
      using spec(3) assms sorted_nth_mono [of a ix "ix + k"] by auto
    then show ?thesis using k by simp
  qed
  moreover have "sorted (take ix a)" "sorted (drop ix a)"
    using assms(1) sorted_wrt_take sorted_wrt_drop by blast+
  ultimately show ?thesis by (fastforce simp: sorted_append)
qed

subsection \<open>Equal-length blocks\<close>

lemma joinStr_Nil_sep: "joinStr [] xs = concat xs"
  by (induction "[] :: string" xs rule: joinStr.induct) auto

lemma length_concat_blocks: "\<forall>x\<in>set b. length x = k \<Longrightarrow> length (concat b) = k * length b"
  by (induction b) auto

lemma concat_block:
  "\<forall>x\<in>set b. length x = k \<Longrightarrow> i < length b \<Longrightarrow> take k (drop (i * k) (concat b)) = b ! i"
proof (induction b arbitrary: i)
  case (Cons x b)
  then show ?case by (cases i) auto
qed simp

subsection \<open>Association lists\<close>

lemma map_of_upd_assoc [simp]: "map_of (upd_assoc k v m) = (map_of m)(k \<mapsto> v)"
  by (induction m) (auto simp: fun_eq_iff)

lemma map_of_del_assoc [simp]: "map_of (del_assoc k m) = (map_of m)(k := None)"
  by (induction m) (auto simp: del_assoc_def fun_eq_iff)

lemma upd_assoc_twice [simp]: "upd_assoc k v (upd_assoc k w m) = upd_assoc k v m"
  by (induction k v m rule: upd_assoc.induct) auto

lemma set_upd_assoc:
  "distinct (map fst m) \<Longrightarrow> set (upd_assoc k v m) = insert (k, v) {(k', v') \<in> set m. k' \<noteq> k}"
  by (induction k v m rule: upd_assoc.induct) force+

lemma keys_upd_assoc: "set (map fst (upd_assoc k v m)) = insert k (set (map fst m))"
  by (induction m rule: upd_assoc.induct) auto

lemma distinct_upd_assoc: "distinct (map fst m) \<Longrightarrow> distinct (map fst (upd_assoc k v m))"
proof (induction k v m rule: upd_assoc.induct)
  case (2 k v k' v' m)
  then show ?case using keys_upd_assoc [of k v m] by auto
qed simp

lemma distinct_del_assoc: "distinct (map fst m) \<Longrightarrow> distinct (map fst (del_assoc k m))"
  by (induction m) (auto simp: del_assoc_def)

lemma upd_assoc_not_Nil [simp]: "upd_assoc k v m \<noteq> []"
  by (cases "(k, v, m)" rule: upd_assoc.cases) auto

lemma map_of_keysI: "map_of m k = Some v \<Longrightarrow> k \<in> set (map fst m)"
  by (induction m) (auto split: if_splits)

end
