(* ===== verification/Domain_Trie.thy ===== *)
theory Domain_Trie
  imports Prelude
begin

text \<open>
  Package \<open>trie\<close>: the semi-compressed trie that stores the wildcard entries of a list,
  and the split function that walks a domain from its top-level label.

  The loops of the code call a split function that is a parameter of the trie. They end
  only if that function makes progress, so the model writes them as partial functions
  whose value is \<^const>\<open>None\<close> when they do not return; the interface \<open>label_split\<close> states
  what the trie relies on, and every loop is shown to return under it. \<open>SplitTLD\<close>, the
  split function of the program, provides the interface.
\<close>

section \<open>Model\<close>

type_synonym splitFunc = "string \<Rightarrow> string \<times> string"

definition SplitTLD :: splitFunc where
  "SplitTLD domain0 =
     (let domain = trimRight domain0 CHR ''.'' in
      case lastIndexByte domain CHR ''.'' of
        None \<Rightarrow> (domain, [])
      | Some idx \<Rightarrow> (drop (idx + 1) domain, take idx domain))"

text \<open>
  A node is a parent, whose map of children may be nil, or a terminal. A parent's map is
  only looked up and updated, never iterated over.
\<close>

datatype node = Parent "(string \<Rightarrow> node option) option" | Terminal string

type_synonym parent = "(string \<Rightarrow> node option) option"

record Trie =
  split :: splitFunc
  root :: parent

definition NewTrie :: "splitFunc \<Rightarrow> Trie" where
  "NewTrie sp = \<lparr>split = sp, root = None\<rparr>"

definition IsEmpty :: "Trie \<Rightarrow> bool" where
  "IsEmpty t \<longleftrightarrow> root t = None"

definition newParent :: parent where
  "newParent = Some Map.empty"

definition children :: "parent \<Rightarrow> (string \<rightharpoonup> node)" where
  "children n = (case n of None \<Rightarrow> Map.empty | Some m \<Rightarrow> m)"

text \<open>\<open>terminal.hasParentOf\<close>: the loop after the test for the empty terminal.\<close>

partial_function (option) terminal_loop :: "splitFunc \<Rightarrow> string \<Rightarrow> string \<Rightarrow> bool option" where
  "terminal_loop sp tKey searchKey =
     (case sp tKey of (tLabel, tRest) \<Rightarrow>
      case sp searchKey of (searchLabel, searchRest) \<Rightarrow>
        if searchLabel \<noteq> tLabel then Some False
        else if tRest = [] then Some True
        else if searchRest = [] then Some False
        else terminal_loop sp tRest searchRest)"

definition terminal_hasParentOf :: "splitFunc \<Rightarrow> string \<Rightarrow> string \<Rightarrow> bool option" where
  "terminal_hasParentOf sp t searchKey = (if t = [] then Some True else terminal_loop sp t searchKey)"

partial_function (option) parent_insert :: "splitFunc \<Rightarrow> string \<Rightarrow> parent \<Rightarrow> parent option" where
  "parent_insert sp key n =
     (if key = [] then Some n
      else
        let ch = children n in
        case sp key of (label, rest) \<Rightarrow>
        (case ch label of
           None \<Rightarrow> Some (Some (ch(label \<mapsto> Terminal rest)))
         | Some child \<Rightarrow>
             if rest = [] then Some (Some (ch(label \<mapsto> Terminal rest)))
             else
               (case child of
                  Parent p \<Rightarrow>
                    Option.bind (parent_insert sp rest p) (\<lambda>p'. Some (Some (ch(label \<mapsto> Parent p'))))
                | Terminal t \<Rightarrow>
                    Option.bind (terminal_hasParentOf sp t rest) (\<lambda>found.
                      if found then Some (Some ch)
                      else
                        Option.bind (parent_insert sp t newParent) (\<lambda>p1.
                        Option.bind (parent_insert sp rest p1) (\<lambda>p2.
                          Some (Some (ch(label \<mapsto> Parent p2)))))))))"

text \<open>\<open>parent.hasParentOf\<close>; the rule it assembles for the debug log is left out.\<close>

partial_function (option) parent_hasParentOf :: "splitFunc \<Rightarrow> string \<Rightarrow> parent \<Rightarrow> bool option" where
  "parent_hasParentOf sp key n =
     (case sp key of (label, rest) \<Rightarrow>
      case children n label of
        None \<Rightarrow> Some False
      | Some child \<Rightarrow>
          (case child of
             Parent p \<Rightarrow> if rest = [] then Some False else parent_hasParentOf sp rest p
           | Terminal t \<Rightarrow> terminal_hasParentOf sp t rest))"

definition Insert :: "Trie \<Rightarrow> string \<Rightarrow> Trie option" where
  "Insert t key = map_option (\<lambda>r. t\<lparr>root := r\<rparr>) (parent_insert (split t) key (root t))"

definition HasParentOf :: "Trie \<Rightarrow> string \<Rightarrow> bool option" where
  "HasParentOf t key = parent_hasParentOf (split t) key (root t)"

fun InsertAll :: "Trie \<Rightarrow> string list \<Rightarrow> Trie option" where
  "InsertAll t [] = Some t"
| "InsertAll t (k # ks) = Option.bind (Insert t k) (\<lambda>t'. InsertAll t' ks)"

section \<open>What a trie stores\<close>

text \<open>
  The label path of a key: the labels the split function peels off it, until nothing is
  left. The number bounds the recursion; a key has at most as many labels as characters.
\<close>

fun path_upto :: "splitFunc \<Rightarrow> nat \<Rightarrow> string \<Rightarrow> string list" where
  "path_upto sp 0 key = [fst (sp key)]"
| "path_upto sp (Suc n) key =
     (case sp key of (l, r) \<Rightarrow> if r = [] then [l] else l # path_upto sp n r)"

definition path :: "splitFunc \<Rightarrow> string \<Rightarrow> string list" where
  "path sp key = path_upto sp (length key) key"

definition rest_path :: "splitFunc \<Rightarrow> string \<Rightarrow> string list" where
  "rest_path sp key = (if key = [] then [] else path sp key)"

text \<open>The label paths at which a node ends, and the paths it covers.\<close>

inductive stored :: "splitFunc \<Rightarrow> node \<Rightarrow> string list \<Rightarrow> bool" for sp where
  terminal: "stored sp (Terminal t) (rest_path sp t)"
| parent: "children p l = Some c \<Longrightarrow> stored sp c ps \<Longrightarrow> stored sp (Parent p) (l # ps)"

inductive_simps stored_Terminal [simp]: "stored sp (Terminal t) ps"
inductive_simps stored_Parent: "stored sp (Parent p) ps"

definition covers :: "splitFunc \<Rightarrow> node \<Rightarrow> string list \<Rightarrow> bool" where
  "covers sp n q \<longleftrightarrow> (\<exists>ps. stored sp n ps \<and> prefix ps q)"

text \<open>All terminals of a node were put there by well-formed keys.\<close>

inductive wf_node :: "(string \<Rightarrow> bool) \<Rightarrow> node \<Rightarrow> bool" for ok where
  wf_terminal: "ok t \<Longrightarrow> wf_node ok (Terminal t)"
| wf_parent: "(\<And>l c. children p l = Some c \<Longrightarrow> wf_node ok c) \<Longrightarrow> wf_node ok (Parent p)"

inductive_simps wf_node_Terminal [simp]: "wf_node ok (Terminal t)"
inductive_simps wf_node_Parent: "wf_node ok (Parent p)"

section \<open>The interface of the split function\<close>

locale label_split =
  fixes sp :: splitFunc and ok :: "string \<Rightarrow> bool"
  assumes shorter: "sp k = (l, r) \<Longrightarrow> r \<noteq> [] \<Longrightarrow> length r < length k"
    and empty_label: "fst (sp []) = []"
    and ok_label: "ok k \<Longrightarrow> k \<noteq> [] \<Longrightarrow> fst (sp k) \<noteq> []"
    and ok_rest: "ok k \<Longrightarrow> ok (snd (sp k))"
begin

lemma path_upto_enough: "length k \<le> n \<Longrightarrow> length k \<le> m \<Longrightarrow> path_upto sp n k = path_upto sp m k"
proof (induction n arbitrary: k m)
  case 0
  then have k: "k = []" by simp
  obtain l r where s: "sp [] = (l, r)" by force
  then have "r = []" using shorter [OF s] by auto
  with s k show ?case by (cases m) auto
next
  case (Suc n)
  obtain l r where s: "sp k = (l, r)" by force
  show ?case
  proof (cases "r = []")
    case True
    with s show ?thesis by (cases m) auto
  next
    case False
    then have "length r < length k" using shorter s by blast
    moreover from this Suc.prems obtain m' where "m = Suc m'" by (cases m) auto
    ultimately show ?thesis using s Suc.prems Suc.IH [of r m'] by auto
  qed
qed

lemma path_unfold: "sp k = (l, r) \<Longrightarrow> path sp k = l # rest_path sp r"
proof (cases "r = []")
  case True
  assume "sp k = (l, r)"
  with True show ?thesis by (cases "length k") (auto simp: path_def rest_path_def)
next
  case False
  assume s: "sp k = (l, r)"
  then have lt: "length r < length k" using shorter False by blast
  then obtain n where "length k = Suc n" by (cases "length k") auto
  then show ?thesis using s False lt path_upto_enough [of r n "length r"]
    by (auto simp: path_def rest_path_def)
qed

lemma path_Nil [simp]: "path sp [] = [[]]"
  using empty_label by (simp add: path_def)

lemma ok_path: "ok k \<Longrightarrow> k \<noteq> [] \<Longrightarrow> [] \<notin> set (path sp k)"
proof (induction "length k" arbitrary: k rule: less_induct)
  case less
  obtain l r where s: "sp k = (l, r)" by force
  have "l \<noteq> []" "ok r" using ok_label ok_rest less.prems s by (metis fst_conv, metis snd_conv)
  moreover have "[] \<notin> set (rest_path sp r)"
    using less.hyps [of r] shorter [OF s] \<open>ok r\<close> by (auto simp: rest_path_def)
  ultimately show ?case using path_unfold [OF s] by simp
qed

lemma ok_rest_path: "ok k \<Longrightarrow> [] \<notin> set (rest_path sp k)"
  using ok_path by (auto simp: rest_path_def)

end

definition trie_ok :: "splitFunc \<Rightarrow> (string \<Rightarrow> bool) \<Rightarrow> Trie \<Rightarrow> bool" where
  "trie_ok sp ok t \<longleftrightarrow> split t = sp \<and> wf_node ok (Parent (root t))"

section \<open>What the operations do\<close>

lemma children_simps [simp]: "children None = Map.empty" "children (Some m) = m"
  "children newParent = Map.empty"
  by (simp_all add: children_def newParent_def)

lemma covers_Terminal [simp]: "covers sp (Terminal t) q \<longleftrightarrow> prefix (rest_path sp t) q"
  by (simp add: covers_def)

lemma covers_Parent_Nil [simp]: "\<not> covers sp (Parent p) []"
  by (auto simp: covers_def stored_Parent)

lemma covers_Parent_Cons [simp]:
  "covers sp (Parent p) (l # q) \<longleftrightarrow> (\<exists>c. children p l = Some c \<and> covers sp c q)"
  unfolding covers_def stored_Parent by (auto, metis Cons_prefix_Cons)

lemma covers_Parent_update:
  "covers sp (Parent (Some ((children p)(l \<mapsto> c)))) q \<longleftrightarrow>
    (if q \<noteq> [] \<and> hd q = l then covers sp c (tl q) else covers sp (Parent p) q)"
  by (cases q) auto

lemma covers_mono: "covers sp n q \<Longrightarrow> covers sp n (q @ r)"
  by (auto simp: covers_def)

lemma wf_node_update:
  "wf_node ok (Parent p) \<Longrightarrow> wf_node ok c \<Longrightarrow> wf_node ok (Parent (Some ((children p)(l \<mapsto> c))))"
  by (auto simp: wf_node_Parent)

lemma wf_node_child: "wf_node ok (Parent p) \<Longrightarrow> children p l = Some c \<Longrightarrow> wf_node ok c"
  by (auto simp: wf_node_Parent)

context label_split
begin

lemma terminal_loop_eq:
  "t \<noteq> [] \<Longrightarrow> terminal_loop sp t k = Some (prefix (path sp t) (path sp k))"
proof (induction "length t" arbitrary: t k rule: less_induct)
  case less
  obtain l r where t: "sp t = (l, r)" by force
  obtain l' r' where k: "sp k = (l', r')" by force
  note unf = path_unfold [OF t] path_unfold [OF k] terminal_loop.simps [of sp t k]
  show ?case
  proof (cases "l' = l \<and> r \<noteq> [] \<and> r' \<noteq> []")
    case True
    then have "terminal_loop sp r r' = Some (prefix (path sp r) (path sp r'))"
      using less.hyps [of r r'] shorter [OF t] by blast
    with True t k unf show ?thesis by (simp add: rest_path_def)
  next
    case False
    have "path sp r \<noteq> []" using path_unfold by (metis list.distinct(1) surj_pair)
    with False t k unf show ?thesis by (auto simp: rest_path_def)
  qed
qed

lemma terminal_hasParentOf_eq:
  assumes "ok t"
  shows "terminal_hasParentOf sp t k = Some (prefix (rest_path sp t) (rest_path sp k))"
proof (cases "t = [] \<or> k \<noteq> []")
  case True
  then show ?thesis by (auto simp: terminal_hasParentOf_def terminal_loop_eq rest_path_def)
next
  case False
  obtain l r where t: "sp t = (l, r)" by force
  then have "l \<noteq> []" using ok_label assms False by (metis fst_conv)
  with False path_unfold [OF t] show ?thesis
    by (auto simp: terminal_hasParentOf_def terminal_loop_eq rest_path_def)
qed

lemma parent_hasParentOf_eq:
  "wf_node ok (Parent p) \<Longrightarrow> parent_hasParentOf sp key p = Some (covers sp (Parent p) (path sp key))"
proof (induction "length key" arbitrary: key p rule: less_induct)
  case less
  obtain l r where s: "sp key = (l, r)" by force
  note unf = path_unfold [OF s] parent_hasParentOf.simps [of sp key p]
  show ?case
  proof (cases "children p l")
    case None
    with s unf show ?thesis by simp
  next
    case (Some c)
    then have wf: "wf_node ok c" using less.prems wf_node_child by blast
    show ?thesis
    proof (cases c)
      case (Terminal t)
      with s unf Some wf show ?thesis by (simp add: terminal_hasParentOf_eq)
    next
      case (Parent p')
      with s unf Some wf show ?thesis using less.hyps [of r p'] shorter [OF s]
        by (cases "r = []") (auto simp: rest_path_def)
    qed
  qed
qed

lemma parent_insert_fresh:
  assumes "t \<noteq> []" and "ok t"
  obtains p where "parent_insert sp t newParent = Some p" and "wf_node ok (Parent p)"
    and "\<And>q. covers sp (Parent p) q \<longleftrightarrow> prefix (path sp t) q"
proof -
  obtain l r where s: "sp t = (l, r)" by force
  let ?p = "Some (Map.empty(l \<mapsto> Terminal r)) :: parent"
  have "ok r" using ok_rest [OF assms(2)] s by simp
  then have "wf_node ok (Parent ?p)" by (auto simp: wf_node_Parent)
  moreover have "parent_insert sp t newParent = Some ?p"
    using assms s parent_insert.simps [of sp t newParent] by simp
  moreover have "covers sp (Parent ?p) q \<longleftrightarrow> prefix (path sp t) q" for q
    using path_unfold [OF s] by (cases q) auto
  ultimately show ?thesis using that by blast
qed

text \<open>Insertion returns, keeps the trie well-formed and adds exactly the paths under the key.\<close>

lemma parent_insert_spec:
  "ok key \<Longrightarrow> wf_node ok (Parent p) \<Longrightarrow>
   \<exists>p'. parent_insert sp key p = Some p' \<and> wf_node ok (Parent p') \<and>
     (\<forall>q. covers sp (Parent p') q \<longleftrightarrow> covers sp (Parent p) q \<or> (key \<noteq> [] \<and> prefix (path sp key) q))"
proof (induction "length key" arbitrary: key p rule: less_induct)
  case less
  obtain l r where s: "sp key = (l, r)" by force
  have okr: "ok r" using ok_rest [OF less.prems(1)] s by simp
  note unf = parent_insert.simps [of sp key p] and pth = path_unfold [OF s]
  have IH: "\<exists>p2. parent_insert sp r p1 = Some p2 \<and> wf_node ok (Parent p2) \<and>
      (\<forall>q. covers sp (Parent p2) q \<longleftrightarrow> covers sp (Parent p1) q \<or> prefix (path sp r) q)"
    if "r \<noteq> []" "wf_node ok (Parent p1)" for p1
    using less.hyps [of r p1] shorter [OF s that(1)] okr that by simp
  consider (empty) "key = []" | (put) "key \<noteq> []" "children p l = None \<or> r = []"
    | (par) c where "key \<noteq> []" "r \<noteq> []" "children p l = Some (Parent c)"
    | (ter) t where "key \<noteq> []" "r \<noteq> []" "children p l = Some (Terminal t)"
    by (metis node.exhaust not_None_eq)
  then show ?case
  proof cases
    case empty
    with less.prems unf show ?thesis by simp
  next
    case put
    then have res: "parent_insert sp key p = Some (Some ((children p)(l \<mapsto> Terminal r)))"
      using unf s by (auto simp: Let_def split: option.splits)
    have "covers sp (Parent (Some ((children p)(l \<mapsto> Terminal r)))) q \<longleftrightarrow>
        covers sp (Parent p) q \<or> prefix (path sp key) q" for q
      using put pth by (cases q) (auto simp: covers_Parent_update rest_path_def)
    with res put wf_node_update [OF less.prems(2), of "Terminal r" l] okr show ?thesis by simp
  next
    case par
    then obtain c' where c': "parent_insert sp r c = Some c'" "wf_node ok (Parent c')"
      "\<forall>q. covers sp (Parent c') q \<longleftrightarrow> covers sp (Parent c) q \<or> prefix (path sp r) q"
      using IH wf_node_child less.prems(2) by meson
    then have "parent_insert sp key p = Some (Some ((children p)(l \<mapsto> Parent c')))"
      using unf s par by simp
    moreover have "covers sp (Parent (Some ((children p)(l \<mapsto> Parent c')))) q \<longleftrightarrow>
        covers sp (Parent p) q \<or> prefix (path sp key) q" for q
      using par pth c'(3) by (cases q) (auto simp: covers_Parent_update rest_path_def)
    ultimately show ?thesis using par wf_node_update [OF less.prems(2) c'(2)] by auto
  next
    case ter
    then have okt: "ok t" using wf_node_child less.prems(2) by fastforce
    show ?thesis
    proof (cases "prefix (rest_path sp t) (rest_path sp r)")
      case True
      then have "parent_insert sp key p = Some (Some (children p))"
        using unf s ter by (simp add: terminal_hasParentOf_eq okt)
      moreover have "covers sp (Parent (Some (children p))) q \<longleftrightarrow>
          covers sp (Parent p) q \<or> prefix (path sp key) q" for q
        using True pth ter by (cases q) (auto dest: prefix_order.trans)
      ultimately show ?thesis using ter less.prems(2) by (auto simp: wf_node_Parent)
    next
      case False
      then have "t \<noteq> []" by (auto simp: rest_path_def)
      then obtain p1 where p1: "parent_insert sp t newParent = Some p1" "wf_node ok (Parent p1)"
        "\<And>q. covers sp (Parent p1) q \<longleftrightarrow> prefix (path sp t) q"
        using parent_insert_fresh okt by blast
      then obtain p2 where p2: "parent_insert sp r p1 = Some p2" "wf_node ok (Parent p2)"
        "\<forall>q. covers sp (Parent p2) q \<longleftrightarrow> covers sp (Parent p1) q \<or> prefix (path sp r) q"
        using IH ter by meson
      then have "parent_insert sp key p = Some (Some ((children p)(l \<mapsto> Parent p2)))"
        using unf s ter False p1 by (simp add: terminal_hasParentOf_eq okt)
      moreover have "covers sp (Parent (Some ((children p)(l \<mapsto> Parent p2)))) q \<longleftrightarrow>
          covers sp (Parent p) q \<or> prefix (path sp key) q" for q
        using ter pth p1(3) p2(3) \<open>t \<noteq> []\<close>
        by (cases q) (auto simp: covers_Parent_update rest_path_def)
      ultimately show ?thesis using ter wf_node_update [OF less.prems(2) p2(2)] by auto
    qed
  qed
qed

lemma trie_ok_New: "trie_ok sp ok (NewTrie sp)"
  by (simp add: trie_ok_def NewTrie_def wf_node_Parent)

lemma InsertAll_spec:
  assumes "trie_ok sp ok t" and "\<forall>k\<in>set ks. ok k"
  shows "\<exists>t'. InsertAll t ks = Some t' \<and> trie_ok sp ok t' \<and>
    (\<forall>q. HasParentOf t' q = Some (covers sp (Parent (root t)) (path sp q) \<or>
        (\<exists>k\<in>set ks. k \<noteq> [] \<and> prefix (path sp k) (path sp q))))"
  using assms
proof (induction ks arbitrary: t)
  case Nil
  then show ?case by (auto simp: HasParentOf_def trie_ok_def parent_hasParentOf_eq)
next
  case (Cons k ks)
  obtain p' where p': "parent_insert sp k (root t) = Some p'" "wf_node ok (Parent p')"
    "\<forall>q. covers sp (Parent p') q \<longleftrightarrow> covers sp (Parent (root t)) q \<or> (k \<noteq> [] \<and> prefix (path sp k) q)"
    using parent_insert_spec [of k "root t"] Cons.prems by (auto simp: trie_ok_def)
  then have "Insert t k = Some (t\<lparr>root := p'\<rparr>)" and "trie_ok sp ok (t\<lparr>root := p'\<rparr>)"
    using Cons.prems by (auto simp: Insert_def trie_ok_def)
  with Cons.IH [of "t\<lparr>root := p'\<rparr>"] Cons.prems(2) p'(3) show ?case by auto
qed

end

section \<open>The program's split function\<close>

definition no_lead :: "string \<Rightarrow> bool" where
  "no_lead k \<longleftrightarrow> k = [] \<or> hd k \<noteq> CHR ''.''"

text \<open>A domain without empty labels: no leading, trailing or doubled dot.\<close>

definition clean :: "string \<Rightarrow> bool" where
  "clean k \<longleftrightarrow> [] \<notin> set (splitOn CHR ''.'' k)"

lemma SplitTLD_no_dot:
  "CHR ''.'' \<notin> set (trimRight k CHR ''.'') \<Longrightarrow> SplitTLD k = (trimRight k CHR ''.'', [])"
  using lastIndexByte_None [of "trimRight k CHR ''.''" "CHR ''.''"]
  by (simp add: SplitTLD_def Let_def)

lemma SplitTLD_dot:
  "trimRight k CHR ''.'' = a @ CHR ''.'' # b \<Longrightarrow> CHR ''.'' \<notin> set b \<Longrightarrow> SplitTLD k = (b, a)"
  using lastIndexByte_split [of "CHR ''.''" b a] by (simp add: SplitTLD_def)

lemma SplitTLD_decomp:
  assumes "SplitTLD k = (l, r)"
  obtains n where "r = []" and "k = l @ replicate n CHR ''.''" and "CHR ''.'' \<notin> set l"
  | n where "k = r @ CHR ''.'' # l @ replicate n CHR ''.''" and "l \<noteq> []" and "CHR ''.'' \<notin> set l"
proof -
  let ?d = "trimRight k CHR ''.''"
  obtain n where n: "k = ?d @ replicate n CHR ''.''" using trimRight_decomp by blast
  show ?thesis
  proof (cases "CHR ''.'' \<in> set ?d")
    case False
    then have "l = ?d" "r = []" using SplitTLD_no_dot [OF False] assms by auto
    with n False that(1) show ?thesis by metis
  next
    case True
    from last_split [OF this] obtain a b where ab: "?d = a @ CHR ''.'' # b" "CHR ''.'' \<notin> set b"
      by (elim exE conjE)
    have "b \<noteq> []" using trimRight_last [of k "CHR ''.''"] ab by auto
    moreover have "l = b" "r = a" using SplitTLD_dot [OF ab] assms by auto
    moreover have "k = (a @ CHR ''.'' # b) @ replicate n CHR ''.''" using n unfolding ab(1) .
    ultimately show ?thesis using that(2) [of n] ab(2) by simp
  qed
qed

interpretation tld: label_split SplitTLD no_lead
proof unfold_locales
  fix k l r
  assume "SplitTLD k = (l, r)" "r \<noteq> []"
  then show "length r < length k" by (elim SplitTLD_decomp) auto
next
  show "fst (SplitTLD []) = []" by (simp add: SplitTLD_def lastIndexByte_def)
next
  fix k
  assume k: "no_lead k" "k \<noteq> []"
  obtain l r where s: "SplitTLD k = (l, r)" by force
  then have "l \<noteq> []"
  proof (elim SplitTLD_decomp)
    fix n
    assume "k = l @ replicate n CHR ''.''"
    with k show "l \<noteq> []" by (cases n) (auto simp: no_lead_def)
  qed
  then show "fst (SplitTLD k) \<noteq> []" using s by simp
next
  fix k
  assume k: "no_lead k"
  obtain l r where s: "SplitTLD k = (l, r)" by force
  then have "no_lead r"
    using k by (elim SplitTLD_decomp) (auto simp: no_lead_def hd_append split: if_splits)
  then show "no_lead (snd (SplitTLD k))" using s by simp
qed

lemma clean_append: "clean (a @ CHR ''.'' # b) \<longleftrightarrow> clean a \<and> clean b"
  by (auto simp: clean_def splitOn_append_sep)

lemma not_clean_Nil [simp]: "\<not> clean []"
  by (simp add: clean_def)

lemma clean_no_lead: "clean k \<Longrightarrow> no_lead k"
proof (cases k)
  case (Cons x xs)
  assume "clean k"
  then show ?thesis using clean_append [of "[]" xs] Cons by (auto simp: no_lead_def)
qed (simp add: no_lead_def)

lemma clean_trimRight: "clean k \<Longrightarrow> trimRight k CHR ''.'' = k"
proof (cases k rule: rev_cases)
  case (snoc ys y)
  assume "clean k"
  then have "y \<noteq> CHR ''.''" using clean_append [of ys "[]"] snoc by auto
  then show ?thesis using snoc by simp
qed simp

lemma path_clean: "clean k \<Longrightarrow> path SplitTLD k = rev (splitOn CHR ''.'' k)"
proof (induction "length k" arbitrary: k rule: less_induct)
  case less
  note tr = clean_trimRight [OF less.prems]
  show ?case
  proof (cases "CHR ''.'' \<in> set k")
    case False
    then have "SplitTLD k = (k, [])" using SplitTLD_no_dot tr by simp
    then have "path SplitTLD k = [k]" using tld.path_unfold by (simp add: rest_path_def)
    with False show ?thesis by (simp add: splitOn_no)
  next
    case True
    from last_split [OF True] obtain a b where ab: "k = a @ CHR ''.'' # b" "CHR ''.'' \<notin> set b"
      by blast
    then have "clean a" using less.prems clean_append by blast
    then have "path SplitTLD a = rev (splitOn CHR ''.'' a)" "a \<noteq> []"
      using less.hyps [of a] ab by auto
    moreover have "SplitTLD k = (b, a)" using SplitTLD_dot tr ab by simp
    ultimately have "path SplitTLD k = b # rev (splitOn CHR ''.'' a)"
      using tld.path_unfold by (simp add: rest_path_def)
    with ab show ?thesis by (simp add: splitOn_last)
  qed
qed

lemma prefix_path_clean:
  assumes "clean k" and "clean q"
  shows "prefix (path SplitTLD k) (path SplitTLD q) \<longleftrightarrow> q = k \<or> hasSuffix q (CHR ''.'' # k)"
  using assms suffix_splitOn [of "CHR ''.''" k q]
  by (simp add: path_clean suffix_to_prefix [symmetric] hasSuffix_iff)

lemma InsertAll_TLD:
  assumes "\<forall>k\<in>set ks. no_lead k"
  obtains t where "InsertAll (NewTrie SplitTLD) ks = Some t" and "trie_ok SplitTLD no_lead t"
    and "\<And>q. HasParentOf t q =
      Some (\<exists>k\<in>set ks. k \<noteq> [] \<and> prefix (path SplitTLD k) (path SplitTLD q))"
proof -
  have "\<not> covers SplitTLD (Parent None) p" for p by (cases p) auto
  then show ?thesis
    using tld.InsertAll_spec [OF tld.trie_ok_New assms] that
    by (auto simp: NewTrie_def)
qed

text \<open>
  C25. Wildcard lookup. After any sequence of insertions of domains, in any order, both
  loops return, and \<open>HasParentOf\<close> answers whether the queried domain is one of the
  inserted domains or a subdomain of one.
\<close>

theorem trie_has_parent_iff_subdomain:
  assumes "\<forall>k\<in>set ks. clean k" and "clean q"
  shows "\<exists>t. InsertAll (NewTrie SplitTLD) ks = Some t \<and>
    HasParentOf t q = Some (\<exists>k\<in>set ks. q = k \<or> hasSuffix q (CHR ''.'' # k))"
proof -
  have "\<forall>k\<in>set ks. no_lead k" using assms(1) clean_no_lead by blast
  then obtain t where "InsertAll (NewTrie SplitTLD) ks = Some t"
    and "HasParentOf t q = Some (\<exists>k\<in>set ks. k \<noteq> [] \<and> prefix (path SplitTLD k) (path SplitTLD q))"
    by (rule InsertAll_TLD) blast
  moreover have "(\<exists>k\<in>set ks. k \<noteq> [] \<and> prefix (path SplitTLD k) (path SplitTLD q)) \<longleftrightarrow>
      (\<exists>k\<in>set ks. q = k \<or> hasSuffix q (CHR ''.'' # k))"
    using assms prefix_path_clean not_clean_Nil by metis
  ultimately show ?thesis by simp
qed

theorem trie_has_parent_iff_subdomain_witness:
  "\<exists>t. InsertAll (NewTrie SplitTLD) [''www.example.com'', ''example.com'', ''ads.org''] = Some t \<and>
    HasParentOf t ''a.b.example.com'' = Some True"
  using trie_has_parent_iff_subdomain
    [of "[''www.example.com'', ''example.com'', ''ads.org'']" "''a.b.example.com''"]
  by (simp add: clean_def hasSuffix_def)

end
