(* ===== verification/String_Caches.thy ===== *)
theory String_Caches
  imports Domain_Trie
begin

text \<open>
  Package \<open>cache/stringcache\<close>: the three caches a list entry can go to (exact strings in
  length-indexed sorted buckets, regular expressions, wildcards), the factories that
  build them, the grouped cache on top of one of them and the chained grouped cache on
  top of several.

  The regular expression engine is the parameter \<open>compile\<close>: it returns the matcher of
  a pattern, or \<^const>\<open>None\<close> where \<open>regexp.Compile\<close> returns an error. Adding an entry
  has the value \<^const>\<open>None\<close> when the Go code does not complete normally (a run-time
  panic, or a loop that does not end).
\<close>

type_synonym regexp = "string \<Rightarrow> bool"
type_synonym regexp_compile = "string \<Rightarrow> regexp option"

section \<open>Exact strings\<close>

text \<open>A bucket holds the sorted entries of one length, joined into one string.\<close>

type_synonym stringMap = "(nat \<times> string) list"

definition normalizeEntry :: "string \<Rightarrow> string" where
  "normalizeEntry entry = toLower entry"

fun stringMap_elementCount :: "stringMap \<Rightarrow> go_panic + nat" where
  "stringMap_elementCount [] = Inr 0"
| "stringMap_elementCount ((k, v) # m) =
     (if k = 0 then Inl DivideByZero
      else (case stringMap_elementCount m of Inl p \<Rightarrow> Inl p | Inr n \<Rightarrow> Inr (length v div k + n)))"

definition slice :: "string \<Rightarrow> nat \<Rightarrow> nat \<Rightarrow> string" where
  "slice s i j = take (j - i) (drop i s)"

definition stringMap_get :: "stringMap \<Rightarrow> nat \<Rightarrow> string" where
  "stringMap_get cache k = (case map_of cache k of None \<Rightarrow> [] | Some v \<Rightarrow> v)"

definition stringMap_contains :: "stringMap \<Rightarrow> string \<Rightarrow> bool" where
  "stringMap_contains cache searchString =
     (let normalized = normalizeEntry searchString; searchLen = length normalized in
      if searchLen = 0 then False
      else
        let bucket = stringMap_get cache searchLen;
            searchBucketLen = length bucket div searchLen;
            idx = sort_Search searchBucketLen
              (\<lambda>i. normalized \<le> slice bucket (i * searchLen) (i * searchLen + searchLen))
        in idx < searchBucketLen \<and>
           slice bucket (idx * searchLen) (idx * searchLen + searchLen) = normalized)"

record stringCacheFactory =
  tmp :: "(nat \<times> string list) list"
  cnt :: nat

definition newStringCacheFactory :: stringCacheFactory where
  "newStringCacheFactory = \<lparr>tmp = [], cnt = 0\<rparr>"

text \<open>\<open>getBucket\<close> stores an empty bucket when there is none.\<close>

definition getBucket :: "nat \<Rightarrow> stringCacheFactory \<Rightarrow> string list \<times> stringCacheFactory" where
  "getBucket len s =
     (case map_of (tmp s) len of
        None \<Rightarrow> ([], s\<lparr>tmp := upd_assoc len [] (tmp s)\<rparr>)
      | Some b \<Rightarrow> (b, s))"

text \<open>Go's \<open>copy(dst[off:], src)\<close>.\<close>

definition go_copy :: "'a list \<Rightarrow> nat \<Rightarrow> 'a list \<Rightarrow> 'a list" where
  "go_copy dst off src =
     take off dst @ take (length dst - off) src @ drop (off + length src) dst"

definition insertString :: "string \<Rightarrow> stringCacheFactory \<Rightarrow> stringCacheFactory" where
  "insertString entry s0 =
     (let normalized = normalizeEntry entry; entryLen = length normalized in
      case getBucket entryLen s0 of (bucket0, s1) \<Rightarrow>
      let ix = sort_SearchStrings bucket0 normalized in
      if ix \<ge> length bucket0 \<or> bucket0 ! ix \<noteq> normalized
      then
        let bucket1 = bucket0 @ [[]];
            bucket2 = go_copy bucket1 (ix + 1) (drop ix bucket1);
            bucket3 = bucket2[ix := normalized]
        in s1\<lparr>tmp := upd_assoc entryLen bucket3 (tmp s1)\<rparr>
      else s1)"

definition stringFactory_addEntry :: "string \<Rightarrow> stringCacheFactory \<Rightarrow> bool \<times> stringCacheFactory" where
  "stringFactory_addEntry entry s =
     (if length entry = 0 then (True, s)
      else (True, insertString entry (s\<lparr>cnt := cnt s + 1\<rparr>)))"

definition stringFactory_create :: "stringCacheFactory \<Rightarrow> stringMap option" where
  "stringFactory_create s =
     (if length (tmp s) = 0 then None else Some (map (\<lambda>(k, v). (k, joinStr [] v)) (tmp s)))"

section \<open>Regular expressions\<close>

type_synonym regexCache = "regexp list"

fun regexCache_contains :: "regexCache \<Rightarrow> string \<Rightarrow> bool" where
  "regexCache_contains [] searchString = False"
| "regexCache_contains (regex # rs) searchString =
     (if regex searchString then True else regexCache_contains rs searchString)"

text \<open>
  An entry is between two slashes. For the entry consisting of a single slash both tests
  succeed on the same character, and \<open>entry[1:len(entry)-1]\<close> is the slice \<open>[1:0]\<close>, which
  panics.
\<close>

definition regexFactory_addEntry ::
    "regexp_compile \<Rightarrow> string \<Rightarrow> regexCache \<Rightarrow> (bool \<times> regexCache) option" where
  "regexFactory_addEntry compile entry r =
     (if \<not> hasPrefix entry ''/'' \<or> \<not> hasSuffix entry ''/'' then Some (False, r)
      else if length entry - 1 < 1 then None
      else (case compile (trimSpace (slice entry 1 (length entry - 1))) of
              None \<Rightarrow> Some (True, r)
            | Some re \<Rightarrow> Some (True, r @ [re])))"

definition regexFactory_create :: "regexCache \<Rightarrow> regexCache option" where
  "regexFactory_create r = (if length r = 0 then None else Some r)"

section \<open>Wildcards\<close>

record wildcardCache =
  wc_trie :: Trie
  wc_cnt :: nat

definition newWildcardCacheFactory :: wildcardCache where
  "newWildcardCacheFactory = \<lparr>wc_trie = NewTrie SplitTLD, wc_cnt = 0\<rparr>"

definition wildcardCache_contains :: "wildcardCache \<Rightarrow> string \<Rightarrow> bool" where
  "wildcardCache_contains c domain \<longleftrightarrow> HasParentOf (wc_trie c) domain = Some True"

definition normalizeWildcard :: "string \<Rightarrow> string" where
  "normalizeWildcard domain =
     toLower (trim (trimLeft (normalizeEntry domain) CHR ''*'') CHR ''.'')"

definition wildcardFactory_addEntry ::
    "string \<Rightarrow> wildcardCache \<Rightarrow> (bool \<times> wildcardCache) option" where
  "wildcardFactory_addEntry entry r =
     (let globCount = countByte entry CHR ''*'' in
      if globCount = 0 then Some (False, r)
      else if \<not> hasPrefix entry ''*.'' \<or> globCount > 1 then Some (True, r)
      else map_option (\<lambda>t. (True, r\<lparr>wc_trie := t, wc_cnt := wc_cnt r + 1\<rparr>))
             (Insert (wc_trie r) (normalizeWildcard entry)))"

definition wildcardFactory_create :: "wildcardCache \<Rightarrow> wildcardCache option" where
  "wildcardFactory_create r = (if wc_cnt r = 0 then None else Some r)"

section \<open>The interfaces \<open>stringCache\<close> and \<open>cacheFactory\<close>\<close>

datatype stringCache =
    StringMapC stringMap
  | RegexC regexCache
  | WildcardC wildcardCache

datatype cacheFactory =
    StringF stringCacheFactory
  | RegexF regexCache
  | WildcardF wildcardCache

fun cache_contains :: "stringCache \<Rightarrow> string \<Rightarrow> bool" where
  "cache_contains (StringMapC c) s = stringMap_contains c s"
| "cache_contains (RegexC c) s = regexCache_contains c s"
| "cache_contains (WildcardC c) s = wildcardCache_contains c s"

fun cache_elementCount :: "stringCache \<Rightarrow> go_panic + nat" where
  "cache_elementCount (StringMapC c) = stringMap_elementCount c"
| "cache_elementCount (RegexC c) = Inr (length c)"
| "cache_elementCount (WildcardC c) = Inr (wc_cnt c)"

fun addEntry :: "regexp_compile \<Rightarrow> string \<Rightarrow> cacheFactory \<Rightarrow> (bool \<times> cacheFactory) option" where
  "addEntry compile e (StringF f) = Some (map_prod id StringF (stringFactory_addEntry e f))"
| "addEntry compile e (RegexF f) = map_option (map_prod id RegexF) (regexFactory_addEntry compile e f)"
| "addEntry compile e (WildcardF f) = map_option (map_prod id WildcardF) (wildcardFactory_addEntry e f)"

fun factory_count :: "cacheFactory \<Rightarrow> nat" where
  "factory_count (StringF f) = cnt f"
| "factory_count (RegexF f) = length f"
| "factory_count (WildcardF f) = wc_cnt f"

fun create :: "cacheFactory \<Rightarrow> stringCache option" where
  "create (StringF f) = map_option StringMapC (stringFactory_create f)"
| "create (RegexF f) = map_option RegexC (regexFactory_create f)"
| "create (WildcardF f) = map_option WildcardC (wildcardFactory_create f)"

section \<open>The grouped cache in memory\<close>

text \<open>The factory function of a grouped cache returns a fresh factory, given here as that value.\<close>

record InMemoryGroupedCache =
  caches :: "(string \<times> stringCache) list"
  factoryFn :: cacheFactory

definition NewInMemoryGroupedStringCache :: InMemoryGroupedCache where
  "NewInMemoryGroupedStringCache = \<lparr>caches = [], factoryFn = StringF newStringCacheFactory\<rparr>"

definition NewInMemoryGroupedRegexCache :: InMemoryGroupedCache where
  "NewInMemoryGroupedRegexCache = \<lparr>caches = [], factoryFn = RegexF []\<rparr>"

definition NewInMemoryGroupedWildcardCache :: InMemoryGroupedCache where
  "NewInMemoryGroupedWildcardCache = \<lparr>caches = [], factoryFn = WildcardF newWildcardCacheFactory\<rparr>"

definition mem_ElementCount :: "InMemoryGroupedCache \<Rightarrow> string \<Rightarrow> go_panic + nat" where
  "mem_ElementCount c grp =
     (case map_of (caches c) grp of None \<Rightarrow> Inr 0 | Some cache \<Rightarrow> cache_elementCount cache)"

fun mem_Contains :: "InMemoryGroupedCache \<Rightarrow> string \<Rightarrow> string list \<Rightarrow> string list" where
  "mem_Contains c searchString [] = []"
| "mem_Contains c searchString (grp # groups) =
     (case map_of (caches c) grp of
        None \<Rightarrow> mem_Contains c searchString groups
      | Some cache \<Rightarrow>
          if cache_contains cache searchString then grp # mem_Contains c searchString groups
          else mem_Contains c searchString groups)"

record inMemoryGroupFactory =
  gf_group :: string
  gf_factory :: cacheFactory

definition mem_Refresh :: "InMemoryGroupedCache \<Rightarrow> string \<Rightarrow> inMemoryGroupFactory" where
  "mem_Refresh c grp = \<lparr>gf_group = grp, gf_factory = factoryFn c\<rparr>"

definition mem_AddEntry ::
    "regexp_compile \<Rightarrow> string \<Rightarrow> inMemoryGroupFactory \<Rightarrow> (bool \<times> inMemoryGroupFactory) option" where
  "mem_AddEntry compile e gf =
     map_option (map_prod id (\<lambda>f. gf\<lparr>gf_factory := f\<rparr>)) (addEntry compile e (gf_factory gf))"

definition mem_Finish :: "inMemoryGroupFactory \<Rightarrow> InMemoryGroupedCache \<Rightarrow> InMemoryGroupedCache" where
  "mem_Finish gf c =
     (case create (gf_factory gf) of
        Some sc \<Rightarrow> c\<lparr>caches := upd_assoc (gf_group gf) sc (caches c)\<rparr>
      | None \<Rightarrow> c\<lparr>caches := del_assoc (gf_group gf) (caches c)\<rparr>)"

section \<open>The chained grouped cache\<close>

type_synonym ChainedGroupedCache = "InMemoryGroupedCache list"
type_synonym chainedGroupFactory = "inMemoryGroupFactory list"

fun chain_ElementCount :: "ChainedGroupedCache \<Rightarrow> string \<Rightarrow> go_panic + nat" where
  "chain_ElementCount [] grp = Inr 0"
| "chain_ElementCount (c # cs) grp =
     (case mem_ElementCount c grp of Inl p \<Rightarrow> Inl p
      | Inr n \<Rightarrow> (case chain_ElementCount cs grp of Inl p \<Rightarrow> Inl p | Inr m \<Rightarrow> Inr (n + m)))"

text \<open>The matched groups are collected in a map, whose keys are then sorted.\<close>

definition chain_Contains :: "ChainedGroupedCache \<Rightarrow> string \<Rightarrow> string list \<Rightarrow> string list" where
  "chain_Contains cs searchString groups =
     sort (remdups (concat (map (\<lambda>c. mem_Contains c searchString groups) cs)))"

definition chain_Refresh :: "ChainedGroupedCache \<Rightarrow> string \<Rightarrow> chainedGroupFactory" where
  "chain_Refresh cs grp = map (\<lambda>c. mem_Refresh c grp) cs"

fun chain_AddEntry ::
    "regexp_compile \<Rightarrow> string \<Rightarrow> chainedGroupFactory \<Rightarrow> (bool \<times> chainedGroupFactory) option" where
  "chain_AddEntry compile e [] = Some (False, [])"
| "chain_AddEntry compile e (f # fs) =
     (case mem_AddEntry compile e f of
        None \<Rightarrow> None
      | Some (True, f') \<Rightarrow> Some (True, f' # fs)
      | Some (False, f') \<Rightarrow> map_option (map_prod id (Cons f')) (chain_AddEntry compile e fs))"

definition chain_Count :: "chainedGroupFactory \<Rightarrow> nat" where
  "chain_Count fs = sum_list (map (\<lambda>f. factory_count (gf_factory f)) fs)"

text \<open>Every factory finishes into the cache it was made from, at the same position.\<close>

fun chain_Finish :: "chainedGroupFactory \<Rightarrow> ChainedGroupedCache \<Rightarrow> ChainedGroupedCache" where
  "chain_Finish (f # fs) (c # cs) = mem_Finish f c # chain_Finish fs cs"
| "chain_Finish _ cs = cs"

section \<open>Buckets\<close>

definition wf_bucket :: "nat \<Rightarrow> string list \<Rightarrow> bool" where
  "wf_bucket k b \<longleftrightarrow> 0 < k \<and> b \<noteq> [] \<and> sorted b \<and> distinct b \<and> (\<forall>x\<in>set b. length x = k)"

definition wf_factory :: "stringCacheFactory \<Rightarrow> bool" where
  "wf_factory s \<longleftrightarrow> distinct (map fst (tmp s)) \<and> (\<forall>(k, b)\<in>set (tmp s). wf_bucket k b)"

definition bucket_of :: "stringCacheFactory \<Rightarrow> nat \<Rightarrow> string list" where
  "bucket_of s k = (case map_of (tmp s) k of None \<Rightarrow> [] | Some b \<Rightarrow> b)"

definition factory_has :: "stringCacheFactory \<Rightarrow> string \<Rightarrow> bool" where
  "factory_has s q \<longleftrightarrow> toLower q \<in> set (bucket_of s (length q))"

lemma wf_factory_bucket: "wf_factory s \<Longrightarrow> map_of (tmp s) k = Some b \<Longrightarrow> wf_bucket k b"
  by (auto simp: wf_factory_def dest: map_of_SomeD)

lemma bucket_of_wf: "wf_factory s \<Longrightarrow> bucket_of s k = [] \<or> wf_bucket k (bucket_of s k)"
  by (auto simp: bucket_of_def split: option.splits dest: wf_factory_bucket)

lemma factory_has_Nil [simp]: "wf_factory s \<Longrightarrow> \<not> factory_has s []"
  using bucket_of_wf [of s 0] by (auto simp: factory_has_def wf_bucket_def)

lemma wf_factory_new: "wf_factory newStringCacheFactory"
  by (simp add: wf_factory_def newStringCacheFactory_def)

lemma go_copy_insert:
  "ix \<le> length b \<Longrightarrow> (go_copy (b @ [z]) (ix + 1) (drop ix (b @ [z])))[ix := x] = take ix b @ x # drop ix b"
proof -
  assume ix: "ix \<le> length b"
  have "go_copy (b @ [z]) (ix + 1) (drop ix (b @ [z])) = take ix b @ (b @ [z]) ! ix # drop ix b"
  proof (cases "ix = length b")
    case True
    then show ?thesis by (simp add: go_copy_def)
  next
    case False
    with ix have "ix < length b" by simp
    then show ?thesis by (simp add: go_copy_def take_Suc_conv_app_nth nth_append)
  qed
  then show ?thesis using ix by (simp add: list_update_append)
qed

lemma insertString_bucket:
  assumes "wf_factory s" and "entry \<noteq> []"
  defines "n \<equiv> toLower entry"
  defines "b \<equiv> bucket_of s (length entry)"
  shows "bucket_of (insertString entry s) k =
      (if k = length entry \<and> n \<notin> set b
       then take (sort_SearchStrings b n) b @ n # drop (sort_SearchStrings b n) b else bucket_of s k)"
    and "wf_factory (insertString entry s)"
proof -
  let ?ix = "sort_SearchStrings b n"
  let ?b' = "take ?ix b @ n # drop ?ix b"
  have wfb: "b = [] \<or> wf_bucket (length entry) b"
    using bucket_of_wf [OF assms(1)] by (simp add: b_def)
  then have srt: "sorted b" by (auto simp: wf_bucket_def)
  have mem: "?ix \<ge> length b \<or> b ! ?ix \<noteq> n \<longleftrightarrow> n \<notin> set b"
    using sort_SearchStrings_mem [OF srt, of n] by auto
  have ins: "(go_copy (b @ [[]]) (Suc ?ix) (drop ?ix (b @ [[]])))[?ix := n] = ?b'"
    using go_copy_insert [of ?ix b "[]" n] sort_SearchStrings_spec(1) [OF srt, of n] by simp
  have eq: "insertString entry s =
      (if n \<notin> set b then s\<lparr>tmp := upd_assoc (length entry) ?b' (tmp s)\<rparr> else s)"
  proof (cases "map_of (tmp s) (length entry)")
    case None
    then have "b = []" by (simp add: b_def bucket_of_def)
    with None ins show ?thesis
      by (simp add: insertString_def Let_def n_def normalizeEntry_def getBucket_def del: drop_append)
  next
    case (Some b0)
    then have "b0 = b" by (simp add: b_def bucket_of_def)
    with Some mem ins show ?thesis
      by (simp add: insertString_def Let_def n_def normalizeEntry_def getBucket_def del: drop_append)
  qed
  show "bucket_of (insertString entry s) k =
      (if k = length entry \<and> n \<notin> set b then ?b' else bucket_of s k)"
    using eq by (auto simp: bucket_of_def)
  have "wf_bucket (length entry) ?b'" if "n \<notin> set b"
  proof -
    have sub: "set (take ?ix b) \<subseteq> set b" "set (drop ?ix b) \<subseteq> set b"
      by (simp_all add: set_take_subset set_drop_subset)
    have "distinct b" and len: "\<forall>x\<in>set b. length x = length entry"
      using wfb by (auto simp: wf_bucket_def)
    then have "distinct ?b'" using that sub by (auto simp: set_take_disj_set_drop_if_distinct)
    moreover have "\<forall>x\<in>set ?b'. length x = length entry" using sub len by (auto simp: n_def)
    ultimately show ?thesis
      using assms(2) sorted_insert_at [OF srt refl, of n] by (simp add: wf_bucket_def)
  qed
  then show "wf_factory (insertString entry s)"
    using assms(1) eq by (auto simp: wf_factory_def set_upd_assoc distinct_upd_assoc)
qed

lemma set_insert_at: "set (take i b @ n # drop i b) = insert n (set b)"
  using set_append [of "take i b" "drop i b"] by auto

lemma insertString_set:
  assumes "wf_factory s" and "entry \<noteq> []"
  shows "set (bucket_of (insertString entry s) k) =
    (if k = length entry then insert (toLower entry) (set (bucket_of s k)) else set (bucket_of s k))"
  unfolding insertString_bucket(1) [OF assms]
  by (simp add: set_insert_at insert_absorb del: set_append)

lemma stringFactory_addEntry_spec:
  assumes "wf_factory s"
  shows "fst (stringFactory_addEntry e s)" and "wf_factory (snd (stringFactory_addEntry e s))"
    and "factory_has (snd (stringFactory_addEntry e s)) q \<longleftrightarrow>
      factory_has s q \<or> (e \<noteq> [] \<and> toLower e = toLower q)"
proof -
  show "fst (stringFactory_addEntry e s)" by (simp add: stringFactory_addEntry_def)
  have wf: "wf_factory (s\<lparr>cnt := cnt s + 1\<rparr>)" using assms by (simp add: wf_factory_def)
  show "wf_factory (snd (stringFactory_addEntry e s))"
    using assms insertString_bucket(2) [OF wf, of e] by (simp add: stringFactory_addEntry_def)
  have b: "bucket_of (s\<lparr>cnt := cnt s + 1\<rparr>) = bucket_of s" by (auto simp: bucket_of_def)
  have len: "toLower e = toLower q \<Longrightarrow> length e = length q" by (metis length_toLower)
  have "factory_has (insertString e (s\<lparr>cnt := cnt s + 1\<rparr>)) q \<longleftrightarrow>
      factory_has s q \<or> toLower e = toLower q" if "e \<noteq> []"
  proof (cases "length q = length e")
    case True
    then show ?thesis
      unfolding factory_has_def insertString_set [OF wf that] b by auto
  next
    case False
    then have "toLower e \<noteq> toLower q" using len by metis
    with False show ?thesis unfolding factory_has_def insertString_set [OF wf that] b by simp
  qed
  then show "factory_has (snd (stringFactory_addEntry e s)) q \<longleftrightarrow>
      factory_has s q \<or> (e \<noteq> [] \<and> toLower e = toLower q)"
    by (simp add: stringFactory_addEntry_def)
qed

lemma slice_block:
  assumes "\<forall>x\<in>set b. length x = k" and "i < length b"
  shows "slice (concat b) (i * k) (i * k + k) = b ! i"
  using concat_block [OF assms] by (simp add: slice_def)

text \<open>Binary search in the joined bucket finds exactly the entries of the bucket.\<close>

lemma stringMap_contains_created:
  assumes "wf_factory s" and "stringFactory_create s = Some c"
  shows "stringMap_contains c q \<longleftrightarrow> factory_has s q"
proof (cases "q = []")
  case True
  with assms(1) show ?thesis by (simp add: stringMap_contains_def normalizeEntry_def)
next
  case False
  let ?n = "toLower q" and ?k = "length q"
  let ?b = "bucket_of s ?k"
  let ?f = "\<lambda>i. ?n \<le> slice (concat ?b) (i * ?k) (i * ?k + ?k)"
  have k: "0 < ?k" using False by simp
  have "c = map (\<lambda>(k, v). (k, joinStr [] v)) (tmp s)"
    using assms(2) by (auto simp: stringFactory_create_def split: if_splits)
  then have get: "stringMap_get c ?k = concat ?b"
    by (auto simp: stringMap_get_def bucket_of_def map_of_map joinStr_Nil_sep split: option.splits)
  have blk: "\<forall>x\<in>set ?b. length x = ?k" and srt: "sorted ?b"
    using bucket_of_wf [OF assms(1), of ?k] by (auto simp: wf_bucket_def)
  have len: "length (concat ?b) div ?k = length ?b"
    using k by (simp add: length_concat_blocks [OF blk])
  have "?f i \<longleftrightarrow> ?n \<le> ?b ! i" if "i < length ?b" for i using slice_block [OF blk that] by simp
  then have idx: "sort_Search (length ?b) ?f = sort_SearchStrings ?b ?n"
    by (rule sort_Search_strings)
  have "stringMap_contains c q \<longleftrightarrow>
      sort_SearchStrings ?b ?n < length ?b \<and> ?b ! sort_SearchStrings ?b ?n = ?n"
    using False idx len get slice_block [OF blk, of "sort_SearchStrings ?b ?n"]
    by (auto simp: stringMap_contains_def normalizeEntry_def Let_def)
  also have "\<dots> \<longleftrightarrow> ?n \<in> set ?b" by (rule sort_SearchStrings_mem [OF srt])
  finally show ?thesis by (simp add: factory_has_def)
qed

section \<open>Wildcard entries\<close>

lemma normalizeWildcard_no_lead: "no_lead (normalizeWildcard e)"
proof (cases "normalizeWildcard e = []")
  case False
  let ?t = "trim (trimLeft (normalizeEntry e) CHR ''*'') CHR ''.''"
  have "?t \<noteq> []" using False by (auto simp: normalizeWildcard_def)
  then show ?thesis
    using hd_trim [of "trimLeft (normalizeEntry e) CHR ''*''" "CHR ''.''"]
    by (auto simp: normalizeWildcard_def no_lead_def toLower_def list.map_sel(1))
qed (simp add: no_lead_def)

definition wf_wildcard :: "wildcardCache \<Rightarrow> bool" where
  "wf_wildcard f \<longleftrightarrow> trie_ok SplitTLD no_lead (wc_trie f) \<and> (wc_cnt f = 0 \<longrightarrow> root (wc_trie f) = None)"

lemma tld_Insert:
  assumes "trie_ok SplitTLD no_lead t" and "no_lead k"
  obtains t' where "Insert t k = Some t'" and "trie_ok SplitTLD no_lead t'"
    and "\<And>q. HasParentOf t' q = Some True \<longleftrightarrow>
      HasParentOf t q = Some True \<or> (k \<noteq> [] \<and> prefix (path SplitTLD k) (path SplitTLD q))"
proof -
  have "\<forall>x\<in>set [k]. no_lead x" "\<forall>x\<in>set []. no_lead x" using assms(2) by auto
  then show ?thesis
    using tld.InsertAll_spec [OF assms(1), of "[k]"] tld.InsertAll_spec [OF assms(1), of "[]"] that
    by (auto split: bind_splits)
qed

lemma HasParentOf_empty: "trie_ok SplitTLD no_lead t \<Longrightarrow> root t = None \<Longrightarrow> HasParentOf t q \<noteq> Some True"
proof -
  assume t: "trie_ok SplitTLD no_lead t" "root t = None"
  have "\<not> covers SplitTLD (Parent None) p" for p by (cases p) auto
  then show ?thesis
    using t tld.parent_hasParentOf_eq [of None q] by (auto simp: HasParentOf_def trie_ok_def)
qed

section \<open>The contract of a cache and its factory\<close>

text \<open>
  \<open>sem f q\<close> says whether the cache built from the factory's entries so far contains
  \<open>q\<close>; \<open>claims\<close> which entries the factory handles, \<open>matches\<close> which strings an
  entry contains, and \<open>safe\<close> for which entries adding them completes.
\<close>

locale string_cache =
  fixes new :: 'f
    and add :: "string \<Rightarrow> 'f \<Rightarrow> (bool \<times> 'f) option"
    and create :: "'f \<Rightarrow> 'c option"
    and contains :: "'c \<Rightarrow> string \<Rightarrow> bool"
    and inv :: "'f \<Rightarrow> bool"
    and sem :: "'f \<Rightarrow> string \<Rightarrow> bool"
    and safe claims :: "string \<Rightarrow> bool"
    and matches :: "string \<Rightarrow> string \<Rightarrow> bool"
  assumes inv_new: "inv new"
    and sem_new: "\<not> sem new q"
    and add_spec: "inv f \<Longrightarrow> safe e \<Longrightarrow>
      \<exists>f'. add e f = Some (claims e, f') \<and> inv f' \<and> (\<forall>q. sem f' q \<longleftrightarrow> sem f q \<or> (claims e \<and> matches e q))"
    and create_None: "inv f \<Longrightarrow> create f = None \<Longrightarrow> \<not> sem f q"
    and create_Some: "inv f \<Longrightarrow> create f = Some c \<Longrightarrow> contains c q \<longleftrightarrow> sem f q"
begin

lemma create_sem: "inv f \<Longrightarrow> (\<exists>c. create f = Some c \<and> contains c q) \<longleftrightarrow> sem f q"
  using create_None create_Some by (cases "create f") auto

end

section \<open>The three caches provide it\<close>

fun inv_string :: "cacheFactory \<Rightarrow> bool" where
  "inv_string (StringF f) \<longleftrightarrow> wf_factory f"
| "inv_string _ \<longleftrightarrow> False"

fun sem_string :: "cacheFactory \<Rightarrow> string \<Rightarrow> bool" where
  "sem_string (StringF f) q \<longleftrightarrow> factory_has f q"
| "sem_string _ q \<longleftrightarrow> False"

definition string_matches :: "string \<Rightarrow> string \<Rightarrow> bool" where
  "string_matches e q \<longleftrightarrow> e \<noteq> [] \<and> toLower e = toLower q"

fun inv_regex :: "cacheFactory \<Rightarrow> bool" where
  "inv_regex (RegexF f) \<longleftrightarrow> True"
| "inv_regex _ \<longleftrightarrow> False"

fun sem_regex :: "cacheFactory \<Rightarrow> string \<Rightarrow> bool" where
  "sem_regex (RegexF f) q \<longleftrightarrow> regexCache_contains f q"
| "sem_regex _ q \<longleftrightarrow> False"

definition regex_claims :: "string \<Rightarrow> bool" where
  "regex_claims e \<longleftrightarrow> hasPrefix e ''/'' \<and> hasSuffix e ''/''"

definition regex_matches :: "regexp_compile \<Rightarrow> string \<Rightarrow> string \<Rightarrow> bool" where
  "regex_matches compile e q \<longleftrightarrow>
     (case compile (trimSpace (slice e 1 (length e - 1))) of None \<Rightarrow> False | Some re \<Rightarrow> re q)"

fun inv_wildcard :: "cacheFactory \<Rightarrow> bool" where
  "inv_wildcard (WildcardF f) \<longleftrightarrow> wf_wildcard f"
| "inv_wildcard _ \<longleftrightarrow> False"

fun sem_wildcard :: "cacheFactory \<Rightarrow> string \<Rightarrow> bool" where
  "sem_wildcard (WildcardF f) q \<longleftrightarrow> wildcardCache_contains f q"
| "sem_wildcard _ q \<longleftrightarrow> False"

definition wildcard_claims :: "string \<Rightarrow> bool" where
  "wildcard_claims e \<longleftrightarrow> countByte e CHR ''*'' \<noteq> 0"

definition wildcard_matches :: "string \<Rightarrow> string \<Rightarrow> bool" where
  "wildcard_matches e q \<longleftrightarrow> hasPrefix e ''*.'' \<and> countByte e CHR ''*'' \<le> 1 \<and> normalizeWildcard e \<noteq> [] \<and>
     prefix (path SplitTLD (normalizeWildcard e)) (path SplitTLD q)"

lemma regexCache_contains_append [simp]:
  "regexCache_contains (xs @ ys) q \<longleftrightarrow> regexCache_contains xs q \<or> regexCache_contains ys q"
  by (induction xs) auto

lemma inv_cases:
  "inv_string f \<Longrightarrow> \<exists>s. f = StringF s \<and> wf_factory s"
  "inv_regex f \<Longrightarrow> \<exists>r. f = RegexF r"
  "inv_wildcard f \<Longrightarrow> \<exists>w. f = WildcardF w \<and> wf_wildcard w"
  by (cases f; simp)+

interpretation strc: string_cache "StringF newStringCacheFactory" "addEntry compile" create
    cache_contains inv_string sem_string "\<lambda>e. True" "\<lambda>e. True" string_matches for compile
proof unfold_locales
  show "inv_string (StringF newStringCacheFactory)" by (simp add: wf_factory_new)
  show "\<not> sem_string (StringF newStringCacheFactory) q" for q
    by (simp add: factory_has_def bucket_of_def newStringCacheFactory_def)
next
  fix f e
  assume "inv_string f"
  then obtain s where f: "f = StringF s" and wf: "wf_factory s" using inv_cases by blast
  show "\<exists>f'. addEntry compile e f = Some (True, f') \<and> inv_string f' \<and>
      (\<forall>q. sem_string f' q \<longleftrightarrow> sem_string f q \<or> (True \<and> string_matches e q))"
    using stringFactory_addEntry_spec [OF wf, of e] f
    by (cases "stringFactory_addEntry e s") (auto simp: string_matches_def)
next
  fix f q
  assume "inv_string f" "create f = None"
  then show "\<not> sem_string f q"
    by (cases f) (auto simp: stringFactory_create_def factory_has_def bucket_of_def split: if_splits)
next
  fix f c q
  assume "inv_string f" "create f = Some c"
  then show "cache_contains c q \<longleftrightarrow> sem_string f q"
    by (cases f) (auto simp: stringMap_contains_created)
qed

interpretation regc: string_cache "RegexF []" "addEntry compile" create cache_contains inv_regex
    sem_regex "\<lambda>e. e \<noteq> ''/''" regex_claims "regex_matches compile" for compile
proof unfold_locales
  show "inv_regex (RegexF [])" and "\<not> sem_regex (RegexF []) q" for q by simp_all
next
  fix f and e :: string
  assume "inv_regex f" and e: "e \<noteq> ''/''"
  then obtain r where f: "f = RegexF r" using inv_cases by blast
  have "\<not> length e - 1 < 1" if "regex_claims e"
    using that e by (auto simp: regex_claims_def hasPrefix_iff hasSuffix_iff Cons_eq_append_conv)
  then show "\<exists>f'. addEntry compile e f = Some (regex_claims e, f') \<and> inv_regex f' \<and>
      (\<forall>q. sem_regex f' q \<longleftrightarrow> sem_regex f q \<or> (regex_claims e \<and> regex_matches compile e q))"
    using f by (auto simp: regexFactory_addEntry_def regex_claims_def regex_matches_def
        split: option.splits)
next
  fix f q
  assume "inv_regex f" "create f = None"
  then show "\<not> sem_regex f q" by (cases f) (auto simp: regexFactory_create_def split: if_splits)
next
  fix f c q
  assume "inv_regex f" "create f = Some c"
  then show "cache_contains c q \<longleftrightarrow> sem_regex f q"
    by (cases f) (auto simp: regexFactory_create_def split: if_splits)
qed

interpretation wldc: string_cache "WildcardF newWildcardCacheFactory" "addEntry compile" create
    cache_contains inv_wildcard sem_wildcard "\<lambda>e. True" wildcard_claims wildcard_matches for compile
proof unfold_locales
  show "inv_wildcard (WildcardF newWildcardCacheFactory)"
    using tld.trie_ok_New by (simp add: newWildcardCacheFactory_def wf_wildcard_def NewTrie_def)
  show "\<not> sem_wildcard (WildcardF newWildcardCacheFactory) q" for q
    using HasParentOf_empty [OF tld.trie_ok_New]
    by (simp add: newWildcardCacheFactory_def wildcardCache_contains_def NewTrie_def)
next
  fix f e
  assume "inv_wildcard f"
  then obtain w where f: "f = WildcardF w" and wf: "wf_wildcard w" using inv_cases by blast
  obtain t' where t': "Insert (wc_trie w) (normalizeWildcard e) = Some t'" "trie_ok SplitTLD no_lead t'"
    "\<And>q. HasParentOf t' q = Some True \<longleftrightarrow> HasParentOf (wc_trie w) q = Some True \<or>
      (normalizeWildcard e \<noteq> [] \<and> prefix (path SplitTLD (normalizeWildcard e)) (path SplitTLD q))"
    using tld_Insert wf normalizeWildcard_no_lead by (metis wf_wildcard_def)
  show "\<exists>f'. addEntry compile e f = Some (wildcard_claims e, f') \<and> inv_wildcard f' \<and>
      (\<forall>q. sem_wildcard f' q \<longleftrightarrow> sem_wildcard f q \<or> (wildcard_claims e \<and> wildcard_matches e q))"
    using f wf t' by (auto simp: wildcardFactory_addEntry_def wildcard_claims_def Let_def
        wildcard_matches_def wf_wildcard_def wildcardCache_contains_def)
next
  fix f q
  assume "inv_wildcard f" "create f = None"
  then show "\<not> sem_wildcard f q"
    by (cases f) (auto simp: wildcardFactory_create_def wildcardCache_contains_def wf_wildcard_def
        dest: HasParentOf_empty split: if_splits)
next
  fix f c q
  assume "inv_wildcard f" "create f = Some c"
  then show "cache_contains c q \<longleftrightarrow> sem_wildcard f q"
    by (cases f) (auto simp: wildcardFactory_create_def split: if_splits)
qed

section \<open>Counting\<close>

definition factory_strings :: "stringCacheFactory \<Rightarrow> string set" where
  "factory_strings s = (\<Union>(k, b)\<in>set (tmp s). set b)"

lemma count_buckets:
  "distinct (map fst m) \<Longrightarrow> \<forall>(k, b)\<in>set m. wf_bucket k b \<Longrightarrow>
   stringMap_elementCount (map (\<lambda>(k, v). (k, joinStr [] v)) m) = Inr (card (\<Union>(k, b)\<in>set m. set b))"
proof (induction m)
  case (Cons kb m)
  obtain k b where kb: "kb = (k, b)" by force
  have wf: "wf_bucket k b" using Cons.prems kb by auto
  have disj: "set b \<inter> (\<Union>(k, b)\<in>set m. set b) = {}"
  proof -
    have "length x = k" if "x \<in> set b" for x using wf that by (auto simp: wf_bucket_def)
    moreover have "length x \<noteq> k" if "x \<in> (\<Union>(k, b)\<in>set m. set b)" for x
      using that Cons.prems kb by (force simp: wf_bucket_def)
    ultimately show ?thesis by blast
  qed
  have "card (set b \<union> (\<Union>(k, b)\<in>set m. set b)) = length b + card (\<Union>(k, b)\<in>set m. set b)"
    using wf disj by (subst card_Un_disjoint) (auto simp: wf_bucket_def distinct_card)
  moreover have "length (concat b) div k = length b"
    using wf length_concat_blocks [of b k] by (auto simp: wf_bucket_def)
  ultimately show ?case
    using Cons wf kb by (simp add: joinStr_Nil_sep wf_bucket_def)
qed simp

lemma stringMap_count_created:
  assumes "wf_factory s" and "stringFactory_create s = Some c"
  shows "stringMap_elementCount c = Inr (card (factory_strings s))"
  using assms count_buckets [of "tmp s"]
  by (auto simp: stringFactory_create_def wf_factory_def factory_strings_def split: if_splits)

lemma factory_strings_has:
  assumes "wf_factory s"
  shows "factory_strings s = {x. x \<in> set (bucket_of s (length x))}"
proof -
  have d: "distinct (map fst (tmp s))" using assms by (simp add: wf_factory_def)
  show ?thesis
  proof (intro set_eqI iffI)
    fix x assume "x \<in> factory_strings s"
    then obtain k b where kb: "(k, b) \<in> set (tmp s)" "x \<in> set b" by (auto simp: factory_strings_def)
    then have "map_of (tmp s) k = Some b" "length x = k"
      using d assms by (auto simp: wf_factory_def wf_bucket_def)
    then show "x \<in> {x. x \<in> set (bucket_of s (length x))}" using kb by (simp add: bucket_of_def)
  next
    fix x assume "x \<in> {x. x \<in> set (bucket_of s (length x))}"
    then obtain b where "map_of (tmp s) (length x) = Some b" "x \<in> set b"
      by (cases "map_of (tmp s) (length x)") (auto simp: bucket_of_def)
    then show "x \<in> factory_strings s"
      by (auto simp: factory_strings_def dest!: map_of_SomeD intro: bexI [of _ "(length x, b)"])
  qed
qed

fun string_addAll :: "string list \<Rightarrow> stringCacheFactory \<Rightarrow> stringCacheFactory" where
  "string_addAll [] s = s"
| "string_addAll (e # es) s = string_addAll es (snd (stringFactory_addEntry e s))"

lemma addEntry_strings:
  assumes "wf_factory s"
  shows "factory_strings (snd (stringFactory_addEntry e s)) =
    factory_strings s \<union> (if e = [] then {} else {toLower e})"
proof (cases "e = []")
  case True
  then show ?thesis by (simp add: stringFactory_addEntry_def)
next
  case False
  have wf: "wf_factory (s\<lparr>cnt := cnt s + 1\<rparr>)" using assms by (simp add: wf_factory_def)
  have b: "bucket_of (s\<lparr>cnt := cnt s + 1\<rparr>) = bucket_of s" by (auto simp: bucket_of_def)
  have "factory_strings (insertString e (s\<lparr>cnt := cnt s + 1\<rparr>)) = insert (toLower e) (factory_strings s)"
    unfolding factory_strings_has [OF insertString_bucket(2) [OF wf False]] factory_strings_has [OF assms]
      insertString_set [OF wf False] b by auto
  then show ?thesis using False by (simp add: stringFactory_addEntry_def)
qed

lemma string_addAll_spec:
  "wf_factory s \<Longrightarrow> wf_factory (string_addAll es s) \<and>
    factory_strings (string_addAll es s) = factory_strings s \<union> toLower ` (set es - {[]})"
proof (induction es arbitrary: s)
  case (Cons e es)
  then show ?case
    using stringFactory_addEntry_spec(2) [OF Cons.prems, of e] addEntry_strings [OF Cons.prems, of e]
    by auto
qed simp

section \<open>The chain of the three caches\<close>

definition entry_matches :: "regexp_compile \<Rightarrow> string \<Rightarrow> string \<Rightarrow> bool" where
  "entry_matches compile e q \<longleftrightarrow>
     (if regex_claims e then regex_matches compile e q
      else if wildcard_claims e then wildcard_matches e q
      else string_matches e q)"

definition chain_inv :: "string \<Rightarrow> chainedGroupFactory \<Rightarrow> bool" where
  "chain_inv g fs \<longleftrightarrow> (\<exists>r w s. fs = map (\<lambda>f. \<lparr>gf_group = g, gf_factory = f\<rparr>) [r, w, s] \<and>
     inv_regex r \<and> inv_wildcard w \<and> inv_string s)"

definition chain_sem :: "chainedGroupFactory \<Rightarrow> string \<Rightarrow> bool" where
  "chain_sem fs q \<longleftrightarrow> (\<exists>f\<in>set fs. sem_regex (gf_factory f) q \<or> sem_wildcard (gf_factory f) q \<or>
     sem_string (gf_factory f) q)"

lemma chain_AddEntry_spec:
  assumes "chain_inv g fs" and "e \<noteq> ''/''"
  shows "\<exists>fs'. chain_AddEntry compile e fs = Some (True, fs') \<and> chain_inv g fs' \<and>
    (\<forall>q. chain_sem fs' q \<longleftrightarrow> chain_sem fs q \<or> entry_matches compile e q)"
proof -
  obtain r w s where fs: "fs = map (\<lambda>f. \<lparr>gf_group = g, gf_factory = f\<rparr>) [r, w, s]"
    and inv: "inv_regex r" "inv_wildcard w" "inv_string s"
    using assms(1) by (auto simp: chain_inv_def)
  obtain r' where r': "addEntry compile e r = Some (regex_claims e, r')" "inv_regex r'"
    "\<And>q. sem_regex r' q \<longleftrightarrow> sem_regex r q \<or> (regex_claims e \<and> regex_matches compile e q)"
    using regc.add_spec [OF inv(1) assms(2)] by blast
  obtain w' where w': "addEntry compile e w = Some (wildcard_claims e, w')" "inv_wildcard w'"
    "\<And>q. sem_wildcard w' q \<longleftrightarrow> sem_wildcard w q \<or> (wildcard_claims e \<and> wildcard_matches e q)"
    using wldc.add_spec [OF inv(2) TrueI] by blast
  obtain s' where s': "addEntry compile e s = Some (True, s')" "inv_string s'"
    "\<And>q. sem_string s' q \<longleftrightarrow> sem_string s q \<or> string_matches e q"
    using strc.add_spec [OF inv(3) TrueI] by blast
  have sem: "chain_sem (map (\<lambda>f. \<lparr>gf_group = g, gf_factory = f\<rparr>) [a, b, c]) q \<longleftrightarrow>
      sem_regex a q \<or> sem_wildcard b q \<or> sem_string c q"
    if "inv_regex a" "inv_wildcard b" "inv_string c" for a b c q
    using inv_cases(2) [OF that(1)] inv_cases(3) [OF that(2)] inv_cases(1) [OF that(3)]
    by (auto simp: chain_sem_def)
  consider (re) "regex_claims e" | (wl) "\<not> regex_claims e" "wildcard_claims e"
    | (st) "\<not> regex_claims e" "\<not> wildcard_claims e" by blast
  then show ?thesis
  proof cases
    case re
    then have "chain_AddEntry compile e fs =
        Some (True, map (\<lambda>f. \<lparr>gf_group = g, gf_factory = f\<rparr>) [r', w, s])"
      using fs r' by (simp add: mem_AddEntry_def)
    then show ?thesis using re fs inv r' sem by (fastforce simp: chain_inv_def entry_matches_def)
  next
    case wl
    then have "chain_AddEntry compile e fs =
        Some (True, map (\<lambda>f. \<lparr>gf_group = g, gf_factory = f\<rparr>) [r', w', s])"
      using fs r' w' by (simp add: mem_AddEntry_def)
    then show ?thesis using wl fs inv r' w' sem by (fastforce simp: chain_inv_def entry_matches_def)
  next
    case st
    then have "chain_AddEntry compile e fs =
        Some (True, map (\<lambda>f. \<lparr>gf_group = g, gf_factory = f\<rparr>) [r', w', s'])"
      using fs r' w' s' by (simp add: mem_AddEntry_def)
    then show ?thesis using st fs inv r' w' s' sem by (fastforce simp: chain_inv_def entry_matches_def)
  qed
qed

text \<open>Which groups of a chained cache hold a string.\<close>

definition mem_has :: "InMemoryGroupedCache \<Rightarrow> string \<Rightarrow> string \<Rightarrow> bool" where
  "mem_has c q g \<longleftrightarrow> (\<exists>cache. map_of (caches c) g = Some cache \<and> cache_contains cache q)"

definition chain_has :: "ChainedGroupedCache \<Rightarrow> string \<Rightarrow> string \<Rightarrow> bool" where
  "chain_has cs q g \<longleftrightarrow> (\<exists>c\<in>set cs. mem_has c q g)"

lemma mem_Contains_filter: "mem_Contains c q groups = filter (mem_has c q) groups"
  by (induction groups) (auto simp: mem_has_def split: option.splits)

lemma chain_Contains_spec:
  "set (chain_Contains cs q groups) = {g \<in> set groups. chain_has cs q g}"
  "sorted (chain_Contains cs q groups)" "distinct (chain_Contains cs q groups)"
  by (auto simp: chain_Contains_def mem_Contains_filter chain_has_def)

lemma mem_has_Finish:
  "mem_has (mem_Finish \<lparr>gf_group = g, gf_factory = f\<rparr> c) q h \<longleftrightarrow>
    (if h = g then \<exists>sc. create f = Some sc \<and> cache_contains sc q else mem_has c q h)"
  by (auto simp: mem_Finish_def mem_has_def split: option.splits)

definition three_caches :: "ChainedGroupedCache \<Rightarrow> bool" where
  "three_caches cs \<longleftrightarrow> (\<exists>a b c. cs = [a, b, c] \<and> factoryFn a = RegexF [] \<and>
     factoryFn b = WildcardF newWildcardCacheFactory \<and> factoryFn c = StringF newStringCacheFactory)"

lemma chain_Refresh_inv:
  assumes "three_caches cs"
  shows "chain_inv g (chain_Refresh cs g)" and "\<not> chain_sem (chain_Refresh cs g) q"
proof -
  obtain a b c where cs: "cs = [a, b, c]" and f: "factoryFn a = RegexF []"
    "factoryFn b = WildcardF newWildcardCacheFactory" "factoryFn c = StringF newStringCacheFactory"
    using assms by (auto simp: three_caches_def)
  show "chain_inv g (chain_Refresh cs g)"
    using cs f regc.inv_new wldc.inv_new strc.inv_new
    by (auto simp: chain_Refresh_def mem_Refresh_def chain_inv_def)
  show "\<not> chain_sem (chain_Refresh cs g) q"
    using cs f regc.sem_new [of q] wldc.sem_new [of q] strc.sem_new [of q]
    by (auto simp: chain_Refresh_def mem_Refresh_def chain_sem_def)
qed

text \<open>Finishing replaces the group in every cache of the chain and leaves other groups alone.\<close>

lemma chain_Finish_spec:
  assumes "three_caches cs" and "chain_inv g fs"
  shows "three_caches (chain_Finish fs cs)"
    and "chain_has (chain_Finish fs cs) q h \<longleftrightarrow> (if h = g then chain_sem fs q else chain_has cs q h)"
proof -
  obtain a b c where cs: "cs = [a, b, c]" and ff: "factoryFn a = RegexF []"
    "factoryFn b = WildcardF newWildcardCacheFactory" "factoryFn c = StringF newStringCacheFactory"
    using assms(1) by (auto simp: three_caches_def)
  obtain r w s where fs: "fs = map (\<lambda>f. \<lparr>gf_group = g, gf_factory = f\<rparr>) [r, w, s]"
    and inv: "inv_regex r" "inv_wildcard w" "inv_string s"
    using assms(2) by (auto simp: chain_inv_def)
  have fin: "chain_Finish fs cs = [mem_Finish \<lparr>gf_group = g, gf_factory = r\<rparr> a,
      mem_Finish \<lparr>gf_group = g, gf_factory = w\<rparr> b, mem_Finish \<lparr>gf_group = g, gf_factory = s\<rparr> c]"
    by (simp add: cs fs)
  show "three_caches (chain_Finish fs cs)"
    using fin ff by (auto simp: three_caches_def mem_Finish_def split: option.splits)
  have "chain_sem fs q \<longleftrightarrow> sem_regex r q \<or> sem_wildcard w q \<or> sem_string s q"
    using fs inv_cases(2) [OF inv(1)] inv_cases(3) [OF inv(2)] inv_cases(1) [OF inv(3)]
    by (auto simp: chain_sem_def)
  then show "chain_has (chain_Finish fs cs) q h \<longleftrightarrow>
      (if h = g then chain_sem fs q else chain_has cs q h)"
    unfolding chain_has_def fin
    using regc.create_sem [OF inv(1)] wldc.create_sem [OF inv(2)] strc.create_sem [OF inv(3)]
    by (auto simp: mem_has_Finish cs)
qed

section \<open>Properties\<close>

text \<open>
  C31. Exact-match lookup. Whatever entries were added and in whatever order and letter
  case, the binary search in the joined, length-indexed buckets finds a string exactly if
  some non-empty entry equals it up to letter case.
\<close>

theorem string_cache_lookup:
  assumes "stringFactory_create (string_addAll es newStringCacheFactory) = Some c"
  shows "stringMap_contains c q \<longleftrightarrow> (\<exists>e\<in>set es. e \<noteq> [] \<and> toLower e = toLower q)"
proof -
  let ?s = "string_addAll es newStringCacheFactory"
  have wf: "wf_factory ?s" and st: "factory_strings ?s = toLower ` (set es - {[]})"
    using string_addAll_spec [OF wf_factory_new, of es]
    by (auto simp: factory_strings_def newStringCacheFactory_def)
  have "stringMap_contains c q \<longleftrightarrow> toLower q \<in> factory_strings ?s"
    using stringMap_contains_created [OF wf assms] by (simp add: factory_has_def factory_strings_has [OF wf])
  then show ?thesis unfolding st image_iff by (metis Diff_iff empty_iff insert_iff)
qed

theorem string_cache_lookup_witness:
  "\<exists>c. stringFactory_create (string_addAll [''Ads.com'', ''b.org'', ''ads.COM''] newStringCacheFactory) = Some c \<and>
    stringMap_contains c ''aDs.com'' \<and> \<not> stringMap_contains c ''c.org''"
proof -
  let ?es = "[''Ads.com'', ''b.org'', ''ads.COM'']"
  obtain c where c: "stringFactory_create (string_addAll ?es newStringCacheFactory) = Some c"
    using string_addAll_spec [OF wf_factory_new, of ?es]
    by (cases "stringFactory_create (string_addAll ?es newStringCacheFactory)")
       (auto simp: stringFactory_create_def factory_strings_def split: if_splits)
  have "\<exists>e\<in>set ?es. e \<noteq> [] \<and> toLower e = toLower ''aDs.com''"
    and "\<not> (\<exists>e\<in>set ?es. e \<noteq> [] \<and> toLower e = toLower ''c.org'')"
    by code_simp+
  with c show ?thesis unfolding string_cache_lookup [OF c, symmetric] by blast
qed

text \<open>
  Element count. The count a string cache reports never divides by zero and is the
  number of distinct non-empty entries up to letter case, duplicates counted once.
\<close>

theorem string_cache_element_count:
  assumes "stringFactory_create (string_addAll es newStringCacheFactory) = Some c"
  shows "stringMap_elementCount c = Inr (card (toLower ` (set es - {[]})))"
  using string_addAll_spec [OF wf_factory_new, of es] stringMap_count_created [OF _ assms]
  by (auto simp: factory_strings_def newStringCacheFactory_def)

theorem string_cache_element_count_witness:
  "\<exists>c. stringFactory_create (string_addAll [''a.de'', ''A.de'', ''b.org''] newStringCacheFactory) = Some c \<and>
    stringMap_elementCount c = Inr 2"
proof -
  let ?es = "[''a.de'', ''A.de'', ''b.org'']"
  obtain c where c: "stringFactory_create (string_addAll ?es newStringCacheFactory) = Some c"
    using string_addAll_spec [OF wf_factory_new, of ?es]
    by (cases "stringFactory_create (string_addAll ?es newStringCacheFactory)")
       (auto simp: stringFactory_create_def factory_strings_def split: if_splits)
  have "toLower ` (set ?es - {[]}) = {''a.de'', ''b.org''}"
    by code_simp
  with string_cache_element_count [OF c] c show ?thesis by simp
qed

text \<open>
  The one entry that crashes. Adding an entry to the chained group factory of a list
  completes and is always handled by one of the three caches, unless the entry is a single
  slash: for it the regular expression factory slices out of range.
\<close>

theorem chain_add_entry_panics_iff_slash:
  assumes "chain_inv g fs"
  shows "if e = ''/'' then chain_AddEntry compile e fs = None
    else \<exists>fs'. chain_AddEntry compile e fs = Some (True, fs') \<and> chain_inv g fs'"
proof (cases "e = ''/''")
  case True
  obtain r w s where "fs = map (\<lambda>f. \<lparr>gf_group = g, gf_factory = RegexF r\<rparr>) [r] @
      map (\<lambda>f. \<lparr>gf_group = g, gf_factory = f\<rparr>) [w, s]"
    using assms inv_cases(2) by (fastforce simp: chain_inv_def)
  with True show ?thesis
    by (simp add: mem_AddEntry_def regexFactory_addEntry_def hasPrefix_def hasSuffix_def)
next
  case False
  then show ?thesis using chain_AddEntry_spec [OF assms, of e compile] by auto
qed

theorem chain_add_entry_panics_iff_slash_witness:
  "\<exists>fs. chain_inv ''ads'' fs \<and> chain_AddEntry (\<lambda>_. None) ''/'' fs = None \<and>
    (\<exists>fs'. chain_AddEntry (\<lambda>_. None) ''ads.com'' fs = Some (True, fs'))"
proof -
  let ?cs = "[NewInMemoryGroupedRegexCache, NewInMemoryGroupedWildcardCache, NewInMemoryGroupedStringCache]"
  have "three_caches ?cs"
    by (simp add: three_caches_def NewInMemoryGroupedRegexCache_def NewInMemoryGroupedWildcardCache_def
        NewInMemoryGroupedStringCache_def)
  then have inv: "chain_inv ''ads'' (chain_Refresh ?cs ''ads'')" by (rule chain_Refresh_inv)
  show ?thesis
    using inv chain_add_entry_panics_iff_slash [OF inv, of "''/''" "\<lambda>_. None"]
      chain_add_entry_panics_iff_slash [OF inv, of "''ads.com''" "\<lambda>_. None"] by auto
qed

end
