(* ===== verification/Net_IP.thy ===== *)
theory Net_IP
  imports Prelude "HOL-Library.Word"
begin

text \<open>
  IP addresses as the program uses them: package \<open>net\<close> of Go's standard library. An
  address is a slice of bytes, nil (the empty list) where there is none; the textual forms
  are those of \<open>net.ParseIP\<close>, \<open>IP.String\<close> and \<open>net.ParseCIDR\<close>.
\<close>

unbundle bit_operations_syntax

type_synonym byte = "8 word"
type_synonym IP = "byte list"

definition v4InV6Prefix :: IP where
  "v4InV6Prefix = replicate 10 0 @ [0xff, 0xff]"

definition IPv4 :: "byte \<Rightarrow> byte \<Rightarrow> byte \<Rightarrow> byte \<Rightarrow> IP" where
  "IPv4 a b c d = v4InV6Prefix @ [a, b, c, d]"

definition IPv4zero :: IP where "IPv4zero = IPv4 0 0 0 0"
definition IPv6zero :: IP where "IPv6zero = replicate 16 0"
definition IPv6loopback :: IP where "IPv6loopback = replicate 15 0 @ [1]"

definition To4 :: "IP \<Rightarrow> IP" where
  "To4 ip = (if length ip = 4 then ip
     else if length ip = 16 \<and> take 12 ip = v4InV6Prefix then drop 12 ip else [])"

definition To16 :: "IP \<Rightarrow> IP" where
  "To16 ip = (if length ip = 4 then v4InV6Prefix @ ip else if length ip = 16 then ip else [])"

definition IP_Equal :: "IP \<Rightarrow> IP \<Rightarrow> bool" where
  "IP_Equal ip x \<longleftrightarrow>
     (if length ip = length x then ip = x
      else if length ip = 4 \<and> length x = 16 then take 12 x = v4InV6Prefix \<and> ip = drop 12 x
      else if length ip = 16 \<and> length x = 4 then take 12 ip = v4InV6Prefix \<and> drop 12 ip = x
      else False)"

definition IsLoopback :: "IP \<Rightarrow> bool" where
  "IsLoopback ip \<longleftrightarrow> (case To4 ip of a # _ \<Rightarrow> a = 127 | [] \<Rightarrow> IP_Equal ip IPv6loopback)"

section \<open>Parsing\<close>

definition isDigit :: "char \<Rightarrow> bool" where
  "isDigit c \<longleftrightarrow> CHR ''0'' \<le> c \<and> c \<le> CHR ''9''"

definition digitVal :: "char \<Rightarrow> nat" where
  "digitVal c = of_char c - 48"

definition isHex :: "char \<Rightarrow> bool" where
  "isHex c \<longleftrightarrow> isDigit c \<or> (CHR ''a'' \<le> c \<and> c \<le> CHR ''f'') \<or> (CHR ''A'' \<le> c \<and> c \<le> CHR ''F'')"

definition hexVal :: "char \<Rightarrow> nat" where
  "hexVal c = (if isDigit c then of_char c - 48
     else if CHR ''a'' \<le> c then of_char c - 97 + 10 else of_char c - 65 + 10)"

definition numVal :: "nat \<Rightarrow> (char \<Rightarrow> nat) \<Rightarrow> string \<Rightarrow> nat" where
  "numVal base v s = foldl (\<lambda>acc c. acc * base + v c) 0 s"

text \<open>
  \<open>parseIPv4Fields\<close>: \<open>start\<close> is true at the first character, \<open>dot\<close> after a dot.
\<close>

fun v4_fields :: "string \<Rightarrow> bool \<Rightarrow> bool \<Rightarrow> nat \<Rightarrow> nat \<Rightarrow> byte list \<Rightarrow> byte list option" where
  "v4_fields [] start dot val digLen fs = (if length fs < 3 then None else Some (fs @ [of_nat val]))"
| "v4_fields (c # cs) start dot val digLen fs =
     (if isDigit c then
        if digLen = 1 \<and> val = 0 then None
        else let val' = val * 10 + digitVal c in
          if val' > 255 then None else v4_fields cs False False val' (digLen + 1) fs
      else if c = CHR ''.'' then
        if start \<or> cs = [] \<or> dot then None
        else if length fs = 3 then None
        else v4_fields cs False True 0 0 (fs @ [of_nat val])
      else None)"

definition parseIPv4Fields :: "string \<Rightarrow> byte list option" where
  "parseIPv4Fields s = v4_fields s True False 0 0 []"

text \<open>
  The loop of \<open>parseIPv6\<close>: at most eight rounds, the bytes read so far, and the place of
  the ellipsis if one was seen. The result is the unread rest with the other two.
\<close>

fun v6_loop :: "nat \<Rightarrow> string \<Rightarrow> byte list \<Rightarrow> nat option \<Rightarrow> (string \<times> byte list \<times> nat option) option" where
  "v6_loop 0 s ip ell = Some (s, ip, ell)"
| "v6_loop (Suc k) s ip ell =
     (let hs = takeWhile isHex s; off = length hs; acc = numVal 16 hexVal hs in
      if off > 4 \<or> off = 0 then None
      else if off < length s \<and> s ! off = CHR ''.'' then
        if ell = None \<and> length ip \<noteq> 12 then None
        else if length ip + 4 > 16 then None
        else (case parseIPv4Fields s of None \<Rightarrow> None | Some f \<Rightarrow> Some ([], ip @ f, ell))
      else
        let ip' = ip @ [of_nat (acc div 256), of_nat acc]; s' = drop off s in
        if s' = [] then Some ([], ip', ell)
        else if hd s' \<noteq> CHR '':'' \<or> length s' = 1 then None
        else
          let s2 = tl s' in
          if hd s2 = CHR '':'' then
            if ell \<noteq> None then None
            else if tl s2 = [] then Some ([], ip', Some (length ip'))
            else v6_loop k (tl s2) ip' (Some (length ip'))
          else v6_loop k s2 ip' ell)"

definition parseIPv6 :: "string \<Rightarrow> IP option" where
  "parseIPv6 s =
     (if hasPrefix s ''::'' \<and> length s = 2 then Some IPv6zero
      else
        case (if hasPrefix s ''::'' then v6_loop 8 (drop 2 s) [] (Some 0) else v6_loop 8 s [] None) of
          None \<Rightarrow> None
        | Some (rest, ip, ell) \<Rightarrow>
            if rest \<noteq> [] then None
            else if length ip < 16 then
              (case ell of None \<Rightarrow> None
               | Some e \<Rightarrow> Some (take e ip @ replicate (16 - length ip) 0 @ drop e ip))
            else if ell \<noteq> None then None else Some ip)"

text \<open>
  An address read by \<open>netip.ParseAddr\<close>, with the bit length of its family. A zone
  (\<open>%\<close>) makes \<open>net.ParseIP\<close> and \<open>net.ParseCIDR\<close> fail.
\<close>

definition parseAddr :: "string \<Rightarrow> (IP \<times> nat) option" where
  "parseAddr s =
     (if CHR ''%'' \<in> set s then None
      else (case dropWhile (\<lambda>c. c \<noteq> CHR ''.'' \<and> c \<noteq> CHR '':'') s of
              [] \<Rightarrow> None
            | c # _ \<Rightarrow>
                if c = CHR ''.'' then map_option (\<lambda>f. (v4InV6Prefix @ f, 32)) (parseIPv4Fields s)
                else map_option (\<lambda>ip. (ip, 128)) (parseIPv6 s)))"

definition ParseIP :: "string \<Rightarrow> IP option" where
  "ParseIP s = map_option fst (parseAddr s)"

section \<open>Printing\<close>

fun showNat_fuel :: "nat \<Rightarrow> nat \<Rightarrow> string" where
  "showNat_fuel 0 n = [char_of (48 + n mod 10)]"
| "showNat_fuel (Suc k) n =
     (if n < 10 then [char_of (48 + n)] else showNat_fuel k (n div 10) @ [char_of (48 + n mod 10)])"

definition showNat :: "nat \<Rightarrow> string" where
  "showNat n = showNat_fuel n n"

definition hexDigit :: "nat \<Rightarrow> char" where
  "hexDigit n = (if n < 10 then char_of (48 + n) else char_of (87 + n))"

text \<open>Up to four hexadecimal digits without leading zeros.\<close>

definition showHex16 :: "nat \<Rightarrow> string" where
  "showHex16 n =
     (if n \<ge> 4096 then [hexDigit (n div 4096)] else []) @
     (if n \<ge> 256 then [hexDigit (n div 256 mod 16)] else []) @
     (if n \<ge> 16 then [hexDigit (n div 16 mod 16)] else []) @ [hexDigit (n mod 16)]"

fun groups16 :: "byte list \<Rightarrow> nat list" where
  "groups16 (a # b # xs) = (unat a * 256 + unat b) # groups16 xs"
| "groups16 _ = []"

text \<open>The longest run of at least two zero groups, the first one of that length: (start, end).\<close>

definition zero_run :: "nat list \<Rightarrow> nat \<Rightarrow> nat" where
  "zero_run gs i = length (takeWhile (\<lambda>g. g = 0) (drop i gs))"

definition longest_zero_run :: "nat list \<Rightarrow> (nat \<times> nat) option" where
  "longest_zero_run gs =
     foldl (\<lambda>best i. let n = zero_run gs i in
        if n \<ge> 2 \<and> (case best of None \<Rightarrow> True | Some (s, e) \<Rightarrow> n > e - s) then Some (i, i + n) else best)
       None [0..<length gs]"

definition showIPv6 :: "IP \<Rightarrow> string" where
  "showIPv6 ip =
     (let gs = groups16 ip in
      case longest_zero_run gs of
        None \<Rightarrow> joinStr '':'' (map showHex16 gs)
      | Some (s, e) \<Rightarrow>
          joinStr '':'' (map showHex16 (take s gs)) @ ''::'' @ joinStr '':'' (map showHex16 (drop e gs)))"

definition showByteHex :: "byte \<Rightarrow> string" where
  "showByteHex b = [hexDigit (unat b div 16), hexDigit (unat b mod 16)]"

definition IP_String :: "IP \<Rightarrow> string" where
  "IP_String ip =
     (if ip = [] then ''<nil>''
      else if length ip \<noteq> 4 \<and> length ip \<noteq> 16 then ''?'' @ concat (map showByteHex ip)
      else if To4 ip \<noteq> [] then joinStr ''.'' (map (\<lambda>b. showNat (unat b)) (To4 ip))
      else showIPv6 ip)"

section \<open>Networks\<close>

record IPNet =
  net_IP :: IP
  net_Mask :: "byte list"

definition mask_byte :: "nat \<Rightarrow> byte" where
  "mask_byte n = (if n \<ge> 8 then 0xff else of_nat (256 - 2 ^ (8 - n)))"

definition CIDRMask :: "nat \<Rightarrow> nat \<Rightarrow> byte list" where
  "CIDRMask ones bits = map (\<lambda>i. mask_byte (ones - 8 * i)) [0..<bits div 8]"

definition and_bytes :: "byte list \<Rightarrow> byte list \<Rightarrow> byte list" where
  "and_bytes a b = map2 (\<lambda>x y. x AND y) a b"

definition IP_Mask :: "IP \<Rightarrow> byte list \<Rightarrow> IP" where
  "IP_Mask ip0 mask0 =
     (let mask = (if length mask0 = 16 \<and> length ip0 = 4 \<and> (\<forall>b\<in>set (take 12 mask0). b = 0xff)
                  then drop 12 mask0 else mask0);
          ip = (if length mask = 4 \<and> length ip0 = 16 \<and> take 12 ip0 = v4InV6Prefix
                then drop 12 ip0 else ip0)
      in if length ip \<noteq> length mask then [] else and_bytes ip mask)"

text \<open>\<open>dtoi\<close>: decimal digits up to a limit, and nothing after them.\<close>

definition dtoi :: "string \<Rightarrow> nat option" where
  "dtoi s = (if s = [] \<or> (\<exists>c\<in>set s. \<not> isDigit c) \<or> numVal 10 digitVal s \<ge> 0xFFFFFF then None
     else Some (numVal 10 digitVal s))"

definition ParseCIDR :: "string \<Rightarrow> (IP \<times> IPNet) option" where
  "ParseCIDR s =
     (case indexByte s CHR ''/'' of
        None \<Rightarrow> None
      | Some i \<Rightarrow>
          (case parseAddr (take i s) of
             None \<Rightarrow> None
           | Some (ip, bits) \<Rightarrow>
               (case dtoi (drop (i + 1) s) of
                  None \<Rightarrow> None
                | Some n \<Rightarrow>
                    if n > bits then None
                    else let m = CIDRMask n bits in
                      Some (ip, \<lparr>net_IP = IP_Mask ip m, net_Mask = m\<rparr>))))"

definition networkNumberAndMask :: "IPNet \<Rightarrow> IP \<times> byte list" where
  "networkNumberAndMask n =
     (let ip4 = To4 (net_IP n); ip = (if ip4 = [] then net_IP n else ip4); m = net_Mask n in
      if ip4 = [] \<and> length ip \<noteq> 16 then ([], [])
      else if length m = 4 then (if length ip \<noteq> 4 then ([], []) else (ip, m))
      else if length m = 16 then (if length ip = 4 then (ip, drop 12 m) else (ip, m))
      else ([], []))"

definition IPNet_Contains :: "IPNet \<Rightarrow> IP \<Rightarrow> bool" where
  "IPNet_Contains n ip0 =
     (case networkNumberAndMask n of (nn, m) \<Rightarrow>
      let ip = (if To4 ip0 \<noteq> [] then To4 ip0 else ip0) in
      length ip = length nn \<and> and_bytes nn m = and_bytes ip m)"

section \<open>Lemmas\<close>

lemma length_v4InV6Prefix [simp]: "length v4InV6Prefix = 12"
  by (simp add: v4InV6Prefix_def)

lemma length_IPv4 [simp]: "length (IPv4 a b c d) = 16"
  by (simp add: IPv4_def)

lemma To4_IPv4 [simp]: "To4 (IPv4 a b c d) = [a, b, c, d]"
  by (simp add: To4_def IPv4_def)

lemma To4_length: "To4 ip = [] \<or> length (To4 ip) = 4"
  by (auto simp: To4_def)

lemma To4_idem [simp]: "To4 (To4 ip) = To4 ip"
  by (auto simp: To4_def)

lemma To4_IPv6zero [simp]: "To4 IPv6zero = []"
  by code_simp

lemma IP_Equal_refl [simp]: "IP_Equal ip ip"
  by (simp add: IP_Equal_def)

lemma IP_Equal_sym: "IP_Equal a b \<longleftrightarrow> IP_Equal b a"
  by (auto simp: IP_Equal_def)

lemma v4_fields_length:
  "length fs \<le> 3 \<Longrightarrow> v4_fields s st d v n fs = Some r \<Longrightarrow> length r = 4"
  by (induction s st d v n fs rule: v4_fields.induct) (auto simp: Let_def split: if_splits)

lemma parseIPv4Fields_length: "parseIPv4Fields s = Some r \<Longrightarrow> length r = 4"
  unfolding parseIPv4Fields_def using v4_fields_length [of "[]"] by simp

lemma v6_loop_inv:
  "length ip + 2 * k \<le> 16 \<Longrightarrow> v6_loop k s ip ell = Some (r, ip', ell') \<Longrightarrow> length ip' \<le> 16"
proof (induction k arbitrary: s ip ell)
  case (Suc k)
  let ?hs = "takeWhile isHex s"
  let ?ip = "ip @ [of_nat (numVal 16 hexVal ?hs div 256), of_nat (numVal 16 hexVal ?hs)]"
  have IH: "v6_loop k s' ?ip e' = Some (r, ip', ell') \<Longrightarrow> length ip' \<le> 16" for s' e'
    using Suc.IH [of ?ip s' e'] Suc.prems(1) by simp
  show ?case
  proof (cases "length ?hs < length s \<and> s ! length ?hs = CHR ''.''")
    case True
    with Suc.prems show ?thesis
      by (auto simp: Let_def split: if_splits option.splits dest!: parseIPv4Fields_length)
  next
    case False
    with Suc.prems(2) have "r = [] \<and> ip' = ?ip \<or> (\<exists>s' e'. v6_loop k s' ?ip e' = Some (r, ip', ell'))"
      by (simp only: v6_loop.simps Let_def if_False) (simp split: if_splits, blast+)
    with IH Suc.prems(1) show ?thesis by auto
  qed
qed auto

lemma parseIPv6_length: "parseIPv6 s = Some ip \<Longrightarrow> length ip = 16"
proof -
  assume p: "parseIPv6 s = Some ip"
  have b: "v6_loop 8 t [] e = Some (r, ip', e') \<Longrightarrow> length ip' \<le> 16" for t e r ip' e'
    using v6_loop_inv [of "[]" 8] by simp
  define res where "res = (if hasPrefix s ''::'' then v6_loop 8 (drop 2 s) [] (Some 0) else v6_loop 8 s [] None)"
  show ?thesis
  proof (cases "hasPrefix s ''::'' \<and> length s = 2")
    case True
    with p show ?thesis by (auto simp: parseIPv6_def IPv6zero_def)
  next
    case False
    with p obtain rest ip' ell where res: "res = Some (rest, ip', ell)"
      by (auto simp: parseIPv6_def res_def [symmetric] split: option.splits)
    then have "length ip' \<le> 16" using b by (auto simp: res_def split: if_splits)
    with p False res show ?thesis
      by (auto simp: parseIPv6_def res_def [symmetric] split: if_splits option.splits)
  qed
qed

lemma ParseIP_length: "ParseIP s = Some ip \<Longrightarrow> length ip = 16"
  by (auto simp: ParseIP_def parseAddr_def parseIPv6_length parseIPv4Fields_length
      split: if_splits list.splits)

lemma ParseIP_not_Nil: "ParseIP s = Some ip \<Longrightarrow> ip \<noteq> []"
  using ParseIP_length by fastforce

end
