(* ===== verification/Parsers.thy ===== *)
theory Parsers
  imports Net_IP
begin

text \<open>
  Package \<open>lists/parsers\<close>: the series parsers that read host lists and hosts files. A
  parser is a record of its methods over an explicit state; \<open>Next\<close> may loop, so its value
  is optional, \<^const>\<open>None\<close> where it does not return. The interface \<open>progress_parser\<close>
  states what consuming a parser relies on; line parsers and the adapters on top of them
  provide it.

  The context of a request is observed at every call of \<open>ctx.Err()\<close>: the state of the line
  parser holds the results these calls will have, in order.

  Parameters: \<open>compile_ok\<close>, whether \<open>regexp.Compile\<close> accepts a pattern, and
  \<open>toASCII\<close>, the conversion of package \<open>golang.org/x/net/idna\<close> with the Punycode profile,
  \<^const>\<open>None\<close> for an error.
\<close>

section \<open>Errors\<close>

datatype parse_error =
    EOF
  | CtxErr string
  | ReadErr string
  | TokenTooLong
  | NonResumable parse_error
  | WithPosition string parse_error
  | TooManyErrors
  | IdnaErr string
  | RegexErr string
  | DomainTooLong string
  | InvalidDomain string
  | SecondColumn string
  | InvalidIP string
  | NoHost
  | UnsupportedWildcard string
  | MultiErr "parse_error list"

text \<open>\<open>errors.Is(err, io.EOF)\<close> and \<open>errors.As\<close> look through wrapped errors.\<close>

fun is_EOF :: "parse_error \<Rightarrow> bool" where
  "is_EOF EOF = True"
| "is_EOF (NonResumable e) = is_EOF e"
| "is_EOF (WithPosition p e) = is_EOF e"
| "is_EOF (MultiErr es) = list_ex is_EOF es"
| "is_EOF _ = False"

fun IsNonResumableErr :: "parse_error \<Rightarrow> bool" where
  "IsNonResumableErr (NonResumable e) = True"
| "IsNonResumableErr (WithPosition p e) = IsNonResumableErr e"
| "IsNonResumableErr (MultiErr es) = list_ex IsNonResumableErr es"
| "IsNonResumableErr _ = False"

section \<open>The interface \<open>SeriesParser\<close>\<close>

record ('s, 'a) seriesParser =
  Next :: "'s \<Rightarrow> ((parse_error + 'a) \<times> 's) option"
  Position :: "'s \<Rightarrow> string"
  CtxObs :: "'s \<Rightarrow> string option \<times> 's"

definition ErrWithPosition :: "('s, 'a) seriesParser \<Rightarrow> 's \<Rightarrow> parse_error option \<Rightarrow> parse_error option" where
  "ErrWithPosition p s err =
     (case err of None \<Rightarrow> None | Some e \<Rightarrow> Some (WithPosition (Position p s) e))"

text \<open>
  The loop of \<open>ForEach\<close>. The callback threads a state of its own and may return an error.
\<close>

partial_function (option) forEach_loop ::
    "('s, 'a) seriesParser \<Rightarrow> ('a \<Rightarrow> 'c \<Rightarrow> parse_error option \<times> 'c) \<Rightarrow> 's \<Rightarrow> 'c \<Rightarrow>
     (parse_error option \<times> 's \<times> 'c) option" where
  "forEach_loop p callback s c =
     (case CtxObs p s of
        (Some e, s1) \<Rightarrow> Some (Some (CtxErr e), s1, c)
      | (None, s1) \<Rightarrow>
          Option.bind (Next p s1) (\<lambda>r.
            case r of
              (Inl err, s2) \<Rightarrow> Some (if is_EOF err then None else Some err, s2, c)
            | (Inr res, s2) \<Rightarrow>
                (case callback res c of
                   (Some err, c') \<Rightarrow> Some (Some err, s2, c')
                 | (None, c') \<Rightarrow> forEach_loop p callback s2 c')))"

definition ForEach ::
    "('s, 'a) seriesParser \<Rightarrow> ('a \<Rightarrow> 'c \<Rightarrow> parse_error option \<times> 'c) \<Rightarrow> 's \<Rightarrow> 'c \<Rightarrow>
     (parse_error option \<times> 's \<times> 'c) option" where
  "ForEach p callback s c =
     map_option (\<lambda>(err, s', c'). (ErrWithPosition p s' err, s', c')) (forEach_loop p callback s c)"

section \<open>Lines\<close>

record lines =
  scanner :: "string list"
  scanErr :: "parse_error option"
  lineNo :: nat
  ctxLog :: "string option list"

text \<open>
  \<open>bufio.Scanner\<close> with \<open>ScanLines\<close>: lines end at a newline, one trailing carriage return is
  dropped, and a line that does not fit the buffer of 64 KiB ends the scan with an error.
\<close>

definition dropCR :: "string \<Rightarrow> string" where
  "dropCR l = (if l \<noteq> [] \<and> last l = CHR 0x0D then butlast l else l)"

definition maxTokenSize :: int where "maxTokenSize = 65536"

definition scanLines :: "string \<Rightarrow> parse_error option \<Rightarrow> string list \<times> parse_error option" where
  "scanLines content readErr =
     (let raw = splitOn CHR 0x0A content;
          body = (if last raw = [] then butlast raw else raw);
          fit = takeWhile (\<lambda>l. int (length l) < maxTokenSize) body
      in (map dropCR fit, if length fit < length body then Some TokenTooLong else readErr))"

definition newLines :: "string \<Rightarrow> parse_error option \<Rightarrow> string option list \<Rightarrow> lines" where
  "newLines content readErr ctx =
     (case scanLines content readErr of (ls, err) \<Rightarrow>
      \<lparr>scanner = ls, scanErr = err, lineNo = 0, ctxLog = ctx\<rparr>)"

definition lines_ctx :: "lines \<Rightarrow> string option \<times> lines" where
  "lines_ctx l = (case ctxLog l of [] \<Rightarrow> (None, l) | obs # rest \<Rightarrow> (obs, l\<lparr>ctxLog := rest\<rparr>))"

definition lines_Position :: "lines \<Rightarrow> string" where
  "lines_Position l = ''line '' @ showNat (lineNo l)"

text \<open>What one raw line contributes: nothing (empty or commented out), or its text.\<close>

definition lineText :: "string \<Rightarrow> string option" where
  "lineText raw =
     (let text = trimSpace raw in
      if length text = 0 then None
      else (case indexByte text CHR ''#'' of
              None \<Rightarrow> Some text
            | Some idx \<Rightarrow> if idx = 0 then None else Some (trimRightSpace (take idx text))))"

fun lines_loop :: "string list \<Rightarrow> lines \<Rightarrow> (parse_error + string) \<times> lines" where
  "lines_loop [] l0 =
     (case lines_ctx (l0\<lparr>lineNo := lineNo l0 + 1\<rparr>) of
        (Some e, l) \<Rightarrow> (Inl (NonResumable (CtxErr e)), l)
      | (None, l) \<Rightarrow>
          (case scanErr l of
             Some err \<Rightarrow> (Inl (NonResumable err), l)
           | None \<Rightarrow> (Inl (NonResumable EOF), l)))"
| "lines_loop (raw # rest) l0 =
     (case lines_ctx (l0\<lparr>lineNo := lineNo l0 + 1\<rparr>) of
        (Some e, l) \<Rightarrow> (Inl (NonResumable (CtxErr e)), l)
      | (None, l) \<Rightarrow>
          (case lineText raw of
             None \<Rightarrow> lines_loop rest (l\<lparr>scanner := rest\<rparr>)
           | Some text \<Rightarrow> (Inr text, l\<lparr>scanner := rest\<rparr>)))"

definition lines_Next :: "lines \<Rightarrow> (parse_error + string) \<times> lines" where
  "lines_Next l = lines_loop (scanner l) l"

definition Lines :: "(lines, string) seriesParser" where
  "Lines = \<lparr>Next = (\<lambda>l. Some (lines_Next l)), Position = lines_Position, CtxObs = lines_ctx\<rparr>"

section \<open>Adapters\<close>

definition adapter_Next ::
    "('s, 'a) seriesParser \<Rightarrow> ('a \<Rightarrow> parse_error + 'b) \<Rightarrow> 's \<Rightarrow> ((parse_error + 'b) \<times> 's) option" where
  "adapter_Next inner adapt s =
     Option.bind (Next inner s) (\<lambda>r.
       case r of
         (Inl err, s') \<Rightarrow> Some (Inl err, s')
       | (Inr from, s') \<Rightarrow> (case adapt from of Inl err \<Rightarrow> Some (Inl err, s') | Inr res \<Rightarrow> Some (Inr res, s')))"

definition TryAdapt :: "('s, 'a) seriesParser \<Rightarrow> ('a \<Rightarrow> parse_error + 'b) \<Rightarrow> ('s, 'b) seriesParser" where
  "TryAdapt inner adapt =
     \<lparr>Next = adapter_Next inner adapt, Position = Position inner, CtxObs = CtxObs inner\<rparr>"

definition Adapt :: "('s, 'a) seriesParser \<Rightarrow> ('a \<Rightarrow> 'b) \<Rightarrow> ('s, 'b) seriesParser" where
  "Adapt inner adapt = TryAdapt inner (\<lambda>from. Inr (adapt from))"

section \<open>Error filters\<close>

text \<open>
  The filter of an error filter is a closure with state: it returns the error to stop
  with, if any, and its new state, kept beside the state of the inner parser. Callbacks
  registered by \<open>OnErr\<close> only log and are left out.
\<close>

partial_function (option) errorFilter_Next ::
    "('s, 'a) seriesParser \<Rightarrow> (parse_error \<Rightarrow> 'k \<Rightarrow> parse_error option \<times> 'k) \<Rightarrow> 's \<times> 'k \<Rightarrow>
     ((parse_error + 'a) \<times> 's \<times> 'k) option" where
  "errorFilter_Next inner filt sk =
     (case sk of (s, k) \<Rightarrow>
      Option.bind (Next inner s) (\<lambda>r.
        case r of
          (Inl err, s') \<Rightarrow>
            if IsNonResumableErr err then Some (Inl err, s', k)
            else (case filt err k of
                    (Some err', k') \<Rightarrow> Some (Inl err', s', k')
                  | (None, k') \<Rightarrow> errorFilter_Next inner filt (s', k'))
        | (Inr res, s') \<Rightarrow> Some (Inr res, s', k)))"

definition FilterErrors ::
    "('s, 'a) seriesParser \<Rightarrow> (parse_error \<Rightarrow> 'k \<Rightarrow> parse_error option \<times> 'k) \<Rightarrow> ('s \<times> 'k, 'a) seriesParser" where
  "FilterErrors inner filt =
     \<lparr>Next = errorFilter_Next inner filt, Position = (\<lambda>(s, k). Position inner s),
      CtxObs = (\<lambda>(s, k). case CtxObs inner s of (e, s') \<Rightarrow> (e, s', k))\<rparr>"

definition NoErrorLimit :: int where "NoErrorLimit = - 1"

definition AllowErrors :: "('s, 'a) seriesParser \<Rightarrow> int \<Rightarrow> ('s \<times> int, 'a) seriesParser" where
  "AllowErrors inner n =
     (if n = NoErrorLimit then FilterErrors inner (\<lambda>err count. (None, count))
      else FilterErrors inner (\<lambda>err count.
        let count' = count + 1 in if count' > n then (Some TooManyErrors, count') else (None, count')))"

section \<open>Hosts\<close>

definition maxDomainNameLength :: nat where "maxDomainNameLength = 255"

definition labelChar :: "char \<Rightarrow> bool" where
  "labelChar c \<longleftrightarrow> (CHR ''a'' \<le> c \<and> c \<le> CHR ''z'') \<or> (CHR ''A'' \<le> c \<and> c \<le> CHR ''Z'') \<or> isDigit c \<or>
     c = CHR ''_'' \<or> c = CHR ''-''"

definition dnsLabel :: "string \<Rightarrow> bool" where
  "dnsLabel l \<longleftrightarrow> 1 \<le> length l \<and> length l \<le> 63 \<and> list_all labelChar l"

text \<open>The language of \<open>domainNameRegex\<close>: labels separated by dots, then an optional dot or underscore.\<close>

definition domainNameRegex :: "string \<Rightarrow> bool" where
  "domainNameRegex host \<longleftrightarrow> list_all dnsLabel (splitOn CHR ''.'' host) \<or>
     (host \<noteq> [] \<and> (last host = CHR ''.'' \<or> last host = CHR ''_'') \<and>
      list_all dnsLabel (splitOn CHR ''.'' (butlast host)))"

definition validateDomainName :: "string \<Rightarrow> parse_error option" where
  "validateDomainName host =
     (if length host > maxDomainNameLength then Some (DomainTooLong host)
      else if domainNameRegex host then None else Some (InvalidDomain host))"

definition isRegex :: "string \<Rightarrow> bool" where
  "isRegex host \<longleftrightarrow> hasPrefix host ''/'' \<and> hasSuffix host ''/''"

definition validateHostsListEntry :: "(string \<Rightarrow> bool) \<Rightarrow> string \<Rightarrow> parse_error option" where
  "validateHostsListEntry compile_ok host =
     (if ParseIP host \<noteq> None then None
      else if isRegex host then (if compile_ok host then None else Some (RegexErr host))
      else validateDomainName host)"

definition normalizeHostsListEntry ::
    "(string \<Rightarrow> bool) \<Rightarrow> (string \<Rightarrow> string option) \<Rightarrow> string \<Rightarrow> parse_error + string" where
  "normalizeHostsListEntry compile_ok toASCII host0 =
     (case (if isRegex host0 then Some host0 else toASCII host0) of
        None \<Rightarrow> Inl (IdnaErr host0)
      | Some host1 \<Rightarrow>
          let host = trimSuffix (trimPrefix host1 ''||'') ''^'' in
          case validateHostsListEntry compile_ok host of Some err \<Rightarrow> Inl err | None \<Rightarrow> Inr host)"

text \<open>\<open>bufio.ScanWords\<close>: the words of a line, separated by white space.\<close>

fun scanWords :: "string \<Rightarrow> string \<Rightarrow> string list" where
  "scanWords [] w = (if w = [] then [] else [w])"
| "scanWords (c # cs) w =
     (if isSpace c then (if w = [] then scanWords cs [] else w # scanWords cs [])
      else scanWords cs (w @ [c]))"

definition firstWord :: "string list \<Rightarrow> string" where
  "firstWord ws = (case ws of [] \<Rightarrow> [] | w # _ \<Rightarrow> w)"

definition HostListEntry_UnmarshalText ::
    "(string \<Rightarrow> bool) \<Rightarrow> (string \<Rightarrow> string option) \<Rightarrow> string \<Rightarrow> parse_error + string" where
  "HostListEntry_UnmarshalText compile_ok toASCII data =
     (let ws = scanWords data [] in
      case normalizeHostsListEntry compile_ok toASCII (firstWord ws) of
        Inl err \<Rightarrow> Inl err
      | Inr host \<Rightarrow> (case drop 1 ws of w # _ \<Rightarrow> Inl (SecondColumn w) | [] \<Rightarrow> Inr host))"

record HostsFileEntry =
  hf_IP :: IP
  hf_Interface :: string
  hf_Name :: string
  hf_Aliases :: "string list"

fun validateHosts :: "string list \<Rightarrow> parse_error option" where
  "validateHosts [] = None"
| "validateHosts (h # hs) = (case validateDomainName h of Some err \<Rightarrow> Some err | None \<Rightarrow> validateHosts hs)"

definition HostsFileEntry_UnmarshalText :: "string \<Rightarrow> parse_error + HostsFileEntry" where
  "HostsFileEntry_UnmarshalText data =
     (let ws = scanWords data []; word = firstWord ws;
          (ipStr, netInterface) =
            (case indexByte word CHR ''%'' of
               None \<Rightarrow> (word, []) | Some idx \<Rightarrow> (take idx word, drop (idx + 1) word))
      in case ParseIP ipStr of
           None \<Rightarrow> Inl (InvalidIP word)
         | Some ip \<Rightarrow>
             (case validateHosts (drop 1 ws) of
                Some err \<Rightarrow> Inl err
              | None \<Rightarrow>
                  (case drop 1 ws of
                     [] \<Rightarrow> Inl NoHost
                   | h # hs \<Rightarrow>
                       Inr \<lparr>hf_IP = ip, hf_Interface = netInterface, hf_Name = h, hf_Aliases = hs\<rparr>)))"

definition WildcardEntry_UnmarshalText :: "string \<Rightarrow> parse_error + string" where
  "WildcardEntry_UnmarshalText data =
     (let entry = firstWord (scanWords data []) in
      if \<not> hasPrefix entry ''*.'' \<or> countByte entry CHR ''*'' > 1 then Inl (UnsupportedWildcard entry)
      else Inr entry)"

datatype HostsIterator = HostList string | HostsFileIt HostsFileEntry | WildcardIt string

definition HostsIterator_UnmarshalText ::
    "(string \<Rightarrow> bool) \<Rightarrow> (string \<Rightarrow> string option) \<Rightarrow> string \<Rightarrow> parse_error + HostsIterator" where
  "HostsIterator_UnmarshalText compile_ok toASCII data =
     (case HostListEntry_UnmarshalText compile_ok toASCII data of
        Inr h \<Rightarrow> Inr (HostList h)
      | Inl e1 \<Rightarrow>
          (case HostsFileEntry_UnmarshalText data of
             Inr e \<Rightarrow> Inr (HostsFileIt e)
           | Inl e2 \<Rightarrow>
               (case WildcardEntry_UnmarshalText data of
                  Inr w \<Rightarrow> Inr (WildcardIt w)
                | Inl e3 \<Rightarrow> Inl (MultiErr [e1, e2, e3]))))"

text \<open>The hosts \<open>forEachHost\<close> passes to its callback, in order.\<close>

fun forEachHost :: "HostsIterator \<Rightarrow> string list" where
  "forEachHost (HostList h) = [h]"
| "forEachHost (HostsFileIt e) = hf_Name e # hf_Aliases e"
| "forEachHost (WildcardIt w) = [w]"

definition Hosts ::
    "(string \<Rightarrow> bool) \<Rightarrow> (string \<Rightarrow> string option) \<Rightarrow> (lines, HostsIterator) seriesParser" where
  "Hosts compile_ok toASCII = TryAdapt Lines (HostsIterator_UnmarshalText compile_ok toASCII)"

definition HostsFile :: "(lines, HostsFileEntry) seriesParser" where
  "HostsFile = TryAdapt Lines HostsFileEntry_UnmarshalText"

section \<open>Consuming a parser ends\<close>

text \<open>
  The contract a consumer relies on: every call returns, and a call that yields an item or
  a resumable error has used up input.
\<close>

locale progress_parser =
  fixes p :: "('s, 'a) seriesParser" and left :: "'s \<Rightarrow> nat"
  assumes next_returns: "\<exists>r s'. Next p s = Some (r, s')"
    and next_progress: "Next p s = Some (r, s') \<Longrightarrow>
      (\<And>e. r = Inl e \<Longrightarrow> \<not> IsNonResumableErr e) \<Longrightarrow> left s' < left s"
    and ctx_left: "CtxObs p s = (o', s') \<Longrightarrow> left s' = left s"
begin

lemma forEach_loop_returns: "\<exists>r. forEach_loop p callback s c = Some r"
proof (induction "left s" arbitrary: s c rule: less_induct)
  case less
  obtain obs s1 where s1: "CtxObs p s = (obs, s1)" by force
  obtain r s2 where s2: "Next p s1 = Some (r, s2)" using next_returns by blast
  have lt: "left s2 < left s" if "r = Inr x" for x
    using next_progress [OF s2] ctx_left [OF s1] that by simp
  then show ?case
    using s1 s2 less [of s2] forEach_loop.simps [of p callback s c]
    by (cases obs; cases r) (auto split: prod.splits option.splits)
qed

lemma ForEach_returns: "\<exists>r. ForEach p callback s c = Some r"
  using forEach_loop_returns [of callback s c] by (auto simp: ForEach_def)

lemma adapter_progress: "progress_parser (TryAdapt p adapt) left"
proof
  fix s
  obtain r s' where r: "Next p s = Some (r, s')" using next_returns by blast
  show "\<exists>r s'. Next (TryAdapt p adapt) s = Some (r, s')"
    using r by (cases r) (auto simp: TryAdapt_def adapter_Next_def split: sum.splits)
  fix r' s''
  assume n: "Next (TryAdapt p adapt) s = Some (r', s'')"
    and ok: "\<And>e. r' = Inl e \<Longrightarrow> \<not> IsNonResumableErr e"
  have "s'' = s'" and "\<And>e. r = Inl e \<Longrightarrow> \<not> IsNonResumableErr e"
    using n r ok by (auto simp: TryAdapt_def adapter_Next_def split: sum.splits)
  then show "left s'' < left s" using next_progress [OF r] by simp
next
  fix s o' s'
  assume "CtxObs (TryAdapt p adapt) s = (o', s')"
  then show "left s' = left s" using ctx_left by (simp add: TryAdapt_def)
qed

lemma errorFilter_Next_spec:
  "\<exists>r s' k'. errorFilter_Next p filt (s, k) = Some (r, s', k') \<and>
     ((\<forall>e. r = Inl e \<longrightarrow> \<not> IsNonResumableErr e) \<longrightarrow> left s' < left s)"
proof (induction "left s" arbitrary: s k rule: less_induct)
  case less
  obtain r s' where r: "Next p s = Some (r, s')" using next_returns by blast
  note unf = errorFilter_Next.simps [of p filt "(s, k)"] r
  show ?case
  proof (cases r)
    case (Inr x)
    with unf next_progress [OF r] show ?thesis by auto
  next
    case (Inl e)
    show ?thesis
    proof (cases "IsNonResumableErr e")
      case True
      with unf Inl show ?thesis by auto
    next
      case False
      then have lt: "left s' < left s" using next_progress [OF r] Inl by auto
      obtain e' k' where f: "filt e k = (e', k')" by force
      show ?thesis
      proof (cases e')
        case None
        with unf Inl False f less [OF lt, of k'] lt show ?thesis by fastforce
      next
        case (Some err)
        with unf Inl False f lt show ?thesis by auto
      qed
    qed
  qed
qed

lemma filter_progress: "progress_parser (FilterErrors p filt) (\<lambda>(s, k). left s)"
proof
  fix sk
  show "\<exists>r s'. Next (FilterErrors p filt) sk = Some (r, s')"
    using errorFilter_Next_spec [of filt "fst sk" "snd sk"] by (auto simp: FilterErrors_def)
  fix r s'
  assume "Next (FilterErrors p filt) sk = Some (r, s')"
    and "\<And>e. r = Inl e \<Longrightarrow> \<not> IsNonResumableErr e"
  then show "(case s' of (s, k) \<Rightarrow> left s) < (case sk of (s, k) \<Rightarrow> left s)"
    using errorFilter_Next_spec [of filt "fst sk" "snd sk"] by (cases sk) (auto simp: FilterErrors_def)
next
  fix sk o' s'
  assume "CtxObs (FilterErrors p filt) sk = (o', s')"
  then show "(case s' of (s, k) \<Rightarrow> left s) = (case sk of (s, k) \<Rightarrow> left s)"
    using ctx_left by (cases sk) (auto simp: FilterErrors_def split: prod.splits)
qed

lemma allow_progress: "progress_parser (AllowErrors p n) (\<lambda>(s, k). left s)"
  by (auto simp: AllowErrors_def intro: filter_progress)

end

lemma lines_ctx_simps [simp]:
  "lines_ctx l = (e, l') \<Longrightarrow> scanner l' = scanner l \<and> scanErr l' = scanErr l \<and> lineNo l' = lineNo l"
  by (auto simp: lines_ctx_def split: list.splits)

lemma lines_loop_progress:
  "lines_loop ls l = (Inr t, l') \<Longrightarrow> length (scanner l') < length ls"
proof (induction ls arbitrary: l)
  case (Cons raw ls)
  then show ?case by (fastforce split: prod.splits option.splits)
qed (auto split: prod.splits option.splits)

lemma lines_loop_error: "lines_loop ls l = (Inl e, l') \<Longrightarrow> IsNonResumableErr e"
  by (induction ls arbitrary: l) (auto split: prod.splits option.splits)

interpretation linesp: progress_parser Lines "\<lambda>l. length (scanner l)"
proof
  show "\<exists>r s'. Next Lines s = Some (r, s')" for s by (auto simp: Lines_def)
next
  fix s r s'
  assume "Next Lines s = Some (r, s')" and "\<And>e. r = Inl e \<Longrightarrow> \<not> IsNonResumableErr e"
  then show "length (scanner s') < length (scanner s)"
    by (cases r) (auto simp: Lines_def lines_Next_def dest: lines_loop_progress lines_loop_error)
next
  show "CtxObs Lines s = (o', s') \<Longrightarrow> length (scanner s') = length (scanner s)" for s o' s'
    by (simp add: Lines_def)
qed

interpretation hostsp: progress_parser "Hosts compile_ok toASCII" "\<lambda>l. length (scanner l)"
  for compile_ok toASCII
  unfolding Hosts_def by (rule linesp.adapter_progress)

interpretation hosts_allow: progress_parser "AllowErrors (Hosts compile_ok toASCII) n"
    "\<lambda>(l, k). length (scanner l)" for compile_ok toASCII n
  by (rule hostsp.allow_progress)

interpretation hostsfilep: progress_parser HostsFile "\<lambda>l. length (scanner l)"
  unfolding HostsFile_def by (rule linesp.adapter_progress)

interpretation hostsfile_allow: progress_parser "AllowErrors HostsFile n"
    "\<lambda>(l, k). length (scanner l)" for n
  by (rule hostsfilep.allow_progress)

section \<open>What a run over a source reads\<close>

text \<open>
  The reference: the texts of the lines in order, each unmarshalled, and what remains when
  up to \<open>n\<close> of them may be errors. The flag says that the limit was exceeded.
\<close>

definition texts :: "string list \<Rightarrow> string list" where
  "texts ls = List.map_filter lineText ls"

fun collect :: "int \<Rightarrow> int \<Rightarrow> (parse_error + 'a) list \<Rightarrow> 'a list \<times> bool" where
  "collect n c [] = ([], False)"
| "collect n c (Inr x # rs) = (case collect n c rs of (xs, b) \<Rightarrow> (x # xs, b))"
| "collect n c (Inl e # rs) =
     (if n = NoErrorLimit then collect n c rs
      else if c + 1 > n then ([], True) else collect n (c + 1) rs)"

definition end_error :: "lines \<Rightarrow> parse_error option" where
  "end_error l = (case scanErr l of None \<Rightarrow> None
     | Some e \<Rightarrow> if is_EOF e then None else Some (NonResumable e))"

definition resumable :: "('a \<Rightarrow> parse_error + 'b) \<Rightarrow> bool" where
  "resumable adapt \<longleftrightarrow> (\<forall>x e. adapt x = Inl e \<longrightarrow> \<not> IsNonResumableErr e)"

lemma texts_simps [simp]: "texts [] = []"
  "texts (raw # ls) = (case lineText raw of None \<Rightarrow> texts ls | Some t \<Rightarrow> t # texts ls)"
  by (auto simp: texts_def map_filter_simps split: option.splits)

lemma lines_loop_end:
  "ctxLog l = [] \<Longrightarrow> texts ls = [] \<Longrightarrow>
   \<exists>l'. lines_loop ls l = (Inl (NonResumable (case scanErr l of Some e \<Rightarrow> e | None \<Rightarrow> EOF)), l')"
proof (induction ls arbitrary: l)
  case (Cons raw ls)
  then show ?case
    using Cons.IH [of "l\<lparr>lineNo := lineNo l + 1, scanner := ls\<rparr>"]
    by (simp add: lines_ctx_def split: option.splits)
qed (simp add: lines_ctx_def split: option.splits)

lemma lines_loop_item:
  "ctxLog l = [] \<Longrightarrow> texts ls = t # ts \<Longrightarrow>
   \<exists>l'. lines_loop ls l = (Inr t, l') \<and> ctxLog l' = [] \<and> scanErr l' = scanErr l \<and> texts (scanner l') = ts"
proof (induction ls arbitrary: l)
  case (Cons raw ls)
  show ?case
  proof (cases "lineText raw")
    case None
    with Cons.prems Cons.IH [of "l\<lparr>lineNo := lineNo l + 1, scanner := ls\<rparr>"] show ?thesis
      by (simp add: lines_ctx_def)
  next
    case (Some t')
    with Cons.prems show ?thesis by (simp add: lines_ctx_def)
  qed
qed simp

lemma allow_CtxObs: "ctxLog l = [] \<Longrightarrow> CtxObs (AllowErrors (TryAdapt Lines adapt) n) (l, c) = (None, l, c)"
  by (simp add: AllowErrors_def FilterErrors_def TryAdapt_def Lines_def lines_ctx_def)

lemma allow_Next_end:
  assumes "ctxLog l = []" and "texts (scanner l) = []"
  shows "\<exists>l'. Next (AllowErrors (TryAdapt Lines adapt) n) (l, c) =
    Some (Inl (NonResumable (case scanErr l of Some e \<Rightarrow> e | None \<Rightarrow> EOF)), l', c)"
  using lines_loop_end [OF assms]
  by (auto simp: AllowErrors_def FilterErrors_def TryAdapt_def adapter_Next_def Lines_def lines_Next_def
      errorFilter_Next.simps [of _ _ "(l, c)"])

lemma allow_Next_item:
  assumes "ctxLog l = []" and "texts (scanner l) = t # ts" and "adapt t = Inr x"
  shows "\<exists>l'. Next (AllowErrors (TryAdapt Lines adapt) n) (l, c) = Some (Inr x, l', c) \<and>
    ctxLog l' = [] \<and> scanErr l' = scanErr l \<and> texts (scanner l') = ts"
  using lines_loop_item [OF assms(1,2)] assms(3)
  by (auto simp: AllowErrors_def FilterErrors_def TryAdapt_def adapter_Next_def Lines_def lines_Next_def
      errorFilter_Next.simps [of _ _ "(l, c)"])

lemma allow_Next_error:
  assumes "ctxLog l = []" and "texts (scanner l) = t # ts" and "adapt t = Inl e" and "\<not> IsNonResumableErr e"
  shows "\<exists>l'. ctxLog l' = [] \<and> scanErr l' = scanErr l \<and> texts (scanner l') = ts \<and>
    Next (AllowErrors (TryAdapt Lines adapt) n) (l, c) =
      (if n = NoErrorLimit then Next (AllowErrors (TryAdapt Lines adapt) n) (l', c)
       else if c + 1 > n then Some (Inl TooManyErrors, l', c + 1)
       else Next (AllowErrors (TryAdapt Lines adapt) n) (l', c + 1))"
  using lines_loop_item [OF assms(1,2)] assms(3,4)
  by (auto simp: AllowErrors_def FilterErrors_def TryAdapt_def adapter_Next_def Lines_def lines_Next_def
      errorFilter_Next.simps [of _ _ "(l, c)"] Let_def)

lemma forEach_loop_same:
  assumes "Next (AllowErrors (TryAdapt Lines adapt) n) (l, c) = Next (AllowErrors (TryAdapt Lines adapt) n) (l', c')"
    and "ctxLog l = []" and "ctxLog l' = []"
  shows "forEach_loop (AllowErrors (TryAdapt Lines adapt) n) cb (l, c) acc =
    forEach_loop (AllowErrors (TryAdapt Lines adapt) n) cb (l', c') acc"
  unfolding forEach_loop.simps [of "AllowErrors (TryAdapt Lines adapt) n" cb "(l, c)"]
    forEach_loop.simps [of "AllowErrors (TryAdapt Lines adapt) n" cb "(l', c')"]
    allow_CtxObs [OF assms(2)] allow_CtxObs [OF assms(3)] prod.case option.case assms(1) ..

text \<open>A run with a callback that cannot fail passes on exactly the collected items, in order.\<close>

lemma end_error_cong: "scanErr l' = scanErr l \<Longrightarrow> end_error l' = end_error l"
  by (simp add: end_error_def)

lemma forEach_loop_collect:
  assumes "resumable adapt" and "ctxLog l = []"
    and "collect n c (map adapt (texts (scanner l))) = (xs, tooMany)"
  shows "\<exists>s'. forEach_loop (AllowErrors (TryAdapt Lines adapt) n) (\<lambda>x acc. (None, f x acc)) (l, c) acc =
    Some (if tooMany then Some TooManyErrors else end_error l, s', fold f xs acc)"
  using assms(2,3)
proof (induction "texts (scanner l)" arbitrary: l c acc xs)
  case Nil
  then obtain l' where "Next (AllowErrors (TryAdapt Lines adapt) n) (l, c) =
      Some (Inl (NonResumable (case scanErr l of Some e \<Rightarrow> e | None \<Rightarrow> EOF)), l', c)"
    using allow_Next_end [of l adapt n c] by auto
  with Nil show ?case
    using forEach_loop.simps [of "AllowErrors (TryAdapt Lines adapt) n" "\<lambda>x acc. (None, f x acc)" "(l, c)" acc]
    by (auto simp: allow_CtxObs end_error_def split: option.splits)
next
  case (Cons t ts)
  let ?P = "AllowErrors (TryAdapt Lines adapt) n" and ?cb = "\<lambda>x acc. (None, f x acc)"
  note unf = forEach_loop.simps [of ?P ?cb] allow_CtxObs
  note tx = Cons.hyps(2) [symmetric] and ctx = Cons.prems(1)
  show ?case
  proof (cases "adapt t")
    case (Inr x)
    then obtain l' where l': "Next ?P (l, c) = Some (Inr x, l', c)" "ctxLog l' = []"
      "scanErr l' = scanErr l" "texts (scanner l') = ts"
      using allow_Next_item [OF ctx tx, of adapt x n c] by blast
    then have "forEach_loop ?P ?cb (l, c) acc = forEach_loop ?P ?cb (l', c) (f x acc)"
      using unf(1) [of "(l, c)" acc] unf(2) [OF ctx, of adapt n c] by simp
    moreover obtain xs' where "collect n c (map adapt ts) = (xs', tooMany)" "xs = x # xs'"
      using Cons.prems(2) tx Inr by (auto split: prod.splits)
    ultimately show ?thesis
      using Cons.hyps(1) [of l' c xs' "f x acc"] l' end_error_cong [OF l'(3)] by auto
  next
    case (Inl e)
    then have "\<not> IsNonResumableErr e" using assms(1) by (auto simp: resumable_def)
    then obtain l' where l': "ctxLog l' = []" "scanErr l' = scanErr l" "texts (scanner l') = ts"
      and nx: "Next ?P (l, c) = (if n = NoErrorLimit then Next ?P (l', c)
        else if c + 1 > n then Some (Inl TooManyErrors, l', c + 1) else Next ?P (l', c + 1))"
      using allow_Next_error [OF ctx tx, of adapt e n c] Inl by blast
    have "forEach_loop ?P ?cb (l, c) acc =
        (if n = NoErrorLimit then forEach_loop ?P ?cb (l', c) acc
         else if c + 1 > n then Some (Some TooManyErrors, (l', c + 1), acc)
         else forEach_loop ?P ?cb (l', c + 1) acc)"
    proof (cases "n \<noteq> NoErrorLimit \<and> c + 1 > n")
      case True
      with nx unf(1) [of "(l, c)" acc] unf(2) [OF ctx, of adapt n c] show ?thesis by simp
    next
      case False
      then show ?thesis using nx forEach_loop_same [OF _ ctx l'(1)] by auto
    qed
    with Cons.hyps(1) [of l' c xs acc] Cons.hyps(1) [of l' "c + 1" xs acc] l' Inl tx Cons.prems(2)
      end_error_cong [OF l'(2)] show ?thesis by (auto split: if_splits)
  qed
qed

section \<open>Properties\<close>

text \<open>What \<^const>\<open>collect\<close> keeps, without its recursion.\<close>

definition oks :: "('e + 'a) list \<Rightarrow> 'a list" where
  "oks rs = map projr (filter (\<lambda>r. \<not> isl r) rs)"

lemma oks_simps [simp]: "oks [] = []" "oks (Inr x # rs) = x # oks rs" "oks (Inl e # rs) = oks rs"
  by (simp_all add: oks_def)

lemma set_oks: "set (oks rs) = {x. Inr x \<in> set rs}"
  by (force simp: oks_def image_iff isl_def split: sum.splits)

lemma collect_unlimited: "collect NoErrorLimit c rs = (oks rs, False)"
  by (induction NoErrorLimit c rs rule: collect.induct) auto

lemma collect_limited:
  "0 \<le> n \<Longrightarrow> c \<le> n \<Longrightarrow> collect n c rs = (xs, tooMany) \<Longrightarrow>
   tooMany = (int (length (filter isl rs)) > n - c) \<and>
   (\<not> tooMany \<longrightarrow> xs = oks rs)"
proof (induction n c rs arbitrary: xs tooMany rule: collect.induct)
  case (2 n c x rs)
  then show ?case by (cases "collect n c rs") auto
next
  case (3 n c e rs)
  then show ?case by (auto simp: NoErrorLimit_def split: if_splits)
qed simp

lemma normalize_error:
  "normalizeHostsListEntry compile_ok toASCII h = Inl e \<Longrightarrow> \<not> IsNonResumableErr e"
  by (auto simp: normalizeHostsListEntry_def validateHostsListEntry_def validateDomainName_def Let_def
      split: if_splits option.splits)

lemma validateHosts_error: "validateHosts hs = Some e \<Longrightarrow> \<not> IsNonResumableErr e"
  by (induction hs) (auto simp: validateDomainName_def split: if_splits)

lemma hostListEntry_error:
  "HostListEntry_UnmarshalText compile_ok toASCII d = Inl e \<Longrightarrow> \<not> IsNonResumableErr e"
  by (auto simp: HostListEntry_UnmarshalText_def Let_def split: sum.splits list.splits dest: normalize_error)

lemma hostsFileEntry_error: "HostsFileEntry_UnmarshalText d = Inl e \<Longrightarrow> \<not> IsNonResumableErr e"
  by (auto simp: HostsFileEntry_UnmarshalText_def Let_def split: option.splits list.splits prod.splits
      dest: validateHosts_error)

lemma wildcardEntry_error: "WildcardEntry_UnmarshalText d = Inl e \<Longrightarrow> \<not> IsNonResumableErr e"
  by (auto simp: WildcardEntry_UnmarshalText_def Let_def split: if_splits)

lemma hosts_resumable: "resumable (HostsIterator_UnmarshalText compile_ok toASCII)"
  unfolding resumable_def HostsIterator_UnmarshalText_def
  by (auto split: sum.splits dest: hostListEntry_error hostsFileEntry_error wildcardEntry_error)

lemma hostsFile_resumable: "resumable HostsFileEntry_UnmarshalText"
  by (simp add: resumable_def hostsFileEntry_error)

text \<open>What each host that a list contributes has to be.\<close>

definition valid_host :: "(string \<Rightarrow> bool) \<Rightarrow> string \<Rightarrow> bool" where
  "valid_host compile_ok h \<longleftrightarrow> ParseIP h \<noteq> None \<or> (isRegex h \<and> compile_ok h) \<or>
     (length h \<le> maxDomainNameLength \<and> domainNameRegex h) \<or>
     (hasPrefix h ''*.'' \<and> countByte h CHR ''*'' = 1)"

lemma normalize_valid: "normalizeHostsListEntry compile_ok toASCII h0 = Inr h \<Longrightarrow> valid_host compile_ok h"
  by (auto simp: normalizeHostsListEntry_def validateHostsListEntry_def validateDomainName_def valid_host_def Let_def
      split: if_splits option.splits)

lemma validateHosts_valid: "validateHosts hs = None \<Longrightarrow> h \<in> set hs \<Longrightarrow> valid_host compile_ok h"
  by (induction hs) (auto simp: validateDomainName_def valid_host_def split: if_splits option.splits)

lemma hostListEntry_valid:
  "HostListEntry_UnmarshalText compile_ok toASCII d = Inr h \<Longrightarrow> valid_host compile_ok h"
  by (auto simp: HostListEntry_UnmarshalText_def Let_def split: sum.splits list.splits dest: normalize_valid)

lemma hostsFileEntry_hosts:
  "HostsFileEntry_UnmarshalText d = Inr e \<Longrightarrow>
   drop 1 (scanWords d []) = hf_Name e # hf_Aliases e \<and> validateHosts (drop 1 (scanWords d [])) = None"
  by (auto simp: HostsFileEntry_UnmarshalText_def Let_def split: option.splits list.splits prod.splits)

lemma hostsFileEntry_valid:
  "HostsFileEntry_UnmarshalText d = Inr e \<Longrightarrow> h \<in> set (hf_Name e # hf_Aliases e) \<Longrightarrow> valid_host compile_ok h"
  using hostsFileEntry_hosts [of d e] validateHosts_valid [of "hf_Name e # hf_Aliases e" h] by metis

lemma countByte_hasPrefix: "hasPrefix h (c # p) \<Longrightarrow> countByte h c > 0"
  by (cases h) (auto simp: hasPrefix_def countByte_def)

lemma wildcardEntry_valid: "WildcardEntry_UnmarshalText d = Inr w \<Longrightarrow> valid_host compile_ok w"
  using countByte_hasPrefix [of w "CHR ''*''" "''.''"]
  by (auto simp: WildcardEntry_UnmarshalText_def valid_host_def Let_def split: if_splits)

lemma hostsIterator_valid:
  "HostsIterator_UnmarshalText compile_ok toASCII d = Inr it \<Longrightarrow> h \<in> set (forEachHost it) \<Longrightarrow>
   valid_host compile_ok h"
  by (auto simp: HostsIterator_UnmarshalText_def split: sum.splits
      dest: hostListEntry_valid hostsFileEntry_valid wildcardEntry_valid)

text \<open>
  A run over a whole source, as \<open>parseFile\<close> and the hosts file resolver start it: the
  hosts of a list in the order they are passed on.
\<close>

definition list_run ::
    "(string \<Rightarrow> bool) \<Rightarrow> (string \<Rightarrow> string option) \<Rightarrow> int \<Rightarrow> string \<Rightarrow> parse_error option \<Rightarrow>
     (parse_error option \<times> (lines \<times> int) \<times> string list) option" where
  "list_run compile_ok toASCII n content readErr =
     ForEach (AllowErrors (Hosts compile_ok toASCII) n)
       (\<lambda>it acc. (None, acc @ forEachHost it)) (newLines content readErr [], 0) []"

definition list_items ::
    "(string \<Rightarrow> bool) \<Rightarrow> (string \<Rightarrow> string option) \<Rightarrow> string \<Rightarrow> (parse_error + HostsIterator) list" where
  "list_items compile_ok toASCII content =
     map (HostsIterator_UnmarshalText compile_ok toASCII) (texts (fst (scanLines content None)))"

lemma fold_append_concat: "fold (\<lambda>x acc. acc @ f x) xs acc = acc @ concat (map f xs)"
  by (induction xs arbitrary: acc) auto

lemma scanLines_fst: "fst (scanLines c e) = fst (scanLines c e')"
  by (simp add: scanLines_def Let_def)

lemma allow_ForEach_collect:
  assumes "resumable adapt" and "collect n 0 (map adapt (texts (fst (scanLines content None)))) = (xs, tooMany)"
  shows "\<exists>s' err. ForEach (AllowErrors (TryAdapt Lines adapt) n) (\<lambda>x acc. (None, f x acc))
      (newLines content readErr [], 0) acc = Some (err, s', fold f xs acc) \<and>
    (err = None \<longleftrightarrow> \<not> tooMany \<and> end_error (newLines content readErr []) = None)"
proof -
  let ?l = "newLines content readErr []"
  have l: "ctxLog ?l = []" "scanner ?l = fst (scanLines content None)"
    using scanLines_fst [of content readErr None] by (auto simp: newLines_def split: prod.splits)
  obtain s' where "forEach_loop (AllowErrors (TryAdapt Lines adapt) n)
      (\<lambda>x acc. (None, f x acc)) (?l, 0) acc =
      Some (if tooMany then Some TooManyErrors else end_error ?l, s', fold f xs acc)"
    using forEach_loop_collect [OF assms(1) l(1), of n 0 xs tooMany f acc] assms(2) l(2) by auto
  then show ?thesis
    by (auto simp: ForEach_def ErrWithPosition_def split: option.splits)
qed

lemma hosts_ForEach_collect:
  assumes "collect n 0 (list_items compile_ok toASCII content) = (xs, tooMany)"
  shows "\<exists>s' err. ForEach (AllowErrors (Hosts compile_ok toASCII) n) (\<lambda>it acc. (None, f it acc))
      (newLines content readErr [], 0) acc = Some (err, s', fold f xs acc) \<and>
    (err = None \<longleftrightarrow> \<not> tooMany \<and> end_error (newLines content readErr []) = None)"
  using allow_ForEach_collect [OF hosts_resumable] assms by (auto simp: Hosts_def list_items_def)

lemma list_run_collect:
  assumes "collect n 0 (list_items compile_ok toASCII content) = (xs, tooMany)"
  shows "\<exists>s' err. list_run compile_ok toASCII n content readErr = Some (err, s', concat (map forEachHost xs)) \<and>
    (err = None \<longleftrightarrow> \<not> tooMany \<and> end_error (newLines content readErr []) = None)"
  using hosts_ForEach_collect [OF assms, of "\<lambda>it acc. acc @ forEachHost it" readErr "[]"]
  by (simp add: list_run_def fold_append_concat)

text \<open>Whether the invalid lines of a source stay within the limit.\<close>

definition within_limit :: "int \<Rightarrow> ('e + 'a) list \<Rightarrow> bool" where
  "within_limit n items \<longleftrightarrow> n = NoErrorLimit \<or> 0 \<le> n \<and> int (length (filter isl items)) \<le> n"

lemma collect_within_limit: "within_limit n items \<Longrightarrow> collect n 0 items = (oks items, False)"
  using collect_unlimited [of 0 items] collect_limited [of n 0 items "fst (collect n 0 items)" "snd (collect n 0 items)"]
  by (cases "collect n 0 items") (auto simp: within_limit_def)

text \<open>
  C33. Reading a list with \<open>ForEach\<close> over \<open>AllowErrors(Hosts(r), n)\<close> always returns. Without a
  limit, the hosts passed on are those of exactly the lines that unmarshal, in the order
  of the source, whatever invalid lines stand between them, and no parse error is
  returned. With a limit, the same holds as long as at most \<open>n\<close> lines are invalid, and the
  run ends with an error as soon as there are more.
\<close>

theorem list_run_hosts:
  "\<exists>err s' hosts. list_run compile_ok toASCII n content readErr = Some (err, s', hosts) \<and>
    (let items = list_items compile_ok toASCII content in
     (within_limit n items \<longrightarrow>
       hosts = concat (map forEachHost (oks items)) \<and>
       (err = None \<longleftrightarrow> end_error (newLines content readErr []) = None)) \<and>
     (0 \<le> n \<and> int (length (filter isl items)) > n \<longrightarrow> err \<noteq> None))"
proof -
  let ?items = "list_items compile_ok toASCII content"
  obtain xs tooMany where c: "collect n 0 ?items = (xs, tooMany)" by force
  have li: "0 \<le> n \<and> int (length (filter isl ?items)) > n \<Longrightarrow> tooMany"
    using collect_limited [OF _ _ c] by simp
  from list_run_collect [OF c, of readErr] collect_within_limit [of n ?items] c li show ?thesis
    by (auto simp: Let_def)
qed

definition example_list :: string where
  "example_list = ''# ads'' @ [CHR 0x0A] @ ''ads.com'' @ [CHR 0x0A] @ ''bad host'' @ [CHR 0x0A] @
     ''127.0.0.1 a.b c'' @ [CHR 0x0A]"

theorem list_run_hosts_witness:
  "\<exists>err s'. list_run (\<lambda>_. True) Some 1 example_list None = Some (err, s', [''ads.com'', ''a.b'', ''c'']) \<and>
     err = None"
proof -
  let ?items = "list_items (\<lambda>_. True) Some example_list"
  have 1: "int (length (filter isl ?items)) \<le> 1" by code_simp
  have 2: "concat (map forEachHost (oks ?items)) = [''ads.com'', ''a.b'', ''c'']" by code_simp
  have 3: "end_error (newLines example_list None []) = None" by code_simp
  show ?thesis using list_run_hosts [of "\<lambda>_. True" Some 1 example_list None] 1 2 3
    by (auto simp: Let_def within_limit_def)
qed

text \<open>
  Every host a list contributes is an IP address, a regular expression that compiles,
  a domain name of at most 255 characters over the permitted label characters, or a
  wildcard with one leading star.
\<close>

theorem list_run_hosts_valid:
  assumes "list_run compile_ok toASCII n content readErr = Some (err, s', hosts)" and "h \<in> set hosts"
  shows "valid_host compile_ok h"
proof -
  obtain xs tooMany where c: "collect n 0 (list_items compile_ok toASCII content) = (xs, tooMany)" by force
  have sub: "Inr ` set xs \<subseteq> set rs" if "collect n k rs = (xs, b)" for k rs and xs :: "HostsIterator list" and b
    using that by (induction n k rs arbitrary: xs b rule: collect.induct)
      (fastforce split: prod.splits if_splits)+
  from list_run_collect [OF c, of readErr] assms obtain it where "it \<in> set xs" "h \<in> set (forEachHost it)"
    by auto
  with sub [OF c] show ?thesis by (auto simp: list_items_def dest!: subsetD intro: hostsIterator_valid [OF sym])
qed

theorem list_run_hosts_valid_witness:
  "valid_host (\<lambda>_. True) ''a.b''"
proof -
  let ?items = "list_items (\<lambda>_. True) Some example_list"
  obtain xs tooMany where c: "collect 1 0 ?items = (xs, tooMany)" by force
  have "''a.b'' \<in> set (concat (map forEachHost (fst (collect 1 0 ?items))))" by code_simp
  moreover obtain s' err where
    "list_run (\<lambda>_. True) Some 1 example_list None = Some (err, s', concat (map forEachHost xs))"
    using list_run_collect [OF c, of None] by blast
  ultimately show ?thesis using list_run_hosts_valid c by fastforce
qed

end
