(* ===== verification/List_Cache.thy ===== *)
theory List_Cache
  imports String_Caches Parsers "HOL-Library.Multiset"
begin

text \<open>
  Package \<open>lists\<close> and the parts of package \<open>config\<close> it is driven by: byte sources, their
  openers, the downloader, and the list cache that turns the sources of every group into
  the chained string cache of the group.

  Parameters: \<open>compile\<close> and \<open>toASCII\<close> as in the theories below; \<open>retry\<close>, the function
  \<open>Do\<close> of package \<open>retry-go\<close>; the record \<open>parcour\<close>, what the job groups and producers of
  package \<open>parcour\<close> return for the results of their jobs. Concurrent producers are
  sequences: \<open>run_producers\<close> decides in which order the consumer receives the hosts.
\<close>

section \<open>Byte sources\<close>

type_synonym BytesSourceType = "16 word"

definition BytesSourceTypeText :: BytesSourceType where "BytesSourceTypeText = 1"
definition BytesSourceTypeHttp :: BytesSourceType where "BytesSourceTypeHttp = 2"
definition BytesSourceTypeFile :: BytesSourceType where "BytesSourceTypeFile = 3"

definition BytesSourceType_String :: "BytesSourceType \<Rightarrow> string" where
  "BytesSourceType_String x =
     (if x = BytesSourceTypeText then ''text'' else if x = BytesSourceTypeHttp then ''http''
      else if x = BytesSourceTypeFile then ''file''
      else ''BytesSourceType('' @ showNat (unat x) @ '')'')"

record BytesSource =
  bs_Type :: BytesSourceType
  bs_From :: string

definition maxTextSourceDisplayLen :: nat where "maxTextSourceDisplayLen = 12"

text \<open>The test that sets \<open>truncated\<close> runs after \<open>text\<close> was cut at the line end.\<close>

definition BytesSource_String :: "BytesSource \<Rightarrow> go_panic + string" where
  "BytesSource_String s =
     (if bs_Type s = BytesSourceTypeHttp then Inr (bs_From s)
      else if bs_Type s = BytesSourceTypeFile then Inr (''file://'' @ bs_From s)
      else if bs_Type s \<noteq> BytesSourceTypeText
        then Inr (''unknown source ('' @ BytesSourceType_String (bs_Type s) @ '': '' @ bs_From s @ '')'')
      else
        let text0 = bs_From s;
            (text1, truncated1) =
              (case indexByte text0 CHR 0x0A of
                 None \<Rightarrow> (text0, False)
               | Some idx \<Rightarrow> let text = take idx text0 in (text, idx < length text));
            (text2, truncated2) =
              (if length text1 > maxTextSourceDisplayLen then (take maxTextSourceDisplayLen text1, True)
               else (text1, truncated1))
        in if truncated2
           then (if length text2 < maxTextSourceDisplayLen then Inl SliceOutOfRange
                 else Inr (take maxTextSourceDisplayLen text2 @ ''...''))
           else Inr text2)"

definition BytesSource_UnmarshalText :: "string \<Rightarrow> BytesSource" where
  "BytesSource_UnmarshalText source =
     (if CHR 0x0A \<in> set source then \<lparr>bs_Type = BytesSourceTypeText, bs_From = source\<rparr>
      else if hasPrefix source ''http'' then \<lparr>bs_Type = BytesSourceTypeHttp, bs_From = source\<rparr>
      else \<lparr>bs_Type = BytesSourceTypeFile, bs_From = trimPrefix source ''file://''\<rparr>)"

definition NewBytesSources :: "string list \<Rightarrow> BytesSource list" where
  "NewBytesSources sources = map BytesSource_UnmarshalText sources"

definition inlineList :: "string list \<Rightarrow> string" where
  "inlineList ls = joinStr [CHR 0x0A] ls @ [CHR 0x0A]"

definition TextBytesSource :: "string list \<Rightarrow> BytesSource" where
  "TextBytesSource ls = \<lparr>bs_Type = BytesSourceTypeText, bs_From = inlineList ls\<rparr>"

section \<open>Errors\<close>

datatype load_error =
    TransientError load_error
  | NetErr string bool
  | StatusCode nat
  | RequestErr string
  | FileErr string
  | CannotOpen string
  | ParseErr parse_error
  | PanicErr string
  | Joined "load_error list"

text \<open>\<open>errors.As(err, &transientErr)\<close>\<close>

fun is_transient :: "load_error \<Rightarrow> bool" where
  "is_transient (TransientError e) = True"
| "is_transient (Joined es) = list_ex is_transient es"
| "is_transient _ = False"

section \<open>The downloader\<close>

text \<open>
  A body is its text and the error reading it ends with, if any. The state of a download
  holds the results of the HTTP requests to come, the body kept, how many bodies were
  closed, and the links published as failed downloads.
\<close>

type_synonym body = "string \<times> parse_error option"

datatype http_result = HttpResp nat body | HttpErr string bool | BadRequest string

record dl_state =
  requests :: "http_result list"
  dl_body :: "body option"
  closed :: nat
  failed :: "string list"

text \<open>
  One attempt. The flag of \<^const>\<open>HttpErr\<close> says whether the error is a \<open>net.Error\<close> that
  reports a timeout. An exhausted list of results stands for a request that fails.
\<close>

definition download_attempt :: "dl_state \<Rightarrow> load_error option \<times> dl_state" where
  "download_attempt s =
     (case requests s of
        [] \<Rightarrow> (Some (NetErr ''no response'' False), s)
      | BadRequest e # rs \<Rightarrow> (Some (RequestErr e), s\<lparr>requests := rs\<rparr>)
      | HttpResp status b # rs \<Rightarrow>
          if status = 200 then (None, s\<lparr>requests := rs, dl_body := Some b\<rparr>)
          else (Some (StatusCode status), s\<lparr>requests := rs, closed := closed s + 1\<rparr>)
      | HttpErr e timeout # rs \<Rightarrow>
          (Some (if timeout then TransientError (NetErr e True) else NetErr e False), s\<lparr>requests := rs\<rparr>))"

definition onDownloadError :: "string \<Rightarrow> dl_state \<Rightarrow> dl_state" where
  "onDownloadError link s = s\<lparr>failed := failed s @ [link]\<rparr>"

type_synonym retry_do =
  "nat \<Rightarrow> (dl_state \<Rightarrow> load_error option \<times> dl_state) \<Rightarrow> (dl_state \<Rightarrow> dl_state) \<Rightarrow> dl_state \<Rightarrow>
   load_error option \<times> dl_state"

definition DownloadFile ::
    "retry_do \<Rightarrow> nat \<Rightarrow> string \<Rightarrow> http_result list \<Rightarrow> (body option \<times> load_error option) \<times> dl_state" where
  "DownloadFile retry attempts link reqs =
     (case retry attempts download_attempt (onDownloadError link)
             \<lparr>requests = reqs, dl_body = None, closed = 0, failed = []\<rparr> of
        (err, s) \<Rightarrow> ((dl_body s, err), s))"

section \<open>Source openers\<close>

datatype SourceOpener =
    textOpener BytesSource string
  | httpOpener BytesSource
  | fileOpener BytesSource

record source_env =
  env_download :: "string \<Rightarrow> load_error + body"
  env_open :: "string \<Rightarrow> load_error + body"

definition NewSourceOpener :: "string \<Rightarrow> BytesSource \<Rightarrow> load_error + SourceOpener" where
  "NewSourceOpener txtLocInfo source =
     (if bs_Type source = BytesSourceTypeText then Inr (textOpener source txtLocInfo)
      else if bs_Type source = BytesSourceTypeHttp then Inr (httpOpener source)
      else if bs_Type source = BytesSourceTypeFile then Inr (fileOpener source)
      else Inl (CannotOpen (bs_From source)))"

fun opener_Open :: "source_env \<Rightarrow> SourceOpener \<Rightarrow> load_error + body" where
  "opener_Open env (textOpener source locInfo) = Inr (bs_From source, None)"
| "opener_Open env (httpOpener source) = env_download env (bs_From source)"
| "opener_Open env (fileOpener source) = env_open env (bs_From source)"

fun opener_String :: "SourceOpener \<Rightarrow> go_panic + string" where
  "opener_String (textOpener source locInfo) =
     (case BytesSource_String source of Inl p \<Rightarrow> Inl p | Inr s \<Rightarrow> Inr (locInfo @ '': '' @ s))"
| "opener_String (httpOpener source) = BytesSource_String source"
| "opener_String (fileOpener source) = BytesSource_String source"

section \<open>The list cache\<close>

record ListCache =
  groupedCache :: ChainedGroupedCache
  maxErrorsPerSource :: int
  groupSources :: "(string \<times> BytesSource list) list"
  published :: "(string \<times> nat) list"

definition newListCache :: "int \<Rightarrow> (string \<times> BytesSource list) list \<Rightarrow> ListCache" where
  "newListCache maxErr sources =
     \<lparr>groupedCache = [NewInMemoryGroupedRegexCache, NewInMemoryGroupedWildcardCache,
                      NewInMemoryGroupedStringCache],
      maxErrorsPerSource = maxErr, groupSources = sources, published = []\<rparr>"

definition Match :: "ListCache \<Rightarrow> string \<Rightarrow> string list \<Rightarrow> string list" where
  "Match b domain groupsToCheck = chain_Contains (groupedCache b) domain groupsToCheck"

text \<open>An address is written the way Go prints it.\<close>

definition canonicalHost :: "string \<Rightarrow> string" where
  "canonicalHost host = (case ParseIP host of Some ip \<Rightarrow> IP_String ip | None \<Rightarrow> host)"

definition compile_ok :: "regexp_compile \<Rightarrow> string \<Rightarrow> bool" where
  "compile_ok compile p \<longleftrightarrow> compile p \<noteq> None"

text \<open>
  The hosts sent to the channel and the error returned; \<open>ctx\<close> is what \<open>ctx.Err()\<close> returns
  at its successive calls. The variable \<open>count\<close> is the number of hosts sent.
\<close>

definition parseFile ::
    "regexp_compile \<Rightarrow> (string \<Rightarrow> string option) \<Rightarrow> int \<Rightarrow> source_env \<Rightarrow> string option list \<Rightarrow> SourceOpener \<Rightarrow>
     (string list \<times> load_error option) option" where
  "parseFile compile toASCII maxErr env ctx opener =
     (case opener_Open env opener of
        Inl err \<Rightarrow> Some ([], Some err)
      | Inr (content, readErr) \<Rightarrow>
          map_option (\<lambda>(err, s, sent).
              case err of
                Some e \<Rightarrow> (sent, if length sent = 0 then Some (ParseErr e) else None)
              | None \<Rightarrow> (sent, None))
            (ForEach (AllowErrors (Hosts (compile_ok compile) toASCII) maxErr)
               (\<lambda>it sent. (None, sent @ map canonicalHost (forEachHost it)))
               (newLines content readErr ctx, 0) []))"

text \<open>The producer started for the source at position \<open>i\<close> of a group.\<close>

definition produce ::
    "regexp_compile \<Rightarrow> (string \<Rightarrow> string option) \<Rightarrow> int \<Rightarrow> source_env \<Rightarrow> string option list \<Rightarrow> string \<Rightarrow>
     nat \<Rightarrow> BytesSource \<Rightarrow> (string list \<times> load_error option) option" where
  "produce compile toASCII maxErr env ctx grp i source =
     (case NewSourceOpener (''item #'' @ showNat i @ '' of group '' @ grp) source of
        Inl err \<Rightarrow> Some ([], Some err)
      | Inr opener \<Rightarrow> parseFile compile toASCII maxErr env ctx opener)"

fun produceAll ::
    "regexp_compile \<Rightarrow> (string \<Rightarrow> string option) \<Rightarrow> int \<Rightarrow> source_env \<Rightarrow> (nat \<Rightarrow> string option list) \<Rightarrow> string \<Rightarrow>
     nat \<Rightarrow> BytesSource list \<Rightarrow> (string list \<times> load_error option) list option" where
  "produceAll compile toASCII maxErr env ctx grp i [] = Some []"
| "produceAll compile toASCII maxErr env ctx grp i (source # sources) =
     Option.bind (produce compile toASCII maxErr env (ctx i) grp i source) (\<lambda>r.
       map_option (Cons r) (produceAll compile toASCII maxErr env ctx grp (i + 1) sources))"

text \<open>The consumer: \<^const>\<open>None\<close> when adding an entry panics.\<close>

fun consume ::
    "regexp_compile \<Rightarrow> string list \<Rightarrow> bool \<Rightarrow> chainedGroupFactory \<Rightarrow> (bool \<times> chainedGroupFactory) option" where
  "consume compile [] hasEntries f = Some (hasEntries, f)"
| "consume compile (host # ch) hasEntries f =
     (case chain_AddEntry compile host f of
        None \<Rightarrow> None
      | Some (True, f') \<Rightarrow> consume compile ch True f'
      | Some (False, f') \<Rightarrow> consume compile ch hasEntries f')"

record parcour =
  run_producers :: "(string list \<times> load_error option) list \<Rightarrow> string list \<times> load_error option"
  wait_all :: "load_error option list \<Rightarrow> load_error option"

text \<open>\<^const>\<open>None\<close> where the program crashes, otherwise the error returned and the new cache.\<close>

definition createCacheForGroup ::
    "regexp_compile \<Rightarrow> (string \<Rightarrow> string option) \<Rightarrow> parcour \<Rightarrow> source_env \<Rightarrow> (nat \<Rightarrow> string option list) \<Rightarrow>
     string \<Rightarrow> BytesSource list \<Rightarrow> ListCache \<Rightarrow> (load_error option \<times> ListCache) option" where
  "createCacheForGroup compile toASCII pc env ctx grp sources b =
     Option.bind (produceAll compile toASCII (maxErrorsPerSource b) env ctx grp 0 sources) (\<lambda>results.
       case run_producers pc results of (received, err) \<Rightarrow>
         Option.bind (consume compile received False (chain_Refresh (groupedCache b) grp))
           (\<lambda>(hasEntries, groupFactory).
              let finished = b\<lparr>groupedCache := chain_Finish groupFactory (groupedCache b)\<rparr> in
              case err of
                Some e \<Rightarrow>
                  if \<not> hasEntries then Some (Some e, b)
                  else if is_transient e then Some (Some e, b)
                  else Some (None, finished)
              | None \<Rightarrow> Some (None, finished)))"

text \<open>The job of one group: the count is published after a success.\<close>

definition refreshGroup ::
    "regexp_compile \<Rightarrow> (string \<Rightarrow> string option) \<Rightarrow> parcour \<Rightarrow> source_env \<Rightarrow> (nat \<Rightarrow> string option list) \<Rightarrow>
     string \<times> BytesSource list \<Rightarrow> ListCache \<Rightarrow> (load_error option \<times> ListCache) option" where
  "refreshGroup compile toASCII pc env ctx gs b =
     (case gs of (grp, sources) \<Rightarrow>
      Option.bind (createCacheForGroup compile toASCII pc env ctx grp sources b) (\<lambda>(err, b').
        case chain_ElementCount (groupedCache b') grp of
          Inl p \<Rightarrow> None
        | Inr cnt0 \<Rightarrow>
            (case err of
               Some e \<Rightarrow> Some (Some e, b')
             | None \<Rightarrow> Some (None, b'\<lparr>published := published b' @ [(grp, cnt0)]\<rparr>))))"

text \<open>The jobs of all groups, in the order in which they finish; \<open>ctx\<close> is per group and source.\<close>

fun refresh_jobs ::
    "regexp_compile \<Rightarrow> (string \<Rightarrow> string option) \<Rightarrow> parcour \<Rightarrow> source_env \<Rightarrow> (string \<Rightarrow> nat \<Rightarrow> string option list) \<Rightarrow>
     (string \<times> BytesSource list) list \<Rightarrow> ListCache \<Rightarrow> (load_error option list \<times> ListCache) option" where
  "refresh_jobs compile toASCII pc env ctx [] b = Some ([], b)"
| "refresh_jobs compile toASCII pc env ctx (gs # rest) b =
     Option.bind (refreshGroup compile toASCII pc env (ctx (fst gs)) gs b) (\<lambda>(err, b').
       map_option (\<lambda>(errs, b''). (err # errs, b''))
         (refresh_jobs compile toASCII pc env ctx rest b'))"

definition refresh ::
    "regexp_compile \<Rightarrow> (string \<Rightarrow> string option) \<Rightarrow> parcour \<Rightarrow> source_env \<Rightarrow> (string \<Rightarrow> nat \<Rightarrow> string option list) \<Rightarrow>
     ListCache \<Rightarrow> (load_error option \<times> ListCache) option" where
  "refresh compile toASCII pc env ctx b =
     map_option (\<lambda>(errs, b'). (wait_all pc errs, b'))
       (refresh_jobs compile toASCII pc env ctx (groupSources b) b)"

section \<open>Loading at start and periodically\<close>

datatype InitStrategy = InitStrategyBlocking | InitStrategyFailOnError | InitStrategyFast

text \<open>
  A job maps the state to its result and the new state. \<open>recoverToError\<close> turns a panic of
  the job into an error.
\<close>

definition recoverToError ::
    "('w \<Rightarrow> (go_panic + load_error option) \<times> 'w) \<Rightarrow> (go_panic \<Rightarrow> load_error) \<Rightarrow> 'w \<Rightarrow> load_error option \<times> 'w" where
  "recoverToError job onPanic w =
     (case job w of (Inl p, w') \<Rightarrow> (Some (onPanic p), w') | (Inr err, w') \<Rightarrow> (err, w'))"

text \<open>
  The result: the error returned, the errors logged so far, the state, and the job left to
  a goroutine of its own.
\<close>

record 'w init_result =
  returned :: "load_error option"
  logged :: "load_error list"
  world :: 'w
  background :: "('w \<Rightarrow> load_error option \<times> 'w) option"

definition InitStrategy_Do ::
    "InitStrategy \<Rightarrow> ('w \<Rightarrow> (go_panic + load_error option) \<times> 'w) \<Rightarrow> 'w \<Rightarrow> 'w init_result" where
  "InitStrategy_Do s init0 w =
     (let init = recoverToError init0 (\<lambda>p. PanicErr ''panic during initialization'') in
      if s = InitStrategyFast
      then \<lparr>returned = None, logged = [], world = w, background = Some init\<rparr>
      else (case init w of
              (None, w') \<Rightarrow> \<lparr>returned = None, logged = [], world = w', background = None\<rparr>
            | (Some err, w') \<Rightarrow>
                \<lparr>returned = (if s = InitStrategyFailOnError then Some err else None), logged = [err],
                 world = w', background = None\<rparr>))"

text \<open>The flag says whether the periodic refresh was started.\<close>

definition StartPeriodicRefresh ::
    "InitStrategy \<Rightarrow> int \<Rightarrow> ('w \<Rightarrow> (go_panic + load_error option) \<times> 'w) \<Rightarrow> 'w \<Rightarrow> 'w init_result \<times> bool" where
  "StartPeriodicRefresh strategy refreshPeriod job w =
     (let r = InitStrategy_Do strategy job w in
      if returned r \<noteq> None then (r, False) else (r, refreshPeriod > 0))"

text \<open>The periodic loop: what the channels deliver, in order.\<close>

datatype tick = Tick | Done

fun periodically ::
    "('w \<Rightarrow> (go_panic + load_error option) \<times> 'w) \<Rightarrow> tick list \<Rightarrow> 'w \<Rightarrow> load_error list \<times> 'w" where
  "periodically job [] w = ([], w)"
| "periodically job (Done # ts) w = ([], w)"
| "periodically job (Tick # ts) w =
     (case recoverToError job (\<lambda>p. PanicErr ''panic during refresh'') w of (err, w') \<Rightarrow>
      (case periodically job ts w' of (errs, w'') \<Rightarrow>
       ((case err of None \<Rightarrow> errs | Some e \<Rightarrow> e # errs), w'')))"

text \<open>
  The constructor loads the lists the way the configured strategy says; \<^const>\<open>None\<close> where
  the first load crashes the program.
\<close>

definition NewListCache ::
    "regexp_compile \<Rightarrow> (string \<Rightarrow> string option) \<Rightarrow> parcour \<Rightarrow> source_env \<Rightarrow> (string \<Rightarrow> nat \<Rightarrow> string option list) \<Rightarrow>
     InitStrategy \<Rightarrow> int \<Rightarrow> int \<Rightarrow> (string \<times> BytesSource list) list \<Rightarrow> (load_error + ListCache) option" where
  "NewListCache compile toASCII pc env ctx strategy refreshPeriod maxErr sources =
     (let c = newListCache maxErr sources in
      map_option (\<lambda>(err, c').
          case StartPeriodicRefresh strategy refreshPeriod (\<lambda>_. (Inr err, c')) c of (r, _) \<Rightarrow>
          (case returned r of Some e \<Rightarrow> Inl e | None \<Rightarrow> Inr (world r)))
        (refresh compile toASCII pc env ctx c))"

section \<open>The invariant of a list cache\<close>

definition mem_counts :: "InMemoryGroupedCache \<Rightarrow> bool" where
  "mem_counts c \<longleftrightarrow> (\<forall>g cache. map_of (caches c) g = Some cache \<longrightarrow> (\<exists>n. cache_elementCount cache = Inr n))"

definition lists_ok :: "ListCache \<Rightarrow> bool" where
  "lists_ok b \<longleftrightarrow> three_caches (groupedCache b) \<and> (\<forall>c\<in>set (groupedCache b). mem_counts c)"

lemma lists_ok_new: "lists_ok (newListCache maxErr sources)"
  by (simp add: lists_ok_def newListCache_def three_caches_def mem_counts_def NewInMemoryGroupedRegexCache_def
      NewInMemoryGroupedWildcardCache_def NewInMemoryGroupedStringCache_def)

lemma create_counts:
  "inv_regex f \<or> inv_wildcard f \<or> inv_string f \<Longrightarrow> create f = Some c \<Longrightarrow> \<exists>n. cache_elementCount c = Inr n"
proof (elim disjE)
  assume "inv_string f" and c: "create f = Some c"
  then obtain s where s: "f = StringF s" "wf_factory s" using inv_cases(1) by blast
  with c show ?thesis using stringMap_count_created [OF s(2)] by auto
qed (auto dest!: inv_cases(2,3))

lemma mem_counts_Finish:
  assumes "mem_counts c" and "inv_regex f \<or> inv_wildcard f \<or> inv_string f"
  shows "mem_counts (mem_Finish \<lparr>gf_group = g, gf_factory = f\<rparr> c)"
  using assms(1) create_counts [OF assms(2)]
  by (auto simp: mem_counts_def mem_Finish_def split: option.splits if_splits)

lemma chain_counts_Finish:
  assumes "chain_inv g fs" and "\<forall>c\<in>set cs. mem_counts c" and "three_caches cs"
  shows "\<forall>c\<in>set (chain_Finish fs cs). mem_counts c"
proof -
  obtain r w s where fs: "fs = map (\<lambda>f. \<lparr>gf_group = g, gf_factory = f\<rparr>) [r, w, s]"
    and inv: "inv_regex r" "inv_wildcard w" "inv_string s"
    using assms(1) by (auto simp: chain_inv_def)
  moreover obtain a b c where "cs = [a, b, c]" using assms(3) by (auto simp: three_caches_def)
  ultimately show ?thesis using assms(2) by (auto intro: mem_counts_Finish)
qed

lemma lists_ok_Finish:
  "lists_ok b \<Longrightarrow> chain_inv g fs \<Longrightarrow>
   lists_ok (b\<lparr>groupedCache := chain_Finish fs (groupedCache b)\<rparr>)"
  using chain_Finish_spec(1) [of "groupedCache b" g fs] chain_counts_Finish [of g fs "groupedCache b"]
  by (simp add: lists_ok_def)

lemma lists_ok_published [simp]: "lists_ok (b\<lparr>published := p\<rparr>) \<longleftrightarrow> lists_ok b"
  by (simp add: lists_ok_def)

lemma chain_count_returns: "\<forall>c\<in>set cs. mem_counts c \<Longrightarrow> \<exists>n. chain_ElementCount cs g = Inr n"
proof (induction cs)
  case (Cons c cs)
  then obtain m where "chain_ElementCount cs g = Inr m" by auto
  moreover have "\<exists>n. mem_ElementCount c g = Inr n"
    using Cons.prems by (auto simp: mem_ElementCount_def mem_counts_def split: option.splits)
  ultimately show ?case by auto
qed simp

section \<open>Loading a group\<close>

lemma parseFile_returns: "\<exists>r. parseFile compile toASCII maxErr env ctx opener = Some r"
proof (cases "opener_Open env opener")
  case (Inr c)
  let ?run = "ForEach (AllowErrors (Hosts (compile_ok compile) toASCII) maxErr)
      (\<lambda>it sent. (None, sent @ map canonicalHost (forEachHost it))) (newLines (fst c) (snd c) ctx, 0) []"
  obtain r where "?run = Some r"
    using hosts_allow.ForEach_returns [of "compile_ok compile" toASCII maxErr
        "\<lambda>it sent. (None, sent @ map canonicalHost (forEachHost it))" "(newLines (fst c) (snd c) ctx, 0)" "[]"]
    by blast
  with Inr show ?thesis by (cases c) (simp add: parseFile_def)
qed (simp add: parseFile_def)

lemma produce_returns: "\<exists>r. produce compile toASCII maxErr env ctx grp i source = Some r"
  using parseFile_returns by (auto simp: produce_def split: sum.splits)

lemma produceAll_returns: "\<exists>rs. produceAll compile toASCII maxErr env ctx grp i sources = Some rs"
proof (induction sources arbitrary: i)
  case (Cons source sources)
  obtain rs where "produceAll compile toASCII maxErr env ctx grp (i + 1) sources = Some rs"
    using Cons by blast
  with produce_returns [of compile toASCII maxErr env "ctx i" grp i source] show ?case by auto
qed simp

lemma consume_slash:
  "chain_inv g f \<Longrightarrow> ''/'' \<in> set hs \<Longrightarrow> consume compile hs h0 f = None"
proof (induction hs arbitrary: h0 f)
  case (Cons h hs)
  show ?case
  proof (cases "h = ''/''")
    case True
    obtain r w s where "f = \<lparr>gf_group = g, gf_factory = RegexF r\<rparr> #
        map (\<lambda>f. \<lparr>gf_group = g, gf_factory = f\<rparr>) [w, s]"
      using Cons.prems(1) inv_cases(2) by (fastforce simp: chain_inv_def)
    with True show ?thesis
      by (simp add: mem_AddEntry_def regexFactory_addEntry_def hasPrefix_def hasSuffix_def)
  next
    case False
    then obtain f' where "chain_AddEntry compile h f = Some (True, f')" "chain_inv g f'"
      using chain_AddEntry_spec [OF Cons.prems(1)] by blast
    with False Cons show ?thesis by simp
  qed
qed simp

lemma consume_spec:
  "chain_inv g f \<Longrightarrow> ''/'' \<notin> set hs \<Longrightarrow>
   \<exists>f'. consume compile hs h0 f = Some (h0 \<or> hs \<noteq> [], f') \<and> chain_inv g f' \<and>
     (\<forall>q. chain_sem f' q \<longleftrightarrow> chain_sem f q \<or> (\<exists>h\<in>set hs. entry_matches compile h q))"
proof (induction hs arbitrary: h0 f)
  case (Cons h hs)
  then obtain f1 where f1: "chain_AddEntry compile h f = Some (True, f1)" "chain_inv g f1"
    "\<forall>q. chain_sem f1 q \<longleftrightarrow> chain_sem f q \<or> entry_matches compile h q"
    using chain_AddEntry_spec [OF Cons.prems(1), of h compile] by auto
  from Cons.IH [OF f1(2), of True] Cons.prems(2) obtain f2 where
    "consume compile hs True f1 = Some (True, f2)" "chain_inv g f2"
    "\<forall>q. chain_sem f2 q \<longleftrightarrow> chain_sem f1 q \<or> (\<exists>h\<in>set hs. entry_matches compile h q)" by auto
  with f1 show ?case by auto
qed auto

text \<open>
  What package \<open>parcour\<close> documents: the consumer receives what the producers sent, in some
  order, and waiting returns an error exactly if a job failed.
\<close>

definition parcour_ok :: "parcour \<Rightarrow> bool" where
  "parcour_ok pc \<longleftrightarrow>
     (\<forall>rs. mset (fst (run_producers pc rs)) = mset (concat (map fst rs)) \<and>
           (snd (run_producers pc rs) = None \<longleftrightarrow> (\<forall>r\<in>set rs. snd r = None))) \<and>
     (\<forall>es. wait_all pc es = None \<longleftrightarrow> (\<forall>e\<in>set es. e = None))"

lemma parcour_ok_set: "parcour_ok pc \<Longrightarrow> set (fst (run_producers pc rs)) = (\<Union>r\<in>set rs. set (fst r))"
proof -
  assume "parcour_ok pc"
  then have "mset (fst (run_producers pc rs)) = mset (concat (map fst rs))" by (simp add: parcour_ok_def)
  from mset_eq_setD [OF this] show ?thesis by simp
qed

lemma parcour_ok_None: "parcour_ok pc \<Longrightarrow> snd (run_producers pc rs) = None \<longleftrightarrow> (\<forall>r\<in>set rs. snd r = None)"
  by (simp add: parcour_ok_def)

text \<open>The hosts the sources of a group send, and whether the group is to keep its old cache.\<close>

definition group_results ::
    "regexp_compile \<Rightarrow> (string \<Rightarrow> string option) \<Rightarrow> int \<Rightarrow> source_env \<Rightarrow> (nat \<Rightarrow> string option list) \<Rightarrow> string \<Rightarrow>
     BytesSource list \<Rightarrow> (string list \<times> load_error option) list" where
  "group_results compile toASCII maxErr env ctx grp sources =
     the (produceAll compile toASCII maxErr env ctx grp 0 sources)"

definition sent_hosts :: "(string list \<times> load_error option) list \<Rightarrow> string set" where
  "sent_hosts rs = (\<Union>r\<in>set rs. set (fst r))"

definition group_fails :: "parcour \<Rightarrow> (string list \<times> load_error option) list \<Rightarrow> bool" where
  "group_fails pc rs =
     (case snd (run_producers pc rs) of None \<Rightarrow> False | Some e \<Rightarrow> sent_hosts rs = {} \<or> is_transient e)"

lemma createCacheForGroup_spec:
  fixes b :: ListCache and compile :: regexp_compile and toASCII env ctx grp sources
  assumes "lists_ok b" and "parcour_ok pc"
  defines "rs \<equiv> group_results compile toASCII (maxErrorsPerSource b) env ctx grp sources"
  shows "''/'' \<in> sent_hosts rs \<Longrightarrow> createCacheForGroup compile toASCII pc env ctx grp sources b = None"
    and "''/'' \<notin> sent_hosts rs \<Longrightarrow>
      \<exists>err cs. createCacheForGroup compile toASCII pc env ctx grp sources b = Some (err, b\<lparr>groupedCache := cs\<rparr>) \<and>
        (err \<noteq> None \<longleftrightarrow> group_fails pc rs) \<and> lists_ok (b\<lparr>groupedCache := cs\<rparr>) \<and>
        (\<forall>q h. chain_has cs q h \<longleftrightarrow>
           (if h = grp \<and> \<not> group_fails pc rs then \<exists>e\<in>sent_hosts rs. entry_matches compile e q
            else chain_has (groupedCache b) q h))"
proof -
  have all: "produceAll compile toASCII (maxErrorsPerSource b) env ctx grp 0 sources = Some rs"
    using produceAll_returns [of compile toASCII "maxErrorsPerSource b" env ctx grp 0 sources]
    by (auto simp: rs_def group_results_def)
  obtain received err where run: "run_producers pc rs = (received, err)" by force
  have recv: "set received = sent_hosts rs" using parcour_ok_set [OF assms(2), of rs] run by (simp add: sent_hosts_def)
  let ?f = "chain_Refresh (groupedCache b) grp"
  have three: "three_caches (groupedCache b)" using assms(1) by (simp add: lists_ok_def)
  have inv: "chain_inv grp ?f" and empty: "\<And>q. \<not> chain_sem ?f q"
    using chain_Refresh_inv [OF three] by auto
  show "createCacheForGroup compile toASCII pc env ctx grp sources b = None" if "''/'' \<in> sent_hosts rs"
    using consume_slash [OF inv, of received compile False] that recv all run
    by (simp add: createCacheForGroup_def)
  assume "''/'' \<notin> sent_hosts rs"
  with recv consume_spec [OF inv, of received compile False] empty obtain f' where
    c: "consume compile received False ?f = Some (received \<noteq> [], f')" and inv': "chain_inv grp f'"
    and sem: "\<And>q. chain_sem f' q \<longleftrightarrow> (\<exists>e\<in>sent_hosts rs. entry_matches compile e q)" by auto
  have fin: "chain_has (chain_Finish f' (groupedCache b)) q h \<longleftrightarrow>
      (if h = grp then \<exists>e\<in>sent_hosts rs. entry_matches compile e q else chain_has (groupedCache b) q h)" for q h
    using chain_Finish_spec(2) [OF three inv', of q h] sem by simp
  have res: "createCacheForGroup compile toASCII pc env ctx grp sources b =
      Some (if group_fails pc rs then (err, b\<lparr>groupedCache := groupedCache b\<rparr>)
            else (None, b\<lparr>groupedCache := chain_Finish f' (groupedCache b)\<rparr>))"
    and errs: "group_fails pc rs \<Longrightarrow> err \<noteq> None"
    using all run c recv by (auto simp: createCacheForGroup_def group_fails_def Let_def split: option.splits)
  show "\<exists>err cs. createCacheForGroup compile toASCII pc env ctx grp sources b = Some (err, b\<lparr>groupedCache := cs\<rparr>) \<and>
        (err \<noteq> None \<longleftrightarrow> group_fails pc rs) \<and> lists_ok (b\<lparr>groupedCache := cs\<rparr>) \<and>
        (\<forall>q h. chain_has cs q h \<longleftrightarrow>
           (if h = grp \<and> \<not> group_fails pc rs then \<exists>e\<in>sent_hosts rs. entry_matches compile e q
            else chain_has (groupedCache b) q h))"
  proof (cases "group_fails pc rs")
    case True
    then show ?thesis
      using res errs assms(1) by (intro exI [of _ err] exI [of _ "groupedCache b"]) simp
  next
    case False
    then show ?thesis
      using res fin lists_ok_Finish [OF assms(1) inv']
      by (intro exI [of _ None] exI [of _ "chain_Finish f' (groupedCache b)"]) simp
  qed
qed

lemma refreshGroup_spec:
  fixes b :: ListCache and compile :: regexp_compile and toASCII env ctx grp sources
  assumes "lists_ok b" and "parcour_ok pc"
  defines "rs \<equiv> group_results compile toASCII (maxErrorsPerSource b) env ctx grp sources"
  shows "''/'' \<in> sent_hosts rs \<Longrightarrow> refreshGroup compile toASCII pc env ctx (grp, sources) b = None"
    and "''/'' \<notin> sent_hosts rs \<Longrightarrow>
      \<exists>err cs ps. refreshGroup compile toASCII pc env ctx (grp, sources) b =
          Some (err, b\<lparr>groupedCache := cs, published := ps\<rparr>) \<and>
        (err \<noteq> None \<longleftrightarrow> group_fails pc rs) \<and> lists_ok (b\<lparr>groupedCache := cs, published := ps\<rparr>) \<and>
        (\<forall>q h. chain_has cs q h \<longleftrightarrow>
           (if h = grp \<and> \<not> group_fails pc rs then \<exists>e\<in>sent_hosts rs. entry_matches compile e q
            else chain_has (groupedCache b) q h))"
proof -
  note spec = createCacheForGroup_spec [OF assms(1,2), of compile toASCII env ctx grp sources, folded rs_def]
  show "refreshGroup compile toASCII pc env ctx (grp, sources) b = None" if "''/'' \<in> sent_hosts rs"
    using spec(1) [OF that] by (simp add: refreshGroup_def)
  assume "''/'' \<notin> sent_hosts rs"
  from spec(2) [OF this] obtain err cs where
    c: "createCacheForGroup compile toASCII pc env ctx grp sources b = Some (err, b\<lparr>groupedCache := cs\<rparr>)"
    and ok: "lists_ok (b\<lparr>groupedCache := cs\<rparr>)" and rest: "err \<noteq> None \<longleftrightarrow> group_fails pc rs"
      "\<forall>q h. chain_has cs q h \<longleftrightarrow>
           (if h = grp \<and> \<not> group_fails pc rs then \<exists>e\<in>sent_hosts rs. entry_matches compile e q
            else chain_has (groupedCache b) q h)" by blast
  obtain n where n: "chain_ElementCount cs grp = Inr n"
    using chain_count_returns [of cs grp] ok by (auto simp: lists_ok_def)
  have "refreshGroup compile toASCII pc env ctx (grp, sources) b =
      Some (err, b\<lparr>groupedCache := cs,
        published := (if err = None then published b @ [(grp, n)] else published b)\<rparr>)"
    using c n by (auto simp: refreshGroup_def split: option.splits)
  moreover have "lists_ok (b\<lparr>groupedCache := cs, published := ps\<rparr>)" for ps
    using ok by (simp add: lists_ok_def)
  ultimately show "\<exists>err cs ps. refreshGroup compile toASCII pc env ctx (grp, sources) b =
          Some (err, b\<lparr>groupedCache := cs, published := ps\<rparr>) \<and>
        (err \<noteq> None \<longleftrightarrow> group_fails pc rs) \<and> lists_ok (b\<lparr>groupedCache := cs, published := ps\<rparr>) \<and>
        (\<forall>q h. chain_has cs q h \<longleftrightarrow>
           (if h = grp \<and> \<not> group_fails pc rs then \<exists>e\<in>sent_hosts rs. entry_matches compile e q
            else chain_has (groupedCache b) q h))"
    using rest by blast
qed

section \<open>Refreshing all groups\<close>

abbreviation results_of ::
    "regexp_compile \<Rightarrow> (string \<Rightarrow> string option) \<Rightarrow> source_env \<Rightarrow> (string \<Rightarrow> nat \<Rightarrow> string option list) \<Rightarrow> int \<Rightarrow>
     string \<times> BytesSource list \<Rightarrow> (string list \<times> load_error option) list" where
  "results_of compile toASCII env ctx maxErr gs \<equiv>
     group_results compile toASCII maxErr env (ctx (fst gs)) (fst gs) (snd gs)"

text \<open>What the groups hold after a refresh, given what they held before.\<close>

definition refreshed ::
    "regexp_compile \<Rightarrow> parcour \<Rightarrow> (string \<times> BytesSource list \<Rightarrow> (string list \<times> load_error option) list) \<Rightarrow>
     (string \<times> BytesSource list) list \<Rightarrow> (string \<Rightarrow> string \<Rightarrow> bool) \<Rightarrow> string \<Rightarrow> string \<Rightarrow> bool" where
  "refreshed compile pc results groups old q g =
     (case map_of groups g of
        None \<Rightarrow> old q g
      | Some sources \<Rightarrow>
          let rs = results (g, sources) in
          if group_fails pc rs then old q g else \<exists>e\<in>sent_hosts rs. entry_matches compile e q)"

lemma refresh_jobs_spec:
  fixes b :: ListCache and compile :: regexp_compile and toASCII env ctx
  assumes "parcour_ok pc" and "lists_ok b" and "distinct (map fst groups)"
  shows "if \<exists>gs\<in>set groups. ''/'' \<in> sent_hosts (results_of compile toASCII env ctx (maxErrorsPerSource b) gs)
      then refresh_jobs compile toASCII pc env ctx groups b = None
      else \<exists>errs b'. refresh_jobs compile toASCII pc env ctx groups b = Some (errs, b') \<and> lists_ok b' \<and>
        ((\<forall>e\<in>set errs. e = None) \<longleftrightarrow>
          (\<forall>gs\<in>set groups. \<not> group_fails pc (results_of compile toASCII env ctx (maxErrorsPerSource b) gs))) \<and>
        chain_has (groupedCache b') = refreshed compile pc (results_of compile toASCII env ctx (maxErrorsPerSource b))
          groups (chain_has (groupedCache b))"
  using assms(2,3)
proof (induction groups arbitrary: b)
  case (Cons gs groups)
  let ?res = "results_of compile toASCII env ctx (maxErrorsPerSource b)"
  obtain g sources where gs: "gs = (g, sources)" by force
  note step = refreshGroup_spec [OF Cons.prems(1) assms(1), of compile toASCII env "ctx g" g sources]
  show ?case
  proof (cases "''/'' \<in> sent_hosts (?res gs)")
    case True
    then show ?thesis using step(1) gs by simp
  next
    case False
    with step(2) gs obtain err cs ps where
      r: "refreshGroup compile toASCII pc env (ctx g) (g, sources) b =
           Some (err, b\<lparr>groupedCache := cs, published := ps\<rparr>)"
      and ok: "lists_ok (b\<lparr>groupedCache := cs, published := ps\<rparr>)"
      and err: "err \<noteq> None \<longleftrightarrow> group_fails pc (?res gs)"
      and has: "\<forall>q h. chain_has cs q h \<longleftrightarrow>
           (if h = g \<and> \<not> group_fails pc (?res gs) then \<exists>e\<in>sent_hosts (?res gs). entry_matches compile e q
            else chain_has (groupedCache b) q h)" by auto
    let ?b1 = "b\<lparr>groupedCache := cs, published := ps\<rparr>"
    have "map_of groups g = None" using Cons.prems gs by (simp add: map_of_eq_None_iff)
    then have upd: "refreshed compile pc ?res groups (chain_has cs) =
        refreshed compile pc ?res (gs # groups) (chain_has (groupedCache b))"
      using has gs by (auto simp: refreshed_def fun_eq_iff Let_def split: option.splits)
    have b1: "refresh_jobs compile toASCII pc env ctx (gs # groups) b =
        map_option (\<lambda>(errs, b''). (err # errs, b'')) (refresh_jobs compile toASCII pc env ctx groups ?b1)"
      using r gs by simp
    have b1_simps: "maxErrorsPerSource ?b1 = maxErrorsPerSource b" "groupedCache ?b1 = cs"
      and dist: "distinct (map fst groups)" using Cons.prems(2) by simp_all
    have IH: "if \<exists>gs\<in>set groups. ''/'' \<in> sent_hosts (?res gs)
        then refresh_jobs compile toASCII pc env ctx groups ?b1 = None
        else \<exists>errs b'. refresh_jobs compile toASCII pc env ctx groups ?b1 = Some (errs, b') \<and> lists_ok b' \<and>
          ((\<forall>e\<in>set errs. e = None) \<longleftrightarrow> (\<forall>gs\<in>set groups. \<not> group_fails pc (?res gs))) \<and>
          chain_has (groupedCache b') = refreshed compile pc ?res groups (chain_has cs)"
      by (rule Cons.IH [OF ok dist, unfolded b1_simps])
    show ?thesis
    proof (cases "\<exists>gs\<in>set groups. ''/'' \<in> sent_hosts (?res gs)")
      case True
      then show ?thesis using IH b1 by simp
    next
      case False
      with IH obtain errs b' where i: "refresh_jobs compile toASCII pc env ctx groups ?b1 = Some (errs, b')"
        "lists_ok b'" "(\<forall>e\<in>set errs. e = None) \<longleftrightarrow> (\<forall>gs\<in>set groups. \<not> group_fails pc (?res gs))"
        "chain_has (groupedCache b') = refreshed compile pc ?res groups (chain_has cs)" by auto
      have "(\<forall>e\<in>set (err # errs). e = None) \<longleftrightarrow> (\<forall>gs\<in>set (gs # groups). \<not> group_fails pc (?res gs))"
        using i(3) err by (cases err) simp_all
      moreover have "refresh_jobs compile toASCII pc env ctx (gs # groups) b = Some (err # errs, b')"
        unfolding b1 i(1) by simp
      moreover have "\<not> (\<exists>gs\<in>set (gs # groups). ''/'' \<in> sent_hosts (?res gs))"
        using False \<open>''/'' \<notin> sent_hosts (?res gs)\<close> by simp
      ultimately show ?thesis unfolding upd [symmetric] using i(2,4) by (metis (no_types, lifting))
    qed
  qed
qed (simp add: refreshed_def fun_eq_iff)

section \<open>Properties\<close>

text \<open>A sequential instance of the job groups, used to evaluate examples.\<close>

definition first_error :: "load_error option list \<Rightarrow> load_error option" where
  "first_error es = (case filter (\<lambda>e. e \<noteq> None) es of [] \<Rightarrow> None | e # _ \<Rightarrow> e)"

definition sequential :: parcour where
  "sequential = \<lparr>run_producers = (\<lambda>rs. (concat (map fst rs), first_error (map snd rs))), wait_all = first_error\<rparr>"

lemma first_error_None: "first_error es = None \<longleftrightarrow> (\<forall>e\<in>set es. e = None)"
  by (induction es) (auto simp: first_error_def)

lemma sequential_ok: "parcour_ok sequential"
  by (auto simp: parcour_ok_def sequential_def first_error_None)

text \<open>What an inline source sends.\<close>

definition source_hosts :: "regexp_compile \<Rightarrow> (string \<Rightarrow> string option) \<Rightarrow> BytesSource \<Rightarrow> string list" where
  "source_hosts compile toASCII source =
     map canonicalHost (concat (map forEachHost (oks (list_items (compile_ok compile) toASCII (bs_From source)))))"

lemma bex_source_hosts:
  "(\<exists>e\<in>set (source_hosts compile toASCII s). P e) \<longleftrightarrow>
   (\<exists>item\<in>set (list_items (compile_ok compile) toASCII (bs_From s)).
      \<exists>it. item = Inr it \<and> (\<exists>h\<in>set (forEachHost it). P (canonicalHost h)))"
  by (simp add: source_hosts_def set_oks) blast

definition readable_text :: "regexp_compile \<Rightarrow> (string \<Rightarrow> string option) \<Rightarrow> int \<Rightarrow> BytesSource \<Rightarrow> bool" where
  "readable_text compile toASCII maxErr source \<longleftrightarrow> bs_Type source = BytesSourceTypeText \<and>
     within_limit maxErr (list_items (compile_ok compile) toASCII (bs_From source)) \<and>
     end_error (newLines (bs_From source) None []) = None"

lemma produce_text:
  assumes "readable_text compile toASCII maxErr source"
  shows "produce compile toASCII maxErr env [] grp i source = Some (source_hosts compile toASCII source, None)"
proof -
  let ?items = "list_items (compile_ok compile) toASCII (bs_From source)"
  have "collect maxErr 0 ?items = (oks ?items, False)"
    using assms collect_within_limit by (auto simp: readable_text_def)
  from hosts_ForEach_collect [OF this, of "\<lambda>it sent. sent @ map canonicalHost (forEachHost it)" None "[]"] assms
  show ?thesis
    by (auto simp: produce_def NewSourceOpener_def parseFile_def readable_text_def source_hosts_def
        fold_append_concat map_concat comp_def)
qed

lemma produceAll_text:
  "\<forall>s\<in>set sources. readable_text compile toASCII maxErr s \<Longrightarrow>
   produceAll compile toASCII maxErr env (\<lambda>_. []) grp i sources =
     Some (map (\<lambda>s. (source_hosts compile toASCII s, None)) sources)"
  by (induction sources arbitrary: i) (simp_all add: produce_text)

lemma group_results_text:
  "\<forall>s\<in>set sources. readable_text compile toASCII maxErr s \<Longrightarrow>
   group_results compile toASCII maxErr env (\<lambda>_. []) grp sources =
     map (\<lambda>s. (source_hosts compile toASCII s, None)) sources"
  by (simp add: group_results_def produceAll_text)

lemma chain_Contains_single: "chain_Contains cs q [g] = (if chain_has cs q g then [g] else [])"
proof -
  let ?r = "chain_Contains cs q [g]"
  have "set ?r = (if chain_has cs q g then {g} else {})" and "distinct ?r"
    using chain_Contains_spec [of cs q "[g]"] by auto
  then show ?thesis by (cases ?r; cases "tl ?r") (auto split: if_splits)
qed

lemma refresh_returns:
  assumes "parcour_ok pc" and "lists_ok b" and "distinct (map fst (groupSources b))"
    and "\<forall>gs\<in>set (groupSources b). ''/'' \<notin> sent_hosts (results_of compile toASCII env ctx (maxErrorsPerSource b) gs)"
  shows "\<exists>err b'. refresh compile toASCII pc env ctx b = Some (err, b')"
  using refresh_jobs_spec [OF assms(1-3), of compile toASCII env ctx] assms(4)
  by (auto simp: refresh_def)

text \<open>
  C34. Refreshing the lists never fails to return, and it crashes exactly if some source of
  some group sends the entry consisting of a single slash.
\<close>

theorem refresh_crashes_iff_slash:
  assumes "parcour_ok pc" and "lists_ok b" and "distinct (map fst (groupSources b))"
  shows "refresh compile toASCII pc env ctx b = None \<longleftrightarrow>
    (\<exists>(g, sources)\<in>set (groupSources b). ''/'' \<in> sent_hosts (group_results compile toASCII
       (maxErrorsPerSource b) env (ctx g) g sources))"
  using refresh_jobs_spec [OF assms, of compile toASCII env ctx]
  by (fastforce simp: refresh_def split: if_splits)

definition example_lists :: "string list \<Rightarrow> ListCache" where
  "example_lists ls = newListCache 1 [(''ads'', [TextBytesSource ls])]"

lemma example_lists_ok: "lists_ok (example_lists ls)" "distinct (map fst (groupSources (example_lists ls)))"
  unfolding example_lists_def by (rule lists_ok_new) (simp add: newListCache_def)

lemma example_readable: "readable_text (\<lambda>_. Some (\<lambda>_. False)) Some 1 (TextBytesSource [''/''])"
  "readable_text (\<lambda>_. Some (\<lambda>_. False)) Some 1 (TextBytesSource [''ads.com'', ''*.track.io''])"
  by code_simp+

theorem refresh_crashes_iff_slash_witness:
  "refresh (\<lambda>_. Some (\<lambda>_. False)) Some sequential \<lparr>env_download = (\<lambda>_. Inl (NetErr [] False)), env_open = (\<lambda>_. Inl (FileErr []))\<rparr> (\<lambda>_ _. []) (example_lists [''/'']) = None"
proof -
  have "''/'' \<in> set (source_hosts (\<lambda>_. Some (\<lambda>_. False)) Some (TextBytesSource [''/'']))" by code_simp
  then show ?thesis
    unfolding refresh_crashes_iff_slash [OF sequential_ok example_lists_ok]
    using group_results_text [of "[TextBytesSource [''/'']]" "\<lambda>_. Some (\<lambda>_. False)" Some 1 _ "''ads''"]
      example_readable(1)
    by (simp add: example_lists_def newListCache_def sent_hosts_def)
qed

text \<open>
  C23. A refresh replaces the content of every group whose sources could be loaded by
  exactly the entries they sent, in whatever order these arrived: the group then matches a
  name if and only if one of the entries does. A group whose sources failed (no entry at
  all, or a transient error) keeps what it matched before, and so do groups without
  sources. An error is returned exactly if some group failed, and the cache stays valid
  for the next refresh.
\<close>

theorem refresh_replaces_groups:
  assumes "parcour_ok pc" and "lists_ok b" and "distinct (map fst (groupSources b))"
    and "refresh compile toASCII pc env ctx b = Some (err, b')"
  shows "lists_ok b' \<and>
    (err = None \<longleftrightarrow> (\<forall>(g, sources)\<in>set (groupSources b).
       \<not> group_fails pc (group_results compile toASCII (maxErrorsPerSource b) env (ctx g) g sources))) \<and>
    set (Match b' q groups) = {g \<in> set groups.
       case map_of (groupSources b) g of
         None \<Rightarrow> g \<in> set (Match b q groups)
       | Some sources \<Rightarrow>
           let rs = group_results compile toASCII (maxErrorsPerSource b) env (ctx g) g sources in
           if group_fails pc rs then g \<in> set (Match b q groups)
           else \<exists>e\<in>sent_hosts rs. entry_matches compile e q}"
proof -
  let ?res = "results_of compile toASCII env ctx (maxErrorsPerSource b)"
  from assms(4) obtain errs where j: "refresh_jobs compile toASCII pc env ctx (groupSources b) b = Some (errs, b')"
    and err: "err = wait_all pc errs" by (auto simp: refresh_def)
  with refresh_jobs_spec [OF assms(1-3), of compile toASCII env ctx]
  have ok: "lists_ok b'"
    and errs: "(\<forall>e\<in>set errs. e = None) \<longleftrightarrow> (\<forall>gs\<in>set (groupSources b). \<not> group_fails pc (?res gs))"
    and has: "chain_has (groupedCache b') = refreshed compile pc ?res (groupSources b) (chain_has (groupedCache b))"
    by (auto split: if_splits)
  have "err = None \<longleftrightarrow> (\<forall>e\<in>set errs. e = None)" using assms(1) err by (simp add: parcour_ok_def)
  moreover have "set (Match b' q groups) = {g \<in> set groups. refreshed compile pc ?res (groupSources b)
      (chain_has (groupedCache b)) q g}"
    unfolding Match_def chain_Contains_spec(1) has ..
  moreover have "g \<in> set (Match b q groups) \<longleftrightarrow> g \<in> set groups \<and> chain_has (groupedCache b) q g" for g
    by (simp add: Match_def chain_Contains_spec(1))
  ultimately show ?thesis
    using ok errs by (auto simp: refreshed_def Let_def split: option.splits)
qed

definition no_env :: source_env where
  "no_env = \<lparr>env_download = (\<lambda>_. Inl (NetErr [] False)), env_open = (\<lambda>_. Inl (FileErr []))\<rparr>"

theorem refresh_replaces_groups_witness:
  "\<exists>err b'. refresh (\<lambda>_. Some (\<lambda>_. False)) Some sequential no_env (\<lambda>_ _. [])
       (example_lists [''ads.com'', ''*.track.io'']) = Some (err, b') \<and> err = None \<and>
     set (Match b' ''ADS.com'' [''ads'', ''other'']) = {''ads''}"
proof -
  let ?src = "TextBytesSource [''ads.com'', ''*.track.io'']" and ?c = "\<lambda>_. Some (\<lambda>_. False)"
  let ?b = "example_lists [''ads.com'', ''*.track.io'']"
  have rs: "group_results ?c Some (maxErrorsPerSource ?b) no_env (\<lambda>_. []) ''ads'' [?src] =
      [(source_hosts ?c Some ?src, None)]"
    using group_results_text [of "[?src]" ?c Some 1 no_env "''ads''"] example_readable(2)
    by (simp add: example_lists_def newListCache_def)
  have hosts: "source_hosts ?c Some ?src = [''ads.com'', ''*.track.io'']" by code_simp
  have src: "groupSources ?b = [(''ads'', [?src])]" by (simp add: example_lists_def newListCache_def)
  have fails: "\<not> group_fails sequential [(source_hosts ?c Some ?src, None)]"
    by (simp add: group_fails_def sequential_def first_error_def)
  have m: "entry_matches ?c ''ads.com'' ''ADS.com''" by code_simp
  obtain err b' where r: "refresh ?c Some sequential no_env (\<lambda>_ _. []) ?b = Some (err, b')"
    using refresh_returns [OF sequential_ok example_lists_ok, of "[''ads.com'', ''*.track.io'']" ?c Some no_env "\<lambda>_ _. []"] rs hosts src
    by (auto simp: sent_hosts_def)
  from refresh_replaces_groups [OF sequential_ok example_lists_ok r, of "''ADS.com''" "[''ads'', ''other'']"]
  show ?thesis using r rs src fails m hosts
    by (auto simp: sent_hosts_def Match_def chain_Contains_def example_lists_def newListCache_def
        NewInMemoryGroupedRegexCache_def NewInMemoryGroupedWildcardCache_def NewInMemoryGroupedStringCache_def)
qed

text \<open>
  C22. From the text of a list to a match. When the sources of a group are inline texts
  whose invalid lines stay within the limit, a refresh returns no error for the group, and
  afterwards the group matches a name exactly if some line of some source is valid and one
  of its hosts, with addresses in canonical form, matches the name.
\<close>

theorem text_lists_match:
  assumes "parcour_ok pc" and "lists_ok b" and "distinct (map fst (groupSources b))"
    and "refresh compile toASCII pc env (\<lambda>_ _. []) b = Some (err, b')"
    and "map_of (groupSources b) g = Some sources"
    and "\<forall>s\<in>set sources. readable_text compile toASCII (maxErrorsPerSource b) s"
  shows "Match b' q [g] =
    (if \<exists>s\<in>set sources. \<exists>item\<in>set (list_items (compile_ok compile) toASCII (bs_From s)).
          \<exists>it. item = Inr it \<and> (\<exists>h\<in>set (forEachHost it). entry_matches compile (canonicalHost h) q)
     then [g] else [])"
proof -
  let ?res = "results_of compile toASCII env (\<lambda>_ _. []) (maxErrorsPerSource b)"
  let ?rs = "map (\<lambda>s. (source_hosts compile toASCII s, None)) sources"
  have rs: "?res (g, sources) = ?rs" using group_results_text [OF assms(6), of env g] by simp
  have ok: "\<not> group_fails pc ?rs" using parcour_ok_None [OF assms(1), of ?rs] by (simp add: group_fails_def)
  from assms(4) obtain errs where "refresh_jobs compile toASCII pc env (\<lambda>_ _. []) (groupSources b) b = Some (errs, b')"
    by (auto simp: refresh_def)
  with refresh_jobs_spec [OF assms(1-3), of compile toASCII env "\<lambda>_ _. []"]
  have "chain_has (groupedCache b') q g \<longleftrightarrow> (\<exists>e\<in>sent_hosts ?rs. entry_matches compile e q)"
    using rs ok assms(5) by (auto simp: refreshed_def split: if_splits)
  also have "\<dots> \<longleftrightarrow> (\<exists>s\<in>set sources. \<exists>item\<in>set (list_items (compile_ok compile) toASCII (bs_From s)).
          \<exists>it. item = Inr it \<and> (\<exists>h\<in>set (forEachHost it). entry_matches compile (canonicalHost h) q))"
    by (simp add: sent_hosts_def bex_source_hosts)
  finally show ?thesis unfolding Match_def chain_Contains_single by (simp only:)
qed

theorem text_lists_match_witness:
  "\<exists>err b'. refresh (\<lambda>_. Some (\<lambda>_. False)) Some sequential no_env (\<lambda>_ _. [])
       (example_lists [''ads.com'', ''*.track.io'']) = Some (err, b') \<and>
     Match b' ''a.track.io'' [''ads''] = [''ads''] \<and> Match b' ''a.ads.com'' [''ads''] = []"
proof -
  let ?src = "TextBytesSource [''ads.com'', ''*.track.io'']" and ?c = "\<lambda>_. Some (\<lambda>_. False)"
  let ?b = "example_lists [''ads.com'', ''*.track.io'']"
  let ?items = "list_items (compile_ok ?c) Some (bs_From ?src)"
  have max: "maxErrorsPerSource ?b = 1" and src: "groupSources ?b = [(''ads'', [?src])]"
    by (simp_all add: example_lists_def newListCache_def)
  have rd: "\<forall>s\<in>set [?src]. readable_text ?c Some (maxErrorsPerSource ?b) s"
    using example_readable(2) max by simp
  have hosts: "''/'' \<notin> set (source_hosts ?c Some ?src)" by code_simp
  have items: "?items = [Inr (HostList ''ads.com''), Inr (WildcardIt ''*.track.io'')]" by code_simp
  have m: "entry_matches ?c (canonicalHost ''*.track.io'') ''a.track.io''"
    "\<not> entry_matches ?c (canonicalHost ''*.track.io'') ''a.ads.com''"
    "\<not> entry_matches ?c (canonicalHost ''ads.com'') ''a.ads.com''" by code_simp+
  obtain err b' where r: "refresh ?c Some sequential no_env (\<lambda>_ _. []) ?b = Some (err, b')"
    using refresh_returns [OF sequential_ok example_lists_ok, of "[''ads.com'', ''*.track.io'']" ?c Some no_env "\<lambda>_ _. []"]
      group_results_text [OF rd, of no_env "''ads''"] hosts src
    by (auto simp: sent_hosts_def)
  have "map_of (groupSources ?b) ''ads'' = Some [?src]" using src by simp
  note ms = text_lists_match [OF sequential_ok example_lists_ok r this rd]
  show ?thesis using r ms [of "''a.track.io''"] ms [of "''a.ads.com''"] items m by auto
qed

end
