(* ===== verification/Dns.thy ===== *)
theory Dns
  imports Net_IP "HOL-Library.Word"
begin

text \<open>
  DNS messages as the program sees them, packages \<open>model\<close> and \<open>util\<close>, and the interface
  \<open>Resolver\<close> of package \<open>resolver\<close>.

  Messages are values: the program never keeps two references to one message across a
  call that changes it, so a mutation is a function that returns the new message. Package
  \<open>github.com/miekg/dns\<close> is the parameter \<open>dnslib\<close>, a record of the functions the program
  calls; what is relied on of them is the predicate \<open>dnslib_ok\<close>.

  A resolver maps a request and the state of everything below it to its outcome, the
  request (which resolvers rewrite in place) and the new state.
\<close>

unbundle bit_operations_syntax

section \<open>Messages\<close>

type_synonym uint16 = "16 word"
type_synonym uint32 = "32 word"

definition TypeA :: uint16 where "TypeA = 1"
definition TypeCNAME :: uint16 where "TypeCNAME = 5"
definition TypePTR :: uint16 where "TypePTR = 12"
definition TypeTXT :: uint16 where "TypeTXT = 16"
definition TypeAAAA :: uint16 where "TypeAAAA = 28"
definition TypeSRV :: uint16 where "TypeSRV = 33"
definition TypeOPT :: uint16 where "TypeOPT = 41"
definition TypeDS :: uint16 where "TypeDS = 43"
definition ClassINET :: uint16 where "ClassINET = 1"

lemmas type_codes = TypeA_def TypeCNAME_def TypePTR_def TypeTXT_def TypeAAAA_def TypeSRV_def TypeOPT_def
  TypeDS_def ClassINET_def

definition RcodeSuccess :: int where "RcodeSuccess = 0"
definition RcodeFormatError :: int where "RcodeFormatError = 1"
definition RcodeServerFailure :: int where "RcodeServerFailure = 2"
definition RcodeNameError :: int where "RcodeNameError = 3"

record Question =
  q_Name :: string
  q_Type :: uint16
  q_Class :: uint16

record RR_Header =
  h_Name :: string
  h_Type :: uint16
  h_Class :: uint16
  h_Ttl :: uint32

datatype EDNS0 =
    EDNS0_SUBNET uint16 byte byte IP
  | EDNS0_EDE uint16 string
  | EDNS0_Other uint16 string

definition EDNS0SUBNET :: uint16 where "EDNS0SUBNET = 8"
definition EDNS0EDE :: uint16 where "EDNS0EDE = 15"

fun EDNS0_Option :: "EDNS0 \<Rightarrow> uint16" where
  "EDNS0_Option (EDNS0_SUBNET family netmask scope addr) = EDNS0SUBNET"
| "EDNS0_Option (EDNS0_EDE code text) = EDNS0EDE"
| "EDNS0_Option (EDNS0_Other code data) = code"

datatype RR =
    RR_A RR_Header IP
  | RR_AAAA RR_Header IP
  | RR_CNAME RR_Header string
  | RR_PTR RR_Header string
  | RR_TXT RR_Header "string list"
  | RR_SRV RR_Header uint16 uint16 uint16 string
  | RR_OPT RR_Header "EDNS0 list"
  | RR_Other RR_Header string

fun Header :: "RR \<Rightarrow> RR_Header" where
  "Header (RR_A h _) = h" | "Header (RR_AAAA h _) = h" | "Header (RR_CNAME h _) = h"
| "Header (RR_PTR h _) = h" | "Header (RR_TXT h _) = h" | "Header (RR_SRV h _ _ _ _) = h"
| "Header (RR_OPT h _) = h" | "Header (RR_Other h _) = h"

fun upd_Header :: "(RR_Header \<Rightarrow> RR_Header) \<Rightarrow> RR \<Rightarrow> RR" where
  "upd_Header f (RR_A h x) = RR_A (f h) x" | "upd_Header f (RR_AAAA h x) = RR_AAAA (f h) x"
| "upd_Header f (RR_CNAME h x) = RR_CNAME (f h) x" | "upd_Header f (RR_PTR h x) = RR_PTR (f h) x"
| "upd_Header f (RR_TXT h x) = RR_TXT (f h) x" | "upd_Header f (RR_SRV h p w q t) = RR_SRV (f h) p w q t"
| "upd_Header f (RR_OPT h x) = RR_OPT (f h) x" | "upd_Header f (RR_Other h x) = RR_Other (f h) x"

record Msg =
  m_Id :: uint16
  m_Response :: bool
  m_Opcode :: int
  m_Truncated :: bool
  m_RecursionDesired :: bool
  m_RecursionAvailable :: bool
  m_CheckingDisabled :: bool
  m_Rcode :: int
  m_Compress :: bool
  m_Question :: "Question list"
  m_Answer :: "RR list"
  m_Ns :: "RR list"
  m_Extra :: "RR list"

definition new_Msg :: Msg where
  "new_Msg = \<lparr>m_Id = 0, m_Response = False, m_Opcode = 0, m_Truncated = False, m_RecursionDesired = False,
     m_RecursionAvailable = False, m_CheckingDisabled = False, m_Rcode = 0, m_Compress = False,
     m_Question = [], m_Answer = [], m_Ns = [], m_Extra = []\<rparr>"

section \<open>Package model\<close>

datatype ResponseType =
    ResponseTypeRESOLVED | ResponseTypeCACHED | ResponseTypeBLOCKED | ResponseTypeCONDITIONAL
  | ResponseTypeCUSTOMDNS | ResponseTypeHOSTSFILE | ResponseTypeFILTERED | ResponseTypeNOTFQDN
  | ResponseTypeSPECIAL

definition ExtendedErrorCodeOther :: uint16 where "ExtendedErrorCodeOther = 0"
definition ExtendedErrorCodeForgedAnswer :: uint16 where "ExtendedErrorCodeForgedAnswer = 4"
definition ExtendedErrorCodeCachedError :: uint16 where "ExtendedErrorCodeCachedError = 13"
definition ExtendedErrorCodeBlocked :: uint16 where "ExtendedErrorCodeBlocked = 15"
definition ExtendedErrorCodeFiltered :: uint16 where "ExtendedErrorCodeFiltered = 17"

fun ToExtendedErrorCode :: "ResponseType \<Rightarrow> uint16" where
  "ToExtendedErrorCode ResponseTypeRESOLVED = ExtendedErrorCodeOther"
| "ToExtendedErrorCode ResponseTypeCACHED = ExtendedErrorCodeCachedError"
| "ToExtendedErrorCode ResponseTypeCONDITIONAL = ExtendedErrorCodeForgedAnswer"
| "ToExtendedErrorCode ResponseTypeCUSTOMDNS = ExtendedErrorCodeForgedAnswer"
| "ToExtendedErrorCode ResponseTypeHOSTSFILE = ExtendedErrorCodeForgedAnswer"
| "ToExtendedErrorCode ResponseTypeNOTFQDN = ExtendedErrorCodeBlocked"
| "ToExtendedErrorCode ResponseTypeBLOCKED = ExtendedErrorCodeBlocked"
| "ToExtendedErrorCode ResponseTypeFILTERED = ExtendedErrorCodeFiltered"
| "ToExtendedErrorCode ResponseTypeSPECIAL = ExtendedErrorCodeFiltered"

record Response =
  Res :: "Msg option"
  Reason :: string
  RType :: ResponseType

datatype RequestProtocol = RequestProtocolTCP | RequestProtocolUDP

record Request =
  ClientIP :: IP
  RequestClientID :: string
  Protocol :: RequestProtocol
  ClientNames :: "string list"
  Req :: Msg
  RequestTS :: int

section \<open>Outcomes and resolvers\<close>

datatype resolve_error =
    Canceled
  | CtxDeadline
  | UpstreamServerError Msg
  | OtherErr string
  | Wrapped string resolve_error
  | JoinedErrs "resolve_error list"

datatype 'a outcome = Ret 'a | Fail resolve_error | Panic go_panic

type_synonym 'w resolver = "Request \<Rightarrow> 'w \<Rightarrow> Response outcome \<times> Request \<times> 'w"

section \<open>The DNS library\<close>

record dnslib =
  lib_SetReply :: "Msg \<Rightarrow> Msg \<Rightarrow> Msg"
  lib_SetRcode :: "Msg \<Rightarrow> Msg \<Rightarrow> int \<Rightarrow> Msg"
  lib_SetQuestion :: "Msg \<Rightarrow> string \<Rightarrow> uint16 \<Rightarrow> Msg"
  lib_Fqdn :: "string \<Rightarrow> string"
  lib_IsEdns0 :: "Msg \<Rightarrow> nat option"
  lib_NewRR :: "string \<Rightarrow> RR option"
  lib_TypeToString :: "uint16 \<Rightarrow> string"
  lib_ReverseAddr :: "string \<Rightarrow> string"
  lib_Pack :: "Msg \<Rightarrow> string option"
  lib_Unpack :: "string \<Rightarrow> Msg option"

text \<open>
  \<open>SetReply\<close> and \<open>SetRcode\<close> make the receiver the reply to a request: its identifier, the
  response flag, the return code and the first question. \<open>IsEdns0\<close> returns an \<open>OPT\<close> record of
  the additional section if there is one, here by its position, because the program
  changes the record through the pointer it gets. \<open>Fqdn\<close> appends a dot unless there is one.
  \<open>SetQuestion\<close> makes the message a query with one question.
\<close>

definition is_reply :: "Msg \<Rightarrow> Msg \<Rightarrow> int \<Rightarrow> bool" where
  "is_reply m req rcode \<longleftrightarrow> m_Id m = m_Id req \<and> m_Response m \<and> m_Rcode m = rcode \<and>
     m_Question m = take 1 (m_Question req)"

fun is_OPT :: "RR \<Rightarrow> bool" where
  "is_OPT (RR_OPT h opts) = True" | "is_OPT _ = False"

definition dnslib_ok :: "dnslib \<Rightarrow> bool" where
  "dnslib_ok lib \<longleftrightarrow>
     (\<forall>m req. is_reply (lib_SetReply lib m req) req RcodeSuccess \<and>
        m_Answer (lib_SetReply lib m req) = m_Answer m \<and> m_Extra (lib_SetReply lib m req) = m_Extra m) \<and>
     (\<forall>m req rc. is_reply (lib_SetRcode lib m req rc) req rc \<and>
        m_Answer (lib_SetRcode lib m req rc) = m_Answer m \<and> m_Extra (lib_SetRcode lib m req rc) = m_Extra m) \<and>
     (\<forall>s. lib_Fqdn lib s = (if hasSuffix s ''.'' then s else s @ ''.'')) \<and>
     (\<forall>m. case lib_IsEdns0 lib m of
            None \<Rightarrow> \<forall>rr\<in>set (m_Extra m). \<not> is_OPT rr
          | Some i \<Rightarrow> i < length (m_Extra m) \<and> is_OPT (m_Extra m ! i)) \<and>
     (\<forall>m n t. m_Question (lib_SetQuestion lib m n t) = [\<lparr>q_Name = n, q_Type = t, q_Class = ClassINET\<rparr>])"

section \<open>Package util: common.go\<close>

type_synonym duration = int

definition second :: duration where "second = 1000000000"

text \<open>\<open>Duration.SecondsU32\<close>: whole seconds, as 32 bits.\<close>

definition SecondsU32 :: "duration \<Rightarrow> uint32" where
  "SecondsU32 d = word_of_int (if d < 0 then - ((- d) div second) else d div second)"

definition IsAboveZero :: "duration \<Rightarrow> bool" where "IsAboveZero d \<longleftrightarrow> d > 0"
definition IsAtLeastZero :: "duration \<Rightarrow> bool" where "IsAtLeastZero d \<longleftrightarrow> d \<ge> 0"

definition ExtractDomainOnly :: "string \<Rightarrow> string" where
  "ExtractDomainOnly s = trimSuffix (toLower s) ''.''"

definition ExtractDomain :: "Question \<Rightarrow> string" where
  "ExtractDomain question = ExtractDomainOnly (q_Name question)"

definition CreateHeader :: "Question \<Rightarrow> uint32 \<Rightarrow> RR_Header" where
  "CreateHeader question remainingTTL =
     \<lparr>h_Name = q_Name question, h_Type = q_Type question, h_Class = ClassINET, h_Ttl = remainingTTL\<rparr>"

text \<open>The fallback parses a textual record and may fail.\<close>

definition CreateAnswerFromQuestion :: "dnslib \<Rightarrow> Question \<Rightarrow> IP \<Rightarrow> uint32 \<Rightarrow> RR option" where
  "CreateAnswerFromQuestion lib question ip remainingTTL =
     (let h = CreateHeader question remainingTTL in
      if q_Type question = TypeA then Some (RR_A h ip)
      else if q_Type question = TypeAAAA then Some (RR_AAAA h ip)
      else lib_NewRR lib (q_Name question @ '' '' @ showNat (unat remainingTTL) @ '' IN '' @
             lib_TypeToString lib (q_Type question) @ '' '' @ IP_String ip))"

definition NewMsgWithQuestion :: "dnslib \<Rightarrow> string \<Rightarrow> uint16 \<Rightarrow> Msg" where
  "NewMsgWithQuestion lib question qType = lib_SetQuestion lib new_Msg (lib_Fqdn lib question) qType"

definition byte_char :: "byte \<Rightarrow> char" where "byte_char b = char_of (unat b)"
definition char_byte :: "char \<Rightarrow> byte" where "char_byte c = of_nat (of_char c)"

text \<open>The key of a query in the cache: two bytes of type, then the name in lower case.\<close>

definition GenerateCacheKey :: "uint16 \<Rightarrow> string \<Rightarrow> string" where
  "GenerateCacheKey qType qName =
     byte_char (ucast (drop_bit 8 qType)) # byte_char (ucast qType) # toLower qName"

definition ExtractCacheKey :: "string \<Rightarrow> go_panic + uint16 \<times> string" where
  "ExtractCacheKey key =
     (case key of
        b0 # b1 # rest \<Rightarrow> Inr (ucast (char_byte b1) OR push_bit 8 (ucast (char_byte b0)), rest)
      | _ \<Rightarrow> Inl IndexOutOfRange)"

definition CidrContainsIP :: "string \<Rightarrow> IP \<Rightarrow> bool" where
  "CidrContainsIP cidr ip = (case ParseCIDR cidr of None \<Rightarrow> False | Some (_, ipnet) \<Rightarrow> IPNet_Contains ipnet ip)"

text \<open>
  \<open>filepath.Match\<close>: a pattern is a sequence of stars, question marks, character classes
  and literal characters; neither a star nor a question mark matches a separator. A
  malformed pattern matches nothing.
\<close>

datatype glob_token = GStar | GAny | GClass bool "(char \<times> char) list" | GLit char

definition glob_getEsc :: "string \<Rightarrow> (char \<times> string) option" where
  "glob_getEsc chunk =
     (case chunk of
        [] \<Rightarrow> None
      | c # rest \<Rightarrow>
          if c = CHR ''-'' \<or> c = CHR '']'' then None
          else if c = CHR 0x5C then (case rest of x # y # ys \<Rightarrow> Some (x, y # ys) | _ \<Rightarrow> None)
          else if rest = [] then None else Some (c, rest))"

lemma glob_getEsc_shorter: "glob_getEsc s = Some (c, rest) \<Longrightarrow> length rest < length s"
  by (auto simp: glob_getEsc_def split: list.splits if_splits)

text \<open>The ranges of a class, after the opening bracket and the negation; \<open>n\<close> counts them.\<close>

function glob_ranges :: "string \<Rightarrow> nat \<Rightarrow> ((char \<times> char) list \<times> string) option" where
  "glob_ranges chunk n =
     (if chunk \<noteq> [] \<and> hd chunk = CHR '']'' \<and> n > 0 then Some ([], tl chunk)
      else (case glob_getEsc chunk of
              None \<Rightarrow> None
            | Some (lo, rest) \<Rightarrow>
                (if rest \<noteq> [] \<and> hd rest = CHR ''-''
                 then (case glob_getEsc (tl rest) of
                         None \<Rightarrow> None
                       | Some (hi, rest') \<Rightarrow>
                           map_option (map_prod (Cons (lo, hi)) id) (glob_ranges rest' (n + 1)))
                 else map_option (map_prod (Cons (lo, lo)) id) (glob_ranges rest (n + 1)))))"
  by pat_completeness auto
termination
  by (relation "measure (\<lambda>(s, n). length s)")
    (auto dest!: glob_getEsc_shorter simp: length_tl intro: less_trans less_le_trans)

declare glob_ranges.simps [simp del]

lemma glob_ranges_shorter: "glob_ranges s n = Some (rs, rest) \<Longrightarrow> length rest < length s"
proof (induction s n arbitrary: rs rest rule: glob_ranges.induct)
  case (1 chunk n)
  show ?case
  proof (cases "chunk \<noteq> [] \<and> hd chunk = CHR '']'' \<and> n > 0")
    case True
    then show ?thesis using "1.prems" by (auto simp: glob_ranges.simps [of chunk n])
  next
    case False
    then obtain lo r1 where e: "glob_getEsc chunk = Some (lo, r1)"
      using "1.prems" by (auto simp: glob_ranges.simps [of chunk n] split: option.splits)
    have l1: "length r1 < length chunk" using glob_getEsc_shorter [OF e] .
    show ?thesis
    proof (cases "r1 \<noteq> [] \<and> hd r1 = CHR ''-''")
      case True
      with False e "1.prems" obtain hi r2 rs2 where e2: "glob_getEsc (tl r1) = Some (hi, r2)"
        and g: "glob_ranges r2 (n + 1) = Some (rs2, rest)"
        by (auto simp: glob_ranges.simps [of chunk n] split: option.splits)
      have "length rest < length r2" using "1.IH"(1) [OF False e refl True e2 refl g] .
      then show ?thesis using l1 glob_getEsc_shorter [OF e2] by simp
    next
      case False2: False
      with False e "1.prems" obtain rs2 where g: "glob_ranges r1 (n + 1) = Some (rs2, rest)"
        by (auto simp: glob_ranges.simps [of chunk n] split: option.splits)
      have "length rest < length r1" using "1.IH"(2) [OF False e refl False2 g] .
      then show ?thesis using l1 by simp
    qed
  qed
qed

function glob_tokens :: "string \<Rightarrow> glob_token list option" where
  "glob_tokens [] = Some []"
| "glob_tokens (c # p) =
     (if c = CHR ''*'' then map_option (Cons GStar) (glob_tokens p)
      else if c = CHR ''?'' then map_option (Cons GAny) (glob_tokens p)
      else if c = CHR 0x5C then (case p of [] \<Rightarrow> None | x # q \<Rightarrow> map_option (Cons (GLit x)) (glob_tokens q))
      else if c = CHR ''['' then
        (let negated = (p \<noteq> [] \<and> hd p = CHR ''^''); body = (if negated then tl p else p) in
         case glob_ranges body 0 of
           None \<Rightarrow> None
         | Some (rs, rest) \<Rightarrow> map_option (Cons (GClass negated rs)) (glob_tokens rest))
      else map_option (Cons (GLit c)) (glob_tokens p))"
  by pat_completeness auto
termination
  by (relation "measure length")
    (auto dest!: glob_ranges_shorter split: if_splits simp: length_tl intro: less_trans less_le_trans)

fun glob_matches :: "glob_token list \<Rightarrow> string \<Rightarrow> bool" where
  "glob_matches [] s = (s = [])"
| "glob_matches (GStar # ts) [] = glob_matches ts []"
| "glob_matches (GStar # ts) (c # s) =
     (glob_matches ts (c # s) \<or> (c \<noteq> CHR ''/'' \<and> glob_matches (GStar # ts) s))"
| "glob_matches (GAny # ts) [] = False"
| "glob_matches (GAny # ts) (c # s) = (c \<noteq> CHR ''/'' \<and> glob_matches ts s)"
| "glob_matches (GClass neg rs # ts) [] = False"
| "glob_matches (GClass neg rs # ts) (c # s) =
     (list_ex (\<lambda>(lo, hi). lo \<le> c \<and> c \<le> hi) rs \<noteq> neg \<and> glob_matches ts s)"
| "glob_matches (GLit l # ts) [] = False"
| "glob_matches (GLit l # ts) (c # s) = (l = c \<and> glob_matches ts s)"

definition filepath_Match :: "string \<Rightarrow> string \<Rightarrow> bool" where
  "filepath_Match pattern name =
     (case glob_tokens pattern of None \<Rightarrow> False | Some ts \<Rightarrow> glob_matches ts name)"

definition ClientNameMatchesGroupName :: "string \<Rightarrow> string \<Rightarrow> bool" where
  "ClientNameMatchesGroupName grp clientName = filepath_Match (toLower grp) (toLower clientName)"

section \<open>Package util: edns0.go\<close>

text \<open>\<open>slices.Delete(xs, i, i+1)\<close>\<close>

definition delete_at :: "nat \<Rightarrow> 'a list \<Rightarrow> 'a list" where
  "delete_at i xs = take i xs @ drop (i + 1) xs"

fun find_index :: "('a \<Rightarrow> bool) \<Rightarrow> 'a list \<Rightarrow> nat option" where
  "find_index P [] = None"
| "find_index P (x # xs) = (if P x then Some 0 else map_option Suc (find_index P xs))"

definition RemoveEdns0Record :: "dnslib \<Rightarrow> Msg option \<Rightarrow> bool \<times> Msg option" where
  "RemoveEdns0Record lib msg0 =
     (case msg0 of
        None \<Rightarrow> (False, None)
      | Some msg \<Rightarrow>
          (case lib_IsEdns0 lib msg of
             None \<Rightarrow> (False, Some msg)
           | Some _ \<Rightarrow>
               (case find_index (\<lambda>rr. h_Type (Header rr) = TypeOPT) (m_Extra msg) of
                  None \<Rightarrow> (False, Some msg)
                | Some i \<Rightarrow> (True, Some (msg\<lparr>m_Extra := delete_at i (m_Extra msg)\<rparr>)))))"

fun opt_options :: "RR \<Rightarrow> EDNS0 list" where
  "opt_options (RR_OPT h opts) = opts" | "opt_options _ = []"

fun set_options :: "EDNS0 list \<Rightarrow> RR \<Rightarrow> RR" where
  "set_options opts (RR_OPT h _) = RR_OPT h opts" | "set_options opts rr = rr"

text \<open>
  The type parameter is given by its option code and its type test. An option with the
  code but of another type makes the function panic.
\<close>

definition GetEdns0Option :: "dnslib \<Rightarrow> uint16 \<Rightarrow> (EDNS0 \<Rightarrow> bool) \<Rightarrow> Msg option \<Rightarrow> go_panic + EDNS0 option" where
  "GetEdns0Option lib code is_T msg0 =
     (case msg0 of
        None \<Rightarrow> Inr None
      | Some msg \<Rightarrow>
          (case lib_IsEdns0 lib msg of
             None \<Rightarrow> Inr None
           | Some i \<Rightarrow>
               (case find (\<lambda>x. EDNS0_Option x = code) (opt_options (m_Extra msg ! i)) of
                  None \<Rightarrow> Inr None
                | Some x \<Rightarrow> if is_T x then Inr (Some x) else Inl NilDereference)))"

definition RemoveEdns0Option :: "dnslib \<Rightarrow> uint16 \<Rightarrow> Msg option \<Rightarrow> bool \<times> Msg option" where
  "RemoveEdns0Option lib code msg0 =
     (case msg0 of
        None \<Rightarrow> (False, None)
      | Some msg \<Rightarrow>
          (case lib_IsEdns0 lib msg of
             None \<Rightarrow> (False, Some msg)
           | Some i \<Rightarrow>
               let opts = opt_options (m_Extra msg ! i);
                   (res, opts') =
                     (case find_index (\<lambda>x. EDNS0_Option x = code) opts of
                        None \<Rightarrow> (False, opts) | Some k \<Rightarrow> (True, delete_at k opts));
                   msg' = msg\<lparr>m_Extra := (m_Extra msg)[i := set_options opts' (m_Extra msg ! i)]\<rparr>
               in if length opts' = 0 then (res, snd (RemoveEdns0Record lib (Some msg')))
                  else (res, Some msg')))"

definition new_OPT :: RR where
  "new_OPT = RR_OPT \<lparr>h_Name = ''.'', h_Type = TypeOPT, h_Class = 0, h_Ttl = 0\<rparr> []"

definition SetEdns0Option :: "dnslib \<Rightarrow> EDNS0 \<Rightarrow> Msg option \<Rightarrow> bool \<times> Msg option" where
  "SetEdns0Option lib opt msg0 =
     (case msg0 of
        None \<Rightarrow> (False, None)
      | Some msg \<Rightarrow>
          let (i, extra) =
                (case lib_IsEdns0 lib msg of
                   Some i \<Rightarrow> (i, m_Extra msg)
                 | None \<Rightarrow> (length (m_Extra msg), m_Extra msg @ [new_OPT]));
              newOpts = filter (\<lambda>x. EDNS0_Option x \<noteq> EDNS0_Option opt) (opt_options (extra ! i)) @ [opt]
          in (True, Some (msg\<lparr>m_Extra := extra[i := set_options newOpts (extra ! i)]\<rparr>)))"

section \<open>Package util: arpa.go\<close>

datatype arpa_error = ErrInvalidArpaAddrLen | ParseUintErr string | InvalidArpaHostname string

definition IPv4PtrSuffix :: string where "IPv4PtrSuffix = ''.in-addr.arpa.''"
definition IPv6PtrSuffix :: string where "IPv6PtrSuffix = ''.ip6.arpa.''"

text \<open>\<open>strconv.ParseUint\<close> to 8 bits in base 10 or 16.\<close>

definition ParseUint8 :: "nat \<Rightarrow> string \<Rightarrow> nat option" where
  "ParseUint8 base s =
     (let ok = (if base = 16 then isHex else isDigit); val = (if base = 16 then hexVal else digitVal);
          n = foldl (\<lambda>a c. a * base + val c) 0 s
      in if s \<noteq> [] \<and> list_all ok s \<and> n < 256 then Some n else None)"

fun arpa4_bytes :: "string list \<Rightarrow> arpa_error + byte list" where
  "arpa4_bytes [] = Inr []"
| "arpa4_bytes (p # ps) =
     (case ParseUint8 10 p of
        None \<Rightarrow> Inl (ParseUintErr p)
      | Some n \<Rightarrow> (case arpa4_bytes ps of Inl e \<Rightarrow> Inl e | Inr bs \<Rightarrow> Inr (of_nat n # bs)))"

definition parseIPv4FromArpaAddr :: "string \<Rightarrow> arpa_error + IP" where
  "parseIPv4FromArpaAddr arpa =
     (let parts = splitOn CHR ''.'' (trimSuffix arpa IPv4PtrSuffix) in
      if length parts \<noteq> 4 then Inl ErrInvalidArpaAddrLen
      else (case arpa4_bytes (rev parts) of
              Inl e \<Rightarrow> Inl e
            | Inr buf \<Rightarrow> Inr (IPv4 (buf ! 0) (buf ! 1) (buf ! 2) (buf ! 3))))"

text \<open>Two parts per byte, from the end; a part may have two hexadecimal digits.\<close>

fun arpa6_bytes :: "string list \<Rightarrow> arpa_error + byte list" where
  "arpa6_bytes (ms # ls # ps) =
     (case ParseUint8 16 ms of
        None \<Rightarrow> Inl (ParseUintErr ms)
      | Some m \<Rightarrow>
          (case ParseUint8 16 ls of
             None \<Rightarrow> Inl (ParseUintErr ls)
           | Some l \<Rightarrow>
               (case arpa6_bytes ps of
                  Inl e \<Rightarrow> Inl e
                | Inr bs \<Rightarrow> Inr (ucast (push_bit 4 (of_nat m :: 64 word) OR of_nat l) # bs))))"
| "arpa6_bytes _ = Inr []"

definition parseIPv6FromArpaAddr :: "string \<Rightarrow> arpa_error + IP" where
  "parseIPv6FromArpaAddr arpa =
     (let parts = splitOn CHR ''.'' (trimSuffix arpa IPv6PtrSuffix) in
      if length parts \<noteq> 32 then Inl ErrInvalidArpaAddrLen else arpa6_bytes (rev parts))"

definition ParseIPFromArpaAddr :: "string \<Rightarrow> arpa_error + IP" where
  "ParseIPFromArpaAddr arpa =
     (if hasSuffix arpa IPv4PtrSuffix then parseIPv4FromArpaAddr arpa
      else if hasSuffix arpa IPv6PtrSuffix then parseIPv6FromArpaAddr arpa
      else Inl (InvalidArpaHostname arpa))"

section \<open>Building requests and responses\<close>

definition newRequest :: "dnslib \<Rightarrow> string \<Rightarrow> uint16 \<Rightarrow> Request" where
  "newRequest lib question rType =
     \<lparr>ClientIP = [], RequestClientID = [], Protocol = RequestProtocolUDP, ClientNames = [],
      Req = NewMsgWithQuestion lib question rType, RequestTS = 0\<rparr>"

definition newRequestWithClientID :: "dnslib \<Rightarrow> string \<Rightarrow> uint16 \<Rightarrow> string \<Rightarrow> string \<Rightarrow> Request" where
  "newRequestWithClientID lib question rType ip requestClientID =
     \<lparr>ClientIP = (case ParseIP ip of None \<Rightarrow> [] | Some a \<Rightarrow> a), RequestClientID = requestClientID,
      Protocol = RequestProtocolUDP, ClientNames = [], Req = NewMsgWithQuestion lib question rType,
      RequestTS = 0\<rparr>"

definition newResponse :: "dnslib \<Rightarrow> Request \<Rightarrow> int \<Rightarrow> ResponseType \<Rightarrow> string \<Rightarrow> Response" where
  "newResponse lib request rcode rtype reason =
     \<lparr>Res = Some ((lib_SetReply lib new_Msg (Req request))\<lparr>m_Rcode := rcode\<rparr>), Reason = reason, RType = rtype\<rparr>"

section \<open>Facts about the utilities\<close>

lemma find_index_Some: "find_index P xs = Some i \<Longrightarrow> i < length xs \<and> P (xs ! i) \<and> (\<forall>j<i. \<not> P (xs ! j))"
  by (induction xs arbitrary: i) (auto split: if_splits simp: nth_Cons split: nat.splits)

lemma find_index_None: "find_index P xs = None \<longleftrightarrow> (\<forall>x\<in>set xs. \<not> P x)"
  by (induction xs) auto

lemma set_delete_at: "set (delete_at i xs) \<subseteq> set xs"
  by (auto simp: delete_at_def dest: in_set_takeD in_set_dropD)

lemma Header_upd_Header [simp]: "Header (upd_Header f rr) = f (Header rr)"
  by (cases rr) auto

lemma ExtractDomainOnly_lower [simp]: "toLower (ExtractDomainOnly s) = ExtractDomainOnly s"
proof (cases "hasSuffix (toLower s) ''.''")
  case True
  then obtain r where r: "toLower s = r @ ''.''" by (auto simp: hasSuffix_iff)
  then have "toLower (r @ ''.'') = r @ ''.''" using toLower_idem [of s] by simp
  then have "toLower r = r" by (simp add: toLower_def)
  with r show ?thesis by (simp add: ExtractDomainOnly_def)
qed (simp add: ExtractDomainOnly_def)

lemma char_byte_inverse [simp]: "char_byte (byte_char b) = b" "byte_char (char_byte c) = c"
proof -
  have "unat b < 256" using unsigned_less [of b, where 'a = nat] by simp
  then show "char_byte (byte_char b) = b" by (simp add: char_byte_def byte_char_def)
  show "byte_char (char_byte c) = c" by (simp add: char_byte_def byte_char_def unat_of_nat)
qed

text \<open>The two bytes of a query type put together again.\<close>

lemma uint16_bytes: "(ucast (ucast t :: byte) :: uint16) OR push_bit 8 (ucast (ucast (drop_bit 8 t) :: byte)) = t"
  by (rule bit_word_eqI)
    (auto simp: bit_or_iff bit_push_bit_iff bit_ucast_iff bit_drop_bit_eq)

lemma ExtractCacheKey_Generate: "ExtractCacheKey (GenerateCacheKey t n) = Inr (t, toLower n)"
  by (simp add: ExtractCacheKey_def GenerateCacheKey_def uint16_bytes)

lemma GenerateCacheKey_inject: "GenerateCacheKey t n = GenerateCacheKey t' n' \<longleftrightarrow> t = t' \<and> toLower n = toLower n'"
proof
  assume "GenerateCacheKey t n = GenerateCacheKey t' n'"
  then have "ExtractCacheKey (GenerateCacheKey t n) = ExtractCacheKey (GenerateCacheKey t' n')" by simp
  then show "t = t' \<and> toLower n = toLower n'" unfolding ExtractCacheKey_Generate by simp
qed (simp add: GenerateCacheKey_def)

section \<open>The \<open>OPT\<close> record of a message\<close>

text \<open>
  A message has at most one \<open>OPT\<close> record (RFC 6891), and the type in its header says so.
  Its options are those of the message.
\<close>

definition single_OPT :: "Msg \<Rightarrow> bool" where
  "single_OPT m \<longleftrightarrow> length (filter is_OPT (m_Extra m)) \<le> 1 \<and>
     (\<forall>rr\<in>set (m_Extra m). is_OPT rr \<longleftrightarrow> h_Type (Header rr) = TypeOPT)"

definition msg_options :: "Msg \<Rightarrow> EDNS0 list" where
  "msg_options m = concat (map opt_options (m_Extra m))"

abbreviation no_OPT :: "RR list \<Rightarrow> bool" where
  "no_OPT rrs \<equiv> \<forall>rr\<in>set rrs. \<not> is_OPT rr \<and> h_Type (Header rr) \<noteq> TypeOPT"

lemma no_OPT_options [simp]: "no_OPT rrs \<Longrightarrow> concat (map opt_options rrs) = []"
proof -
  assume a: "no_OPT rrs"
  have "opt_options rr = []" if "rr \<in> set rrs" for rr using a that by (cases rr) auto
  then show ?thesis by simp
qed

lemma dnslib_IsEdns0:
  "dnslib_ok lib \<Longrightarrow> lib_IsEdns0 lib m = Some i \<Longrightarrow> i < length (m_Extra m) \<and> is_OPT (m_Extra m ! i)"
  "dnslib_ok lib \<Longrightarrow> lib_IsEdns0 lib m = None \<Longrightarrow> rr \<in> set (m_Extra m) \<Longrightarrow> \<not> is_OPT rr"
proof -
  assume ok: "dnslib_ok lib"
  have c: "case lib_IsEdns0 lib m of None \<Rightarrow> \<forall>rr\<in>set (m_Extra m). \<not> is_OPT rr
      | Some i \<Rightarrow> i < length (m_Extra m) \<and> is_OPT (m_Extra m ! i)"
    using ok by (simp add: dnslib_ok_def)
  show "lib_IsEdns0 lib m = Some i \<Longrightarrow> i < length (m_Extra m) \<and> is_OPT (m_Extra m ! i)"
    and "lib_IsEdns0 lib m = None \<Longrightarrow> rr \<in> set (m_Extra m) \<Longrightarrow> \<not> is_OPT rr"
    using c by auto
qed

lemma IsEdns0_None: "dnslib_ok lib \<Longrightarrow> single_OPT m \<Longrightarrow> lib_IsEdns0 lib m = None \<Longrightarrow> no_OPT (m_Extra m)"
  using dnslib_IsEdns0(2) by (fastforce simp: single_OPT_def)

lemma IsEdns0_split:
  assumes "dnslib_ok lib" and "single_OPT m" and "lib_IsEdns0 lib m = Some i"
  shows "\<exists>as h opts bs. m_Extra m = as @ RR_OPT h opts # bs \<and> i = length as \<and> no_OPT as \<and> no_OPT bs \<and>
    h_Type h = TypeOPT"
proof -
  have i: "i < length (m_Extra m)" and o: "is_OPT (m_Extra m ! i)"
    using dnslib_IsEdns0(1) [OF assms(1,3)] by auto
  obtain h opts where ho: "m_Extra m ! i = RR_OPT h opts" using o by (cases "m_Extra m ! i") auto
  let ?as = "take i (m_Extra m)" and ?bs = "drop (Suc i) (m_Extra m)"
  have split: "m_Extra m = ?as @ RR_OPT h opts # ?bs" using id_take_nth_drop [OF i] ho by simp
  have "length (filter is_OPT (?as @ RR_OPT h opts # ?bs)) \<le> 1"
    using assms(2) split by (simp add: single_OPT_def)
  then have "filter is_OPT ?as = []" "filter is_OPT ?bs = []" by simp_all
  then have no: "\<forall>rr\<in>set ?as. \<not> is_OPT rr" "\<forall>rr\<in>set ?bs. \<not> is_OPT rr" by (auto simp: filter_empty_conv)
  have hdr: "\<forall>rr\<in>set (m_Extra m). is_OPT rr \<longleftrightarrow> h_Type (Header rr) = TypeOPT"
    using assms(2) by (simp add: single_OPT_def)
  have "RR_OPT h opts \<in> set (m_Extra m)" using ho i nth_mem by metis
  with hdr have "h_Type h = TypeOPT" by fastforce
  moreover have "no_OPT ?as" "no_OPT ?bs"
    using no hdr by (auto dest: in_set_takeD in_set_dropD)
  moreover have "i = length ?as" using i by simp
  ultimately show ?thesis using split by (intro exI conjI)
qed

lemma IsEdns0_at:
  assumes "dnslib_ok lib" and "m_Extra m = as @ RR_OPT h opts # bs" and "no_OPT as" and "no_OPT bs"
  shows "lib_IsEdns0 lib m = Some (length as)"
proof (cases "lib_IsEdns0 lib m")
  case None
  then show ?thesis using dnslib_IsEdns0(2) [OF assms(1) None, of "RR_OPT h opts"] assms(2) by simp
next
  case (Some i)
  with dnslib_IsEdns0(1) [OF assms(1) Some] assms(2-4) have "i = length as"
    by (auto simp: nth_append nth_Cons split: if_splits nat.splits)
  with Some show ?thesis by simp
qed

lemma single_OPT_at:
  "m_Extra m = as @ RR_OPT h opts # bs \<Longrightarrow> no_OPT as \<Longrightarrow> no_OPT bs \<Longrightarrow> h_Type h = TypeOPT \<Longrightarrow> single_OPT m"
  by (auto simp: single_OPT_def filter_empty_conv)

lemma msg_options_at:
  "m_Extra m = as @ RR_OPT h opts # bs \<Longrightarrow> no_OPT as \<Longrightarrow> no_OPT bs \<Longrightarrow> msg_options m = opts"
  by (simp add: msg_options_def)

lemma GetEdns0Option_spec:
  assumes "dnslib_ok lib" and "single_OPT m"
  shows "GetEdns0Option lib code is_T (Some m) =
    (case find (\<lambda>x. EDNS0_Option x = code) (msg_options m) of
       None \<Rightarrow> Inr None | Some x \<Rightarrow> if is_T x then Inr (Some x) else Inl NilDereference)"
proof (cases "lib_IsEdns0 lib m")
  case None
  then show ?thesis using IsEdns0_None [OF assms None]
    by (simp add: GetEdns0Option_def msg_options_def)
next
  case (Some i)
  from IsEdns0_split [OF assms Some] obtain as h opts bs where
    e: "m_Extra m = as @ RR_OPT h opts # bs" "i = length as" "no_OPT as" "no_OPT bs" by blast
  then show ?thesis using Some msg_options_at [OF e(1,3,4)] by (simp add: GetEdns0Option_def)
qed

lemma SetEdns0Option_spec:
  assumes "dnslib_ok lib" and "single_OPT m"
  shows "\<exists>extra. SetEdns0Option lib opt (Some m) = (True, Some (m\<lparr>m_Extra := extra\<rparr>)) \<and>
    single_OPT (m\<lparr>m_Extra := extra\<rparr>) \<and>
    filter (\<lambda>rr. \<not> is_OPT rr) extra = filter (\<lambda>rr. \<not> is_OPT rr) (m_Extra m) \<and>
    msg_options (m\<lparr>m_Extra := extra\<rparr>) =
      filter (\<lambda>x. EDNS0_Option x \<noteq> EDNS0_Option opt) (msg_options m) @ [opt]"
proof (cases "lib_IsEdns0 lib m")
  case None
  then have no: "no_OPT (m_Extra m)" by (rule IsEdns0_None [OF assms])
  let ?m = "m\<lparr>m_Extra := m_Extra m @ [set_options [opt] new_OPT]\<rparr>"
  have e: "m_Extra ?m = m_Extra m @ RR_OPT \<lparr>h_Name = ''.'', h_Type = TypeOPT, h_Class = 0, h_Ttl = 0\<rparr> [opt] # []"
    by (simp add: new_OPT_def)
  have "SetEdns0Option lib opt (Some m) = (True, Some ?m)"
    using None by (simp add: SetEdns0Option_def new_OPT_def)
  then show ?thesis
    using single_OPT_at [OF e no] msg_options_at [OF e no] no
    by (intro exI [of _ "m_Extra ?m"]) (simp add: new_OPT_def msg_options_def)
next
  case (Some i)
  from IsEdns0_split [OF assms Some] obtain as h opts bs where
    e: "m_Extra m = as @ RR_OPT h opts # bs" "i = length as" "no_OPT as" "no_OPT bs" "h_Type h = TypeOPT" by blast
  let ?opts = "filter (\<lambda>x. EDNS0_Option x \<noteq> EDNS0_Option opt) opts @ [opt]"
  let ?m = "m\<lparr>m_Extra := as @ RR_OPT h ?opts # bs\<rparr>"
  have e': "m_Extra ?m = as @ RR_OPT h ?opts # bs" by simp
  have "SetEdns0Option lib opt (Some m) = (True, Some ?m)"
    using Some e by (simp add: SetEdns0Option_def list_update_append)
  then show ?thesis
    using single_OPT_at [OF e' e(3,4,5)] msg_options_at [OF e' e(3,4)] msg_options_at [OF e(1,3,4)] e
    by (intro exI [of _ "m_Extra ?m"]) simp
qed

lemma delete_at_append: "delete_at (length as) (as @ x # bs) = as @ bs"
  by (simp add: delete_at_def)

lemma find_index_append: "\<forall>x\<in>set as. \<not> P x \<Longrightarrow> P x \<Longrightarrow> find_index P (as @ x # bs) = Some (length as)"
  by (induction as) auto

lemma RemoveEdns0Record_spec:
  assumes "dnslib_ok lib" and "single_OPT m"
  shows "\<exists>extra. snd (RemoveEdns0Record lib (Some m)) = Some (m\<lparr>m_Extra := extra\<rparr>) \<and>
    extra = filter (\<lambda>rr. \<not> is_OPT rr) (m_Extra m) \<and> (fst (RemoveEdns0Record lib (Some m)) \<longleftrightarrow> \<not> no_OPT (m_Extra m))"
proof (cases "lib_IsEdns0 lib m")
  case None
  then have "no_OPT (m_Extra m)" by (rule IsEdns0_None [OF assms])
  then show ?thesis using None by (simp add: RemoveEdns0Record_def)
next
  case (Some i)
  from IsEdns0_split [OF assms Some] obtain as h opts bs where
    e: "m_Extra m = as @ RR_OPT h opts # bs" "i = length as" "no_OPT as" "no_OPT bs" "h_Type h = TypeOPT" by blast
  have "find_index (\<lambda>rr. h_Type (Header rr) = TypeOPT) (m_Extra m) = Some (length as)"
    unfolding e(1) using e(3,5) by (intro find_index_append) auto
  then show ?thesis using Some e by (simp add: RemoveEdns0Record_def delete_at_append)
qed

lemma delete_first_filter:
  "distinct (map f xs) \<Longrightarrow>
   (case find_index (\<lambda>x. f x = c) xs of None \<Rightarrow> (False, xs) | Some k \<Rightarrow> (True, delete_at k xs)) =
   (c \<in> f ` set xs, filter (\<lambda>x. f x \<noteq> c) xs)"
proof (cases "find_index (\<lambda>x. f x = c) xs")
  case None
  then have "\<forall>x\<in>set xs. f x \<noteq> c" by (simp add: find_index_None)
  with None show ?thesis by (auto simp: filter_id_conv)
next
  case (Some k)
  assume d: "distinct (map f xs)"
  from find_index_Some [OF Some] have k: "k < length xs" "f (xs ! k) = c" by auto
  have xs: "xs = take k xs @ xs ! k # drop (Suc k) xs" using id_take_nth_drop [OF k(1)] .
  have "c \<notin> f ` set (take k xs)" "c \<notin> f ` set (drop (Suc k) xs)"
    using d k(2) by (subst (asm) xs, auto)+
  then have "filter (\<lambda>x. f x \<noteq> c) (take k xs) = take k xs"
    "filter (\<lambda>x. f x \<noteq> c) (drop (Suc k) xs) = drop (Suc k) xs"
    by (auto simp: filter_id_conv image_iff)
  then have "filter (\<lambda>x. f x \<noteq> c) (take k xs @ xs ! k # drop (Suc k) xs) = take k xs @ drop (Suc k) xs"
    using k(2) by simp
  with xs have "filter (\<lambda>x. f x \<noteq> c) xs = delete_at k xs" by (simp add: delete_at_def)
  then show ?thesis using Some k by (auto intro: rev_image_eqI)
qed

lemma RemoveEdns0Option_spec:
  assumes "dnslib_ok lib" and "single_OPT m" and "distinct (map EDNS0_Option (msg_options m))"
  shows "\<exists>extra. RemoveEdns0Option lib code (Some m) =
      (code \<in> EDNS0_Option ` set (msg_options m), Some (m\<lparr>m_Extra := extra\<rparr>)) \<and>
    single_OPT (m\<lparr>m_Extra := extra\<rparr>) \<and>
    filter (\<lambda>rr. \<not> is_OPT rr) extra = filter (\<lambda>rr. \<not> is_OPT rr) (m_Extra m) \<and>
    msg_options (m\<lparr>m_Extra := extra\<rparr>) = filter (\<lambda>x. EDNS0_Option x \<noteq> code) (msg_options m)"
proof (cases "lib_IsEdns0 lib m")
  case None
  then have no: "no_OPT (m_Extra m)" by (rule IsEdns0_None [OF assms(1,2)])
  then show ?thesis using None assms(2)
    by (intro exI [of _ "m_Extra m"]) (simp add: RemoveEdns0Option_def msg_options_def)
next
  case (Some i)
  from IsEdns0_split [OF assms(1,2) Some] obtain as h opts bs where
    e: "m_Extra m = as @ RR_OPT h opts # bs" "i = length as" "no_OPT as" "no_OPT bs" "h_Type h = TypeOPT" by blast
  have o: "msg_options m = opts" by (rule msg_options_at [OF e(1,3,4)])
  let ?opts = "filter (\<lambda>x. EDNS0_Option x \<noteq> code) opts"
  let ?m = "m\<lparr>m_Extra := as @ RR_OPT h ?opts # bs\<rparr>"
  have e': "m_Extra ?m = as @ RR_OPT h ?opts # bs" by simp
  have s': "single_OPT ?m" by (rule single_OPT_at [OF e' e(3,4,5)])
  have del: "(case find_index (\<lambda>x. EDNS0_Option x = code) opts of
      None \<Rightarrow> (False, opts) | Some k \<Rightarrow> (True, delete_at k opts)) = (code \<in> EDNS0_Option ` set opts, ?opts)"
    using assms(3) o by (intro delete_first_filter) simp
  have r: "RemoveEdns0Option lib code (Some m) = (code \<in> EDNS0_Option ` set opts,
      if ?opts = [] then snd (RemoveEdns0Record lib (Some ?m)) else Some ?m)"
    unfolding RemoveEdns0Option_def using Some e by (simp add: del Let_def list_update_append)
  show ?thesis
  proof (cases "?opts = []")
    case True
    have no: "no_OPT (as @ bs)" using e by auto
    have f: "filter (\<lambda>rr. \<not> is_OPT rr) as = as" "filter (\<lambda>rr. \<not> is_OPT rr) bs = bs" using e by auto
    have "snd (RemoveEdns0Record lib (Some ?m)) = Some (m\<lparr>m_Extra := as @ bs\<rparr>)"
      using RemoveEdns0Record_spec [OF assms(1) s'] f by simp
    then show ?thesis using r o True e f no
      by (intro exI [of _ "as @ bs"]) (auto simp: single_OPT_def msg_options_def)
  next
    case False
    then show ?thesis using r o s' e msg_options_at [OF e' e(3,4)]
      by (intro exI [of _ "m_Extra ?m"]) simp
  qed
qed

section \<open>Reverse lookup names\<close>

lemma splitOn_joinStr: "xs \<noteq> [] \<Longrightarrow> \<forall>x\<in>set xs. c \<notin> set x \<Longrightarrow> splitOn c (joinStr [c] xs) = xs"
proof (induction xs)
  case (Cons x xs)
  then show ?case
    by (cases xs) (auto simp: splitOn_no splitOn_append_sep)
qed simp

text \<open>The reverse lookup name of an address of four or sixteen bytes.\<close>

definition arpa_labels :: "IP \<Rightarrow> string list" where
  "arpa_labels ip =
     (if length ip = 4 then map (\<lambda>b. showNat (unat b)) (rev ip)
      else concat (map (\<lambda>b. [[hexDigit (unat b mod 16)], [hexDigit (unat b div 16)]]) (rev ip)))"

definition arpa_name :: "IP \<Rightarrow> string" where
  "arpa_name ip = joinStr ''.'' (arpa_labels ip) @ (if length ip = 4 then IPv4PtrSuffix else IPv6PtrSuffix)"

lemma unat_byte: "unat (b :: byte) < 256"
  using unsigned_less [of b, where 'a = nat] by simp

lemma digit_chars: "d < 10 \<Longrightarrow> digitVal (char_of (48 + d)) = d \<and> isDigit (char_of (48 + d))"
proof -
  have "\<forall>d\<in>set [0..<10]. digitVal (char_of (48 + d)) = d \<and> isDigit (char_of (48 + d))" by code_simp
  then show "d < 10 \<Longrightarrow> ?thesis" by simp
qed

lemma showNat_fuel_value:
  "n < 10 ^ Suc k \<Longrightarrow> foldl (\<lambda>a c. a * 10 + digitVal c) 0 (showNat_fuel k n) = n \<and>
     list_all isDigit (showNat_fuel k n) \<and> showNat_fuel k n \<noteq> []"
  by (induction k arbitrary: n) (simp_all add: digit_chars less_mult_imp_div_less)

lemma showNat_byte: "n < 256 \<Longrightarrow> ParseUint8 10 (showNat n) = Some n \<and> CHR ''.'' \<notin> set (showNat n)"
proof -
  assume n: "n < 256"
  have "n < 10 ^ Suc n" by (induction n) simp_all
  from showNat_fuel_value [OF this] have v: "foldl (\<lambda>a c. a * 10 + digitVal c) 0 (showNat n) = n"
    "list_all isDigit (showNat n)" "showNat n \<noteq> []" by (simp_all add: showNat_def)
  have "\<not> isDigit CHR ''.''" by code_simp
  with v n show ?thesis by (auto simp: ParseUint8_def list_all_iff)
qed

lemma hex_chars: "n \<in> set [10, 11, 12, 13, 14, 15] \<Longrightarrow>
    isHex (char_of (87 + n)) \<and> hexVal (char_of (87 + n)) = n \<and> char_of (87 + n) \<noteq> CHR ''.''"
proof -
  have "\<forall>n\<in>set [10, 11, 12, 13, 14, 15].
      isHex (char_of (87 + n)) \<and> hexVal (char_of (87 + n)) = n \<and> char_of (87 + n) \<noteq> CHR ''.''" by code_simp
  then show "n \<in> set [10, 11, 12, 13, 14, 15] \<Longrightarrow> ?thesis" by blast
qed

lemma hexDigit_nibble: "n < 16 \<Longrightarrow> ParseUint8 16 [hexDigit n] = Some n \<and> hexDigit n \<noteq> CHR ''.''"
proof (cases "n < 10")
  case True
  have "\<not> isDigit CHR ''.''" by code_simp
  with digit_chars [OF True] True show ?thesis
    by (auto simp: ParseUint8_def hexDigit_def isHex_def hexVal_def digitVal_def)
next
  case False
  assume "n < 16"
  with False have "n \<in> set [10, 11, 12, 13, 14, 15]" by simp arith
  from hex_chars [OF this] False \<open>n < 16\<close> show ?thesis by (simp add: ParseUint8_def hexDigit_def)
qed

lemma arpa4_bytes_show: "arpa4_bytes (map (\<lambda>b. showNat (unat b)) bs) = Inr bs"
  by (induction bs) (auto simp: showNat_byte unat_byte)

lemma nibbles_byte: "(ucast (push_bit 4 (of_nat (unat b div 16) :: 64 word) OR of_nat (unat b mod 16)) :: byte) = b"
proof -
  have 1: "unat b div 16 = unat (drop_bit 4 b)" by (simp add: drop_bit_eq_div unat_div)
  have 2: "unat b mod 16 = unat (take_bit 4 b)" by (simp add: take_bit_eq_mod unat_mod)
  show ?thesis unfolding 1 2 of_nat_unat
    by (rule bit_word_eqI) (auto simp: bit_or_iff bit_push_bit_iff bit_ucast_iff bit_drop_bit_eq bit_take_bit_iff)
qed

lemma arpa6_bytes_show:
  "arpa6_bytes (concat (map (\<lambda>b. [[hexDigit (unat b div 16)], [hexDigit (unat b mod 16)]]) bs)) = Inr bs"
proof (induction bs)
  case (Cons b bs)
  have "unat b div 16 < 16" using unat_byte [of b] by simp
  with Cons nibbles_byte [of b] show ?case by (simp add: hexDigit_nibble)
qed simp

section \<open>A concrete library\<close>

text \<open>An instance of the library's functions, used to evaluate examples.\<close>

definition example_lib :: dnslib where
  "example_lib = \<lparr>
     lib_SetReply = (\<lambda>m req. m\<lparr>m_Id := m_Id req, m_Response := True, m_Rcode := 0,
       m_Question := take 1 (m_Question req)\<rparr>),
     lib_SetRcode = (\<lambda>m req rc. m\<lparr>m_Id := m_Id req, m_Response := True, m_Rcode := rc,
       m_Question := take 1 (m_Question req)\<rparr>),
     lib_SetQuestion = (\<lambda>m name t. m\<lparr>m_Question := [\<lparr>q_Name = name, q_Type = t, q_Class = ClassINET\<rparr>]\<rparr>),
     lib_Fqdn = (\<lambda>s. if hasSuffix s ''.'' then s else s @ ''.''),
     lib_IsEdns0 = (\<lambda>m. find_index is_OPT (m_Extra m)),
     lib_NewRR = (\<lambda>_. None),
     lib_TypeToString = (\<lambda>_. []),
     lib_ReverseAddr = (\<lambda>_. []),
     lib_Pack = (\<lambda>_. None),
     lib_Unpack = (\<lambda>_. None)\<rparr>"

lemma example_lib_ok: "dnslib_ok example_lib"
  by (auto simp: dnslib_ok_def example_lib_def is_reply_def RcodeSuccess_def find_index_None
      dest: find_index_Some split: option.splits)

definition example_query :: "string \<Rightarrow> uint16 \<Rightarrow> Msg" where
  "example_query name t = new_Msg\<lparr>m_Id := 7, m_Question := [\<lparr>q_Name = name, q_Type = t, q_Class = ClassINET\<rparr>]\<rparr>"

section \<open>Properties\<close>

text \<open>
  Cache keys. The key of a query determines its type and, up to letter case, its
  name: extracting undoes generating, and two queries share a key exactly if they have the
  same type and the same name in lower case.
\<close>

theorem cache_key_roundtrip:
  "ExtractCacheKey (GenerateCacheKey t n) = Inr (t, toLower n) \<and>
   (GenerateCacheKey t n = GenerateCacheKey t' n' \<longleftrightarrow> t = t' \<and> toLower n = toLower n')"
  using ExtractCacheKey_Generate GenerateCacheKey_inject by blast

text \<open>
  EDNS options. On a message with at most one \<open>OPT\<close> record whose options have distinct
  codes, setting an option makes it the one found under its code, removing the code
  afterwards leaves the options that had another code in the first place, and neither
  touches the other records of the additional section.
\<close>

theorem edns0_option_laws:
  assumes "dnslib_ok lib" and "single_OPT m" and "distinct (map EDNS0_Option (msg_options m))"
  shows "\<exists>m1 m2. SetEdns0Option lib opt (Some m) = (True, Some m1) \<and>
    GetEdns0Option lib (EDNS0_Option opt) (\<lambda>x. x = opt) (Some m1) = Inr (Some opt) \<and>
    RemoveEdns0Option lib (EDNS0_Option opt) (Some m1) = (True, Some m2) \<and>
    GetEdns0Option lib (EDNS0_Option opt) is_T (Some m2) = Inr None \<and>
    msg_options m2 = filter (\<lambda>x. EDNS0_Option x \<noteq> EDNS0_Option opt) (msg_options m) \<and>
    filter (\<lambda>rr. \<not> is_OPT rr) (m_Extra m1) = filter (\<lambda>rr. \<not> is_OPT rr) (m_Extra m) \<and>
    filter (\<lambda>rr. \<not> is_OPT rr) (m_Extra m2) = filter (\<lambda>rr. \<not> is_OPT rr) (m_Extra m)"
proof -
  let ?code = "EDNS0_Option opt" and ?others = "filter (\<lambda>x. EDNS0_Option x \<noteq> EDNS0_Option opt) (msg_options m)"
  obtain e1 where s: "SetEdns0Option lib opt (Some m) = (True, Some (m\<lparr>m_Extra := e1\<rparr>))"
    and one: "single_OPT (m\<lparr>m_Extra := e1\<rparr>)" and o1: "msg_options (m\<lparr>m_Extra := e1\<rparr>) = ?others @ [opt]"
    and k1: "filter (\<lambda>rr. \<not> is_OPT rr) e1 = filter (\<lambda>rr. \<not> is_OPT rr) (m_Extra m)"
    using SetEdns0Option_spec [OF assms(1,2), of opt] by blast
  have none: "find (\<lambda>x. EDNS0_Option x = ?code) ?others = None" by (auto simp: find_None_iff)
  have app: "find P (xs @ [y]) = (case find P xs of None \<Rightarrow> if P y then Some y else None | Some z \<Rightarrow> Some z)"
    for P and xs :: "EDNS0 list" and y by (induction xs) auto
  have get: "GetEdns0Option lib ?code (\<lambda>x. x = opt) (Some (m\<lparr>m_Extra := e1\<rparr>)) = Inr (Some opt)"
    unfolding GetEdns0Option_spec [OF assms(1) one] o1 app none by simp
  have "distinct (map EDNS0_Option (msg_options (m\<lparr>m_Extra := e1\<rparr>)))"
    unfolding o1 using distinct_map_filter [OF assms(3)] by auto
  from RemoveEdns0Option_spec [OF assms(1) one this, of ?code] obtain e2 where
    r: "RemoveEdns0Option lib ?code (Some (m\<lparr>m_Extra := e1\<rparr>)) = (True, Some (m\<lparr>m_Extra := e2\<rparr>))"
    and two: "single_OPT (m\<lparr>m_Extra := e2\<rparr>)" and o2: "msg_options (m\<lparr>m_Extra := e2\<rparr>) = ?others"
    and k2: "filter (\<lambda>rr. \<not> is_OPT rr) e2 = filter (\<lambda>rr. \<not> is_OPT rr) e1"
    by (auto simp: o1)
  have "GetEdns0Option lib ?code is_T (Some (m\<lparr>m_Extra := e2\<rparr>)) = Inr None"
    unfolding GetEdns0Option_spec [OF assms(1) two] o2 none by simp
  with s get r o2 k1 k2 show ?thesis
    by (intro exI [of _ "m\<lparr>m_Extra := e1\<rparr>"] exI [of _ "m\<lparr>m_Extra := e2\<rparr>"]) simp
qed

theorem edns0_option_laws_witness:
  "\<exists>m1 m2. SetEdns0Option example_lib (EDNS0_EDE 15 ''x'') (Some (example_query ''a.'' TypeA)) = (True, Some m1) \<and>
    GetEdns0Option example_lib EDNS0EDE (\<lambda>x. x = EDNS0_EDE 15 ''x'') (Some m1) = Inr (Some (EDNS0_EDE 15 ''x'')) \<and>
    RemoveEdns0Option example_lib EDNS0EDE (Some m1) = (True, Some m2) \<and> msg_options m2 = []"
proof -
  have "single_OPT (example_query ''a.'' TypeA)" "msg_options (example_query ''a.'' TypeA) = []"
    by (simp_all add: single_OPT_def msg_options_def example_query_def new_Msg_def)
  then show ?thesis
    using edns0_option_laws [OF example_lib_ok, of "example_query ''a.'' TypeA" "EDNS0_EDE 15 ''x''" "\<lambda>_. True"]
    by fastforce
qed

text \<open>
  Reverse lookup names. The address of every well-formed reverse lookup name is
  recovered: for the name built from the decimal bytes of an IPv4 address or from the
  nibbles of an IPv6 address, the parser returns that address in its 16-byte form.
\<close>

theorem arpa_roundtrip:
  assumes "length ip = 4 \<or> length ip = 16"
  shows "ParseIPFromArpaAddr (arpa_name ip) = Inr (To16 ip)"
proof -
  let ?ls = "arpa_labels ip"
  have nib: "hexDigit (unat b mod 16) \<noteq> CHR ''.''" "hexDigit (unat b div 16) \<noteq> CHR ''.''" for b :: byte
    using hexDigit_nibble [of "unat b mod 16"] hexDigit_nibble [of "unat b div 16"] unat_byte [of b] by auto
  have dots: "\<forall>l\<in>set ?ls. CHR ''.'' \<notin> set l"
    by (auto simp: arpa_labels_def showNat_byte unat_byte nib nib [symmetric])
  have ne: "?ls \<noteq> []" using assms by (cases ip) (auto simp: arpa_labels_def)
  have split: "splitOn CHR ''.'' (joinStr ''.'' ?ls) = ?ls" by (rule splitOn_joinStr [OF ne dots])
  have suf: "hasSuffix (x @ IPv6PtrSuffix) IPv4PtrSuffix = False" for x
    by (auto simp: hasSuffix_iff IPv4PtrSuffix_def IPv6PtrSuffix_def append_eq_append_conv2 append_eq_Cons_conv
        Cons_eq_append_conv)
  show ?thesis
  proof (cases "length ip = 4")
    case True
    have "rev ?ls = map (\<lambda>b. showNat (unat b)) ip" using True by (simp add: arpa_labels_def rev_map)
    moreover have "length ?ls = 4" using True by (simp add: arpa_labels_def)
    moreover obtain a b c d where "ip = [a, b, c, d]" using True by (auto simp: length_Suc_conv numeral_eq_Suc)
    ultimately show ?thesis using split
      by (simp add: ParseIPFromArpaAddr_def arpa_name_def hasSuffix_iff parseIPv4FromArpaAddr_def
          arpa4_bytes_show IPv4_def To16_def del: list.map arpa4_bytes.simps)
  next
    case False
    then have l: "length ip = 16" using assms by simp
    have "rev ?ls = concat (map (\<lambda>b. [[hexDigit (unat b div 16)], [hexDigit (unat b mod 16)]]) ip)"
      using False by (simp add: arpa_labels_def rev_concat rev_map comp_def)
    moreover have "length ?ls = 32"
      using l by (simp add: arpa_labels_def length_concat comp_def sum_list_triv)
    ultimately show ?thesis using split suf l
      by (simp add: ParseIPFromArpaAddr_def arpa_name_def hasSuffix_iff [of _ IPv6PtrSuffix]
          parseIPv6FromArpaAddr_def arpa6_bytes_show To16_def)
  qed
qed

theorem arpa_roundtrip_witness: "ParseIPFromArpaAddr ''4.0.168.192.in-addr.arpa.'' = Inr (IPv4 192 168 0 4)"
proof -
  have "arpa_name [192, 168, 0, 4] = ''4.0.168.192.in-addr.arpa.''" by code_simp
  then show ?thesis using arpa_roundtrip [of "[192, 168, 0, 4]"] by (simp add: To16_def IPv4_def)
qed

end
