(* ===== verification/Blocking.thy ===== *)
theory Blocking
  imports List_Cache Dns
begin

text \<open>
  The blocking resolver, \<open>resolver/blocking_resolver.go\<close>: which groups apply to a client,
  the decision whether a query or its answer is blocked, the block handlers, and the
  state machine that disables and enables blocking.

  Go maps are association lists whose order stands for the iteration order. A call of
  \<open>Resolve\<close> sees one snapshot of the lists and of the status. The cache of client addresses
  (package \<open>expiration-cache\<close>) is the function its method \<open>Get\<close> computes.
\<close>

section \<open>Block handlers\<close>

datatype blockHandler =
    nxDomainBlockHandler
  | zeroIPBlockHandler uint32
  | ipBlockHandler "IP list" blockHandler uint32

definition EqualFold :: "string \<Rightarrow> string \<Rightarrow> bool" where
  "EqualFold s t \<longleftrightarrow> toLower s = toLower t"

definition createBlockHandler :: "string \<Rightarrow> duration \<Rightarrow> resolve_error + blockHandler" where
  "createBlockHandler blockType blockTTL =
     (if EqualFold blockType ''NXDOMAIN'' then Inr nxDomainBlockHandler
      else
        let blockTime = SecondsU32 blockTTL in
        if EqualFold blockType ''ZEROIP'' then Inr (zeroIPBlockHandler blockTime)
        else
          let ips = List.map_filter (\<lambda>part. ParseIP (trimSpace part)) (splitOn CHR '','' blockType) in
          if length ips > 0 then Inr (ipBlockHandler ips (zeroIPBlockHandler blockTime) blockTime)
          else Inl (OtherErr ''unknown blockType''))"

definition append_answer :: "RR option \<Rightarrow> Msg \<Rightarrow> Msg" where
  "append_answer rr m = (case rr of None \<Rightarrow> m | Some x \<Rightarrow> m\<lparr>m_Answer := m_Answer m @ [x]\<rparr>)"

definition zeroIP_handleBlock :: "dnslib \<Rightarrow> uint32 \<Rightarrow> Question \<Rightarrow> Msg \<Rightarrow> Msg" where
  "zeroIP_handleBlock lib blockTime question response =
     (if q_Type question = TypeAAAA
      then append_answer (CreateAnswerFromQuestion lib question IPv6zero blockTime) response
      else if q_Type question = TypeA
      then append_answer (CreateAnswerFromQuestion lib question IPv4zero blockTime) response
      else response\<lparr>m_Rcode := RcodeNameError\<rparr>)"

fun ip_answers :: "dnslib \<Rightarrow> uint32 \<Rightarrow> Question \<Rightarrow> IP list \<Rightarrow> Msg \<Rightarrow> Msg" where
  "ip_answers lib blockTime question [] response = response"
| "ip_answers lib blockTime question (ip # ips) response =
     ip_answers lib blockTime question ips
       (if (q_Type question = TypeAAAA \<and> To4 ip = []) \<or> (q_Type question = TypeA \<and> To4 ip \<noteq> [])
        then append_answer (CreateAnswerFromQuestion lib question ip blockTime) response else response)"

primrec handleBlock :: "dnslib \<Rightarrow> blockHandler \<Rightarrow> Question \<Rightarrow> Msg \<Rightarrow> Msg" where
  "handleBlock lib nxDomainBlockHandler question response = response\<lparr>m_Rcode := RcodeNameError\<rparr>"
| "handleBlock lib (zeroIPBlockHandler blockTime) question response =
     zeroIP_handleBlock lib blockTime question response"
| "handleBlock lib (ipBlockHandler destinations fallbackHandler blockTime) question response =
     (let response' = ip_answers lib blockTime question destinations response in
      if length (m_Answer response') = 0 then handleBlock lib fallbackHandler question response' else response')"

section \<open>The resolver\<close>

text \<open>The timer that enables blocking again is the time it fires at.\<close>

record status =
  enabled :: bool
  disabledGroups :: "string list"
  enableTimer :: "int option"
  disableEnd :: int

record EnabledMessage =
  em_State :: bool
  em_Duration :: duration
  em_Groups :: "string list"

record BlockingResolver =
  denylists :: "(string \<times> BytesSource list) list"
  denylistMatcher :: ListCache
  allowlistMatcher :: ListCache
  handler :: blockHandler
  allowlistOnlyGroups :: "string list"
  bstatus :: status
  clientGroups :: "(string \<times> string list) list"
  redisClient :: bool
  fqdnIPCache :: "(string \<Rightarrow> IP list option) option"
  events :: "bool list"
  redisOut :: "EnabledMessage list"

text \<open>An identifier names several clients, separated by commas.\<close>

definition addClientGroup :: "string list \<Rightarrow> string \<Rightarrow> (string \<times> string list) list \<Rightarrow> (string \<times> string list) list" where
  "addClientGroup cfgGroups ipart cgb =
     (case map_of cgb ipart of
        Some existingGroups \<Rightarrow> upd_assoc ipart (existingGroups @ cfgGroups) cgb
      | None \<Rightarrow> upd_assoc ipart cfgGroups cgb)"

definition clientGroupsBlock :: "(string \<times> string list) list \<Rightarrow> (string \<times> string list) list" where
  "clientGroupsBlock cfg =
     fold (\<lambda>(identifier, cfgGroups) cgb. fold (addClientGroup cfgGroups) (splitOn CHR '','' (toLower identifier)) cgb)
       cfg []"

definition determineAllowlistOnlyGroups ::
    "(string \<times> BytesSource list) list \<Rightarrow> (string \<times> BytesSource list) list \<Rightarrow> string list" where
  "determineAllowlistOnlyGroups allow deny =
     map fst (filter (\<lambda>(g, links). length links > 0 \<and> map_of deny g = None) allow)"

definition retrieveAllBlockingGroups :: "BlockingResolver \<Rightarrow> string list" where
  "retrieveAllBlockingGroups r = sort (map fst (denylists r) @ [''default''])"

section \<open>Enabling and disabling\<close>

definition internalEnableBlocking :: "BlockingResolver \<Rightarrow> BlockingResolver" where
  "internalEnableBlocking r =
     r\<lparr>bstatus := (bstatus r)\<lparr>enableTimer := None, enabled := True, disabledGroups := []\<rparr>,
       events := events r @ [True]\<rparr>"

definition EnableBlocking :: "BlockingResolver \<Rightarrow> BlockingResolver" where
  "EnableBlocking r =
     (let r' = internalEnableBlocking r in
      if redisClient r'
      then r'\<lparr>redisOut := redisOut r' @ [\<lparr>em_State = True, em_Duration = 0, em_Groups = []\<rparr>]\<rparr> else r')"

fun unknownGroup :: "string list \<Rightarrow> string list \<Rightarrow> string option" where
  "unknownGroup allBlockingGroups [] = None"
| "unknownGroup allBlockingGroups (g # gs) =
     (let i = sort_SearchStrings allBlockingGroups g in
      if i \<ge> length allBlockingGroups \<or> allBlockingGroups ! i \<noteq> g then Some g
      else unknownGroup allBlockingGroups gs)"

text \<open>The timer is stopped before the groups are checked.\<close>

definition internalDisableBlocking ::
    "int \<Rightarrow> duration \<Rightarrow> string list \<Rightarrow> BlockingResolver \<Rightarrow> resolve_error option \<times> BlockingResolver" where
  "internalDisableBlocking now dur disableGroups r =
     (let s = (bstatus r)\<lparr>enableTimer := None\<rparr>; allBlockingGroups = retrieveAllBlockingGroups r in
      case (if length disableGroups = 0 then None else unknownGroup allBlockingGroups disableGroups) of
        Some g \<Rightarrow> (Some (OtherErr (''group '' @ g @ '' is unknown'')), r\<lparr>bstatus := s\<rparr>)
      | None \<Rightarrow>
          let s1 = s\<lparr>disabledGroups := (if length disableGroups = 0 then allBlockingGroups else disableGroups),
                     enabled := False, disableEnd := now + dur\<rparr>;
              s2 = (if dur = 0 then s1 else s1\<lparr>enableTimer := Some (now + dur)\<rparr>)
          in (None, r\<lparr>bstatus := s2, events := events r @ [False]\<rparr>))"

definition DisableBlocking ::
    "int \<Rightarrow> duration \<Rightarrow> string list \<Rightarrow> BlockingResolver \<Rightarrow> resolve_error option \<times> BlockingResolver" where
  "DisableBlocking now dur disableGroups r =
     (case internalDisableBlocking now dur disableGroups r of
        (None, r') \<Rightarrow>
          (None, if redisClient r'
                 then r'\<lparr>redisOut := redisOut r' @ [\<lparr>em_State = False, em_Duration = dur, em_Groups = disableGroups\<rparr>]\<rparr>
                 else r')
      | (Some err, r') \<Rightarrow> (Some err, r'))"

text \<open>A message of another instance, received by \<open>redisSubscriber\<close>.\<close>

definition redisReceive :: "int \<Rightarrow> EnabledMessage \<Rightarrow> BlockingResolver \<Rightarrow> BlockingResolver" where
  "redisReceive now em r =
     (if em_State em then internalEnableBlocking r
      else snd (internalDisableBlocking now (em_Duration em) (em_Groups em) r))"

record BlockingStatus =
  bs_Enabled :: bool
  bs_DisabledGroups :: "string list"
  bs_AutoEnableInSec :: int

definition get_BlockingStatus :: "int \<Rightarrow> BlockingResolver \<Rightarrow> BlockingStatus" where
  "get_BlockingStatus now r =
     (let s = bstatus r;
          autoEnableDuration = (if \<not> enabled s \<and> disableEnd s > now then disableEnd s - now else 0)
      in \<lparr>bs_Enabled = enabled s, bs_DisabledGroups = disabledGroups s,
          bs_AutoEnableInSec = autoEnableDuration div second\<rparr>)"

section \<open>The groups of a client\<close>

definition isGroupDisabled :: "BlockingResolver \<Rightarrow> string \<Rightarrow> bool" where
  "isGroupDisabled r grp = list_ex (\<lambda>g. g = grp) (disabledGroups (bstatus r))"

definition isFQDN :: "string \<Rightarrow> bool" where
  "isFQDN s = (CHR ''.'' \<in> set (trim s CHR ''.''))"

definition groups_by_name :: "BlockingResolver \<Rightarrow> string \<Rightarrow> string list" where
  "groups_by_name r cName =
     concat (map (\<lambda>(blockGroup, gs). if ClientNameMatchesGroupName blockGroup cName then gs else []) (clientGroups r))"

text \<open>One pair of the second loop: by network, or by the cached addresses of a name.\<close>

definition groups_by_identifier :: "BlockingResolver \<Rightarrow> IP \<Rightarrow> string \<times> string list \<Rightarrow> string list" where
  "groups_by_identifier r ip p =
     (case p of (clientIdentifier, gs) \<Rightarrow>
      if CidrContainsIP clientIdentifier ip then gs
      else if isFQDN clientIdentifier then
        (case fqdnIPCache r of
           None \<Rightarrow> []
         | Some get \<Rightarrow>
             (case get clientIdentifier of
                None \<Rightarrow> []
              | Some ips \<Rightarrow> concat (map (\<lambda>a. if IP_Equal a ip then gs else []) ips)))
      else [])"

definition groupsToCheckForClient :: "BlockingResolver \<Rightarrow> Request \<Rightarrow> string list" where
  "groupsToCheckForClient r request =
     (let byName = concat (map (groups_by_name r) (ClientNames request));
          byIP = (case map_of (clientGroups r) (IP_String (ClientIP request)) of None \<Rightarrow> [] | Some gs \<Rightarrow> gs);
          byCidr = concat (map (groups_by_identifier r (ClientIP request)) (clientGroups r));
          groups0 = byName @ byIP @ byCidr;
          groups = (if length groups0 = 0
                    then (case map_of (clientGroups r) ''default'' of None \<Rightarrow> [] | Some gs \<Rightarrow> gs)
                    else groups0)
      in sort (filter (\<lambda>g. \<not> isGroupDisabled r g) groups))"

section \<open>Resolving\<close>

definition matches :: "string list \<Rightarrow> ListCache \<Rightarrow> string \<Rightarrow> string list" where
  "matches groupsToCheck m domain = (if length groupsToCheck > 0 then Match m domain groupsToCheck else [])"

definition handleBlocked :: "dnslib \<Rightarrow> BlockingResolver \<Rightarrow> Request \<Rightarrow> Question \<Rightarrow> string \<Rightarrow> Response" where
  "handleBlocked lib r request question reason =
     \<lparr>Res = Some (handleBlock lib (handler r) question (lib_SetReply lib new_Msg (Req request))),
      Reason = reason, RType = ResponseTypeBLOCKED\<rparr>"

definition hasAllowlistOnlyAllowed :: "BlockingResolver \<Rightarrow> string list \<Rightarrow> bool" where
  "hasAllowlistOnlyAllowed r groupsToCheck = list_ex (\<lambda>g. g \<in> set (allowlistOnlyGroups r)) groupsToCheck"

text \<open>The loop over the questions: \<^const>\<open>None\<close> when no question is handled.\<close>

fun denylist_loop ::
    "dnslib \<Rightarrow> BlockingResolver \<Rightarrow> 'w resolver \<Rightarrow> string list \<Rightarrow> bool \<Rightarrow> Request \<Rightarrow> 'w \<Rightarrow> Question list \<Rightarrow>
     (Response outcome \<times> Request \<times> 'w) option" where
  "denylist_loop lib r next groupsToCheck allowlistOnlyAllowed request w [] = None"
| "denylist_loop lib r next groupsToCheck allowlistOnlyAllowed request w (question # questions) =
     (let domain = ExtractDomain question in
      if length (matches groupsToCheck (allowlistMatcher r) domain) > 0 then Some (next request w)
      else if allowlistOnlyAllowed
      then Some (Ret (handleBlocked lib r request question ''BLOCKED (ALLOWLIST ONLY)''), request, w)
      else
        let groups = matches groupsToCheck (denylistMatcher r) domain in
        if length groups > 0
        then Some (Ret (handleBlocked lib r request question (''BLOCKED ('' @ joinStr '','' groups @ '')'')), request, w)
        else denylist_loop lib r next groupsToCheck allowlistOnlyAllowed request w questions)"

definition handleDenylist ::
    "dnslib \<Rightarrow> BlockingResolver \<Rightarrow> 'w resolver \<Rightarrow> string list \<Rightarrow> Request \<Rightarrow> 'w \<Rightarrow>
     (Response outcome \<times> Request \<times> 'w) option" where
  "handleDenylist lib r next groupsToCheck request w =
     denylist_loop lib r next groupsToCheck (hasAllowlistOnlyAllowed r groupsToCheck) request w
       (m_Question (Req request))"

fun extractEntryToCheckFromResponse :: "RR \<Rightarrow> string \<times> string" where
  "extractEntryToCheckFromResponse (RR_A h a) = (IP_String a, ''IP'')"
| "extractEntryToCheckFromResponse (RR_AAAA h a) = (toLower (IP_String a), ''IP'')"
| "extractEntryToCheckFromResponse (RR_CNAME h target) = (ExtractDomainOnly target, ''CNAME'')"
| "extractEntryToCheckFromResponse _ = ([], [])"

text \<open>The loop over the answer: the reason to block the response, if there is one.\<close>

fun answer_loop :: "BlockingResolver \<Rightarrow> string list \<Rightarrow> RR list \<Rightarrow> string option" where
  "answer_loop r groupsToCheck [] = None"
| "answer_loop r groupsToCheck (rr # rrs) =
     (case extractEntryToCheckFromResponse rr of (entryToCheck, tName) \<Rightarrow>
      if length entryToCheck > 0 then
        if length (matches groupsToCheck (allowlistMatcher r) entryToCheck) > 0 then answer_loop r groupsToCheck rrs
        else
          let groups = matches groupsToCheck (denylistMatcher r) entryToCheck in
          if length groups > 0 then Some (''BLOCKED '' @ tName @ '' ('' @ joinStr '','' groups @ '')'')
          else answer_loop r groupsToCheck rrs
      else answer_loop r groupsToCheck rrs)"

definition Blocking_Resolve :: "dnslib \<Rightarrow> BlockingResolver \<Rightarrow> 'w resolver \<Rightarrow> 'w resolver" where
  "Blocking_Resolve lib r next request w =
     (let groupsToCheck = groupsToCheckForClient r request in
      case (if length groupsToCheck > 0 then handleDenylist lib r next groupsToCheck request w else None) of
        Some handled \<Rightarrow> handled
      | None \<Rightarrow>
          (case next request w of
             (Ret respFromNext, request', w') \<Rightarrow>
               (case (if length groupsToCheck > 0 then Res respFromNext else None) of
                  None \<Rightarrow> (Ret respFromNext, request', w')
                | Some m \<Rightarrow>
                    (case answer_loop r groupsToCheck (m_Answer m) of
                       None \<Rightarrow> (Ret respFromNext, request', w')
                     | Some reason \<Rightarrow>
                         (case m_Question (Req request') of
                            [] \<Rightarrow> (Panic IndexOutOfRange, request', w')
                          | q # _ \<Rightarrow> (Ret (handleBlocked lib r request' q reason), request', w'))))
           | failure \<Rightarrow> failure))"

section \<open>Addresses of client names\<close>

definition rr_addresses :: "RR list \<Rightarrow> IP list" where
  "rr_addresses rrs = List.map_filter (\<lambda>rr. case rr of RR_A h a \<Rightarrow> Some a | RR_AAAA h a \<Rightarrow> Some a | _ \<Rightarrow> None) rrs"

text \<open>One query of \<open>queryForFQIdentifierIPs\<close>; a response without message is dereferenced.\<close>

definition queryIdentifier ::
    "dnslib \<Rightarrow> 'w resolver \<Rightarrow> string \<Rightarrow> uint16 \<Rightarrow> IP list \<times> duration \<Rightarrow> 'w \<Rightarrow> (go_panic + IP list \<times> duration) \<times> 'w" where
  "queryIdentifier lib next identifier qType acc w =
     (case next \<lparr>ClientIP = [], RequestClientID = [], Protocol = RequestProtocolTCP, ClientNames = [],
                 Req = NewMsgWithQuestion lib identifier qType, RequestTS = 0\<rparr> w of
        (Panic p, _, w') \<Rightarrow> (Inl p, w')
      | (Fail e, _, w') \<Rightarrow> (Inr acc, w')
      | (Ret resp, _, w') \<Rightarrow>
          (case Res resp of
             None \<Rightarrow> (Inl NilDereference, w')
           | Some m \<Rightarrow>
               if m_Rcode m = RcodeSuccess
               then (Inr (fst acc @ rr_addresses (m_Answer m),
                      if m_Answer m = [] then snd acc
                      else uint (h_Ttl (Header (last (m_Answer m)))) * second), w')
               else (Inr acc, w')))"

definition queryForFQIdentifierIPs ::
    "dnslib \<Rightarrow> 'w resolver \<Rightarrow> string \<Rightarrow> 'w \<Rightarrow> (go_panic + IP list \<times> duration) \<times> 'w" where
  "queryForFQIdentifierIPs lib next identifier w =
     (case queryIdentifier lib next identifier TypeA ([], 0) w of
        (Inl p, w') \<Rightarrow> (Inl p, w')
      | (Inr acc, w') \<Rightarrow> queryIdentifier lib next identifier TypeAAAA acc w')"

definition NewBlockingResolver ::
    "string \<Rightarrow> duration \<Rightarrow> (string \<times> BytesSource list) list \<Rightarrow> (string \<times> BytesSource list) list \<Rightarrow>
     (string \<times> string list) list \<Rightarrow> load_error + ListCache \<Rightarrow> load_error + ListCache \<Rightarrow> bool \<Rightarrow>
     (string \<Rightarrow> IP list option) \<Rightarrow> (resolve_error + load_error list) + BlockingResolver" where
  "NewBlockingResolver blockType blockTTL deny allow cgb denyCache allowCache redis ipCache =
     (case createBlockHandler blockType blockTTL of
        Inl err \<Rightarrow> Inl (Inl err)
      | Inr h \<Rightarrow>
          (case (denyCache, allowCache) of
             (Inr d, Inr a) \<Rightarrow>
               Inr \<lparr>denylists = deny, denylistMatcher = d, allowlistMatcher = a, handler = h,
                    allowlistOnlyGroups = determineAllowlistOnlyGroups allow deny,
                    bstatus = \<lparr>enabled = True, disabledGroups = [], enableTimer = None, disableEnd = 0\<rparr>,
                    clientGroups = clientGroupsBlock cgb, redisClient = redis, fqdnIPCache = Some ipCache,
                    events = [], redisOut = []\<rparr>
           | (Inl e, Inl e') \<Rightarrow> Inl (Inr [e, e'])
           | (Inl e, _) \<Rightarrow> Inl (Inr [e])
           | (_, Inl e') \<Rightarrow> Inl (Inr [e'])))"

section \<open>Lookups in the lists\<close>

definition listed :: "ListCache \<Rightarrow> string list \<Rightarrow> string \<Rightarrow> bool" where
  "listed b groups x \<longleftrightarrow> (\<exists>g\<in>set groups. chain_has (groupedCache b) x g)"

lemma matches_Nil [simp]: "matches groups b x = [] \<longleftrightarrow> \<not> listed b groups x"
proof -
  have "chain_Contains (groupedCache b) x groups = [] \<longleftrightarrow> set (chain_Contains (groupedCache b) x groups) = {}"
    by simp
  then show ?thesis unfolding chain_Contains_spec(1)
    by (auto simp: matches_def Match_def listed_def)
qed

section \<open>Facts about the block handlers\<close>

lemma append_answer_header [simp]:
  "m_Id (append_answer rr m) = m_Id m" "m_Response (append_answer rr m) = m_Response m"
  "m_Question (append_answer rr m) = m_Question m" "m_Rcode (append_answer rr m) = m_Rcode m"
  by (auto simp: append_answer_def split: option.splits)

lemma ip_answers_header [simp]:
  "m_Id (ip_answers lib t q ips m) = m_Id m" "m_Response (ip_answers lib t q ips m) = m_Response m"
  "m_Question (ip_answers lib t q ips m) = m_Question m" "m_Rcode (ip_answers lib t q ips m) = m_Rcode m"
  by (induction ips arbitrary: m) auto

lemma handleBlock_header [simp]:
  "m_Id (handleBlock lib h q m) = m_Id m" "m_Response (handleBlock lib h q m) = m_Response m"
  "m_Question (handleBlock lib h q m) = m_Question m"
  by (induction h arbitrary: m) (auto simp: zeroIP_handleBlock_def Let_def)

lemma dnslib_reply:
  "dnslib_ok lib \<Longrightarrow> is_reply (lib_SetReply lib m req) req RcodeSuccess"
  "dnslib_ok lib \<Longrightarrow> m_Answer (lib_SetReply lib m req) = m_Answer m"
  "dnslib_ok lib \<Longrightarrow> is_reply (lib_SetRcode lib m req rc) req rc"
  "dnslib_ok lib \<Longrightarrow> m_Answer (lib_SetRcode lib m req rc) = m_Answer m"
  by (simp_all add: dnslib_ok_def)

text \<open>What it means that a response tells the client that its query was blocked.\<close>

definition blocks :: "Response \<Rightarrow> Request \<Rightarrow> bool" where
  "blocks resp request \<longleftrightarrow> RType resp = ResponseTypeBLOCKED \<and>
     (\<exists>m. Res resp = Some m \<and> m_Id m = m_Id (Req request) \<and> m_Response m \<and>
        m_Question m = take 1 (m_Question (Req request)))"

lemma handleBlocked_blocks: "dnslib_ok lib \<Longrightarrow> blocks (handleBlocked lib r request q reason) request"
  using dnslib_reply(1) [of lib new_Msg "Req request"]
  by (auto simp: blocks_def handleBlocked_def is_reply_def)

lemma handleBlocked_RType [simp]: "RType (handleBlocked lib r request q reason) = ResponseTypeBLOCKED"
  by (simp add: handleBlocked_def)

section \<open>Facts about the decision\<close>

lemma denylist_loop_None:
  "denylist_loop lib r next gs ao request w qs = None \<longleftrightarrow>
   (\<forall>q\<in>set qs. \<not> listed (allowlistMatcher r) gs (ExtractDomain q) \<and> \<not> ao \<and>
      \<not> listed (denylistMatcher r) gs (ExtractDomain q))"
  by (induction qs) (auto simp: Let_def)

lemma denylist_loop_blocks:
  assumes "\<forall>q\<in>set qs. \<not> listed (allowlistMatcher r) gs (ExtractDomain q)"
    and "denylist_loop lib r next gs ao request w qs = Some result"
  shows "\<exists>q\<in>set qs. \<exists>reason. result = (Ret (handleBlocked lib r request q reason), request, w)"
  using assms by (induction qs) (auto simp: Let_def split: if_splits)

lemma answer_loop_None:
  "answer_loop r gs rrs = None \<longleftrightarrow>
   (\<forall>rr\<in>set rrs. let e = fst (extractEntryToCheckFromResponse rr) in
      e \<noteq> [] \<longrightarrow> listed (allowlistMatcher r) gs e \<or> \<not> listed (denylistMatcher r) gs e)"
  by (induction rrs) (auto simp: Let_def split: prod.splits)

lemma Blocking_Resolve_denied:
  fixes r :: BlockingResolver and request :: Request
  assumes "dnslib_ok lib"
    and "gs = groupsToCheckForClient r request" and "gs \<noteq> []"
    and "\<forall>q\<in>set (m_Question (Req request)). \<not> listed (allowlistMatcher r) gs (ExtractDomain q)"
    and "\<exists>q\<in>set (m_Question (Req request)).
      listed (denylistMatcher r) gs (ExtractDomain q) \<or> hasAllowlistOnlyAllowed r gs"
  shows "\<exists>resp. Blocking_Resolve lib r next request w = (Ret resp, request, w) \<and> blocks resp request"
proof -
  let ?loop = "denylist_loop lib r next gs (hasAllowlistOnlyAllowed r gs) request w (m_Question (Req request))"
  have "?loop \<noteq> None" using assms(5) by (auto simp: denylist_loop_None)
  then obtain result where l: "?loop = Some result" by auto
  from denylist_loop_blocks [OF assms(4) l] obtain q reason where
    res: "result = (Ret (handleBlocked lib r request q reason), request, w)" by blast
  have "Blocking_Resolve lib r next request w = result"
    using assms(2,3) l by (simp add: Blocking_Resolve_def handleDenylist_def Let_def)
  with res handleBlocked_blocks [OF assms(1)] show ?thesis by blast
qed

section \<open>Facts about the groups of a client\<close>

lemma groupsToCheck_sorted: "sorted (groupsToCheckForClient r request)"
  by (simp add: groupsToCheckForClient_def Let_def)

lemma groupsToCheck_enabled: "g \<in> set (groupsToCheckForClient r request) \<Longrightarrow> g \<notin> set (disabledGroups (bstatus r))"
  by (auto simp: groupsToCheckForClient_def Let_def isGroupDisabled_def list_ex_iff)

lemma mset_concat_map_cong: "mset xs = mset ys \<Longrightarrow> mset (concat (map f xs)) = mset (concat (map f ys))"
proof -
  assume "mset xs = mset ys"
  then have "mset (map (\<lambda>x. mset (f x)) xs) = mset (map (\<lambda>x. mset (f x)) ys)" unfolding mset_map by simp
  then have "sum_list (map (\<lambda>x. mset (f x)) xs) = sum_list (map (\<lambda>x. mset (f x)) ys)"
    by (metis sum_mset_sum_list)
  then show ?thesis by (simp add: mset_concat comp_def)
qed

lemma sort_cong: "mset xs = mset ys \<Longrightarrow> sort xs = sort ys"
  by (metis mset_sort properties_for_sort sorted_sort)

lemma map_of_mset:
  "mset xs = mset ys \<Longrightarrow> distinct (map fst xs) \<Longrightarrow> map_of xs = map_of ys"
proof -
  assume m: "mset xs = mset ys" and d: "distinct (map fst xs)"
  have "distinct (map fst ys)" using d m mset_eq_imp_distinct_iff [of "map fst xs" "map fst ys"] by simp
  then show ?thesis using map_of_inject_set [OF d] mset_eq_setD [OF m] by blast
qed

lemma groups_by_name_cong:
  "mset (clientGroups r) = mset cg \<Longrightarrow>
   mset (groups_by_name r n) = mset (groups_by_name (r\<lparr>clientGroups := cg\<rparr>) n)"
  unfolding groups_by_name_def by (rule mset_concat_map_cong) simp

lemma groups_by_identifier_upd [simp]:
  "groups_by_identifier (r\<lparr>clientGroups := cg\<rparr>) = groups_by_identifier r"
  by (auto simp: groups_by_identifier_def fun_eq_iff split: prod.splits option.splits)

section \<open>An example\<close>

definition example_blocking :: "ListCache \<Rightarrow> ListCache \<Rightarrow> BlockingResolver" where
  "example_blocking deny allow =
     \<lparr>denylists = [(''ads'', [])], denylistMatcher = deny, allowlistMatcher = allow,
      handler = zeroIPBlockHandler 60, allowlistOnlyGroups = [],
      bstatus = \<lparr>enabled = True, disabledGroups = [], enableTimer = None, disableEnd = 0\<rparr>,
      clientGroups = [(''default'', [''ads''])], redisClient = False, fqdnIPCache = None,
      events = [], redisOut = []\<rparr>"

text \<open>A list cache with one exact entry in the group \<open>ads\<close>.\<close>

definition one_entry :: "string \<Rightarrow> ListCache" where
  "one_entry e = (newListCache 0 [])\<lparr>groupedCache :=
     [NewInMemoryGroupedRegexCache, NewInMemoryGroupedWildcardCache,
      NewInMemoryGroupedStringCache\<lparr>caches := [(''ads'', StringMapC [(length e, e)])]\<rparr>]\<rparr>"

definition example_request :: "string \<Rightarrow> Request" where
  "example_request name = \<lparr>ClientIP = IPv4 192 168 0 2, RequestClientID = [], Protocol = RequestProtocolUDP,
     ClientNames = [], Req = example_query name TypeA, RequestTS = 0\<rparr>"

text \<open>The next resolver of the examples answers with one address and counts its calls.\<close>

definition example_next :: "nat resolver" where
  "example_next request n =
     (Ret \<lparr>Res = Some (new_Msg\<lparr>m_Answer := [RR_A \<lparr>h_Name = ''x.'', h_Type = TypeA, h_Class = ClassINET, h_Ttl = 5\<rparr>
        (IPv4 1 2 3 4)]\<rparr>), Reason = ''RESOLVED'', RType = ResponseTypeRESOLVED\<rparr>, request, n + 1)"

lemma example_groups:
  "groupsToCheckForClient (example_blocking d a) (example_request name) = [''ads'']"
proof -
  have c: "CidrContainsIP ''default'' (IPv4 192 168 0 2) = False" by code_simp
  have f: "isFQDN ''default'' = False" by code_simp
  have n: "IP_String (IPv4 192 168 0 2) \<noteq> ''default''" by code_simp
  show ?thesis
    using c f n by (simp add: groupsToCheckForClient_def groups_by_identifier_def
        isGroupDisabled_def example_blocking_def example_request_def)
qed

section \<open>Properties\<close>

text \<open>
  C2. Blocked queries never leave the program. If none of the questions is allowlisted for
  the groups of the client, and one of them is denylisted or the client is in an
  allowlist-only group, then the next resolver is not called (its state is unchanged) and
  the client gets a blocked response to its own query.
\<close>

theorem denied_query_is_blocked:
  fixes r :: BlockingResolver and request :: Request
  assumes "dnslib_ok lib"
    and "gs = groupsToCheckForClient r request" and "gs \<noteq> []"
    and "\<forall>q\<in>set (m_Question (Req request)). \<not> listed (allowlistMatcher r) gs (ExtractDomain q)"
    and "\<exists>q\<in>set (m_Question (Req request)).
      listed (denylistMatcher r) gs (ExtractDomain q) \<or> hasAllowlistOnlyAllowed r gs"
  shows "\<exists>resp. Blocking_Resolve lib r next request w = (Ret resp, request, w) \<and> blocks resp request"
  using Blocking_Resolve_denied [OF assms] .

theorem denied_query_is_blocked_witness:
  "\<exists>resp. Blocking_Resolve example_lib (example_blocking (one_entry ''ads.com'') (one_entry ''ok.com''))
     example_next (example_request ''ADS.com.'') 0 = (Ret resp, example_request ''ADS.com.'', 0) \<and>
   blocks resp (example_request ''ADS.com.'')"
proof -
  let ?r = "example_blocking (one_entry ''ads.com'') (one_entry ''ok.com'')"
  have deny: "matches [''ads''] (one_entry ''ads.com'') ''ads.com'' = [''ads'']" by code_simp
  have allow: "matches [''ads''] (one_entry ''ok.com'') ''ads.com'' = []" by code_simp
  have dom: "ExtractDomainOnly ''ADS.com.'' = ''ads.com''" by code_simp
  have "listed (denylistMatcher ?r) [''ads''] ''ads.com''" "\<not> listed (allowlistMatcher ?r) [''ads''] ''ads.com''"
    using deny allow matches_Nil [of "[''ads'']" "one_entry ''ads.com''" "''ads.com''"]
      matches_Nil [of "[''ads'']" "one_entry ''ok.com''" "''ads.com''"]
    by (auto simp: example_blocking_def)
  then show ?thesis
    using denied_query_is_blocked [OF example_lib_ok, of "[''ads'']" ?r "example_request ''ADS.com.''" example_next 0]
      dom example_groups
    by (simp add: example_request_def example_query_def ExtractDomain_def)
qed

text \<open>
  C4. The allowlist wins. A query whose first question is allowlisted for the groups of
  the client is answered by the next resolver, whatever the denylists say about the
  question or about the records of the answer, also in allowlist-only groups.
\<close>

theorem allowlisted_query_is_resolved:
  assumes "m_Question (Req request) = q # qs"
    and "listed (allowlistMatcher r) (groupsToCheckForClient r request) (ExtractDomain q)"
  shows "Blocking_Resolve lib r next request w = next request w"
proof -
  have "groupsToCheckForClient r request \<noteq> []" using assms(2) by (auto simp: listed_def)
  then show ?thesis using assms by (simp add: Blocking_Resolve_def handleDenylist_def Let_def)
qed

theorem allowlisted_query_is_resolved_witness:
  "Blocking_Resolve example_lib (example_blocking (one_entry ''ads.com'') (one_entry ''ads.com''))
     example_next (example_request ''ads.com.'') 0 = example_next (example_request ''ads.com.'') 0"
proof (rule allowlisted_query_is_resolved)
  let ?r = "example_blocking (one_entry ''ads.com'') (one_entry ''ads.com'')"
  show "m_Question (Req (example_request ''ads.com.'')) =
      \<lparr>q_Name = ''ads.com.'', q_Type = TypeA, q_Class = ClassINET\<rparr> # []"
    by (simp add: example_request_def example_query_def)
  have "matches [''ads''] (one_entry ''ads.com'') ''ads.com'' = [''ads'']" by code_simp
  then have l: "listed (one_entry ''ads.com'') [''ads''] ''ads.com''"
    using matches_Nil [of "[''ads'']" "one_entry ''ads.com''" "''ads.com''"] by auto
  have "ExtractDomainOnly ''ads.com.'' = ''ads.com''" by code_simp
  with l show "listed (allowlistMatcher ?r) (groupsToCheckForClient ?r (example_request ''ads.com.''))
      (ExtractDomain \<lparr>q_Name = ''ads.com.'', q_Type = TypeA, q_Class = ClassINET\<rparr>)"
    unfolding example_groups by (simp add: example_blocking_def ExtractDomain_def)
qed



text \<open>
  The groups checked for a client do not depend on the order in which Go iterates over
  the configuration map: they are sorted, contain no disabled group, and are the same for
  every permutation of the map.
\<close>

theorem groups_to_check_order:
  assumes "mset (clientGroups r) = mset cg" and "distinct (map fst (clientGroups r))"
  shows "groupsToCheckForClient (r\<lparr>clientGroups := cg\<rparr>) request = groupsToCheckForClient r request \<and>
    sorted (groupsToCheckForClient r request) \<and>
    (\<forall>g\<in>set (groupsToCheckForClient r request). g \<notin> set (disabledGroups (bstatus r)))"
proof -
  let ?r = "r\<lparr>clientGroups := cg\<rparr>"
  let ?byName = "\<lambda>r. concat (map (groups_by_name r) (ClientNames request))"
  let ?byIP = "\<lambda>r. case map_of (clientGroups r) (IP_String (ClientIP request)) of None \<Rightarrow> [] | Some gs \<Rightarrow> gs"
  let ?byCidr = "\<lambda>r. concat (map (groups_by_identifier r (ClientIP request)) (clientGroups r))"
  let ?groups = "\<lambda>r. ?byName r @ ?byIP r @ ?byCidr r"
  have mo: "map_of (clientGroups ?r) = map_of (clientGroups r)" using map_of_mset [OF assms] by simp
  have "mset (?byName r) = mset (?byName ?r)"
    using groups_by_name_cong [OF assms(1)] by (induction "ClientNames request") (auto simp: mset_concat comp_def)
  moreover have "mset (?byCidr r) = mset (?byCidr ?r)"
    using mset_concat_map_cong [OF assms(1), of "groups_by_identifier r (ClientIP request)"] by simp
  ultimately have m: "mset (?groups r) = mset (?groups ?r)" using mo by simp
  then have len: "length (?groups r) = length (?groups ?r)" by (rule mset_eq_length)
  have dis: "isGroupDisabled ?r = isGroupDisabled r" by (auto simp: isGroupDisabled_def fun_eq_iff)
  have "mset (filter (\<lambda>g. \<not> isGroupDisabled r g) (?groups r)) = mset (filter (\<lambda>g. \<not> isGroupDisabled r g) (?groups ?r))"
    using m by (simp only: mset_filter)
  then have "groupsToCheckForClient ?r request = groupsToCheckForClient r request"
    unfolding groupsToCheckForClient_def Let_def dis mo len by (auto intro: sort_cong)
  then show ?thesis using groupsToCheck_sorted groupsToCheck_enabled by blast
qed

theorem groups_to_check_order_witness:
  "let r = (example_blocking (one_entry ''a'') (one_entry ''b''))\<lparr>clientGroups := [(''default'', [''ads'']), (''x'', [''y''])]\<rparr>
   in groupsToCheckForClient (r\<lparr>clientGroups := [(''x'', [''y'']), (''default'', [''ads''])]\<rparr>) (example_request ''a.'') =
     groupsToCheckForClient r (example_request ''a.'')"
  using groups_to_check_order [of "(example_blocking (one_entry ''a'') (one_entry ''b''))\<lparr>clientGroups :=
      [(''default'', [''ads'']), (''x'', [''y''])]\<rparr>" "[(''x'', [''y'']), (''default'', [''ads''])]" "example_request ''a.''"]
  by (simp add: Let_def add_mset_commute)

end
