(* ===== verification/Simple_Resolvers.thy ===== *)
theory Simple_Resolvers
  imports Dns
begin

text \<open>
  The resolvers that decide from the question and the client alone: filtering by query
  type, fully qualified names only, special-use names, extended errors, client subnet
  (ECS), and the resolver that ends a branch of the chain.

  Each takes the next resolver of the chain as an argument. \<open>request.Req.Question[0]\<close> panics
  when the request has no question; the server answers such requests itself.
\<close>

section \<open>End of a branch\<close>

definition NoResponse :: Response where
  "NoResponse = \<lparr>Res = None, Reason = [], RType = ResponseTypeRESOLVED\<rparr>"

definition NoOp_Resolve :: "'w resolver" where
  "NoOp_Resolve request w = (Ret NoResponse, request, w)"

section \<open>Filtering\<close>

definition QTypeSet_Contains :: "uint16 list \<Rightarrow> uint16 \<Rightarrow> bool" where
  "QTypeSet_Contains s qType = (qType \<in> set s)"

definition QTypeSet_Insert :: "uint16 list \<Rightarrow> uint16 \<Rightarrow> uint16 list" where
  "QTypeSet_Insert s qType = (if qType \<in> set s then s else s @ [qType])"

definition NewQTypeSet :: "uint16 list \<Rightarrow> uint16 list" where
  "NewQTypeSet qTypes = fold (\<lambda>q s. QTypeSet_Insert s q) qTypes []"

definition Filtering_Resolve :: "dnslib \<Rightarrow> uint16 list \<Rightarrow> 'w resolver \<Rightarrow> 'w resolver" where
  "Filtering_Resolve lib queryTypes next request w =
     (case m_Question (Req request) of
        [] \<Rightarrow> (Panic IndexOutOfRange, request, w)
      | q # _ \<Rightarrow>
          if QTypeSet_Contains queryTypes (q_Type q)
          then (Ret \<lparr>Res = Some (lib_SetRcode lib new_Msg (Req request) RcodeSuccess), Reason = [],
                     RType = ResponseTypeFILTERED\<rparr>, request, w)
          else next request w)"

section \<open>Fully qualified names only\<close>

text \<open>The response is a new message: it is not made a reply to the request.\<close>

definition FQDNOnly_Resolve :: "bool \<Rightarrow> 'w resolver \<Rightarrow> 'w resolver" where
  "FQDNOnly_Resolve enable next request w =
     (if enable then
        (case m_Question (Req request) of
           [] \<Rightarrow> (Panic IndexOutOfRange, request, w)
         | q # _ \<Rightarrow>
             if CHR ''.'' \<notin> set (ExtractDomain q)
             then (Ret \<lparr>Res = Some (new_Msg\<lparr>m_Rcode := RcodeNameError\<rparr>), Reason = ''NOTFQDN'',
                        RType = ResponseTypeNOTFQDN\<rparr>, request, w)
             else next request w)
      else next request w)"

section \<open>Extended errors\<close>

definition addExtraReasoning :: "dnslib \<Rightarrow> Response \<Rightarrow> Response" where
  "addExtraReasoning lib res =
     (let infocode = ToExtendedErrorCode (RType res) in
      if infocode = ExtendedErrorCodeOther then res
      else res\<lparr>Res := snd (SetEdns0Option lib (EDNS0_EDE infocode (Reason res)) (Res res))\<rparr>)"

definition EDE_Resolve :: "dnslib \<Rightarrow> bool \<Rightarrow> 'w resolver \<Rightarrow> 'w resolver" where
  "EDE_Resolve lib enable next request w =
     (if \<not> enable then next request w
      else (case next request w of
              (Ret resp, request', w') \<Rightarrow> (Ret (addExtraReasoning lib resp), request', w')
            | failure \<Rightarrow> failure))"

section \<open>Special-use names\<close>

datatype sudnHandler = sudnNXDomain | sudnLocalhost | sudnRFC6762AppendixG | sudnHomeArpa

definition sudnHandlers :: "(string \<times> sudnHandler option) list" where
  "sudnHandlers =
     [(''10.in-addr.arpa.'', Some sudnNXDomain), (''21.172.in-addr.arpa.'', Some sudnNXDomain),
      (''26.172.in-addr.arpa.'', Some sudnNXDomain), (''16.172.in-addr.arpa.'', Some sudnNXDomain),
      (''22.172.in-addr.arpa.'', Some sudnNXDomain), (''27.172.in-addr.arpa.'', Some sudnNXDomain),
      (''17.172.in-addr.arpa.'', Some sudnNXDomain), (''30.172.in-addr.arpa.'', Some sudnNXDomain),
      (''28.172.in-addr.arpa.'', Some sudnNXDomain), (''18.172.in-addr.arpa.'', Some sudnNXDomain),
      (''23.172.in-addr.arpa.'', Some sudnNXDomain), (''29.172.in-addr.arpa.'', Some sudnNXDomain),
      (''19.172.in-addr.arpa.'', Some sudnNXDomain), (''24.172.in-addr.arpa.'', Some sudnNXDomain),
      (''31.172.in-addr.arpa.'', Some sudnNXDomain), (''20.172.in-addr.arpa.'', Some sudnNXDomain),
      (''25.172.in-addr.arpa.'', Some sudnNXDomain), (''168.192.in-addr.arpa.'', Some sudnNXDomain),
      (''test.'', Some sudnNXDomain), (''localhost.'', Some sudnLocalhost),
      (''invalid.'', Some sudnNXDomain),
      (''example.'', None), (''example.com.'', None), (''example.net.'', None), (''example.org.'', None),
      (''local.'', Some sudnNXDomain), (''254.169.in-addr.arpa.'', Some sudnNXDomain),
      (''8.e.f.ip6.arpa.'', Some sudnNXDomain), (''9.e.f.ip6.arpa.'', Some sudnNXDomain),
      (''a.e.f.ip6.arpa.'', Some sudnNXDomain), (''b.e.f.ip6.arpa.'', Some sudnNXDomain),
      (''intranet.'', Some sudnRFC6762AppendixG), (''internal.'', Some sudnRFC6762AppendixG),
      (''private.'', Some sudnRFC6762AppendixG), (''corp.'', Some sudnRFC6762AppendixG),
      (''home.'', Some sudnRFC6762AppendixG), (''lan.'', Some sudnRFC6762AppendixG),
      (''onion.'', Some sudnNXDomain), (''home.arpa.'', Some sudnHomeArpa)]"

text \<open>\<open>strings.Cut(s, ".")\<close>: the part after the first dot.\<close>

definition cutDot :: "string \<Rightarrow> string option" where
  "cutDot s = map_option (\<lambda>i. drop (i + 1) s) (indexByte s CHR ''.'')"

lemma cutDot_shorter: "cutDot s = Some r \<Longrightarrow> length r < length s"
  using length_takeWhile_le [of "\<lambda>x. x \<noteq> CHR ''.''" s]
  by (auto simp: cutDot_def indexByte_def Let_def split: if_splits)

function sudn_handler :: "string \<Rightarrow> sudnHandler option" where
  "sudn_handler domain =
     (case map_of sudnHandlers domain of
        Some h \<Rightarrow> h
      | None \<Rightarrow> (case cutDot domain of None \<Rightarrow> None | Some after \<Rightarrow> sudn_handler after))"
  by pat_completeness auto
termination by (relation "measure length") (auto dest: cutDot_shorter)

declare sudn_handler.simps [simp del]

definition newSUDNResponse :: "dnslib \<Rightarrow> Request \<Rightarrow> int \<Rightarrow> Response" where
  "newSUDNResponse lib request rcode =
     newResponse lib request rcode ResponseTypeSPECIAL ''Special-Use Domain Name''"

definition sudn_localhost :: "dnslib \<Rightarrow> Request \<Rightarrow> Question \<Rightarrow> Response" where
  "sudn_localhost lib request q =
     (let h = \<lparr>h_Name = q_Name q, h_Type = q_Type q, h_Class = ClassINET, h_Ttl = 0\<rparr>;
          response = newSUDNResponse lib request RcodeSuccess in
      if q_Type q = TypeA
      then response\<lparr>Res := map_option (m_Answer_update (\<lambda>_. [RR_A h (IPv4 127 0 0 1)])) (Res response)\<rparr>
      else if q_Type q = TypeAAAA
      then response\<lparr>Res := map_option (m_Answer_update (\<lambda>_. [RR_AAAA h IPv6loopback])) (Res response)\<rparr>
      else newSUDNResponse lib request RcodeNameError)"

fun sudn_apply :: "dnslib \<Rightarrow> bool \<Rightarrow> sudnHandler \<Rightarrow> Request \<Rightarrow> Question \<Rightarrow> Response option" where
  "sudn_apply lib appendixG sudnNXDomain request q = Some (newSUDNResponse lib request RcodeNameError)"
| "sudn_apply lib appendixG sudnLocalhost request q = Some (sudn_localhost lib request q)"
| "sudn_apply lib appendixG sudnRFC6762AppendixG request q =
     (if \<not> appendixG then None else Some (newSUDNResponse lib request RcodeNameError))"
| "sudn_apply lib appendixG sudnHomeArpa request q =
     (if q_Type q = TypeDS then None else Some (newSUDNResponse lib request RcodeNameError))"

definition SUDN_Resolve :: "dnslib \<Rightarrow> bool \<Rightarrow> bool \<Rightarrow> 'w resolver \<Rightarrow> 'w resolver" where
  "SUDN_Resolve lib enable appendixG next request w =
     (if \<not> enable then next request w
      else (case m_Question (Req request) of
              [] \<Rightarrow> (Panic IndexOutOfRange, request, w)
            | q # _ \<Rightarrow>
                (case sudn_handler (q_Name q) of
                   None \<Rightarrow> next request w
                 | Some h \<Rightarrow>
                     (case sudn_apply lib appendixG h request q of
                        None \<Rightarrow> next request w
                      | Some resp \<Rightarrow> (Ret resp, request, w)))))"

section \<open>Client subnet\<close>

record ECS =
  UseAsClient :: bool
  Forward :: bool
  IPv4Mask :: byte
  IPv6Mask :: byte

definition ecsSourceScope :: byte where "ecsSourceScope = 0"
definition ecsMaskIPv4 :: byte where "ecsMaskIPv4 = 32"
definition ecsMaskIPv6 :: byte where "ecsMaskIPv6 = 128"
definition ecsFamilyIPv4 :: uint16 where "ecsFamilyIPv4 = 1"
definition ecsFamilyIPv6 :: uint16 where "ecsFamilyIPv6 = 2"

definition ECS_IsEnabled :: "ECS \<Rightarrow> bool" where
  "ECS_IsEnabled c \<longleftrightarrow> UseAsClient c \<or> Forward c \<or> IPv4Mask c > 0 \<or> IPv6Mask c > 0"

text \<open>The mask of the configuration: a decimal number of 8 bits up to a maximum.\<close>

definition ecs_unmarshalInternal :: "string \<Rightarrow> byte \<Rightarrow> byte option" where
  "ecs_unmarshalInternal text maxvalue =
     (case ParseUint8 10 text of
        None \<Rightarrow> None
      | Some n \<Rightarrow> if n > unat maxvalue then None else Some (of_nat n))"

fun is_SUBNET :: "EDNS0 \<Rightarrow> bool" where
  "is_SUBNET (EDNS0_SUBNET family netmask scope addr) = True" | "is_SUBNET _ = False"

text \<open>\<open>mip.IP\<close> dereferences the network also when the parser returned none.\<close>

definition maskIP :: "IP \<Rightarrow> byte \<Rightarrow> go_panic + IP" where
  "maskIP ip netmask =
     (case ParseCIDR (IP_String ip @ ''/'' @ showNat (unat netmask)) of
        None \<Rightarrow> Inl NilDereference
      | Some (_, mip) \<Rightarrow> Inr (net_IP mip))"

definition newEdnsSubnetOption :: "IP \<Rightarrow> uint16 \<Rightarrow> byte \<Rightarrow> EDNS0" where
  "newEdnsSubnetOption ip family netmask = EDNS0_SUBNET family netmask ecsSourceScope ip"

text \<open>The address the subnet option is made from, and the option.\<close>

definition ecs_subIP :: "ECS \<Rightarrow> EDNS0 option \<Rightarrow> Request \<Rightarrow> IP" where
  "ecs_subIP cfg so request =
     (case so of
        Some (EDNS0_SUBNET family netmask scope addr) \<Rightarrow>
          if Forward cfg \<and> addr \<noteq> [] then addr else ClientIP request
      | _ \<Rightarrow> ClientIP request)"

definition ecs_option :: "ECS \<Rightarrow> IP \<Rightarrow> go_panic + EDNS0 option" where
  "ecs_option cfg subIP =
     (if To4 subIP \<noteq> [] \<and> IPv4Mask cfg > 0
      then (case maskIP (To4 subIP) (IPv4Mask cfg) of
              Inl p \<Rightarrow> Inl p
            | Inr mip \<Rightarrow> Inr (Some (newEdnsSubnetOption mip ecsFamilyIPv4 (IPv4Mask cfg))))
      else if To16 subIP \<noteq> [] \<and> IPv6Mask cfg > 0
      then (case maskIP (To16 subIP) (IPv6Mask cfg) of
              Inl p \<Rightarrow> Inl p
            | Inr mip \<Rightarrow> Inr (Some (newEdnsSubnetOption mip ecsFamilyIPv6 (IPv6Mask cfg))))
      else Inr None)"

definition setSubnet :: "dnslib \<Rightarrow> ECS \<Rightarrow> EDNS0 option \<Rightarrow> Request \<Rightarrow> go_panic + Request" where
  "setSubnet lib cfg so request =
     (case ecs_option cfg (ecs_subIP cfg so request) of
        Inl p \<Rightarrow> Inl p
      | Inr None \<Rightarrow> Inr request
      | Inr (Some opt) \<Rightarrow>
          (case snd (SetEdns0Option lib opt (Some (Req request))) of
             None \<Rightarrow> Inr request | Some m \<Rightarrow> Inr (request\<lparr>Req := m\<rparr>)))"

definition ecs_client :: "ECS \<Rightarrow> EDNS0 option \<Rightarrow> Request \<Rightarrow> Request" where
  "ecs_client cfg so request =
     (case so of
        Some (EDNS0_SUBNET family netmask scope addr) \<Rightarrow>
          if UseAsClient cfg \<and> ((family = ecsFamilyIPv4 \<and> netmask = ecsMaskIPv4) \<or>
               (family = ecsFamilyIPv6 \<and> netmask = ecsMaskIPv6))
          then request\<lparr>ClientIP := addr\<rparr> else request
      | _ \<Rightarrow> request)"

text \<open>What the resolver does to the request.\<close>

definition ecs_request :: "dnslib \<Rightarrow> ECS \<Rightarrow> Request \<Rightarrow> go_panic + Request" where
  "ecs_request lib cfg request =
     (case GetEdns0Option lib EDNS0SUBNET is_SUBNET (Some (Req request)) of
        Inl p \<Rightarrow> Inl p
      | Inr so \<Rightarrow>
          let request1 = ecs_client cfg so request in
          (case (if IPv4Mask cfg > 0 \<or> IPv6Mask cfg > 0 then setSubnet lib cfg so request1 else Inr request1) of
             Inl p \<Rightarrow> Inl p
           | Inr request2 \<Rightarrow>
               if IPv4Mask cfg = 0 \<and> IPv6Mask cfg = 0 \<and> so \<noteq> None \<and> \<not> Forward cfg
               then (case snd (RemoveEdns0Option lib EDNS0SUBNET (Some (Req request2))) of
                       None \<Rightarrow> Inr request2 | Some m \<Rightarrow> Inr (request2\<lparr>Req := m\<rparr>))
               else Inr request2))"

definition ECS_Resolve :: "dnslib \<Rightarrow> ECS \<Rightarrow> 'w resolver \<Rightarrow> 'w resolver" where
  "ECS_Resolve lib cfg next request w =
     (if ECS_IsEnabled cfg
      then (case ecs_request lib cfg request of
              Inl p \<Rightarrow> (Panic p, request, w)
            | Inr request' \<Rightarrow> next request' w)
      else next request w)"

section \<open>Facts about special-use names\<close>

lemma cutDot_append: "CHR ''.'' \<notin> set a \<Longrightarrow> cutDot (a @ CHR ''.'' # b) = Some b"
proof -
  assume "CHR ''.'' \<notin> set a"
  then have "takeWhile (\<lambda>x. x \<noteq> CHR ''.'') (a @ CHR ''.'' # b) = a" by (induction a) auto
  then show ?thesis by (simp add: cutDot_def indexByte_def)
qed

text \<open>A name is in the zone of another if it equals it or extends it by labels.\<close>

definition in_zone :: "string \<Rightarrow> string \<Rightarrow> bool" where
  "in_zone name zone \<longleftrightarrow> name = zone \<or> hasSuffix name (CHR ''.'' # zone)"

lemma in_zone_cut:
  assumes "in_zone name zone" and "name \<noteq> zone"
  shows "\<exists>rest. cutDot name = Some rest \<and> in_zone rest zone"
proof -
  obtain r where r: "name = r @ CHR ''.'' # zone" using assms by (auto simp: in_zone_def hasSuffix_iff)
  show ?thesis
  proof (cases "CHR ''.'' \<in> set r")
    case False
    then show ?thesis using r cutDot_append [OF False, of zone] by (simp add: in_zone_def)
  next
    case True
    then obtain a b where ab: "r = a @ CHR ''.'' # b" "CHR ''.'' \<notin> set a" by (meson split_list_first)
    then have "cutDot name = Some (b @ CHR ''.'' # zone)" using r cutDot_append [of a] by simp
    then show ?thesis by (auto simp: in_zone_def hasSuffix_iff)
  qed
qed

text \<open>No zone of the table lies in another one, so a name has at most one entry.\<close>

lemma sudn_zones_disjoint:
  "\<forall>k\<in>set (map fst sudnHandlers). \<forall>k'\<in>set (map fst sudnHandlers). \<not> hasSuffix k (CHR ''.'' # k')"
  "distinct (map fst sudnHandlers)"
  by code_simp+

lemma sudn_handler_zone:
  "(zone, h) \<in> set sudnHandlers \<Longrightarrow> in_zone name zone \<Longrightarrow> sudn_handler name = h"
proof (induction name rule: sudn_handler.induct)
  case (1 name)
  have hz: "map_of sudnHandlers zone = Some h" using "1.prems"(1) sudn_zones_disjoint(2) by simp
  show ?case
  proof (cases "map_of sudnHandlers name")
    case (Some h')
    have "name = zone"
    proof (rule ccontr)
      assume "name \<noteq> zone"
      then have "hasSuffix name (CHR ''.'' # zone)" using "1.prems"(2) by (simp add: in_zone_def)
      moreover have "name \<in> set (map fst sudnHandlers)" using Some by (rule map_of_keysI)
      moreover have "zone \<in> set (map fst sudnHandlers)" using hz by (rule map_of_keysI)
      ultimately show False using sudn_zones_disjoint(1) by blast
    qed
    then show ?thesis using hz by (simp add: sudn_handler.simps [of zone])
  next
    case None
    then have "name \<noteq> zone" using hz by auto
    then obtain rest where rest: "cutDot name = Some rest" "in_zone rest zone"
      using in_zone_cut [OF "1.prems"(2)] by blast
    with "1.IH" [OF None rest(1) "1.prems"(1)] None show ?thesis by (simp add: sudn_handler.simps [of name])
  qed
qed

section \<open>Facts about client subnets\<close>

lemma isDigit_chars [simp]: "\<not> isDigit CHR ''.''" "\<not> isDigit CHR ''/''" "\<not> isDigit CHR ''%''" "\<not> isDigit CHR '':''"
  by code_simp+

lemma showNat_digits: "c \<in> set (showNat n) \<Longrightarrow> isDigit c" and showNat_nonempty: "showNat n \<noteq> []"
  and showNat_value: "foldl (\<lambda>a c. a * 10 + digitVal c) 0 (showNat n) = n"
proof -
  have "n < 10 ^ Suc n" by (induction n) simp_all
  from showNat_fuel_value [OF this] show "c \<in> set (showNat n) \<Longrightarrow> isDigit c" "showNat n \<noteq> []"
    "foldl (\<lambda>a c. a * 10 + digitVal c) 0 (showNat n) = n"
    by (auto simp: showNat_def list_all_iff)
qed

lemma dtoi_showNat: "n < 0xFFFFFF \<Longrightarrow> dtoi (showNat n) = Some n"
  using showNat_digits [of _ n] showNat_nonempty [of n] showNat_value [of n]
  by (auto simp: dtoi_def numVal_def)

lemma joinStr_set: "set (joinStr sep xs) \<subseteq> (\<Union>x\<in>set xs. set x) \<union> set sep"
  by (induction sep xs rule: joinStr.induct) auto

lemma dotted_chars: "c \<in> set (joinStr ''.'' (map (\<lambda>b. showNat (unat b)) (bs :: byte list))) \<Longrightarrow> isDigit c \<or> c = CHR ''.''"
  using joinStr_set [of "''.''" "map (\<lambda>b. showNat (unat b)) bs"] showNat_digits by fastforce

lemma indexByte_append: "c \<notin> set a \<Longrightarrow> indexByte (a @ c # b) c = Some (length a)"
proof -
  assume "c \<notin> set a"
  then have "takeWhile (\<lambda>x. x \<noteq> c) (a @ c # b) = a" by (induction a) auto
  then show ?thesis by (simp add: indexByte_def)
qed

lemma To4_To16: "To4 ip \<noteq> [] \<Longrightarrow> To4 (To16 ip) = To4 ip"
  by (auto simp: To4_def To16_def)

lemma IP_String_v4: "To4 ip \<noteq> [] \<Longrightarrow> IP_String ip = joinStr ''.'' (map (\<lambda>b. showNat (unat b)) (To4 ip))"
  by (auto simp: IP_String_def To4_def split: if_splits)

text \<open>An address in dotted form has a network of at most 32 bits.\<close>

lemma ParseCIDR_v4_too_long:
  assumes "To4 ip \<noteq> []" and "n > 32" and "n < 0xFFFFFF"
  shows "ParseCIDR (IP_String ip @ ''/'' @ showNat n) = None"
proof -
  let ?s = "IP_String ip"
  have chars: "c \<in> set ?s \<Longrightarrow> isDigit c \<or> c = CHR ''.''" for c
    using dotted_chars [of c "To4 ip"] IP_String_v4 [OF assms(1)] by simp
  then have "CHR ''/'' \<notin> set ?s" using isDigit_chars by fastforce
  then have i: "indexByte (?s @ ''/'' @ showNat n) CHR ''/'' = Some (length ?s)"
    using indexByte_append [of "CHR ''/''" ?s "showNat n"] by simp
  have colon: "CHR '':'' \<notin> set ?s" using chars isDigit_chars by fastforce
  have bits: "b = 32" if "parseAddr ?s = Some (a, b)" for a b
  proof (cases "dropWhile (\<lambda>c. c \<noteq> CHR ''.'' \<and> c \<noteq> CHR '':'') ?s")
    case Nil
    show ?thesis using that unfolding parseAddr_def Nil by (simp split: if_splits)
  next
    case (Cons c rest)
    then have "c \<in> set (dropWhile (\<lambda>c. c \<noteq> CHR ''.'' \<and> c \<noteq> CHR '':'') ?s)" by simp
    then have "c \<in> set ?s" by (rule set_dropWhileD)
    moreover have "c = CHR ''.'' \<or> c = CHR '':''"
      using hd_dropWhile [of "\<lambda>c. c \<noteq> CHR ''.'' \<and> c \<noteq> CHR '':''" ?s] Cons by auto
    ultimately have "c = CHR ''.''" using colon by auto
    with Cons that show ?thesis by (auto simp: parseAddr_def split: if_splits)
  qed
  have "drop (length ?s + 1) (?s @ ''/'' @ showNat n) = showNat n" "take (length ?s) (?s @ ''/'' @ showNat n) = ?s"
    by simp_all
  then show ?thesis using i bits assms(2) dtoi_showNat [OF assms(3)]
    by (auto simp: ParseCIDR_def Let_def split: option.splits)
qed

section \<open>Properties\<close>

lemma newResponse_reply:
  "dnslib_ok lib \<Longrightarrow> \<exists>m. Res (newResponse lib request rc t reason) = Some m \<and> is_reply m (Req request) rc \<and>
     m_Answer m = [] \<and> RType (newResponse lib request rc t reason) = t"
  by (auto simp: newResponse_def dnslib_ok_def is_reply_def new_Msg_def)

text \<open>
  Special-use names stay local. With the resolver enabled, a query for a name in a zone
  of the table (the zone itself or any name below it) whose handler is the plain one is
  answered with the code for a name that does not exist, as a reply to the query, without
  calling the next resolver; and a query for an address of \<open>localhost\<close> or a name below it
  is answered with the loopback address.
\<close>

theorem special_use_names_stay_local:
  assumes "dnslib_ok lib" and "m_Question (Req request) = q # qs"
    and "(zone, Some h) \<in> set sudnHandlers" and "in_zone (q_Name q) zone" and "h \<in> {sudnNXDomain, sudnLocalhost}"
  shows "\<exists>resp m. SUDN_Resolve lib True appendixG next request w = (Ret resp, request, w) \<and>
    RType resp = ResponseTypeSPECIAL \<and> Res resp = Some m \<and>
    (if h = sudnLocalhost \<and> q_Type q \<in> {TypeA, TypeAAAA}
     then is_reply m (Req request) RcodeSuccess \<and>
       (\<exists>hdr. h_Name hdr = q_Name q \<and> m_Answer m =
          [if q_Type q = TypeA then RR_A hdr (IPv4 127 0 0 1) else RR_AAAA hdr IPv6loopback])
     else is_reply m (Req request) RcodeNameError \<and> m_Answer m = [])"
proof -
  have hd: "sudn_handler (q_Name q) = Some h" by (rule sudn_handler_zone [OF assms(3,4)])
  have t: "TypeA \<noteq> TypeAAAA" by (simp add: type_codes)
  let ?nx = "newResponse lib request RcodeNameError ResponseTypeSPECIAL ''Special-Use Domain Name''"
  let ?ok = "newResponse lib request RcodeSuccess ResponseTypeSPECIAL ''Special-Use Domain Name''"
  obtain m where m: "Res ?nx = Some m" "is_reply m (Req request) RcodeNameError" "m_Answer m = []"
      "RType ?nx = ResponseTypeSPECIAL"
    using newResponse_reply [OF assms(1), of request RcodeNameError] by blast
  obtain k where k: "Res ?ok = Some k" "is_reply k (Req request) RcodeSuccess" "RType ?ok = ResponseTypeSPECIAL"
    using newResponse_reply [OF assms(1), of request RcodeSuccess] by blast
  have rep: "is_reply (k\<lparr>m_Answer := x\<rparr>) (Req request) RcodeSuccess" for x
    using k(2) by (simp add: is_reply_def)
  from assms(5) consider "h = sudnNXDomain" | "h = sudnLocalhost" by blast
  then show ?thesis
  proof cases
    case 1
    then show ?thesis using assms(2) hd m by (simp add: SUDN_Resolve_def newSUDNResponse_def)
  next
    case 2
    then show ?thesis using assms(2) hd m k rep t
      by (cases "q_Type q = TypeA"; cases "q_Type q = TypeAAAA")
        (auto simp: SUDN_Resolve_def newSUDNResponse_def sudn_localhost_def Let_def)
  qed
qed

theorem special_use_names_stay_local_witness:
  "\<exists>resp m. SUDN_Resolve example_lib True True (\<lambda>rq n. (Fail Canceled, rq, n + 1))
      (newRequest example_lib ''a.localhost.'' TypeA) (0 :: nat) =
      (Ret resp, newRequest example_lib ''a.localhost.'' TypeA, 0) \<and>
    Res resp = Some m \<and> (\<exists>hdr. m_Answer m = [RR_A hdr (IPv4 127 0 0 1)])"
proof -
  let ?q = "\<lparr>q_Name = ''a.localhost.'', q_Type = TypeA, q_Class = ClassINET\<rparr>"
  have q: "m_Question (Req (newRequest example_lib ''a.localhost.'' TypeA)) = ?q # []"
    by (simp add: newRequest_def NewMsgWithQuestion_def example_lib_def hasSuffix_def)
  have z: "(''localhost.'', Some sudnLocalhost) \<in> set sudnHandlers" by (simp add: sudnHandlers_def)
  have i: "in_zone (q_Name ?q) ''localhost.''" by code_simp
  from special_use_names_stay_local [OF example_lib_ok q z i, of True "\<lambda>rq n. (Fail Canceled, rq, n + 1)" "0 :: nat"]
  show ?thesis by fastforce
qed

text \<open>
  Special-use names are compared with their letter case. The name \<open>LOCALHOST.\<close>, which
  DNS does not distinguish from \<open>localhost.\<close>, is passed on to the next resolver.
\<close>

theorem special_use_names_case_sensitive:
  assumes "m_Question (Req request) = q # qs" and "q_Name q = ''LOCALHOST.''"
  shows "SUDN_Resolve lib True appendixG next request w = next request w"
proof -
  have "sudn_handler ''LOCALHOST.'' = None" by code_simp
  then show ?thesis using assms by (simp add: SUDN_Resolve_def)
qed

theorem special_use_names_case_sensitive_witness:
  "SUDN_Resolve example_lib True True (\<lambda>rq n. (Fail Canceled, rq, n + 1))
     ((newRequest example_lib ''a.'' TypeA)\<lparr>Req := example_query ''LOCALHOST.'' TypeA\<rparr>) (0 :: nat) =
     (Fail Canceled, (newRequest example_lib ''a.'' TypeA)\<lparr>Req := example_query ''LOCALHOST.'' TypeA\<rparr>, 1)"
  using special_use_names_case_sensitive [of "(newRequest example_lib ''a.'' TypeA)\<lparr>Req := example_query ''LOCALHOST.'' TypeA\<rparr>"
      "\<lparr>q_Name = ''LOCALHOST.'', q_Type = TypeA, q_Class = ClassINET\<rparr>" "[]" example_lib True
      "\<lambda>rq n. (Fail Canceled, rq, n + 1)" "0 :: nat"]
  by (simp add: example_query_def)

text \<open>
  A subnet mask for IPv6 alone breaks IPv4 clients. When only the IPv6 mask is
  configured, with more than 32 bits, a request of an IPv4 client without a subnet option
  makes the resolver dereference a nil network and panic, instead of being resolved.
\<close>

theorem ecs_ipv6_mask_panics_for_ipv4:
  assumes "dnslib_ok lib" and "single_OPT (Req request)"
    and "EDNS0SUBNET \<notin> EDNS0_Option ` set (msg_options (Req request))"
    and "To4 (ClientIP request) \<noteq> []" and "IPv4Mask cfg = 0" and "unat (IPv6Mask cfg) > 32"
  shows "ECS_Resolve lib cfg next request w = (Panic NilDereference, request, w)"
proof -
  have "find (\<lambda>x. EDNS0_Option x = EDNS0SUBNET) (msg_options (Req request)) = None"
    using assms(3) unfolding find_None_iff image_iff by metis
  then have so: "GetEdns0Option lib EDNS0SUBNET is_SUBNET (Some (Req request)) = Inr None"
    using GetEdns0Option_spec [OF assms(1,2)] by simp
  have pos: "IPv6Mask cfg > 0" using assms(6) by (metis less_nat_zero_code unat_0 word_gt_0)
  have ip: "To4 (To16 (ClientIP request)) \<noteq> []" "To16 (ClientIP request) \<noteq> []"
    using To4_To16 [OF assms(4)] assms(4) by (auto simp: To16_def To4_def v4InV6Prefix_def split: if_splits)
  have "unat (IPv6Mask cfg) < 0xFFFFFF" using unat_byte [of "IPv6Mask cfg"] by simp
  then have "maskIP (To16 (ClientIP request)) (IPv6Mask cfg) = Inl NilDereference"
    using ParseCIDR_v4_too_long [OF ip(1) assms(6)] by (simp add: maskIP_def)
  then have "setSubnet lib cfg None request = Inl NilDereference"
    using assms(5) pos ip by (simp add: setSubnet_def ecs_subIP_def ecs_option_def)
  then show ?thesis using so pos by (simp add: ECS_Resolve_def ECS_IsEnabled_def ecs_request_def ecs_client_def Let_def)
qed

theorem ecs_ipv6_mask_panics_for_ipv4_witness:
  "let request = (newRequest example_lib ''a.'' TypeA)\<lparr>ClientIP := IPv4 192 168 0 2\<rparr> in
   ECS_Resolve example_lib \<lparr>UseAsClient = False, Forward = False, IPv4Mask = 0, IPv6Mask = 56\<rparr>
     (\<lambda>rq n. (Ret NoResponse, rq, n)) request (0 :: nat) = (Panic NilDereference, request, 0)"
proof -
  let ?rq = "(newRequest example_lib ''a.'' TypeA)\<lparr>ClientIP := IPv4 192 168 0 2\<rparr>"
  have "m_Extra (Req ?rq) = []"
    by (simp add: newRequest_def NewMsgWithQuestion_def example_lib_def new_Msg_def)
  then have "single_OPT (Req ?rq)" "msg_options (Req ?rq) = []" by (simp_all add: single_OPT_def msg_options_def)
  then show ?thesis unfolding Let_def
    by (intro ecs_ipv6_mask_panics_for_ipv4 [OF example_lib_ok]) simp_all
qed

text \<open>
  The reply to a name that is not fully qualified is no reply. With the resolver
  enabled, a query for a name without a dot is answered by a message that does not carry
  the identifier and the question of the query and is not marked as a response, unlike the
  replies of the other resolvers.
\<close>

theorem not_fqdn_is_no_reply:
  assumes "m_Question (Req request) = q # qs" and "CHR ''.'' \<notin> set (ExtractDomain q)"
  shows "\<exists>resp m. FQDNOnly_Resolve True next request w = (Ret resp, request, w) \<and> RType resp = ResponseTypeNOTFQDN \<and>
    Res resp = Some m \<and> m_Rcode m = RcodeNameError \<and> \<not> m_Response m \<and> m_Question m = [] \<and>
    (m_Id (Req request) \<noteq> 0 \<longrightarrow> m_Id m \<noteq> m_Id (Req request))"
  using assms by (auto simp: FQDNOnly_Resolve_def new_Msg_def)

theorem not_fqdn_is_no_reply_witness:
  "\<exists>resp m. FQDNOnly_Resolve True NoOp_Resolve ((newRequest example_lib ''a.'' TypeA)\<lparr>Req := example_query ''host.'' TypeA\<rparr>)
      (0 :: nat) = (Ret resp, (newRequest example_lib ''a.'' TypeA)\<lparr>Req := example_query ''host.'' TypeA\<rparr>, 0) \<and>
    Res resp = Some m \<and> \<not> m_Response m \<and> m_Id m \<noteq> 7"
proof -
  let ?rq = "(newRequest example_lib ''a.'' TypeA)\<lparr>Req := example_query ''host.'' TypeA\<rparr>"
  have q: "m_Question (Req ?rq) = \<lparr>q_Name = ''host.'', q_Type = TypeA, q_Class = ClassINET\<rparr> # []"
    by (simp add: example_query_def)
  have d: "CHR ''.'' \<notin> set (ExtractDomain \<lparr>q_Name = ''host.'', q_Type = TypeA, q_Class = ClassINET\<rparr>)" by code_simp
  have i: "m_Id (Req ?rq) = 7" by (simp add: example_query_def)
  from not_fqdn_is_no_reply [OF q d, of NoOp_Resolve "0 :: nat"] i show ?thesis by auto
qed

text \<open>
  The reason reaches the client. With extended errors enabled, a response of the next
  resolver that carries a message with at most one \<open>OPT\<close> record gets, unless the type has
  the unspecific code, exactly one extended error with the code of its type and its reason;
  its other options and records stay.
\<close>

theorem extended_error_is_added:
  assumes "dnslib_ok lib" and "next request w = (Ret resp, request', w')"
    and "Res resp = Some m" and "single_OPT m" and "ToExtendedErrorCode (RType resp) \<noteq> ExtendedErrorCodeOther"
  shows "\<exists>m'. EDE_Resolve lib True next request w = (Ret (resp\<lparr>Res := Some m'\<rparr>), request', w') \<and>
    msg_options m' = filter (\<lambda>x. EDNS0_Option x \<noteq> EDNS0EDE) (msg_options m) @
      [EDNS0_EDE (ToExtendedErrorCode (RType resp)) (Reason resp)] \<and>
    m_Answer m' = m_Answer m \<and> m_Rcode m' = m_Rcode m \<and>
    filter (\<lambda>rr. \<not> is_OPT rr) (m_Extra m') = filter (\<lambda>rr. \<not> is_OPT rr) (m_Extra m)"
proof -
  let ?opt = "EDNS0_EDE (ToExtendedErrorCode (RType resp)) (Reason resp)"
  from SetEdns0Option_spec [OF assms(1,4), of ?opt] obtain extra where
    s: "SetEdns0Option lib ?opt (Some m) = (True, Some (m\<lparr>m_Extra := extra\<rparr>))"
    "filter (\<lambda>rr. \<not> is_OPT rr) extra = filter (\<lambda>rr. \<not> is_OPT rr) (m_Extra m)"
    "msg_options (m\<lparr>m_Extra := extra\<rparr>) = filter (\<lambda>x. EDNS0_Option x \<noteq> EDNS0EDE) (msg_options m) @ [?opt]" by auto
  then show ?thesis using assms(2,3,5)
    by (intro exI [of _ "m\<lparr>m_Extra := extra\<rparr>"]) (simp add: EDE_Resolve_def addExtraReasoning_def Let_def)
qed

theorem extended_error_is_added_witness:
  "\<exists>m'. EDE_Resolve example_lib True
      (\<lambda>rq n. (Ret \<lparr>Res = Some new_Msg, Reason = ''BLOCKED (ads)'', RType = ResponseTypeBLOCKED\<rparr>, rq, n))
      (newRequest example_lib ''a.'' TypeA) (0 :: nat) =
      (Ret \<lparr>Res = Some m', Reason = ''BLOCKED (ads)'', RType = ResponseTypeBLOCKED\<rparr>, newRequest example_lib ''a.'' TypeA, 0) \<and>
    msg_options m' = [EDNS0_EDE 15 ''BLOCKED (ads)'']"
proof -
  let ?next = "\<lambda>rq n. (Ret \<lparr>Res = Some new_Msg, Reason = ''BLOCKED (ads)'', RType = ResponseTypeBLOCKED\<rparr>, rq, n :: nat)"
  have "single_OPT new_Msg" "msg_options new_Msg = []" by (simp_all add: single_OPT_def msg_options_def new_Msg_def)
  moreover have "ExtendedErrorCodeBlocked \<noteq> ExtendedErrorCodeOther" "ExtendedErrorCodeBlocked = 15" by code_simp+
  ultimately show ?thesis
    using extended_error_is_added [OF example_lib_ok, of ?next "newRequest example_lib ''a.'' TypeA" 0
        "\<lparr>Res = Some new_Msg, Reason = ''BLOCKED (ads)'', RType = ResponseTypeBLOCKED\<rparr>"
        "newRequest example_lib ''a.'' TypeA" 0 new_Msg] by auto
qed

end
