(* ===== verification/Routing_Resolvers.thy ===== *)
theory Routing_Resolvers
  imports Simple_Resolvers
begin

text \<open>
  The resolvers that route a query by its name: the conditional upstream resolver, which
  hands the names of configured zones to resolvers of their own, and the rewriter, which
  renames the query for an inner resolver and undoes the renaming in its response.

  A Go map is an association list in iteration order. A message changed through a shared
  pointer is returned with the change.
\<close>

section \<open>Conditional upstreams\<close>

text \<open>The parents of a name, itself first, as the loop visits them.\<close>

function lookup_parents :: "(string \<times> 'a) list \<Rightarrow> string \<Rightarrow> (string \<times> 'a) option" where
  "lookup_parents mapping domain =
     (if domain = [] then None
      else (case map_of mapping domain of
              Some r \<Rightarrow> Some (domain, r)
            | None \<Rightarrow> (case cutDot domain of None \<Rightarrow> None | Some after \<Rightarrow> lookup_parents mapping after)))"
  by pat_completeness auto
termination by (relation "measure (\<lambda>(_, d). length d)") (auto dest: cutDot_shorter)

declare lookup_parents.simps [simp del]

definition set_question_name :: "string \<Rightarrow> Msg \<Rightarrow> Msg" where
  "set_question_name name m =
     (case m_Question m of [] \<Rightarrow> m | q # qs \<Rightarrow> m\<lparr>m_Question := (q\<lparr>q_Name := name\<rparr>) # qs\<rparr>)"

definition conditional_internalResolve ::
    "dnslib \<Rightarrow> 'w resolver \<Rightarrow> string \<Rightarrow> Request \<Rightarrow> 'w \<Rightarrow> Response outcome \<times> Request \<times> 'w" where
  "conditional_internalResolve lib reso doFQ req w =
     (let req1 = req\<lparr>Req := set_question_name (lib_Fqdn lib doFQ) (Req req)\<rparr> in
      case reso req1 w of
        (Ret response, req2, w') \<Rightarrow>
          (case Res response of
             None \<Rightarrow> (Panic NilDereference, req2, w')
           | Some m \<Rightarrow>
               if length (m_Question m) > 0 then
                 (case m_Question (Req req2) of
                    [] \<Rightarrow> (Panic IndexOutOfRange, req2, w')
                  | q # _ \<Rightarrow>
                      (Ret \<lparr>Res = Some (set_question_name (q_Name q) m), Reason = ''CONDITIONAL'',
                            RType = ResponseTypeCONDITIONAL\<rparr>, req2, w'))
               else (Ret \<lparr>Res = Some m, Reason = ''CONDITIONAL'', RType = ResponseTypeCONDITIONAL\<rparr>, req2, w'))
      | failure \<Rightarrow> failure)"

definition conditional_processRequest ::
    "dnslib \<Rightarrow> (string \<times> 'w resolver) list \<Rightarrow> Request \<Rightarrow> 'w \<Rightarrow> (Response outcome \<times> Request \<times> 'w) option" where
  "conditional_processRequest lib mapping request w =
     (case m_Question (Req request) of
        [] \<Rightarrow> Some (Panic IndexOutOfRange, request, w)
      | q # _ \<Rightarrow>
          let domainFromQuestion = ExtractDomain q in
          (case (if CHR ''.'' \<in> set domainFromQuestion
                 then map_option snd (lookup_parents mapping domainFromQuestion)
                 else map_of mapping ''.'') of
             None \<Rightarrow> None
           | Some reso \<Rightarrow> Some (conditional_internalResolve lib reso domainFromQuestion request w)))"

definition Conditional_Resolve :: "dnslib \<Rightarrow> (string \<times> 'w resolver) list \<Rightarrow> 'w resolver \<Rightarrow> 'w resolver" where
  "Conditional_Resolve lib mapping next request w =
     (if length mapping > 0
      then (case conditional_processRequest lib mapping request w of
              Some result \<Rightarrow> result
            | None \<Rightarrow> next request w)
      else next request w)"

text \<open>The keys of the mapping are the configured domains in lower case.\<close>

definition newConditionalMapping :: "(string \<times> 'w resolver) list \<Rightarrow> (string \<times> 'w resolver) list" where
  "newConditionalMapping cfg = fold (\<lambda>(domain, r) m. upd_assoc (toLower domain) r m) cfg []"

section \<open>Rewriting\<close>

record RewriterConfig =
  Rewrite :: "(string \<times> string) list"
  FallbackUpstream :: bool

text \<open>The constructor adds the lower-case form of every entry, reading its value when it is visited.\<close>

definition newRewrites :: "(string \<times> string) list \<Rightarrow> (string \<times> string) list" where
  "newRewrites rw =
     fold (\<lambda>k m. case map_of m k of None \<Rightarrow> m | Some v \<Rightarrow> upd_assoc (toLower k) (toLower v) m) (map fst rw) rw"

fun rewriteDomain :: "(string \<times> string) list \<Rightarrow> string \<Rightarrow> string" where
  "rewriteDomain [] domain = domain"
| "rewriteDomain ((k, v) # rw) domain =
     (if hasSuffix domain (''.'' @ k) then trimSuffix domain (''.'' @ k) @ ''.'' @ v
      else rewriteDomain rw domain)"

text \<open>The rewritten questions, the original names by the rewritten ones, and whether any name changed.\<close>

fun rewriteQuestions ::
    "dnslib \<Rightarrow> (string \<times> string) list \<Rightarrow> Question list \<Rightarrow> (string \<times> string) list \<Rightarrow>
     Question list \<times> (string \<times> string) list \<times> bool" where
  "rewriteQuestions lib rw [] originalNames = ([], originalNames, False)"
| "rewriteQuestions lib rw (q # qs) originalNames =
     (let domainOriginal = ExtractDomainOnly (q_Name q); domainRewritten = rewriteDomain rw domainOriginal in
      if domainRewritten \<noteq> domainOriginal then
        let rewrittenFQDN = lib_Fqdn lib domainRewritten in
        (case rewriteQuestions lib rw qs (upd_assoc rewrittenFQDN (q_Name q) originalNames) of
           (qs', names, _) \<Rightarrow> (q\<lparr>q_Name := rewrittenFQDN\<rparr> # qs', names, True))
      else
        (case rewriteQuestions lib rw qs originalNames of (qs', names, b) \<Rightarrow> (q # qs', names, b)))"

definition rewriteRequest ::
    "dnslib \<Rightarrow> (string \<times> string) list \<Rightarrow> Msg \<Rightarrow> Msg option \<times> (string \<times> string) list" where
  "rewriteRequest lib rw request =
     (case rewriteQuestions lib rw (m_Question request) [] of
        (qs, names, changed) \<Rightarrow> (if changed then Some (request\<lparr>m_Question := qs\<rparr>) else None, names))"

definition restore_name :: "(string \<times> string) list \<Rightarrow> string \<Rightarrow> string" where
  "restore_name names n = (case map_of names n of Some original \<Rightarrow> original | None \<Rightarrow> n)"

definition revertRewrite :: "(string \<times> string) list \<Rightarrow> Msg \<Rightarrow> Msg" where
  "revertRewrite names m =
     m\<lparr>m_Question := map (\<lambda>q. q\<lparr>q_Name := restore_name names (q_Name q)\<rparr>) (m_Question m),
       m_Answer := map (upd_Header (\<lambda>h. h\<lparr>h_Name := restore_name names (h_Name h)\<rparr>)) (m_Answer m)\<rparr>"

text \<open>
  After the inner resolver returned, the request gets its original message back; when
  nothing was rewritten this is the message the inner resolver worked on.
\<close>

definition Rewriter_Resolve :: "dnslib \<Rightarrow> RewriterConfig \<Rightarrow> 'w resolver \<Rightarrow> 'w resolver \<Rightarrow> 'w resolver" where
  "Rewriter_Resolve lib cfg inner next request w =
     (let original = Req request in
      case rewriteRequest lib (Rewrite cfg) original of (rewritten, originalNames) \<Rightarrow>
      (case inner (case rewritten of None \<Rightarrow> request | Some m \<Rightarrow> request\<lparr>Req := m\<rparr>) w of
         (out, request1, w') \<Rightarrow>
           let request2 = (if rewritten = None then request1 else request1\<lparr>Req := original\<rparr>) in
           (case out of
              Panic p \<Rightarrow> (Panic p, request1, w')
            | Fail err \<Rightarrow> if FallbackUpstream cfg then next request2 w' else (Fail err, request2, w')
            | Ret response \<Rightarrow>
                if response = NoResponse then next request2 w'
                else (case Res response of
                        None \<Rightarrow> (Panic NilDereference, request2, w')
                      | Some m \<Rightarrow>
                          if FallbackUpstream cfg \<and> m_Answer m = [] then next request2 w'
                          else if rewritten = None then (Ret response, request2, w')
                          else (Ret (response\<lparr>Res := Some (revertRewrite originalNames m)\<rparr>), request2, w')))))"

section \<open>Facts about the parents of a name\<close>

lemma in_zone_refl [simp]: "in_zone d d"
  by (simp add: in_zone_def)

lemma cutDot_in_zone: "cutDot d = Some after \<Longrightarrow> in_zone d after"
proof -
  assume a: "cutDot d = Some after"
  have dot: "CHR ''.'' \<in> set d"
  proof (rule ccontr)
    assume "CHR ''.'' \<notin> set d"
    then have "takeWhile (\<lambda>x. x \<noteq> CHR ''.'') d = d" by (induction d) auto
    with a show False by (simp add: cutDot_def indexByte_def)
  qed
  then obtain x y where xy: "d = x @ CHR ''.'' # y" "CHR ''.'' \<notin> set x" by (meson split_list_first)
  with a cutDot_append [of x y] have "after = y" by simp
  with xy show ?thesis by (auto simp: in_zone_def hasSuffix_iff)
qed

lemma in_zone_step: "cutDot d = Some after \<Longrightarrow> in_zone after z \<Longrightarrow> in_zone d z"
proof -
  assume a: "cutDot d = Some after" "in_zone after z"
  from cutDot_in_zone [OF a(1)] have "d = after \<or> (\<exists>r. d = r @ CHR ''.'' # after)"
    by (auto simp: in_zone_def hasSuffix_iff)
  with a(2) show ?thesis by (auto simp: in_zone_def hasSuffix_iff)
qed

text \<open>The loop finds the longest configured zone of the name.\<close>

lemma lookup_parents_Some:
  "lookup_parents mapping d = Some (z, r) \<Longrightarrow>
   z \<noteq> [] \<and> map_of mapping z = Some r \<and> in_zone d z \<and>
   (\<forall>z'. in_zone d z' \<longrightarrow> length z < length z' \<longrightarrow> map_of mapping z' = None)"
proof (induction mapping d rule: lookup_parents.induct)
  case (1 mapping d)
  show ?case
  proof (cases "map_of mapping d")
    case (Some r')
    with "1.prems" have "z = d" "r = r'" "d \<noteq> []"
      by (auto simp: lookup_parents.simps [of mapping d] split: if_splits)
    moreover have "length z' \<le> length d" if "in_zone d z'" for z'
      using that by (auto simp: in_zone_def hasSuffix_iff)
    then have "\<not> length d < length z'" if "in_zone d z'" for z' using that by (simp add: not_less)
    ultimately show ?thesis using Some by simp
  next
    case None
    with "1.prems" obtain after where ne: "d \<noteq> []" and c: "cutDot d = Some after"
      and l: "lookup_parents mapping after = Some (z, r)"
      by (auto simp: lookup_parents.simps [of mapping d] split: if_splits option.splits)
    from "1.IH" [OF ne None c l] have IH: "z \<noteq> []" "map_of mapping z = Some r" "in_zone after z"
      "\<forall>z'. in_zone after z' \<longrightarrow> length z < length z' \<longrightarrow> map_of mapping z' = None" by auto
    have "map_of mapping z' = None" if "in_zone d z'" "length z < length z'" for z'
    proof (cases "d = z'")
      case False
      then have "in_zone after z'" using in_zone_cut [OF that(1) False] c by auto
      then show ?thesis using IH(4) that(2) by blast
    qed (use None in simp)
    then show ?thesis using IH in_zone_step [OF c] by blast
  qed
qed

lemma lookup_parents_None:
  "lookup_parents mapping d = None \<Longrightarrow> in_zone d z \<Longrightarrow> z \<noteq> [] \<Longrightarrow> map_of mapping z = None"
proof (induction mapping d rule: lookup_parents.induct)
  case (1 mapping d)
  have ne: "d \<noteq> []" using "1.prems"(2,3) by (auto simp: in_zone_def hasSuffix_iff)
  have None: "map_of mapping d = None"
    using "1.prems"(1) ne by (auto simp: lookup_parents.simps [of mapping d] split: option.splits)
  show ?case
  proof (cases "d = z")
    case False
    then obtain after where c: "cutDot d = Some after" "in_zone after z"
      using in_zone_cut [OF "1.prems"(2)] by blast
    have "lookup_parents mapping after = None"
      using "1.prems"(1) ne None c(1) by (simp add: lookup_parents.simps [of mapping d])
    from "1.IH" [OF ne None c(1) this c(2) "1.prems"(3)] show ?thesis .
  qed (use None in simp)
qed

text \<open>Names outside the configured zones: the next resolver gets the very request.\<close>

lemma conditional_other_names:
  assumes "m_Question (Req request) = q # qs"
    and "\<forall>zone. zone \<noteq> [] \<longrightarrow>
           (if CHR ''.'' \<in> set (ExtractDomain q) then in_zone (ExtractDomain q) zone else zone = ''.'') \<longrightarrow>
           map_of mapping zone = None"
  shows "Conditional_Resolve lib mapping next request w = next request w"
proof -
  have "lookup_parents mapping (ExtractDomain q) = None" if "CHR ''.'' \<in> set (ExtractDomain q)"
  proof (rule ccontr)
    assume "lookup_parents mapping (ExtractDomain q) \<noteq> None"
    then obtain z r where "lookup_parents mapping (ExtractDomain q) = Some (z, r)" by auto
    from lookup_parents_Some [OF this] assms(2) that show False by auto
  qed
  moreover have "map_of mapping ''.'' = None" if "CHR ''.'' \<notin> set (ExtractDomain q)"
    using assms(2) that by simp
  ultimately show ?thesis
    by (simp add: Conditional_Resolve_def conditional_processRequest_def assms(1) Let_def)
qed

lemma set_question_name_no_question: "m_Question m = [] \<Longrightarrow> set_question_name n m = m"
  by (simp add: set_question_name_def)

section \<open>Facts about rewriting\<close>

lemma rewriteDomain_rule:
  "rewriteDomain rw d = d \<or>
   (\<exists>k v p. (k, v) \<in> set rw \<and> d = p @ CHR ''.'' # k \<and> rewriteDomain rw d = p @ CHR ''.'' # v)"
proof (induction rw)
  case (Cons kv rw)
  obtain k v where kv: "kv = (k, v)" by (cases kv)
  show ?case
  proof (cases "hasSuffix d (''.'' @ k)")
    case True
    then obtain p where p: "d = p @ CHR ''.'' # k" by (auto simp: hasSuffix_iff)
    then have "trimSuffix d (''.'' @ k) = p" using True by (simp add: trimSuffix_def)
    with True kv p have "rewriteDomain (kv # rw) d = p @ CHR ''.'' # v" by simp
    with kv p show ?thesis by auto
  qed (use Cons kv in auto)
qed simp

lemma rewriteRequest_single:
  "m_Question m = [q] \<Longrightarrow>
   rewriteRequest lib rw m =
     (let d = ExtractDomainOnly (q_Name q); d' = rewriteDomain rw d in
      if d' \<noteq> d then (Some (set_question_name (lib_Fqdn lib d') m), [(lib_Fqdn lib d', q_Name q)])
      else (None, []))"
  by (simp add: rewriteRequest_def set_question_name_def Let_def)

lemma revertRewrite_single:
  "revertRewrite [(name', original)] m =
     m\<lparr>m_Question := map (\<lambda>x. if q_Name x = name' then x\<lparr>q_Name := original\<rparr> else x) (m_Question m),
       m_Answer := map (\<lambda>rr. if h_Name (Header rr) = name'
                             then upd_Header (\<lambda>h. h\<lparr>h_Name := original\<rparr>) rr else rr) (m_Answer m)\<rparr>"
proof -
  have q: "x\<lparr>q_Name := restore_name [(name', original)] (q_Name x)\<rparr> =
      (if q_Name x = name' then x\<lparr>q_Name := original\<rparr> else x)" for x :: Question
    by (simp add: restore_name_def)
  have a: "upd_Header (\<lambda>h. h\<lparr>h_Name := restore_name [(name', original)] (h_Name h)\<rparr>) rr =
      (if h_Name (Header rr) = name' then upd_Header (\<lambda>h. h\<lparr>h_Name := original\<rparr>) rr else rr)" for rr
    by (cases rr) (auto simp: restore_name_def)
  show ?thesis by (simp add: revertRewrite_def q a)
qed

text \<open>The request the inner resolver gets.\<close>

definition rewritten_request :: "dnslib \<Rightarrow> (string \<times> string) list \<Rightarrow> Request \<Rightarrow> Request" where
  "rewritten_request lib rw request =
     (case fst (rewriteRequest lib rw (Req request)) of None \<Rightarrow> request | Some m \<Rightarrow> request\<lparr>Req := m\<rparr>)"

text \<open>An inner resolver without an answer, which leaves the request alone.\<close>

lemma Rewriter_Resolve_falls_through:
  assumes "inner (rewritten_request lib (Rewrite cfg) request) w =
      (out, rewritten_request lib (Rewrite cfg) request, w')"
    and "out = Ret NoResponse \<or>
      FallbackUpstream cfg \<and> ((\<exists>e. out = Fail e) \<or> (\<exists>response m. out = Ret response \<and> Res response = Some m \<and> m_Answer m = []))"
  shows "Rewriter_Resolve lib cfg inner next request w = next request w'"
proof -
  have nr: "Res NoResponse = None" by (simp add: NoResponse_def)
  obtain rewritten names where rr: "rewriteRequest lib (Rewrite cfg) (Req request) = (rewritten, names)"
    by (cases "rewriteRequest lib (Rewrite cfg) (Req request)")
  show ?thesis
    using assms nr
    by (cases rewritten) (auto simp: Rewriter_Resolve_def rr rewritten_request_def Let_def)
qed

text \<open>A crash of the inner resolver is a crash of the query.\<close>

lemma Rewriter_Resolve_panics:
  assumes "fst (inner (rewritten_request lib (Rewrite cfg) request) w) = Panic p"
  shows "fst (Rewriter_Resolve lib cfg inner next request w) = Panic p"
proof -
  obtain rewritten names where rr: "rewriteRequest lib (Rewrite cfg) (Req request) = (rewritten, names)"
    by (cases "rewriteRequest lib (Rewrite cfg) (Req request)")
  obtain req1 w' where "inner (rewritten_request lib (Rewrite cfg) request) w = (Panic p, req1, w')"
    using assms by (cases "inner (rewritten_request lib (Rewrite cfg) request) w") auto
  then show ?thesis
    by (cases rewritten) (auto simp: Rewriter_Resolve_def rr rewritten_request_def Let_def)
qed

text \<open>A client's request and upstreams that echo the query and leave their mark.\<close>

definition example_client_request :: "string \<Rightarrow> Request" where
  "example_client_request name =
     \<lparr>ClientIP = IPv4 192 168 0 2, RequestClientID = [], Protocol = RequestProtocolUDP,
      ClientNames = [], Req = example_query name TypeA, RequestTS = 0\<rparr>"

definition example_upstream :: "nat \<Rightarrow> nat resolver" where
  "example_upstream n request w =
     (Ret \<lparr>Res = Some (Req request), Reason = ''RESOLVED'', RType = ResponseTypeRESOLVED\<rparr>, request, n)"

section \<open>Properties\<close>

text \<open>
  C37. A conditional upstream is chosen by the longest configured zone of the name. When
  the name of the query (lower case, without the final dot) has a dot and lies in a
  configured zone that no longer configured zone of the name beats, the resolver of this
  zone, and no other, gets the query under its fully qualified lower-case name, and a
  message it returns is passed on with that name in the question.
\<close>

theorem conditional_longest_zone:
  assumes "dnslib_ok lib"
    and "m_Question (Req request) = q # qs"
    and "d = ExtractDomain q" and "CHR ''.'' \<in> set d"
    and "zone \<noteq> []" and "in_zone d zone" and "map_of mapping zone = Some reso"
    and "\<forall>z. in_zone d z \<longrightarrow> length zone < length z \<longrightarrow> map_of mapping z = None"
    and "req1 = request\<lparr>Req := (Req request)\<lparr>m_Question :=
           q\<lparr>q_Name := (if hasSuffix d ''.'' then d else d @ ''.'')\<rparr> # qs\<rparr>\<rparr>"
    and "reso req1 w = (out, req2, w')"
    and "case out of Ret response \<Rightarrow> Res response \<noteq> None \<and> m_Question (Req req2) \<noteq> [] | _ \<Rightarrow> True"
  shows "Conditional_Resolve lib mapping nextr request w =
    (case out of
       Ret response \<Rightarrow>
         (Ret \<lparr>Res = map_option (set_question_name (q_Name (hd (m_Question (Req req2))))) (Res response),
               Reason = ''CONDITIONAL'', RType = ResponseTypeCONDITIONAL\<rparr>, req2, w')
     | _ \<Rightarrow> (out, req2, w'))"
proof -
  have found: "lookup_parents mapping d = Some (zone, reso)"
  proof (cases "lookup_parents mapping d")
    case None
    from lookup_parents_None [OF this assms(6,5)] assms(7) show ?thesis by simp
  next
    case (Some zr)
    obtain z r where zr: "zr = (z, r)" by (cases zr)
    from lookup_parents_Some [OF Some [unfolded zr]] have z: "map_of mapping z = Some r" "in_zone d z"
      "\<forall>z'. in_zone d z' \<longrightarrow> length z < length z' \<longrightarrow> map_of mapping z' = None" by auto
    have "length z = length zone" using z assms(6,7,8) by (metis linorder_neqE_nat option.distinct(1))
    then have "z = zone" using z(2) assms(6) by (auto simp: in_zone_def hasSuffix_iff)
    with z assms(7) Some zr show ?thesis by simp
  qed
  have "mapping \<noteq> []" using assms(7) by auto
  moreover have "lib_Fqdn lib d = (if hasSuffix d ''.'' then d else d @ ''.'')"
    using assms(1) by (simp add: dnslib_ok_def)
  ultimately have "Conditional_Resolve lib mapping nextr request w = conditional_internalResolve lib reso d request w"
    and "request\<lparr>Req := set_question_name (lib_Fqdn lib d) (Req request)\<rparr> = req1"
    using assms(2,3,4,9) found
    by (simp_all add: Conditional_Resolve_def conditional_processRequest_def set_question_name_def)
  then have "Conditional_Resolve lib mapping nextr request w =
      (case (out, req2, w') of
         (Ret response, req2, w') \<Rightarrow>
           (case Res response of
              None \<Rightarrow> (Panic NilDereference, req2, w')
            | Some m \<Rightarrow>
                (Ret \<lparr>Res = Some (set_question_name (q_Name (hd (m_Question (Req req2)))) m), Reason = ''CONDITIONAL'',
                            RType = ResponseTypeCONDITIONAL\<rparr>, req2, w'))
       | failure \<Rightarrow> failure)"
    using assms(10,11)
    by (simp add: conditional_internalResolve_def set_question_name_no_question
        split: outcome.splits option.splits list.splits)
  then show ?thesis using assms(11) by (auto split: outcome.splits)
qed

theorem conditional_longest_zone_witness:
  "let mapping = [(''lan'', example_upstream 1), (''a.lan'', example_upstream 2)];
       request = example_client_request ''X.A.lan.'' in
   Conditional_Resolve example_lib mapping NoOp_Resolve request (0 :: nat) =
     (Ret \<lparr>Res = Some (example_query ''x.a.lan.'' TypeA), Reason = ''CONDITIONAL'', RType = ResponseTypeCONDITIONAL\<rparr>,
      example_client_request ''x.a.lan.'', 2)"
proof -
  let ?q = "\<lparr>q_Name = ''X.A.lan.'', q_Type = TypeA, q_Class = ClassINET\<rparr>"
  let ?mapping = "[(''lan'', example_upstream 1), (''a.lan'', example_upstream 2)]"
  have d: "''x.a.lan'' = ExtractDomain ?q" by (simp add: ExtractDomain_def ExtractDomainOnly_def) code_simp
  have z: "in_zone ''x.a.lan'' ''a.lan''" by code_simp
  have longer: "\<forall>z. in_zone ''x.a.lan'' z \<longrightarrow> length ''a.lan'' < length z \<longrightarrow> map_of ?mapping z = None"
    by auto
  have r: "example_client_request ''x.a.lan.'' = (example_client_request ''X.A.lan.'')\<lparr>Req :=
      (Req (example_client_request ''X.A.lan.''))\<lparr>m_Question :=
        ?q\<lparr>q_Name := (if hasSuffix ''x.a.lan'' ''.'' then ''x.a.lan'' else ''x.a.lan'' @ ''.'')\<rparr> # []\<rparr>\<rparr>"
    by (simp add: example_client_request_def example_query_def hasSuffix_def)
  show ?thesis
    using conditional_longest_zone [OF example_lib_ok _ d _ _ z _ longer r, where reso = "example_upstream 2" and w = 0
        and out = "fst (example_upstream 2 (example_client_request ''x.a.lan.'') 0)"
        and ?req2.0 = "example_client_request ''x.a.lan.''" and w' = 2 and nextr = NoOp_Resolve]
    by (simp add: example_client_request_def example_query_def example_upstream_def set_question_name_def Let_def)
qed

text \<open>
  C28. The client does not see a rewrite. When a rule \<open>k: v\<close> applies to the name of the
  only question, which is \<open>p.k\<close>, the inner resolver gets the query for \<open>p.v\<close>, and of the
  message it returns every question and every answer for the rewritten name is renamed to the
  name the client asked for, spelled as the client spelled it; other names, the records' data
  and their order are kept, and the request has its original message again.
\<close>

theorem rewriter_restores_names:
  assumes "dnslib_ok lib" and "m_Question (Req request) = [q]"
    and "d = ExtractDomainOnly (q_Name q)" and "d' = rewriteDomain (Rewrite cfg) d" and "d' \<noteq> d"
    and "name' = (if hasSuffix d' ''.'' then d' else d' @ ''.'')"
    and "inner (request\<lparr>Req := (Req request)\<lparr>m_Question := [q\<lparr>q_Name := name'\<rparr>]\<rparr>\<rparr>) w = (Ret response, request1, w')"
    and "Res response = Some m" and "FallbackUpstream cfg \<longrightarrow> m_Answer m \<noteq> []"
  shows "\<exists>m' k v p. Rewriter_Resolve lib cfg inner next request w =
       (Ret (response\<lparr>Res := Some m'\<rparr>), request1\<lparr>Req := Req request\<rparr>, w') \<and>
     (k, v) \<in> set (Rewrite cfg) \<and> d = p @ CHR ''.'' # k \<and> d' = p @ CHR ''.'' # v \<and>
     m' = m\<lparr>m_Question := map (\<lambda>x. if q_Name x = name' then x\<lparr>q_Name := q_Name q\<rparr> else x) (m_Question m),
            m_Answer := map (\<lambda>rr. if h_Name (Header rr) = name'
                                  then upd_Header (\<lambda>h. h\<lparr>h_Name := q_Name q\<rparr>) rr else rr) (m_Answer m)\<rparr>"
proof -
  have fq: "lib_Fqdn lib d' = name'" using assms(1,6) by (simp add: dnslib_ok_def)
  have rr: "rewriteRequest lib (Rewrite cfg) (Req request) =
      (Some ((Req request)\<lparr>m_Question := [q\<lparr>q_Name := name'\<rparr>]\<rparr>), [(name', q_Name q)])"
    using assms(2-5) fq by (simp add: rewriteRequest_single [OF assms(2)] set_question_name_def Let_def)
  have ne: "response \<noteq> NoResponse" using assms(8) by (auto simp: NoResponse_def)
  have "Rewriter_Resolve lib cfg inner next request w =
      (Ret (response\<lparr>Res := Some (revertRewrite [(name', q_Name q)] m)\<rparr>), request1\<lparr>Req := Req request\<rparr>, w')"
    using assms(7,8,9) ne by (auto simp: Rewriter_Resolve_def rr Let_def)
  then show ?thesis using rewriteDomain_rule [of "Rewrite cfg" d] assms(4,5)
    by (auto simp: revertRewrite_single)
qed

text \<open>A conditional resolver behind the rule \<open>home: lan\<close>; its upstream answers the query.\<close>

definition example_answer :: "string \<Rightarrow> Msg" where
  "example_answer name = (example_query name TypeA)\<lparr>m_Answer :=
     [RR_A \<lparr>h_Name = name, h_Type = TypeA, h_Class = ClassINET, h_Ttl = 60\<rparr> (IPv4 192 168 0 9)]\<rparr>"

definition example_answering :: "nat resolver" where
  "example_answering request w =
     (Ret \<lparr>Res = Some (example_answer (q_Name (hd (m_Question (Req request))))), Reason = [],
           RType = ResponseTypeRESOLVED\<rparr>, request, w + 1)"

theorem rewriter_restores_names_witness:
  "\<exists>m'. Rewriter_Resolve example_lib \<lparr>Rewrite = [(''home'', ''lan'')], FallbackUpstream = True\<rparr> example_answering
       NoOp_Resolve (example_client_request ''Printer.home.'') 0 =
     (Ret \<lparr>Res = Some m', Reason = [], RType = ResponseTypeRESOLVED\<rparr>, example_client_request ''Printer.home.'', 1) \<and>
     m' = example_answer ''Printer.home.''"
proof -
  let ?q = "\<lparr>q_Name = ''Printer.home.'', q_Type = TypeA, q_Class = ClassINET\<rparr>"
  let ?cfg = "\<lparr>Rewrite = [(''home'', ''lan'')], FallbackUpstream = True\<rparr>"
  have d: "''printer.home'' = ExtractDomainOnly (q_Name ?q)" by code_simp
  have d': "''printer.lan'' = rewriteDomain (Rewrite ?cfg) ''printer.home''" by code_simp
  have n: "''printer.lan.'' = (if hasSuffix ''printer.lan'' ''.'' then ''printer.lan'' else ''printer.lan'' @ ''.'')"
    by code_simp
  have Q: "m_Question (Req (example_client_request ''Printer.home.'')) = [?q]"
    by (simp add: example_client_request_def example_query_def)
  show ?thesis
    using rewriter_restores_names [OF example_lib_ok Q d d' _ n, where inner = example_answering and w = 0 and w' = 1
        and response = "\<lparr>Res = Some (example_answer ''printer.lan.''), Reason = [], RType = ResponseTypeRESOLVED\<rparr>"
        and ?request1.0 = "example_client_request ''printer.lan.''" and m = "example_answer ''printer.lan.''"]
    by (auto simp: example_client_request_def example_query_def example_answer_def example_answering_def)
qed

text \<open>
  The branch of the rewriter does not swallow queries. With the conditional resolver as
  the inner one, as the server builds it, a query whose rewritten name lies in no configured
  zone continues at the next resolver exactly as if there were no rewriter: under its original
  name and with the very request.
\<close>

theorem rewriter_continues_with_original:
  assumes "m_Question (Req (rewritten_request lib (Rewrite cfg) request)) = q' # qs"
    and "\<forall>zone. zone \<noteq> [] \<longrightarrow>
           (if CHR ''.'' \<in> set (ExtractDomain q') then in_zone (ExtractDomain q') zone else zone = ''.'') \<longrightarrow>
           map_of mapping zone = None"
  shows "Rewriter_Resolve lib cfg (Conditional_Resolve lib mapping NoOp_Resolve) next request w = next request w"
  by (rule Rewriter_Resolve_falls_through [where out = "Ret NoResponse"])
    (simp_all add: conditional_other_names [OF assms] NoOp_Resolve_def)

theorem rewriter_continues_with_original_witness:
  "Rewriter_Resolve example_lib \<lparr>Rewrite = [(''home'', ''wlan'')], FallbackUpstream = False\<rparr>
     (Conditional_Resolve example_lib [(''lan'', example_upstream 1), (''home'', example_upstream 2)] NoOp_Resolve)
     example_answering (example_client_request ''a.home.'') 0 = example_answering (example_client_request ''a.home.'') 0"
proof -
  let ?q = "\<lparr>q_Name = ''a.wlan.'', q_Type = TypeA, q_Class = ClassINET\<rparr>"
  let ?cfg = "\<lparr>Rewrite = [(''home'', ''wlan'')], FallbackUpstream = False\<rparr>"
  have rr: "rewriteDomain [(''home'', ''wlan'')] (ExtractDomainOnly ''a.home.'') = ''a.wlan''"
    "ExtractDomainOnly ''a.home.'' = ''a.home''" "lib_Fqdn example_lib ''a.wlan'' = ''a.wlan.''"
    by code_simp+
  have Q: "m_Question (Req (rewritten_request example_lib (Rewrite ?cfg) (example_client_request ''a.home.''))) = [?q]"
    using rr by (simp add: rewritten_request_def rewriteRequest_def example_client_request_def example_query_def Let_def)
  have "ExtractDomain ?q = ''a.wlan''" by (simp add: ExtractDomain_def) code_simp
  moreover have "\<not> in_zone ''a.wlan'' ''lan''" "\<not> in_zone ''a.wlan'' ''home''" by code_simp+
  ultimately show ?thesis
    using rewriter_continues_with_original [OF Q, of "[(''lan'', example_upstream 1), (''home'', example_upstream 2)]" example_answering 0]
    by auto
qed

end
