(* ===== verification/Custom_Dns.thy ===== *)
theory Custom_Dns
  imports Routing_Resolvers
begin

text \<open>
  The custom DNS resolver: names of the configuration and their subdomains are answered
  from configured records, aliases are followed recursively.

  The context of a query may end at any time; \<open>ctxErr\<close> is what \<open>ctx.Err()\<close> returns in a
  state of the world, which it may advance. The recursion over aliases is a total function:
  an alias that was already followed is an error, so the configured targets that were not
  followed yet become fewer with every level.
\<close>

section \<open>Configuration and state\<close>

type_synonym 'w ctx = "'w \<Rightarrow> resolve_error option \<times> 'w"

type_synonym CustomDNSMapping = "(string \<times> RR list) list"

record CustomDNS =
  CustomTTL :: duration
  Mapping_cfg :: CustomDNSMapping
  Zone_RRs :: CustomDNSMapping
  FilterUnmappedTypes :: bool

record CustomDNSResolver =
  cd_cfg :: CustomDNS
  cd_mapping :: CustomDNSMapping
  cd_reverse :: "(string \<times> string list) list"

text \<open>The addresses of the configuration file: a list of addresses separated by commas.\<close>

definition configToRR :: "string \<Rightarrow> RR option" where
  "configToRR ipStr =
     (case ParseIP ipStr of
        None \<Rightarrow> None
      | Some ip \<Rightarrow>
          let h = \<lparr>h_Name = [], h_Type = 0, h_Class = 0, h_Ttl = 0\<rparr> in
          Some (if To4 ip \<noteq> [] then RR_A h ip else RR_AAAA h ip))"

fun configToRRs :: "string list \<Rightarrow> RR list option" where
  "configToRRs [] = Some []"
| "configToRRs (part # parts) =
     (case configToRR (trimSpace part) of
        None \<Rightarrow> None
      | Some rr \<Rightarrow> map_option ((#) rr) (configToRRs parts))"

definition CustomDNSEntries_Unmarshal :: "string \<Rightarrow> RR list option" where
  "CustomDNSEntries_Unmarshal input = configToRRs (splitOn (CHR '','') input)"

text \<open>The records of a zone file by owner name, in the order of the file.\<close>

definition ZoneFileDNS_RRs :: "RR list \<Rightarrow> CustomDNSMapping" where
  "ZoneFileDNS_RRs rrs =
     fold (\<lambda>rr m. let domain = h_Name (Header rr) in
             upd_assoc domain ((case map_of m domain of None \<Rightarrow> [] | Some es \<Rightarrow> es) @ [rr]) m) rrs []"

definition set_ttl :: "uint32 \<Rightarrow> RR \<Rightarrow> RR" where
  "set_ttl ttl = upd_Header (\<lambda>h. h\<lparr>h_Ttl := ttl\<rparr>)"

definition custom_dnsRecords :: "CustomDNS \<Rightarrow> CustomDNSMapping" where
  "custom_dnsRecords cfg =
     (let configured = fold (\<lambda>(url, entries) m.
            upd_assoc (ExtractDomainOnly url) (map (set_ttl (SecondsU32 (CustomTTL cfg))) entries) m) (Mapping_cfg cfg) [] in
      fold (\<lambda>(url, entries) m. upd_assoc (ExtractDomainOnly url) entries m) (Zone_RRs cfg) configured)"

fun custom_address :: "RR \<Rightarrow> IP option" where
  "custom_address (RR_A _ ip) = Some ip" | "custom_address (RR_AAAA _ ip) = Some ip" | "custom_address _ = None"

definition append_assoc :: "'k \<Rightarrow> 'v \<Rightarrow> ('k \<times> 'v list) list \<Rightarrow> ('k \<times> 'v list) list" where
  "append_assoc k v m = upd_assoc k ((case map_of m k of None \<Rightarrow> [] | Some vs \<Rightarrow> vs) @ [v]) m"

definition custom_reverse :: "dnslib \<Rightarrow> CustomDNSMapping \<Rightarrow> (string \<times> string list) list" where
  "custom_reverse lib dnsRecords =
     fold (\<lambda>(url, entries) reverse.
             fold (\<lambda>entry reverse.
                     case custom_address entry of
                       None \<Rightarrow> reverse
                     | Some ip \<Rightarrow> append_assoc (lib_ReverseAddr lib (IP_String ip)) url reverse) entries reverse)
       dnsRecords []"

definition NewCustomDNSResolver :: "dnslib \<Rightarrow> CustomDNS \<Rightarrow> CustomDNSResolver" where
  "NewCustomDNSResolver lib cfg =
     (let dnsRecords = custom_dnsRecords cfg in
      \<lparr>cd_cfg = cfg, cd_mapping = dnsRecords, cd_reverse = custom_reverse lib dnsRecords\<rparr>)"

section \<open>Answers\<close>

definition isSupportedType :: "IP \<Rightarrow> Question \<Rightarrow> bool" where
  "isSupportedType ip question \<longleftrightarrow>
     (To4 ip \<noteq> [] \<and> q_Type question = TypeA) \<or>
     (CHR '':'' \<in> set (IP_String ip) \<and> q_Type question = TypeAAAA)"

definition custom_processIP :: "dnslib \<Rightarrow> IP \<Rightarrow> Question \<Rightarrow> uint32 \<Rightarrow> RR list outcome" where
  "custom_processIP lib ip question ttl =
     (if isSupportedType ip question
      then (case CreateAnswerFromQuestion lib question ip ttl of
              None \<Rightarrow> Fail (OtherErr ''could not create answer'')
            | Some rr \<Rightarrow> Ret [rr])
      else Ret [])"

definition custom_processTXT :: "string list \<Rightarrow> Question \<Rightarrow> uint32 \<Rightarrow> RR list" where
  "custom_processTXT txt question ttl =
     (if q_Type question = TypeTXT
      then [RR_TXT \<lparr>h_Name = q_Name question, h_Type = TypeTXT, h_Class = ClassINET, h_Ttl = ttl\<rparr> txt]
      else [])"

definition custom_processSRV ::
    "uint16 \<Rightarrow> uint16 \<Rightarrow> uint16 \<Rightarrow> string \<Rightarrow> Question \<Rightarrow> uint32 \<Rightarrow> RR list" where
  "custom_processSRV priority weight port target question ttl =
     (if q_Type question = TypeSRV
      then [RR_SRV \<lparr>h_Name = q_Name question, h_Type = TypeSRV, h_Class = ClassINET, h_Ttl = ttl\<rparr>
              priority weight port target]
      else [])"

definition customResponse :: "dnslib \<Rightarrow> Request \<Rightarrow> RR list \<Rightarrow> Response" where
  "customResponse lib request answers =
     \<lparr>Res = Some ((lib_SetReply lib new_Msg (Req request))\<lparr>m_Answer := answers\<rparr>), Reason = ''CUSTOM DNS'',
      RType = ResponseTypeCUSTOMDNS\<rparr>"

definition custom_handleReverseDNS :: "dnslib \<Rightarrow> CustomDNSResolver \<Rightarrow> Request \<Rightarrow> Question \<Rightarrow> Response option" where
  "custom_handleReverseDNS lib r request question =
     (if q_Type question = TypePTR
      then map_option
             (\<lambda>urls. customResponse lib request
                (m_Answer (lib_SetReply lib new_Msg (Req request)) @
                 map (\<lambda>url. RR_PTR (CreateHeader question (SecondsU32 (CustomTTL (cd_cfg r)))) (lib_Fqdn lib url)) urls))
             (map_of (cd_reverse r) (q_Name question))
      else None)"

text \<open>The walk from the name to its parents, which looks at the context before every step.\<close>

function custom_find :: "'w ctx \<Rightarrow> CustomDNSMapping \<Rightarrow> string \<Rightarrow> 'w \<Rightarrow> (resolve_error + RR list option) \<times> 'w" where
  "custom_find ctxErr m domain w =
     (if domain = [] then (Inr None, w)
      else (case ctxErr w of
              (Some err, w') \<Rightarrow> (Inl err, w')
            | (None, w') \<Rightarrow>
                (case map_of m domain of
                   Some entries \<Rightarrow> (Inr (Some entries), w')
                 | None \<Rightarrow>
                     (case cutDot domain of
                        None \<Rightarrow> (Inr None, w')
                      | Some after \<Rightarrow> custom_find ctxErr m after w'))))"
  by pat_completeness auto
termination by (relation "measure (\<lambda>(_, _, d, _). length d)") (auto dest: cutDot_shorter)

declare custom_find.simps [simp del]

text \<open>The aliases a list of records, or the mapping, can send the resolver to.\<close>

fun cname_target :: "RR \<Rightarrow> string set" where
  "cname_target (RR_CNAME _ target) = {trimSuffix target ''.''}"
| "cname_target _ = {}"

definition cname_targets :: "RR list \<Rightarrow> string set" where
  "cname_targets entries = (\<Union>e\<in>set entries. cname_target e)"

definition mapping_targets :: "CustomDNSMapping \<Rightarrow> string set" where
  "mapping_targets m = (\<Union>(_, entries)\<in>set m. cname_targets entries)"

lemma finite_cname_targets [simp]: "finite (cname_targets entries)"
proof -
  have "finite (cname_target e)" for e by (cases e) auto
  then show ?thesis by (simp add: cname_targets_def)
qed

lemma finite_mapping_targets [simp]: "finite (mapping_targets m)"
  by (auto simp: mapping_targets_def)

lemma custom_find_targets:
  "custom_find ctxErr m domain w = (Inr (Some entries), w') \<Longrightarrow> cname_targets entries \<subseteq> mapping_targets m"
proof (induction ctxErr m domain w rule: custom_find.induct)
  case (1 ctxErr m domain w)
  obtain e w1 where c: "ctxErr w = (e, w1)" by (cases "ctxErr w")
  have ne: "domain \<noteq> []" and e: "e = None"
    using "1.prems" by (auto simp: custom_find.simps [of ctxErr m domain w] c split: if_splits option.splits)
  show ?case
  proof (cases "map_of m domain")
    case (Some es)
    then have "es = entries"
      using "1.prems" ne c e by (simp add: custom_find.simps [of ctxErr m domain w])
    then show ?thesis using map_of_SomeD [OF Some] by (auto simp: mapping_targets_def)
  next
    case None
    then obtain after where a: "cutDot domain = Some after" "custom_find ctxErr m after w1 = (Inr (Some entries), w')"
      using "1.prems" ne c e by (auto simp: custom_find.simps [of ctxErr m domain w] split: option.splits)
    from "1.IH" [OF ne c [symmetric] e None a] show ?thesis by simp
  qed
qed

section \<open>Resolving\<close>

text \<open>
  \<open>processCNAME\<close> calls \<open>processRequest\<close> for the target of the alias; the call is the argument
  \<open>resolveTarget\<close> of the definitions for the records, which \<open>processRequest\<close> below passes itself
  to. The text of the error for an unsupported record ends with the Go type of the record,
  which is left out here.
\<close>

type_synonym 'w custom_resolve = "Request \<Rightarrow> string list \<Rightarrow> 'w \<Rightarrow> Response outcome \<times> Request \<times> 'w"

definition custom_processCNAME ::
    "dnslib \<Rightarrow> 'w custom_resolve \<Rightarrow> Request \<Rightarrow> string \<Rightarrow> string list \<Rightarrow> Question \<Rightarrow> uint32 \<Rightarrow> 'w \<Rightarrow>
     RR list outcome \<times> 'w" where
  "custom_processCNAME lib resolveTarget request target resolvedCnames question ttl w =
     (let cname = RR_CNAME \<lparr>h_Name = q_Name question, h_Type = TypeCNAME, h_Class = ClassINET, h_Ttl = ttl\<rparr>
            (lib_Fqdn lib target);
          targetWithoutDot = trimSuffix target ''.'' in
      if q_Type question = TypeCNAME then (Ret [cname], w)
      else if targetWithoutDot \<in> set resolvedCnames
      then (Fail (OtherErr (''CNAME loop detected: ['' @ joinStr '' '' (resolvedCnames @ [targetWithoutDot]) @ '']'')), w)
      else
        (case resolveTarget
                (newRequestWithClientID lib targetWithoutDot (q_Type question) (IP_String (ClientIP request))
                   (RequestClientID request))
                (resolvedCnames @ [targetWithoutDot]) w of
           (Ret targetResp, _, w') \<Rightarrow>
             (case Res targetResp of
                None \<Rightarrow> (Panic NilDereference, w')
              | Some m \<Rightarrow> (Ret (cname # m_Answer m), w'))
         | (Fail err, _, w') \<Rightarrow> (Fail err, w')
         | (Panic p, _, w') \<Rightarrow> (Panic p, w')))"

fun custom_processDNSEntry ::
    "dnslib \<Rightarrow> 'w custom_resolve \<Rightarrow> Request \<Rightarrow> string list \<Rightarrow> Question \<Rightarrow> RR \<Rightarrow> 'w \<Rightarrow> RR list outcome \<times> 'w" where
  "custom_processDNSEntry lib resolveTarget request resolvedCnames question (RR_A h ip) w =
     (custom_processIP lib ip question (h_Ttl h), w)"
| "custom_processDNSEntry lib resolveTarget request resolvedCnames question (RR_AAAA h ip) w =
     (custom_processIP lib ip question (h_Ttl h), w)"
| "custom_processDNSEntry lib resolveTarget request resolvedCnames question (RR_TXT h txt) w =
     (Ret (custom_processTXT txt question (h_Ttl h)), w)"
| "custom_processDNSEntry lib resolveTarget request resolvedCnames question (RR_SRV h priority weight port target) w =
     (Ret (custom_processSRV priority weight port target question (h_Ttl h)), w)"
| "custom_processDNSEntry lib resolveTarget request resolvedCnames question (RR_CNAME h target) w =
     custom_processCNAME lib resolveTarget request target resolvedCnames question (h_Ttl h) w"
| "custom_processDNSEntry lib resolveTarget request resolvedCnames question _ w =
     (Fail (OtherErr ''unsupported customDNS RR type''), w)"

text \<open>The loop over the records of a name.\<close>

primrec custom_entries ::
    "dnslib \<Rightarrow> 'w custom_resolve \<Rightarrow> Request \<Rightarrow> string list \<Rightarrow> Question \<Rightarrow> RR list \<Rightarrow> 'w \<Rightarrow> RR list outcome \<times> 'w" where
  "custom_entries lib resolveTarget request resolvedCnames question [] w = (Ret [], w)"
| "custom_entries lib resolveTarget request resolvedCnames question (entry # entries) w =
     (case custom_processDNSEntry lib resolveTarget request resolvedCnames question entry w of
        (Ret result, w') \<Rightarrow>
          (case custom_entries lib resolveTarget request resolvedCnames question entries w' of
             (Ret results, w'') \<Rightarrow> (Ret (result @ results), w'')
           | failure \<Rightarrow> failure)
      | failure \<Rightarrow> failure)"

text \<open>The records call for nothing but targets of theirs which are not resolved yet.\<close>

lemma custom_entries_cong [fundef_cong]:
  assumes "entries = entries'" and "cn = cn'" and "w = w'"
    and "\<And>req t w. t \<in> cname_targets entries' \<Longrightarrow> t \<notin> set cn' \<Longrightarrow> f req (cn' @ [t]) w = g req (cn' @ [t]) w"
  shows "custom_entries lib f request cn question entries w = custom_entries lib g request cn' question entries' w'"
proof -
  have "custom_entries lib f request cn' question es w = custom_entries lib g request cn' question es w"
    if "cname_targets es \<subseteq> cname_targets entries'" for es w
    using that
  proof (induction es arbitrary: w)
    case (Cons e es)
    have "custom_processDNSEntry lib f request cn' question e w = custom_processDNSEntry lib g request cn' question e w"
      using Cons.prems assms(4)
      by (cases e) (auto simp: custom_processCNAME_def cname_targets_def Let_def)
    with Cons show ?case by (simp add: cname_targets_def split: prod.split outcome.split)
  qed simp
  then show ?thesis using assms(1-3) by simp
qed

text \<open>Targets of the configuration that are not resolved yet.\<close>

definition targets_left :: "CustomDNSResolver \<Rightarrow> string list \<Rightarrow> nat" where
  "targets_left r resolvedCnames = card (mapping_targets (cd_mapping r) - set resolvedCnames)"

lemma targets_left_decreases:
  "t \<in> mapping_targets (cd_mapping r) \<Longrightarrow> t \<notin> set cn \<Longrightarrow> targets_left r (cn @ [t]) < targets_left r cn"
  unfolding targets_left_def by (rule psubset_card_mono) auto

function custom_processRequest ::
    "dnslib \<Rightarrow> 'w ctx \<Rightarrow> 'w resolver \<Rightarrow> CustomDNSResolver \<Rightarrow> Request \<Rightarrow> string list \<Rightarrow> 'w \<Rightarrow>
     Response outcome \<times> Request \<times> 'w" where
  "custom_processRequest lib ctxErr next r request resolvedCnames w =
     (case m_Question (Req request) of
        [] \<Rightarrow> (Panic IndexOutOfRange, request, w)
      | question # _ \<Rightarrow>
          (case custom_find ctxErr (cd_mapping r) (ExtractDomain question) w of
             (Inl err, w') \<Rightarrow> (Fail err, request, w')
           | (Inr None, w') \<Rightarrow> next request w'
           | (Inr (Some entries), w') \<Rightarrow>
               (case custom_entries lib (custom_processRequest lib ctxErr next r) request resolvedCnames question
                       entries w' of
                  (Fail err, w'') \<Rightarrow> (Fail err, request, w'')
                | (Panic p, w'') \<Rightarrow> (Panic p, request, w'')
                | (Ret results, w'') \<Rightarrow>
                    let answers = m_Answer (lib_SetReply lib new_Msg (Req request)) @ results in
                    if length answers > 0 then (Ret (customResponse lib request answers), request, w'')
                    else if \<not> FilterUnmappedTypes (cd_cfg r) then next request w''
                    else (Ret (customResponse lib request answers), request, w''))))"
  by pat_completeness auto
termination
proof (relation "measure (\<lambda>(lib, c, n, r, req, cn, w). targets_left r cn)")
  fix lib :: dnslib and ctxErr :: "'w ctx" and nextr :: "'w resolver" and r :: CustomDNSResolver
    and request req :: Request and cn :: "string list" and q and qs and w w1 w2 :: 'w and x p y entries t
  assume "(p, w1) = custom_find ctxErr (cd_mapping r) (ExtractDomain q) w" "p = Inr y" "y = Some entries"
    "t \<in> cname_targets entries" "t \<notin> set cn"
  then have "targets_left r (cn @ [t]) < targets_left r cn"
    using custom_find_targets [of ctxErr "cd_mapping r" "ExtractDomain q" w entries w1]
    by (auto intro!: targets_left_decreases)
  then show "((lib, ctxErr, nextr, r, req, cn @ [t], w2), lib, ctxErr, nextr, r, request, cn, w) \<in>
      measure (\<lambda>(lib, c, n, r, req, cn, w). targets_left r cn)" by simp
qed simp

declare custom_processRequest.simps [simp del]

definition CustomDNS_Resolve :: "dnslib \<Rightarrow> 'w ctx \<Rightarrow> CustomDNSResolver \<Rightarrow> 'w resolver \<Rightarrow> 'w resolver" where
  "CustomDNS_Resolve lib ctxErr r next request w =
     (case m_Question (Req request) of
        [] \<Rightarrow> (Panic IndexOutOfRange, request, w)
      | question # _ \<Rightarrow>
          (case custom_handleReverseDNS lib r request question of
             Some reverseResp \<Rightarrow> (Ret reverseResp, request, w)
           | None \<Rightarrow> custom_processRequest lib ctxErr next r request [] w))"

section \<open>What a name is mapped to\<close>

text \<open>A context that does not end while the query is resolved.\<close>

definition alive :: "'w ctx \<Rightarrow> bool" where
  "alive ctxErr \<longleftrightarrow> (\<forall>w. fst (ctxErr w) = None)"

text \<open>The records of the longest mapped zone of a name.\<close>

definition entries_of :: "CustomDNSMapping \<Rightarrow> string \<Rightarrow> RR list option" where
  "entries_of m domain = map_option snd (lookup_parents m domain)"

lemma custom_find_alive:
  "alive ctxErr \<Longrightarrow> \<exists>w'. custom_find ctxErr m domain w = (Inr (entries_of m domain), w')"
proof (induction ctxErr m domain w rule: custom_find.induct)
  case (1 ctxErr m domain w)
  obtain w1 where c: "ctxErr w = (None, w1)"
    using "1.prems" by (cases "ctxErr w") (auto simp: alive_def dest: spec [of _ w])
  show ?case
  proof (cases "domain = [] \<or> map_of m domain \<noteq> None \<or> cutDot domain = None")
    case True
    then show ?thesis
      by (auto simp: custom_find.simps [of ctxErr m domain w] lookup_parents.simps [of m domain] entries_of_def c
          split: option.splits)
  next
    case False
    then obtain after where a: "domain \<noteq> []" "map_of m domain = None" "cutDot domain = Some after" by auto
    from "1.IH" [OF a(1) c [symmetric] refl a(2,3) "1.prems"] a show ?thesis
      by (simp add: custom_find.simps [of ctxErr m domain w] lookup_parents.simps [of m domain] entries_of_def c)
  qed
qed

lemma entries_of_longest_zone:
  "entries_of m d = Some entries \<Longrightarrow>
   \<exists>zone. in_zone d zone \<and> map_of m zone = Some entries \<and>
     (\<forall>z. in_zone d z \<longrightarrow> length zone < length z \<longrightarrow> map_of m z = None)"
  by (auto simp: entries_of_def dest!: lookup_parents_Some)

section \<open>Records that are no aliases\<close>

fun direct :: "RR \<Rightarrow> bool" where
  "direct (RR_A _ _) = True" | "direct (RR_AAAA _ _) = True" | "direct (RR_TXT _ _) = True"
| "direct (RR_SRV _ _ _ _ _) = True" | "direct _ = False"

text \<open>The answer a record gives to a question: itself under the name of the question, if the type fits.\<close>

definition address_answer :: "Question \<Rightarrow> uint32 \<Rightarrow> IP \<Rightarrow> RR list" where
  "address_answer q ttl ip =
     (if To4 ip \<noteq> [] \<and> q_Type q = TypeA then [RR_A (CreateHeader q ttl) ip]
      else if CHR '':'' \<in> set (IP_String ip) \<and> q_Type q = TypeAAAA then [RR_AAAA (CreateHeader q ttl) ip]
      else [])"

fun direct_answer :: "Question \<Rightarrow> RR \<Rightarrow> RR list" where
  "direct_answer q (RR_A h ip) = address_answer q (h_Ttl h) ip"
| "direct_answer q (RR_AAAA h ip) = address_answer q (h_Ttl h) ip"
| "direct_answer q (RR_TXT h txt) =
     (if q_Type q = TypeTXT then [RR_TXT (CreateHeader q (h_Ttl h)) txt] else [])"
| "direct_answer q (RR_SRV h priority weight port target) =
     (if q_Type q = TypeSRV then [RR_SRV (CreateHeader q (h_Ttl h)) priority weight port target] else [])"
| "direct_answer q _ = []"

definition direct_answers :: "Question \<Rightarrow> RR list \<Rightarrow> RR list" where
  "direct_answers q entries = concat (map (direct_answer q) entries)"

lemma processDNSEntry_direct:
  "direct e \<Longrightarrow> custom_processDNSEntry lib rec request cn q e w = (Ret (direct_answer q e), w)"
  by (cases e) (auto simp: custom_processIP_def custom_processTXT_def custom_processSRV_def CreateHeader_def
      CreateAnswerFromQuestion_def isSupportedType_def address_answer_def type_codes Let_def)

lemma custom_entries_direct:
  "list_all direct entries \<Longrightarrow> custom_entries lib rec request cn q entries w = (Ret (direct_answers q entries), w)"
  by (induction entries arbitrary: w) (simp_all add: processDNSEntry_direct direct_answers_def)

section \<open>Aliases\<close>

definition fq :: "string \<Rightarrow> string" where
  "fq s = (if hasSuffix s ''.'' then s else s @ ''.'')"

text \<open>The question that is asked for the target of an alias.\<close>

definition target_question :: "Question \<Rightarrow> string \<Rightarrow> Question" where
  "target_question q target = \<lparr>q_Name = fq (trimSuffix target ''.''), q_Type = q_Type q, q_Class = ClassINET\<rparr>"

text \<open>A sequence of aliases as the mapping has them, one for each name on the way.\<close>

fun alias_chain :: "CustomDNSMapping \<Rightarrow> Question \<Rightarrow> (RR_Header \<times> string) list \<Rightarrow> bool" where
  "alias_chain m q [] = True"
| "alias_chain m q ((h, target) # as) =
     (entries_of m (ExtractDomain q) = Some [RR_CNAME h target] \<and> alias_chain m (target_question q target) as)"

fun alias_answers :: "Question \<Rightarrow> (RR_Header \<times> string) list \<Rightarrow> RR list" where
  "alias_answers q [] = []"
| "alias_answers q ((h, target) # as) =
     RR_CNAME \<lparr>h_Name = q_Name q, h_Type = TypeCNAME, h_Class = ClassINET, h_Ttl = h_Ttl h\<rparr> (fq target) #
     alias_answers (target_question q target) as"

fun final_question :: "Question \<Rightarrow> (RR_Header \<times> string) list \<Rightarrow> Question" where
  "final_question q [] = q"
| "final_question q ((h, target) # as) = final_question (target_question q target) as"

definition alias_targets :: "(RR_Header \<times> string) list \<Rightarrow> string list" where
  "alias_targets as = map (\<lambda>(h, target). trimSuffix target ''.'') as"

definition target_request :: "dnslib \<Rightarrow> Request \<Rightarrow> Question \<Rightarrow> string \<Rightarrow> Request" where
  "target_request lib request q target =
     newRequestWithClientID lib (trimSuffix target ''.'') (q_Type q) (IP_String (ClientIP request)) (RequestClientID request)"

lemma target_request_question:
  "dnslib_ok lib \<Longrightarrow>
   m_Question (Req (target_request lib request q target)) = [target_question q target]"
  by (simp add: target_request_def newRequestWithClientID_def NewMsgWithQuestion_def dnslib_ok_def target_question_def fq_def)

lemma SetReply_no_answer: "dnslib_ok lib \<Longrightarrow> m_Answer (lib_SetReply lib new_Msg req) = []"
  by (simp add: dnslib_ok_def new_Msg_def)

lemma lib_Fqdn_fq: "dnslib_ok lib \<Longrightarrow> lib_Fqdn lib s = fq s"
  by (simp add: dnslib_ok_def fq_def)

text \<open>One alias: the target is asked for, and its answers come after the alias.\<close>

definition after_alias ::
    "dnslib \<Rightarrow> Request \<Rightarrow> RR list \<Rightarrow> Response outcome \<times> Request \<times> 'w \<Rightarrow> Response outcome \<times> Request \<times> 'w" where
  "after_alias lib request cname result =
     (case result of
        (Ret resp, _, w) \<Rightarrow>
          (case Res resp of
             None \<Rightarrow> (Panic NilDereference, request, w)
           | Some m \<Rightarrow> (Ret (customResponse lib request (cname @ m_Answer m)), request, w))
      | (Fail err, _, w) \<Rightarrow> (Fail err, request, w)
      | (Panic p, _, w) \<Rightarrow> (Panic p, request, w))"

lemma processRequest_alias:
  assumes "dnslib_ok lib" and "alive ctxErr" and "m_Question (Req request) = q # qs" and "q_Type q \<noteq> TypeCNAME"
    and "entries_of (cd_mapping r) (ExtractDomain q) = Some [RR_CNAME h target]"
    and "trimSuffix target ''.'' \<notin> set cn"
  shows "\<exists>w'. custom_processRequest lib ctxErr nextr r request cn w =
    after_alias lib request (alias_answers q [(h, target)])
      (custom_processRequest lib ctxErr nextr r (target_request lib request q target) (cn @ [trimSuffix target ''.'']) w')"
proof -
  obtain w' where f: "custom_find ctxErr (cd_mapping r) (ExtractDomain q) w = (Inr (Some [RR_CNAME h target]), w')"
    using custom_find_alive [OF assms(2), of "cd_mapping r" "ExtractDomain q" w] assms(5) by auto
  show ?thesis
    by (rule exI [of _ w'])
      (simp add: custom_processRequest.simps [of lib ctxErr nextr r request cn] assms(3,4,6) f custom_processCNAME_def
        SetReply_no_answer [OF assms(1)] lib_Fqdn_fq [OF assms(1)] after_alias_def target_request_def Let_def
        split: prod.split outcome.split option.split)
qed

lemma customResponse_answer: "Res (customResponse lib request answers) =
    Some ((lib_SetReply lib new_Msg (Req request))\<lparr>m_Answer := answers\<rparr>)"
  by (simp add: customResponse_def)

lemma processRequest_chain:
  assumes "dnslib_ok lib" and "alive ctxErr"
  shows "alias_chain (cd_mapping r) q as \<Longrightarrow> m_Question (Req request) = q # qs \<Longrightarrow> q_Type q \<noteq> TypeCNAME \<Longrightarrow>
    distinct (cn @ alias_targets as) \<Longrightarrow>
    entries_of (cd_mapping r) (ExtractDomain (final_question q as)) = Some entries \<Longrightarrow> list_all direct entries \<Longrightarrow>
    direct_answers (final_question q as) entries \<noteq> [] \<or> FilterUnmappedTypes (cd_cfg r) \<Longrightarrow>
    \<exists>w'. custom_processRequest lib ctxErr nextr r request cn w =
      (Ret (customResponse lib request (alias_answers q as @ direct_answers (final_question q as) entries)), request, w')"
proof (induction as arbitrary: q qs request cn w)
  case Nil
  obtain w' where f: "custom_find ctxErr (cd_mapping r) (ExtractDomain q) w = (Inr (Some entries), w')"
    using custom_find_alive [OF assms(2), of "cd_mapping r" "ExtractDomain q" w] Nil.prems(5) by auto
  then show ?case using Nil.prems(2,6,7)
    by (auto simp: custom_processRequest.simps [of lib ctxErr nextr r request cn] custom_entries_direct
        SetReply_no_answer [OF assms(1)] Let_def)
next
  case (Cons a as)
  obtain h target where a: "a = (h, target)" by (cases a)
  let ?t = "trimSuffix target ''.''"
  have chain: "entries_of (cd_mapping r) (ExtractDomain q) = Some [RR_CNAME h target]"
    "alias_chain (cd_mapping r) (target_question q target) as" "?t \<notin> set cn"
    "distinct ((cn @ [?t]) @ alias_targets as)"
    using Cons.prems(1,4) a by (auto simp: alias_targets_def)
  obtain w1 where step: "custom_processRequest lib ctxErr nextr r request cn w =
      after_alias lib request (alias_answers q [(h, target)])
        (custom_processRequest lib ctxErr nextr r (target_request lib request q target) (cn @ [?t]) w1)"
    using processRequest_alias [OF assms Cons.prems(2,3) chain(1,3)] by blast
  have "q_Type (target_question q target) \<noteq> TypeCNAME" using Cons.prems(3) by (simp add: target_question_def)
  from Cons.IH [OF chain(2) target_request_question [OF assms(1)] this chain(4), of request w1] Cons.prems(5-7) a step
  show ?case by (auto simp: customResponse_answer after_alias_def)
qed

lemma processRequest_loop:
  assumes "dnslib_ok lib" and "alive ctxErr"
  shows "alias_chain (cd_mapping r) q as \<Longrightarrow> m_Question (Req request) = q # qs \<Longrightarrow> q_Type q \<noteq> TypeCNAME \<Longrightarrow>
    distinct (cn @ alias_targets as) \<Longrightarrow>
    entries_of (cd_mapping r) (ExtractDomain (final_question q as)) = Some [RR_CNAME h' target'] \<Longrightarrow>
    trimSuffix target' ''.'' \<in> set (cn @ alias_targets as) \<Longrightarrow>
    \<exists>w'. custom_processRequest lib ctxErr nextr r request cn w =
      (Fail (OtherErr (''CNAME loop detected: ['' @ joinStr '' '' (cn @ alias_targets as @ [trimSuffix target' ''.'']) @ '']'')),
       request, w')"
proof (induction as arbitrary: q qs request cn w)
  case Nil
  obtain w' where f: "custom_find ctxErr (cd_mapping r) (ExtractDomain q) w = (Inr (Some [RR_CNAME h' target']), w')"
    using custom_find_alive [OF assms(2), of "cd_mapping r" "ExtractDomain q" w] Nil.prems(5) by auto
  then show ?case using Nil.prems(2,3,6)
    by (auto simp: custom_processRequest.simps [of lib ctxErr nextr r request cn] custom_processCNAME_def
        alias_targets_def Let_def)
next
  case (Cons a as)
  obtain h target where a: "a = (h, target)" by (cases a)
  let ?t = "trimSuffix target ''.''"
  have chain: "entries_of (cd_mapping r) (ExtractDomain q) = Some [RR_CNAME h target]"
    "alias_chain (cd_mapping r) (target_question q target) as" "?t \<notin> set cn"
    "distinct ((cn @ [?t]) @ alias_targets as)" "trimSuffix target' ''.'' \<in> set ((cn @ [?t]) @ alias_targets as)"
    using Cons.prems(1,4,6) a by (auto simp: alias_targets_def)
  have "q_Type (target_question q target) \<noteq> TypeCNAME" using Cons.prems(3) by (simp add: target_question_def)
  from Cons.IH [OF chain(2) target_request_question [OF assms(1)] this chain(4) _ chain(5), of request] Cons.prems(5) a
  have IH: "\<exists>w'. custom_processRequest lib ctxErr nextr r (target_request lib request q target) (cn @ [?t]) w1 =
      (Fail (OtherErr (''CNAME loop detected: ['' @ joinStr '' '' (cn @ alias_targets (a # as) @ [trimSuffix target' ''.'']) @ '']'')),
       target_request lib request q target, w')" for w1
    by (auto simp: alias_targets_def)
  obtain w1 where step: "custom_processRequest lib ctxErr nextr r request cn w =
      after_alias lib request (alias_answers q [(h, target)])
        (custom_processRequest lib ctxErr nextr r (target_request lib request q target) (cn @ [?t]) w1)"
    using processRequest_alias [OF assms Cons.prems(2,3) chain(1,3)] by blast
  from IH [of w1] show ?case unfolding step by (auto simp: after_alias_def)
qed

section \<open>Properties\<close>


text \<open>An upstream that must not be asked.\<close>

definition example_upstream_fails :: "nat resolver" where
  "example_upstream_fails request w = (Fail (OtherErr ''unreachable''), request, w + 1)"

text \<open>A configuration: an alias to an alias to an address, a loop of two, and an alias to a foreign name.\<close>

definition example_header :: RR_Header where
  "example_header = \<lparr>h_Name = [], h_Type = 0, h_Class = 0, h_Ttl = 0\<rparr>"

definition example_custom :: CustomDNSResolver where
  "example_custom = NewCustomDNSResolver example_lib
     \<lparr>CustomTTL = 60 * second, Mapping_cfg =
        [(''www.lan'', [RR_CNAME example_header ''web.lan.'']), (''web.lan'', [RR_CNAME example_header ''host.lan'']),
         (''Host.lan'', [RR_A example_header (IPv4 10 0 0 1)]),
         (''a.lan'', [RR_CNAME example_header ''b.lan'']), (''b.lan'', [RR_CNAME example_header ''a.lan'']),
         (''out.lan'', [RR_CNAME example_header ''example.com''])],
      Zone_RRs = [], FilterUnmappedTypes = True\<rparr>"

definition example_cname :: "string \<Rightarrow> RR_Header" where
  "example_cname name = \<lparr>h_Name = name, h_Type = TypeCNAME, h_Class = ClassINET, h_Ttl = 60\<rparr>"

lemma example_custom_entries:
  "entries_of (cd_mapping example_custom) ''www.lan'' = Some [RR_CNAME (example_header\<lparr>h_Ttl := 60\<rparr>) ''web.lan.'']"
  "entries_of (cd_mapping example_custom) ''web.lan'' = Some [RR_CNAME (example_header\<lparr>h_Ttl := 60\<rparr>) ''host.lan'']"
  "entries_of (cd_mapping example_custom) ''host.lan'' = Some [RR_A (example_header\<lparr>h_Ttl := 60\<rparr>) (IPv4 10 0 0 1)]"
  "entries_of (cd_mapping example_custom) ''a.lan'' = Some [RR_CNAME (example_header\<lparr>h_Ttl := 60\<rparr>) ''b.lan'']"
  "entries_of (cd_mapping example_custom) ''b.lan'' = Some [RR_CNAME (example_header\<lparr>h_Ttl := 60\<rparr>) ''a.lan'']"
  "entries_of (cd_mapping example_custom) ''out.lan'' = Some [RR_CNAME (example_header\<lparr>h_Ttl := 60\<rparr>) ''example.com'']"
  "entries_of (cd_mapping example_custom) ''example.com'' = None"
  by code_simp+

lemma example_question [simp]:
  "m_Question (Req (example_client_request n)) = [\<lparr>q_Name = n, q_Type = TypeA, q_Class = ClassINET\<rparr>]"
  by (simp add: example_client_request_def example_query_def)

lemma alive_example: "alive (Pair None)"
  by (simp add: alive_def)


text \<open>
  C27. Aliases that lead back end in an error, and the resolver returns. If the mapping leads
  through aliases with different targets to an alias whose target is one of them, the query
  fails with the error that lists the targets; no other resolver is asked. (That every query
  returns is part of the definition: it is a total function, because the targets not
  followed yet become fewer with every alias.)
\<close>

theorem custom_dns_alias_loop:
  assumes "dnslib_ok lib" and "alive ctxErr"
    and "m_Question (Req request) = q # qs" and "q_Type q \<noteq> TypeCNAME" and "q_Type q \<noteq> TypePTR"
    and "alias_chain (cd_mapping r) q as" and "distinct (alias_targets as)"
    and "entries_of (cd_mapping r) (ExtractDomain (final_question q as)) = Some [RR_CNAME h target]"
    and "trimSuffix target ''.'' \<in> set (alias_targets as)"
  shows "\<exists>w'. CustomDNS_Resolve lib ctxErr r next request w =
    (Fail (OtherErr (''CNAME loop detected: ['' @ joinStr '' '' (alias_targets as @ [trimSuffix target ''.'']) @ '']'')),
     request, w')"
  using processRequest_loop [OF assms(1,2,6,3,4) _ assms(8), of "[]" "next" w] assms(3,5,7,9)
  by (simp add: CustomDNS_Resolve_def custom_handleReverseDNS_def)

theorem custom_dns_alias_loop_witness:
  "\<exists>w'. CustomDNS_Resolve example_lib (Pair None) example_custom example_upstream_fails (example_client_request ''a.lan.'') 0 =
    (Fail (OtherErr ''CNAME loop detected: [b.lan a.lan b.lan]''), example_client_request ''a.lan.'', w')"
proof -
  let ?q = "\<lparr>q_Name = ''a.lan.'', q_Type = TypeA, q_Class = ClassINET\<rparr>"
  let ?h = "example_header\<lparr>h_Ttl := 60\<rparr>"
  let ?as = "[(?h, ''b.lan''), (?h, ''a.lan'')]"
  have names: "ExtractDomain ?q = ''a.lan''" "ExtractDomain (target_question ?q ''b.lan'') = ''b.lan''"
    "ExtractDomain (target_question (target_question ?q ''b.lan'') ''a.lan'') = ''a.lan''"
    by code_simp+
  have chain: "alias_chain (cd_mapping example_custom) ?q ?as" by (simp add: names example_custom_entries)
  have d: "distinct (alias_targets ?as)" "trimSuffix ''b.lan'' ''.'' \<in> set (alias_targets ?as)"
    "joinStr '' '' (alias_targets ?as @ [trimSuffix ''b.lan'' ''.'']) = ''b.lan a.lan b.lan''" by code_simp+
  have e: "entries_of (cd_mapping example_custom) (ExtractDomain (final_question ?q ?as)) = Some [RR_CNAME ?h ''b.lan'']"
    by (simp add: names example_custom_entries)
  have t: "q_Type ?q \<noteq> TypeCNAME" "q_Type ?q \<noteq> TypePTR" by (simp_all add: type_codes)
  show ?thesis
    using custom_dns_alias_loop [OF example_lib_ok alive_example example_question t chain d(1) e d(2)] d(3) by simp
qed

text \<open>
  An alias to a name that is not mapped crashes the query when a rewrite is configured.
  The rewriter ends the branch of the custom resolver with the resolver that returns the empty
  response, whose message the custom resolver then dereferences.
\<close>

theorem rewriter_custom_alias_panics:
  assumes "dnslib_ok lib" and "alive ctxErr"
    and "m_Question (Req (rewritten_request lib (Rewrite cfg) request)) = q # qs"
    and "q_Type q \<noteq> TypeCNAME" and "q_Type q \<noteq> TypePTR"
    and "entries_of (cd_mapping r) (ExtractDomain q) = Some [RR_CNAME h target]"
    and "entries_of (cd_mapping r) (ExtractDomain (target_question q target)) = None"
  shows "fst (Rewriter_Resolve lib cfg (CustomDNS_Resolve lib ctxErr r NoOp_Resolve) next request w) = Panic NilDereference"
proof -
  let ?req = "rewritten_request lib (Rewrite cfg) request" and ?t = "trimSuffix target ''.''"
  let ?target = "target_request lib ?req q target"
  have target: "\<exists>w2. custom_processRequest lib ctxErr NoOp_Resolve r ?target [?t] w1 = (Ret NoResponse, ?target, w2)" for w1
    using custom_find_alive [OF assms(2), of "cd_mapping r" "ExtractDomain (target_question q target)" w1] assms(7)
    by (auto simp: custom_processRequest.simps [of lib ctxErr NoOp_Resolve r ?target] target_request_question [OF assms(1)]
        NoOp_Resolve_def)
  obtain w1 where step: "custom_processRequest lib ctxErr NoOp_Resolve r ?req [] w =
      after_alias lib ?req (alias_answers q [(h, target)])
        (custom_processRequest lib ctxErr NoOp_Resolve r ?target ([] @ [?t]) w1)"
    using processRequest_alias [OF assms(1,2,3,4,6), of "[]"] by auto
  have "fst (custom_processRequest lib ctxErr NoOp_Resolve r ?req [] w) = Panic NilDereference"
    unfolding step using target [of w1] by (auto simp: NoResponse_def after_alias_def)
  then have "fst (CustomDNS_Resolve lib ctxErr r NoOp_Resolve ?req w) = Panic NilDereference"
    using assms(3,5) by (simp add: CustomDNS_Resolve_def custom_handleReverseDNS_def)
  then show ?thesis by (rule Rewriter_Resolve_panics)
qed

theorem rewriter_custom_alias_panics_witness:
  "fst (Rewriter_Resolve example_lib \<lparr>Rewrite = [(''home'', ''lan'')], FallbackUpstream = False\<rparr>
     (CustomDNS_Resolve example_lib (Pair None) example_custom NoOp_Resolve) example_upstream_fails
     (example_client_request ''out.home.'') 0) = Panic NilDereference"
proof -
  let ?q = "\<lparr>q_Name = ''out.lan.'', q_Type = TypeA, q_Class = ClassINET\<rparr>"
  let ?cfg = "\<lparr>Rewrite = [(''home'', ''lan'')], FallbackUpstream = False\<rparr>"
  have rr: "rewriteDomain [(''home'', ''lan'')] (ExtractDomainOnly ''out.home.'') = ''out.lan''"
    "ExtractDomainOnly ''out.home.'' = ''out.home''" "lib_Fqdn example_lib ''out.lan'' = ''out.lan.''"
    by code_simp+
  have Q: "m_Question (Req (rewritten_request example_lib (Rewrite ?cfg) (example_client_request ''out.home.''))) = [?q]"
    using rr by (simp add: rewritten_request_def rewriteRequest_def example_client_request_def example_query_def Let_def)
  have names: "ExtractDomain ?q = ''out.lan''" "ExtractDomain (target_question ?q ''example.com'') = ''example.com''"
    by code_simp+
  have t: "q_Type ?q \<noteq> TypeCNAME" "q_Type ?q \<noteq> TypePTR" by (simp_all add: type_codes)
  show ?thesis
    by (rule rewriter_custom_alias_panics [OF example_lib_ok alive_example Q t, where target = "''example.com''"])
      (simp_all add: names example_custom_entries)
qed

end
