(* ===== verification/Caching.thy ===== *)
theory Caching
  imports Simple_Resolvers String_Caches
begin

text \<open>
  The caching resolver (resolver/caching_resolver.go) and the prefetching cache
  (cache/prefetching). The expiration cache is third-party code: its operations are a record
  of functions, and what is relied on of it is the locale \<open>expiring_cache\<close>. The prefetching
  cache is built from two such caches and is one itself.

  Times and durations are in nanoseconds; \<open>now\<close> reads the clock in a state of the world.
  Metrics are left out.
\<close>

section \<open>Expiring caches\<close>

record ('v, 'c) ecache =
  ec_Get :: "string \<Rightarrow> int \<Rightarrow> 'c \<Rightarrow> ('v \<times> duration) option \<times> 'c"
  ec_Put :: "string \<Rightarrow> 'v \<Rightarrow> duration \<Rightarrow> int \<Rightarrow> 'c \<Rightarrow> 'c"
  ec_TotalCount :: "int \<Rightarrow> 'c \<Rightarrow> nat"
  ec_Clear :: "'c \<Rightarrow> 'c"

text \<open>
  A value that was put is found until it expires, with the time that is left, and after
  clearing nothing is found.
\<close>

locale expiring_cache =
  fixes ops :: "('v, 'c) ecache"
  assumes get_put: "0 < ttl \<Longrightarrow> t \<le> t' \<Longrightarrow> t' < t + ttl \<Longrightarrow>
      fst (ec_Get ops k t' (ec_Put ops k v ttl t c)) = Some (v, t + ttl - t')"
    and get_clear: "fst (ec_Get ops k t (ec_Clear ops c)) = None"

section \<open>The prefetching cache\<close>

record 'v cacheValue =
  element :: 'v
  prefetch :: bool

record PrefetchingOptions =
  PrefetchThreshold :: int
  PrefetchExpires :: duration

definition shouldPrefetch ::
    "(uint32, 'n) ecache \<Rightarrow> PrefetchingOptions \<Rightarrow> string \<Rightarrow> int \<Rightarrow> 'n \<Rightarrow> bool \<times> 'n" where
  "shouldPrefetch names o' cacheKey t n =
     (if PrefetchThreshold o' = 0 then (True, n)
      else (case ec_Get names cacheKey t n of
              (None, n') \<Rightarrow> (False, n')
            | (Some (queries, _), n') \<Rightarrow> (uint queries > PrefetchThreshold o', n')))"

text \<open>What the expiration cache calls for an entry that expired: a value to keep it with.\<close>

definition onExpired ::
    "(uint32, 'n) ecache \<Rightarrow> PrefetchingOptions \<Rightarrow> (string \<Rightarrow> 'w \<Rightarrow> ('v \<times> duration) option \<times> 'w) \<Rightarrow> string \<Rightarrow> int \<Rightarrow>
     'n \<Rightarrow> 'w \<Rightarrow> ('v cacheValue \<times> duration) option \<times> 'n \<times> 'w" where
  "onExpired names o' reloadFn cacheKey t n w =
     (case shouldPrefetch names o' cacheKey t n of
        (False, n') \<Rightarrow> (None, n', w)
      | (True, n') \<Rightarrow>
          (case reloadFn cacheKey w of
             (Some (v, ttl), w') \<Rightarrow> (Some (\<lparr>element = v, prefetch = True\<rparr>, ttl), n', w')
           | (None, w') \<Rightarrow> (None, n', w')))"

definition trackCacheKeyQueryCount ::
    "(uint32, 'n) ecache \<Rightarrow> PrefetchingOptions \<Rightarrow> string \<Rightarrow> int \<Rightarrow> 'n \<Rightarrow> 'n" where
  "trackCacheKeyQueryCount names o' cacheKey t n =
     (case ec_Get names cacheKey t n of
        (x, n') \<Rightarrow> ec_Put names cacheKey ((case x of None \<Rightarrow> 0 | Some (queries, _) \<Rightarrow> queries) + 1) (PrefetchExpires o') t n')"

definition Prefetching_Put ::
    "('v cacheValue, 'c) ecache \<Rightarrow> string \<Rightarrow> 'v \<Rightarrow> duration \<Rightarrow> int \<Rightarrow> 'c \<times> 'n \<Rightarrow> 'c \<times> 'n" where
  "Prefetching_Put base key val expiration t s =
     (ec_Put base key \<lparr>element = val, prefetch = False\<rparr> expiration t (fst s), snd s)"

definition Prefetching_Get ::
    "('v cacheValue, 'c) ecache \<Rightarrow> (uint32, 'n) ecache \<Rightarrow> PrefetchingOptions \<Rightarrow> string \<Rightarrow> int \<Rightarrow> 'c \<times> 'n \<Rightarrow>
     ('v \<times> duration) option \<times> 'c \<times> 'n" where
  "Prefetching_Get base names o' key t s =
     (let n = trackCacheKeyQueryCount names o' key t (snd s) in
      case ec_Get base key t (fst s) of
        (None, c) \<Rightarrow> (None, c, n)
      | (Some (res, exp), c) \<Rightarrow> (Some (element res, exp), c, n))"

definition Prefetching_Clear ::
    "('v cacheValue, 'c) ecache \<Rightarrow> (uint32, 'n) ecache \<Rightarrow> 'c \<times> 'n \<Rightarrow> 'c \<times> 'n" where
  "Prefetching_Clear base names s = (ec_Clear base (fst s), ec_Clear names (snd s))"

definition NewPrefetchingCache ::
    "('v cacheValue, 'c) ecache \<Rightarrow> (uint32, 'n) ecache \<Rightarrow> PrefetchingOptions \<Rightarrow> ('v, 'c \<times> 'n) ecache" where
  "NewPrefetchingCache base names o' =
     \<lparr>ec_Get = Prefetching_Get base names o', ec_Put = Prefetching_Put base,
      ec_TotalCount = (\<lambda>t s. ec_TotalCount base t (fst s)), ec_Clear = Prefetching_Clear base names\<rparr>"

section \<open>Configuration\<close>

record Caching_cfg =
  MinCachingTime :: duration
  MaxCachingTime :: duration
  CacheTimeNegative :: duration
  Prefetching :: bool
  cPrefetchThreshold :: int
  Exclude :: "string list"

definition Caching_IsEnabled :: "Caching_cfg \<Rightarrow> bool" where
  "Caching_IsEnabled c = IsAtLeastZero (MaxCachingTime c)"

definition EnablePrefetch :: "Caching_cfg \<Rightarrow> Caching_cfg" where
  "EnablePrefetch c =
     (let c' = (if \<not> Caching_IsEnabled c then c\<lparr>MaxCachingTime := 24 * 3600 * second\<rparr> else c) in
      c'\<lparr>Prefetching := True, cPrefetchThreshold := 0\<rparr>)"

text \<open>\<open>expStr[1 : len(expStr)-1]\<close> panics for the string of a single slash.\<close>

datatype exclusion_error = MissingSlashes string | BadRegexp string | SlicePanic

fun configureExclusions :: "regexp_compile \<Rightarrow> string list \<Rightarrow> exclusion_error + regexp list" where
  "configureExclusions compile [] = Inr []"
| "configureExclusions compile (expStr # rest) =
     (if \<not> hasPrefix expStr ''/'' \<or> \<not> hasSuffix expStr ''/'' then Inl (MissingSlashes expStr)
      else if length expStr < 2 then Inl SlicePanic
      else (case compile (trimSpace (slice expStr 1 (length expStr - 1))) of
              None \<Rightarrow> Inl (BadRegexp expStr)
            | Some re \<Rightarrow> map_sum id ((#) re) (configureExclusions compile rest)))"

section \<open>Times to live\<close>

definition MaxInt32 :: uint32 where "MaxInt32 = 0x7FFFFFFF"

definition adjust_ttl :: "Caching_cfg \<Rightarrow> uint32 \<Rightarrow> uint32" where
  "adjust_ttl cfg ttl =
     (let t1 = (if IsAboveZero (MinCachingTime cfg) \<and> ttl < SecondsU32 (MinCachingTime cfg)
                then SecondsU32 (MinCachingTime cfg) else ttl) in
      if IsAboveZero (MaxCachingTime cfg) \<and> t1 > SecondsU32 (MaxCachingTime cfg)
      then SecondsU32 (MaxCachingTime cfg) else t1)"

definition map_ttl :: "(uint32 \<Rightarrow> uint32) \<Rightarrow> RR \<Rightarrow> RR" where
  "map_ttl f = upd_Header (\<lambda>h. h\<lparr>h_Ttl := f (h_Ttl h)\<rparr>)"

definition min_ttl :: "RR list \<Rightarrow> uint32" where
  "min_ttl answer = fold (\<lambda>a m. if m > h_Ttl (Header a) then h_Ttl (Header a) else m) answer MaxInt32"

text \<open>The answer with its new times to live, and the time to cache it.\<close>

definition adjustTTLs :: "Caching_cfg \<Rightarrow> RR list \<Rightarrow> RR list \<times> duration" where
  "adjustTTLs cfg answer =
     (if length answer = 0 then (answer, CacheTimeNegative cfg)
      else (let answer' = map (map_ttl (adjust_ttl cfg)) answer in
            (answer', uint (min_ttl answer') * second)))"

definition setTTLInCachedResponse :: "Msg \<Rightarrow> duration \<Rightarrow> Msg" where
  "setTTLInCachedResponse resp ttl =
     (let minTTL = min_ttl (m_Answer resp) in
      resp\<lparr>m_Answer := map (map_ttl (\<lambda>x. x - minTTL + SecondsU32 ttl)) (m_Answer resp)\<rparr>)"

section \<open>What is cached\<close>

definition matchAnyElementOfArray :: "string \<Rightarrow> regexp list \<Rightarrow> bool" where
  "matchAnyElementOfArray givingText arr = list_ex (\<lambda>re. re (toLower givingText)) arr"

text \<open>\<open>q.Name[:len(q.Name)-1]\<close> panics for an empty name.\<close>

fun questionsMatchAnyExcludedElement :: "Question list \<Rightarrow> regexp list \<Rightarrow> go_panic + bool" where
  "questionsMatchAnyExcludedElement [] exclusions = Inr False"
| "questionsMatchAnyExcludedElement (q # qs) exclusions =
     (if q_Name q = [] then Inl SliceOutOfRange
      else if matchAnyElementOfArray (butlast (q_Name q)) exclusions then Inr True
      else questionsMatchAnyExcludedElement qs exclusions)"

definition isRequestCacheable :: "dnslib \<Rightarrow> regexp list \<Rightarrow> Request \<Rightarrow> go_panic + bool" where
  "isRequestCacheable lib exclusions request =
     (case questionsMatchAnyExcludedElement (m_Question (Req request)) exclusions of
        Inl p \<Rightarrow> Inl p
      | Inr True \<Rightarrow> Inr False
      | Inr False \<Rightarrow>
          (case GetEdns0Option lib EDNS0SUBNET is_SUBNET (Some (Req request)) of
             Inl p \<Rightarrow> Inl p
           | Inr (Some (EDNS0_SUBNET family netmask scope addr)) \<Rightarrow>
               Inr (\<not> ((family = ecsFamilyIPv4 \<and> netmask \<noteq> ecsMaskIPv4) \<or>
                       (family = ecsFamilyIPv6 \<and> netmask \<noteq> ecsMaskIPv6)))
           | Inr _ \<Rightarrow> Inr True))"

definition isResponseCacheable :: "Msg \<Rightarrow> bool" where
  "isResponseCacheable msg \<longleftrightarrow> \<not> m_Truncated msg \<and> \<not> m_CheckingDisabled msg"

text \<open>
  \<open>publish\<close> sends the entry to the other instances, if there is a Redis client; it changes
  the world only.
\<close>

definition putInCache ::
    "dnslib \<Rightarrow> (string, 'c) ecache \<Rightarrow> Caching_cfg \<Rightarrow> (string \<Rightarrow> Msg \<Rightarrow> 'w \<Rightarrow> 'w) option \<Rightarrow> string \<Rightarrow> Msg \<Rightarrow> duration \<Rightarrow>
     int \<Rightarrow> 'c \<Rightarrow> 'w \<Rightarrow> 'c \<times> 'w" where
  "putInCache lib ops cfg publish cacheKey res ttl t c w =
     (let respCopy = the (snd (RemoveEdns0Record lib (Some res)));
          c' = (case lib_Pack lib respCopy of
                  None \<Rightarrow> c
                | Some packed \<Rightarrow>
                    if m_Rcode res = RcodeSuccess \<and> isResponseCacheable res then ec_Put ops cacheKey packed ttl t c
                    else if m_Rcode res = RcodeNameError \<and> IsAboveZero (CacheTimeNegative cfg)
                    then ec_Put ops cacheKey packed (CacheTimeNegative cfg) t c
                    else c) in
      (c', case publish of None \<Rightarrow> w | Some p \<Rightarrow> p cacheKey respCopy w))"

definition getFromCache :: "dnslib \<Rightarrow> (string, 'c) ecache \<Rightarrow> string \<Rightarrow> int \<Rightarrow> 'c \<Rightarrow> (Msg \<times> duration) option \<times> 'c" where
  "getFromCache lib ops key t c =
     (case ec_Get ops key t c of
        (None, c') \<Rightarrow> (None, c')
      | (Some (packed, ttl), c') \<Rightarrow>
          (case lib_Unpack lib packed of None \<Rightarrow> (None, c') | Some m \<Rightarrow> (Some (m, ttl), c')))"

definition cachedResponse :: "dnslib \<Rightarrow> Request \<Rightarrow> Msg \<Rightarrow> duration \<Rightarrow> Response" where
  "cachedResponse lib request val ttl =
     (let val' = setTTLInCachedResponse (lib_SetRcode lib val (Req request) (m_Rcode val)) ttl in
      \<lparr>Res = Some val', Reason = (if m_Rcode val' = RcodeSuccess then ''CACHED'' else ''CACHED NEGATIVE''),
       RType = ResponseTypeCACHED\<rparr>)"

section \<open>Resolving\<close>

text \<open>
  One question after the other; the response of the last one counts. The times to live of a
  response are changed in place, so the client sees them too. For a request without question
  the code returns a nil response, which its caller dereferences.
\<close>

fun caching_questions ::
    "dnslib \<Rightarrow> (string, 'c) ecache \<Rightarrow> Caching_cfg \<Rightarrow> (string \<Rightarrow> Msg \<Rightarrow> 'w \<Rightarrow> 'w) option \<Rightarrow> ('w \<Rightarrow> int) \<Rightarrow> 'w resolver \<Rightarrow>
     Question list \<Rightarrow> Response outcome \<Rightarrow> Request \<Rightarrow> 'c \<times> 'w \<Rightarrow> Response outcome \<times> Request \<times> 'c \<times> 'w" where
  "caching_questions lib ops cfg publish now next [] response request (c, w) = (response, request, c, w)"
| "caching_questions lib ops cfg publish now next (question # qs) response request (c, w) =
     (let cacheKey = GenerateCacheKey (q_Type question) (ExtractDomain question) in
      case getFromCache lib ops cacheKey (now w) c of
        (Some (val, ttl), c1) \<Rightarrow> (Ret (cachedResponse lib request val ttl), request, c1, w)
      | (None, c1) \<Rightarrow>
          (case next request w of
             (Panic p, request', w') \<Rightarrow> (Panic p, request', c1, w')
           | (Fail err, request', w') \<Rightarrow>
               caching_questions lib ops cfg publish now next qs (Fail err) request' (c1, w')
           | (Ret resp, request', w') \<Rightarrow>
               (case Res resp of
                  None \<Rightarrow> (Panic NilDereference, request', c1, w')
                | Some m \<Rightarrow>
                    (case adjustTTLs cfg (m_Answer m) of
                       (answer, cacheTTL) \<Rightarrow>
                         let m' = m\<lparr>m_Answer := answer\<rparr> in
                         caching_questions lib ops cfg publish now next qs (Ret (resp\<lparr>Res := Some m'\<rparr>)) request'
                           (putInCache lib ops cfg publish cacheKey m' cacheTTL (now w') c1 w')))))"

definition Caching_Resolve ::
    "dnslib \<Rightarrow> (string, 'c) ecache \<Rightarrow> Caching_cfg \<Rightarrow> regexp list \<Rightarrow> (string \<Rightarrow> Msg \<Rightarrow> 'w \<Rightarrow> 'w) option \<Rightarrow> ('w \<Rightarrow> int) \<Rightarrow>
     'w resolver \<Rightarrow> ('c \<times> 'w) resolver" where
  "Caching_Resolve lib ops cfg exclusions publish now next request s =
     (let skip = (case next request (snd s) of (out, request', w') \<Rightarrow> (out, request', fst s, w')) in
      if \<not> Caching_IsEnabled cfg then skip
      else (case isRequestCacheable lib exclusions request of
              Inl p \<Rightarrow> (Panic p, request, s)
            | Inr False \<Rightarrow> skip
            | Inr True \<Rightarrow>
                caching_questions lib ops cfg publish now next (m_Question (Req request)) (Panic NilDereference) request s))"

text \<open>
  Reloading an entry for the prefetching cache. The message is packed with the options it
  has, and before its times to live are adjusted.
\<close>

definition reloadCacheEntry ::
    "dnslib \<Rightarrow> Caching_cfg \<Rightarrow> 'w resolver \<Rightarrow> string \<Rightarrow> 'w \<Rightarrow> (string \<times> duration) option outcome \<times> 'w" where
  "reloadCacheEntry lib cfg next cacheKey w =
     (case ExtractCacheKey cacheKey of
        Inl p \<Rightarrow> (Panic p, w)
      | Inr (qType, domainName) \<Rightarrow>
          (case next (newRequest lib (lib_Fqdn lib domainName) qType) w of
             (Panic p, _, w') \<Rightarrow> (Panic p, w')
           | (Fail err, _, w') \<Rightarrow> (Ret None, w')
           | (Ret response, _, w') \<Rightarrow>
               (case Res response of
                  None \<Rightarrow> (Panic NilDereference, w')
                | Some m \<Rightarrow>
                    if m_Rcode m = RcodeSuccess
                    then (case lib_Pack lib m of
                            None \<Rightarrow> (Ret None, w')
                          | Some packed \<Rightarrow> (Ret (Some (packed, snd (adjustTTLs cfg (m_Answer m)))), w'))
                    else (Ret None, w'))))"

text \<open>An entry another instance published.\<close>

definition cache_redisReceive ::
    "dnslib \<Rightarrow> (string, 'c) ecache \<Rightarrow> Caching_cfg \<Rightarrow> ('w \<Rightarrow> int) \<Rightarrow> string \<Rightarrow> Msg \<Rightarrow> 'c \<times> 'w \<Rightarrow> 'c \<times> 'w" where
  "cache_redisReceive lib ops cfg now key m s =
     (case adjustTTLs cfg (m_Answer m) of
        (answer, ttl) \<Rightarrow> putInCache lib ops cfg None key (m\<lparr>m_Answer := answer\<rparr>) ttl (now (snd s)) (fst s) (snd s))"

definition FlushCaches :: "(string, 'c) ecache \<Rightarrow> 'c \<times> 'w \<Rightarrow> 'c \<times> 'w" where
  "FlushCaches ops s = (ec_Clear ops (fst s), snd s)"

section \<open>Facts about times to live\<close>

lemma h_Ttl_map_ttl [simp]: "h_Ttl (Header (map_ttl f rr)) = f (h_Ttl (Header rr))"
  by (simp add: map_ttl_def)

lemma map_ttl_comp: "map_ttl f (map_ttl g rr) = map_ttl (f \<circ> g) rr"
  by (cases rr) (simp_all add: map_ttl_def)

lemma fold_min_ttl:
  "fold (\<lambda>a m. if m > h_Ttl (Header a) then h_Ttl (Header a) else m) answer m =
   fold min (map (\<lambda>a. h_Ttl (Header a)) answer) m"
proof (induction answer arbitrary: m)
  case (Cons a answer)
  have "(if m > h_Ttl (Header a) then h_Ttl (Header a) else m) = min (h_Ttl (Header a)) m" by (auto simp: min_def)
  with Cons show ?case by simp
qed simp

lemma min_ttl_Min: "min_ttl answer = Min (insert MaxInt32 ((\<lambda>a. h_Ttl (Header a)) ` set answer))"
proof -
  have "fold min xs m = Min (insert m (set xs))" for xs and m :: uint32
    using Min.set_eq_fold [of m xs] by simp
  then show ?thesis by (simp add: min_ttl_def fold_min_ttl)
qed

lemma min_ttl_le: "rr \<in> set answer \<Longrightarrow> min_ttl answer \<le> h_Ttl (Header rr)"
  by (simp add: min_ttl_Min)

section \<open>Facts about expiring caches\<close>

text \<open>
  Messages are cached in packed form; unpacking returns the return code and the answers of
  what was packed.
\<close>

locale packed_cache = expiring_cache ops for ops :: "(string, 'c) ecache" +
  fixes lib :: dnslib
  assumes unpack_pack: "lib_Pack lib m = Some packed \<Longrightarrow>
    \<exists>m'. lib_Unpack lib packed = Some m' \<and> m_Rcode m' = m_Rcode m \<and> m_Answer m' = m_Answer m"
begin

lemma getFromCache_put:
  assumes "lib_Pack lib m = Some packed" and "0 < ttl" and "t \<le> t'" and "t' < t + ttl"
  shows "\<exists>m' c'. getFromCache lib ops key t' (ec_Put ops key packed ttl t c) = (Some (m', t + ttl - t'), c') \<and>
    m_Rcode m' = m_Rcode m \<and> m_Answer m' = m_Answer m"
  using get_put [OF assms(2-4), of key packed c] unpack_pack [OF assms(1)]
  by (cases "ec_Get ops key t' (ec_Put ops key packed ttl t c)") (auto simp: getFromCache_def)

lemma getFromCache_clear: "fst (getFromCache lib ops key t (ec_Clear ops c)) = None"
  using get_clear [of key t c] by (cases "ec_Get ops key t (ec_Clear ops c)") (auto simp: getFromCache_def)

end

text \<open>The prefetching cache is an expiring cache if the two caches it is built from are.\<close>

locale prefetch_caches = base: expiring_cache base + names: expiring_cache names
  for base :: "('v cacheValue, 'c) ecache" and names :: "(uint32, 'n) ecache" +
  fixes opts :: PrefetchingOptions
begin

lemma get_track:
  assumes "0 < PrefetchExpires opts" and "t1 \<le> t" and "t < t1 + PrefetchExpires opts"
  shows "fst (ec_Get names key t (trackCacheKeyQueryCount names opts key t1 n)) =
    Some ((case fst (ec_Get names key t1 n) of None \<Rightarrow> 0 | Some (queries, _) \<Rightarrow> queries) + 1,
          t1 + PrefetchExpires opts - t)"
  using names.get_put [OF assms] by (cases "ec_Get names key t1 n") (simp add: trackCacheKeyQueryCount_def)

text \<open>The count of a name after queries at the given times.\<close>

lemma get_tracked:
  assumes "ts \<noteq> []"
    and "successively (\<lambda>t t'. t \<le> t' \<and> t' < t + PrefetchExpires opts) (ts @ [t])"
    and "0 < PrefetchExpires opts" and "fst (ec_Get names key (hd ts) n) = None"
  shows "fst (ec_Get names key t (fold (trackCacheKeyQueryCount names opts key) ts n)) =
    Some (of_nat (length ts), last ts + PrefetchExpires opts - t)"
  using assms
proof (induction ts arbitrary: t rule: rev_induct)
  case (snoc t1 ts)
  have step: "t1 \<le> t" "t < t1 + PrefetchExpires opts"
    and succ: "successively (\<lambda>t t'. t \<le> t' \<and> t' < t + PrefetchExpires opts) (ts @ [t1])"
    using snoc.prems(2) by (auto simp: successively_append_iff)
  let ?n = "fold (trackCacheKeyQueryCount names opts key) ts n"
  have c: "(case fst (ec_Get names key t1 ?n) of None \<Rightarrow> 0 | Some (queries, _) \<Rightarrow> queries) = of_nat (length ts)"
    using snoc by (cases "ts = []") (auto simp: succ)
  show ?case
    using get_track [OF snoc.prems(3) step, of key ?n] by (simp add: c add.commute)
qed simp

end

sublocale prefetch_caches \<subseteq> pc: expiring_cache "NewPrefetchingCache base names opts"
proof
  fix ttl t t' :: int and k v c
  assume a: "0 < ttl" "t \<le> t'" "t' < t + ttl"
  show "fst (ec_Get (NewPrefetchingCache base names opts) k t'
      (ec_Put (NewPrefetchingCache base names opts) k v ttl t c)) = Some (v, t + ttl - t')"
    using base.get_put [OF a, of k "\<lparr>element = v, prefetch = False\<rparr>" "fst c"]
    by (auto simp: NewPrefetchingCache_def Prefetching_Get_def Prefetching_Put_def Let_def split: prod.splits option.splits)
next
  fix k t c
  show "fst (ec_Get (NewPrefetchingCache base names opts) k t (ec_Clear (NewPrefetchingCache base names opts) c)) = None"
    using base.get_clear [of k t "fst c"]
    by (auto simp: NewPrefetchingCache_def Prefetching_Get_def Prefetching_Clear_def Let_def split: prod.splits option.splits)
qed

section \<open>Facts about caching responses\<close>

lemma getFromCache_miss:
  assumes "fst (ec_Get ops key t c) = None"
  shows "getFromCache lib ops key t c = (None, snd (ec_Get ops key t c))"
  using assms by (cases "ec_Get ops key t c") (simp add: getFromCache_def)

definition without_OPT :: "Msg \<Rightarrow> Msg" where
  "without_OPT m = m\<lparr>m_Extra := filter (\<lambda>rr. \<not> is_OPT rr) (m_Extra m)\<rparr>"

lemma without_OPT_sel [simp]: "m_Rcode (without_OPT m) = m_Rcode m" "m_Answer (without_OPT m) = m_Answer m"
  by (simp_all add: without_OPT_def)

lemma putInCache_success:
  assumes "dnslib_ok lib" and "single_OPT m" and "m_Rcode m = RcodeSuccess" and "isResponseCacheable m"
    and "lib_Pack lib (without_OPT m) = Some packed"
  shows "fst (putInCache lib ops cfg publish key m ttl t c w) = ec_Put ops key packed ttl t c"
  using RemoveEdns0Record_spec [OF assms(1,2)] assms(3-5)
  by (auto simp: putInCache_def Let_def without_OPT_def)

lemma cachedResponse_spec:
  assumes "dnslib_ok lib" and "m_Rcode val = rc"
  shows "\<exists>m. cachedResponse lib request val ttl =
      \<lparr>Res = Some m, Reason = (if rc = RcodeSuccess then ''CACHED'' else ''CACHED NEGATIVE''), RType = ResponseTypeCACHED\<rparr> \<and>
    is_reply m (Req request) rc \<and>
    m_Answer m = map (map_ttl (\<lambda>x. x - min_ttl (m_Answer val) + SecondsU32 ttl)) (m_Answer val)"
  using assms by (auto simp: cachedResponse_def setTTLInCachedResponse_def Let_def dnslib_ok_def is_reply_def)

text \<open>A hit is answered whatever the next resolver is, and leaves the world as it is.\<close>

lemma Caching_Resolve_hit:
  assumes "Caching_IsEnabled cfg" and "isRequestCacheable lib exclusions request = Inr True"
    and "m_Question (Req request) = q # qs"
    and "getFromCache lib ops (GenerateCacheKey (q_Type q) (ExtractDomain q)) (now w) c = (Some (val, ttl), c')"
  shows "Caching_Resolve lib ops cfg exclusions publish now nextr request (c, w) =
    (Ret (cachedResponse lib request val ttl), request, c', w)"
  using assms by (simp add: Caching_Resolve_def Let_def)

lemma Caching_Resolve_miss:
  assumes "Caching_IsEnabled cfg" and "isRequestCacheable lib exclusions request = Inr True"
    and "m_Question (Req request) = [q]"
    and "fst (ec_Get ops (GenerateCacheKey (q_Type q) (ExtractDomain q)) (now w) c) = None"
    and "nextr request w = (Ret resp, request', w')" and "Res resp = Some m"
    and "adjustTTLs cfg (m_Answer m) = (answer, ttl)"
  shows "Caching_Resolve lib ops cfg exclusions publish now nextr request (c, w) =
    (Ret (resp\<lparr>Res := Some (m\<lparr>m_Answer := answer\<rparr>)\<rparr>), request',
     putInCache lib ops cfg publish (GenerateCacheKey (q_Type q) (ExtractDomain q)) (m\<lparr>m_Answer := answer\<rparr>) ttl
       (now w') (snd (ec_Get ops (GenerateCacheKey (q_Type q) (ExtractDomain q)) (now w) c)) w')"
proof -
  let ?k = "GenerateCacheKey (q_Type q) (ExtractDomain q)"
  have "caching_questions lib ops cfg publish now nextr [] out rq s = (out, rq, s)" for out rq s
    by (cases s) simp
  then show ?thesis using assms getFromCache_miss [OF assms(4), of lib] by (simp add: Caching_Resolve_def Let_def)
qed

section \<open>A reference expiring cache\<close>

text \<open>
  The entries with the time they expire at, the newest first. It shows that the laws can be
  met; with it the prefetching cache of the code is an expiring cache.
\<close>

type_synonym 'v timed = "(string \<times> 'v \<times> int) list"

definition timed_cache :: "('v, 'v timed) ecache" where
  "timed_cache = \<lparr>
     ec_Get = (\<lambda>k t c. (case map_of c k of None \<Rightarrow> None | Some (v, e) \<Rightarrow> if t < e then Some (v, e - t) else None, c)),
     ec_Put = (\<lambda>k v ttl t c. (k, v, t + ttl) # c),
     ec_TotalCount = (\<lambda>t c. length (filter (\<lambda>(k, v, e). t < e) c)),
     ec_Clear = (\<lambda>c. [])\<rparr>"

interpretation timed: expiring_cache timed_cache
  by unfold_locales (simp_all add: timed_cache_def)

interpretation prefetched: prefetch_caches timed_cache timed_cache opts
  for opts by unfold_locales

text \<open>A library that packs one message.\<close>

definition packing_lib :: "Msg \<Rightarrow> dnslib" where
  "packing_lib m0 = example_lib\<lparr>
     lib_Pack := (\<lambda>m. if m_Rcode m = m_Rcode m0 \<and> m_Answer m = m_Answer m0 then Some ''m'' else None),
     lib_Unpack := (\<lambda>_. Some m0)\<rparr>"

lemma packing_lib_ok: "dnslib_ok (packing_lib m0)"
  using example_lib_ok by (simp add: packing_lib_def dnslib_ok_def)

interpretation packed: packed_cache "NewPrefetchingCache timed_cache timed_cache opts" "packing_lib m0"
  for opts m0 by unfold_locales (auto simp: packing_lib_def split: if_splits)

definition example_answer :: Msg where
  "example_answer = new_Msg\<lparr>m_Answer :=
     [RR_A \<lparr>h_Name = ''a.'', h_Type = TypeA, h_Class = ClassINET, h_Ttl = 300\<rparr> (IPv4 1 2 3 4)]\<rparr>"

definition example_caching :: Caching_cfg where
  "example_caching = \<lparr>MinCachingTime = 0, MaxCachingTime = 0, CacheTimeNegative = 0, Prefetching = True,
     cPrefetchThreshold = 5, Exclude = []\<rparr>"

section \<open>Properties\<close>

text \<open>
  C6. The cache answers the second query. Let the cache be enabled, a query with one question
  miss the cache, and the next resolver answer it with a successful message that is neither
  truncated nor has checking disabled. Then a query for the same name and type that arrives
  before the shortest adjusted time to live is over is answered from the cache, whatever
  the next resolver is then and without touching its world: by a successful reply to the new
  query with the answers of the first, whose times to live are reduced by the same
  amount, so that the shortest is the time that is left in the cache.
\<close>

theorem cached_answer_is_reused:
  fixes now :: "'w \<Rightarrow> int"
  assumes "packed_cache ops lib" and "dnslib_ok lib" and "Caching_IsEnabled cfg"
    and "isRequestCacheable lib exclusions request = Inr True" and "m_Question (Req request) = [q]"
    and "fst (ec_Get ops (GenerateCacheKey (q_Type q) (ExtractDomain q)) (now w) c) = None"
    and "nextr request w = (Ret resp, request', w')" and "Res resp = Some m" and "m_Answer m \<noteq> []"
    and "m_Rcode m = RcodeSuccess" and "isResponseCacheable m" and "single_OPT m"
    and "A = map (map_ttl (adjust_ttl cfg)) (m_Answer m)"
    and "lib_Pack lib (without_OPT (m\<lparr>m_Answer := A\<rparr>)) \<noteq> None"
    and "Caching_Resolve lib ops cfg exclusions publish now nextr request (c, w) = (out, request'', c1, w1)"
    and "isRequestCacheable lib exclusions again = Inr True" and "m_Question (Req again) = q' # qs"
    and "q_Type q' = q_Type q" and "ExtractDomain q' = ExtractDomain q"
    and "now w' \<le> now w2" and "now w2 < now w' + uint (min_ttl A) * second"
  shows "out = Ret (resp\<lparr>Res := Some (m\<lparr>m_Answer := A\<rparr>)\<rparr>) \<and>
    (\<exists>m2 c2. Caching_Resolve lib ops cfg exclusions publish now nextr2 again (c1, w2) =
      (Ret \<lparr>Res = Some m2, Reason = ''CACHED'', RType = ResponseTypeCACHED\<rparr>, again, c2, w2) \<and>
     is_reply m2 (Req again) RcodeSuccess \<and>
     m_Answer m2 = map (map_ttl (\<lambda>x. x - min_ttl A + SecondsU32 (now w' + uint (min_ttl A) * second - now w2))) A)"
proof -
  let ?k = "GenerateCacheKey (q_Type q) (ExtractDomain q)" and ?m = "m\<lparr>m_Answer := A\<rparr>"
    and ?ttl = "uint (min_ttl A) * second"
  obtain packed where p: "lib_Pack lib (without_OPT ?m) = Some packed" using assms(14) by auto
  have adj: "adjustTTLs cfg (m_Answer m) = (A, ?ttl)" using assms(9,13) by (simp add: adjustTTLs_def Let_def)
  have put: "fst (putInCache lib ops cfg publish ?k ?m ?ttl t c' w') = ec_Put ops ?k packed ?ttl t c'" for t c'
    using assms(10-12) p by (intro putInCache_success [OF assms(2)]) (simp_all add: isResponseCacheable_def single_OPT_def)
  note miss = Caching_Resolve_miss [where now = now and w = w and nextr = nextr and publish = publish, OF assms(3-8) adj]
  have out: "out = Ret (resp\<lparr>Res := Some ?m\<rparr>)" and c1: "c1 = ec_Put ops ?k packed ?ttl (now w') (snd (ec_Get ops ?k (now w) c))"
    using assms(15) miss put [of "now w'" "snd (ec_Get ops ?k (now w) c)"] by (simp_all add: prod_eq_iff)
  have "0 < ?ttl" using assms(20,21) by linarith
  from packed_cache.getFromCache_put [OF assms(1) p this assms(20,21)] obtain val c2 where
    g: "getFromCache lib ops ?k (now w2) c1 = (Some (val, now w' + ?ttl - now w2), c2)"
    "m_Rcode val = RcodeSuccess" "m_Answer val = A" unfolding c1 using assms(10) by fastforce
  have "Caching_Resolve lib ops cfg exclusions publish now nextr2 again (c1, w2) =
      (Ret (cachedResponse lib again val (now w' + ?ttl - now w2)), again, c2, w2)"
    using g(1) assms(18,19) by (intro Caching_Resolve_hit [OF assms(3,16,17)]) simp
  then show ?thesis using out g(3) cachedResponse_spec [OF assms(2) g(2), of again "now w' + ?ttl - now w2"] by auto
qed

theorem cached_answer_is_reused_witness:
  "let lib = packing_lib example_answer; ops = NewPrefetchingCache timed_cache timed_cache \<lparr>PrefetchThreshold = 5, PrefetchExpires = second\<rparr>;
     c1 = fst (snd (snd (Caching_Resolve lib ops example_caching [] None id
       (\<lambda>rq w. (Ret \<lparr>Res = Some example_answer, Reason = [], RType = ResponseTypeRESOLVED\<rparr>, rq, w)) (newRequest lib ''a.'' TypeA) (([], []), 0))))
   in \<exists>m2 c2. Caching_Resolve lib ops example_caching [] None id (\<lambda>rq w. (Panic NilDereference, rq, w)) (newRequest lib ''A.'' TypeA)
      (c1, 100 * second) =
      (Ret \<lparr>Res = Some m2, Reason = ''CACHED'', RType = ResponseTypeCACHED\<rparr>, newRequest lib ''A.'' TypeA, c2, 100 * second) \<and>
     map (\<lambda>rr. h_Ttl (Header rr)) (m_Answer m2) = [200]"
proof -
  let ?lib = "packing_lib example_answer"
  let ?ops = "NewPrefetchingCache timed_cache timed_cache \<lparr>PrefetchThreshold = 5, PrefetchExpires = second\<rparr>"
  let ?next = "\<lambda>rq w :: int. (Ret \<lparr>Res = Some example_answer, Reason = [], RType = ResponseTypeRESOLVED\<rparr>, rq, w)"
  let ?resp = "\<lparr>Res = Some example_answer, Reason = [], RType = ResponseTypeRESOLVED\<rparr>"
  have res: "Res ?resp = Some example_answer" by simp
  let ?rq = "newRequest ?lib ''a.'' TypeA" and ?rq2 = "newRequest ?lib ''A.'' TypeA"
  let ?q = "\<lparr>q_Name = ''a.'', q_Type = TypeA, q_Class = ClassINET\<rparr>" and ?q2 = "\<lparr>q_Name = ''A.'', q_Type = TypeA, q_Class = ClassINET\<rparr>"
  have enabled: "Caching_IsEnabled example_caching" by code_simp
  have cacheable: "isRequestCacheable ?lib [] ?rq = Inr True" "isRequestCacheable ?lib [] ?rq2 = Inr True" by code_simp+
  have qs: "m_Question (Req ?rq) = [?q]" "m_Question (Req ?rq2) = [?q2]" by code_simp+
  have miss: "fst (ec_Get ?ops (GenerateCacheKey (q_Type ?q) (ExtractDomain ?q)) (id 0) ([], [])) = None" by code_simp
  have m: "m_Answer example_answer \<noteq> []" "m_Rcode example_answer = RcodeSuccess" "isResponseCacheable example_answer"
    by code_simp+
  have one: "single_OPT example_answer" by (simp add: single_OPT_def example_answer_def new_Msg_def)
  have adj: "m_Answer example_answer = map (map_ttl (adjust_ttl example_caching)) (m_Answer example_answer)" by code_simp
  have pack: "lib_Pack ?lib (without_OPT (example_answer\<lparr>m_Answer := m_Answer example_answer\<rparr>)) \<noteq> None" by code_simp
  have dom: "q_Type ?q2 = q_Type ?q" "ExtractDomain ?q2 = ExtractDomain ?q" by code_simp+
  have t: "id 0 \<le> id (100 * second)" "id (100 * second) < id 0 + uint (min_ttl (m_Answer example_answer)) * second" by code_simp+
  have ttl: "map (\<lambda>rr. h_Ttl (Header rr)) (map (map_ttl (\<lambda>x. x - min_ttl (m_Answer example_answer) +
      SecondsU32 (id 0 + uint (min_ttl (m_Answer example_answer)) * second - id (100 * second)))) (m_Answer example_answer)) = [200]"
    by code_simp
  obtain out rq' c1 w1 where r: "Caching_Resolve ?lib ?ops example_caching [] None id ?next ?rq (([], []), 0) = (out, rq', c1, w1)"
    by (rule prod_cases4)
  have "\<exists>m2 c2. Caching_Resolve ?lib ?ops example_caching [] None id (\<lambda>rq w. (Panic NilDereference, rq, w)) ?rq2 (c1, 100 * second) =
      (Ret \<lparr>Res = Some m2, Reason = ''CACHED'', RType = ResponseTypeCACHED\<rparr>, ?rq2, c2, 100 * second) \<and>
     m_Answer m2 = map (map_ttl (\<lambda>x. x - min_ttl (m_Answer example_answer) +
      SecondsU32 (id 0 + uint (min_ttl (m_Answer example_answer)) * second - id (100 * second)))) (m_Answer example_answer)"
    using cached_answer_is_reused [where now = id and w = 0 and w' = 0 and ?w2.0 = "100 * second" and nextr = ?next and request = ?rq
          and request' = ?rq and resp = ?resp and m = example_answer and A = "m_Answer example_answer"
          and again = ?rq2 and ?nextr2.0 = "\<lambda>rq w. (Panic NilDereference, rq, w)",
        OF packed.packed_cache_axioms packing_lib_ok enabled cacheable(1) qs(1) miss refl res m one adj pack r cacheable(2)
          qs(2) dom t] by simp blast
  then show ?thesis using ttl by (auto simp: r)
qed



end
