(* ===== verification/Client_Names.thy ===== *)
theory Client_Names
  imports Caching
begin

text \<open>
  The names of a client (resolver/client_names_resolver.go): the identifier it sent, the
  configured names of its address, or the names a reverse lookup returns. Looked up names
  are cached for an hour; the cache is third-party code like the one of the caching resolver.
\<close>

section \<open>Data and operations\<close>

record 'w ClientNamesResolver =
  ClientnameIPMapping :: "(string \<times> IP list) list"
  SingleNameOrder :: "nat list"
  externalResolver :: "'w resolver option"

definition hour :: duration where "hour = 3600 * second"

definition getNameFromIPMapping :: "(string \<times> IP list) list \<Rightarrow> IP \<Rightarrow> string list" where
  "getNameFromIPMapping mapping ip =
     concat (map (\<lambda>(name, ips). map (\<lambda>_. name) (filter (\<lambda>i. IP_String ip = IP_String i) ips)) mapping)"

definition ptr_name :: "RR \<Rightarrow> string option" where
  "ptr_name rr = (case rr of RR_PTR _ p \<Rightarrow> Some (trimSuffix p ''.'') | _ \<Rightarrow> None)"

definition extractClientNamesFromAnswer :: "RR list \<Rightarrow> IP \<Rightarrow> string list" where
  "extractClientNamesFromAnswer answer fallbackIP =
     (let clientNames = List.map_filter ptr_name answer in
      if length clientNames = 0 then [IP_String fallbackIP] else clientNames)"

text \<open>The first configured position the names have, counted from one; no name if none fits.\<close>

fun singleName :: "nat list \<Rightarrow> string list \<Rightarrow> string list" where
  "singleName [] clientNames = []"
| "singleName (i # is) clientNames =
     (if i > 0 \<and> i \<le> length clientNames then [clientNames ! (i - 1)] else singleName is clientNames)"

definition reverse_request :: "dnslib \<Rightarrow> IP \<Rightarrow> Request" where
  "reverse_request lib ip =
     \<lparr>ClientIP = [], RequestClientID = [], Protocol = RequestProtocolTCP, ClientNames = [],
      Req = NewMsgWithQuestion lib (lib_ReverseAddr lib (IP_String ip)) TypePTR, RequestTS = 0\<rparr>"

definition resolveClientNames :: "dnslib \<Rightarrow> 'w ClientNamesResolver \<Rightarrow> IP \<Rightarrow> 'w \<Rightarrow> (go_panic + string list) \<times> 'w" where
  "resolveClientNames lib r ip w =
     (let result = getNameFromIPMapping (ClientnameIPMapping r) ip in
      if length result > 0 then (Inr result, w)
      else (case externalResolver r of
              None \<Rightarrow> (Inr [IP_String ip], w)
            | Some ext \<Rightarrow>
                (case ext (reverse_request lib ip) w of
                   (Panic p, _, w') \<Rightarrow> (Inl p, w')
                 | (Fail _, _, w') \<Rightarrow> (Inr [IP_String ip], w')
                 | (Ret resp, _, w') \<Rightarrow>
                     (case Res resp of
                        None \<Rightarrow> (Inl NilDereference, w')
                      | Some m \<Rightarrow>
                          let clientNames = extractClientNamesFromAnswer (m_Answer m) ip in
                          (Inr (if length (SingleNameOrder r) > 0 then singleName (SingleNameOrder r) clientNames
                                else clientNames), w')))))"

definition getClientNames ::
    "dnslib \<Rightarrow> (string list, 'n) ecache \<Rightarrow> ('w \<Rightarrow> int) \<Rightarrow> 'w ClientNamesResolver \<Rightarrow> Request \<Rightarrow> 'n \<times> 'w \<Rightarrow>
     (go_panic + string list) \<times> 'n \<times> 'w" where
  "getClientNames lib cache now r request s =
     (if RequestClientID request \<noteq> [] then (Inr [RequestClientID request], s)
      else if ClientIP request = [] then (Inr [], s)
      else
        let key = IP_String (ClientIP request) in
        case ec_Get cache key (now (snd s)) (fst s) of
          (Some (c, _), n) \<Rightarrow> (Inr c, n, snd s)
        | (None, n) \<Rightarrow>
            (case resolveClientNames lib r (ClientIP request) (snd s) of
               (Inl p, w) \<Rightarrow> (Inl p, n, w)
             | (Inr names, w) \<Rightarrow> (Inr names, ec_Put cache key names hour (now w) n, w)))"

definition ClientNames_Resolve ::
    "dnslib \<Rightarrow> (string list, 'n) ecache \<Rightarrow> ('w \<Rightarrow> int) \<Rightarrow> 'w ClientNamesResolver \<Rightarrow> 'w resolver \<Rightarrow> ('n \<times> 'w) resolver" where
  "ClientNames_Resolve lib cache now r next request s =
     (case getClientNames lib cache now r request s of
        (Inl p, s') \<Rightarrow> (Panic p, request, s')
      | (Inr names, n, w) \<Rightarrow>
          (case next (request\<lparr>ClientNames := names\<rparr>) w of (out, request', w') \<Rightarrow> (out, request', n, w')))"

definition FlushCache :: "(string list, 'n) ecache \<Rightarrow> 'n \<times> 'w \<Rightarrow> 'n \<times> 'w" where
  "FlushCache cache s = (ec_Clear cache (fst s), snd s)"

section \<open>Facts\<close>

lemma singleName_sub: "set (singleName is names) \<subseteq> set names" "length (singleName is names) \<le> 1"
  by (induction "is") auto

lemma resolveClientNames_mapped:
  "getNameFromIPMapping (ClientnameIPMapping r) ip \<noteq> [] \<Longrightarrow>
   resolveClientNames lib r ip w = (Inr (getNameFromIPMapping (ClientnameIPMapping r) ip), w)"
  by (simp add: resolveClientNames_def Let_def)

text \<open>
  Within an hour the reverse lookup is done once: after names were looked up, the next query
  of the same address gets the same names without asking the external resolver.
\<close>

lemma getClientNames_again:
  assumes "expiring_cache cache" and "RequestClientID request = []" and "ClientIP request \<noteq> []"
    and "fst (ec_Get cache (IP_String (ClientIP request)) (now w) n) = None"
    and "getClientNames lib cache now r request (n, w) = (Inr names, n1, w1)"
    and "RequestClientID again = []" and "ClientIP again = ClientIP request"
    and "now w1 \<le> now w2" and "now w2 < now w1 + hour"
  shows "\<exists>n2. getClientNames lib cache now r' again (n1, w2) = (Inr names, n2, w2)"
proof -
  let ?k = "IP_String (ClientIP request)"
  from assms(2-5) have n1: "n1 = ec_Put cache ?k names hour (now w1) (snd (ec_Get cache ?k (now w) n))"
    by (auto simp: getClientNames_def Let_def split: prod.splits sum.splits)
  have "0 < hour" by (simp add: hour_def second_def)
  from expiring_cache.get_put [OF assms(1) this assms(8,9)] have "fst (ec_Get cache ?k (now w2) n1) = Some (names, now w1 + hour - now w2)"
    by (simp add: n1)
  then show ?thesis using assms(3,6,7)
    by (cases "ec_Get cache ?k (now w2) n1") (auto simp: getClientNames_def Let_def)
qed

end
