(* ===== verification/Upstreams.thy ===== *)
theory Upstreams
  imports Routing_Resolvers "HOL-Library.Multiset"
begin

text \<open>
  The upstream servers (resolver/upstream_resolver.go, parallel_best_resolver.go,
  strict_resolver.go and upstream_tree_resolver.go): the race between the two protocols of
  one server, the strategies that choose among the servers of a group, and the choice of
  the group by the client.

  The servers of a group are numbered; the state of a group is the list of the times of
  their last errors, beside the world. The random choice and the order in which concurrent
  queries finish are arguments.
\<close>

section \<open>Errors\<close>

text \<open>\<open>errors.Is(err, context.Canceled)\<close> and \<open>errors.As\<close> for the error of an upstream server, depth first.\<close>

fun is_Canceled :: "resolve_error \<Rightarrow> bool" where
  "is_Canceled Canceled = True"
| "is_Canceled (Wrapped _ err) = is_Canceled err"
| "is_Canceled (JoinedErrs errs) = list_ex is_Canceled errs"
| "is_Canceled _ = False"

fun first_Some :: "'a option list \<Rightarrow> 'a option" where
  "first_Some [] = None"
| "first_Some (x # xs) = (case x of None \<Rightarrow> first_Some xs | Some y \<Rightarrow> Some y)"

fun as_UpstreamServerError :: "resolve_error \<Rightarrow> Msg option" where
  "as_UpstreamServerError (UpstreamServerError m) = Some m"
| "as_UpstreamServerError (Wrapped _ err) = as_UpstreamServerError err"
| "as_UpstreamServerError (JoinedErrs errs) =
     first_Some (map as_UpstreamServerError errs)"
| "as_UpstreamServerError _ = None"

section \<open>The race between TCP and UDP\<close>

type_synonym exchangeResult = "RequestProtocol \<times> (resolve_error + Msg)"

text \<open>A server failure counts as an error that carries the message.\<close>

definition exchange_result :: "resolve_error + Msg \<Rightarrow> resolve_error + Msg" where
  "exchange_result r = (case r of
     Inr m \<Rightarrow> if m_Rcode m = RcodeServerFailure then Inl (UpstreamServerError m) else Inr m
   | Inl err \<Rightarrow> Inl err)"

definition complete :: "resolve_error + Msg \<Rightarrow> bool" where
  "complete r = (case r of Inr m \<Rightarrow> \<not> m_Truncated m | Inl _ \<Rightarrow> False)"

text \<open>The two results in the order in which they arrive, and the protocol of the client.\<close>

definition raceClients :: "exchangeResult \<Rightarrow> exchangeResult \<Rightarrow> RequestProtocol \<Rightarrow> resolve_error + Msg" where
  "raceClients res1 res2 protocol =
     (let r1 = exchange_result (snd res1); r2 = exchange_result (snd res2) in
      if complete r1 then r1
      else if complete r2 then r2
      else if isl r1 \<and> isl r2 then (if fst res1 = protocol then r1 else r2)
      else if \<not> isl r1 then r1 else r2)"

section \<open>A server of a group\<close>

record 'w upstream =
  u_name :: string
  u_resolver :: "'w resolver"

type_synonym 'w group_state = "int list \<times> 'w"

definition errorTime :: "int \<Rightarrow> nat \<Rightarrow> resolve_error \<Rightarrow> int list \<Rightarrow> int list" where
  "errorTime t i err errs = (if is_Canceled err then errs else errs[i := t])"

definition status_resolve :: "('w \<Rightarrow> int) \<Rightarrow> 'w upstream \<Rightarrow> nat \<Rightarrow> 'w group_state resolver" where
  "status_resolve now u i request s =
     (case u_resolver u request (snd s) of
        (Fail err, request', w') \<Rightarrow> (Fail (Wrapped (u_name u) err), request', errorTime (now w') i err (fst s), w')
      | (out, request', w') \<Rightarrow> (out, request', fst s, w'))"

text \<open>\<open>time.Unix(0, 0)\<close> for every server.\<close>

definition newUpstreamResolverStatuses :: "'w upstream list \<Rightarrow> int list" where
  "newUpstreamResolverStatuses rs = replicate (length rs) 0"

text \<open>The answer of a response is logged, which dereferences its message.\<close>

definition logged :: "Response outcome \<times> Request \<times> 'w \<Rightarrow> Response outcome \<times> Request \<times> 'w" where
  "logged r = (case r of (Ret resp, request, w) \<Rightarrow>
     ((if Res resp = None then Panic NilDereference else Ret resp), request, w) | other \<Rightarrow> other)"

section \<open>The strict strategy\<close>

fun strict_loop :: "('w \<Rightarrow> int) \<Rightarrow> nat \<Rightarrow> 'w upstream list \<Rightarrow> 'w group_state resolver" where
  "strict_loop now i [] request s =
     (Fail (OtherErr ''resolution was not successful, no resolver returned an answer in time''), request, s)"
| "strict_loop now i (u # us) request s =
     (case status_resolve now u i request s of
        (Fail _, request', s') \<Rightarrow> strict_loop now (i + 1) us request' s'
      | other \<Rightarrow> logged other)"

definition Strict_Resolve :: "('w \<Rightarrow> int) \<Rightarrow> 'w upstream list \<Rightarrow> 'w group_state resolver" where
  "Strict_Resolve now rs = strict_loop now 0 rs"

section \<open>The parallel and the random strategy\<close>

datatype UpstreamStrategy = UpstreamStrategyParallelBest | UpstreamStrategyStrict | UpstreamStrategyRandom

text \<open>
  \<open>math.Max(1, 60 - (60 - minutes))\<close> within an hour of the last error, cut to whole numbers,
  and 60 after it. Times are in nanoseconds.
\<close>

definition weight :: "int \<Rightarrow> int \<Rightarrow> nat" where
  "weight t lastErrorTime =
     (if t - lastErrorTime < 3600 * second then max 1 (nat ((t - lastErrorTime) div (60 * second))) else 60)"

definition choices :: "int \<Rightarrow> int list \<Rightarrow> nat list \<Rightarrow> (nat \<times> nat) list" where
  "choices t errs excluded = map (\<lambda>i. (i, weight t (errs ! i))) (filter (\<lambda>i. i \<notin> set excluded) [0..<length errs])"

text \<open>
  \<open>pick\<close> chooses one of the weighted choices. Without a choice the fallback divides by the
  number of choices.
\<close>

type_synonym 'w picker = "(nat \<times> nat) list \<Rightarrow> 'w \<Rightarrow> nat \<times> 'w"

definition weightedRandom :: "'w picker \<Rightarrow> ('w \<Rightarrow> int) \<Rightarrow> int list \<Rightarrow> nat list \<Rightarrow> 'w \<Rightarrow> (go_panic + nat) \<times> 'w" where
  "weightedRandom pick now errs excluded w =
     (let cs = choices (now w) errs excluded in
      if cs = [] then (Inl DivideByZero, w) else (case pick cs w of (i, w') \<Rightarrow> (Inr i, w')))"

fun pickRandom :: "'w picker \<Rightarrow> ('w \<Rightarrow> int) \<Rightarrow> int list \<Rightarrow> nat \<Rightarrow> nat list \<Rightarrow> 'w \<Rightarrow> (go_panic + nat list) \<times> 'w" where
  "pickRandom pick now errs 0 chosen w = (Inr chosen, w)"
| "pickRandom pick now errs (Suc n) chosen w =
     (case weightedRandom pick now errs chosen w of
        (Inl p, w') \<Rightarrow> (Inl p, w')
      | (Inr i, w') \<Rightarrow> pickRandom pick now errs n (chosen @ [i]) w')"

text \<open>
  What arrives on the channel: the results of the chosen servers in the order in which they
  finish. \<open>run\<close> asks the chosen servers concurrently.
\<close>

type_synonym arrival = "nat \<times> (resolve_error + Response)"
type_synonym 'w runner = "nat list \<Rightarrow> Request \<Rightarrow> 'w \<Rightarrow> arrival list \<times> Request \<times> 'w"

fun evaluateResponses :: "'w upstream list \<Rightarrow> arrival list \<Rightarrow> resolve_error list \<Rightarrow> resolve_error list + Response" where
  "evaluateResponses rs [] collectedErrors = Inl collectedErrors"
| "evaluateResponses rs ((i, Inl err) # as) collectedErrors =
     evaluateResponses rs as (collectedErrors @ [Wrapped (u_name (rs ! i)) (Wrapped (u_name (rs ! i)) err)])"
| "evaluateResponses rs ((i, Inr resp) # as) collectedErrors = Inr resp"

text \<open>The servers that failed before the first response have their error time set.\<close>

fun arrivalErrors :: "int \<Rightarrow> arrival list \<Rightarrow> int list \<Rightarrow> int list" where
  "arrivalErrors t [] errs = errs"
| "arrivalErrors t ((i, Inl err) # as) errs = arrivalErrors t as (errorTime t i err errs)"
| "arrivalErrors t ((i, Inr resp) # as) errs = errs"

definition resolverCount :: "UpstreamStrategy \<Rightarrow> nat" where
  "resolverCount st = (if st = UpstreamStrategyRandom then 1 else 2)"

definition retryWithDifferent ::
    "'w picker \<Rightarrow> ('w \<Rightarrow> int) \<Rightarrow> 'w upstream list \<Rightarrow> nat list \<Rightarrow> 'w group_state resolver" where
  "retryWithDifferent pick now rs resolvers request s =
     (case weightedRandom pick now (fst s) resolvers (snd s) of
        (Inl p, w') \<Rightarrow> (Panic p, request, fst s, w')
      | (Inr i, w') \<Rightarrow>
          (case status_resolve now (rs ! i) i request (fst s, w') of
             (Fail err, request', s') \<Rightarrow> (Fail (Wrapped ''resolution retry failed'' err), request', s')
           | other \<Rightarrow> logged other))"

definition ParallelBest_Resolve ::
    "'w picker \<Rightarrow> 'w runner \<Rightarrow> ('w \<Rightarrow> int) \<Rightarrow> UpstreamStrategy \<Rightarrow> 'w upstream list \<Rightarrow> 'w group_state resolver" where
  "ParallelBest_Resolve pick run now st rs request s =
     (if length rs = 1 then status_resolve now (rs ! 0) 0 request s
      else (case pickRandom pick now (fst s) (resolverCount st) [] (snd s) of
              (Inl p, w') \<Rightarrow> (Panic p, request, fst s, w')
            | (Inr resolvers, w') \<Rightarrow>
                (case run resolvers request w' of (arrivals, request', w'') \<Rightarrow>
                 let s' = (arrivalErrors (now w'') arrivals (fst s), w'') in
                 (case evaluateResponses rs arrivals [] of
                    Inr response \<Rightarrow> logged (Ret response, request', s')
                  | Inl collectedErrors \<Rightarrow>
                      if st \<noteq> UpstreamStrategyRandom
                      then (Fail (Wrapped ''resolution failed'' (JoinedErrs collectedErrors)), request', s')
                      else retryWithDifferent pick now rs resolvers request' s'))))"

section \<open>The choice of a group\<close>

definition upstreamDefaultCfgName :: string where "upstreamDefaultCfgName = ''default''"

text \<open>The branches in iteration order.\<close>

definition upstreamGroupByClient :: "(string \<times> 'r) list \<Rightarrow> Request \<Rightarrow> string" where
  "upstreamGroupByClient branches request =
     (let clientIP = IP_String (ClientIP request) in
      if map_of branches clientIP \<noteq> None then clientIP
      else
        let byName = concat (map (\<lambda>name. filter (\<lambda>g. ClientNameMatchesGroupName g name) (map fst branches)) (ClientNames request));
            grps = (if byName = [] then filter (\<lambda>cidr. CidrContainsIP cidr (ClientIP request)) (map fst branches) else byName)
        in (case grps of g # _ \<Rightarrow> g | [] \<Rightarrow> upstreamDefaultCfgName))"

definition UpstreamTree_Resolve :: "(string \<times> 'w resolver) list \<Rightarrow> 'w resolver" where
  "UpstreamTree_Resolve branches request w =
     (case map_of branches (upstreamGroupByClient branches request) of
        None \<Rightarrow> (Panic NilDereference, request, w)
      | Some r \<Rightarrow> r request w)"

text \<open>
  The branches are created from the configured groups; \<open>create\<close> makes the resolver of one
  group. With one branch, its resolver is used directly.
\<close>

definition NewUpstreamTreeResolver ::
    "(string \<times> 'u list) list \<Rightarrow> (string \<Rightarrow> 'u list \<Rightarrow> resolve_error + 'w resolver) \<Rightarrow> resolve_error + 'w resolver" where
  "NewUpstreamTreeResolver groups create =
     (case map_of groups upstreamDefaultCfgName of
        None \<Rightarrow> Inl (OtherErr ''no external DNS resolvers configured'')
      | Some ups \<Rightarrow>
          if length ups = 0 then Inl (OtherErr ''no external DNS resolvers configured'')
          else
            let made = map (\<lambda>(g, us). (g, create g us)) groups;
                errs = List.map_filter (\<lambda>(g, r). case r of Inl e \<Rightarrow> Some (Wrapped g e) | Inr _ \<Rightarrow> None) made;
                branches = List.map_filter (\<lambda>(g, r). case r of Inl _ \<Rightarrow> None | Inr x \<Rightarrow> Some (g, x)) made
            in if length errs \<noteq> 0 then Inl (JoinedErrs errs)
               else (case branches of [(g, x)] \<Rightarrow> Inr x | _ \<Rightarrow> Inr (UpstreamTree_Resolve branches)))"

section \<open>Facts about the race\<close>

text \<open>
  A complete answer of either protocol wins over a truncated one, a truncated one over an
  error, and of two errors the one of the client's protocol is reported.
\<close>

lemma raceClients_spec:
  assumes "fst res1 \<noteq> fst res2"
  defines "r1 \<equiv> exchange_result (snd res1)" and "r2 \<equiv> exchange_result (snd res2)"
  shows "complete (raceClients res1 res2 p) \<longleftrightarrow> complete r1 \<or> complete r2"
    and "isl (raceClients res1 res2 p) \<longleftrightarrow> isl r1 \<and> isl r2"
    and "isl r1 \<Longrightarrow> isl r2 \<Longrightarrow> raceClients res1 res2 p = (if fst res1 = p then r1 else r2)"
  unfolding r1_def r2_def
  by (auto simp: raceClients_def Let_def complete_def split: sum.splits if_splits)

section \<open>Facts about the choice of servers\<close>

lemma weight_bounds: "1 \<le> weight t e" "weight t e \<le> 60"
proof -
  have "(t - e) div (60 * second) \<le> 60" if "t - e < 3600 * second"
    using that by (simp add: second_def)
  then show "1 \<le> weight t e" "weight t e \<le> 60" by (auto simp: weight_def)
qed

lemma choices_fst: "fst ` set (choices t errs excluded) = {..<length errs} - set excluded"
  by (auto simp: choices_def image_iff)

text \<open>What the random choice promises: it takes one of the choices.\<close>

definition picker_ok :: "'w picker \<Rightarrow> bool" where
  "picker_ok pick \<longleftrightarrow> (\<forall>cs w. cs \<noteq> [] \<longrightarrow> fst (pick cs w) \<in> fst ` set cs)"

lemma weightedRandom_fresh:
  assumes "picker_ok pick" and "\<not> {..<length errs} \<subseteq> set excluded"
  shows "\<exists>i w'. weightedRandom pick now errs excluded w = (Inr i, w') \<and> i < length errs \<and> i \<notin> set excluded"
proof -
  let ?cs = "choices (now w) errs excluded"
  have ne: "?cs \<noteq> []" using assms(2) choices_fst [of "now w" errs excluded] by auto
  then have "fst (pick ?cs w) \<in> {..<length errs} - set excluded"
    using assms(1) unfolding picker_ok_def choices_fst [of "now w" errs excluded, symmetric] by blast
  then show ?thesis using ne by (cases "pick ?cs w") (simp add: weightedRandom_def Let_def)
qed

lemma pickRandom_distinct:
  assumes "picker_ok pick" and "distinct chosen" and "set chosen \<subseteq> {..<length errs}"
    and "length chosen + n \<le> length errs"
  shows "\<exists>is w'. pickRandom pick now errs n chosen w = (Inr is, w') \<and> distinct is \<and> set is \<subseteq> {..<length errs} \<and>
    length is = length chosen + n"
  using assms
proof (induction n arbitrary: chosen w)
  case (Suc n)
  have "card (set chosen) < card {..<length errs}" using Suc.prems distinct_card [of chosen] by simp
  then have "\<not> {..<length errs} \<subseteq> set chosen" using card_mono [of "set chosen" "{..<length errs}"] by auto
  from weightedRandom_fresh [OF Suc.prems(1) this, of now w] obtain i w' where
    i: "weightedRandom pick now errs chosen w = (Inr i, w')" "i < length errs" "i \<notin> set chosen" by blast
  with Suc.IH [of "chosen @ [i]" w'] Suc.prems show ?case by simp
qed simp

lemma evaluateResponses_Inr:
  "evaluateResponses rs as errs = Inr resp \<longleftrightarrow> (\<exists>bs i cs. as = bs @ (i, Inr resp) # cs \<and> (\<forall>a\<in>set bs. isl (snd a)))"
proof (induction rs as errs rule: evaluateResponses.induct)
  case (2 rs i err as errs)
  have "(\<exists>bs j cs. (i, Inl err) # as = bs @ (j, Inr resp) # cs \<and> (\<forall>a\<in>set bs. isl (snd a))) \<longleftrightarrow>
      (\<exists>bs j cs. as = bs @ (j, Inr resp) # cs \<and> (\<forall>a\<in>set bs. isl (snd a)))" (is "?l \<longleftrightarrow> ?r")
  proof
    assume ?l
    then show ?r by (fastforce simp: Cons_eq_append_conv)
  next
    assume ?r
    then obtain bs j cs where "as = bs @ (j, Inr resp) # cs" "\<forall>a\<in>set bs. isl (snd a)" by blast
    then show ?l by (intro exI [of _ "(i, Inl err) # bs"] exI [of _ j] exI [of _ cs]) simp
  qed
  then show ?case using 2 by simp
next
  case (3 rs i resp' as errs)
  show ?case by (auto simp: Cons_eq_append_conv intro: exI [of _ "[]"])
qed simp

lemma evaluateResponses_Inl:
  "evaluateResponses rs as errs = Inl es \<Longrightarrow> \<forall>a\<in>set as. isl (snd a)"
  by (induction rs as errs rule: evaluateResponses.induct) auto

text \<open>What the channel delivers: one result of every server that was asked.\<close>

definition runner_ok :: "'w runner \<Rightarrow> bool" where
  "runner_ok run \<longleftrightarrow> (\<forall>is rq w. mset (map fst (fst (run is rq w))) = mset is)"

lemma runner_ok_set: "runner_ok run \<Longrightarrow> run is rq w = (as, rq', w') \<Longrightarrow> fst ` set as = set is"
  unfolding runner_ok_def by (metis fst_conv set_map set_mset_mset)

lemma length_arrivalErrors [simp]: "length (arrivalErrors t as errs) = length errs"
  by (induction t as errs rule: arrivalErrors.induct) (auto simp: errorTime_def)

lemma retryWithDifferent_spec:
  assumes "picker_ok pick" and "\<not> {..<length errs} \<subseteq> set is"
  shows "\<exists>j w2. j < length errs \<and> j \<notin> set is \<and>
    (\<forall>resp request' s. status_resolve now (rs ! j) j request (errs, w2) = (Ret resp, request', s) \<and> Res resp \<noteq> None \<longrightarrow>
       retryWithDifferent pick now rs is request (errs, w) = (Ret resp, request', s))"
proof -
  from weightedRandom_fresh [OF assms, of now w] obtain j w2 where
    "weightedRandom pick now errs is w = (Inr j, w2)" "j < length errs" "j \<notin> set is" by blast
  then show ?thesis by (intro exI [of _ j] exI [of _ w2]) (auto simp: retryWithDifferent_def logged_def)
qed

section \<open>Facts about the choice of a group\<close>

text \<open>With a default group, the chosen group always exists, so the tree never dereferences a missing one.\<close>

lemma upstreamGroupByClient_branch:
  assumes "map_of branches upstreamDefaultCfgName \<noteq> None"
  shows "\<exists>r. map_of branches (upstreamGroupByClient branches request) = Some r"
proof -
  define byName where "byName = concat (map (\<lambda>name. filter (\<lambda>g. ClientNameMatchesGroupName g name) (map fst branches)) (ClientNames request))"
  define grps where "grps = (if byName = [] then filter (\<lambda>cidr. CidrContainsIP cidr (ClientIP request)) (map fst branches) else byName)"
  let ?ip = "IP_String (ClientIP request)"
  have eq: "upstreamGroupByClient branches request =
      (if map_of branches ?ip \<noteq> None then ?ip else case grps of g # _ \<Rightarrow> g | [] \<Rightarrow> upstreamDefaultCfgName)"
    by (simp add: upstreamGroupByClient_def Let_def byName_def grps_def)
  have "set grps \<subseteq> fst ` set branches" by (auto simp: grps_def byName_def)
  then have "map_of branches g \<noteq> None" if "g \<in> set grps" for g using that by (auto simp: map_of_eq_None_iff)
  then show ?thesis using assms unfolding eq by (cases grps) auto
qed

lemma UpstreamTree_Resolve_branch:
  assumes "map_of branches upstreamDefaultCfgName \<noteq> None"
  shows "\<exists>r \<in> snd ` set branches. UpstreamTree_Resolve branches request w = r request w"
proof -
  obtain r where r: "map_of branches (upstreamGroupByClient branches request) = Some r"
    using upstreamGroupByClient_branch [OF assms] by blast
  then have "r \<in> snd ` set branches" by (force dest: map_of_SomeD)
  then show ?thesis using r by (auto simp: UpstreamTree_Resolve_def)
qed

section \<open>Facts about the strict strategy\<close>

text \<open>A server that cannot be reached: it fails and changes nothing.\<close>

definition dead :: "resolve_error \<Rightarrow> 'w upstream \<Rightarrow> bool" where
  "dead err u \<longleftrightarrow> (\<forall>request w. u_resolver u request w = (Fail err, request, w))"

lemma strict_loop_dead:
  assumes "list_all (dead err) us" and "i + length us \<le> length errs"
  shows "strict_loop now i (us @ vs) request (errs, w) =
    strict_loop now (i + length us) vs request
      (if is_Canceled err then errs else take i errs @ replicate (length us) (now w) @ drop (i + length us) errs, w)"
  using assms
proof (induction us arbitrary: i errs)
  case (Cons u us)
  have d: "u_resolver u request w = (Fail err, request, w)" using Cons.prems(1) by (simp add: dead_def)
  let ?errs = "errorTime (now w) i err errs"
  have "strict_loop now (i + 1) (us @ vs) request (?errs, w) = strict_loop now (i + 1 + length us) vs request
      (if is_Canceled err then ?errs else take (i + 1) ?errs @ replicate (length us) (now w) @ drop (i + 1 + length us) ?errs, w)"
    using Cons.prems by (intro Cons.IH) (simp_all add: errorTime_def)
  moreover have "take (i + 1) (errs[i := now w]) = take i errs @ [now w]"
    using Cons.prems(2) by (simp add: take_Suc_conv_app_nth)
  ultimately show ?case using d by (simp add: status_resolve_def errorTime_def)
qed simp

text \<open>Every server that is asked answers, in the order in which they were chosen.\<close>

definition example_run :: "int runner" where
  "example_run is rq w = (map (\<lambda>i. (i, Inr \<lparr>Res = Some new_Msg, Reason = [], RType = ResponseTypeRESOLVED\<rparr>)) is, rq, w)"

section \<open>Properties\<close>

text \<open>
  C29. The servers that are asked. With the strategies \<open>parallel_best\<close> and \<open>random\<close>, for a
  group of at least two servers, a query goes to two or one different servers of the group.
  The response is the one that arrives first and is not an error. If all that were asked
  failed, the first strategy fails, and the second one asks a server it has not asked yet and
  returns its response.
\<close>

theorem upstream_first_answer_wins:
  assumes "picker_ok pick" and "runner_ok run" and "2 \<le> length rs" and "length errs = length rs"
    and "st \<noteq> UpstreamStrategyStrict"
    and "result = ParallelBest_Resolve pick run now st rs request (errs, w)"
  shows "\<exists>is w1 as request' w'. distinct is \<and> set is \<subseteq> {..<length rs} \<and>
    length is = (if st = UpstreamStrategyRandom then 1 else 2) \<and> run is request w1 = (as, request', w') \<and>
    ((\<exists>bs i resp cs. as = bs @ (i, Inr resp) # cs \<and> (\<forall>a\<in>set bs. isl (snd a)) \<and> i \<in> set is \<and>
        (Res resp \<noteq> None \<longrightarrow> fst result = Ret resp)) \<or>
     (\<forall>i\<in>set is. \<exists>err. (i, Inl err) \<in> set as) \<and>
       (st = UpstreamStrategyParallelBest \<longrightarrow> (\<exists>err. fst result = Fail err)) \<and>
       (st = UpstreamStrategyRandom \<longrightarrow> (\<exists>j errs' w2. j < length rs \<and> j \<notin> set is \<and>
          (\<forall>resp request'' s. status_resolve now (rs ! j) j request' (errs', w2) = (Ret resp, request'', s) \<and>
             Res resp \<noteq> None \<longrightarrow> result = (Ret resp, request'', s)))))"
proof -
  have n: "length [] + resolverCount st \<le> length errs" using assms(3,4) by (simp add: resolverCount_def)
  from pickRandom_distinct [OF assms(1) _ _ n, of now w] obtain "is" w1 where
    p: "pickRandom pick now errs (resolverCount st) [] w = (Inr is, w1)" and d: "distinct is" "set is \<subseteq> {..<length rs}"
      "length is = (if st = UpstreamStrategyRandom then 1 else 2)"
    using assms(4) by (auto simp: resolverCount_def)
  obtain as request' w' where r: "run is request w1 = (as, request', w')" by (cases "run is request w1") auto
  let ?s = "(arrivalErrors (now w') as errs, w')"
  note res = p r assms(3)
  show ?thesis
  proof (cases "evaluateResponses rs as []")
    case (Inr resp)
    then obtain bs i cs where a: "as = bs @ (i, Inr resp) # cs" "\<forall>a\<in>set bs. isl (snd a)"
      using evaluateResponses_Inr by metis
    have "i \<in> set is" using runner_ok_set [OF assms(2) r] a(1) by force
    moreover have "Res resp \<noteq> None \<longrightarrow> fst result = Ret resp"
      using res Inr by (auto simp: assms(6) ParallelBest_Resolve_def Let_def logged_def)
    ultimately show ?thesis using d r a by blast
  next
    case (Inl es)
    have all: "\<forall>i\<in>set is. \<exists>err. (i, Inl err) \<in> set as"
      using evaluateResponses_Inl [OF Inl] runner_ok_set [OF assms(2) r] by (force simp: isl_def)
    have "st = UpstreamStrategyParallelBest \<longrightarrow> (\<exists>err. fst result = Fail err)"
      using res Inl by (auto simp: assms(6) ParallelBest_Resolve_def Let_def)
    moreover have "\<exists>j errs' w2. j < length rs \<and> j \<notin> set is \<and>
          (\<forall>resp request'' s. status_resolve now (rs ! j) j request' (errs', w2) = (Ret resp, request'', s) \<and>
             Res resp \<noteq> None \<longrightarrow> result = (Ret resp, request'', s))" if st: "st = UpstreamStrategyRandom"
    proof -
      have "card (set is) < card {..<length errs}" using d st assms(3,4) distinct_card [of "is"] by simp
      then have "\<not> {..<length errs} \<subseteq> set is" using card_mono [of "set is" "{..<length errs}"] by auto
      then have "\<not> {..<length (fst ?s)} \<subseteq> set is" by simp
      from retryWithDifferent_spec [OF assms(1) this, of now rs request' w'] show ?thesis
        using res Inl st assms(4) by (auto simp: assms(6) ParallelBest_Resolve_def Let_def)
    qed
    ultimately show ?thesis using d r all by blast
  qed
qed

theorem upstream_first_answer_wins_witness:
  "\<exists>is w1 as request' w'. distinct is \<and> set is \<subseteq> {..<2 :: nat} \<and> length is = 2 \<and>
     example_run is (newRequest example_lib ''a.'' TypeA) w1 = (as, request', w') \<and>
     (\<exists>i resp cs. as = (i, Inr resp) # cs \<and>
       fst (ParallelBest_Resolve (\<lambda>cs w. (fst (last cs), w)) example_run (\<lambda>w. w) UpstreamStrategyParallelBest
         [\<lparr>u_name = ''a'', u_resolver = NoOp_Resolve\<rparr>, \<lparr>u_name = ''b'', u_resolver = NoOp_Resolve\<rparr>]
         (newRequest example_lib ''a.'' TypeA) ([0, 0], 0)) = Ret resp)"
proof -
  let ?rs = "[\<lparr>u_name = ''a'', u_resolver = NoOp_Resolve :: int resolver\<rparr>, \<lparr>u_name = ''b'', u_resolver = NoOp_Resolve\<rparr>]"
  let ?rq = "newRequest example_lib ''a.'' TypeA" and ?pick = "\<lambda>cs w :: int. (fst (last cs), w)"
  have pick: "picker_ok ?pick" by (auto simp: picker_ok_def)
  have run: "runner_ok example_run" by (simp add: runner_ok_def example_run_def comp_def)
  from upstream_first_answer_wins [OF pick run, of ?rs "[0, 0]" UpstreamStrategyParallelBest _ "\<lambda>w. w" ?rq 0]
  obtain "is" w1 as request' w' where o: "distinct is" "set is \<subseteq> {..<2 :: nat}" "length is = 2"
    "example_run is ?rq w1 = (as, request', w')"
    "(\<exists>bs i resp cs. as = bs @ (i, Inr resp) # cs \<and> (\<forall>a\<in>set bs. isl (snd a)) \<and> (Res resp \<noteq> None \<longrightarrow>
       fst (ParallelBest_Resolve ?pick example_run (\<lambda>w. w) UpstreamStrategyParallelBest ?rs ?rq ([0, 0], 0)) = Ret resp)) \<or>
     (\<forall>i\<in>set is. \<exists>err. (i, Inl err) \<in> set as)"
    by (simp add: numeral_2_eq_2) blast
  have as: "as = map (\<lambda>i. (i, Inr \<lparr>Res = Some new_Msg, Reason = [], RType = ResponseTypeRESOLVED\<rparr>)) is"
    using o(4) by (simp add: example_run_def)
  obtain i j where ij: "is = [i, j]" using o(3) by (auto simp: length_Suc_conv numeral_2_eq_2)
  have "\<exists>i resp cs. as = (i, Inr resp) # cs \<and>
      fst (ParallelBest_Resolve ?pick example_run (\<lambda>w. w) UpstreamStrategyParallelBest ?rs ?rq ([0, 0], 0)) = Ret resp"
    using o(5) by (auto simp: as ij Cons_eq_append_conv)
  then show ?thesis using o(1-4) by blast
qed

text \<open>
  The strict order. With the strategy \<open>strict\<close> the servers are asked in the configured
  order: if those before a server are unreachable, the client gets the response of that
  server, the servers behind it are not asked, and the time of the error is noted for exactly
  the unreachable ones (unless the query was cancelled). If all are unreachable the query
  fails.
\<close>

theorem strict_order:
  assumes "list_all (dead err) us" and "\<not> is_Canceled err" and "length errs = length us + length vs"
    and "vs = [] \<or> (\<exists>request' w'. u_resolver (hd vs) request w = (Ret resp, request', w') \<and> Res resp \<noteq> None)"
  shows "Strict_Resolve now (us @ vs) request (errs, w) =
    (let noted = replicate (length us) (now w) @ drop (length us) errs in
     case vs of
       [] \<Rightarrow> (Fail (OtherErr ''resolution was not successful, no resolver returned an answer in time''), request, noted, w)
     | v # _ \<Rightarrow> (case u_resolver v request w of (out, request', w') \<Rightarrow> (out, request', noted, w')))"
  using strict_loop_dead [OF assms(1), of 0 errs now vs request w] assms(2-4)
  by (cases vs) (auto simp: Strict_Resolve_def status_resolve_def logged_def Let_def)

theorem strict_order_witness:
  "Strict_Resolve (\<lambda>w. w) ([\<lparr>u_name = ''a'', u_resolver = \<lambda>rq w. (Fail CtxDeadline, rq, w)\<rparr>] @ [\<lparr>u_name = ''b'',
      u_resolver = \<lambda>rq w. (Ret \<lparr>Res = Some new_Msg, Reason = [], RType = ResponseTypeRESOLVED\<rparr>, rq, w + 1)\<rparr>])
      (newRequest example_lib ''a.'' TypeA) ([0, 0], 5) =
   (Ret \<lparr>Res = Some new_Msg, Reason = [], RType = ResponseTypeRESOLVED\<rparr>, newRequest example_lib ''a.'' TypeA, [5, 0], 6)"
  by (subst strict_order [of CtxDeadline _ "[0, 0]" _ _ _ "\<lparr>Res = Some new_Msg, Reason = [], RType = ResponseTypeRESOLVED\<rparr>"])
    (simp_all add: dead_def)

end
