(* ===== verification/Hosts_File.thy ===== *)
theory Hosts_File
  imports List_Cache Simple_Resolvers
begin

text \<open>
  The hosts file resolver (resolver/hosts_file_resolver.go): loading the entries of the
  configured files, and answering address and reverse queries from them. A Go map is an
  association list in iteration order; the producers of package \<open>parcour\<close> are an argument as
  for the list cache.
\<close>

section \<open>Data\<close>

record hostData =
  hd_IP :: IP
  hd_Aliases :: "string list"

record hostsFileData =
  hosts :: "(string \<times> hostData) list"
  hf_aliases :: "(string \<times> IP) list"

record splitHostsFileData =
  v4 :: hostsFileData
  v6 :: hostsFileData

record HostsFile_cfg =
  HostsTTL :: duration
  FilterLoopback :: bool
  Sources :: "BytesSource list"
  MaxErrorsPerSource :: int

definition newHostsData :: hostsFileData where
  "newHostsData = \<lparr>hosts = [], hf_aliases = []\<rparr>"

definition newSplitHostsData :: splitHostsFileData where
  "newSplitHostsData = \<lparr>v4 = newHostsData, v6 = newHostsData\<rparr>"

definition data_getIP :: "hostsFileData \<Rightarrow> string \<Rightarrow> IP option" where
  "data_getIP d hostname = (case map_of (hosts d) hostname of
     Some h \<Rightarrow> Some (hd_IP h) | None \<Rightarrow> map_of (hf_aliases d) hostname)"

definition data_add :: "HostsFileEntry \<Rightarrow> hostsFileData \<Rightarrow> hostsFileData" where
  "data_add entry d =
     \<lparr>hosts = upd_assoc (hf_Name entry) \<lparr>hd_IP = hf_IP entry, hd_Aliases = hf_Aliases entry\<rparr> (hosts d),
      hf_aliases = fold (\<lambda>alias m. upd_assoc alias (hf_IP entry) m) (hf_Aliases entry) (hf_aliases d)\<rparr>"

definition split_add :: "HostsFileEntry \<Rightarrow> splitHostsFileData \<Rightarrow> splitHostsFileData" where
  "split_add entry d = (if To4 (hf_IP entry) \<noteq> [] then d\<lparr>v4 := data_add entry (v4 d)\<rparr> else d\<lparr>v6 := data_add entry (v6 d)\<rparr>)"

definition split_getIP :: "splitHostsFileData \<Rightarrow> uint16 \<Rightarrow> string \<Rightarrow> IP option" where
  "split_getIP d qType domain =
     (if qType = TypeA then data_getIP (v4 d) domain
      else if qType = TypeAAAA then data_getIP (v6 d) domain else None)"

section \<open>Loading\<close>

text \<open>Entries for one network interface, and loopback entries if so configured, are left out.\<close>

definition wanted_entry :: "bool \<Rightarrow> HostsFileEntry \<Rightarrow> bool" where
  "wanted_entry filterLoopback entry \<longleftrightarrow>
     hf_Interface entry = [] \<and> \<not> (filterLoopback \<and> (IsLoopback (hf_IP entry) \<or> hf_Name entry = ''localhost''))"

definition hosts_parseFile ::
    "HostsFile_cfg \<Rightarrow> source_env \<Rightarrow> string option list \<Rightarrow> SourceOpener \<Rightarrow> (HostsFileEntry list \<times> load_error option) option" where
  "hosts_parseFile cfg env ctx opener =
     (case opener_Open env opener of
        Inl err \<Rightarrow> Some ([], Some err)
      | Inr (content, readErr) \<Rightarrow>
          map_option (\<lambda>(err, s, sent). (sent, map_option ParseErr err))
            (ForEach (AllowErrors HostsFile (MaxErrorsPerSource cfg))
               (\<lambda>entry sent. (None, if wanted_entry (FilterLoopback cfg) entry then sent @ [entry] else sent))
               (newLines content readErr ctx, 0) []))"

fun hosts_produceAll ::
    "HostsFile_cfg \<Rightarrow> source_env \<Rightarrow> (nat \<Rightarrow> string option list) \<Rightarrow> nat \<Rightarrow> BytesSource list \<Rightarrow>
     (HostsFileEntry list \<times> load_error option) list option" where
  "hosts_produceAll cfg env ctx i [] = Some []"
| "hosts_produceAll cfg env ctx i (source # sources) =
     Option.bind
       (case NewSourceOpener (''item #'' @ showNat i) source of
          Inl err \<Rightarrow> Some ([], Some err)
        | Inr opener \<Rightarrow> hosts_parseFile cfg env (ctx i) opener)
       (\<lambda>r. map_option (Cons r) (hosts_produceAll cfg env ctx (i + 1) sources))"

type_synonym hosts_producers = "(HostsFileEntry list \<times> load_error option) list \<Rightarrow> HostsFileEntry list \<times> load_error option"

text \<open>After an error the old entries stay.\<close>

definition loadSources ::
    "hosts_producers \<Rightarrow> source_env \<Rightarrow> (nat \<Rightarrow> string option list) \<Rightarrow> HostsFile_cfg \<Rightarrow> splitHostsFileData \<Rightarrow>
     (load_error option \<times> splitHostsFileData) option" where
  "loadSources run env ctx cfg old =
     (if Sources cfg = [] then Some (None, old)
      else map_option (\<lambda>results.
        case run results of (received, err) \<Rightarrow>
          (case err of Some e \<Rightarrow> (Some e, old) | None \<Rightarrow> (None, fold split_add received newSplitHostsData)))
        (hosts_produceAll cfg env ctx 0 (Sources cfg)))"

section \<open>Resolving\<close>

definition ptr_answers :: "dnslib \<Rightarrow> HostsFile_cfg \<Rightarrow> Question \<Rightarrow> string \<Rightarrow> hostData \<Rightarrow> RR list" where
  "ptr_answers lib cfg question host h =
     map (\<lambda>n. RR_PTR (CreateHeader question (SecondsU32 (HostsTTL cfg))) (lib_Fqdn lib n)) (host # hd_Aliases h)"

definition hosts_handleReverseDNS :: "dnslib \<Rightarrow> HostsFile_cfg \<Rightarrow> splitHostsFileData \<Rightarrow> Request \<Rightarrow> Question \<Rightarrow> Response option" where
  "hosts_handleReverseDNS lib cfg d request question =
     (if q_Type question \<noteq> TypePTR then None
      else (case ParseIPFromArpaAddr (q_Name question) of
              Inl _ \<Rightarrow> None
            | Inr questionIP \<Rightarrow>
                if FilterLoopback cfg \<and> IsLoopback questionIP then None
                else
                  let hostsData = (if To4 questionIP = [] then v6 d else v4 d) in
                  (case find (\<lambda>(host, h). IP_Equal (hd_IP h) questionIP) (hosts hostsData) of
                     None \<Rightarrow> None
                   | Some (host, h) \<Rightarrow>
                       Some \<lparr>Res = Some (let r = lib_SetReply lib new_Msg (Req request) in
                                r\<lparr>m_Answer := m_Answer r @ ptr_answers lib cfg question host h\<rparr>),
                             Reason = ''HOSTS FILE'', RType = ResponseTypeHOSTSFILE\<rparr>)))"

text \<open>The address is of the kind the question asks for, so the answer can always be made.\<close>

definition hosts_resolve :: "dnslib \<Rightarrow> HostsFile_cfg \<Rightarrow> splitHostsFileData \<Rightarrow> Msg \<Rightarrow> Question \<Rightarrow> string \<Rightarrow> Msg option" where
  "hosts_resolve lib cfg d req question domain =
     (case split_getIP d (q_Type question) domain of
        None \<Rightarrow> None
      | Some ip \<Rightarrow>
          map_option (\<lambda>rr. (lib_SetReply lib new_Msg req)\<lparr>m_Answer := [rr]\<rparr>)
            (CreateAnswerFromQuestion lib question ip (SecondsU32 (HostsTTL cfg))))"

definition HostsFile_Resolve :: "dnslib \<Rightarrow> HostsFile_cfg \<Rightarrow> splitHostsFileData \<Rightarrow> 'w resolver \<Rightarrow> 'w resolver" where
  "HostsFile_Resolve lib cfg d next request w =
     (if Sources cfg = [] then next request w
      else (case m_Question (Req request) of
              [] \<Rightarrow> (Panic IndexOutOfRange, request, w)
            | question # _ \<Rightarrow>
                (case hosts_handleReverseDNS lib cfg d request question of
                   Some reverseResp \<Rightarrow> (Ret reverseResp, request, w)
                 | None \<Rightarrow>
                     (case hosts_resolve lib cfg d (Req request) question (ExtractDomain question) of
                        Some response \<Rightarrow>
                          (Ret \<lparr>Res = Some response, Reason = ''HOSTS FILE'', RType = ResponseTypeHOSTSFILE\<rparr>, request, w)
                      | None \<Rightarrow> next request w))))"

section \<open>Facts\<close>

lemma fold_aliases: "map_of (fold (\<lambda>alias m. upd_assoc alias ip m) as m) n = (if n \<in> set as then Some ip else map_of m n)"
  by (induction as arbitrary: m) auto

lemma data_getIP_add:
  "map_of (hosts (data_add e d)) n = (if n = hf_Name e then Some \<lparr>hd_IP = hf_IP e, hd_Aliases = hf_Aliases e\<rparr> else map_of (hosts d) n)"
  "map_of (hf_aliases (data_add e d)) n = (if n \<in> set (hf_Aliases e) then Some (hf_IP e) else map_of (hf_aliases d) n)"
  by (simp_all add: data_add_def fold_aliases)

text \<open>What the entries say about a name: the last line that starts with it, else the last that has it as an alias.\<close>

definition entries_IP :: "HostsFileEntry list \<Rightarrow> string \<Rightarrow> IP option" where
  "entries_IP es n =
     (case find (\<lambda>e. hf_Name e = n) (rev es) of
        Some e \<Rightarrow> Some (hf_IP e)
      | None \<Rightarrow> map_option hf_IP (find (\<lambda>e. n \<in> set (hf_Aliases e)) (rev es)))"

lemma find_append: "find P (xs @ ys) = (case find P xs of None \<Rightarrow> find P ys | Some x \<Rightarrow> Some x)"
  by (induction xs) auto

lemma data_after:
  fixes es :: "HostsFileEntry list"
  defines "d \<equiv> fold data_add es newHostsData"
  shows "map_of (hosts d) n =
      map_option (\<lambda>e. \<lparr>hd_IP = hf_IP e, hd_Aliases = hf_Aliases e\<rparr>) (find (\<lambda>e. hf_Name e = n) (rev es))"
    and "map_of (hf_aliases d) n = map_option hf_IP (find (\<lambda>e. n \<in> set (hf_Aliases e)) (rev es))"
  unfolding d_def
  by (induction es rule: rev_induct) (auto simp: newHostsData_def data_getIP_add)

lemma data_getIP_entries: "data_getIP (fold data_add es newHostsData) n = entries_IP es n"
  by (auto simp: data_getIP_def data_after entries_IP_def split: option.splits)

lemma split_add_fold:
  "fold split_add es d = \<lparr>v4 = fold data_add (filter (\<lambda>e. To4 (hf_IP e) \<noteq> []) es) (v4 d),
     v6 = fold data_add (filter (\<lambda>e. To4 (hf_IP e) = []) es) (v6 d)\<rparr>"
  by (induction es arbitrary: d) (auto simp: split_add_def)

lemma split_getIP_entries:
  "split_getIP (fold split_add es newSplitHostsData) TypeA n = entries_IP (filter (\<lambda>e. To4 (hf_IP e) \<noteq> []) es) n"
  "split_getIP (fold split_add es newSplitHostsData) TypeAAAA n = entries_IP (filter (\<lambda>e. To4 (hf_IP e) = []) es) n"
  by (simp_all add: split_getIP_def split_add_fold newSplitHostsData_def data_getIP_entries TypeA_def TypeAAAA_def)

lemma hosts_produceAll_returns: "\<exists>results. hosts_produceAll cfg env ctx i sources = Some results"
proof (induction sources arbitrary: i)
  case (Cons source sources)
  have "\<exists>r. hosts_parseFile cfg env (ctx i) opener = Some r" for opener
    using hostsfile_allow.ForEach_returns [of "MaxErrorsPerSource cfg"]
    by (fastforce simp: hosts_parseFile_def split: sum.splits)
  then have "\<exists>r. (case NewSourceOpener (''item #'' @ showNat i) source of
        Inl err \<Rightarrow> Some ([], Some err) | Inr opener \<Rightarrow> hosts_parseFile cfg env (ctx i) opener) = Some r"
    by (cases "NewSourceOpener (''item #'' @ showNat i) source") auto
  with Cons [of "i + 1"] show ?case by auto
qed simp

text \<open>
  The entries of a text: the lines that are entries. A text is readable if its invalid lines
  stay within the limit.
\<close>

definition hosts_items :: "string \<Rightarrow> (parse_error + HostsFileEntry) list" where
  "hosts_items content = map HostsFileEntry_UnmarshalText (texts (fst (scanLines content None)))"

definition readable_hosts :: "HostsFile_cfg \<Rightarrow> BytesSource \<Rightarrow> bool" where
  "readable_hosts cfg source \<longleftrightarrow> bs_Type source = BytesSourceTypeText \<and>
     within_limit (MaxErrorsPerSource cfg) (hosts_items (bs_From source)) \<and>
     end_error (newLines (bs_From source) None []) = None"

definition wanted_entries :: "HostsFile_cfg \<Rightarrow> BytesSource \<Rightarrow> HostsFileEntry list" where
  "wanted_entries cfg source = filter (wanted_entry (FilterLoopback cfg)) (oks (hosts_items (bs_From source)))"

lemma fold_filter_append: "fold (\<lambda>x acc. if P x then acc @ [x] else acc) xs acc = acc @ filter P xs"
  by (induction xs arbitrary: acc) auto

lemma hosts_parseFile_text:
  assumes "readable_hosts cfg source"
  shows "hosts_parseFile cfg env [] (textOpener source loc) = Some (wanted_entries cfg source, None)"
proof -
  let ?items = "hosts_items (bs_From source)"
  have "collect (MaxErrorsPerSource cfg) 0 (map HostsFileEntry_UnmarshalText (texts (fst (scanLines (bs_From source) None)))) =
      (oks ?items, False)"
    using assms collect_within_limit by (auto simp: readable_hosts_def hosts_items_def)
  from allow_ForEach_collect [OF hostsFile_resumable this,
      of "\<lambda>entry sent. if wanted_entry (FilterLoopback cfg) entry then sent @ [entry] else sent" None "[]"] assms
  show ?thesis
    by (auto simp: hosts_parseFile_def readable_hosts_def wanted_entries_def HostsFile_def fold_filter_append)
qed

lemma hosts_produceAll_text:
  "\<forall>s\<in>set sources. readable_hosts cfg s \<Longrightarrow>
   hosts_produceAll cfg env (\<lambda>_. []) i sources = Some (map (\<lambda>s. (wanted_entries cfg s, None)) sources)"
  by (induction sources arbitrary: i) (simp_all add: NewSourceOpener_def hosts_parseFile_text readable_hosts_def [symmetric],
      auto simp: readable_hosts_def NewSourceOpener_def hosts_parseFile_text)

lemma hosts_resolve_A:
  assumes "dnslib_ok lib" and "q_Type q = TypeA"
  shows "hosts_resolve lib cfg d req q n = (case split_getIP d TypeA n of None \<Rightarrow> None | Some ip \<Rightarrow>
    Some ((lib_SetReply lib new_Msg req)\<lparr>m_Answer := [RR_A (CreateHeader q (SecondsU32 (HostsTTL cfg))) ip]\<rparr>))"
  using assms by (auto simp: hosts_resolve_def CreateAnswerFromQuestion_def Let_def split: option.splits)

lemma toLower_ExtractDomain [simp]: "toLower (ExtractDomain q) = ExtractDomain q"
  by (simp add: ExtractDomain_def ExtractDomainOnly_def trimSuffix_def toLower_def take_map [symmetric] comp_def)

lemma entries_IP_upper:
  assumes "\<forall>n'\<in>insert (hf_Name e) (set (hf_Aliases e)). toLower n' \<noteq> n'" and "toLower n = n"
  shows "entries_IP (as @ e # bs) n = entries_IP (as @ bs) n"
proof -
  have "hf_Name e \<noteq> n" "n \<notin> set (hf_Aliases e)" using assms by auto
  then show ?thesis by (simp add: entries_IP_def find_append cong: option.case_cong split: option.splits)
qed

text \<open>What the producers promise: all that was sent is received, and an error only if there was one.\<close>

definition producers_ok :: "hosts_producers \<Rightarrow> bool" where
  "producers_ok run \<longleftrightarrow> (\<forall>rs. mset (fst (run rs)) = mset (concat (map fst rs)) \<and>
     (snd (run rs) = None \<longleftrightarrow> (\<forall>r\<in>set rs. snd r = None)))"

definition example_hosts :: HostsFile_cfg where
  "example_hosts = \<lparr>HostsTTL = 60 * second, FilterLoopback = False,
     Sources = [\<lparr>bs_Type = BytesSourceTypeText, bs_From = ''10.0.0.1 nas box''\<rparr>], MaxErrorsPerSource = 5\<rparr>"

section \<open>Properties\<close>



text \<open>
  Names in capitals are never found. An entry all of whose names contain an upper-case letter
  has no effect on any query: queried names are converted to lower case, those of the
  file are not.
\<close>

theorem hosts_file_upper_case_names:
  assumes "\<forall>n\<in>insert (hf_Name e) (set (hf_Aliases e)). toLower n \<noteq> n"
  shows "split_getIP (fold split_add (as @ e # bs) newSplitHostsData) t (ExtractDomain q) =
    split_getIP (fold split_add (as @ bs) newSplitHostsData) t (ExtractDomain q)"
proof -
  have "entries_IP (filter P (as @ e # bs)) (ExtractDomain q) = entries_IP (filter P (as @ bs)) (ExtractDomain q)" for P
    using entries_IP_upper [OF assms toLower_ExtractDomain, of "filter P as" "filter P bs" q] by simp
  then show ?thesis
    by (simp only: split_getIP_def split_add_fold newSplitHostsData_def splitHostsFileData.simps data_getIP_entries)
qed

end
