(* ===== verification/Server.thy ===== *)
theory Server
  imports Blocking Custom_Dns Client_Names Upstreams Hosts_File
begin

text \<open>
  The way of a query through the program (server/server.go): query logging and metrics, the
  chain of resolvers that \<open>createQueryResolver\<close> builds, and what the server writes to the
  client. Sockets, HTTP and the deadline of a request are not modelled.
\<close>

section \<open>Query logging\<close>

datatype QueryLogField =
    QueryLogFieldClientIP | QueryLogFieldClientName | QueryLogFieldResponseReason
  | QueryLogFieldResponseAnswer | QueryLogFieldQuestion | QueryLogFieldDuration

record LogEntry =
  le_Start :: int
  le_ClientIP :: string
  le_ClientNames :: "string list"
  le_DurationMs :: int
  le_ResponseReason :: string
  le_ResponseType :: string
  le_ResponseCode :: string
  le_QuestionType :: string
  le_QuestionName :: string
  le_Answer :: string
  le_BlockyInstance :: string

text \<open>The configuration of the log; the texts of return codes and of other records are those of the DNS library.\<close>

record QueryLog =
  ql_Fields :: "QueryLogField list"
  ql_IgnoreSUDN :: bool
  LogPrivacy :: bool
  instanceID :: string
  RcodeToString :: "int \<Rightarrow> string"
  RR_String :: "RR \<Rightarrow> string"

definition Obfuscate :: "bool \<Rightarrow> string \<Rightarrow> string" where
  "Obfuscate privacy s = (if privacy then map (\<lambda>c. if alphanumeric c then CHR ''*'' else c) s else s)"

fun answer_text :: "(RR \<Rightarrow> string) \<Rightarrow> RR \<Rightarrow> string" where
  "answer_text show (RR_A h a) = ''A ('' @ IP_String a @ '')''"
| "answer_text show (RR_AAAA h a) = ''AAAA ('' @ IP_String a @ '')''"
| "answer_text show (RR_CNAME h t) = ''CNAME ('' @ t @ '')''"
| "answer_text show (RR_PTR h p) = ''PTR ('' @ p @ '')''"
| "answer_text show rr = show rr"

definition AnswerToString :: "QueryLog \<Rightarrow> RR list \<Rightarrow> string" where
  "AnswerToString cfg answer = Obfuscate (LogPrivacy cfg) (joinStr '', '' (map (answer_text (RR_String cfg)) answer))"

fun ResponseType_String :: "ResponseType \<Rightarrow> string" where
  "ResponseType_String ResponseTypeRESOLVED = ''RESOLVED''"
| "ResponseType_String ResponseTypeCACHED = ''CACHED''"
| "ResponseType_String ResponseTypeBLOCKED = ''BLOCKED''"
| "ResponseType_String ResponseTypeCONDITIONAL = ''CONDITIONAL''"
| "ResponseType_String ResponseTypeCUSTOMDNS = ''CUSTOMDNS''"
| "ResponseType_String ResponseTypeHOSTSFILE = ''HOSTSFILE''"
| "ResponseType_String ResponseTypeFILTERED = ''FILTERED''"
| "ResponseType_String ResponseTypeNOTFQDN = ''NOTFQDN''"
| "ResponseType_String ResponseTypeSPECIAL = ''SPECIAL''"

text \<open>One field of an entry; a missing message or question panics.\<close>

fun log_field ::
    "dnslib \<Rightarrow> QueryLog \<Rightarrow> Request \<Rightarrow> Response \<Rightarrow> int \<Rightarrow> QueryLogField \<Rightarrow> LogEntry \<Rightarrow> go_panic + LogEntry" where
  "log_field lib cfg request response durationMs QueryLogFieldClientIP entry =
     Inr (entry\<lparr>le_ClientIP := IP_String (ClientIP request)\<rparr>)"
| "log_field lib cfg request response durationMs QueryLogFieldClientName entry =
     Inr (entry\<lparr>le_ClientNames := ClientNames request\<rparr>)"
| "log_field lib cfg request response durationMs QueryLogFieldResponseReason entry =
     (case Res response of
        None \<Rightarrow> Inl NilDereference
      | Some m \<Rightarrow> Inr (entry\<lparr>le_ResponseReason := Reason response, le_ResponseType := ResponseType_String (RType response),
          le_ResponseCode := RcodeToString cfg (m_Rcode m)\<rparr>))"
| "log_field lib cfg request response durationMs QueryLogFieldResponseAnswer entry =
     (case Res response of
        None \<Rightarrow> Inl NilDereference
      | Some m \<Rightarrow> Inr (entry\<lparr>le_Answer := AnswerToString cfg (m_Answer m)\<rparr>))"
| "log_field lib cfg request response durationMs QueryLogFieldQuestion entry =
     (case m_Question (Req request) of
        [] \<Rightarrow> Inl IndexOutOfRange
      | q # _ \<Rightarrow> Inr (entry\<lparr>le_QuestionName := Obfuscate (LogPrivacy cfg) (q_Name q),
          le_QuestionType := lib_TypeToString lib (q_Type q)\<rparr>))"
| "log_field lib cfg request response durationMs QueryLogFieldDuration entry = Inr (entry\<lparr>le_DurationMs := durationMs\<rparr>)"

fun log_fields ::
    "dnslib \<Rightarrow> QueryLog \<Rightarrow> Request \<Rightarrow> Response \<Rightarrow> int \<Rightarrow> QueryLogField list \<Rightarrow> LogEntry \<Rightarrow> go_panic + LogEntry" where
  "log_fields lib cfg request response durationMs [] entry = Inr entry"
| "log_fields lib cfg request response durationMs (f # fs) entry =
     (case log_field lib cfg request response durationMs f entry of
        Inl p \<Rightarrow> Inl p
      | Inr entry' \<Rightarrow> log_fields lib cfg request response durationMs fs entry')"

definition createLogEntry :: "dnslib \<Rightarrow> QueryLog \<Rightarrow> Request \<Rightarrow> Response \<Rightarrow> int \<Rightarrow> int \<Rightarrow> go_panic + LogEntry" where
  "createLogEntry lib cfg request response start durationMs =
     log_fields lib cfg request response durationMs (ql_Fields cfg)
       \<lparr>le_Start = start, le_ClientIP = ''0.0.0.0'', le_ClientNames = [''none''], le_DurationMs = 0, le_ResponseReason = [],
        le_ResponseType = [], le_ResponseCode = [], le_QuestionType = [], le_QuestionName = [], le_Answer = [],
        le_BlockyInstance = instanceID cfg\<rparr>"

definition ignore :: "QueryLog \<Rightarrow> Response \<Rightarrow> bool" where
  "ignore cfg response \<longleftrightarrow> ql_IgnoreSUDN cfg \<and> RType response = ResponseTypeSPECIAL"

definition logChanCap :: nat where "logChanCap = 1000"

text \<open>The entries in the channel are part of the state; a full channel drops the entry.\<close>

definition QueryLogging_Resolve ::
    "dnslib \<Rightarrow> QueryLog \<Rightarrow> ('w \<Rightarrow> int) \<Rightarrow> 'w resolver \<Rightarrow> (LogEntry list \<times> 'w) resolver" where
  "QueryLogging_Resolve lib cfg now next request s =
     (case next request (snd s) of
        (Ret resp, request', w') \<Rightarrow>
          (case createLogEntry lib cfg request' resp (now (snd s)) ((now w' - now (snd s)) div 1000000) of
             Inl p \<Rightarrow> (Panic p, request', fst s, w')
           | Inr entry \<Rightarrow>
               (Ret resp, request',
                (if ignore cfg resp \<or> length (fst s) \<ge> logChanCap then fst s else fst s @ [entry]), w'))
      | (out, request', w') \<Rightarrow> (out, request', fst s, w'))"

section \<open>Metrics\<close>

text \<open>
  \<open>inc\<close> increments the counters, which belong to the world; what was counted before a panic is
  left out.
\<close>

definition Metrics_Resolve :: "bool \<Rightarrow> (Request \<Rightarrow> Response option \<Rightarrow> 'w \<Rightarrow> 'w) \<Rightarrow> 'w resolver \<Rightarrow> 'w resolver" where
  "Metrics_Resolve enable inc next request w =
     (case next request w of
        (out, request', w') \<Rightarrow>
          if \<not> enable then (out, request', w')
          else (case out of
                  Panic p \<Rightarrow> (Panic p, request', w')
                | Fail err \<Rightarrow>
                    if m_Question (Req request') = [] then (Panic IndexOutOfRange, request', w')
                    else (Fail err, request', inc request' None w')
                | Ret resp \<Rightarrow>
                    if m_Question (Req request') = [] then (Panic IndexOutOfRange, request', w')
                    else if Res resp = None then (Panic NilDereference, request', w')
                    else (Ret resp, request', inc request' (Some resp) w')))"

section \<open>The chain\<close>

text \<open>What the resolvers are configured with, and the state of the caches and the log.\<close>

record ('n, 'c, 'w) chain_env =
  ce_lib :: dnslib
  ce_now :: "'w \<Rightarrow> int"
  ce_filter :: "uint16 list"
  ce_fqdnOnly :: bool
  ce_ecs :: ECS
  ce_names :: "(string list, 'n) ecache"
  ce_clientNames :: "(LogEntry list \<times> 'c \<times> 'w) ClientNamesResolver"
  ce_ede :: bool
  ce_log :: QueryLog
  ce_metrics :: bool
  ce_inc :: "Request \<Rightarrow> Response option \<Rightarrow> 'c \<times> 'w \<Rightarrow> 'c \<times> 'w"
  ce_customRewrite :: RewriterConfig
  ce_ctxErr :: "('c \<times> 'w) ctx"
  ce_customDNS :: CustomDNSResolver
  ce_hostsFile :: HostsFile_cfg
  ce_hosts :: splitHostsFileData
  ce_blocking :: BlockingResolver
  ce_cacheOps :: "(string, 'c) ecache"
  ce_caching :: Caching_cfg
  ce_exclusions :: "regexp list"
  ce_publish :: "(string \<Rightarrow> Msg \<Rightarrow> 'w \<Rightarrow> 'w) option"
  ce_conditionalRewrite :: RewriterConfig
  ce_conditional :: "(string \<times> 'w resolver) list"
  ce_sudn :: bool
  ce_appendixG :: bool
  ce_upstreams :: "'w resolver"

text \<open>
  Without a rewrite the inner resolver is used itself; otherwise it ends in the resolver that
  answers nothing.
\<close>

definition NewRewriterResolver :: "dnslib \<Rightarrow> RewriterConfig \<Rightarrow> ('w resolver \<Rightarrow> 'w resolver) \<Rightarrow> 'w resolver \<Rightarrow> 'w resolver" where
  "NewRewriterResolver lib cfg inner next =
     (if length (Rewrite cfg) = 0 then inner next
      else Rewriter_Resolve lib (cfg\<lparr>Rewrite := newRewrites (Rewrite cfg)\<rparr>) (inner NoOp_Resolve) next)"

text \<open>The resolvers behind the cache, those from blocking on, those behind metrics, and all.\<close>

definition upstream_chain :: "('n, 'c, 'w) chain_env \<Rightarrow> 'w resolver" where
  "upstream_chain e =
     NewRewriterResolver (ce_lib e) (ce_conditionalRewrite e) (Conditional_Resolve (ce_lib e) (ce_conditional e))
       (SUDN_Resolve (ce_lib e) (ce_sudn e) (ce_appendixG e) (ce_upstreams e))"

definition blocking_chain :: "('n, 'c, 'w) chain_env \<Rightarrow> ('c \<times> 'w) resolver" where
  "blocking_chain e =
     Blocking_Resolve (ce_lib e) (ce_blocking e)
       (Caching_Resolve (ce_lib e) (ce_cacheOps e) (ce_caching e) (ce_exclusions e) (ce_publish e) (ce_now e) (upstream_chain e))"

definition local_chain :: "('n, 'c, 'w) chain_env \<Rightarrow> ('c \<times> 'w) resolver" where
  "local_chain e =
     NewRewriterResolver (ce_lib e) (ce_customRewrite e) (CustomDNS_Resolve (ce_lib e) (ce_ctxErr e) (ce_customDNS e))
       (HostsFile_Resolve (ce_lib e) (ce_hostsFile e) (ce_hosts e) (blocking_chain e))"

definition createQueryResolver :: "('n, 'c, 'w) chain_env \<Rightarrow> ('n \<times> LogEntry list \<times> 'c \<times> 'w) resolver" where
  "createQueryResolver e =
     Filtering_Resolve (ce_lib e) (ce_filter e)
      (FQDNOnly_Resolve (ce_fqdnOnly e)
       (ECS_Resolve (ce_lib e) (ce_ecs e)
        (ClientNames_Resolve (ce_lib e) (ce_names e) (\<lambda>s. ce_now e (snd (snd s))) (ce_clientNames e)
         (EDE_Resolve (ce_lib e) (ce_ede e)
          (QueryLogging_Resolve (ce_lib e) (ce_log e) (\<lambda>s. ce_now e (snd s))
           (Metrics_Resolve (ce_metrics e) (ce_inc e) (local_chain e)))))))"

section \<open>The server\<close>

definition MaxMsgSize :: int where "MaxMsgSize = 65535"
definition MinMsgSize :: int where "MinMsgSize = 512"

text \<open>The size in an \<open>OPT\<close> record is its class.\<close>

definition getMaxResponseSize :: "dnslib \<Rightarrow> Request \<Rightarrow> int" where
  "getMaxResponseSize lib req =
     (let byProtocol = (if Protocol req = RequestProtocolTCP then MaxMsgSize else MinMsgSize) in
      case lib_IsEdns0 lib (Req req) of
        None \<Rightarrow> byProtocol
      | Some i \<Rightarrow>
          let size = uint (h_Class (Header (m_Extra (Req req) ! i))) in
          if size > 0 then size else byProtocol)"

text \<open>The end of \<open>resolve\<close>; \<open>trunc\<close> is the method of the DNS library.\<close>

definition finish_response :: "dnslib \<Rightarrow> (int \<Rightarrow> Msg \<Rightarrow> Msg) \<Rightarrow> Request \<Rightarrow> Msg \<Rightarrow> Msg" where
  "finish_response lib trunc request m =
     (trunc (getMaxResponseSize lib request) (m\<lparr>m_RecursionAvailable := m_RecursionDesired (Req request)\<rparr>))\<lparr>m_Compress := True\<rparr>"

text \<open>A panic of the resolvers, or of the lines behind them, is recovered and becomes an error.\<close>

definition server_resolve ::
    "dnslib \<Rightarrow> (int \<Rightarrow> Msg \<Rightarrow> Msg) \<Rightarrow> 'w resolver \<Rightarrow> Request \<Rightarrow> 'w \<Rightarrow> (resolve_error + Response) \<times> Request \<times> 'w" where
  "server_resolve lib trunc queryResolver request w =
     (let finish = (\<lambda>resp request' w'. case Res resp of
            None \<Rightarrow> (Inl (OtherErr ''panic occurred''), request', w')
          | Some m \<Rightarrow> (Inr (resp\<lparr>Res := Some (finish_response lib trunc request' m)\<rparr>), request', w')) in
      if length (m_Question (Req request)) = 0
      then finish \<lparr>Res = Some (lib_SetRcode lib new_Msg (Req request) RcodeFormatError), Reason = ''CUSTOM DNS'',
                   RType = ResponseTypeCUSTOMDNS\<rparr> request w
      else (case queryResolver request w of
              (Ret resp, request', w') \<Rightarrow> finish resp request' w'
            | (Panic p, request', w') \<Rightarrow> (Inl (OtherErr ''panic occurred''), request', w')
            | (Fail err, request', w') \<Rightarrow>
                (case as_UpstreamServerError err of
                   Some m \<Rightarrow> finish \<lparr>Res = Some m, Reason = ''upstream server failed'', RType = ResponseTypeRESOLVED\<rparr> request' w'
                 | None \<Rightarrow> (Inl err, request', w'))))"

text \<open>The message that is written.\<close>

definition handleReq :: "dnslib \<Rightarrow> (int \<Rightarrow> Msg \<Rightarrow> Msg) \<Rightarrow> 'w resolver \<Rightarrow> Request \<Rightarrow> 'w \<Rightarrow> Msg option \<times> Request \<times> 'w" where
  "handleReq lib trunc queryResolver request w =
     (case server_resolve lib trunc queryResolver request w of
        (Inl err, request', w') \<Rightarrow> (Some (lib_SetRcode lib new_Msg (Req request') RcodeServerFailure), request', w')
      | (Inr response, request', w') \<Rightarrow> (Res response, request', w'))"

definition extractClientIDFromHost :: "string \<Rightarrow> string" where
  "extractClientIDFromHost hostName =
     (if hasPrefix hostName ''id-'' \<and> CHR ''.'' \<in> set hostName
      then String_Caches.slice hostName 3 (length (takeWhile (\<lambda>c. c \<noteq> CHR ''.'') hostName)) else [])"

datatype net_Addr = UDPAddr IP | TCPAddr IP | OtherAddr

fun resolveClientIPAndProtocol :: "net_Addr \<Rightarrow> IP \<times> RequestProtocol" where
  "resolveClientIPAndProtocol (UDPAddr ip) = (ip, RequestProtocolUDP)"
| "resolveClientIPAndProtocol (TCPAddr ip) = (ip, RequestProtocolTCP)"
| "resolveClientIPAndProtocol OtherAddr = ([], RequestProtocolUDP)"

text \<open>The remote address, and the server name of a TLS connection.\<close>

definition newRequestFromDNS :: "net_Addr \<Rightarrow> string option \<Rightarrow> Msg \<Rightarrow> int \<Rightarrow> Request" where
  "newRequestFromDNS addr serverName msg t =
     (case resolveClientIPAndProtocol addr of (clientIP, protocol) \<Rightarrow>
        \<lparr>ClientIP = clientIP,
         RequestClientID = (case serverName of None \<Rightarrow> [] | Some s \<Rightarrow> extractClientIDFromHost s),
         Protocol = protocol, ClientNames = [], Req = msg, RequestTS = t\<rparr>)"

definition OnRequest ::
    "dnslib \<Rightarrow> (int \<Rightarrow> Msg \<Rightarrow> Msg) \<Rightarrow> 'w resolver \<Rightarrow> net_Addr \<Rightarrow> string option \<Rightarrow> Msg \<Rightarrow> int \<Rightarrow> 'w \<Rightarrow> Msg option \<times> 'w" where
  "OnRequest lib trunc queryResolver addr serverName msg t w =
     (case handleReq lib trunc queryResolver (newRequestFromDNS addr serverName msg t) w of (m, _, w') \<Rightarrow> (m, w'))"

definition OnHealthCheck :: "dnslib \<Rightarrow> Msg \<Rightarrow> Msg" where
  "OnHealthCheck lib request = (lib_SetReply lib new_Msg request)\<lparr>m_Rcode := RcodeSuccess\<rparr>"

section \<open>Facts about passing on\<close>

text \<open>A context whose observation changes nothing and that does not end.\<close>

definition quiet :: "'w ctx \<Rightarrow> bool" where
  "quiet ctxErr \<longleftrightarrow> (\<forall>w. ctxErr w = (None, w))"

lemma custom_find_quiet: "quiet ctxErr \<Longrightarrow> snd (custom_find ctxErr m domain w) = w"
proof (induction ctxErr m domain w rule: custom_find.induct)
  case (1 ctxErr m domain w)
  have c: "ctxErr w = (None, w)" using "1.prems" by (simp add: quiet_def)
  show ?case
    using "1.IH" [OF _ c [symmetric] refl _ _ "1.prems"]
    by (auto simp: custom_find.simps [of ctxErr m domain w] c split: option.splits)
qed

lemma CustomDNS_Resolve_unmapped:
  assumes "quiet ctxErr" and "m_Question (Req request) = q # qs" and "q_Type q \<noteq> TypePTR"
    and "entries_of (cd_mapping r) (ExtractDomain q) = None"
  shows "CustomDNS_Resolve lib ctxErr r nextr request w = nextr request w"
proof -
  have "alive ctxErr" using assms(1) by (simp add: quiet_def alive_def)
  then have "custom_find ctxErr (cd_mapping r) (ExtractDomain q) w = (Inr None, w)"
    using custom_find_alive [of ctxErr "cd_mapping r" "ExtractDomain q" w] custom_find_quiet [OF assms(1)] assms(4)
    by (metis snd_conv)
  then show ?thesis using assms(2,3)
    by (simp add: CustomDNS_Resolve_def custom_handleReverseDNS_def custom_processRequest.simps [of lib ctxErr nextr r request])
qed

lemma HostsFile_Resolve_unmapped:
  assumes "m_Question (Req request) = q # qs" and "q_Type q \<noteq> TypePTR"
    and "Sources cfg = [] \<or> split_getIP d (q_Type q) (ExtractDomain q) = None"
  shows "HostsFile_Resolve lib cfg d nextr request w = nextr request w"
  using assms by (auto simp: HostsFile_Resolve_def hosts_handleReverseDNS_def hosts_resolve_def)

text \<open>An entry can be made for a response with a message to a query with a question.\<close>

lemma log_fields_returns:
  assumes "Res response \<noteq> None" and "m_Question (Req request) \<noteq> []"
  shows "\<exists>entry'. log_fields lib cfg request response d fs entry = Inr entry'"
proof (induction fs arbitrary: entry)
  case (Cons f fs)
  have "\<exists>e. log_field lib cfg request response d f entry = Inr e"
    using assms by (cases f) (auto split: list.splits)
  then show ?case using Cons by auto
qed simp

lemma QueryLogging_Resolve_ret:
  assumes "nextr request w = (Ret resp, request', w')" and "Res resp \<noteq> None" and "m_Question (Req request') \<noteq> []"
  shows "\<exists>entries. QueryLogging_Resolve lib cfg now nextr request (l, w) = (Ret resp, request', l @ entries, w') \<and>
    length entries \<le> 1 \<and> length (l @ entries) \<le> max (length l) logChanCap"
proof -
  obtain entry where "createLogEntry lib cfg request' resp (now w) ((now w' - now w) div 1000000) = Inr entry"
    unfolding createLogEntry_def using log_fields_returns [OF assms(2,3)] by blast
  then show ?thesis using assms(1)
    by (cases "ignore cfg resp \<or> length l \<ge> logChanCap")
      (auto simp: QueryLogging_Resolve_def intro: exI [of _ "[]"] exI [of _ "[entry]"])
qed

lemma Metrics_Resolve_ret:
  assumes "nextr request w = (Ret resp, request', w')" and "Res resp \<noteq> None" and "m_Question (Req request') \<noteq> []"
  shows "Metrics_Resolve enable inc nextr request w = (Ret resp, request', if enable then inc request' (Some resp) w' else w')"
  using assms by (auto simp: Metrics_Resolve_def)

lemma extractClientIDFromHost_id: "CHR ''.'' \<notin> set c \<Longrightarrow> extractClientIDFromHost (''id-'' @ c @ ''.'' @ domain) = c"
  by (simp add: extractClientIDFromHost_def hasPrefix_def String_Caches.slice_def takeWhile_append)

text \<open>A blocked response stays one when the extended error is added.\<close>

lemma blocks_addExtraReasoning: "blocks resp request \<Longrightarrow> blocks (addExtraReasoning lib resp) request"
  by (auto simp: blocks_def addExtraReasoning_def SetEdns0Option_def Let_def split: prod.splits)

lemma blocks_ClientNames [simp]: "blocks resp (request\<lparr>ClientNames := ns\<rparr>) = blocks resp request"
  by (simp add: blocks_def)

text \<open>A chain that denies \<open>ads.com\<close> and whose upstream servers panic.\<close>

definition example_chain :: "(string list timed, string timed, int) chain_env" where
  "example_chain =
     \<lparr>ce_lib = example_lib, ce_now = id, ce_filter = [], ce_fqdnOnly = True,
      ce_ecs = \<lparr>UseAsClient = False, Forward = False, IPv4Mask = 0, IPv6Mask = 0\<rparr>, ce_names = timed_cache,
      ce_clientNames = \<lparr>ClientnameIPMapping = [], SingleNameOrder = [], externalResolver = None\<rparr>, ce_ede = True,
      ce_log = \<lparr>ql_Fields = [QueryLogFieldResponseReason, QueryLogFieldQuestion], ql_IgnoreSUDN = False, LogPrivacy = False,
        instanceID = ''dns'', RcodeToString = (\<lambda>_. []), RR_String = (\<lambda>_. [])\<rparr>,
      ce_metrics = False, ce_inc = (\<lambda>_ _ s. s), ce_customRewrite = \<lparr>Rewrite = [], FallbackUpstream = False\<rparr>,
      ce_ctxErr = Pair None, ce_customDNS = \<lparr>cd_cfg = \<lparr>CustomTTL = 0, Mapping_cfg = [], Zone_RRs = [], FilterUnmappedTypes = True\<rparr>,
        cd_mapping = [], cd_reverse = []\<rparr>,
      ce_hostsFile = example_hosts, ce_hosts = newSplitHostsData,
      ce_blocking = example_blocking (one_entry ''ads.com'') (one_entry ''ok.com''),
      ce_cacheOps = timed_cache, ce_caching = example_caching, ce_exclusions = [], ce_publish = None,
      ce_conditionalRewrite = \<lparr>Rewrite = [], FallbackUpstream = False\<rparr>, ce_conditional = [], ce_sudn = True, ce_appendixG = True,
      ce_upstreams = (\<lambda>rq w. (Panic NilDereference, rq, w + 1))\<rparr>"

section \<open>Properties\<close>

text \<open>
  C5. Every query gets an answer. Whatever the resolvers do, return, fail or panic, the server
  writes a message. A query without question is refused as malformed and reaches no resolver.
  A response is written with the recursion flag of the query, cut to the size the client
  accepts; so is the message of an upstream server that failed. After any other error, a
  panic, or a response without message the client gets a server failure in reply to its query.
\<close>

theorem server_always_answers:
  assumes "dnslib_ok lib"
  shows "\<exists>m request' w'. handleReq lib trunc queryResolver request w = (Some m, request', w') \<and>
    (if m_Question (Req request) = []
     then request' = request \<and> w' = w \<and>
       (\<exists>r. is_reply r (Req request) RcodeFormatError \<and> m = finish_response lib trunc request r)
     else (request', w') = snd (queryResolver request w) \<and>
       (case fst (queryResolver request w) of
          Ret resp \<Rightarrow> (case Res resp of
              Some r \<Rightarrow> m = finish_response lib trunc request' r
            | None \<Rightarrow> is_reply m (Req request') RcodeServerFailure)
        | Fail err \<Rightarrow> (case as_UpstreamServerError err of
              Some r \<Rightarrow> m = finish_response lib trunc request' r
            | None \<Rightarrow> is_reply m (Req request') RcodeServerFailure)
        | Panic p \<Rightarrow> is_reply m (Req request') RcodeServerFailure))"
proof -
  note reply = dnslib_reply(3) [OF assms]
  obtain out request' w' where q: "queryResolver request w = (out, request', w')" by (cases "queryResolver request w") auto
  show ?thesis
    using reply by (cases out) (auto simp: handleReq_def server_resolve_def Let_def q split: option.splits)
qed

theorem server_always_answers_witness:
  "\<exists>m. handleReq example_lib (\<lambda>_ m. m) (\<lambda>rq n. (Panic NilDereference, rq, n + 1)) (newRequest example_lib ''a.'' TypeA) (0 :: nat) =
      (Some m, newRequest example_lib ''a.'' TypeA, 1) \<and>
    is_reply m (Req (newRequest example_lib ''a.'' TypeA)) RcodeServerFailure"
proof -
  have "m_Question (Req (newRequest example_lib ''a.'' TypeA)) \<noteq> []" by code_simp
  then show ?thesis
    using server_always_answers [OF example_lib_ok, of "\<lambda>_ m. m" "\<lambda>rq n. (Panic NilDereference, rq, n + 1)"
        "newRequest example_lib ''a.'' TypeA" "0 :: nat"] by auto
qed

text \<open>
  C1. A denied name stays inside, through the whole chain. Let a query pass the filters in
  front, let custom DNS and the hosts file have nothing for its name, and let the blocking
  resolver have to deny it. Then, whatever the cache, the conditional resolvers and the
  upstream servers are, the client gets a blocked response to its query, and the state behind
  the blocking resolver is not touched; only the log may grow by an entry, and the metrics
  count the query.
\<close>

theorem denied_query_stays_inside:
  assumes "dnslib_ok (ce_lib e)" and "m_Question (Req request) = q # qs"
    and "q_Type q \<notin> set (ce_filter e)" and "ce_fqdnOnly e \<longrightarrow> CHR ''.'' \<in> set (ExtractDomain q)" and "\<not> ECS_IsEnabled (ce_ecs e)"
    and "getClientNames (ce_lib e) (ce_names e) (\<lambda>s. ce_now e (snd (snd s))) (ce_clientNames e) request (n, l, cw) =
      (Inr names, n', l, cw)"
    and "quiet (ce_ctxErr e)" and "Rewrite (ce_customRewrite e) = []" and "q_Type q \<noteq> TypePTR"
    and "entries_of (cd_mapping (ce_customDNS e)) (ExtractDomain q) = None"
    and "Sources (ce_hostsFile e) = [] \<or> split_getIP (ce_hosts e) (q_Type q) (ExtractDomain q) = None"
    and "gs = groupsToCheckForClient (ce_blocking e) (request\<lparr>ClientNames := names\<rparr>)" and "gs \<noteq> []"
    and "\<forall>q\<in>set (m_Question (Req request)). \<not> listed (allowlistMatcher (ce_blocking e)) gs (ExtractDomain q)"
    and "\<exists>q\<in>set (m_Question (Req request)).
      listed (denylistMatcher (ce_blocking e)) gs (ExtractDomain q) \<or> hasAllowlistOnlyAllowed (ce_blocking e) gs"
  shows "\<exists>resp counted entries. createQueryResolver e request (n, l, cw) =
      (Ret resp, request\<lparr>ClientNames := names\<rparr>, n', l @ entries,
       if ce_metrics e then ce_inc e (request\<lparr>ClientNames := names\<rparr>) (Some counted) cw else cw) \<and>
    blocks resp request \<and> blocks counted request \<and> length entries \<le> 1"
proof -
  let ?rq = "request\<lparr>ClientNames := names\<rparr>"
  have q: "m_Question (Req ?rq) = q # qs" using assms(2) by simp
  have deny: "\<forall>q\<in>set (m_Question (Req ?rq)). \<not> listed (allowlistMatcher (ce_blocking e)) gs (ExtractDomain q)"
    "\<exists>q\<in>set (m_Question (Req ?rq)).
      listed (denylistMatcher (ce_blocking e)) gs (ExtractDomain q) \<or> hasAllowlistOnlyAllowed (ce_blocking e) gs"
    using assms(14,15) by simp_all
  have "\<exists>resp. blocking_chain e ?rq cw = (Ret resp, ?rq, cw) \<and> blocks resp ?rq"
    unfolding blocking_chain_def by (rule Blocking_Resolve_denied [OF assms(1,12,13) deny])
  then obtain resp where b: "blocking_chain e ?rq cw = (Ret resp, ?rq, cw)" "blocks resp ?rq" by blast
  have r: "Res resp \<noteq> None" using b(2) by (auto simp: blocks_def)
  have loc: "local_chain e ?rq cw = (Ret resp, ?rq, cw)"
    using b(1) assms(8) by (simp add: local_chain_def NewRewriterResolver_def
        CustomDNS_Resolve_unmapped [OF assms(7) q assms(9,10)] HostsFile_Resolve_unmapped [OF q assms(9,11)])
  have ne: "m_Question (Req ?rq) \<noteq> []" using q by simp
  let ?metrics = "Metrics_Resolve (ce_metrics e) (ce_inc e) (local_chain e)"
  note m = Metrics_Resolve_ret [where nextr = "local_chain e" and request = ?rq and w = cw and enable = "ce_metrics e"
      and inc = "ce_inc e", OF loc r ne]
  from QueryLogging_Resolve_ret [where nextr = ?metrics and request = ?rq and w = cw and lib = "ce_lib e" and cfg = "ce_log e"
      and now = "\<lambda>s. ce_now e (snd s)" and l = l, OF m r ne]
  obtain entries where log: "QueryLogging_Resolve (ce_lib e) (ce_log e) (\<lambda>s. ce_now e (snd s))
      (Metrics_Resolve (ce_metrics e) (ce_inc e) (local_chain e)) ?rq (l, cw) =
      (Ret resp, ?rq, l @ entries, if ce_metrics e then ce_inc e ?rq (Some resp) cw else cw)" "length entries \<le> 1"
    by auto
  define rest where "rest = QueryLogging_Resolve (ce_lib e) (ce_log e) (\<lambda>s. ce_now e (snd s))
    (Metrics_Resolve (ce_metrics e) (ce_inc e) (local_chain e))"
  have "createQueryResolver e request (n, l, cw) = (Ret (if ce_ede e then addExtraReasoning (ce_lib e) resp else resp), ?rq, n',
      l @ entries, if ce_metrics e then ce_inc e ?rq (Some resp) cw else cw)"
    using assms(2-6) log(1) unfolding rest_def [symmetric]
    by (simp add: rest_def [symmetric] createQueryResolver_def Filtering_Resolve_def QTypeSet_Contains_def FQDNOnly_Resolve_def ECS_Resolve_def
        ClientNames_Resolve_def EDE_Resolve_def)
  then show ?thesis using b(2) blocks_addExtraReasoning [OF b(2)] log(2) by (auto split: if_splits)
qed

theorem denied_query_stays_inside_witness:
  "\<exists>resp entries n'. createQueryResolver example_chain (example_request ''ADS.com.'') ([], [], [], 0) =
      (Ret resp, (example_request ''ADS.com.'')\<lparr>ClientNames := [''192.168.0.2'']\<rparr>, n', entries, [], 0) \<and>
    blocks resp (example_request ''ADS.com.'')"
proof -
  let ?e = example_chain and ?rq = "example_request ''ADS.com.''" and ?names = "[''192.168.0.2'']"
  let ?r = "example_blocking (one_entry ''ads.com'') (one_entry ''ok.com'')"
  let ?q = "\<lparr>q_Name = ''ADS.com.'', q_Type = TypeA, q_Class = ClassINET\<rparr>"
  have lib: "ce_lib ?e = example_lib" and r: "ce_blocking ?e = ?r" by (simp_all add: example_chain_def)
  have dom: "ExtractDomain ?q = ''ads.com''" by code_simp
  have q: "m_Question (Req ?rq) = [?q]" by (simp add: example_request_def example_query_def)
  have pass: "q_Type ?q \<notin> set (ce_filter ?e)" "ce_fqdnOnly ?e \<longrightarrow> CHR ''.'' \<in> set (ExtractDomain ?q)" "\<not> ECS_IsEnabled (ce_ecs ?e)"
    by (simp_all add: example_chain_def dom ECS_IsEnabled_def)
  have names: "getClientNames (ce_lib ?e) (ce_names ?e) (\<lambda>s. ce_now ?e (snd (snd s))) (ce_clientNames ?e) ?rq ([], [], [], 0) =
      (Inr ?names, [(''192.168.0.2'', ?names, 3600000000000)], [], [], 0)" by code_simp
  have quiet: "quiet (ce_ctxErr ?e)" by (simp add: example_chain_def quiet_def)
  have rest: "Rewrite (ce_customRewrite ?e) = []" "q_Type ?q \<noteq> TypePTR"
    "entries_of (cd_mapping (ce_customDNS ?e)) (ExtractDomain ?q) = None"
    "Sources (ce_hostsFile ?e) = [] \<or> split_getIP (ce_hosts ?e) (q_Type ?q) (ExtractDomain ?q) = None" by code_simp+
  have gs: "[''ads''] = groupsToCheckForClient (ce_blocking ?e) (?rq\<lparr>ClientNames := ?names\<rparr>)" unfolding r by code_simp
  have "matches [''ads''] (one_entry ''ads.com'') ''ads.com'' = [''ads'']" "matches [''ads''] (one_entry ''ok.com'') ''ads.com'' = []"
    by code_simp+
  then have deny: "listed (denylistMatcher (ce_blocking ?e)) [''ads''] ''ads.com''" "\<not> listed (allowlistMatcher (ce_blocking ?e)) [''ads''] ''ads.com''"
    using matches_Nil [of "[''ads'']" "one_entry ''ads.com''" "''ads.com''"]
      matches_Nil [of "[''ads'']" "one_entry ''ok.com''" "''ads.com''"] by (auto simp: r example_blocking_def)
  have ok: "dnslib_ok (ce_lib ?e)" unfolding lib by (rule example_lib_ok)
  have m: "\<not> ce_metrics ?e" by (simp add: example_chain_def)
  from denied_query_stays_inside [OF ok q pass names quiet rest gs] deny dom q m show ?thesis by auto
qed

end
