(* ===== verification/Blocking_Status.thy ===== *)
theory Blocking_Status
  imports Blocking
begin

text \<open>
  The blocking resolver over time: what a blocked client is told, the state machine of
  enabling and disabling (API calls, messages of other instances, the timer), and the
  locking discipline around the status.
\<close>

section \<open>What a blocked client is told\<close>

definition address_of :: "RR \<Rightarrow> IP option" where
  "address_of rr = (case rr of RR_A h a \<Rightarrow> Some a | RR_AAAA h a \<Rightarrow> Some a | _ \<Rightarrow> None)"

text \<open>A record that answers a question with an address of the right family.\<close>

definition answers_with :: "Question \<Rightarrow> uint32 \<Rightarrow> IP set \<Rightarrow> RR \<Rightarrow> bool" where
  "answers_with q ttl ips rr \<longleftrightarrow> h_Name (Header rr) = q_Name q \<and> h_Type (Header rr) = q_Type q \<and>
     h_Ttl (Header rr) = ttl \<and>
     (\<exists>ip\<in>ips. address_of rr = Some ip \<and> (if q_Type q = TypeA then To4 ip \<noteq> [] else To4 ip = []))"

fun handler_ips :: "blockHandler \<Rightarrow> IP set" where
  "handler_ips nxDomainBlockHandler = {}"
| "handler_ips (zeroIPBlockHandler t) = {IPv4zero, IPv6zero}"
| "handler_ips (ipBlockHandler ips fb t) = set ips \<union> handler_ips fb"

lemma types_differ [simp]: "TypeA \<noteq> TypeAAAA" "TypeAAAA \<noteq> TypeA"
  by (simp_all add: type_codes)

lemma CreateAnswer_answers:
  assumes "q_Type q = TypeA \<and> To4 ip \<noteq> [] \<or> q_Type q = TypeAAAA \<and> To4 ip = []"
  shows "\<exists>rr. CreateAnswerFromQuestion lib q ip ttl = Some rr \<and> answers_with q ttl {ip} rr"
  using assms by (auto simp: CreateAnswerFromQuestion_def answers_with_def address_of_def CreateHeader_def Let_def)

lemma answers_with_mono: "answers_with q ttl A rr \<Longrightarrow> A \<subseteq> B \<Longrightarrow> answers_with q ttl B rr"
  by (auto simp: answers_with_def)

lemma zeroIP_answers:
  assumes "q_Type q = TypeA \<or> q_Type q = TypeAAAA"
  shows "\<exists>rr. zeroIP_handleBlock lib ttl q m = m\<lparr>m_Answer := m_Answer m @ [rr]\<rparr> \<and>
    answers_with q ttl {IPv4zero, IPv6zero} rr"
proof (cases "q_Type q = TypeA")
  case True
  then obtain rr where "CreateAnswerFromQuestion lib q IPv4zero ttl = Some rr" "answers_with q ttl {IPv4zero} rr"
    using CreateAnswer_answers [of q IPv4zero lib ttl] by (auto simp: IPv4zero_def)
  with True show ?thesis
    by (auto simp: zeroIP_handleBlock_def append_answer_def intro: answers_with_mono)
next
  case False
  then obtain rr where "CreateAnswerFromQuestion lib q IPv6zero ttl = Some rr" "answers_with q ttl {IPv6zero} rr"
    using CreateAnswer_answers [of q IPv6zero lib ttl] assms by auto
  with False assms show ?thesis
    by (auto simp: zeroIP_handleBlock_def append_answer_def intro: answers_with_mono)
qed

lemma ip_answers_spec:
  assumes "q_Type q = TypeA \<or> q_Type q = TypeAAAA"
  shows "\<exists>rrs. ip_answers lib ttl q ips m = m\<lparr>m_Answer := m_Answer m @ rrs\<rparr> \<and>
    (\<forall>rr\<in>set rrs. answers_with q ttl (set ips) rr)"
proof (induction ips arbitrary: m)
  case (Cons ip ips)
  let ?use = "(q_Type q = TypeAAAA \<and> To4 ip = []) \<or> (q_Type q = TypeA \<and> To4 ip \<noteq> [])"
  show ?case
  proof (cases ?use)
    case True
    then obtain rr where rr: "CreateAnswerFromQuestion lib q ip ttl = Some rr" "answers_with q ttl {ip} rr"
      using CreateAnswer_answers [of q ip lib ttl] by auto
    from Cons [of "m\<lparr>m_Answer := m_Answer m @ [rr]\<rparr>"] obtain rrs where
      "ip_answers lib ttl q ips (m\<lparr>m_Answer := m_Answer m @ [rr]\<rparr>) = m\<lparr>m_Answer := m_Answer m @ rr # rrs\<rparr>"
      "\<forall>rr\<in>set rrs. answers_with q ttl (set ips) rr" by auto
    then show ?thesis using True rr
      by (intro exI [of _ "rr # rrs"]) (auto simp: append_answer_def intro: answers_with_mono)
  next
    case False
    with Cons [of m] show ?thesis by (auto intro: answers_with_mono)
  qed
qed (intro exI [of _ "[]"], simp)

lemma ip_answers_other:
  "q_Type q \<noteq> TypeA \<Longrightarrow> q_Type q \<noteq> TypeAAAA \<Longrightarrow> ip_answers lib ttl q ips m = m"
  by (induction ips arbitrary: m) auto

text \<open>
  What blocking answers. With every handler the configuration can create, a query for
  another type than an address, or any query under \<open>NXDOMAIN\<close>, gets the return code for a
  name that does not exist and no answer; an address query otherwise gets at least one
  record, and each is of the type asked for, for the name asked for, with the configured
  time to live, and with an address of the right family that is either configured or the
  zero address.
\<close>

theorem block_handler_answers:
  assumes "createBlockHandler blockType blockTTL = Inr h" and "m_Answer m = []"
  shows "let m' = handleBlock lib h q m in
    if h = nxDomainBlockHandler \<or> q_Type q \<notin> {TypeA, TypeAAAA}
    then m_Rcode m' = RcodeNameError \<and> m_Answer m' = []
    else m_Rcode m' = m_Rcode m \<and> m_Answer m' \<noteq> [] \<and>
      (\<forall>rr\<in>set (m_Answer m'). answers_with q (SecondsU32 blockTTL) (handler_ips h) rr)"
proof -
  let ?t = "SecondsU32 blockTTL"
  consider "h = nxDomainBlockHandler" | "h = zeroIPBlockHandler ?t"
    | ips where "h = ipBlockHandler ips (zeroIPBlockHandler ?t) ?t"
    using assms(1) by (auto simp: createBlockHandler_def Let_def split: if_splits)
  then show ?thesis
  proof cases
    case 1
    then show ?thesis using assms(2) by simp
  next
    case 2
    then show ?thesis
      using assms(2) zeroIP_answers [of q lib ?t m] by (auto simp: Let_def zeroIP_handleBlock_def)
  next
    case 3
    show ?thesis
    proof (cases "q_Type q \<in> {TypeA, TypeAAAA}")
      case False
      then show ?thesis using 3 assms(2) by (simp add: Let_def ip_answers_other zeroIP_handleBlock_def)
    next
      case True
      then obtain rrs where rrs: "ip_answers lib ?t q ips m = m\<lparr>m_Answer := rrs\<rparr>"
        "\<forall>rr\<in>set rrs. answers_with q ?t (set ips) rr"
        using ip_answers_spec [of q lib ?t ips m] assms(2) by auto
      obtain z where z: "zeroIP_handleBlock lib ?t q (m\<lparr>m_Answer := []\<rparr>) = m\<lparr>m_Answer := [z]\<rparr>"
        "answers_with q ?t {IPv4zero, IPv6zero} z"
        using zeroIP_answers [of q lib ?t "m\<lparr>m_Answer := []\<rparr>"] True by auto
      from rrs z True 3 show ?thesis
        by (cases "rrs = []") (auto simp: Let_def intro: answers_with_mono)
    qed
  qed
qed

theorem block_handler_answers_witness:
  "\<exists>h. createBlockHandler ''192.0.2.1'' (60 * second) = Inr h \<and>
     (let m' = handleBlock example_lib h \<lparr>q_Name = ''ads.com.'', q_Type = TypeAAAA, q_Class = ClassINET\<rparr> new_Msg in
      m_Answer m' \<noteq> [] \<and>
      (\<forall>rr\<in>set (m_Answer m'). answers_with \<lparr>q_Name = ''ads.com.'', q_Type = TypeAAAA, q_Class = ClassINET\<rparr> 60
         (handler_ips h) rr))"
proof -
  let ?h = "ipBlockHandler [IPv4 192 0 2 1] (zeroIPBlockHandler 60) 60"
  have s: "SecondsU32 (60 * second) = 60" by code_simp
  have c: "createBlockHandler ''192.0.2.1'' (60 * second) = Inr ?h" by code_simp
  have "m_Answer new_Msg = []" by (simp add: new_Msg_def)
  from block_handler_answers [OF c this, of example_lib "\<lparr>q_Name = ''ads.com.'', q_Type = TypeAAAA, q_Class = ClassINET\<rparr>"]
  show ?thesis using c s by (simp add: Let_def)
qed

section \<open>Blocking over time\<close>

text \<open>
  The clock, the goroutines started by a timer that fired but have not yet run, and the
  resolver. A timer fires once its time has come; \<open>time.AfterFunc\<close> then runs its function
  in a goroutine of its own, and stopping the timer has no effect on it any more.
\<close>

record blocking_world =
  clock :: int
  pending :: nat
  resolver_of :: BlockingResolver

inductive blocking_step :: "blocking_world \<Rightarrow> blocking_world \<Rightarrow> bool" where
  time: "clock s \<le> t \<Longrightarrow> blocking_step s (s\<lparr>clock := t\<rparr>)"
| enable: "blocking_step s (s\<lparr>resolver_of := EnableBlocking (resolver_of s)\<rparr>)"
| disable: "blocking_step s (s\<lparr>resolver_of := snd (DisableBlocking (clock s) dur gs (resolver_of s))\<rparr>)"
| redis: "blocking_step s (s\<lparr>resolver_of := redisReceive (clock s) em (resolver_of s)\<rparr>)"
| fire: "enableTimer (bstatus (resolver_of s)) = Some t \<Longrightarrow> t \<le> clock s \<Longrightarrow>
    blocking_step s (s\<lparr>pending := pending s + 1,
      resolver_of := (resolver_of s)\<lparr>bstatus := (bstatus (resolver_of s))\<lparr>enableTimer := None\<rparr>\<rparr>\<rparr>)"
| run: "pending s = Suc n \<Longrightarrow>
    blocking_step s (s\<lparr>pending := n, resolver_of := EnableBlocking (resolver_of s)\<rparr>)"

abbreviation blocking_steps :: "blocking_world \<Rightarrow> blocking_world \<Rightarrow> bool" where
  "blocking_steps \<equiv> blocking_step\<^sup>*\<^sup>*"

text \<open>The steps that nobody outside the process causes.\<close>

inductive internal_step :: "blocking_world \<Rightarrow> blocking_world \<Rightarrow> bool" where
  itime: "clock s \<le> t \<Longrightarrow> internal_step s (s\<lparr>clock := t\<rparr>)"
| ifire: "enableTimer (bstatus (resolver_of s)) = Some t \<Longrightarrow> t \<le> clock s \<Longrightarrow>
    internal_step s (s\<lparr>pending := pending s + 1,
      resolver_of := (resolver_of s)\<lparr>bstatus := (bstatus (resolver_of s))\<lparr>enableTimer := None\<rparr>\<rparr>\<rparr>)"
| irun: "pending s = Suc n \<Longrightarrow>
    internal_step s (s\<lparr>pending := n, resolver_of := EnableBlocking (resolver_of s)\<rparr>)"

inductive_cases internal_stepE: "internal_step s s'"
inductive_cases blocking_stepE: "blocking_step s s'"

lemma internal_is_step: "internal_step s s' \<Longrightarrow> blocking_step s s'"
  by (induction rule: internal_step.induct) (blast intro: blocking_step.intros)+

definition status_ok :: "BlockingResolver \<Rightarrow> bool" where
  "status_ok r \<longleftrightarrow>
     (enabled (bstatus r) \<longleftrightarrow> disabledGroups (bstatus r) = []) \<and>
     set (disabledGroups (bstatus r)) \<subseteq> set (retrieveAllBlockingGroups r) \<and>
     (\<forall>t. enableTimer (bstatus r) = Some t \<longrightarrow> \<not> enabled (bstatus r) \<and> t = disableEnd (bstatus r))"

lemma unknownGroup_None:
  "sorted all \<Longrightarrow> unknownGroup all gs = None \<longleftrightarrow> set gs \<subseteq> set all"
proof (induction gs)
  case (Cons g gs)
  have "sort_SearchStrings all g \<ge> length all \<or> all ! sort_SearchStrings all g \<noteq> g \<longleftrightarrow> g \<notin> set all"
    using sort_SearchStrings_mem [OF Cons.prems, of g] by auto
  with Cons show ?case by (auto simp: Let_def)
qed simp

lemma retrieveAll_sorted [simp]: "sorted (retrieveAllBlockingGroups r)"
  by (simp add: retrieveAllBlockingGroups_def)

lemma retrieveAll_set [simp]: "set (retrieveAllBlockingGroups r) = insert ''default'' (fst ` set (denylists r))"
  by (auto simp: retrieveAllBlockingGroups_def)

lemma EnableBlocking_simps [simp]:
  "bstatus (EnableBlocking r) = (bstatus r)\<lparr>enableTimer := None, enabled := True, disabledGroups := []\<rparr>"
  "denylists (EnableBlocking r) = denylists r"
  by (simp_all add: EnableBlocking_def internalEnableBlocking_def Let_def)

text \<open>Every branch of disabling.\<close>

lemma internalDisable_cases:
  "if set gs \<subseteq> set (retrieveAllBlockingGroups r)
   then \<exists>evs. internalDisableBlocking now dur gs r = (None, r\<lparr>bstatus := (bstatus r)\<lparr>enabled := False,
       disabledGroups := (if gs = [] then retrieveAllBlockingGroups r else gs), disableEnd := now + dur,
       enableTimer := (if dur = 0 then None else Some (now + dur))\<rparr>, events := evs\<rparr>)
   else \<exists>e. internalDisableBlocking now dur gs r = (Some e, r\<lparr>bstatus := (bstatus r)\<lparr>enableTimer := None\<rparr>\<rparr>)"
proof (cases "set gs \<subseteq> set (retrieveAllBlockingGroups r)")
  case True
  then have u: "(if length gs = 0 then None else unknownGroup (retrieveAllBlockingGroups r) gs) = None"
    by (simp add: unknownGroup_None del: retrieveAll_set)
  have "internalDisableBlocking now dur gs r = (None, r\<lparr>bstatus := (bstatus r)\<lparr>enabled := False,
       disabledGroups := (if gs = [] then retrieveAllBlockingGroups r else gs), disableEnd := now + dur,
       enableTimer := (if dur = 0 then None else Some (now + dur))\<rparr>, events := events r @ [False]\<rparr>)"
    unfolding internalDisableBlocking_def Let_def u option.case by simp
  then show ?thesis unfolding if_P [OF True] by (rule exI)
next
  case False
  then obtain g where "unknownGroup (retrieveAllBlockingGroups r) gs = Some g"
    using unknownGroup_None [OF retrieveAll_sorted] by blast
  with False show ?thesis by (auto simp: internalDisableBlocking_def Let_def simp del: retrieveAll_set)
qed

lemma status_ok_Enable: "status_ok (EnableBlocking r)"
  by (simp add: status_ok_def)

lemma retrieveAll_nonempty: "retrieveAllBlockingGroups r \<noteq> []"
  using retrieveAll_set [of r] by force

lemma status_ok_internalDisable:
  "status_ok r \<Longrightarrow> status_ok (snd (internalDisableBlocking now dur gs r))"
  using internalDisable_cases [of gs r now dur] retrieveAll_nonempty [of r]
  by (auto simp: status_ok_def split: if_splits)

lemma status_ok_redisOut [simp]: "status_ok (r\<lparr>redisOut := x\<rparr>) = status_ok r"
  by (simp add: status_ok_def)

lemma status_ok_Disable: "status_ok r \<Longrightarrow> status_ok (snd (DisableBlocking now dur gs r))"
  using status_ok_internalDisable [of r now dur gs]
  by (auto simp: DisableBlocking_def split: prod.splits option.splits)

lemma status_ok_redis: "status_ok r \<Longrightarrow> status_ok (redisReceive now em r)"
  using status_ok_internalDisable [of r now "em_Duration em" "em_Groups em"]
  by (auto simp: redisReceive_def) (simp add: internalEnableBlocking_def status_ok_def)

lemma status_ok_step: "blocking_step s s' \<Longrightarrow> status_ok (resolver_of s) \<Longrightarrow> status_ok (resolver_of s')"
proof (induction rule: blocking_step.induct)
  case (fire s t)
  then show ?case by (simp add: status_ok_def)
qed (auto simp: status_ok_Enable status_ok_Disable status_ok_redis)

lemma status_ok_steps:
  "blocking_steps s s' \<Longrightarrow> status_ok (resolver_of s) \<Longrightarrow> status_ok (resolver_of s')"
  by (induction rule: rtranclp_induct) (auto intro: status_ok_step)

definition started :: "BlockingResolver \<Rightarrow> blocking_world" where
  "started r = \<lparr>clock = 0, pending = 0, resolver_of = r\<rparr>"

section \<open>Properties of the state machine\<close>

text \<open>
  C24. The status is consistent in every state that API calls, messages of other instances
  and timers can lead to, starting from an enabled resolver: blocking counts as enabled
  exactly if no group is disabled, only known groups are ever disabled, and a timer is
  armed only while blocking is disabled, for the time the status reports.
\<close>

theorem blocking_status_invariant:
  assumes "enabled (bstatus r)" and "disabledGroups (bstatus r) = []" and "enableTimer (bstatus r) = None"
    and "blocking_steps (started r) s"
  shows "status_ok (resolver_of s)"
proof -
  have "status_ok (resolver_of (started r))" using assms(1-3) by (simp add: status_ok_def started_def)
  with status_ok_steps [OF assms(4)] show ?thesis by blast
qed

definition example_resolver :: BlockingResolver where
  "example_resolver = example_blocking (one_entry ''ads.com'') (one_entry ''ok.com'')"

theorem blocking_status_invariant_witness:
  "blocking_steps (started example_resolver)
     (started (snd (DisableBlocking 0 (5 * second) [''ads''] example_resolver))) \<and>
   status_ok (snd (DisableBlocking 0 (5 * second) [''ads''] example_resolver)) \<and>
   \<not> enabled (bstatus (snd (DisableBlocking 0 (5 * second) [''ads''] example_resolver)))"
proof -
  let ?r = "snd (DisableBlocking 0 (5 * second) [''ads''] example_resolver)"
  have "blocking_step (started example_resolver) (started ?r)"
    using blocking_step.disable [of "started example_resolver" "5 * second" "[''ads'']"] by (simp add: started_def)
  then have st: "blocking_steps (started example_resolver) (started ?r)" by blast
  have "status_ok (resolver_of (started ?r))"
    by (rule blocking_status_invariant [OF _ _ _ st]) (simp_all add: example_resolver_def example_blocking_def)
  moreover have "enabled (bstatus ?r) = False" by code_simp
  ultimately show ?thesis using st by (simp add: started_def)
qed

text \<open>Whether blocking is on, or on its way to be.\<close>

definition will_enable :: "blocking_world \<Rightarrow> bool" where
  "will_enable s \<longleftrightarrow> enabled (bstatus (resolver_of s)) \<or> enableTimer (bstatus (resolver_of s)) \<noteq> None \<or> pending s > 0"

lemma will_enable_steps: "internal_step\<^sup>*\<^sup>* s s' \<Longrightarrow> will_enable s \<Longrightarrow> will_enable s'"
proof (induction rule: rtranclp_induct)
  case (step s1 s2)
  from step.hyps(2) step.IH [OF step.prems] show ?case by (cases rule: internal_step.cases) (auto simp: will_enable_def)
qed

lemma pending_enables: "pending s > 0 \<Longrightarrow> \<exists>s'. internal_step s s' \<and> enabled (bstatus (resolver_of s'))"
proof -
  assume "pending s > 0"
  then obtain n where n: "pending s = Suc n" by (cases "pending s") auto
  show ?thesis by (rule exI, rule conjI, rule irun [OF n]) simp
qed

lemma will_enable_enables:
  assumes "will_enable s"
  shows "\<exists>s'. internal_step\<^sup>*\<^sup>* s s' \<and> enabled (bstatus (resolver_of s'))"
proof (cases "enabled (bstatus (resolver_of s)) \<or> pending s > 0")
  case True
  then show ?thesis using pending_enables [of s] by blast
next
  case False
  with assms obtain t where t: "enableTimer (bstatus (resolver_of s)) = Some t" by (auto simp: will_enable_def)
  let ?s1 = "s\<lparr>clock := max t (clock s)\<rparr>"
  have 1: "internal_step s ?s1" by (rule itime) simp
  obtain s2 where 2: "internal_step ?s1 s2" "pending s2 > 0"
    using ifire [of ?s1 t] t by auto
  obtain s3 where "internal_step s2 s3" "enabled (bstatus (resolver_of s3))" using pending_enables [OF 2(2)] by blast
  with 1 2 show ?thesis by (meson converse_rtranclp_into_rtranclp rtranclp.rtrancl_refl)
qed



lemma internal_stuck:
  "internal_step\<^sup>*\<^sup>* s s' \<Longrightarrow> \<not> will_enable s \<Longrightarrow>
   \<not> will_enable s' \<and> disabledGroups (bstatus (resolver_of s')) = disabledGroups (bstatus (resolver_of s))"
proof (induction rule: rtranclp_induct)
  case (step s1 s2)
  from step.hyps(2) step.IH [OF step.prems] show ?case by (cases rule: internal_step.cases) (auto simp: will_enable_def)
qed simp

text \<open>
  A rejected request makes a temporary pause permanent. While blocking is disabled for
  a while, a request to disable an unknown group is refused with an error, but the timer
  has been stopped by then: from that state on, nothing the process does on its own
  enables blocking again, and the disabled groups stay disabled.
\<close>

theorem rejected_disable_loses_timer:
  assumes "\<not> enabled (bstatus (resolver_of s))" and "pending s = 0"
    and "\<not> set gs \<subseteq> set (retrieveAllBlockingGroups (resolver_of s))"
  shows "\<exists>e r'. DisableBlocking (clock s) dur gs (resolver_of s) = (Some e, r') \<and>
    (\<forall>s'. internal_step\<^sup>*\<^sup>* (s\<lparr>resolver_of := r'\<rparr>) s' \<longrightarrow> \<not> enabled (bstatus (resolver_of s')) \<and>
       disabledGroups (bstatus (resolver_of s')) = disabledGroups (bstatus (resolver_of s)))"
proof -
  let ?r = "(resolver_of s)\<lparr>bstatus := (bstatus (resolver_of s))\<lparr>enableTimer := None\<rparr>\<rparr>"
  obtain e where d: "DisableBlocking (clock s) dur gs (resolver_of s) = (Some e, ?r)"
    using internalDisable_cases [of gs "resolver_of s" "clock s" dur] assms(3)
    by (auto simp: DisableBlocking_def simp del: retrieveAll_set)
  have "\<not> will_enable (s\<lparr>resolver_of := ?r\<rparr>)" using assms(1,2) by (simp add: will_enable_def)
  from internal_stuck [OF _ this] have "internal_step\<^sup>*\<^sup>* (s\<lparr>resolver_of := ?r\<rparr>) s' \<Longrightarrow>
      \<not> enabled (bstatus (resolver_of s')) \<and>
      disabledGroups (bstatus (resolver_of s')) = disabledGroups (bstatus (resolver_of s))" for s'
    by (auto simp: will_enable_def)
  with d show ?thesis by blast
qed

theorem rejected_disable_loses_timer_witness:
  "let r = snd (DisableBlocking 0 (5 * second) [''ads''] example_resolver) in
   enableTimer (bstatus r) = Some (5 * second) \<and>
   (\<exists>e r'. DisableBlocking 1 0 [''typo''] r = (Some e, r') \<and>
     \<not> (\<exists>s'. internal_step\<^sup>*\<^sup>* \<lparr>clock = 1, pending = 0, resolver_of = r'\<rparr> s' \<and> enabled (bstatus (resolver_of s'))))"
proof -
  let ?r = "snd (DisableBlocking 0 (5 * second) [''ads''] example_resolver)"
  have 1: "enableTimer (bstatus ?r) = Some (5 * second)" "enabled (bstatus ?r) = False"
    "set [''typo''] \<subseteq> set (retrieveAllBlockingGroups ?r) \<longleftrightarrow> False" by code_simp+
  from rejected_disable_loses_timer [of "\<lparr>clock = 1, pending = 0, resolver_of = ?r\<rparr>" "[''typo'']" 0] 1
  show ?thesis by (auto simp: Let_def simp del: retrieveAll_set)
qed

text \<open>
  Disabling everything leaves allowlist-only groups on. After a successful request to
  disable blocking for all groups, a client assigned to a group that has only an allowlist
  is still blocked for every name that is not on it, although the status says that
  blocking is disabled.
\<close>

theorem disable_all_keeps_allowlist_only:
  assumes "dnslib_ok lib" and "DisableBlocking now dur [] r = (None, r')"
    and "g \<in> set (groupsToCheckForClient r request)" and "enabled (bstatus r)" and "disabledGroups (bstatus r) = []"
    and "g \<in> set (allowlistOnlyGroups r)" and "g \<notin> fst ` set (denylists r)" and "g \<noteq> ''default''"
    and "m_Question (Req request) = [q]"
    and "\<not> listed (allowlistMatcher r) (groupsToCheckForClient r' request) (ExtractDomain q)"
  shows "\<not> enabled (bstatus r') \<and>
    (\<exists>resp. Blocking_Resolve lib r' next request w = (Ret resp, request, w) \<and> blocks resp request)"
proof -
  obtain evs where i: "internalDisableBlocking now dur [] r = (None, r\<lparr>bstatus := (bstatus r)\<lparr>enabled := False,
       disabledGroups := retrieveAllBlockingGroups r, disableEnd := now + dur,
       enableTimer := (if dur = 0 then None else Some (now + dur))\<rparr>, events := evs\<rparr>)"
    using internalDisable_cases [of "[]" r now dur] by auto
  have cg: "clientGroups r' = clientGroups r" "fqdnIPCache r' = fqdnIPCache r" "allowlistMatcher r' = allowlistMatcher r"
    "allowlistOnlyGroups r' = allowlistOnlyGroups r" "disabledGroups (bstatus r') = retrieveAllBlockingGroups r"
    and off: "\<not> enabled (bstatus r')"
    using assms(2) unfolding DisableBlocking_def i by (auto split: if_splits)
  have same: "groups_by_name r' = groups_by_name r" "groups_by_identifier r' = groups_by_identifier r"
    by (auto simp: groups_by_name_def groups_by_identifier_def cg fun_eq_iff split: prod.splits option.splits)
  have "g \<notin> set (disabledGroups (bstatus r'))" using assms(7,8) cg by simp
  then have g: "g \<in> set (groupsToCheckForClient r' request)"
    using assms(3,5) same cg by (auto simp: groupsToCheckForClient_def Let_def isGroupDisabled_def list_ex_iff split: if_splits)
  then have "hasAllowlistOnlyAllowed r' (groupsToCheckForClient r' request)"
    using assms(6) cg by (auto simp: hasAllowlistOnlyAllowed_def list_ex_iff)
  then have "\<exists>resp. Blocking_Resolve lib r' next request w = (Ret resp, request, w) \<and> blocks resp request"
    using g assms(9,10) cg handleBlocked_blocks [OF assms(1)]
    by (auto simp: Blocking_Resolve_def handleDenylist_def Let_def)
  then show ?thesis using off by simp
qed

definition example_kids :: BlockingResolver where
  "example_kids = example_resolver\<lparr>allowlistOnlyGroups := [''kids''], clientGroups := [(''default'', [''kids''])]\<rparr>"

theorem disable_all_keeps_allowlist_only_witness:
  "let r' = snd (DisableBlocking 0 0 [] example_kids) in \<not> enabled (bstatus r') \<and>
     (\<exists>resp. Blocking_Resolve example_lib r' example_next (example_request ''x.com.'') 0 =
        (Ret resp, example_request ''x.com.'', 0) \<and> blocks resp (example_request ''x.com.''))"
proof -
  let ?d = "DisableBlocking 0 0 [] example_kids" and ?q = "example_request ''x.com.''"
  have "fst ?d = None" by code_simp
  then have d: "?d = (None, snd ?d)" by (simp add: prod_eq_iff)
  have gs: "groupsToCheckForClient example_kids ?q = [''kids'']" "groupsToCheckForClient (snd ?d) ?q = [''kids'']"
    by code_simp+
  have m: "matches [''kids''] (one_entry ''ok.com'') ''x.com'' = []" "ExtractDomainOnly ''x.com.'' = ''x.com''"
    by code_simp+
  have qs: "m_Question (Req ?q) = [\<lparr>q_Name = ''x.com.'', q_Type = TypeA, q_Class = ClassINET\<rparr>]"
    by (simp add: example_request_def example_query_def)
  have "\<not> listed (allowlistMatcher example_kids) (groupsToCheckForClient (snd ?d) ?q)
      (ExtractDomain \<lparr>q_Name = ''x.com.'', q_Type = TypeA, q_Class = ClassINET\<rparr>)"
    using matches_Nil [of "[''kids'']" "one_entry ''ok.com''" "''x.com''"] m
    unfolding gs by (simp add: ExtractDomain_def example_kids_def example_resolver_def example_blocking_def)
  from disable_all_keeps_allowlist_only [OF example_lib_ok d _ _ _ _ _ _ qs this, of "''kids''" example_next 0]
  show ?thesis
    by (simp add: Let_def gs) (simp add: example_kids_def example_resolver_def example_blocking_def)
qed

section \<open>The lock of the status\<close>

text \<open>
  \<open>groupsToCheckForClient\<close> holds the read lock of the status while it calls
  \<open>isGroupDisabled\<close> for each group, which takes the read lock again; \<open>internalEnableBlocking\<close>
  and \<open>internalDisableBlocking\<close> take the write lock. \<open>sync.RWMutex\<close> makes new readers wait
  as soon as a writer has announced itself, and the writer waits for the readers that
  hold the lock. The program counters name where a goroutine is: \<open>ROuter n\<close> is inside
  \<open>groupsToCheckForClient\<close> with \<open>n\<close> groups left to test, \<open>RInner n\<close> inside \<open>isGroupDisabled\<close>.
\<close>

datatype reader_pc = RStart nat | ROuter nat | RInner nat | RDone
datatype writer_pc = WStart | WWaiting | WHolding | WDone

record lock_state =
  readers :: nat
  writerAnnounced :: bool
  reader :: reader_pc
  writer :: writer_pc

inductive lock_step :: "lock_state \<Rightarrow> lock_state \<Rightarrow> bool" where
  rlock_outer: "reader s = RStart n \<Longrightarrow> \<not> writerAnnounced s \<Longrightarrow>
    lock_step s (s\<lparr>readers := readers s + 1, reader := ROuter n\<rparr>)"
| rlock_inner: "reader s = ROuter (Suc n) \<Longrightarrow> \<not> writerAnnounced s \<Longrightarrow>
    lock_step s (s\<lparr>readers := readers s + 1, reader := RInner n\<rparr>)"
| runlock_inner: "reader s = RInner n \<Longrightarrow> lock_step s (s\<lparr>readers := readers s - 1, reader := ROuter n\<rparr>)"
| runlock_outer: "reader s = ROuter 0 \<Longrightarrow> lock_step s (s\<lparr>readers := readers s - 1, reader := RDone\<rparr>)"
| announce: "writer s = WStart \<Longrightarrow> lock_step s (s\<lparr>writerAnnounced := True, writer := WWaiting\<rparr>)"
| acquire: "writer s = WWaiting \<Longrightarrow> readers s = 0 \<Longrightarrow> lock_step s (s\<lparr>writer := WHolding\<rparr>)"
| release: "writer s = WHolding \<Longrightarrow> lock_step s (s\<lparr>writerAnnounced := False, writer := WDone\<rparr>)"

definition lock_init :: "nat \<Rightarrow> lock_state" where
  "lock_init n = \<lparr>readers = 0, writerAnnounced = False, reader = RStart n, writer = WStart\<rparr>"

inductive_simps lock_step_simps: "lock_step s s'"

text \<open>
  C36. Queries and status changes can deadlock. For a client with at least one group, the
  interleaving of one query with one call that enables or disables blocking can reach a
  state where neither can continue: the query holds the read lock and waits to take it
  again, behind the writer, which waits for the query.
\<close>

theorem status_lock_deadlock:
  assumes "n > 0"
  shows "\<exists>s. lock_step\<^sup>*\<^sup>* (lock_init n) s \<and> reader s \<noteq> RDone \<and> writer s \<noteq> WDone \<and> (\<nexists>s'. lock_step s s')"
proof -
  let ?s1 = "\<lparr>readers = 1, writerAnnounced = False, reader = ROuter n, writer = WStart\<rparr>"
  let ?s2 = "\<lparr>readers = 1, writerAnnounced = True, reader = ROuter n, writer = WWaiting\<rparr>"
  have "lock_step (lock_init n) ?s1" using rlock_outer [of "lock_init n" n] by (simp add: lock_init_def)
  moreover have "lock_step ?s1 ?s2" using announce [of ?s1] by simp
  ultimately have "lock_step\<^sup>*\<^sup>* (lock_init n) ?s2"
    by (meson converse_rtranclp_into_rtranclp rtranclp.rtrancl_refl)
  moreover have "\<nexists>s'. lock_step ?s2 s'" using assms by (simp add: lock_step_simps)
  ultimately show ?thesis by (intro exI [of _ ?s2]) simp
qed

theorem status_lock_deadlock_witness:
  "\<exists>s. lock_step\<^sup>*\<^sup>* (lock_init 1) s \<and> reader s \<noteq> RDone \<and> (\<nexists>s'. lock_step s s')"
  using status_lock_deadlock [of 1] by auto

end
