(* ===== verification/Http_Api.thy ===== *)
theory Http_Api
  imports Server Blocking_Status
begin

text \<open>
  The HTTP side of the server (server/server_endpoints.go, api/api_interface_impl.go,
  util/http.go): DNS over HTTPS, and the handlers of the API.

  A handler returns what is written to the client. The text of an error of the DNS library is
  \<open>None\<close>. Routing, TLS and the generated glue between HTTP and the handlers of the API are not
  modelled; a request has the fields that the handlers read.
\<close>

section \<open>Package encoding/base64\<close>

text \<open>
  \<open>RawURLEncoding\<close>: the alphabet for URLs, without padding. The decoder skips line ends and does not
  look at the bits left over.
\<close>

definition url_alphabet :: "nat \<Rightarrow> char" where
  "url_alphabet n =
     (if n < 26 then char_of (65 + n) else if n < 52 then char_of (97 + (n - 26))
      else if n < 62 then char_of (48 + (n - 52)) else if n = 62 then CHR ''-'' else CHR ''_'')"

definition url_value :: "char \<Rightarrow> nat option" where
  "url_value c =
     (let n = of_char c :: nat in
      if 65 \<le> n \<and> n \<le> 90 then Some (n - 65) else if 97 \<le> n \<and> n \<le> 122 then Some (n - 97 + 26)
      else if 48 \<le> n \<and> n \<le> 57 then Some (n - 48 + 52) else if c = CHR ''-'' then Some 62 else if c = CHR ''_'' then Some 63 else None)"

definition EncodedLen :: "nat \<Rightarrow> nat" where
  "EncodedLen n = n div 3 * 4 + (n mod 3 * 8 + 5) div 6"

fun encode_bytes :: "nat list \<Rightarrow> nat list" where
  "encode_bytes (a # b # c # r) =
     [a div 4, a mod 4 * 16 + b div 16, b mod 16 * 4 + c div 64, c mod 64] @ encode_bytes r"
| "encode_bytes [a, b] = [a div 4, a mod 4 * 16 + b div 16, b mod 16 * 4]"
| "encode_bytes [a] = [a div 4, a mod 4 * 16]"
| "encode_bytes [] = []"

fun decode_sextets :: "nat list \<Rightarrow> nat list option" where
  "decode_sextets (a # b # c # d # r) =
     map_option (\<lambda>bs. [a * 4 + b div 16, b mod 16 * 16 + c div 4, c mod 4 * 64 + d] @ bs) (decode_sextets r)"
| "decode_sextets [a, b, c] = Some [a * 4 + b div 16, b mod 16 * 16 + c div 4]"
| "decode_sextets [a, b] = Some [a * 4 + b div 16]"
| "decode_sextets [a] = None"
| "decode_sextets [] = Some []"

definition EncodeToString :: "string \<Rightarrow> string" where
  "EncodeToString s = map url_alphabet (encode_bytes (map of_char s))"

definition DecodeString :: "string \<Rightarrow> string option" where
  "DecodeString s =
     (case those (map url_value (filter (\<lambda>c. c \<noteq> CHR 0x0A \<and> c \<noteq> CHR 0x0D) s)) of
        None \<Rightarrow> None
      | Some ns \<Rightarrow> map_option (map char_of) (decode_sextets ns))"

section \<open>Package util: the client of a request\<close>

definition SplitHostPort :: "string \<Rightarrow> (string \<times> string) option" where
  "SplitHostPort s =
     (case lastIndexByte s (CHR '':'') of
        None \<Rightarrow> None
      | Some i \<Rightarrow>
          if hd s = CHR ''[''
          then (case indexByte s (CHR '']'') of
                  None \<Rightarrow> None
                | Some e \<Rightarrow>
                    if e + 1 \<noteq> i \<or> CHR ''['' \<in> set (drop 1 s) \<or> CHR '']'' \<in> set (drop (e + 1) s) then None
                    else Some (take (e - 1) (drop 1 s), drop (i + 1) s))
          else if CHR '':'' \<in> set (take i s) \<or> CHR ''['' \<in> set s \<or> CHR '']'' \<in> set s then None
          else Some (take i s, drop (i + 1) s))"

record http_req =
  hr_Host :: string
  hr_RemoteAddr :: string
  hr_ForwardedFor :: string
  hr_ContentType :: string
  hr_clientID :: string

definition HTTPClientIP :: "http_req \<Rightarrow> IP option" where
  "HTTPClientIP r =
     (let addr = (if hr_ForwardedFor r = [] then hr_RemoteAddr r else hr_ForwardedFor r) in
      case SplitHostPort addr of None \<Rightarrow> ParseIP addr | Some (ip, _) \<Rightarrow> ParseIP ip)"

definition newRequestFromHTTP :: "http_req \<Rightarrow> Msg \<Rightarrow> int \<Rightarrow> Request" where
  "newRequestFromHTTP req msg t =
     \<lparr>ClientIP = (case HTTPClientIP req of None \<Rightarrow> [] | Some a \<Rightarrow> a),
      RequestClientID = (if hr_clientID req = [] then extractClientIDFromHost (hr_Host req) else hr_clientID req),
      Protocol = RequestProtocolTCP, ClientNames = [], Req = msg, RequestTS = t\<rparr>"

section \<open>DNS over HTTPS\<close>

datatype http_reply =
    HttpError nat "string option"
  | DnsMessage string uint32
  | Nothing

definition dohMessageLimit :: nat where "dohMessageLimit = 512"
definition http_dnsContentType :: string where "http_dnsContentType = ''application/dns-message''"

definition getSmallestTTLFromAnswer :: "Msg \<Rightarrow> uint32" where
  "getSmallestTTLFromAnswer msg =
     fold (\<lambda>a ttl. if h_Ttl (Header a) < ttl \<or> ttl = 0 then h_Ttl (Header a) else ttl) (m_Answer msg) 0"

text \<open>A message that cannot be packed is only logged, and nothing is written.\<close>

definition http_WriteMsg :: "dnslib \<Rightarrow> Msg \<Rightarrow> http_reply" where
  "http_WriteMsg lib msg =
     (case lib_Pack lib msg of None \<Rightarrow> Nothing | Some b \<Rightarrow> DnsMessage b (getSmallestTTLFromAnswer msg))"

definition processDohMessage ::
    "dnslib \<Rightarrow> (int \<Rightarrow> Msg \<Rightarrow> Msg) \<Rightarrow> 'w resolver \<Rightarrow> int \<Rightarrow> http_req \<Rightarrow> string \<Rightarrow> 'w \<Rightarrow> http_reply \<times> 'w" where
  "processDohMessage lib trunc queryResolver t req rawMsg w =
     (case lib_Unpack lib rawMsg of
        None \<Rightarrow> (HttpError 400 None, w)
      | Some msg \<Rightarrow>
          (case handleReq lib trunc queryResolver (newRequestFromHTTP req msg t) w of
             (m, _, w') \<Rightarrow> (case m of None \<Rightarrow> Nothing | Some m \<Rightarrow> http_WriteMsg lib m, w')))"

text \<open>The parameter \<open>dns\<close> of the address, if it is given, and the body, or the error of reading it.\<close>

definition dohGetRequestHandler ::
    "dnslib \<Rightarrow> (int \<Rightarrow> Msg \<Rightarrow> Msg) \<Rightarrow> 'w resolver \<Rightarrow> int \<Rightarrow> http_req \<Rightarrow> string option \<Rightarrow> 'w \<Rightarrow> http_reply \<times> 'w" where
  "dohGetRequestHandler lib trunc queryResolver t req dnsParam w =
     (case dnsParam of
        None \<Rightarrow> (HttpError 400 (Some ''dns param is missing''), w)
      | Some p \<Rightarrow>
          if length p < 1 then (HttpError 400 (Some ''dns param is missing''), w)
          else if length p > EncodedLen dohMessageLimit then (HttpError 414 (Some ''URI Too Long''), w)
          else (case DecodeString p of
                  None \<Rightarrow> (HttpError 400 (Some ''wrong message format''), w)
                | Some rawMsg \<Rightarrow>
                    if length rawMsg > dohMessageLimit then (HttpError 414 (Some ''URI Too Long''), w)
                    else processDohMessage lib trunc queryResolver t req rawMsg w))"

definition dohPostRequestHandler ::
    "dnslib \<Rightarrow> (int \<Rightarrow> Msg \<Rightarrow> Msg) \<Rightarrow> 'w resolver \<Rightarrow> int \<Rightarrow> http_req \<Rightarrow> string option \<Rightarrow> 'w \<Rightarrow> http_reply \<times> 'w" where
  "dohPostRequestHandler lib trunc queryResolver t req body w =
     (if hr_ContentType req \<noteq> http_dnsContentType then (HttpError 415 (Some ''unsupported content type''), w)
      else (case body of
              None \<Rightarrow> (HttpError 400 None, w)
            | Some b \<Rightarrow>
                let rawMsg = take (dohMessageLimit + 1) b in
                if length rawMsg > dohMessageLimit then (HttpError 413 (Some ''Payload Too Large''), w)
                else processDohMessage lib trunc queryResolver t req rawMsg w))"

section \<open>Package time: durations\<close>

text \<open>
  \<open>ParseDuration\<close>: a sign and numbers with units. The fraction of a number is rounded down exactly here;
  the library computes it with floating-point numbers.
\<close>

definition duration_units :: "(string \<times> int) list" where
  "duration_units =
     [(''ns'', 1), (''us'', 1000), ([CHR 0xC2, CHR 0xB5] @ ''s'', 1000), ([CHR 0xCE, CHR 0xBC] @ ''s'', 1000), (''ms'', 1000000),
      (''s'', 1000000000), (''m'', 60000000000), (''h'', 3600000000000)]"

fun leadingInt :: "int \<Rightarrow> string \<Rightarrow> int option" where
  "leadingInt x [] = Some x"
| "leadingInt x (c # s) =
     (if x > 2 ^ 63 div 10 \<or> x * 10 + (of_char c - 48) > 2 ^ 63 then None else leadingInt (x * 10 + (of_char c - 48)) s)"

fun leadingFraction :: "int \<Rightarrow> int \<Rightarrow> string \<Rightarrow> int \<times> int" where
  "leadingFraction x scale [] = (x, scale)"
| "leadingFraction x scale (c # s) =
     (if x > (2 ^ 63 - 1) div 10 \<or> x * 10 + (of_char c - 48) > 2 ^ 63 then (x, scale)
      else leadingFraction (x * 10 + (of_char c - 48)) (scale * 10) s)"

text \<open>The digits of a number before and behind the point, and the rest of the text; then the unit.\<close>

definition split_number :: "string \<Rightarrow> string \<times> string \<times> string" where
  "split_number s =
     (let pre = takeWhile isDigit s; s1 = dropWhile isDigit s in
      if s1 \<noteq> [] \<and> hd s1 = CHR ''.'' then (pre, takeWhile isDigit (tl s1), dropWhile isDigit (tl s1)) else (pre, [], s1))"

definition unit_char :: "char \<Rightarrow> bool" where
  "unit_char c \<longleftrightarrow> c \<noteq> CHR ''.'' \<and> \<not> isDigit c"

definition duration_part :: "string \<Rightarrow> (int \<times> string) option" where
  "duration_part s =
     (case split_number s of (pre, post, s3) \<Rightarrow>
        if pre = [] \<and> post = [] then None
        else (case (leadingInt 0 pre, map_of duration_units (takeWhile unit_char s3)) of
                (Some v, Some unit) \<Rightarrow>
                  if v > 2 ^ 63 div unit then None
                  else
                    let (f, scale) = leadingFraction 0 1 post; v' = v * unit + f * unit div scale in
                    if v' > 2 ^ 63 then None else Some (v', dropWhile unit_char s3)
              | _ \<Rightarrow> None))"

lemma split_number_length: "split_number s = (pre, post, s3) \<Longrightarrow> length s3 \<le> length s"
  using length_dropWhile_le [of isDigit s] length_dropWhile_le [of isDigit "tl (dropWhile isDigit s)"]
  by (auto simp: split_number_def Let_def split: if_splits)

lemma duration_part_shorter:
  assumes "duration_part s = Some (v, rest)"
  shows "length rest < length s"
proof -
  obtain pre post s3 where n: "split_number s = (pre, post, s3)" by (cases "split_number s") auto
  obtain f scale where f: "leadingFraction 0 1 post = (f, scale)" by force
  have "\<exists>unit. map_of duration_units (takeWhile unit_char s3) = Some unit \<and> rest = dropWhile unit_char s3"
  proof (cases "map_of duration_units (takeWhile unit_char s3)")
    case None
    then show ?thesis using assms by (simp add: duration_part_def n split: if_splits option.splits)
  next
    case (Some unit)
    moreover obtain x where "leadingInt 0 pre = Some x" using assms by (cases "leadingInt 0 pre") (simp_all add: duration_part_def n split: if_splits)
    ultimately show ?thesis using assms unfolding duration_part_def n prod.case option.case Let_def f by (simp split: if_splits)
  qed
  then obtain unit where u: "map_of duration_units (takeWhile unit_char s3) = Some unit" and r: "rest = dropWhile unit_char s3" by blast
  have "map_of duration_units [] = None" by (simp add: duration_units_def)
  then have "0 < length (takeWhile unit_char s3)" using u by (cases "takeWhile unit_char s3") auto
  moreover have "length (takeWhile unit_char s3) + length (dropWhile unit_char s3) = length s3"
    by (metis length_append takeWhile_dropWhile_id)
  ultimately show ?thesis using split_number_length [OF n] unfolding r by linarith
qed

function duration_parts :: "int \<Rightarrow> string \<Rightarrow> int option" where
  "duration_parts d s =
     (if s = [] then Some d
      else (case duration_part s of
              None \<Rightarrow> None
            | Some (v, rest) \<Rightarrow> if d + v > 2 ^ 63 then None else duration_parts (d + v) rest))"
  by pat_completeness auto
termination
  by (relation "measure (\<lambda>(d, s). length s)") (auto simp: duration_part_shorter)

declare duration_parts.simps [simp del]

definition ParseDuration :: "string \<Rightarrow> duration option" where
  "ParseDuration orig =
     (let neg = (orig \<noteq> [] \<and> hd orig = CHR ''-''); s = (if orig \<noteq> [] \<and> hd orig \<in> {CHR ''-'', CHR ''+''} then tl orig else orig) in
      if s = ''0'' then Some 0 else if s = [] then None
      else (case duration_parts 0 s of
              None \<Rightarrow> None
            | Some d \<Rightarrow> if neg then Some (- d) else if d > 2 ^ 63 - 1 then None else Some d))"

section \<open>The API\<close>

datatype 'a api_reply = ApiOk 'a | ApiText nat "string option"

text \<open>\<open>EscapeInput\<close>\<close>

definition EscapeInput :: "string \<Rightarrow> string" where
  "EscapeInput s = filter (\<lambda>c. c \<noteq> CHR 0x0A \<and> c \<noteq> CHR 0x0D) s"

definition error_text :: "resolve_error \<Rightarrow> string option" where
  "error_text e = (case e of OtherErr s \<Rightarrow> Some (EscapeInput s) | _ \<Rightarrow> None)"

definition api_DisableBlocking ::
    "int \<Rightarrow> string option \<Rightarrow> string option \<Rightarrow> BlockingResolver \<Rightarrow> unit api_reply \<times> BlockingResolver" where
  "api_DisableBlocking now dur groups r =
     (case (case dur of None \<Rightarrow> Some 0 | Some s \<Rightarrow> ParseDuration s) of
        None \<Rightarrow> (ApiText 400 None, r)
      | Some d \<Rightarrow>
          let gs = (case groups of None \<Rightarrow> [] | Some g \<Rightarrow> if length g > 0 then splitOn CHR '','' g else []) in
          (case DisableBlocking now d gs r of
             (Some err, r') \<Rightarrow> (ApiText 400 (error_text err), r')
           | (None, r') \<Rightarrow> (ApiOk (), r')))"

definition api_EnableBlocking :: "BlockingResolver \<Rightarrow> unit api_reply \<times> BlockingResolver" where
  "api_EnableBlocking r = (ApiOk (), EnableBlocking r)"

record ApiBlockingStatus =
  api_Enabled :: bool
  api_AutoEnableInSec :: "int option"
  api_DisabledGroups :: "string list option"

definition api_BlockingStatus :: "int \<Rightarrow> BlockingResolver \<Rightarrow> ApiBlockingStatus api_reply" where
  "api_BlockingStatus now r =
     (let s = get_BlockingStatus now r in
      ApiOk \<lparr>api_Enabled = bs_Enabled s,
             api_AutoEnableInSec = (if bs_AutoEnableInSec s > 0 then Some (bs_AutoEnableInSec s) else None),
             api_DisabledGroups = (if length (bs_DisabledGroups s) > 0 then Some (bs_DisabledGroups s) else None)\<rparr>)"

text \<open>The result of \<open>RefreshLists\<close>.\<close>

definition api_ListRefresh :: "string option \<Rightarrow> unit api_reply" where
  "api_ListRefresh err = (case err of Some e \<Rightarrow> ApiText 500 (Some (EscapeInput e)) | None \<Rightarrow> ApiOk ())"

definition api_CacheFlush :: "(string, 'c) ecache \<Rightarrow> 'c \<times> 'w \<Rightarrow> unit api_reply \<times> 'c \<times> 'w" where
  "api_CacheFlush ops s = (ApiOk (), FlushCaches ops s)"

definition server_Query ::
    "dnslib \<Rightarrow> (int \<Rightarrow> Msg \<Rightarrow> Msg) \<Rightarrow> 'w resolver \<Rightarrow> int \<Rightarrow> string \<Rightarrow> IP option \<Rightarrow> string \<Rightarrow> uint16 \<Rightarrow> 'w \<Rightarrow> (resolve_error + Response) \<times> 'w" where
  "server_Query lib trunc queryResolver t serverHost clientIP question qType w =
     (case server_resolve lib trunc queryResolver
             \<lparr>ClientIP = (case clientIP of None \<Rightarrow> [] | Some a \<Rightarrow> a), RequestClientID = extractClientIDFromHost serverHost,
              Protocol = RequestProtocolTCP, ClientNames = [], Req = NewMsgWithQuestion lib question qType, RequestTS = t\<rparr> w of
        (res, _, w') \<Rightarrow> (res, w'))"

record ApiQueryResult =
  aq_Reason :: string
  aq_ResponseType :: string
  aq_Response :: string
  aq_ReturnCode :: string

text \<open>The numbers of query types are a table of the DNS library, 0 for an unknown one; an error is left to the generated code (\<open>None\<close>).\<close>

definition api_Query ::
    "dnslib \<Rightarrow> (int \<Rightarrow> Msg \<Rightarrow> Msg) \<Rightarrow> 'w resolver \<Rightarrow> QueryLog \<Rightarrow> (string \<Rightarrow> uint16) \<Rightarrow> int \<Rightarrow> http_req \<Rightarrow> string \<Rightarrow> string \<Rightarrow> 'w \<Rightarrow>
     ApiQueryResult api_reply option \<times> 'w" where
  "api_Query lib trunc queryResolver cfg StringToType t req question qtype w =
     (if StringToType qtype = 0 then (Some (ApiText 400 (Some (''unknown query type '' @ [CHR 0x27] @ qtype @ [CHR 0x27]))), w)
      else (case server_Query lib trunc queryResolver t (hr_Host req) (HTTPClientIP req) (lib_Fqdn lib question) (StringToType qtype) w of
              (Inl err, w') \<Rightarrow> (None, w')
            | (Inr resp, w') \<Rightarrow>
                (map_option (\<lambda>m. ApiOk \<lparr>aq_Reason = Reason resp, aq_ResponseType = ResponseType_String (RType resp),
                     aq_Response = AnswerToString cfg (m_Answer m), aq_ReturnCode = RcodeToString cfg (m_Rcode m)\<rparr>) (Res resp), w')))"

section \<open>Facts\<close>

lemma url_value_alphabet:
  assumes "n < 64"
  shows "url_value (url_alphabet n) = Some n \<and> url_alphabet n \<noteq> CHR 0x0A \<and> url_alphabet n \<noteq> CHR 0x0D"
proof -
  have "list_all (\<lambda>n. url_value (url_alphabet n) = Some n) [0..<64]"
    by (simp add: upt_conv_Cons url_alphabet_def url_value_def)
  then have "url_value (url_alphabet n) = Some n" using assms by (simp add: list_all_iff)
  moreover have "url_value (CHR 0x0A) = None" "url_value (CHR 0x0D) = None" by (simp_all add: url_value_def)
  ultimately show ?thesis by auto
qed

lemma encode_bytes_facts:
  "list_all (\<lambda>n. n < 256) bs \<Longrightarrow> list_all (\<lambda>n. n < 64) (encode_bytes bs) \<and> decode_sextets (encode_bytes bs) = Some bs \<and>
     length (encode_bytes bs) = EncodedLen (length bs)"
proof (induction bs rule: encode_bytes.induct)
  case (1 a b c r)
  have "a div 4 * 4 + (a mod 4 * 16 + b div 16) div 16 = a" "(a mod 4 * 16 + b div 16) mod 16 * 16 + (b mod 16 * 4 + c div 64) div 4 = b"
    "(b mod 16 * 4 + c div 64) mod 4 * 64 + c mod 64 = c" using 1(2) by auto
  then show ?case using 1 by (auto simp: EncodedLen_def div_add_self1)
qed (auto simp: EncodedLen_def)

lemma those_map_Some: "list_all (\<lambda>x. f x = Some (g x)) xs \<Longrightarrow> those (map f xs) = Some (map g xs)"
  by (induction xs) auto

lemma Decode_Encode: "DecodeString (EncodeToString s) = Some s" "length (EncodeToString s) = EncodedLen (length s)"
proof -
  let ?bs = "map of_char s :: nat list"
  have "list_all (\<lambda>n. n < 256) ?bs" by (simp add: list_all_iff)
  note f = encode_bytes_facts [OF this]
  then have v: "list_all (\<lambda>n. url_value (url_alphabet n) = Some n \<and> url_alphabet n \<noteq> CHR 0x0A \<and> url_alphabet n \<noteq> CHR 0x0D) (encode_bytes ?bs)"
    using url_value_alphabet by (auto simp: list_all_iff)
  then have "filter (\<lambda>c. c \<noteq> CHR 0x0A \<and> c \<noteq> CHR 0x0D) (EncodeToString s) = EncodeToString s"
    by (auto simp: EncodeToString_def filter_id_conv list_all_iff)
  moreover have "those (map url_value (EncodeToString s)) = Some (encode_bytes ?bs)"
    using those_map_Some [of "\<lambda>n. url_value (url_alphabet n)" id "encode_bytes ?bs"] v by (simp add: EncodeToString_def list_all_iff o_def)
  moreover have "map char_of ?bs = s" by (simp add: o_def)
  ultimately show "DecodeString (EncodeToString s) = Some s" using f by (simp add: DecodeString_def)
  show "length (EncodeToString s) = EncodedLen (length s)" using f by (simp add: EncodeToString_def)
qed

lemma EncodedLen_mono: "m \<le> n \<Longrightarrow> EncodedLen m \<le> EncodedLen n"
proof -
  have "EncodedLen n = (n * 8 + 5) div 6" for n
  proof -
    have "n * 8 + 5 = 6 * (n div 3 * 4) + (n mod 3 * 8 + 5)" by presburger
    then show ?thesis by (simp add: EncodedLen_def)
  qed
  then show "m \<le> n \<Longrightarrow> ?thesis" by (simp add: div_le_mono)
qed

section \<open>Properties\<close>

text \<open>
  C7. Both methods of DNS over HTTPS do the same. A message that is not empty gets the same answer, and
  has the same effect, whether it is sent in the address with GET or in the body with POST; one that is longer
  than the limit is refused in both ways and reaches no resolver. The message in the address is
  encoded as the standard asks for.
\<close>

theorem doh_get_is_post:
  assumes "hr_ContentType req = http_dnsContentType" "raw \<noteq> []"
  shows "if length raw \<le> dohMessageLimit
    then dohGetRequestHandler lib trunc queryResolver t req (Some (EncodeToString raw)) w =
           dohPostRequestHandler lib trunc queryResolver t req (Some raw) w \<and>
         dohPostRequestHandler lib trunc queryResolver t req (Some raw) w = processDohMessage lib trunc queryResolver t req raw w
    else dohGetRequestHandler lib trunc queryResolver t req (Some (EncodeToString raw)) w = (HttpError 414 (Some ''URI Too Long''), w) \<and>
         dohPostRequestHandler lib trunc queryResolver t req (Some raw) w = (HttpError 413 (Some ''Payload Too Large''), w)"
proof -
  have "EncodedLen 1 \<le> EncodedLen (length raw)" using assms(2) by (intro EncodedLen_mono) (simp add: Suc_leI)
  moreover have "EncodedLen 1 = 2" by code_simp
  ultimately have "EncodeToString raw \<noteq> []" using Decode_Encode(2) [of raw] by auto
  then show ?thesis
    using assms(1) EncodedLen_mono [of "length raw" dohMessageLimit] Decode_Encode [of raw]
    by (auto simp: dohGetRequestHandler_def dohPostRequestHandler_def Let_def)
qed

text \<open>
  The cache time of an answer over HTTPS is the smallest time to live, if none of them is zero; a zero
  followed by other records is passed over, although the answer must not be cached then.
\<close>

theorem http_cache_time:
  assumes "m_Answer m \<noteq> []" "list_all (\<lambda>a. h_Ttl (Header a) \<noteq> 0) (m_Answer m)"
  shows "getSmallestTTLFromAnswer m = Min (set (map (\<lambda>a. h_Ttl (Header a)) (m_Answer m)))"
proof -
  let ?t = "\<lambda>a. h_Ttl (Header a)"
  have step: "fold (\<lambda>a ttl. if ?t a < ttl \<or> ttl = 0 then ?t a else ttl) as ttl = fold min (map ?t as) ttl"
    if "ttl \<noteq> 0" "list_all (\<lambda>a. ?t a \<noteq> 0) as" for as ttl
    using that by (induction as arbitrary: ttl) (auto simp: min_def not_less)
  obtain a as where a: "m_Answer m = a # as" using assms(1) by (cases "m_Answer m") auto
  then have "getSmallestTTLFromAnswer m = fold min (map ?t as) (?t a)"
    using assms(2) step [of "?t a" as] by (simp add: getSmallestTTLFromAnswer_def)
  also have "\<dots> = Min (set (?t a # map ?t as))" by (rule Min.set_eq_fold [symmetric])
  finally show ?thesis by (simp add: a)
qed

theorem http_cache_time_skips_zero:
  assumes "m_Answer m = [a, b]" "h_Ttl (Header a) = 0"
  shows "getSmallestTTLFromAnswer m = h_Ttl (Header b)"
  using assms by (simp add: getSmallestTTLFromAnswer_def)

text \<open>
  Disabling over the API shows in its status: after a reply without error, blocking is disabled for the
  given groups, or for all of them, and is enabled again after the whole seconds of the duration.
\<close>

theorem api_disable_shows_in_status:
  assumes "api_DisableBlocking now dur groups r = (ApiOk (), r')"
    and "(case dur of None \<Rightarrow> Some 0 | Some s \<Rightarrow> ParseDuration s) = Some d" "0 \<le> d"
  shows "api_BlockingStatus now r' = ApiOk \<lparr>api_Enabled = False, api_AutoEnableInSec = (if d div second > 0 then Some (d div second) else None),
    api_DisabledGroups = Some (case groups of None \<Rightarrow> retrieveAllBlockingGroups r
      | Some g \<Rightarrow> if g = [] then retrieveAllBlockingGroups r else splitOn CHR '','' g)\<rparr>"
proof -
  have ne: "retrieveAllBlockingGroups r \<noteq> []" by (metis retrieveAll_set insert_not_empty set_empty)
  let ?gs = "case groups of None \<Rightarrow> [] | Some g \<Rightarrow> if length g > 0 then splitOn CHR '','' g else []"
  have "bstatus r' = bstatus (snd (internalDisableBlocking now d ?gs r)) \<and> fst (internalDisableBlocking now d ?gs r) = None"
    using assms(1,2) by (auto simp: api_DisableBlocking_def DisableBlocking_def Let_def split: prod.splits option.splits if_splits)
  then show ?thesis
    using assms(3) ne
    by (auto simp: api_BlockingStatus_def get_BlockingStatus_def internalDisableBlocking_def second_def Let_def splitOn_nonempty
        split: option.splits if_splits)
qed

text \<open>A list of addresses in the header of a proxy gives no client address.\<close>

theorem forwarded_list_has_no_address:
  "HTTPClientIP \<lparr>hr_Host = [], hr_RemoteAddr = ''10.0.0.9:4711'', hr_ForwardedFor = ''10.0.0.1, 10.0.0.2'', hr_ContentType = [], hr_clientID = []\<rparr> = None"
  "HTTPClientIP \<lparr>hr_Host = [], hr_RemoteAddr = ''10.0.0.9:4711'', hr_ForwardedFor = [], hr_ContentType = [], hr_clientID = []\<rparr> = ParseIP ''10.0.0.9''"
  by code_simp+

theorem doh_get_is_post_witness:
  "dohGetRequestHandler (packing_lib new_Msg) (\<lambda>_ m. m) (\<lambda>rq n. (Panic NilDereference, rq, n + 1)) 0
      \<lparr>hr_Host = [], hr_RemoteAddr = [], hr_ForwardedFor = [], hr_ContentType = http_dnsContentType, hr_clientID = []\<rparr> (Some ''cXVl'') (0 :: nat) =
    processDohMessage (packing_lib new_Msg) (\<lambda>_ m. m) (\<lambda>rq n. (Panic NilDereference, rq, n + 1)) 0
      \<lparr>hr_Host = [], hr_RemoteAddr = [], hr_ForwardedFor = [], hr_ContentType = http_dnsContentType, hr_clientID = []\<rparr> ''que'' 0"
proof -
  let ?r = "\<lparr>hr_Host = [], hr_RemoteAddr = [], hr_ForwardedFor = [], hr_ContentType = http_dnsContentType, hr_clientID = []\<rparr>"
  have "EncodeToString ''que'' = ''cXVl''" by code_simp
  then show ?thesis
    using doh_get_is_post [of ?r "''que''" "packing_lib new_Msg" "\<lambda>_ m. m" "\<lambda>rq n. (Panic NilDereference, rq, n + 1)" 0 "0 :: nat"]
    by (simp add: dohMessageLimit_def)
qed

end
