(* ===== verification/Web_Css.thy ===== *)
theory Web_Css
  imports Prelude
begin

text \<open>
  The style sheets of the API documentation page (web/static/rapidoc-min.js), as data, and
  what a style sheet means: which rules apply to an element, which declaration of a property
  wins, and which custom properties its values need.

  A value is a list of tokens: text, a custom property, or a custom property with a fallback.
  Shorthand properties are not expanded: a declaration is looked up under the name it has.
\<close>

section \<open>Style sheets\<close>

datatype css_token = Tx string | Va string | VaOr string string

type_synonym css_value = "css_token list"
type_synonym css_decls = "(string \<times> css_value) list"

datatype css_simple =
    STag string | SCls string | SId string | SAttr string | SStar
  | SPseudo string | SPseudoEl string
  | SNot "css_simple list"
  | SWhere "css_simple list list"

datatype css_comb = Desc | Child | Adjacent | Sibling

type_synonym css_compound = "css_simple list"
type_synonym css_selector = "(css_comb \<times> css_compound) list"

datatype css_rule =
    Rule "css_selector list" css_decls
  | Media string "css_rule list"
  | Keyframes string "(string \<times> css_decls) list"

type_synonym css_sheet = "css_rule list"

section \<open>Elements and matching\<close>

text \<open>
  An element as selectors see it: the attribute conditions and the pseudo-classes that hold
  for it, and the pseudo-element of it that is styled, if it is one. A context is the
  element and its ancestors, innermost first, each with its preceding siblings, nearest first.
\<close>

record css_element =
  el_tag :: string
  el_id :: string
  el_classes :: "string list"
  el_attrs :: "string list"
  el_states :: "string list"
  el_pseudo :: "string option"

type_synonym css_context = "(css_element \<times> css_element list) list"

fun simple_matches :: "css_element \<Rightarrow> css_simple \<Rightarrow> bool" where
  "simple_matches e (STag t) = (el_tag e = t)"
| "simple_matches e (SCls c) = (c \<in> set (el_classes e))"
| "simple_matches e (SId i) = (el_id e = i)"
| "simple_matches e (SAttr a) = (a \<in> set (el_attrs e))"
| "simple_matches e SStar = True"
| "simple_matches e (SPseudo p) = (p \<in> set (el_states e))"
| "simple_matches e (SPseudoEl p) = (el_pseudo e = Some p)"
| "simple_matches e (SNot xs) = (\<not> list_all (simple_matches e) xs)"
| "simple_matches e (SWhere xss) = list_ex (list_all (simple_matches e)) xss"

fun is_pseudo_element :: "css_simple \<Rightarrow> bool" where
  "is_pseudo_element (SPseudoEl _) = True" | "is_pseudo_element _ = False"

definition compound_matches :: "css_element \<Rightarrow> css_compound \<Rightarrow> bool" where
  "compound_matches e c \<longleftrightarrow>
     list_all (simple_matches e) c \<and> (el_pseudo e \<noteq> None \<longrightarrow> list_ex is_pseudo_element c)"

fun tails :: "'a list \<Rightarrow> 'a list list" where
  "tails [] = [[]]" | "tails (x # xs) = (x # xs) # tails xs"

text \<open>The selector from its last part to its first.\<close>

primrec match_rev :: "css_selector \<Rightarrow> css_context \<Rightarrow> bool" where
  "match_rev [] ctx = True"
| "match_rev (part # rest) ctx =
     (case ctx of
        [] \<Rightarrow> False
      | (e, sibs) # anc \<Rightarrow>
          compound_matches e (snd part) \<and>
          (rest = [] \<or>
           (case fst part of
              Desc \<Rightarrow> list_ex (match_rev rest) (tails anc)
            | Child \<Rightarrow> match_rev rest anc
            | Adjacent \<Rightarrow> (case sibs of [] \<Rightarrow> False | s # ss \<Rightarrow> match_rev rest ((s, ss) # anc))
            | Sibling \<Rightarrow> list_ex (\<lambda>t. case t of [] \<Rightarrow> False | s # ss \<Rightarrow> match_rev rest ((s, ss) # anc)) (tails sibs))))"

definition selector_matches :: "css_context \<Rightarrow> css_selector \<Rightarrow> bool" where
  "selector_matches ctx s = match_rev (rev s) ctx"

section \<open>The cascade\<close>

type_synonym specificity = "nat \<times> nat \<times> nat"

definition spec_add :: "specificity \<Rightarrow> specificity \<Rightarrow> specificity" where
  "spec_add x y = (case (x, y) of ((a, b, c), (a', b', c')) \<Rightarrow> (a + a', b + b', c + c'))"

definition spec_le :: "specificity \<Rightarrow> specificity \<Rightarrow> bool" where
  "spec_le x y = (case (x, y) of ((a, b, c), (a', b', c')) \<Rightarrow>
     a < a' \<or> a = a' \<and> (b < b' \<or> b = b' \<and> c \<le> c'))"

fun simple_spec :: "css_simple \<Rightarrow> specificity" where
  "simple_spec (STag _) = (0, 0, 1)" | "simple_spec (SCls _) = (0, 1, 0)" | "simple_spec (SId _) = (1, 0, 0)"
| "simple_spec (SAttr _) = (0, 1, 0)" | "simple_spec SStar = (0, 0, 0)" | "simple_spec (SPseudo _) = (0, 1, 0)"
| "simple_spec (SPseudoEl _) = (0, 0, 1)"
| "simple_spec (SNot xs) = foldr (\<lambda>x. spec_add (simple_spec x)) xs (0, 0, 0)"
| "simple_spec (SWhere _) = (0, 0, 0)"

definition selector_spec :: "css_selector \<Rightarrow> specificity" where
  "selector_spec s = foldr (\<lambda>(_, c). spec_add (foldr (\<lambda>x. spec_add (simple_spec x)) c (0, 0, 0))) s (0, 0, 0)"

text \<open>The plain rules that are in force; \<open>screen\<close> says which media queries hold.\<close>

fun active_rules :: "(string \<Rightarrow> bool) \<Rightarrow> css_rule \<Rightarrow> (css_selector list \<times> css_decls) list" where
  "active_rules screen (Rule sels ds) = [(sels, ds)]"
| "active_rules screen (Media q rs) = (if screen q then concat (map (active_rules screen) rs) else [])"
| "active_rules screen (Keyframes _ _) = []"

definition sheet_rules :: "(string \<Rightarrow> bool) \<Rightarrow> css_sheet list \<Rightarrow> (css_selector list \<times> css_decls) list" where
  "sheet_rules screen sheets = concat (map (active_rules screen) (concat sheets))"

text \<open>The specificity with which a rule applies: the highest of its selectors that match.\<close>

definition rule_spec :: "css_context \<Rightarrow> css_selector list \<Rightarrow> specificity option" where
  "rule_spec ctx sels =
     fold (\<lambda>s best. if selector_matches ctx s
                    then (case best of
                            None \<Rightarrow> Some (selector_spec s)
                          | Some b \<Rightarrow> if spec_le b (selector_spec s) then Some (selector_spec s) else Some b)
                    else best) sels None"

definition last_decl :: "string \<Rightarrow> css_decls \<Rightarrow> css_value option" where
  "last_decl p ds = map_of (rev ds) p"

text \<open>The rules with a declaration of the property, and the value each declares.\<close>

definition relevant :: "string \<Rightarrow> (css_selector list \<times> css_decls) list \<Rightarrow> (css_selector list \<times> css_value) list" where
  "relevant p rules = List.map_filter (\<lambda>(sels, ds). map_option (Pair sels) (last_decl p ds)) rules"

definition cascade_step ::
    "css_context \<Rightarrow> css_selector list \<times> css_value \<Rightarrow> (specificity \<times> css_value) option \<Rightarrow>
     (specificity \<times> css_value) option" where
  "cascade_step ctx rule best =
     (case rule_spec ctx (fst rule) of
        None \<Rightarrow> best
      | Some s \<Rightarrow>
          (case best of
             None \<Rightarrow> Some (s, snd rule)
           | Some (b, u) \<Rightarrow> if spec_le b s then Some (s, snd rule) else Some (b, u)))"

definition css_cascade :: "(string \<Rightarrow> bool) \<Rightarrow> css_sheet list \<Rightarrow> css_context \<Rightarrow> string \<Rightarrow> css_value option" where
  "css_cascade screen sheets ctx p =
     map_option snd (fold (cascade_step ctx) (relevant p (sheet_rules screen sheets)) None)"

section \<open>Custom properties\<close>

text \<open>The text of a value, if every custom property it needs is defined.\<close>

fun resolve_token :: "(string \<times> string) list \<Rightarrow> css_token \<Rightarrow> string option" where
  "resolve_token env (Tx s) = Some s"
| "resolve_token env (Va v) = map_of env v"
| "resolve_token env (VaOr v d) = Some (case map_of env v of Some s \<Rightarrow> s | None \<Rightarrow> d)"

primrec resolve_value :: "(string \<times> string) list \<Rightarrow> css_value \<Rightarrow> string option" where
  "resolve_value env [] = Some []"
| "resolve_value env (t # ts) =
     (case resolve_token env t of
        None \<Rightarrow> None
      | Some s \<Rightarrow> map_option ((@) s) (resolve_value env ts))"

fun rule_values :: "css_rule \<Rightarrow> css_value list" where
  "rule_values (Rule _ ds) = map snd ds"
| "rule_values (Media _ rs) = concat (map rule_values rs)"
| "rule_values (Keyframes _ ks) = concat (map (map snd) (map snd ks))"

definition sheet_values :: "css_sheet \<Rightarrow> css_value list" where
  "sheet_values s = concat (map rule_values s)"

fun needed :: "css_token \<Rightarrow> string list" where
  "needed (Va v) = [v]" | "needed _ = []"

definition needed_vars :: "css_sheet \<Rightarrow> string list" where
  "needed_vars s = concat (map (\<lambda>v. concat (map needed v)) (sheet_values s))"

lemma resolve_value_defined:
  "resolve_value env v \<noteq> None \<longleftrightarrow> (\<forall>t\<in>set v. \<forall>x\<in>set (needed t). map_of env x \<noteq> None)"
proof (induction v)
  case (Cons t ts)
  have "resolve_token env t \<noteq> None \<longleftrightarrow> (\<forall>x\<in>set (needed t). map_of env x \<noteq> None)" by (cases t) auto
  with Cons show ?case by (auto split: option.splits)
qed simp

lemma sheet_resolves:
  "(\<forall>v\<in>set (sheet_values s). resolve_value env v \<noteq> None) \<longleftrightarrow> (\<forall>x\<in>set (needed_vars s). x \<in> set (map fst env))"
proof -
  have "map_of env x \<noteq> None \<longleftrightarrow> x \<in> set (map fst env)" for x by (simp add: map_of_eq_None_iff)
  then show ?thesis unfolding resolve_value_defined needed_vars_def by auto
qed

text \<open>A declared value comes from a rule of the sheets.\<close>

lemma active_rules_values:
  "(sels, ds) \<in> set (active_rules screen r) \<Longrightarrow> v \<in> set (map snd ds) \<Longrightarrow> v \<in> set (rule_values r)"
  by (induction screen r rule: active_rules.induct) (auto split: if_splits)

lemma last_decl_value: "last_decl p ds = Some v \<Longrightarrow> v \<in> set (map snd ds)"
  unfolding last_decl_def by (drule map_of_SomeD) force

lemma cascade_fold_value:
  "fold (cascade_step ctx) rs best = Some (s, v) \<Longrightarrow> v \<in> set (map snd rs) \<or> best = Some (s, v)"
proof (induction rs arbitrary: best)
  case (Cons r rs)
  from Cons.IH [of "cascade_step ctx r best"] Cons.prems
  have "v \<in> set (map snd rs) \<or> cascade_step ctx r best = Some (s, v)" by simp
  then show ?case by (auto simp: cascade_step_def split: option.splits if_splits)
qed simp

lemma relevant_append: "relevant p (a @ b) = relevant p a @ relevant p b"
  by (simp add: relevant_def map_filter_def)

lemma relevant_value: "v \<in> set (map snd (relevant p rules)) \<Longrightarrow> \<exists>sels ds. (sels, ds) \<in> set rules \<and> v \<in> set (map snd ds)"
proof -
  assume "v \<in> set (map snd (relevant p rules))"
  then obtain sels ds where "(sels, ds) \<in> set rules" "last_decl p ds = Some v"
    by (auto simp: relevant_def map_filter_def split: option.splits)
  then show ?thesis using last_decl_value by blast
qed

text \<open>A value the cascade gives to an element was declared for it in a sheet.\<close>

lemma css_cascade_value:
  assumes "css_cascade screen sheets ctx p = Some v"
  shows "\<exists>s\<in>set sheets. v \<in> set (sheet_values s)"
proof -
  obtain sp where "fold (cascade_step ctx) (relevant p (sheet_rules screen sheets)) None = Some (sp, v)"
    using assms by (auto simp: css_cascade_def)
  from cascade_fold_value [OF this] have "v \<in> set (map snd (relevant p (sheet_rules screen sheets)))" by simp
  then obtain sels ds where "(sels, ds) \<in> set (sheet_rules screen sheets)" and v: "v \<in> set (map snd ds)"
    using relevant_value by blast
  then obtain s r where "s \<in> set sheets" "r \<in> set s" "(sels, ds) \<in> set (active_rules screen r)"
    by (auto simp: sheet_rules_def)
  with active_rules_values [OF this(3) v] show ?thesis by (auto simp: sheet_values_def)
qed

end
