(* ===== verification/Web_Styles.thy ===== *)
theory Web_Styles
  imports Web_Css
begin

text \<open>
  The style sheets the elements of the documentation page share, rule by rule in the order of the
  source. Comments are left out, and white space in values is normalized.
\<close>

text \<open>Fonts, headings and rendered markdown.\<close>

definition Ke_styles_1 :: "css_sheet" where
  \<open>Ke_styles_1 =
    [Rule [[(Desc, [SCls ''hover-bg'', SPseudo ''hover''])]]
       [(''background'', [Va ''bg3''])],
     Rule [[(Desc, [SPseudoEl ''selection''])]]
       [(''background'', [Va ''selection-bg'']),
        (''color'', [Va ''selection-fg''])],
     Rule [[(Desc, [SCls ''regular-font''])]]
       [(''font-family'', [Va ''font-regular''])],
     Rule [[(Desc, [SCls ''mono-font''])]]
       [(''font-family'', [Va ''font-mono''])],
     Rule [[(Desc, [SCls ''title''])]]
       [(''font-size'', [Tx ''calc('', Va ''font-size-small'', Tx '' + 18px)'']),
        (''font-weight'', [Tx ''normal''])],
     Rule [[(Desc, [SCls ''sub-title''])]]
       [(''font-size'', [Tx ''20px''])],
     Rule [[(Desc, [SCls ''req-res-title''])]]
       [(''font-family'', [Va ''font-regular'']),
        (''font-size'', [Tx ''calc('', Va ''font-size-small'', Tx '' + 4px)'']),
        (''font-weight'', [Tx ''bold'']),
        (''margin-bottom'', [Tx ''8px'']),
        (''text-align'', [Tx ''left''])],
     Rule [[(Desc, [SCls ''tiny-title''])]]
       [(''font-size'', [Tx ''calc('', Va ''font-size-small'', Tx '' + 1px)'']),
        (''font-weight'', [Tx ''bold''])],
     Rule [[(Desc, [SCls ''regular-font-size''])]]
       [(''font-size'', [Va ''font-size-regular''])],
     Rule [[(Desc, [SCls ''small-font-size''])]]
       [(''font-size'', [Va ''font-size-small''])],
     Rule [[(Desc, [SCls ''upper''])]]
       [(''text-transform'', [Tx ''uppercase''])],
     Rule [[(Desc, [SCls ''primary-text''])]]
       [(''color'', [Va ''primary-color''])],
     Rule [[(Desc, [SCls ''bold-text''])]]
       [(''font-weight'', [Tx ''bold''])],
     Rule [[(Desc, [SCls ''gray-text''])]]
       [(''color'', [Va ''light-fg''])],
     Rule [[(Desc, [SCls ''red-text''])]]
       [(''color'', [Va ''red''])],
     Rule [[(Desc, [SCls ''blue-text''])]]
       [(''color'', [Va ''blue''])],
     Rule [[(Desc, [SCls ''multiline''])]]
       [(''overflow'', [Tx ''scroll'']),
        (''max-height'', [VaOr ''resp-area-height'' ''400px'']),
        (''color'', [Va ''fg3''])],
     Rule [[(Desc, [SCls ''method-fg'', SCls ''put''])]]
       [(''color'', [Va ''orange''])],
     Rule [[(Desc, [SCls ''method-fg'', SCls ''post''])]]
       [(''color'', [Va ''green''])],
     Rule [[(Desc, [SCls ''method-fg'', SCls ''get''])]]
       [(''color'', [Va ''blue''])],
     Rule [[(Desc, [SCls ''method-fg'', SCls ''delete''])]]
       [(''color'', [Va ''red''])],
     Rule [[(Desc, [SCls ''method-fg'', SCls ''options''])],
       [(Desc, [SCls ''method-fg'', SCls ''head''])],
       [(Desc, [SCls ''method-fg'', SCls ''patch''])]]
       [(''color'', [Va ''yellow''])],
     Rule [[(Desc, [STag ''h1''])]]
       [(''font-family'', [Va ''font-regular'']),
        (''font-size'', [Tx ''28px'']),
        (''padding-top'', [Tx ''10px'']),
        (''letter-spacing'', [Tx ''normal'']),
        (''font-weight'', [Tx ''normal''])],
     Rule [[(Desc, [STag ''h2''])]]
       [(''font-family'', [Va ''font-regular'']),
        (''font-size'', [Tx ''24px'']),
        (''padding-top'', [Tx ''10px'']),
        (''letter-spacing'', [Tx ''normal'']),
        (''font-weight'', [Tx ''normal''])],
     Rule [[(Desc, [STag ''h3''])]]
       [(''font-family'', [Va ''font-regular'']),
        (''font-size'', [Tx ''18px'']),
        (''padding-top'', [Tx ''10px'']),
        (''letter-spacing'', [Tx ''normal'']),
        (''font-weight'', [Tx ''normal''])],
     Rule [[(Desc, [STag ''h4''])]]
       [(''font-family'', [Va ''font-regular'']),
        (''font-size'', [Tx ''16px'']),
        (''padding-top'', [Tx ''10px'']),
        (''letter-spacing'', [Tx ''normal'']),
        (''font-weight'', [Tx ''normal''])],
     Rule [[(Desc, [STag ''h5''])]]
       [(''font-family'', [Va ''font-regular'']),
        (''font-size'', [Tx ''14px'']),
        (''padding-top'', [Tx ''10px'']),
        (''letter-spacing'', [Tx ''normal'']),
        (''font-weight'', [Tx ''normal''])],
     Rule [[(Desc, [STag ''h6''])]]
       [(''font-family'', [Va ''font-regular'']),
        (''font-size'', [Tx ''14px'']),
        (''padding-top'', [Tx ''10px'']),
        (''letter-spacing'', [Tx ''normal'']),
        (''font-weight'', [Tx ''normal''])],
     Rule [[(Desc, [STag ''h1''])],
       [(Desc, [STag ''h2''])],
       [(Desc, [STag ''h3''])],
       [(Desc, [STag ''h4''])],
       [(Desc, [STag ''h5''])],
       [(Desc, [STag ''h5''])]]
       [(''margin-block-end'', [Tx ''0.2em''])],
     Rule [[(Desc, [STag ''p''])]]
       [(''margin-block-start'', [Tx ''0.5em''])],
     Rule [[(Desc, [STag ''a''])]]
       [(''color'', [Va ''blue'']),
        (''cursor'', [Tx ''pointer''])],
     Rule [[(Desc, [STag ''a'', SCls ''inactive-link''])]]
       [(''color'', [Va ''fg'']),
        (''text-decoration'', [Tx ''none'']),
        (''cursor'', [Tx ''text''])],
     Rule [[(Desc, [STag ''code''])],
       [(Desc, [STag ''pre''])]]
       [(''margin'', [Tx ''0px'']),
        (''font-family'', [Va ''font-mono'']),
        (''font-size'', [Tx ''calc('', Va ''font-size-mono'', Tx '' - 1px)''])],
     Rule [[(Desc, [SCls ''m-markdown''])],
       [(Desc, [SCls ''m-markdown-small''])]]
       [(''display'', [Tx ''block''])],
     Rule [[(Desc, [SCls ''m-markdown'']), (Desc, [STag ''p''])],
       [(Desc, [SCls ''m-markdown'']), (Desc, [STag ''span''])]]
       [(''font-size'', [Va ''font-size-regular'']),
        (''line-height'', [Tx ''calc('', Va ''font-size-regular'', Tx '' + 8px)''])],
     Rule [[(Desc, [SCls ''m-markdown'']), (Desc, [STag ''li''])]]
       [(''font-size'', [Va ''font-size-regular'']),
        (''line-height'', [Tx ''calc('', Va ''font-size-regular'', Tx '' + 10px)''])],
     Rule [[(Desc, [SCls ''m-markdown-small'']), (Desc, [STag ''p''])],
       [(Desc, [SCls ''m-markdown-small'']), (Desc, [STag ''span''])],
       [(Desc, [SCls ''m-markdown-small'']), (Desc, [STag ''li''])]]
       [(''font-size'', [Va ''font-size-small'']),
        (''line-height'', [Tx ''calc('', Va ''font-size-small'', Tx '' + 6px)''])],
     Rule [[(Desc, [SCls ''m-markdown-small'']), (Desc, [STag ''li''])]]
       [(''line-height'', [Tx ''calc('', Va ''font-size-small'', Tx '' + 8px)''])]]\<close>

definition Ke_styles_2 :: "css_sheet" where
  \<open>Ke_styles_2 =
    [Rule [[(Desc, [SCls ''m-markdown'']), (Desc, [STag ''p'', SNot [SPseudo ''first-child'']])]]
       [(''margin-block-start'', [Tx ''24px''])],
     Rule [[(Desc, [SCls ''m-markdown-small'']), (Desc, [STag ''p'', SNot [SPseudo ''first-child'']])]]
       [(''margin-block-start'', [Tx ''12px''])],
     Rule [[(Desc, [SCls ''m-markdown-small'']), (Desc, [STag ''p'', SPseudo ''first-child''])]]
       [(''margin-block-start'', [Tx ''0''])],
     Rule [[(Desc, [SCls ''m-markdown'']), (Desc, [STag ''p''])],
       [(Desc, [SCls ''m-markdown-small'']), (Desc, [STag ''p''])]]
       [(''margin-block-end'', [Tx ''0''])],
     Rule [[(Desc, [SCls ''m-markdown'']), (Desc, [STag ''code'']), (Desc, [STag ''span''])]]
       [(''font-size'', [Va ''font-size-mono''])],
     Rule [[(Desc, [SCls ''m-markdown-small'']), (Desc, [STag ''code''])],
       [(Desc, [SCls ''m-markdown'']), (Desc, [STag ''code''])]]
       [(''padding'', [Tx ''1px 6px'']),
        (''border-radius'', [Tx ''2px'']),
        (''color'', [Va ''inline-code-fg'']),
        (''background-color'', [Va ''bg3'']),
        (''font-size'', [Tx ''calc('', Va ''font-size-mono'', Tx '')'']),
        (''line-height'', [Tx ''1.2''])],
     Rule [[(Desc, [SCls ''m-markdown-small'']), (Desc, [STag ''code''])]]
       [(''font-size'', [Tx ''calc('', Va ''font-size-mono'', Tx '' - 1px)''])],
     Rule [[(Desc, [SCls ''m-markdown-small'']), (Desc, [STag ''pre''])],
       [(Desc, [SCls ''m-markdown'']), (Desc, [STag ''pre''])]]
       [(''white-space'', [Tx ''pre-wrap'']),
        (''overflow-x'', [Tx ''auto'']),
        (''line-height'', [Tx ''normal'']),
        (''border-radius'', [Tx ''2px'']),
        (''border'', [Tx ''1px solid '', Va ''code-border-color''])],
     Rule [[(Desc, [SCls ''m-markdown'']), (Desc, [STag ''pre''])]]
       [(''padding'', [Tx ''12px'']),
        (''background-color'', [Va ''code-bg'']),
        (''color'', [Va ''code-fg''])],
     Rule [[(Desc, [SCls ''m-markdown-small'']), (Desc, [STag ''pre''])]]
       [(''margin-top'', [Tx ''4px'']),
        (''padding'', [Tx ''2px 4px'']),
        (''background-color'', [Va ''bg3'']),
        (''color'', [Va ''fg2''])],
     Rule [[(Desc, [SCls ''m-markdown-small'']), (Desc, [STag ''pre'']), (Desc, [STag ''code''])],
       [(Desc, [SCls ''m-markdown'']), (Desc, [STag ''pre'']), (Desc, [STag ''code''])]]
       [(''border'', [Tx ''none'']),
        (''padding'', [Tx ''0''])],
     Rule [[(Desc, [SCls ''m-markdown'']), (Desc, [STag ''pre'']), (Desc, [STag ''code''])]]
       [(''color'', [Va ''code-fg'']),
        (''background-color'', [Va ''code-bg'']),
        (''background-color'', [Tx ''transparent''])],
     Rule [[(Desc, [SCls ''m-markdown-small'']), (Desc, [STag ''pre'']), (Desc, [STag ''code''])]]
       [(''color'', [Va ''fg2'']),
        (''background-color'', [Va ''bg3''])],
     Rule [[(Desc, [SCls ''m-markdown'']), (Desc, [STag ''ul''])],
       [(Desc, [SCls ''m-markdown'']), (Desc, [STag ''ol''])]]
       [(''padding-inline-start'', [Tx ''30px''])],
     Rule [[(Desc, [SCls ''m-markdown-small'']), (Desc, [STag ''ul''])],
       [(Desc, [SCls ''m-markdown-small'']), (Desc, [STag ''ol''])]]
       [(''padding-inline-start'', [Tx ''20px''])],
     Rule [[(Desc, [SCls ''m-markdown-small'']), (Desc, [STag ''a''])],
       [(Desc, [SCls ''m-markdown'']), (Desc, [STag ''a''])]]
       [(''color'', [Va ''blue''])],
     Rule [[(Desc, [SCls ''m-markdown-small'']), (Desc, [STag ''img''])],
       [(Desc, [SCls ''m-markdown'']), (Desc, [STag ''img''])]]
       [(''max-width'', [Tx ''100%''])]]\<close>

definition Ke_styles_3 :: "css_sheet" where
  \<open>Ke_styles_3 =
    [Rule [[(Desc, [SCls ''m-markdown-small'']), (Desc, [STag ''table''])],
       [(Desc, [SCls ''m-markdown'']), (Desc, [STag ''table''])]]
       [(''border-spacing'', [Tx ''0'']),
        (''margin'', [Tx ''10px 0'']),
        (''border-collapse'', [Tx ''separate'']),
        (''border'', [Tx ''1px solid '', Va ''border-color'']),
        (''border-radius'', [Va ''border-radius'']),
        (''font-size'', [Tx ''calc('', Va ''font-size-small'', Tx '' + 1px)'']),
        (''line-height'', [Tx ''calc('', Va ''font-size-small'', Tx '' + 4px)'']),
        (''max-width'', [Tx ''100%''])],
     Rule [[(Desc, [SCls ''m-markdown-small'']), (Desc, [STag ''table''])]]
       [(''font-size'', [Va ''font-size-small'']),
        (''line-height'', [Tx ''calc('', Va ''font-size-small'', Tx '' + 2px)'']),
        (''margin'', [Tx ''8px 0''])],
     Rule [[(Desc, [SCls ''m-markdown-small'']), (Desc, [STag ''td''])],
       [(Desc, [SCls ''m-markdown-small'']), (Desc, [STag ''th''])],
       [(Desc, [SCls ''m-markdown'']), (Desc, [STag ''td''])],
       [(Desc, [SCls ''m-markdown'']), (Desc, [STag ''th''])]]
       [(''vertical-align'', [Tx ''top'']),
        (''border-top'', [Tx ''1px solid '', Va ''border-color'']),
        (''line-height'', [Tx ''calc('', Va ''font-size-small'', Tx '' + 4px)''])],
     Rule [[(Desc, [SCls ''m-markdown-small'']), (Desc, [STag ''tr'', SPseudo ''first-child'']), (Desc, [STag ''th''])],
       [(Desc, [SCls ''m-markdown'']), (Desc, [STag ''tr'', SPseudo ''first-child'']), (Desc, [STag ''th''])]]
       [(''border-top'', [Tx ''0 none''])],
     Rule [[(Desc, [SCls ''m-markdown'']), (Desc, [STag ''th''])],
       [(Desc, [SCls ''m-markdown'']), (Desc, [STag ''td''])]]
       [(''padding'', [Tx ''10px 12px''])],
     Rule [[(Desc, [SCls ''m-markdown-small'']), (Desc, [STag ''th''])],
       [(Desc, [SCls ''m-markdown-small'']), (Desc, [STag ''td''])]]
       [(''padding'', [Tx ''8px 8px''])],
     Rule [[(Desc, [SCls ''m-markdown'']), (Desc, [STag ''th''])],
       [(Desc, [SCls ''m-markdown-small'']), (Desc, [STag ''th''])]]
       [(''font-weight'', [Tx ''600'']),
        (''background-color'', [Va ''bg2'']),
        (''vertical-align'', [Tx ''middle''])],
     Rule [[(Desc, [SCls ''m-markdown-small'']), (Desc, [STag ''table'']), (Desc, [STag ''code''])]]
       [(''font-size'', [Tx ''calc('', Va ''font-size-mono'', Tx '' - 2px)''])],
     Rule [[(Desc, [SCls ''m-markdown'']), (Desc, [STag ''table'']), (Desc, [STag ''code''])]]
       [(''font-size'', [Tx ''calc('', Va ''font-size-mono'', Tx '' - 1px)''])],
     Rule [[(Desc, [SCls ''m-markdown'']), (Desc, [STag ''blockquote''])],
       [(Desc, [SCls ''m-markdown-small'']), (Desc, [STag ''blockquote''])]]
       [(''margin-inline-start'', [Tx ''0'']),
        (''margin-inline-end'', [Tx ''0'']),
        (''border-left'', [Tx ''3px solid '', Va ''border-color'']),
        (''padding'', [Tx ''6px 0 6px 6px''])],
     Rule [[(Desc, [SCls ''m-markdown'']), (Desc, [STag ''hr''])]]
       [(''border'', [Tx ''1px solid '', Va ''border-color''])]]\<close>

definition Ke_styles :: "css_sheet" where
  "Ke_styles = Ke_styles_1 @ Ke_styles_2 @ Ke_styles_3"

text \<open>Buttons and form inputs.\<close>

definition Je_styles_1 :: "css_sheet" where
  \<open>Je_styles_1 =
    [Rule [[(Desc, [SCls ''m-btn''])]]
       [(''border-radius'', [Va ''border-radius'']),
        (''font-weight'', [Tx ''600'']),
        (''display'', [Tx ''inline-block'']),
        (''padding'', [Tx ''6px 16px'']),
        (''font-size'', [Va ''font-size-small'']),
        (''outline'', [Tx ''0'']),
        (''line-height'', [Tx ''1'']),
        (''text-align'', [Tx ''center'']),
        (''white-space'', [Tx ''nowrap'']),
        (''border'', [Tx ''2px solid '', Va ''primary-color'']),
        (''background-color'', [Tx ''transparent'']),
        (''transition'', [Tx ''background-color 0.2s'']),
        (''user-select'', [Tx ''none'']),
        (''cursor'', [Tx ''pointer'']),
        (''box-shadow'', [Tx ''0 1px 3px rgba(0,0,0,0.12), 0 1px 2px rgba(0,0,0,0.24)''])],
     Rule [[(Desc, [SCls ''m-btn'', SCls ''primary''])]]
       [(''background-color'', [Va ''primary-color'']),
        (''color'', [Va ''primary-color-invert''])],
     Rule [[(Desc, [SCls ''m-btn'', SCls ''thin-border''])]]
       [(''border-width'', [Tx ''1px''])],
     Rule [[(Desc, [SCls ''m-btn'', SCls ''large''])]]
       [(''padding'', [Tx ''8px 14px''])],
     Rule [[(Desc, [SCls ''m-btn'', SCls ''small''])]]
       [(''padding'', [Tx ''5px 12px''])],
     Rule [[(Desc, [SCls ''m-btn'', SCls ''tiny''])]]
       [(''padding'', [Tx ''5px 6px''])],
     Rule [[(Desc, [SCls ''m-btn'', SCls ''circle''])]]
       [(''border-radius'', [Tx ''50%''])],
     Rule [[(Desc, [SCls ''m-btn'', SPseudo ''hover''])]]
       [(''background-color'', [Va ''primary-color'']),
        (''color'', [Va ''primary-color-invert''])],
     Rule [[(Desc, [SCls ''m-btn'', SCls ''nav''])]]
       [(''border'', [Tx ''2px solid '', Va ''nav-accent-color''])],
     Rule [[(Desc, [SCls ''m-btn'', SCls ''nav'', SPseudo ''hover''])]]
       [(''background-color'', [Va ''nav-accent-color''])],
     Rule [[(Desc, [SCls ''m-btn'', SPseudo ''disabled''])]]
       [(''background-color'', [Va ''bg3'']),
        (''color'', [Va ''fg3'']),
        (''border-color'', [Va ''fg3'']),
        (''cursor'', [Tx ''not-allowed'']),
        (''opacity'', [Tx ''0.4''])],
     Rule [[(Desc, [SCls ''toolbar-btn''])]]
       [(''cursor'', [Tx ''pointer'']),
        (''padding'', [Tx ''4px'']),
        (''margin'', [Tx ''0 2px'']),
        (''font-size'', [Va ''font-size-small'']),
        (''min-width'', [Tx ''50px'']),
        (''color'', [Va ''primary-color-invert'']),
        (''border-radius'', [Tx ''2px'']),
        (''border'', [Tx ''none'']),
        (''background-color'', [Va ''primary-color''])],
     Rule [[(Desc, [STag ''input''])],
       [(Desc, [STag ''textarea''])],
       [(Desc, [STag ''select''])],
       [(Desc, [STag ''button''])],
       [(Desc, [STag ''pre''])]]
       [(''color'', [Va ''fg'']),
        (''outline'', [Tx ''none'']),
        (''background-color'', [Va ''input-bg'']),
        (''border'', [Tx ''1px solid '', Va ''border-color'']),
        (''border-radius'', [Va ''border-radius''])],
     Rule [[(Desc, [STag ''button''])]]
       [(''font-family'', [Va ''font-regular''])],
     Rule [[(Desc, [STag ''pre''])],
       [(Desc, [STag ''select''])],
       [(Desc, [STag ''textarea''])],
       [(Desc, [STag ''input'', SAttr ''type="file"''])],
       [(Desc, [STag ''input'', SAttr ''type="text"''])],
       [(Desc, [STag ''input'', SAttr ''type="password"''])]]
       [(''font-family'', [Va ''font-mono'']),
        (''font-weight'', [Tx ''400'']),
        (''font-size'', [Va ''font-size-small'']),
        (''transition'', [Tx ''border .2s'']),
        (''padding'', [Tx ''6px 5px''])],
     Rule [[(Desc, [STag ''select''])]]
       [(''font-family'', [Va ''font-regular'']),
        (''padding'', [Tx ''5px 30px 5px 5px'']),
        (''background-image'', [Tx ''url("data:image/svg+xml;charset=utf8,%3Csvg%20xmlns%3D%22http%3A%2F%2Fwww.w3.org%2F2000%2Fsvg%22%20width%3D%2212%22%20height%3D%2212%22%3E%3Cpath%20d%3D%22M10.3%203.3L6%207.6%201.7%203.3A1%201%200%2000.3%204.7l5%205a1%201%200%20001.4%200l5-5a1%201%200%2010-1.4-1.4z%22%20fill%3D%22%23777777%22%2F%3E%3C%2Fsvg%3E")'']),
        (''background-position'', [Tx ''calc(100% - 5px) center'']),
        (''background-repeat'', [Tx ''no-repeat'']),
        (''background-size'', [Tx ''10px'']),
        (''-webkit-appearance'', [Tx ''none'']),
        (''-moz-appearance'', [Tx ''none'']),
        (''appearance'', [Tx ''none'']),
        (''cursor'', [Tx ''pointer''])],
     Rule [[(Desc, [STag ''select'', SPseudo ''hover''])]]
       [(''border-color'', [Va ''primary-color''])],
     Rule [[(Desc, [STag ''textarea'', SPseudoEl ''placeholder''])],
       [(Desc, [STag ''input'', SAttr ''type="text"'', SPseudoEl ''placeholder''])],
       [(Desc, [STag ''input'', SAttr ''type="password"'', SPseudoEl ''placeholder''])]]
       [(''color'', [Va ''placeholder-color'']),
        (''opacity'', [Tx ''1''])]]\<close>

definition Je_styles_2 :: "css_sheet" where
  \<open>Je_styles_2 =
    [Rule [[(Desc, [STag ''input'', SAttr ''type="file"''])]]
       [(''font-family'', [Va ''font-regular'']),
        (''padding'', [Tx ''2px'']),
        (''cursor'', [Tx ''pointer'']),
        (''border'', [Tx ''1px solid '', Va ''primary-color'']),
        (''min-height'', [Tx ''calc('', Va ''font-size-small'', Tx '' + 18px)''])],
     Rule [[(Desc, [STag ''input'', SAttr ''type="file"'', SPseudoEl ''-webkit-file-upload-button''])]]
       [(''font-family'', [Va ''font-regular'']),
        (''font-size'', [Va ''font-size-small'']),
        (''outline'', [Tx ''none'']),
        (''cursor'', [Tx ''pointer'']),
        (''padding'', [Tx ''3px 8px'']),
        (''border'', [Tx ''1px solid '', Va ''primary-color'']),
        (''background-color'', [Va ''primary-color'']),
        (''color'', [Va ''primary-color-invert'']),
        (''border-radius'', [Va ''border-radius'']),
        (''-webkit-appearance'', [Tx ''none''])],
     Rule [[(Desc, [STag ''pre''])],
       [(Desc, [STag ''textarea''])]]
       [(''scrollbar-width'', [Tx ''thin'']),
        (''scrollbar-color'', [Va ''border-color'', Tx '' '', Va ''input-bg''])],
     Rule [[(Desc, [STag ''pre'', SPseudoEl ''-webkit-scrollbar''])],
       [(Desc, [STag ''textarea'', SPseudoEl ''-webkit-scrollbar''])]]
       [(''width'', [Tx ''8px'']),
        (''height'', [Tx ''8px''])],
     Rule [[(Desc, [STag ''pre'', SPseudoEl ''-webkit-scrollbar-track''])],
       [(Desc, [STag ''textarea'', SPseudoEl ''-webkit-scrollbar-track''])]]
       [(''background'', [Va ''input-bg''])],
     Rule [[(Desc, [STag ''pre'', SPseudoEl ''-webkit-scrollbar-thumb''])],
       [(Desc, [STag ''textarea'', SPseudoEl ''-webkit-scrollbar-thumb''])]]
       [(''border-radius'', [Tx ''2px'']),
        (''background-color'', [Va ''border-color''])],
     Rule [[(Desc, [SCls ''link''])]]
       [(''font-size'', [Va ''font-size-small'']),
        (''text-decoration'', [Tx ''underline'']),
        (''color'', [Va ''blue'']),
        (''font-family'', [Va ''font-mono'']),
        (''margin-bottom'', [Tx ''2px''])],
     Rule [[(Desc, [STag ''input'', SAttr ''type="checkbox"''])]]
       [(''appearance'', [Tx ''none'']),
        (''display'', [Tx ''inline-block'']),
        (''background-color'', [Va ''light-bg'']),
        (''border'', [Tx ''1px solid '', Va ''light-bg'']),
        (''border-radius'', [Tx ''9px'']),
        (''cursor'', [Tx ''pointer'']),
        (''height'', [Tx ''18px'']),
        (''position'', [Tx ''relative'']),
        (''transition'', [Tx ''border .25s .15s, box-shadow .25s .3s, padding .25s'']),
        (''min-width'', [Tx ''36px'']),
        (''width'', [Tx ''36px'']),
        (''vertical-align'', [Tx ''top''])],
     Rule [[(Desc, [STag ''input'', SAttr ''type="checkbox"'', SPseudoEl ''after''])]]
       [(''position'', [Tx ''absolute'']),
        (''background-color'', [Va ''bg'']),
        (''border'', [Tx ''1px solid '', Va ''light-bg'']),
        (''border-radius'', [Tx ''8px'']),
        (''content'', [Tx ([CHR 0x27] @ [CHR 0x27])]),
        (''top'', [Tx ''0px'']),
        (''left'', [Tx ''0px'']),
        (''right'', [Tx ''16px'']),
        (''display'', [Tx ''block'']),
        (''height'', [Tx ''16px'']),
        (''transition'', [Tx ''border .25s .15s, left .25s .1s, right .15s .175s''])],
     Rule [[(Desc, [STag ''input'', SAttr ''type="checkbox"'', SPseudo ''checked''])]]
       [(''background-color'', [Va ''green'']),
        (''border-color'', [Va ''green''])],
     Rule [[(Desc, [STag ''input'', SAttr ''type="checkbox"'', SPseudo ''checked'', SPseudoEl ''after''])]]
       [(''border'', [Tx ''1px solid '', Va ''green'']),
        (''left'', [Tx ''16px'']),
        (''right'', [Tx ''1px'']),
        (''transition'', [Tx ''border .25s, left .15s .25s, right .25s .175s''])]]\<close>

definition Je_styles :: "css_sheet" where
  "Je_styles = Je_styles_1 @ Je_styles_2"

text \<open>Rows and columns.\<close>

definition Ye_styles :: "css_sheet" where
  \<open>Ye_styles =
    [Rule [[(Desc, [SCls ''row''])],
       [(Desc, [SCls ''col''])]]
       [(''display'', [Tx ''flex''])],
     Rule [[(Desc, [SCls ''row''])]]
       [(''align-items'', [Tx ''center'']),
        (''flex-direction'', [Tx ''row''])],
     Rule [[(Desc, [SCls ''col''])]]
       [(''align-items'', [Tx ''stretch'']),
        (''flex-direction'', [Tx ''column''])]]\<close>

text \<open>Tables.\<close>

definition Ze_styles :: "css_sheet" where
  \<open>Ze_styles =
    [Rule [[(Desc, [SCls ''m-table''])]]
       [(''border-spacing'', [Tx ''0'']),
        (''border-collapse'', [Tx ''separate'']),
        (''border'', [Tx ''1px solid '', Va ''light-border-color'']),
        (''border-radius'', [Va ''border-radius'']),
        (''margin'', [Tx ''0'']),
        (''max-width'', [Tx ''100%'']),
        (''direction'', [Tx ''ltr''])],
     Rule [[(Desc, [SCls ''m-table'']), (Desc, [STag ''tr'', SPseudo ''first-child'']), (Desc, [STag ''td''])],
       [(Desc, [SCls ''m-table'']), (Desc, [STag ''tr'', SPseudo ''first-child'']), (Desc, [STag ''th''])]]
       [(''border-top'', [Tx ''0 none''])],
     Rule [[(Desc, [SCls ''m-table'']), (Desc, [STag ''td''])],
       [(Desc, [SCls ''m-table'']), (Desc, [STag ''th''])]]
       [(''font-size'', [Va ''font-size-small'']),
        (''line-height'', [Tx ''calc('', Va ''font-size-small'', Tx '' + 4px)'']),
        (''padding'', [Tx ''4px 5px 4px'']),
        (''vertical-align'', [Tx ''top''])],
     Rule [[(Desc, [SCls ''m-table'', SCls ''padded-12'']), (Desc, [STag ''td''])],
       [(Desc, [SCls ''m-table'', SCls ''padded-12'']), (Desc, [STag ''th''])]]
       [(''padding'', [Tx ''12px''])],
     Rule [[(Desc, [SCls ''m-table'']), (Desc, [STag ''td'', SNot [SAttr ''align'']])],
       [(Desc, [SCls ''m-table'']), (Desc, [STag ''th'', SNot [SAttr ''align'']])]]
       [(''text-align'', [Tx ''left''])],
     Rule [[(Desc, [SCls ''m-table'']), (Desc, [STag ''th''])]]
       [(''color'', [Va ''fg2'']),
        (''font-size'', [Va ''font-size-small'']),
        (''line-height'', [Tx ''calc('', Va ''font-size-small'', Tx '' + 18px)'']),
        (''font-weight'', [Tx ''600'']),
        (''letter-spacing'', [Tx ''normal'']),
        (''background-color'', [Va ''bg2'']),
        (''vertical-align'', [Tx ''bottom'']),
        (''border-bottom'', [Tx ''1px solid '', Va ''light-border-color''])],
     Rule [[(Desc, [SCls ''m-table'']), (Child, [STag ''tbody'']), (Child, [STag ''tr'']), (Child, [STag ''td''])],
       [(Desc, [SCls ''m-table'']), (Child, [STag ''tr'']), (Child, [STag ''td''])]]
       [(''border-top'', [Tx ''1px solid '', Va ''light-border-color'']),
        (''text-overflow'', [Tx ''ellipsis'']),
        (''overflow'', [Tx ''hidden''])],
     Rule [[(Desc, [SCls ''table-title''])]]
       [(''font-size'', [Va ''font-size-small'']),
        (''font-weight'', [Tx ''bold'']),
        (''vertical-align'', [Tx ''middle'']),
        (''margin'', [Tx ''12px 0 4px 0''])]]\<close>

text \<open>Endpoints: head, body and the colours of the HTTP methods.\<close>

definition Qe_styles_1 :: "css_sheet" where
  \<open>Qe_styles_1 =
    [Rule [[(Desc, [SCls ''only-large-screen''])]]
       [(''display'', [Tx ''none''])],
     Rule [[(Desc, [SCls ''endpoint-head'']), (Desc, [SCls ''path''])]]
       [(''display'', [Tx ''flex'']),
        (''font-family'', [Va ''font-mono'']),
        (''font-size'', [Va ''font-size-small'']),
        (''align-items'', [Tx ''center'']),
        (''overflow-wrap'', [Tx ''break-word'']),
        (''word-break'', [Tx ''break-all''])],
     Rule [[(Desc, [SCls ''endpoint-head'']), (Desc, [SCls ''descr''])]]
       [(''font-size'', [Va ''font-size-small'']),
        (''color'', [Va ''light-fg'']),
        (''font-weight'', [Tx ''400'']),
        (''align-items'', [Tx ''center'']),
        (''overflow-wrap'', [Tx ''break-word'']),
        (''word-break'', [Tx ''break-all'']),
        (''display'', [Tx ''none''])],
     Rule [[(Desc, [SCls ''m-endpoint'', SCls ''expanded''])]]
       [(''margin-bottom'', [Tx ''16px''])],
     Rule [[(Desc, [SCls ''m-endpoint'']), (Child, [SCls ''endpoint-head''])]]
       [(''border-width'', [Tx ''1px 1px 1px 5px'']),
        (''border-style'', [Tx ''solid'']),
        (''border-color'', [Tx ''transparent'']),
        (''border-top-color'', [Va ''light-border-color'']),
        (''display'', [Tx ''flex'']),
        (''padding'', [Tx ''6px 16px'']),
        (''align-items'', [Tx ''center'']),
        (''cursor'', [Tx ''pointer''])],
     Rule [[(Desc, [SCls ''m-endpoint'']), (Child, [SCls ''endpoint-head'', SCls ''put'', SPseudo ''hover''])],
       [(Desc, [SCls ''m-endpoint'']), (Child, [SCls ''endpoint-head'', SCls ''put'', SCls ''expanded''])]]
       [(''border-color'', [Va ''orange'']),
        (''background-color'', [Va ''light-orange''])],
     Rule [[(Desc, [SCls ''m-endpoint'']), (Child, [SCls ''endpoint-head'', SCls ''post'', SPseudo ''hover''])],
       [(Desc, [SCls ''m-endpoint'']), (Child, [SCls ''endpoint-head'', SCls ''post'', SCls ''expanded''])]]
       [(''border-color'', [Va ''green'']),
        (''background-color'', [Va ''light-green''])],
     Rule [[(Desc, [SCls ''m-endpoint'']), (Child, [SCls ''endpoint-head'', SCls ''get'', SPseudo ''hover''])],
       [(Desc, [SCls ''m-endpoint'']), (Child, [SCls ''endpoint-head'', SCls ''get'', SCls ''expanded''])]]
       [(''border-color'', [Va ''blue'']),
        (''background-color'', [Va ''light-blue''])],
     Rule [[(Desc, [SCls ''m-endpoint'']), (Child, [SCls ''endpoint-head'', SCls ''delete'', SPseudo ''hover''])],
       [(Desc, [SCls ''m-endpoint'']), (Child, [SCls ''endpoint-head'', SCls ''delete'', SCls ''expanded''])]]
       [(''border-color'', [Va ''red'']),
        (''background-color'', [Va ''light-red''])],
     Rule [[(Desc, [SCls ''m-endpoint'']), (Child, [SCls ''endpoint-head'', SCls ''head'', SPseudo ''hover''])],
       [(Desc, [SCls ''m-endpoint'']), (Child, [SCls ''endpoint-head'', SCls ''head'', SCls ''expanded''])],
       [(Desc, [SCls ''m-endpoint'']), (Child, [SCls ''endpoint-head'', SCls ''patch'', SPseudo ''hover''])],
       [(Desc, [SCls ''m-endpoint'']), (Child, [SCls ''endpoint-head'', SCls ''patch'', SCls ''expanded''])],
       [(Desc, [SCls ''m-endpoint'']), (Child, [SCls ''endpoint-head'', SCls ''options'', SPseudo ''hover''])],
       [(Desc, [SCls ''m-endpoint'']), (Child, [SCls ''endpoint-head'', SCls ''options'', SCls ''expanded''])]]
       [(''border-color'', [Va ''yellow'']),
        (''background-color'', [Va ''light-yellow''])],
     Rule [[(Desc, [SCls ''m-endpoint'']), (Child, [SCls ''endpoint-head'', SCls ''deprecated'', SPseudo ''hover''])],
       [(Desc, [SCls ''m-endpoint'']), (Child, [SCls ''endpoint-head'', SCls ''deprecated'', SCls ''expanded''])]]
       [(''border-color'', [Va ''border-color'']),
        (''filter'', [Tx ''opacity(0.6)''])],
     Rule [[(Desc, [SCls ''m-endpoint'']), (Desc, [SCls ''endpoint-body''])]]
       [(''flex-wrap'', [Tx ''wrap'']),
        (''padding'', [Tx ''16px 0px 0 0px'']),
        (''border-width'', [Tx ''0px 1px 1px 5px'']),
        (''border-style'', [Tx ''solid'']),
        (''box-shadow'', [Tx ''0px 4px 3px -3px rgba(0, 0, 0, 0.15)''])],
     Rule [[(Desc, [SCls ''m-endpoint'']), (Desc, [SCls ''endpoint-body'', SCls ''delete''])]]
       [(''border-color'', [Va ''red''])],
     Rule [[(Desc, [SCls ''m-endpoint'']), (Desc, [SCls ''endpoint-body'', SCls ''put''])]]
       [(''border-color'', [Va ''orange''])],
     Rule [[(Desc, [SCls ''m-endpoint'']), (Desc, [SCls ''endpoint-body'', SCls ''post''])]]
       [(''border-color'', [Va ''green''])],
     Rule [[(Desc, [SCls ''m-endpoint'']), (Desc, [SCls ''endpoint-body'', SCls ''get''])]]
       [(''border-color'', [Va ''blue''])],
     Rule [[(Desc, [SCls ''m-endpoint'']), (Desc, [SCls ''endpoint-body'', SCls ''head''])],
       [(Desc, [SCls ''m-endpoint'']), (Desc, [SCls ''endpoint-body'', SCls ''patch''])],
       [(Desc, [SCls ''m-endpoint'']), (Desc, [SCls ''endpoint-body'', SCls ''options''])]]
       [(''border-color'', [Va ''yellow''])],
     Rule [[(Desc, [SCls ''m-endpoint'']), (Desc, [SCls ''endpoint-body'', SCls ''deprecated''])]]
       [(''border-color'', [Va ''border-color'']),
        (''filter'', [Tx ''opacity(0.6)''])],
     Rule [[(Desc, [SCls ''endpoint-head'']), (Desc, [SCls ''deprecated''])]]
       [(''color'', [Va ''light-fg'']),
        (''filter'', [Tx ''opacity(0.6)''])],
     Rule [[(Desc, [SCls ''summary''])]]
       [(''padding'', [Tx ''8px 8px''])]]\<close>

definition Qe_styles_2 :: "css_sheet" where
  \<open>Qe_styles_2 =
    [Rule [[(Desc, [SCls ''summary'']), (Desc, [SCls ''title''])]]
       [(''font-size'', [Tx ''calc('', Va ''font-size-regular'', Tx '' + 2px)'']),
        (''margin-bottom'', [Tx ''6px'']),
        (''word-break'', [Tx ''break-all''])],
     Rule [[(Desc, [SCls ''endpoint-head'']), (Desc, [SCls ''method''])]]
       [(''padding'', [Tx ''2px 5px'']),
        (''vertical-align'', [Tx ''middle'']),
        (''font-size'', [Va ''font-size-small'']),
        (''height'', [Tx ''calc('', Va ''font-size-small'', Tx '' + 16px)'']),
        (''line-height'', [Tx ''calc('', Va ''font-size-small'', Tx '' + 8px)'']),
        (''width'', [Tx ''60px'']),
        (''border-radius'', [Tx ''2px'']),
        (''display'', [Tx ''inline-block'']),
        (''text-align'', [Tx ''center'']),
        (''font-weight'', [Tx ''bold'']),
        (''text-transform'', [Tx ''uppercase'']),
        (''margin-right'', [Tx ''5px''])],
     Rule [[(Desc, [SCls ''endpoint-head'']), (Desc, [SCls ''method'', SCls ''delete''])]]
       [(''border'', [Tx ''2px solid '', Va ''red''])],
     Rule [[(Desc, [SCls ''endpoint-head'']), (Desc, [SCls ''method'', SCls ''put''])]]
       [(''border'', [Tx ''2px solid '', Va ''orange''])],
     Rule [[(Desc, [SCls ''endpoint-head'']), (Desc, [SCls ''method'', SCls ''post''])]]
       [(''border'', [Tx ''2px solid '', Va ''green''])],
     Rule [[(Desc, [SCls ''endpoint-head'']), (Desc, [SCls ''method'', SCls ''get''])]]
       [(''border'', [Tx ''2px solid '', Va ''blue''])],
     Rule [[(Desc, [SCls ''endpoint-head'']), (Desc, [SCls ''method'', SCls ''get'', SCls ''deprecated''])]]
       [(''border'', [Tx ''2px solid '', Va ''border-color''])],
     Rule [[(Desc, [SCls ''endpoint-head'']), (Desc, [SCls ''method'', SCls ''head''])],
       [(Desc, [SCls ''endpoint-head'']), (Desc, [SCls ''method'', SCls ''patch''])],
       [(Desc, [SCls ''endpoint-head'']), (Desc, [SCls ''method'', SCls ''options''])]]
       [(''border'', [Tx ''2px solid '', Va ''yellow''])],
     Rule [[(Desc, [SCls ''req-resp-container''])]]
       [(''display'', [Tx ''flex'']),
        (''margin-top'', [Tx ''16px'']),
        (''align-items'', [Tx ''stretch'']),
        (''flex-wrap'', [Tx ''wrap'']),
        (''flex-direction'', [Tx ''column'']),
        (''border-top'', [Tx ''1px solid '', Va ''light-border-color''])],
     Rule [[(Desc, [SCls ''view-mode-request''])],
       [(Desc, [STag ''api-response'', SCls ''view-mode''])]]
       [(''flex'', [Tx ''1'']),
        (''min-height'', [Tx ''100px'']),
        (''padding'', [Tx ''16px 8px'']),
        (''overflow'', [Tx ''hidden''])],
     Rule [[(Desc, [SCls ''view-mode-request''])]]
       [(''border-width'', [Tx ''0 0 1px 0'']),
        (''border-style'', [Tx ''dashed''])],
     Rule [[(Desc, [SCls ''head'']), (Desc, [SCls ''view-mode-request''])],
       [(Desc, [SCls ''patch'']), (Desc, [SCls ''view-mode-request''])],
       [(Desc, [SCls ''options'']), (Desc, [SCls ''view-mode-request''])]]
       [(''border-color'', [Va ''yellow''])],
     Rule [[(Desc, [SCls ''put'']), (Desc, [SCls ''view-mode-request''])]]
       [(''border-color'', [Va ''orange''])],
     Rule [[(Desc, [SCls ''post'']), (Desc, [SCls ''view-mode-request''])]]
       [(''border-color'', [Va ''green''])],
     Rule [[(Desc, [SCls ''get'']), (Desc, [SCls ''view-mode-request''])]]
       [(''border-color'', [Va ''blue''])],
     Rule [[(Desc, [SCls ''delete'']), (Desc, [SCls ''view-mode-request''])]]
       [(''border-color'', [Va ''red''])],
     Media ''only screen and (min-width: 1024px)''
       [Rule [[(Desc, [SCls ''only-large-screen''])]]
          [(''display'', [Tx ''block''])],
        Rule [[(Desc, [SCls ''endpoint-head'']), (Desc, [SCls ''path''])]]
          [(''font-size'', [Va ''font-size-regular''])],
        Rule [[(Desc, [SCls ''endpoint-head'']), (Desc, [SCls ''descr''])]]
          [(''display'', [Tx ''flex''])],
        Rule [[(Desc, [SCls ''endpoint-head'']), (Desc, [SCls ''m-markdown-small''])],
          [(Desc, [SCls ''descr'']), (Desc, [SCls ''m-markdown-small''])]]
          [(''display'', [Tx ''block''])],
        Rule [[(Desc, [SCls ''req-resp-container''])]]
          [(''flex-direction'', [VaOr ''layout'' ''row'']),
           (''flex-wrap'', [Tx ''nowrap''])],
        Rule [[(Desc, [STag ''api-response'', SCls ''view-mode''])]]
          [(''padding'', [Tx ''16px''])],
        Rule [[(Desc, [SCls ''view-mode-request'', SCls ''row-layout''])]]
          [(''border-width'', [Tx ''0 1px 0 0'']),
           (''padding'', [Tx ''16px''])],
        Rule [[(Desc, [SCls ''summary''])]]
          [(''padding'', [Tx ''8px 16px''])]]]\<close>

definition Qe_styles :: "css_sheet" where
  "Qe_styles = Qe_styles_1 @ Qe_styles_2"

text \<open>Highlighted source code.\<close>

definition Xe_styles :: "css_sheet" where
  \<open>Xe_styles =
    [Rule [[(Desc, [STag ''code'', SAttr ''class*="language-"''])],
       [(Desc, [STag ''pre'', SAttr ''class*="language-"''])]]
       [(''text-align'', [Tx ''left'']),
        (''white-space'', [Tx ''pre'']),
        (''word-spacing'', [Tx ''normal'']),
        (''word-break'', [Tx ''normal'']),
        (''word-wrap'', [Tx ''normal'']),
        (''line-height'', [Tx ''1.5'']),
        (''tab-size'', [Tx ''2'']),
        (''-webkit-hyphens'', [Tx ''none'']),
        (''-moz-hyphens'', [Tx ''none'']),
        (''-ms-hyphens'', [Tx ''none'']),
        (''hyphens'', [Tx ''none''])],
     Rule [[(Desc, [STag ''pre'', SAttr ''class*="language-"''])]]
       [(''padding'', [Tx ''1em'']),
        (''margin'', [Tx ''.5em 0'']),
        (''overflow'', [Tx ''auto''])],
     Rule [[(Desc, [SNot [STag ''pre'']]), (Child, [STag ''code'', SAttr ''class*="language-"''])]]
       [(''white-space'', [Tx ''normal''])],
     Rule [[(Desc, [SCls ''token'', SCls ''comment''])],
       [(Desc, [SCls ''token'', SCls ''block-comment''])],
       [(Desc, [SCls ''token'', SCls ''prolog''])],
       [(Desc, [SCls ''token'', SCls ''doctype''])],
       [(Desc, [SCls ''token'', SCls ''cdata''])]]
       [(''color'', [Va ''light-fg''])],
     Rule [[(Desc, [SCls ''token'', SCls ''punctuation''])]]
       [(''color'', [Va ''fg''])],
     Rule [[(Desc, [SCls ''token'', SCls ''tag''])],
       [(Desc, [SCls ''token'', SCls ''attr-name''])],
       [(Desc, [SCls ''token'', SCls ''namespace''])],
       [(Desc, [SCls ''token'', SCls ''deleted''])]]
       [(''color'', [Va ''pink''])],
     Rule [[(Desc, [SCls ''token'', SCls ''function-name''])]]
       [(''color'', [Va ''blue''])],
     Rule [[(Desc, [SCls ''token'', SCls ''boolean''])],
       [(Desc, [SCls ''token'', SCls ''number''])],
       [(Desc, [SCls ''token'', SCls ''function''])]]
       [(''color'', [Va ''red''])],
     Rule [[(Desc, [SCls ''token'', SCls ''property''])],
       [(Desc, [SCls ''token'', SCls ''class-name''])],
       [(Desc, [SCls ''token'', SCls ''constant''])],
       [(Desc, [SCls ''token'', SCls ''symbol''])]]
       [(''color'', [Va ''code-property-color''])],
     Rule [[(Desc, [SCls ''token'', SCls ''selector''])],
       [(Desc, [SCls ''token'', SCls ''important''])],
       [(Desc, [SCls ''token'', SCls ''atrule''])],
       [(Desc, [SCls ''token'', SCls ''keyword''])],
       [(Desc, [SCls ''token'', SCls ''builtin''])]]
       [(''color'', [Va ''code-keyword-color''])],
     Rule [[(Desc, [SCls ''token'', SCls ''string''])],
       [(Desc, [SCls ''token'', SCls ''char''])],
       [(Desc, [SCls ''token'', SCls ''attr-value''])],
       [(Desc, [SCls ''token'', SCls ''regex''])],
       [(Desc, [SCls ''token'', SCls ''variable''])]]
       [(''color'', [Va ''green''])],
     Rule [[(Desc, [SCls ''token'', SCls ''operator''])],
       [(Desc, [SCls ''token'', SCls ''entity''])],
       [(Desc, [SCls ''token'', SCls ''url''])]]
       [(''color'', [Va ''code-operator-color''])],
     Rule [[(Desc, [SCls ''token'', SCls ''important''])],
       [(Desc, [SCls ''token'', SCls ''bold''])]]
       [(''font-weight'', [Tx ''bold''])],
     Rule [[(Desc, [SCls ''token'', SCls ''italic''])]]
       [(''font-style'', [Tx ''italic''])],
     Rule [[(Desc, [SCls ''token'', SCls ''entity''])]]
       [(''cursor'', [Tx ''help''])],
     Rule [[(Desc, [SCls ''token'', SCls ''inserted''])]]
       [(''color'', [Tx ''green''])]]\<close>

text \<open>Tabs.\<close>

definition et_styles :: "css_sheet" where
  \<open>et_styles =
    [Rule [[(Desc, [SCls ''tab-panel''])]]
       [(''border'', [Tx ''none''])],
     Rule [[(Desc, [SCls ''tab-buttons''])]]
       [(''height'', [Tx ''30px'']),
        (''padding'', [Tx ''4px 4px 0 4px'']),
        (''border-bottom'', [Tx ''1px solid '', Va ''light-border-color'']),
        (''align-items'', [Tx ''stretch'']),
        (''overflow-y'', [Tx ''hidden'']),
        (''overflow-x'', [Tx ''auto'']),
        (''scrollbar-width'', [Tx ''thin''])],
     Rule [[(Desc, [SCls ''tab-buttons'', SPseudoEl ''-webkit-scrollbar''])]]
       [(''height'', [Tx ''1px'']),
        (''background-color'', [Va ''border-color''])],
     Rule [[(Desc, [SCls ''tab-btn''])]]
       [(''border'', [Tx ''none'']),
        (''border-bottom'', [Tx ''3px solid transparent'']),
        (''color'', [Va ''light-fg'']),
        (''background-color'', [Tx ''transparent'']),
        (''white-space'', [Tx ''nowrap'']),
        (''cursor'', [Tx ''pointer'']),
        (''outline'', [Tx ''none'']),
        (''font-family'', [Va ''font-regular'']),
        (''font-size'', [Va ''font-size-small'']),
        (''margin-right'', [Tx ''16px'']),
        (''padding'', [Tx ''1px''])],
     Rule [[(Desc, [SCls ''tab-btn'', SCls ''active''])]]
       [(''border-bottom'', [Tx ''3px solid '', Va ''primary-color'']),
        (''font-weight'', [Tx ''bold'']),
        (''color'', [Va ''primary-color''])],
     Rule [[(Desc, [SCls ''tab-btn'', SPseudo ''hover''])]]
       [(''color'', [Va ''primary-color''])],
     Rule [[(Desc, [SCls ''tab-content''])]]
       [(''margin'', [Tx ''-1px 0 0 0'']),
        (''position'', [Tx ''relative'']),
        (''min-height'', [Tx ''50px''])]]\<close>

text \<open>The navigation bar.\<close>

definition tt_styles_1 :: "css_sheet" where
  \<open>tt_styles_1 =
    [Rule [[(Desc, [SCls ''nav-bar-info'', SPseudo ''focus-visible''])],
       [(Desc, [SCls ''nav-bar-tag'', SPseudo ''focus-visible''])],
       [(Desc, [SCls ''nav-bar-path'', SPseudo ''focus-visible''])]]
       [(''outline'', [Tx ''1px solid'']),
        (''box-shadow'', [Tx ''none'']),
        (''outline-offset'', [Tx ''-4px''])],
     Rule [[(Desc, [SCls ''nav-bar-expand-all'', SPseudo ''focus-visible''])],
       [(Desc, [SCls ''nav-bar-collapse-all'', SPseudo ''focus-visible''])],
       [(Desc, [SCls ''nav-bar-tag-icon'', SPseudo ''focus-visible''])]]
       [(''outline'', [Tx ''1px solid'']),
        (''box-shadow'', [Tx ''none'']),
        (''outline-offset'', [Tx ''2px''])],
     Rule [[(Desc, [SCls ''nav-bar''])]]
       [(''width'', [Tx ''0'']),
        (''height'', [Tx ''100%'']),
        (''overflow'', [Tx ''hidden'']),
        (''color'', [Va ''nav-text-color'']),
        (''background-color'', [Va ''nav-bg-color'']),
        (''background-blend-mode'', [Tx ''multiply'']),
        (''line-height'', [Tx ''calc('', Va ''font-size-small'', Tx '' + 4px)'']),
        (''display'', [Tx ''none'']),
        (''position'', [Tx ''relative'']),
        (''flex-direction'', [Tx ''column'']),
        (''flex-wrap'', [Tx ''nowrap'']),
        (''word-break'', [Tx ''break-word''])],
     Rule [[(Desc, [SPseudoEl ''slotted([slot=nav-logo])''])]]
       [(''padding'', [Tx ''16px 16px 0 16px''])],
     Rule [[(Desc, [SCls ''nav-scroll''])]]
       [(''overflow-x'', [Tx ''hidden'']),
        (''overflow-y'', [Tx ''auto'']),
        (''overflow-y'', [Tx ''overlay'']),
        (''scrollbar-width'', [Tx ''thin'']),
        (''scrollbar-color'', [Va ''nav-hover-bg-color'', Tx '' transparent''])],
     Rule [[(Desc, [SCls ''nav-bar-tag''])]]
       [(''display'', [Tx ''flex'']),
        (''align-items'', [Tx ''center'']),
        (''justify-content'', [Tx ''space-between'']),
        (''flex-direction'', [Tx ''row''])],
     Rule [[(Desc, [SCls ''nav-bar'', SCls ''read'']), (Desc, [SCls ''nav-bar-tag-icon''])]]
       [(''display'', [Tx ''none''])],
     Rule [[(Desc, [SCls ''nav-bar-paths-under-tag''])]]
       [(''overflow'', [Tx ''hidden'']),
        (''transition'', [Tx ''max-height .2s ease-out, visibility .3s''])],
     Rule [[(Desc, [SCls ''collapsed'']), (Desc, [SCls ''nav-bar-paths-under-tag''])]]
       [(''visibility'', [Tx ''hidden''])],
     Rule [[(Desc, [SCls ''nav-bar-expand-all''])]]
       [(''transform'', [Tx ''rotate(90deg)'']),
        (''cursor'', [Tx ''pointer'']),
        (''margin-right'', [Tx ''10px''])],
     Rule [[(Desc, [SCls ''nav-bar-collapse-all''])]]
       [(''transform'', [Tx ''rotate(270deg)'']),
        (''cursor'', [Tx ''pointer''])],
     Rule [[(Desc, [SCls ''nav-bar-expand-all'', SPseudo ''hover''])],
       [(Desc, [SCls ''nav-bar-collapse-all'', SPseudo ''hover''])]]
       [(''color'', [Va ''primary-color''])],
     Rule [[(Desc, [SCls ''nav-bar-tag-icon''])]]
       [(''color'', [Va ''nav-text-color'']),
        (''font-size'', [Tx ''20px''])],
     Rule [[(Desc, [SCls ''nav-bar-tag-icon'', SPseudo ''hover''])]]
       [(''color'', [Va ''nav-hover-text-color''])],
     Rule [[(Desc, [SCls ''nav-bar'', SCls ''focused'']), (Desc, [SCls ''nav-bar-tag-and-paths'', SCls ''collapsed'']), (Desc, [SCls ''nav-bar-tag-icon'', SPseudoEl ''after''])]]
       [(''content'', [Tx ([CHR 0x27] @ [CHR 0xE2, CHR 0x8C, CHR 0xB5] @ [CHR 0x27])]),
        (''width'', [Tx ''16px'']),
        (''height'', [Tx ''16px'']),
        (''text-align'', [Tx ''center'']),
        (''display'', [Tx ''inline-block'']),
        (''transform'', [Tx ''rotate(-90deg)'']),
        (''transition'', [Tx ''transform 0.2s ease-out 0s''])],
     Rule [[(Desc, [SCls ''nav-bar'', SCls ''focused'']), (Desc, [SCls ''nav-bar-tag-and-paths'', SCls ''expanded'']), (Desc, [SCls ''nav-bar-tag-icon'', SPseudoEl ''after''])]]
       [(''content'', [Tx ([CHR 0x27] @ [CHR 0xE2, CHR 0x8C, CHR 0xB5] @ [CHR 0x27])]),
        (''width'', [Tx ''16px'']),
        (''height'', [Tx ''16px'']),
        (''text-align'', [Tx ''center'']),
        (''display'', [Tx ''inline-block'']),
        (''transition'', [Tx ''transform 0.2s ease-out 0s''])],
     Rule [[(Desc, [SCls ''nav-scroll'', SPseudoEl ''-webkit-scrollbar''])]]
       [(''width'', [VaOr ''scroll-bar-width'' ''8px''])],
     Rule [[(Desc, [SCls ''nav-scroll'', SPseudoEl ''-webkit-scrollbar-track''])]]
       [(''background'', [Tx ''transparent''])]]\<close>

definition tt_styles_2 :: "css_sheet" where
  \<open>tt_styles_2 =
    [Rule [[(Desc, [SCls ''nav-scroll'', SPseudoEl ''-webkit-scrollbar-thumb''])]]
       [(''background-color'', [Va ''nav-hover-bg-color''])],
     Rule [[(Desc, [SCls ''nav-bar-tag''])]]
       [(''font-size'', [Va ''font-size-regular'']),
        (''color'', [Va ''nav-accent-color'']),
        (''border-left'', [Tx ''4px solid transparent'']),
        (''font-weight'', [Tx ''bold'']),
        (''padding'', [Tx ''15px 15px 15px 10px'']),
        (''text-transform'', [Tx ''capitalize''])],
     Rule [[(Desc, [SCls ''nav-bar-components''])],
       [(Desc, [SCls ''nav-bar-h1''])],
       [(Desc, [SCls ''nav-bar-h2''])],
       [(Desc, [SCls ''nav-bar-info''])],
       [(Desc, [SCls ''nav-bar-tag''])],
       [(Desc, [SCls ''nav-bar-path''])]]
       [(''display'', [Tx ''flex'']),
        (''cursor'', [Tx ''pointer'']),
        (''width'', [Tx ''100%'']),
        (''border'', [Tx ''none'']),
        (''border-radius'', [Tx ''4px'']),
        (''color'', [Va ''nav-text-color'']),
        (''background'', [Tx ''transparent'']),
        (''border-left'', [Tx ''4px solid transparent''])],
     Rule [[(Desc, [SCls ''nav-bar-h1''])],
       [(Desc, [SCls ''nav-bar-h2''])],
       [(Desc, [SCls ''nav-bar-path''])]]
       [(''font-size'', [Tx ''calc('', Va ''font-size-small'', Tx '' + 1px)'']),
        (''padding'', [Va ''nav-item-padding''])],
     Rule [[(Desc, [SCls ''nav-bar-path'', SCls ''small-font''])]]
       [(''font-size'', [Va ''font-size-small''])],
     Rule [[(Desc, [SCls ''nav-bar-info''])]]
       [(''font-size'', [Va ''font-size-regular'']),
        (''padding'', [Tx ''16px 10px'']),
        (''font-weight'', [Tx ''bold''])],
     Rule [[(Desc, [SCls ''nav-bar-section''])]]
       [(''display'', [Tx ''flex'']),
        (''flex-direction'', [Tx ''row'']),
        (''justify-content'', [Tx ''space-between'']),
        (''font-size'', [Va ''font-size-small'']),
        (''color'', [Va ''nav-text-color'']),
        (''padding'', [Va ''nav-item-padding'']),
        (''font-weight'', [Tx ''bold''])],
     Rule [[(Desc, [SCls ''nav-bar-section'', SCls ''operations''])]]
       [(''cursor'', [Tx ''pointer''])],
     Rule [[(Desc, [SCls ''nav-bar-section'', SCls ''operations'', SPseudo ''hover''])]]
       [(''color'', [Va ''nav-hover-text-color'']),
        (''background-color'', [Va ''nav-hover-bg-color''])],
     Rule [[(Desc, [SCls ''nav-bar-section'', SPseudo ''first-child''])]]
       [(''display'', [Tx ''none''])],
     Rule [[(Desc, [SCls ''nav-bar-h2''])]]
       [(''margin-left'', [Tx ''12px''])],
     Rule [[(Desc, [SCls ''nav-bar-h1'', SCls ''left-bar'', SCls ''active''])],
       [(Desc, [SCls ''nav-bar-h2'', SCls ''left-bar'', SCls ''active''])],
       [(Desc, [SCls ''nav-bar-info'', SCls ''left-bar'', SCls ''active''])],
       [(Desc, [SCls ''nav-bar-tag'', SCls ''left-bar'', SCls ''active''])],
       [(Desc, [SCls ''nav-bar-path'', SCls ''left-bar'', SCls ''active''])],
       [(Desc, [SCls ''nav-bar-section'', SCls ''left-bar'', SCls ''operations'', SCls ''active''])]]
       [(''border-left'', [Tx ''4px solid '', Va ''nav-accent-color'']),
        (''color'', [Va ''nav-hover-text-color''])],
     Rule [[(Desc, [SCls ''nav-bar-h1'', SCls ''colored-block'', SCls ''active''])],
       [(Desc, [SCls ''nav-bar-h2'', SCls ''colored-block'', SCls ''active''])],
       [(Desc, [SCls ''nav-bar-info'', SCls ''colored-block'', SCls ''active''])],
       [(Desc, [SCls ''nav-bar-tag'', SCls ''colored-block'', SCls ''active''])],
       [(Desc, [SCls ''nav-bar-path'', SCls ''colored-block'', SCls ''active''])],
       [(Desc, [SCls ''nav-bar-section'', SCls ''colored-block'', SCls ''operations'', SCls ''active''])]]
       [(''background-color'', [Va ''nav-accent-color'']),
        (''color'', [Va ''nav-accent-text-color'']),
        (''border-radius'', [Tx ''0''])],
     Rule [[(Desc, [SCls ''nav-bar-h1'', SPseudo ''hover''])],
       [(Desc, [SCls ''nav-bar-h2'', SPseudo ''hover''])],
       [(Desc, [SCls ''nav-bar-info'', SPseudo ''hover''])],
       [(Desc, [SCls ''nav-bar-tag'', SPseudo ''hover''])],
       [(Desc, [SCls ''nav-bar-path'', SPseudo ''hover''])]]
       [(''color'', [Va ''nav-hover-text-color'']),
        (''background-color'', [Va ''nav-hover-bg-color''])]]\<close>

definition tt_styles :: "css_sheet" where
  "tt_styles = tt_styles_1 @ tt_styles_2"

text \<open>The line below the title of the API.\<close>

definition rt_styles :: "css_sheet" where
  \<open>rt_styles =
    [Rule [[(Desc, [SId ''api-info''])]]
       [(''font-size'', [Tx ''calc('', Va ''font-size-regular'', Tx '' - 1px)'']),
        (''margin-top'', [Tx ''8px'']),
        (''margin-left'', [Tx ''-15px''])],
     Rule [[(Desc, [SId ''api-info'']), (Desc, [STag ''span'', SPseudoEl ''before''])]]
       [(''content'', [Tx ''"|"'']),
        (''display'', [Tx ''inline-block'']),
        (''opacity'', [Tx ''0.5'']),
        (''width'', [Tx ''15px'']),
        (''text-align'', [Tx ''center''])],
     Rule [[(Desc, [SId ''api-info'']), (Desc, [STag ''span'', SPseudo ''first-child'', SPseudoEl ''before''])]]
       [(''content'', [Tx ''""'']),
        (''width'', [Tx ''0px''])]]\<close>

text \<open>A sheet for customization, empty.\<close>

definition nt_styles :: "css_sheet" where
  \<open>nt_styles =
    []\<close>

text \<open>Borders and spacing.\<close>

definition SP_styles :: "css_sheet" where
  \<open>SP_styles =
    [Rule [[(Desc, [SCls ''border-top''])]]
       [(''border-top'', [Tx ''1px solid '', Va ''border-color''])],
     Rule [[(Desc, [SCls ''border''])]]
       [(''border'', [Tx ''1px solid '', Va ''border-color'']),
        (''border-radius'', [Va ''border-radius''])],
     Rule [[(Desc, [SCls ''light-border''])]]
       [(''border'', [Tx ''1px solid '', Va ''light-border-color'']),
        (''border-radius'', [Va ''border-radius''])],
     Rule [[(Desc, [SCls ''pad-8-16''])]]
       [(''padding'', [Tx ''8px 16px''])],
     Rule [[(Desc, [SCls ''pad-top-8''])]]
       [(''padding-top'', [Tx ''8px''])],
     Rule [[(Desc, [SCls ''mar-top-8''])]]
       [(''margin-top'', [Tx ''8px''])]]\<close>

end
