(* ===== verification/Web_Element_Styles.thy ===== *)
theory Web_Element_Styles
  imports Web_Styles
begin

text \<open>
  The style sheets of the single elements of the documentation page, and the sheets each element uses.
\<close>

text \<open>Element \<open>json-tree\<close>.\<close>

definition json_tree_styles :: "css_sheet" where
  \<open>json_tree_styles =
    [Rule [[(Desc, [SPseudo ''host''])]]
       [(''display'', [Tx ''flex''])],
     Rule [[(Desc, [SWhere [[STag ''button''], [STag ''input'', SAttr ''type="checkbox"''], [SAttr ''tabindex="0"'']], SPseudo ''focus-visible''])]]
       [(''box-shadow'', [Va ''focus-shadow''])],
     Rule [[(Desc, [SWhere [[STag ''input'', SAttr ''type="text"''], [STag ''input'', SAttr ''type="password"''], [STag ''select''], [STag ''textarea'']], SPseudo ''focus-visible''])]]
       [(''border-color'', [Va ''primary-color''])],
     Rule [[(Desc, [SCls ''json-tree''])]]
       [(''position'', [Tx ''relative'']),
        (''font-family'', [Va ''font-mono'']),
        (''font-size'', [Va ''font-size-small'']),
        (''display'', [Tx ''inline-block'']),
        (''overflow'', [Tx ''hidden'']),
        (''word-break'', [Tx ''break-all'']),
        (''flex'', [Tx ''1'']),
        (''line-height'', [Tx ''calc('', Va ''font-size-small'', Tx '' + 6px)'']),
        (''min-height'', [Tx ''40px'']),
        (''direction'', [Tx ''ltr'']),
        (''text-align'', [Tx ''left''])],
     Rule [[(Desc, [SCls ''open-bracket''])]]
       [(''display'', [Tx ''inline-block'']),
        (''padding'', [Tx ''0 20px 0 0'']),
        (''cursor'', [Tx ''pointer'']),
        (''border'', [Tx ''1px solid transparent'']),
        (''border-radius'', [Tx ''3px''])],
     Rule [[(Desc, [SCls ''close-bracket''])]]
       [(''border'', [Tx ''1px solid transparent'']),
        (''border-radius'', [Tx ''3px'']),
        (''display'', [Tx ''inline-block''])],
     Rule [[(Desc, [SCls ''open-bracket'', SPseudo ''hover''])]]
       [(''color'', [Va ''primary-color'']),
        (''background-color'', [Va ''hover-color'']),
        (''border'', [Tx ''1px solid '', Va ''border-color''])],
     Rule [[(Desc, [SCls ''open-bracket'', SCls ''expanded'', SPseudo ''hover'']), (Sibling, [SCls ''inside-bracket''])]]
       [(''border-left'', [Tx ''1px solid '', Va ''fg3''])],
     Rule [[(Desc, [SCls ''open-bracket'', SCls ''expanded'', SPseudo ''hover'']), (Sibling, [SCls ''close-bracket''])]]
       [(''color'', [Va ''primary-color''])],
     Rule [[(Desc, [SCls ''inside-bracket''])]]
       [(''padding-left'', [Tx ''12px'']),
        (''overflow'', [Tx ''hidden'']),
        (''border-left'', [Tx ''1px dotted '', Va ''border-color''])],
     Rule [[(Desc, [SCls ''open-bracket'', SCls ''collapsed'']), (Adjacent, [SCls ''inside-bracket''])],
       [(Desc, [SCls ''open-bracket'', SCls ''collapsed'']), (Adjacent, [SCls ''inside-bracket'']), (Adjacent, [SCls ''close-bracket''])]]
       [(''display'', [Tx ''none''])],
     Rule [[(Desc, [SCls ''string''])]]
       [(''color'', [Va ''green''])],
     Rule [[(Desc, [SCls ''number''])]]
       [(''color'', [Va ''blue''])],
     Rule [[(Desc, [SCls ''null''])]]
       [(''color'', [Va ''red''])],
     Rule [[(Desc, [SCls ''boolean''])]]
       [(''color'', [Va ''purple''])],
     Rule [[(Desc, [SCls ''object''])]]
       [(''color'', [Va ''fg''])],
     Rule [[(Desc, [SCls ''toolbar''])]]
       [(''position'', [Tx ''absolute'']),
        (''top'', [Tx ''5px'']),
        (''right'', [Tx ''6px'']),
        (''display'', [Tx ''flex'']),
        (''padding'', [Tx ''2px'']),
        (''align-items'', [Tx ''center''])]]\<close>

text \<open>Trees and tables of schemas.\<close>

definition UP_styles_1 :: "css_sheet" where
  \<open>UP_styles_1 =
    [Rule [[(Desc, [SStar])],
       [(Desc, [SStar, SPseudoEl ''before''])],
       [(Desc, [SStar, SPseudoEl ''after''])]]
       [(''box-sizing'', [Tx ''border-box''])],
     Rule [[(Desc, [SCls ''tr''])]]
       [(''display'', [Tx ''flex'']),
        (''flex'', [Tx ''none'']),
        (''width'', [Tx ''100%'']),
        (''box-sizing'', [Tx ''content-box'']),
        (''border-bottom'', [Tx ''1px dotted transparent'']),
        (''transition'', [Tx ''max-height 0.3s ease-out''])],
     Rule [[(Desc, [SCls ''td''])]]
       [(''display'', [Tx ''block'']),
        (''flex'', [Tx ''0 0 auto''])],
     Rule [[(Desc, [SCls ''key''])]]
       [(''font-family'', [Va ''font-mono'']),
        (''white-space'', [Tx ''normal'']),
        (''word-break'', [Tx ''break-all''])],
     Rule [[(Desc, [SCls ''collapsed-all-descr'']), (Desc, [SCls ''key''])]]
       [(''overflow'', [Tx ''hidden''])],
     Rule [[(Desc, [SCls ''expanded-all-descr'']), (Desc, [SCls ''key-descr'']), (Desc, [SCls ''descr-expand-toggle''])]]
       [(''display'', [Tx ''none''])],
     Rule [[(Desc, [SCls ''key-descr'']), (Desc, [SCls ''descr-expand-toggle''])]]
       [(''display'', [Tx ''inline-block'']),
        (''user-select'', [Tx ''none'']),
        (''color'', [Va ''fg'']),
        (''cursor'', [Tx ''pointer'']),
        (''transform'', [Tx ''rotate(45deg)'']),
        (''transition'', [Tx ''transform .2s ease''])],
     Rule [[(Desc, [SCls ''expanded-descr'']), (Desc, [SCls ''key-descr'']), (Desc, [SCls ''descr-expand-toggle''])]]
       [(''transform'', [Tx ''rotate(270deg)''])],
     Rule [[(Desc, [SCls ''key-descr'']), (Desc, [SCls ''descr-expand-toggle'', SPseudo ''hover''])]]
       [(''color'', [Va ''primary-color''])],
     Rule [[(Desc, [SCls ''expanded-descr'']), (Desc, [SCls ''more-content''])]]
       [(''display'', [Tx ''none''])],
     Rule [[(Desc, [SCls ''key-descr''])]]
       [(''font-family'', [Va ''font-regular'']),
        (''color'', [Va ''light-fg'']),
        (''flex-shrink'', [Tx ''1'']),
        (''text-overflow'', [Tx ''ellipsis'']),
        (''overflow'', [Tx ''hidden'']),
        (''display'', [Tx ''none''])],
     Rule [[(Desc, [SCls ''expanded-descr'']), (Desc, [SCls ''key-descr''])]]
       [(''max-height'', [Tx ''auto'']),
        (''overflow'', [Tx ''hidden'']),
        (''display'', [Tx ''none''])],
     Rule [[(Desc, [SCls ''xxx-of-key''])]]
       [(''font-size'', [Tx ''calc('', Va ''font-size-small'', Tx '' - 2px)'']),
        (''font-weight'', [Tx ''bold'']),
        (''background-color'', [Va ''primary-color'']),
        (''color'', [Va ''primary-color-invert'']),
        (''border-radius'', [Tx ''2px'']),
        (''line-height'', [Tx ''calc('', Va ''font-size-small'', Tx '' + 6px)'']),
        (''padding'', [Tx ''0px 5px'']),
        (''margin-bottom'', [Tx ''1px'']),
        (''display'', [Tx ''inline-block''])],
     Rule [[(Desc, [SCls ''xxx-of-descr''])]]
       [(''font-family'', [Va ''font-regular'']),
        (''color'', [Va ''primary-color'']),
        (''font-size'', [Tx ''calc('', Va ''font-size-small'', Tx '' - 1px)'']),
        (''margin-left'', [Tx ''2px''])],
     Rule [[(Desc, [SCls ''stri''])],
       [(Desc, [SCls ''string''])],
       [(Desc, [SCls ''uri''])],
       [(Desc, [SCls ''url''])],
       [(Desc, [SCls ''byte''])],
       [(Desc, [SCls ''bina''])],
       [(Desc, [SCls ''date''])],
       [(Desc, [SCls ''pass''])],
       [(Desc, [SCls ''ipv4''])],
       [(Desc, [SCls ''ipv4''])],
       [(Desc, [SCls ''uuid''])],
       [(Desc, [SCls ''emai''])],
       [(Desc, [SCls ''host''])]]
       [(''color'', [Va ''green''])],
     Rule [[(Desc, [SCls ''inte''])],
       [(Desc, [SCls ''numb''])],
       [(Desc, [SCls ''number''])],
       [(Desc, [SCls ''int6''])],
       [(Desc, [SCls ''int3''])],
       [(Desc, [SCls ''floa''])],
       [(Desc, [SCls ''doub''])],
       [(Desc, [SCls ''deci'']), (Desc, [SCls ''blue''])]]
       [(''color'', [Va ''blue''])],
     Rule [[(Desc, [SCls ''null''])]]
       [(''color'', [Va ''red''])],
     Rule [[(Desc, [SCls ''bool''])],
       [(Desc, [SCls ''boolean''])]]
       [(''color'', [Va ''orange''])],
     Rule [[(Desc, [SCls ''enum''])]]
       [(''color'', [Va ''purple''])],
     Rule [[(Desc, [SCls ''cons''])]]
       [(''color'', [Va ''purple''])],
     Rule [[(Desc, [SCls ''recu''])]]
       [(''color'', [Va ''brown''])],
     Rule [[(Desc, [SCls ''toolbar''])]]
       [(''display'', [Tx ''flex'']),
        (''width'', [Tx ''100%'']),
        (''padding'', [Tx ''2px 0'']),
        (''color'', [Va ''primary-color''])],
     Rule [[(Desc, [SCls ''toolbar-item''])]]
       [(''cursor'', [Tx ''pointer'']),
        (''padding'', [Tx ''5px 0'']),
        (''margin'', [Tx ''0 2px''])]]\<close>

definition UP_styles_2 :: "css_sheet" where
  \<open>UP_styles_2 =
    [Rule [[(Desc, [SCls ''schema-root-type''])]]
       [(''cursor'', [Tx ''auto'']),
        (''color'', [Va ''fg2'']),
        (''font-weight'', [Tx ''bold'']),
        (''text-transform'', [Tx ''uppercase''])],
     Rule [[(Desc, [SCls ''toolbar-item'', SPseudo ''first-of-type''])]]
       [(''margin'', [Tx ''0 2px 0 0''])],
     Media ''only screen and (min-width: 500px)''
       [Rule [[(Desc, [SCls ''key-descr''])]]
          [(''display'', [Tx ''block''])],
        Rule [[(Desc, [SCls ''expanded-descr'']), (Desc, [SCls ''key-descr''])]]
          [(''display'', [Tx ''block''])]]]\<close>

definition UP_styles :: "css_sheet" where
  "UP_styles = UP_styles_1 @ UP_styles_2"

text \<open>Element \<open>schema-tree\<close>.\<close>

definition schema_tree_styles :: "css_sheet" where
  \<open>schema_tree_styles =
    [Rule [[(Desc, [SCls ''tree''])]]
       [(''font-size'', [Va ''font-size-small'']),
        (''text-align'', [Tx ''left'']),
        (''direction'', [Tx ''ltr'']),
        (''line-height'', [Tx ''calc('', Va ''font-size-small'', Tx '' + 6px)''])],
     Rule [[(Desc, [SCls ''tree'']), (Desc, [SCls ''tr'', SPseudo ''hover''])]]
       [(''background-color'', [Va ''hover-color''])],
     Rule [[(Desc, [SCls ''collapsed-all-descr'']), (Desc, [SCls ''tr'', SNot [SCls ''expanded-descr'']])]]
       [(''overflow'', [Tx ''hidden'']),
        (''max-height'', [Tx ''calc('', Va ''font-size-small'', Tx '' + 8px)''])],
     Rule [[(Desc, [SCls ''tree'']), (Desc, [SCls ''key''])]]
       [(''max-width'', [Tx ''300px''])],
     Rule [[(Desc, [SCls ''key'', SCls ''deprecated'']), (Desc, [SCls ''key-label''])]]
       [(''color'', [Va ''red''])],
     Rule [[(Desc, [SCls ''tr'', SCls ''expanded'', SPseudo ''hover'']), (Child, [SCls ''td'', SCls ''key'']), (Child, [SCls ''open-bracket''])]]
       [(''color'', [Va ''primary-color''])],
     Rule [[(Desc, [SCls ''tr'', SCls ''expanded'', SPseudo ''hover'']), (Adjacent, [SCls ''inside-bracket''])]]
       [(''border-left'', [Tx ''1px solid '', Va ''fg3''])],
     Rule [[(Desc, [SCls ''tr'', SCls ''expanded'', SPseudo ''hover'']), (Adjacent, [SCls ''inside-bracket'']), (Adjacent, [SCls ''close-bracket''])]]
       [(''color'', [Va ''primary-color''])],
     Rule [[(Desc, [SCls ''inside-bracket'', SCls ''xxx-of-option''])]]
       [(''border-left'', [Tx ''1px solid transparent''])],
     Rule [[(Desc, [SCls ''open-bracket''])]]
       [(''display'', [Tx ''inline-block'']),
        (''padding'', [Tx ''0 20px 0 0'']),
        (''cursor'', [Tx ''pointer'']),
        (''border'', [Tx ''1px solid transparent'']),
        (''border-radius'', [Tx ''3px''])],
     Rule [[(Desc, [SCls ''open-bracket'', SPseudo ''hover''])]]
       [(''color'', [Va ''primary-color'']),
        (''background-color'', [Va ''hover-color'']),
        (''border'', [Tx ''1px solid '', Va ''border-color''])],
     Rule [[(Desc, [SCls ''close-bracket''])]]
       [(''display'', [Tx ''inline-block'']),
        (''font-family'', [Va ''font-mono''])],
     Rule [[(Desc, [SCls ''tr'', SCls ''collapsed'']), (Adjacent, [SCls ''inside-bracket''])],
       [(Desc, [SCls ''tr'', SCls ''collapsed'']), (Adjacent, [SCls ''inside-bracket'']), (Adjacent, [SCls ''close-bracket''])]]
       [(''overflow'', [Tx ''hidden'']),
        (''display'', [Tx ''none''])],
     Rule [[(Desc, [SCls ''inside-bracket'', SCls ''object''])],
       [(Desc, [SCls ''inside-bracket'', SCls ''array''])]]
       [(''border-left'', [Tx ''1px dotted '', Va ''border-color''])]]\<close>

text \<open>Element \<open>tag-input\<close>.\<close>

definition tag_input_styles :: "css_sheet" where
  \<open>tag_input_styles =
    [Rule [[(Desc, [SCls ''tags''])]]
       [(''display'', [Tx ''flex'']),
        (''flex-wrap'', [Tx ''wrap'']),
        (''outline'', [Tx ''none'']),
        (''padding'', [Tx ''0'']),
        (''border-radius'', [Va ''border-radius'']),
        (''border'', [Tx ''1px solid '', Va ''border-color'']),
        (''cursor'', [Tx ''text'']),
        (''overflow'', [Tx ''hidden'']),
        (''background'', [Va ''input-bg''])],
     Rule [[(Desc, [SCls ''tag''])],
       [(Desc, [SCls ''editor''])]]
       [(''padding'', [Tx ''3px'']),
        (''margin'', [Tx ''2px''])],
     Rule [[(Desc, [SCls ''tag''])]]
       [(''border'', [Tx ''1px solid '', Va ''border-color'']),
        (''background-color'', [Va ''bg3'']),
        (''color'', [Va ''fg3'']),
        (''border-radius'', [Va ''border-radius'']),
        (''word-break'', [Tx ''break-all'']),
        (''font-size'', [Va ''font-size-small''])],
     Rule [[(Desc, [SCls ''tag'', SPseudo ''hover'']), (Sibling, [SId ''cursor''])]]
       [(''display'', [Tx ''block''])],
     Rule [[(Desc, [SCls ''editor''])]]
       [(''flex'', [Tx ''1'']),
        (''border'', [Tx ''1px solid transparent'']),
        (''color'', [Va ''fg'']),
        (''min-width'', [Tx ''60px'']),
        (''outline'', [Tx ''none'']),
        (''line-height'', [Tx ''inherit'']),
        (''font-family'', [Tx ''inherit'']),
        (''background'', [Tx ''transparent'']),
        (''font-size'', [Tx ''calc('', Va ''font-size-small'', Tx '' + 1px)''])],
     Rule [[(Desc, [SCls ''editor'', SPseudo ''focus-visible''])]]
       [(''outline'', [Tx ''1px solid''])],
     Rule [[(Desc, [SCls ''editor'', SPseudoEl ''placeholder''])]]
       [(''color'', [Va ''placeholder-color'']),
        (''opacity'', [Tx ''1''])]]\<close>

text \<open>Element \<open>api-request\<close>.\<close>

definition api_request_styles :: "css_sheet" where
  \<open>api_request_styles =
    [Rule [[(Desc, [SStar])],
       [(Desc, [SStar, SPseudoEl ''before''])],
       [(Desc, [SStar, SPseudoEl ''after''])]]
       [(''box-sizing'', [Tx ''border-box''])],
     Rule [[(Desc, [SWhere [[STag ''button''], [STag ''input'', SAttr ''type="checkbox"''], [SAttr ''tabindex="0"'']], SPseudo ''focus-visible''])]]
       [(''box-shadow'', [Va ''focus-shadow''])],
     Rule [[(Desc, [SWhere [[STag ''input'', SAttr ''type="text"''], [STag ''input'', SAttr ''type="password"''], [STag ''select''], [STag ''textarea'']], SPseudo ''focus-visible''])]]
       [(''border-color'', [Va ''primary-color''])],
     Rule [[(Desc, [STag ''tag-input'', SPseudo ''focus-within''])]]
       [(''outline'', [Tx ''1px solid''])],
     Rule [[(Desc, [SCls ''read-mode''])]]
       [(''margin-top'', [Tx ''24px''])],
     Rule [[(Desc, [SCls ''param-name''])],
       [(Desc, [SCls ''param-type''])]]
       [(''margin'', [Tx ''1px 0'']),
        (''text-align'', [Tx ''right'']),
        (''line-height'', [Va ''font-size-small''])],
     Rule [[(Desc, [SCls ''param-name''])]]
       [(''color'', [Va ''fg'']),
        (''font-family'', [Va ''font-mono''])],
     Rule [[(Desc, [SCls ''param-name'', SCls ''deprecated''])]]
       [(''color'', [Va ''red''])],
     Rule [[(Desc, [SCls ''param-type''])]]
       [(''color'', [Va ''light-fg'']),
        (''font-family'', [Va ''font-regular''])],
     Rule [[(Desc, [SCls ''param-constraint''])]]
       [(''min-width'', [Tx ''100px''])],
     Rule [[(Desc, [SCls ''param-constraint'', SPseudo ''empty''])]]
       [(''display'', [Tx ''none''])],
     Rule [[(Desc, [SCls ''top-gap''])]]
       [(''margin-top'', [Tx ''24px''])],
     Rule [[(Desc, [SCls ''textarea''])]]
       [(''min-height'', [Tx ''220px'']),
        (''padding'', [Tx ''5px'']),
        (''resize'', [Tx ''vertical'']),
        (''direction'', [Tx ''ltr''])],
     Rule [[(Desc, [SCls ''example'', SPseudo ''first-child''])]]
       [(''margin-top'', [Tx ''-9px''])],
     Rule [[(Desc, [SCls ''response-message''])]]
       [(''font-weight'', [Tx ''bold'']),
        (''text-overflow'', [Tx ''ellipsis''])],
     Rule [[(Desc, [SCls ''response-message'', SCls ''error''])]]
       [(''color'', [Va ''red''])],
     Rule [[(Desc, [SCls ''response-message'', SCls ''success''])]]
       [(''color'', [Va ''blue''])],
     Rule [[(Desc, [SCls ''file-input-container''])]]
       [(''align-items'', [Tx ''flex-end''])],
     Rule [[(Desc, [SCls ''file-input-container'']), (Desc, [SCls ''input-set'', SPseudo ''first-child'']), (Desc, [SCls ''file-input-remove-btn''])]]
       [(''visibility'', [Tx ''hidden''])],
     Rule [[(Desc, [SCls ''file-input-remove-btn''])]]
       [(''font-size'', [Tx ''16px'']),
        (''color'', [Va ''red'']),
        (''outline'', [Tx ''none'']),
        (''border'', [Tx ''none'']),
        (''background'', [Tx ''none'']),
        (''cursor'', [Tx ''pointer''])],
     Rule [[(Desc, [SCls ''v-tab-btn''])]]
       [(''font-size'', [Va ''smal-font-size'']),
        (''height'', [Tx ''24px'']),
        (''border'', [Tx ''none'']),
        (''background'', [Tx ''none'']),
        (''opacity'', [Tx ''0.3'']),
        (''cursor'', [Tx ''pointer'']),
        (''padding'', [Tx ''4px 8px''])],
     Rule [[(Desc, [SCls ''v-tab-btn'', SCls ''active''])]]
       [(''font-weight'', [Tx ''bold'']),
        (''background'', [Va ''bg'']),
        (''opacity'', [Tx ''1''])],
     Media ''only screen and (min-width: 768px)''
       [Rule [[(Desc, [SCls ''textarea''])]]
          [(''padding'', [Tx ''8px''])]],
     Media ''only screen and (max-width: 470px)''
       [Rule [[(Desc, [SCls ''hide-in-small-screen''])]]
          [(''display'', [Tx ''none''])]]]\<close>

text \<open>Element \<open>schema-table\<close>.\<close>

definition schema_table_styles :: "css_sheet" where
  \<open>schema_table_styles =
    [Rule [[(Desc, [SCls ''table''])]]
       [(''font-size'', [Va ''font-size-small'']),
        (''text-align'', [Tx ''left'']),
        (''line-height'', [Tx ''calc('', Va ''font-size-small'', Tx '' + 6px)''])],
     Rule [[(Desc, [SCls ''table'']), (Desc, [SCls ''tr''])]]
       [(''width'', [Tx ''calc(100% - 5px)'']),
        (''padding'', [Tx ''0 0 0 5px'']),
        (''border-bottom'', [Tx ''1px dotted '', Va ''light-border-color''])],
     Rule [[(Desc, [SCls ''table'']), (Desc, [SCls ''td''])]]
       [(''padding'', [Tx ''4px 0''])],
     Rule [[(Desc, [SCls ''table'']), (Desc, [SCls ''key''])]]
       [(''width'', [Tx ''240px''])],
     Rule [[(Desc, [SCls ''key'']), (Desc, [SCls ''key-label''])]]
       [(''font-size'', [Va ''font-size-mono''])],
     Rule [[(Desc, [SCls ''key'', SCls ''deprecated'']), (Desc, [SCls ''key-label''])]]
       [(''color'', [Va ''red''])],
     Rule [[(Desc, [SCls ''table'']), (Desc, [SCls ''key-type''])]]
       [(''white-space'', [Tx ''normal'']),
        (''width'', [Tx ''150px''])],
     Rule [[(Desc, [SCls ''collapsed-all-descr'']), (Desc, [SCls ''tr'', SNot [SCls ''expanded-descr'']])]]
       [(''max-height'', [Tx ''calc('', Va ''font-size-small'', Tx '' + '', Va ''font-size-small'', Tx '')''])],
     Rule [[(Desc, [SCls ''obj-toggle''])]]
       [(''padding'', [Tx ''0 2px'']),
        (''border-radius'', [Tx ''2px'']),
        (''border'', [Tx ''1px solid transparent'']),
        (''display'', [Tx ''inline-block'']),
        (''margin-left'', [Tx ''-16px'']),
        (''color'', [Va ''primary-color'']),
        (''cursor'', [Tx ''pointer'']),
        (''font-size'', [Tx ''calc('', Va ''font-size-small'', Tx '' + 4px)'']),
        (''font-family'', [Va ''font-mono'']),
        (''background-clip'', [Tx ''border-box''])],
     Rule [[(Desc, [SCls ''obj-toggle'', SPseudo ''hover''])]]
       [(''border-color'', [Va ''primary-color''])],
     Rule [[(Desc, [SCls ''tr'', SCls ''expanded'']), (Adjacent, [SCls ''object-body''])]]
       [(''display'', [Tx ''block''])],
     Rule [[(Desc, [SCls ''tr'', SCls ''collapsed'']), (Adjacent, [SCls ''object-body''])]]
       [(''display'', [Tx ''none''])]]\<close>

text \<open>Element \<open>api-response\<close>.\<close>

definition api_response_styles :: "css_sheet" where
  \<open>api_response_styles =
    [Rule [[(Desc, [SWhere [[STag ''button''], [STag ''input'', SAttr ''type="checkbox"''], [SAttr ''tabindex="0"'']], SPseudo ''focus-visible''])]]
       [(''box-shadow'', [Va ''focus-shadow''])],
     Rule [[(Desc, [SWhere [[STag ''input'', SAttr ''type="text"''], [STag ''input'', SAttr ''type="password"''], [STag ''select''], [STag ''textarea'']], SPseudo ''focus-visible''])]]
       [(''border-color'', [Va ''primary-color''])],
     Rule [[(Desc, [SCls ''resp-head''])]]
       [(''vertical-align'', [Tx ''middle'']),
        (''padding'', [Tx ''16px 0 8px''])],
     Rule [[(Desc, [SCls ''resp-head'', SCls ''divider''])]]
       [(''border-top'', [Tx ''1px solid '', Va ''border-color'']),
        (''margin-top'', [Tx ''10px''])],
     Rule [[(Desc, [SCls ''resp-status''])]]
       [(''font-weight'', [Tx ''bold'']),
        (''font-size'', [Tx ''calc('', Va ''font-size-small'', Tx '' + 1px)''])],
     Rule [[(Desc, [SCls ''resp-descr''])]]
       [(''font-size'', [Tx ''calc('', Va ''font-size-small'', Tx '' + 1px)'']),
        (''color'', [Va ''light-fg'']),
        (''text-align'', [Tx ''left''])],
     Rule [[(Desc, [SCls ''top-gap''])]]
       [(''margin-top'', [Tx ''16px''])],
     Rule [[(Desc, [SCls ''example-panel''])]]
       [(''font-size'', [Va ''font-size-small'']),
        (''margin'', [Tx ''0''])],
     Rule [[(Desc, [SCls ''focused-mode''])],
       [(Desc, [SCls ''read-mode''])]]
       [(''padding-top'', [Tx ''24px'']),
        (''margin-top'', [Tx ''12px'']),
        (''border-top'', [Tx ''1px dashed '', Va ''border-color''])]]\<close>

text \<open>The dialog box.\<close>

definition yR_styles :: "css_sheet" where
  \<open>yR_styles =
    [Rule [[(Desc, [SStar])],
       [(Desc, [SStar, SPseudoEl ''before''])],
       [(Desc, [SStar, SPseudoEl ''after''])]]
       [(''box-sizing'', [Tx ''border-box''])],
     Rule [[(Desc, [SCls ''dialog-box-overlay''])]]
       [(''background-color'', [Va ''overlay-bg'']),
        (''position'', [Tx ''fixed'']),
        (''left'', [Tx ''0'']),
        (''top'', [Tx ''0'']),
        (''width'', [Tx ''100vw'']),
        (''height'', [Tx ''100vh'']),
        (''overflow'', [Tx ''hidden'']),
        (''z-index'', [Va ''dialog-z-index''])],
     Rule [[(Desc, [SCls ''dialog-box''])]]
       [(''position'', [Tx ''fixed'']),
        (''top'', [Tx ''100px'']),
        (''left'', [Tx ''50%'']),
        (''transform'', [Tx ''translate(-50%, 0%)'']),
        (''display'', [Tx ''flex'']),
        (''flex-direction'', [Tx ''column'']),
        (''width'', [Tx ''70vw'']),
        (''background-color'', [Va ''bg2'']),
        (''color'', [Va ''fg2'']),
        (''border-radius'', [Tx ''4px'']),
        (''max-height'', [Tx ''500px'']),
        (''overflow'', [Tx ''hidden'']),
        (''border'', [Tx ''1px solid '', Va ''border-color'']),
        (''box-shadow'', [Tx ''0 14px 28px rgba(0,0,0,0.25), 0 10px 10px rgba(0,0,0,0.22)''])],
     Rule [[(Desc, [SCls ''dialog-box-header''])]]
       [(''position'', [Tx ''sticky'']),
        (''top'', [Tx ''0'']),
        (''align-self'', [Tx ''stretch'']),
        (''display'', [Tx ''flex'']),
        (''align-items'', [Tx ''center'']),
        (''padding'', [Tx ''0px 16px'']),
        (''min-height'', [Tx ''60px'']),
        (''max-height'', [Tx ''60px'']),
        (''border-bottom'', [Tx ''1px solid '', Va ''light-border-color'']),
        (''overflow'', [Tx ''hidden''])],
     Rule [[(Desc, [SCls ''dialog-box-header'']), (Desc, [STag ''button''])]]
       [(''font-size'', [Tx ''1.5rem'']),
        (''font-weight'', [Tx ''700'']),
        (''line-height'', [Tx ''1'']),
        (''color'', [Va ''fg'']),
        (''border'', [Tx ''none'']),
        (''outline'', [Tx ''none'']),
        (''background-color'', [Tx ''transparent'']),
        (''cursor'', [Tx ''pointer'']),
        (''border'', [Tx ''1px solid transparent'']),
        (''border-radius'', [Tx ''50%'']),
        (''margin-right'', [Tx ''-8px''])],
     Rule [[(Desc, [SCls ''dialog-box-header'']), (Desc, [STag ''button'', SPseudo ''hover''])]]
       [(''border-color'', [Va ''primary-color''])],
     Rule [[(Desc, [SCls ''dialog-box-content''])]]
       [(''padding'', [Tx ''16px'']),
        (''display'', [Tx ''block'']),
        (''overflow'', [Tx ''auto'']),
        (''height'', [Tx ''100%''])],
     Rule [[(Desc, [SCls ''dialog-box-title''])]]
       [(''flex-grow'', [Tx ''1'']),
        (''font-size'', [Tx ''24px''])]]\<close>

text \<open>Element \<open>rapi-doc\<close>; the width of the navigation bar is interpolated.\<close>

definition rapi_doc_styles_1 :: "css_sheet" where
  \<open>rapi_doc_styles_1 =
    [Rule [[(Desc, [SPseudo ''host''])]]
       [(''display'', [Tx ''flex'']),
        (''flex-direction'', [Tx ''column'']),
        (''min-width'', [Tx ''360px'']),
        (''width'', [Tx ''100%'']),
        (''height'', [Tx ''100%'']),
        (''margin'', [Tx ''0'']),
        (''padding'', [Tx ''0'']),
        (''overflow'', [Tx ''hidden'']),
        (''letter-spacing'', [Tx ''normal'']),
        (''color'', [Va ''fg'']),
        (''background-color'', [Va ''bg'']),
        (''font-family'', [Va ''font-regular''])],
     Rule [[(Desc, [SWhere [[STag ''button''], [STag ''input'', SAttr ''type="checkbox"''], [SAttr ''tabindex="0"'']], SPseudo ''focus-visible''])]]
       [(''box-shadow'', [Va ''focus-shadow''])],
     Rule [[(Desc, [SWhere [[STag ''input'', SAttr ''type="text"''], [STag ''input'', SAttr ''type="password"''], [STag ''select''], [STag ''textarea'']], SPseudo ''focus-visible''])]]
       [(''border-color'', [Va ''primary-color''])],
     Rule [[(Desc, [SCls ''body''])]]
       [(''display'', [Tx ''flex'']),
        (''height'', [Tx ''100%'']),
        (''width'', [Tx ''100%'']),
        (''overflow'', [Tx ''hidden''])],
     Rule [[(Desc, [SCls ''main-content''])]]
       [(''margin'', [Tx ''0'']),
        (''padding'', [Tx ''0'']),
        (''display'', [Tx ''block'']),
        (''flex'', [Tx ''1'']),
        (''height'', [Tx ''100%'']),
        (''overflow-y'', [Tx ''auto'']),
        (''overflow-x'', [Tx ''hidden'']),
        (''scrollbar-width'', [Tx ''thin'']),
        (''scrollbar-color'', [Va ''border-color'', Tx '' transparent''])],
     Rule [[(Desc, [SCls ''main-content-inner--view-mode''])]]
       [(''padding'', [Tx ''0 8px''])],
     Rule [[(Desc, [SCls ''main-content'', SPseudoEl ''-webkit-scrollbar''])]]
       [(''width'', [Tx ''8px'']),
        (''height'', [Tx ''8px''])],
     Rule [[(Desc, [SCls ''main-content'', SPseudoEl ''-webkit-scrollbar-track''])]]
       [(''background'', [Tx ''transparent''])],
     Rule [[(Desc, [SCls ''main-content'', SPseudoEl ''-webkit-scrollbar-thumb''])]]
       [(''background-color'', [Va ''border-color''])],
     Rule [[(Desc, [SCls ''section-gap'', SCls ''section-tag''])]]
       [(''border-bottom'', [Tx ''1px solid '', Va ''border-color''])],
     Rule [[(Desc, [SCls ''section-gap''])],
       [(Desc, [SCls ''section-gap--focused-mode''])],
       [(Desc, [SCls ''section-gap--read-mode''])]]
       [(''padding'', [Tx ''0px 4px''])],
     Rule [[(Desc, [SCls ''section-tag-header''])]]
       [(''position'', [Tx ''relative'']),
        (''cursor'', [Tx ''n-resize'']),
        (''padding'', [Tx ''12px 0''])],
     Rule [[(Desc, [SCls ''collapsed'']), (Desc, [SCls ''section-tag-header'', SPseudo ''hover''])]]
       [(''cursor'', [Tx ''s-resize''])],
     Rule [[(Desc, [SCls ''section-tag-header'', SPseudo ''hover''])]]
       [(''background-image'', [Tx ''linear-gradient(to right, rgba(0,0,0,0), '', Va ''border-color'', Tx '', rgba(0,0,0,0))''])],
     Rule [[(Desc, [SCls ''section-tag-header'', SPseudo ''hover'', SPseudoEl ''after''])]]
       [(''position'', [Tx ''absolute'']),
        (''margin-left'', [Tx ''-24px'']),
        (''font-size'', [Tx ''20px'']),
        (''top'', [Tx ''calc(50% - 14px)'']),
        (''color'', [Va ''primary-color'']),
        (''content'', [Tx ([CHR 0x27] @ [CHR 0xE2, CHR 0xAC, CHR 0x86] @ [CHR 0x27])])],
     Rule [[(Desc, [SCls ''collapsed'']), (Desc, [SCls ''section-tag-header'', SPseudoEl ''after''])]]
       [(''position'', [Tx ''absolute'']),
        (''margin-left'', [Tx ''-24px'']),
        (''font-size'', [Tx ''20px'']),
        (''top'', [Tx ''calc(50% - 14px)'']),
        (''color'', [Va ''border-color'']),
        (''content'', [Tx ([CHR 0x27] @ [CHR 0xE2, CHR 0xAC, CHR 0x87] @ [CHR 0x27])])],
     Rule [[(Desc, [SCls ''collapsed'']), (Desc, [SCls ''section-tag-header'', SPseudo ''hover'', SPseudoEl ''after''])]]
       [(''color'', [Va ''primary-color''])],
     Rule [[(Desc, [SCls ''collapsed'']), (Desc, [SCls ''section-tag-body''])]]
       [(''display'', [Tx ''none''])],
     Rule [[(Desc, [SCls ''logo''])]]
       [(''height'', [Tx ''36px'']),
        (''width'', [Tx ''36px'']),
        (''margin-left'', [Tx ''5px''])]]\<close>

definition rapi_doc_styles_2 :: "css_sheet" where
  \<open>rapi_doc_styles_2 =
    [Rule [[(Desc, [SCls ''only-large-screen-flex''])],
       [(Desc, [SCls ''only-large-screen''])]]
       [(''display'', [Tx ''none''])],
     Rule [[(Desc, [SCls ''tag'', SCls ''title''])]]
       [(''text-transform'', [Tx ''uppercase''])],
     Rule [[(Desc, [SCls ''main-header''])]]
       [(''background-color'', [Va ''header-bg'']),
        (''color'', [Va ''header-fg'']),
        (''width'', [Tx ''100%''])],
     Rule [[(Desc, [SCls ''header-title''])]]
       [(''font-size'', [Tx ''calc('', Va ''font-size-regular'', Tx '' + 8px)'']),
        (''padding'', [Tx ''0 8px''])],
     Rule [[(Desc, [STag ''input'', SCls ''header-input''])]]
       [(''background'', [Va ''header-color-darker'']),
        (''color'', [Va ''header-fg'']),
        (''border'', [Tx ''1px solid '', Va ''header-color-border'']),
        (''flex'', [Tx ''1'']),
        (''padding-right'', [Tx ''24px'']),
        (''border-radius'', [Tx ''3px''])],
     Rule [[(Desc, [STag ''input'', SCls ''header-input'', SPseudoEl ''placeholder''])]]
       [(''opacity'', [Tx ''0.4''])],
     Rule [[(Desc, [SCls ''loader''])]]
       [(''margin'', [Tx ''16px auto 16px auto'']),
        (''border'', [Tx ''4px solid '', Va ''bg3'']),
        (''border-radius'', [Tx ''50%'']),
        (''border-top'', [Tx ''4px solid '', Va ''primary-color'']),
        (''width'', [Tx ''36px'']),
        (''height'', [Tx ''36px'']),
        (''animation'', [Tx ''spin 2s linear infinite''])],
     Rule [[(Desc, [SCls ''expanded-endpoint-body''])]]
       [(''position'', [Tx ''relative'']),
        (''padding'', [Tx ''6px 0px''])],
     Rule [[(Desc, [SCls ''expanded-endpoint-body'']), (Desc, [SCls ''tag-description''])]]
       [(''background'', [Va ''code-bg'']),
        (''border-radius'', [Va ''border-radius'']),
        (''transition'', [Tx ''max-height .2s ease-out''])],
     Rule [[(Desc, [SCls ''expanded-endpoint-body'']), (Desc, [SCls ''tag-icon''])]]
       [(''transition'', [Tx ''transform .2s ease-out''])],
     Rule [[(Desc, [SCls ''expanded-endpoint-body'']), (Desc, [SCls ''tag-icon'', SCls ''expanded''])]]
       [(''transform'', [Tx ''rotate(180deg)''])],
     Rule [[(Desc, [SCls ''divider''])]]
       [(''border-top'', [Tx ''2px solid '', Va ''border-color'']),
        (''margin'', [Tx ''24px 0'']),
        (''width'', [Tx ''100%''])],
     Rule [[(Desc, [SCls ''tooltip''])]]
       [(''cursor'', [Tx ''pointer'']),
        (''border'', [Tx ''1px solid '', Va ''border-color'']),
        (''border-left-width'', [Tx ''4px'']),
        (''margin-left'', [Tx ''2px''])],
     Rule [[(Desc, [SCls ''tooltip'']), (Desc, [STag ''a''])]]
       [(''color'', [Va ''fg2'']),
        (''text-decoration'', [Tx ''none''])],
     Rule [[(Desc, [SCls ''tooltip-text''])]]
       [(''color'', [Va ''fg2'']),
        (''max-width'', [Tx ''400px'']),
        (''position'', [Tx ''absolute'']),
        (''z-index'', [Tx ''1'']),
        (''background-color'', [Va ''bg2'']),
        (''visibility'', [Tx ''hidden'']),
        (''overflow-wrap'', [Tx ''break-word''])],
     Rule [[(Desc, [SCls ''tooltip'', SPseudo ''hover''])]]
       [(''color'', [Va ''primary-color'']),
        (''border-color'', [Va ''primary-color''])],
     Rule [[(Desc, [SCls ''tooltip'', SPseudo ''hover'']), (Desc, [STag ''a'', SPseudo ''hover''])]]
       [(''color'', [Va ''primary-color''])],
     Rule [[(Desc, [SCls ''tooltip'', SPseudo ''hover'']), (Desc, [SCls ''tooltip-text''])]]
       [(''visibility'', [Tx ''visible''])],
     Keyframes ''spin''
       [(''0%'', [(''transform'', [Tx ''rotate(0deg)''])]),
        (''100%'', [(''transform'', [Tx ''rotate(360deg)''])])],
     Rule [[(Desc, [SCls ''nav-method''])]]
       [(''font-weight'', [Tx ''bold'']),
        (''margin-right'', [Tx ''4px'']),
        (''font-size'', [Tx ''calc('', Va ''font-size-small'', Tx '' - 2px)'']),
        (''white-space'', [Tx ''nowrap''])],
     Rule [[(Desc, [SCls ''nav-method'', SCls ''false''])]]
       [(''display'', [Tx ''none''])],
     Rule [[(Desc, [SCls ''nav-method'', SCls ''as-colored-text'', SCls ''get''])]]
       [(''color'', [Va ''nav-get-color''])],
     Rule [[(Desc, [SCls ''nav-method'', SCls ''as-colored-text'', SCls ''put''])]]
       [(''color'', [Va ''nav-put-color''])],
     Rule [[(Desc, [SCls ''nav-method'', SCls ''as-colored-text'', SCls ''post''])]]
       [(''color'', [Va ''nav-post-color''])],
     Rule [[(Desc, [SCls ''nav-method'', SCls ''as-colored-text'', SCls ''delete''])]]
       [(''color'', [Va ''nav-delete-color''])]]\<close>

definition rapi_doc_styles_3 :: "string \<Rightarrow> css_sheet" where
  \<open>rapi_doc_styles_3 nav_width =
    [Rule [[(Desc, [SCls ''nav-method'', SCls ''as-colored-text'', SCls ''head''])],
       [(Desc, [SCls ''nav-method'', SCls ''as-colored-text'', SCls ''patch''])],
       [(Desc, [SCls ''nav-method'', SCls ''as-colored-text'', SCls ''options''])]]
       [(''color'', [Va ''nav-head-color''])],
     Rule [[(Desc, [SCls ''nav-method'', SCls ''as-colored-block''])]]
       [(''padding'', [Tx ''1px 4px'']),
        (''min-width'', [Tx ''30px'']),
        (''border-radius'', [Tx ''4px 0 0 4px'']),
        (''color'', [Tx ''#000''])],
     Rule [[(Desc, [SCls ''colored-block'']), (Desc, [SCls ''nav-method'', SCls ''as-colored-block''])]]
       [(''outline'', [Tx ''1px solid''])],
     Rule [[(Desc, [SCls ''nav-method'', SCls ''as-colored-block'', SCls ''get''])]]
       [(''background-color'', [Va ''blue''])],
     Rule [[(Desc, [SCls ''nav-method'', SCls ''as-colored-block'', SCls ''put''])]]
       [(''background-color'', [Va ''orange''])],
     Rule [[(Desc, [SCls ''nav-method'', SCls ''as-colored-block'', SCls ''post''])]]
       [(''background-color'', [Va ''green''])],
     Rule [[(Desc, [SCls ''nav-method'', SCls ''as-colored-block'', SCls ''delete''])]]
       [(''background-color'', [Va ''red''])],
     Rule [[(Desc, [SCls ''nav-method'', SCls ''as-colored-block'', SCls ''head''])],
       [(Desc, [SCls ''nav-method'', SCls ''as-colored-block'', SCls ''patch''])],
       [(Desc, [SCls ''nav-method'', SCls ''as-colored-block'', SCls ''options''])]]
       [(''background-color'', [Va ''yellow''])],
     Media ''only screen and (min-width: 768px)''
       [Rule [[(Desc, [SCls ''nav-bar''])]]
          [(''width'', [Tx ''260px'']),
           (''display'', [Tx ''flex''])],
        Rule [[(Desc, [SCls ''only-large-screen''])]]
          [(''display'', [Tx ''block''])],
        Rule [[(Desc, [SCls ''only-large-screen-flex''])]]
          [(''display'', [Tx ''flex''])],
        Rule [[(Desc, [SCls ''section-gap''])]]
          [(''padding'', [Tx ''0 0 0 24px''])],
        Rule [[(Desc, [SCls ''section-gap--focused-mode''])]]
          [(''padding'', [Tx ''24px 8px''])],
        Rule [[(Desc, [SCls ''section-gap--read-mode''])]]
          [(''padding'', [Tx ''24px 8px''])],
        Rule [[(Desc, [SCls ''endpoint-body''])]]
          [(''position'', [Tx ''relative'']),
           (''padding'', [Tx ''36px 0 48px 0''])]],
     Media ''only screen and (min-width: 1024px)''
       [Rule [[(Desc, [SCls ''nav-bar''])]]
          [(''width'', [Tx nav_width]),
           (''display'', [Tx ''flex''])],
        Rule [[(Desc, [SCls ''section-gap--focused-mode''])]]
          [(''padding'', [Tx ''12px 80px 12px 80px''])],
        Rule [[(Desc, [SCls ''section-gap--read-mode''])]]
          [(''padding'', [Tx ''24px 80px 12px 80px''])]]]\<close>

definition rapi_doc_styles :: "string \<Rightarrow> css_sheet" where
  "rapi_doc_styles nav_width = rapi_doc_styles_1 @ rapi_doc_styles_2 @ rapi_doc_styles_3 nav_width"

text \<open>Element \<open>rapi-doc-mini\<close>.\<close>

definition rapi_doc_mini_styles :: "css_sheet" where
  \<open>rapi_doc_mini_styles =
    [Rule [[(Desc, [SPseudo ''host''])]]
       [(''display'', [Tx ''flex'']),
        (''flex-direction'', [Tx ''column'']),
        (''min-width'', [Tx ''360px'']),
        (''width'', [Tx ''100%'']),
        (''height'', [Tx ''100%'']),
        (''margin'', [Tx ''0'']),
        (''padding'', [Tx ''0'']),
        (''overflow'', [Tx ''hidden'']),
        (''letter-spacing'', [Tx ''normal'']),
        (''color'', [Va ''fg'']),
        (''background-color'', [Va ''bg'']),
        (''font-family'', [Va ''font-regular''])],
     Media ''only screen and (min-width: 768px)''
       [Rule [[(Desc, [SCls ''only-large-screen''])]]
          [(''display'', [Tx ''block''])],
        Rule [[(Desc, [SCls ''only-large-screen-flex''])]]
          [(''display'', [Tx ''flex''])]]]\<close>

text \<open>Element \<open>json-schema-viewer\<close>.\<close>

definition json_schema_viewer_styles :: "css_sheet" where
  \<open>json_schema_viewer_styles =
    [Rule [[(Desc, [SPseudo ''host''])]]
       [(''display'', [Tx ''flex'']),
        (''flex-direction'', [Tx ''column'']),
        (''min-width'', [Tx ''360px'']),
        (''width'', [Tx ''100%'']),
        (''height'', [Tx ''100%'']),
        (''margin'', [Tx ''0'']),
        (''padding'', [Tx ''0'']),
        (''overflow'', [Tx ''hidden'']),
        (''letter-spacing'', [Tx ''normal'']),
        (''color'', [Va ''fg'']),
        (''background-color'', [Va ''bg'']),
        (''font-family'', [Va ''font-regular''])],
     Rule [[(Desc, [SCls ''body''])]]
       [(''display'', [Tx ''flex'']),
        (''height'', [Tx ''100%'']),
        (''width'', [Tx ''100%'']),
        (''overflow'', [Tx ''hidden''])],
     Rule [[(Desc, [SCls ''nav-bar''])]]
       [(''width'', [Tx ''230px'']),
        (''display'', [Tx ''flex''])],
     Rule [[(Desc, [SCls ''main-content''])]]
       [(''margin'', [Tx ''0'']),
        (''padding'', [Tx ''16px'']),
        (''display'', [Tx ''block'']),
        (''flex'', [Tx ''1'']),
        (''height'', [Tx ''100%'']),
        (''overflow-y'', [Tx ''auto'']),
        (''overflow-x'', [Tx ''hidden'']),
        (''scrollbar-width'', [Tx ''thin'']),
        (''scrollbar-color'', [Va ''border-color'', Tx '' transparent''])],
     Rule [[(Desc, [SCls ''main-content-inner--view-mode''])]]
       [(''padding'', [Tx ''0 8px''])],
     Rule [[(Desc, [SCls ''main-content'', SPseudoEl ''-webkit-scrollbar''])]]
       [(''width'', [Tx ''8px'']),
        (''height'', [Tx ''8px''])],
     Rule [[(Desc, [SCls ''main-content'', SPseudoEl ''-webkit-scrollbar-track''])]]
       [(''background'', [Tx ''transparent''])],
     Rule [[(Desc, [SCls ''main-content'', SPseudoEl ''-webkit-scrollbar-thumb''])]]
       [(''background-color'', [Va ''border-color''])],
     Rule [[(Desc, [SCls ''main-header''])]]
       [(''background-color'', [Va ''header-bg'']),
        (''color'', [Va ''header-fg'']),
        (''width'', [Tx ''100%''])],
     Rule [[(Desc, [SCls ''header-title''])]]
       [(''font-size'', [Tx ''calc('', Va ''font-size-regular'', Tx '' + 8px)'']),
        (''padding'', [Tx ''0 8px''])],
     Rule [[(Desc, [STag ''input'', SCls ''header-input''])]]
       [(''background'', [Va ''header-color-darker'']),
        (''color'', [Va ''header-fg'']),
        (''border'', [Tx ''1px solid '', Va ''header-color-border'']),
        (''flex'', [Tx ''1'']),
        (''padding-right'', [Tx ''24px'']),
        (''border-radius'', [Tx ''3px''])],
     Rule [[(Desc, [STag ''input'', SCls ''header-input'', SPseudoEl ''placeholder''])]]
       [(''opacity'', [Tx ''0.4''])],
     Rule [[(Desc, [SCls ''loader''])]]
       [(''margin'', [Tx ''16px auto 16px auto'']),
        (''border'', [Tx ''4px solid '', Va ''bg3'']),
        (''border-radius'', [Tx ''50%'']),
        (''border-top'', [Tx ''4px solid '', Va ''primary-color'']),
        (''width'', [Tx ''36px'']),
        (''height'', [Tx ''36px'']),
        (''animation'', [Tx ''spin 2s linear infinite''])],
     Media ''only screen and (min-width: 768px)''
       [Rule [[(Desc, [SCls ''only-large-screen''])]]
          [(''display'', [Tx ''block''])],
        Rule [[(Desc, [SCls ''only-large-screen-flex''])]]
          [(''display'', [Tx ''flex''])]]]\<close>

section \<open>The sheets of each element\<close>

text \<open>
  The width in the sheet of \<open>rapi-doc\<close> is computed from \<open>this.fontSize\<close> in a static getter:
  \<open>fontSize\<close> is the property of that name of the class, not of the element.
\<close>

definition rapi_doc_nav_width :: "string option \<Rightarrow> string" where
  "rapi_doc_nav_width fontSize =
     (if fontSize = Some ''default'' then ''300px'' else if fontSize = Some ''large'' then ''315px'' else ''330px'')"

definition page_sheets :: "css_sheet list" where
  "page_sheets = [Ke_styles, Je_styles, Ye_styles, Ze_styles, Qe_styles, Xe_styles, et_styles, tt_styles, rt_styles]"

definition element_sheets :: "string option \<Rightarrow> (string \<times> css_sheet list) list" where
  "element_sheets classFontSize =
     [(''json-tree'', [Ke_styles, SP_styles, Je_styles, json_tree_styles, nt_styles]),
      (''schema-tree'', [Ke_styles, UP_styles, SP_styles, schema_tree_styles, nt_styles]),
      (''tag-input'', [tag_input_styles]),
      (''api-request'', [Ze_styles, Je_styles, Ke_styles, Ye_styles, SP_styles, et_styles, Xe_styles,
         api_request_styles, nt_styles]),
      (''schema-table'', [Ke_styles, UP_styles, schema_table_styles, nt_styles]),
      (''api-response'', [Ke_styles, Ye_styles, et_styles, Ze_styles, Je_styles, SP_styles, api_response_styles,
         nt_styles]),
      (''dialog-box'', [yR_styles]),
      (''rapi-doc'', page_sheets @ [rapi_doc_styles (rapi_doc_nav_width classFontSize), nt_styles]),
      (''rapi-doc-mini'', page_sheets @ [rapi_doc_mini_styles]),
      (''json-schema-viewer'', page_sheets @ [json_schema_viewer_styles])]"

section \<open>Custom properties the sheets need\<close>

text \<open>The custom properties the theme of the page defines.\<close>

definition theme_names :: "string list" where
  "theme_names =
   [''border-radius'', ''layout'', ''font-mono'', ''font-regular'', ''scroll-bar-width'',
    ''nav-item-padding'', ''resp-area-height'', ''font-size-small'', ''font-size-mono'',
    ''font-size-regular'', ''dialog-z-index'', ''focus-shadow'', ''bg'', ''bg2'', ''bg3'', ''light-bg'',
    ''fg'', ''fg2'', ''fg3'', ''light-fg'', ''selection-bg'', ''selection-fg'', ''overlay-bg'',
    ''border-color'', ''light-border-color'', ''code-border-color'', ''input-bg'', ''placeholder-color'',
    ''hover-color'', ''red'', ''light-red'', ''pink'', ''light-pink'', ''green'', ''light-green'', ''blue'',
    ''light-blue'', ''orange'', ''light-orange'', ''yellow'', ''light-yellow'', ''purple'', ''brown'',
    ''header-bg'', ''header-fg'', ''header-color-darker'', ''header-color-border'', ''nav-bg-color'',
    ''nav-text-color'', ''nav-hover-bg-color'', ''nav-hover-text-color'', ''nav-accent-color'',
    ''nav-accent-text-color'', ''nav-get-color'', ''nav-put-color'', ''nav-post-color'',
    ''nav-delete-color'', ''nav-head-color'', ''primary-color'', ''primary-color-invert'',
    ''primary-color-trans'', ''code-bg'', ''code-fg'', ''inline-code-fg'', ''code-property-color'',
    ''code-keyword-color'', ''code-operator-color'']"

definition closed_sheet :: "css_sheet \<Rightarrow> bool" where
  "closed_sheet s \<longleftrightarrow> list_all (\<lambda>x. List.member theme_names x) (needed_vars s)"

lemma closed_sheet_append [simp]: "closed_sheet (a @ b) \<longleftrightarrow> closed_sheet a \<and> closed_sheet b"
  by (simp add: closed_sheet_def needed_vars_def sheet_values_def)

lemma Ke_styles_1_closed: "closed_sheet Ke_styles_1"
  by code_simp

lemma Ke_styles_2_closed: "closed_sheet Ke_styles_2"
  by code_simp

lemma Ke_styles_3_closed: "closed_sheet Ke_styles_3"
  by code_simp

lemma Je_styles_1_closed: "closed_sheet Je_styles_1"
  by code_simp

lemma Je_styles_2_closed: "closed_sheet Je_styles_2"
  by code_simp

lemma Ye_styles_closed: "closed_sheet Ye_styles"
  by code_simp

lemma Ze_styles_closed: "closed_sheet Ze_styles"
  by code_simp

lemma Qe_styles_1_closed: "closed_sheet Qe_styles_1"
  by code_simp

lemma Qe_styles_2_closed: "closed_sheet Qe_styles_2"
  by code_simp

lemma Xe_styles_closed: "closed_sheet Xe_styles"
  by code_simp

lemma et_styles_closed: "closed_sheet et_styles"
  by code_simp

lemma tt_styles_1_closed: "closed_sheet tt_styles_1"
  by code_simp

lemma tt_styles_2_closed: "closed_sheet tt_styles_2"
  by code_simp

lemma rt_styles_closed: "closed_sheet rt_styles"
  by code_simp

lemma nt_styles_closed: "closed_sheet nt_styles"
  by code_simp

lemma SP_styles_closed: "closed_sheet SP_styles"
  by code_simp

lemma json_tree_styles_closed: "closed_sheet json_tree_styles"
  by code_simp

lemma UP_styles_1_closed: "closed_sheet UP_styles_1"
  by code_simp

lemma UP_styles_2_closed: "closed_sheet UP_styles_2"
  by code_simp

lemma schema_tree_styles_closed: "closed_sheet schema_tree_styles"
  by code_simp

lemma tag_input_styles_closed: "closed_sheet tag_input_styles"
  by code_simp

lemma schema_table_styles_closed: "closed_sheet schema_table_styles"
  by code_simp

lemma api_response_styles_closed: "closed_sheet api_response_styles"
  by code_simp

lemma yR_styles_closed: "closed_sheet yR_styles"
  by code_simp

lemma rapi_doc_styles_1_closed: "closed_sheet rapi_doc_styles_1"
  by code_simp

lemma rapi_doc_styles_2_closed: "closed_sheet rapi_doc_styles_2"
  by code_simp

lemma rapi_doc_styles_3_closed: "closed_sheet (rapi_doc_styles_3 nav_width)"
  by code_simp

lemma rapi_doc_mini_styles_closed: "closed_sheet rapi_doc_mini_styles"
  by code_simp

lemma json_schema_viewer_styles_closed: "closed_sheet json_schema_viewer_styles"
  by code_simp

end
