(* ===== verification/Web_Theme.thy ===== *)
theory Web_Theme
  imports Web_Element_Styles Net_IP "HOL-Library.Monad_Syntax"
begin

text \<open>
  The colours and the theme of the API documentation page (web/static/rapidoc-min.js):
  the colour functions, the options taken from the attributes of the element, and the style
  element that defines the custom properties for all style sheets.

  A function that may throw returns an option. \<open>NaN\<close> is \<open>None\<close> in the components of a colour.
  The luminance is computed in thousandths, in exact arithmetic in place of floating point.
  A JavaScript object with string properties is an association list.
\<close>

section \<open>Colours\<close>

definition js_slice :: "nat \<Rightarrow> nat \<Rightarrow> string \<Rightarrow> string" where
  "js_slice a b s = take (b - a) (drop a s)"

text \<open>\<open>parseInt(s, 16)\<close>: white space, a sign, the prefix and the longest run of digits.\<close>

definition hex_prefix :: "string \<Rightarrow> string" where
  "hex_prefix s = (if take 2 s \<in> {''0x'', ''0X''} then drop 2 s else s)"

definition parseInt16 :: "string \<Rightarrow> int option" where
  "parseInt16 s =
     (let t = dropWhile isSpace s;
          neg = (take 1 t = ''-'');
          u = hex_prefix (if take 1 t \<in> {''-'', ''+''} then drop 1 t else t);
          ds = takeWhile isHex u;
          n = int (numVal 16 hexVal ds) in
      if ds = [] then None else Some (if neg then - n else n))"

record Rgb =
  c_r :: "int option"
  c_g :: "int option"
  c_b :: "int option"

definition getRgb :: "string \<Rightarrow> Rgb option" where
  "getRgb e =
     (let e1 = (if take 1 e = ''#'' then js_slice 1 7 e else e);
          e2 = (if length e1 = 3 \<or> length e1 = 4 then [e1 ! 0, e1 ! 0, e1 ! 1, e1 ! 1, e1 ! 2, e1 ! 2] else e1) in
      if length e2 \<noteq> 6 then None
      else Some \<lparr>c_r = parseInt16 (js_slice 0 2 e2), c_g = parseInt16 (js_slice 2 4 e2), c_b = parseInt16 (js_slice 4 6 e2)\<rparr>)"

definition luminanace :: "string \<Rightarrow> int option option" where
  "luminanace e = map_option (\<lambda>c. case (c_r c, c_g c, c_b c) of
       (Some r, Some g, Some b) \<Rightarrow> Some (299 * r + 587 * g + 114 * b) | _ \<Rightarrow> None) (getRgb e)"

definition invert :: "string \<Rightarrow> string option" where
  "invert e = map_option (\<lambda>l. case l of Some n \<Rightarrow> if n > 135000 then ''#000'' else ''#fff'' | None \<Rightarrow> ''#fff'') (luminanace e)"

definition showInt :: "int \<Rightarrow> string" where
  "showInt i = (if i < 0 then CHR ''-'' # showNat (nat (- i)) else showNat (nat i))"

definition js_number :: "int option \<Rightarrow> string" where
  "js_number n = (case n of None \<Rightarrow> ''NaN'' | Some i \<Rightarrow> showInt i)"

definition opacity :: "string \<Rightarrow> string \<Rightarrow> string option" where
  "opacity e t =
     map_option (\<lambda>c. ''rgba('' @ js_number (c_r c) @ '', '' @ js_number (c_g c) @ '', '' @ js_number (c_b c) @ '', '' @ t @ '')'')
       (getRgb e)"

definition brighten :: "int \<Rightarrow> int option \<Rightarrow> int option" where
  "brighten t c = map_option (\<lambda>i. let j = i + t in if j > 255 then 255 else if j < 0 then 0 else j) c"

text \<open>\<open>toString(16).padStart(2, "0")\<close> of a clamped component.\<close>

definition hex2 :: "int option \<Rightarrow> string" where
  "hex2 c = (case c of
     None \<Rightarrow> ''NaN'' | Some i \<Rightarrow> [hexDigit (nat i div 16), hexDigit (nat i mod 16)])"

definition brightness :: "string \<Rightarrow> int \<Rightarrow> string option" where
  "brightness e t =
     map_option (\<lambda>c. ''#'' @ hex2 (brighten t (c_r c)) @ hex2 (brighten t (c_g c)) @ hex2 (brighten t (c_b c))) (getRgb e)"

text \<open>\<open>bR\<close>: the colours the page accepts from attributes.\<close>

definition isHexColor :: "string \<Rightarrow> bool" where
  "isHexColor e \<longleftrightarrow> take 1 e = ''#'' \<and> list_all isHex (drop 1 e) \<and> length (drop 1 e) \<in> {3, 4, 6, 8}"

section \<open>Options\<close>

type_synonym jsobj = "(string \<times> string) list"

definition js_string :: "string option \<Rightarrow> string" where
  "js_string v = (case v of None \<Rightarrow> ''undefined'' | Some s \<Rightarrow> s)"

text \<open>\<open>t.k ? t.k : alt\<close> and \<open>t.k || alt\<close>: the empty string counts as absent.\<close>

definition choose_or :: "jsobj \<Rightarrow> string \<Rightarrow> string option \<Rightarrow> string option" where
  "choose_or t k alt = (case map_of t k of Some (c # cs) \<Rightarrow> Some (c # cs) | _ \<Rightarrow> alt)"

definition truthy :: "jsobj \<Rightarrow> string \<Rightarrow> bool" where
  "truthy t k = (case map_of t k of Some (c # cs) \<Rightarrow> True | _ \<Rightarrow> False)"

definition color_attr :: "jsobj \<Rightarrow> string \<Rightarrow> string" where
  "color_attr this k = (case map_of this k of Some s \<Rightarrow> if isHexColor s then s else [] | None \<Rightarrow> [])"

definition common_options :: "jsobj \<Rightarrow> jsobj" where
  "common_options this =
     [(''bg1'', color_attr this ''bgColor''), (''fg1'', color_attr this ''textColor''),
      (''headerColor'', color_attr this ''headerColor''), (''primaryColor'', color_attr this ''primaryColor''),
      (''navBgColor'', color_attr this ''navBgColor''), (''navTextColor'', color_attr this ''navTextColor''),
      (''navHoverBgColor'', color_attr this ''navHoverBgColor''),
      (''navHoverTextColor'', color_attr this ''navHoverTextColor''),
      (''navAccentColor'', color_attr this ''navAccentColor'')]"

text \<open>The main page and the schema viewer spell the last option differently.\<close>

definition wR_options :: "jsobj \<Rightarrow> jsobj" where
  "wR_options this = common_options this @ [(''navAccentTextColor'', color_attr this ''navAccentTextColor'')]"

definition ER_options :: "jsobj \<Rightarrow> jsobj" where
  "ER_options this = common_options this @ [(''navAccenttextColor'', color_attr this ''navAccentTextColor'')]"

section \<open>The theme\<close>

definition navAccentText :: "jsobj \<Rightarrow> string \<Rightarrow> string option" where
  "navAccentText t w =
     (if truthy t ''navAccentTextColor'' then Some (js_string (map_of t ''navAccenttextColor'')) else invert w)"

definition dark_theme :: "jsobj \<Rightarrow> string \<Rightarrow> string \<Rightarrow> string \<Rightarrow> jsobj option" where
  "dark_theme t n o' a = do {
     e \<leftarrow> choose_or t ''bg1'' (Some ''#2a2b2c'');
     i \<leftarrow> choose_or t ''fg1'' (Some ''#bbb'');
     s \<leftarrow> choose_or t ''bg2'' (brightness e 5);
     l \<leftarrow> choose_or t ''bg3'' (brightness e 17);
     c \<leftarrow> choose_or t ''bg3'' (brightness e 35);
     p \<leftarrow> choose_or t ''fg2'' (brightness i (- 15));
     d \<leftarrow> choose_or t ''fg3'' (brightness i (- 20));
     u \<leftarrow> choose_or t ''fg3'' (brightness i (- 65));
     h \<leftarrow> choose_or t ''inlineCodeFg'' (Some ''#aaa'');
     y \<leftarrow> choose_or t ''headerColor'' (brightness e 10);
     g \<leftarrow> choose_or t ''navBgColor'' (brightness e 10);
     v \<leftarrow> choose_or t ''navTextColor'' (do { x \<leftarrow> invert g; opacity x ''0.50'' });
     b \<leftarrow> choose_or t ''navHoverBgColor'' (brightness g (- 15));
     x \<leftarrow> choose_or t ''navHoverTextColor'' (invert g);
     w \<leftarrow> choose_or t ''navAccentColor'' (brightness n 25);
     navAccentTextColor \<leftarrow> navAccentText t w;
     headerColorInvert \<leftarrow> invert y;
     headerColorDarker \<leftarrow> brightness y (- 20);
     headerColorBorder \<leftarrow> brightness y 10;
     borderColor \<leftarrow> choose_or t ''borderColor'' (brightness e 20);
     lightBorderColor \<leftarrow> choose_or t ''lightBorderColor'' (brightness e 15);
     codeBorderColor \<leftarrow> choose_or t ''codeBorderColor'' (brightness e 30);
     inputBg \<leftarrow> choose_or t ''inputBg'' (brightness e (- 5));
     placeHolder \<leftarrow> choose_or t ''placeHolder'' (opacity i ''0.3'');
     hoverColor \<leftarrow> choose_or t ''hoverColor'' (brightness e (- 10));
     red \<leftarrow> choose_or t ''red'' (Some ''#F06560'');
     lightRed \<leftarrow> choose_or t ''lightRed'' (brightness e (- 10));
     pink \<leftarrow> choose_or t ''pink'' (Some ''#ffb2b2'');
     lightPink \<leftarrow> choose_or t ''lightPink'' (brightness e (- 10));
     green \<leftarrow> choose_or t ''green'' (Some ''#7ec699'');
     lightGreen \<leftarrow> choose_or t ''lightGreen'' (brightness e (- 10));
     blue \<leftarrow> choose_or t ''blue'' (Some ''#71b7ff'');
     lightBlue \<leftarrow> choose_or t ''lightBlue'' (brightness e (- 10));
     orange \<leftarrow> choose_or t ''orange'' (Some ''#f08d49'');
     lightOrange \<leftarrow> choose_or t ''lightOrange'' (brightness e (- 10));
     yellow \<leftarrow> choose_or t ''yellow'' (Some ''#827717'');
     lightYellow \<leftarrow> choose_or t ''lightYellow'' (brightness e (- 10));
     purple \<leftarrow> choose_or t ''purple'' (Some ''#786FF1'');
     brown \<leftarrow> choose_or t ''brown'' (Some ''#D4AC0D'');
     codeBg \<leftarrow> choose_or t ''codeBg'' (do { z \<leftarrow> brightness e (- 15); opacity z ''0.7'' });
     codeFg \<leftarrow> choose_or t ''codeFg'' (Some ''#aaa'');
     codePropertyColor \<leftarrow> choose_or t ''codePropertyColor'' (Some ''#f8c555'');
     codeKeywordColor \<leftarrow> choose_or t ''codeKeywordColor'' (Some ''#cc99cd'');
     codeOperatorColor \<leftarrow> choose_or t ''codeOperatorColor'' (Some ''#67cdcc'');
     Some [(''bg1'', e), (''bg2'', s), (''bg3'', l), (''lightBg'', c), (''fg1'', i), (''fg2'', p), (''fg3'', d),
       (''lightFg'', u), (''inlineCodeFg'', h), (''primaryColor'', n), (''primaryColorTrans'', a),
       (''primaryColorInvert'', o'), (''selectionBg'', ''#bbb''), (''selectionFg'', ''#eee''),
       (''overlayBg'', ''rgba(80, 80, 80, 0.4)''), (''navBgColor'', g), (''navTextColor'', v), (''navHoverBgColor'', b),
       (''navHoverTextColor'', x), (''navAccentColor'', w), (''navAccentTextColor'', navAccentTextColor),
       (''headerColor'', y), (''headerColorInvert'', headerColorInvert), (''headerColorDarker'', headerColorDarker),
       (''headerColorBorder'', headerColorBorder), (''borderColor'', borderColor), (''lightBorderColor'', lightBorderColor),
       (''codeBorderColor'', codeBorderColor), (''inputBg'', inputBg), (''placeHolder'', placeHolder),
       (''hoverColor'', hoverColor), (''red'', red), (''lightRed'', lightRed), (''pink'', pink), (''lightPink'', lightPink),
       (''green'', green), (''lightGreen'', lightGreen), (''blue'', blue), (''lightBlue'', lightBlue), (''orange'', orange),
       (''lightOrange'', lightOrange), (''yellow'', yellow), (''lightYellow'', lightYellow), (''purple'', purple),
       (''brown'', brown), (''codeBg'', codeBg), (''codeFg'', codeFg), (''codePropertyColor'', codePropertyColor),
       (''codeKeywordColor'', codeKeywordColor), (''codeOperatorColor'', codeOperatorColor)] }"

definition light_theme :: "jsobj \<Rightarrow> string \<Rightarrow> string \<Rightarrow> string \<Rightarrow> jsobj option" where
  "light_theme t n o' a = do {
     e \<leftarrow> choose_or t ''bg1'' (Some ''#fafbfc'');
     i \<leftarrow> choose_or t ''fg1'' (Some ''#444444'');
     s \<leftarrow> choose_or t ''bg2'' (brightness e (- 5));
     l \<leftarrow> choose_or t ''bg3'' (brightness e (- 15));
     c \<leftarrow> choose_or t ''bg3'' (brightness e (- 45));
     p \<leftarrow> choose_or t ''fg2'' (brightness i 17);
     d \<leftarrow> choose_or t ''fg3'' (brightness i 30);
     u \<leftarrow> choose_or t ''fg3'' (brightness i 70);
     h \<leftarrow> choose_or t ''inlineCodeFg'' (Some ''brown'');
     y \<leftarrow> choose_or t ''headerColor'' (brightness e (- 180));
     g \<leftarrow> choose_or t ''navBgColor'' (brightness e (- 200));
     v \<leftarrow> choose_or t ''navTextColor'' (do { x \<leftarrow> invert g; opacity x ''0.65'' });
     b \<leftarrow> choose_or t ''navHoverBgColor'' (brightness g (- 15));
     x \<leftarrow> choose_or t ''navHoverTextColor'' (invert g);
     w \<leftarrow> choose_or t ''navAccentColor'' (brightness n 25);
     navAccentTextColor \<leftarrow> navAccentText t w;
     headerColorInvert \<leftarrow> invert y;
     headerColorDarker \<leftarrow> brightness y (- 20);
     headerColorBorder \<leftarrow> brightness y 10;
     borderColor \<leftarrow> choose_or t ''borderColor'' (brightness e (- 38));
     lightBorderColor \<leftarrow> choose_or t ''lightBorderColor'' (brightness e (- 23));
     codeBorderColor \<leftarrow> choose_or t ''codeBorderColor'' (Some ''transparent'');
     inputBg \<leftarrow> choose_or t ''inputBg'' (brightness e 10);
     placeHolder \<leftarrow> choose_or t ''placeHolder'' (brightness u 20);
     hoverColor \<leftarrow> choose_or t ''hoverColor'' (brightness e (- 5));
     red \<leftarrow> choose_or t ''red'' (Some ''#F06560'');
     lightRed \<leftarrow> choose_or t ''lightRed'' (Some ''#fff0f0'');
     pink \<leftarrow> choose_or t ''pink'' (Some ''#990055'');
     lightPink \<leftarrow> choose_or t ''lightPink'' (Some ''#ffb2b2'');
     green \<leftarrow> choose_or t ''green'' (Some ''#690'');
     lightGreen \<leftarrow> choose_or t ''lightGreen'' (Some ''#fbfff0'');
     blue \<leftarrow> choose_or t ''blue'' (Some ''#47AFE8'');
     lightBlue \<leftarrow> choose_or t ''lightBlue'' (Some ''#eff8fd'');
     orange \<leftarrow> choose_or t ''orange'' (Some ''#FF9900'');
     lightOrange \<leftarrow> choose_or t ''lightOrange'' (Some ''#fff5e6'');
     yellow \<leftarrow> choose_or t ''yellow'' (Some ''#827717'');
     lightYellow \<leftarrow> choose_or t ''lightYellow'' (Some ''#fff5cc'');
     purple \<leftarrow> choose_or t ''purple'' (Some ''#786FF1'');
     brown \<leftarrow> choose_or t ''brown'' (Some ''#D4AC0D'');
     codeBg \<leftarrow> choose_or t ''codeBg'' (do { z \<leftarrow> brightness e (- 15); opacity z ''0.7'' });
     codeFg \<leftarrow> choose_or t ''codeFg'' (Some ''#666'');
     codePropertyColor \<leftarrow> choose_or t ''codePropertyColor'' (Some ''#905'');
     codeKeywordColor \<leftarrow> choose_or t ''codeKeywordColor'' (Some ''#07a'');
     codeOperatorColor \<leftarrow> choose_or t ''codeOperatorColor'' (Some ''#9a6e3a'');
     Some [(''bg1'', e), (''bg2'', s), (''bg3'', l), (''lightBg'', c), (''fg1'', i), (''fg2'', p), (''fg3'', d),
       (''lightFg'', u), (''inlineCodeFg'', h), (''primaryColor'', n), (''primaryColorTrans'', a),
       (''primaryColorInvert'', o'), (''selectionBg'', ''#444''), (''selectionFg'', ''#eee''),
       (''overlayBg'', ''rgba(0, 0, 0, 0.4)''), (''navBgColor'', g), (''navTextColor'', v), (''navHoverBgColor'', b),
       (''navHoverTextColor'', x), (''navAccentColor'', w), (''navAccentTextColor'', navAccentTextColor),
       (''headerColor'', y), (''headerColorInvert'', headerColorInvert), (''headerColorDarker'', headerColorDarker),
       (''headerColorBorder'', headerColorBorder), (''borderColor'', borderColor), (''lightBorderColor'', lightBorderColor),
       (''codeBorderColor'', codeBorderColor), (''inputBg'', inputBg), (''placeHolder'', placeHolder),
       (''hoverColor'', hoverColor), (''red'', red), (''lightRed'', lightRed), (''pink'', pink), (''lightPink'', lightPink),
       (''green'', green), (''lightGreen'', lightGreen), (''blue'', blue), (''lightBlue'', lightBlue), (''orange'', orange),
       (''lightOrange'', lightOrange), (''yellow'', yellow), (''lightYellow'', lightYellow), (''purple'', purple),
       (''brown'', brown), (''codeBg'', codeBg), (''codeFg'', codeFg), (''codePropertyColor'', codePropertyColor),
       (''codeKeywordColor'', codeKeywordColor), (''codeOperatorColor'', codeOperatorColor)] }"

definition attr_or :: "jsobj \<Rightarrow> string \<Rightarrow> string \<Rightarrow> string" where
  "attr_or this k d = js_string (choose_or this k (Some d))"

definition by_font_size :: "jsobj \<Rightarrow> string \<Rightarrow> string \<Rightarrow> string \<Rightarrow> string" where
  "by_font_size this a b c =
     (if map_of this ''fontSize'' = Some ''default'' then a else if map_of this ''fontSize'' = Some ''large'' then b else c)"

text \<open>The custom properties of the style element, in its order.\<close>

definition theme_vars :: "jsobj \<Rightarrow> jsobj \<Rightarrow> (string \<times> string) list" where
  "theme_vars this r =
     [(''border-radius'', ''2px''),
      (''layout'', attr_or this ''layout'' ''row''),
      (''font-mono'', attr_or this ''monoFont'' ''Monaco, \"Andale Mono\", \"Roboto Mono\", Consolas, monospace''),
      (''font-regular'', attr_or this ''regularFont'' ''\"Open Sans\", Avenir, \"Segoe UI\", Arial, sans-serif''),
      (''scroll-bar-width'', ''8px''),
      (''nav-item-padding'', if map_of this ''navItemSpacing'' = Some ''relaxed'' then ''10px 16px 10px 10px''
         else if map_of this ''navItemSpacing'' = Some ''compact'' then ''5px 16px 5px 10px'' else ''7px 16px 7px 10px''),
      (''resp-area-height'', js_string (map_of this ''responseAreaHeight'')),
      (''font-size-small'', by_font_size this ''12px'' ''13px'' ''14px''),
      (''font-size-mono'', by_font_size this ''13px'' ''14px'' ''15px''),
      (''font-size-regular'', by_font_size this ''14px'' ''15px'' ''16px''),
      (''dialog-z-index'', ''1000''),
      (''focus-shadow'', ''0 0 0 1px transparent, 0 0 0 3px '' @ js_string (map_of r ''primaryColorTrans'')),
      (''bg'', js_string (map_of r ''bg1'')),
      (''bg2'', js_string (map_of r ''bg2'')),
      (''bg3'', js_string (map_of r ''bg3'')),
      (''light-bg'', js_string (map_of r ''lightBg'')),
      (''fg'', js_string (map_of r ''fg1'')),
      (''fg2'', js_string (map_of r ''fg2'')),
      (''fg3'', js_string (map_of r ''fg3'')),
      (''light-fg'', js_string (map_of r ''lightFg'')),
      (''selection-bg'', js_string (map_of r ''selectionBg'')),
      (''selection-fg'', js_string (map_of r ''selectionFg'')),
      (''overlay-bg'', js_string (map_of r ''overlayBg'')),
      (''border-color'', js_string (map_of r ''borderColor'')),
      (''light-border-color'', js_string (map_of r ''lightBorderColor'')),
      (''code-border-color'', js_string (map_of r ''codeBorderColor'')),
      (''input-bg'', js_string (map_of r ''inputBg'')),
      (''placeholder-color'', js_string (map_of r ''placeHolder'')),
      (''hover-color'', js_string (map_of r ''hoverColor'')),
      (''red'', js_string (map_of r ''red'')),
      (''light-red'', js_string (map_of r ''lightRed'')),
      (''pink'', js_string (map_of r ''pink'')),
      (''light-pink'', js_string (map_of r ''lightPink'')),
      (''green'', js_string (map_of r ''green'')),
      (''light-green'', js_string (map_of r ''lightGreen'')),
      (''blue'', js_string (map_of r ''blue'')),
      (''light-blue'', js_string (map_of r ''lightBlue'')),
      (''orange'', js_string (map_of r ''orange'')),
      (''light-orange'', js_string (map_of r ''lightOrange'')),
      (''yellow'', js_string (map_of r ''yellow'')),
      (''light-yellow'', js_string (map_of r ''lightYellow'')),
      (''purple'', js_string (map_of r ''purple'')),
      (''brown'', js_string (map_of r ''brown'')),
      (''header-bg'', js_string (map_of r ''headerColor'')),
      (''header-fg'', js_string (map_of r ''headerColorInvert'')),
      (''header-color-darker'', js_string (map_of r ''headerColorDarker'')),
      (''header-color-border'', js_string (map_of r ''headerColorBorder'')),
      (''nav-bg-color'', js_string (map_of r ''navBgColor'')),
      (''nav-text-color'', js_string (map_of r ''navTextColor'')),
      (''nav-hover-bg-color'', js_string (map_of r ''navHoverBgColor'')),
      (''nav-hover-text-color'', js_string (map_of r ''navHoverTextColor'')),
      (''nav-accent-color'', js_string (map_of r ''navAccentColor'')),
      (''nav-accent-text-color'', js_string (map_of r ''navAccentTextColor'')),
      (''nav-get-color'', js_string (map_of r ''blue'')),
      (''nav-put-color'', js_string (map_of r ''orange'')),
      (''nav-post-color'', js_string (map_of r ''green'')),
      (''nav-delete-color'', js_string (map_of r ''red'')),
      (''nav-head-color'', js_string (map_of r ''yellow'')),
      (''primary-color'', js_string (map_of r ''primaryColor'')),
      (''primary-color-invert'', js_string (map_of r ''primaryColorInvert'')),
      (''primary-color-trans'', js_string (map_of r ''primaryColorTrans'')),
      (''code-bg'', js_string (map_of r ''codeBg'')),
      (''code-fg'', js_string (map_of r ''codeFg'')),
      (''inline-code-fg'', js_string (map_of r ''inlineCodeFg'')),
      (''code-property-color'', js_string (map_of r ''codePropertyColor'')),
      (''code-keyword-color'', js_string (map_of r ''codeKeywordColor'')),
      (''code-operator-color'', js_string (map_of r ''codeOperatorColor''))]"

definition theme_colors :: "string \<Rightarrow> jsobj \<Rightarrow> jsobj option" where
  "theme_colors e t = do {
     n \<leftarrow> choose_or t ''primaryColor'' (Some (if e = ''dark'' then ''#f76b39'' else ''#ff591e''));
     o' \<leftarrow> invert n;
     a \<leftarrow> opacity n ''0.4'';
     if e = ''dark'' then dark_theme t n o' a else light_theme t n o' a }"

definition xR :: "jsobj \<Rightarrow> string \<Rightarrow> jsobj \<Rightarrow> css_sheet option" where
  "xR this e t = map_option (\<lambda>r.
     [Rule [[(Desc, [SStar])], [(Desc, [SStar, SPseudoEl ''before''])], [(Desc, [SStar, SPseudoEl ''after''])]]
        [(''box-sizing'', [Tx ''border-box''])],
      Rule [[(Desc, [SPseudo ''host''])]] (map (\<lambda>(k, v). (''--'' @ k, [Tx v])) (theme_vars this r))]) (theme_colors e t)"

text \<open>The theme of the page and of the schema viewer: only the value \<open>dark\<close> selects the dark one.\<close>

definition page_theme :: "jsobj \<Rightarrow> css_sheet option" where
  "page_theme this = xR this (if map_of this ''theme'' = Some ''dark'' then ''dark'' else ''light'') (wR_options this)"

definition viewer_theme :: "jsobj \<Rightarrow> css_sheet option" where
  "viewer_theme this = xR this (if map_of this ''theme'' = Some ''dark'' then ''dark'' else ''light'') (ER_options this)"

text \<open>What a style sheet defines for the element it is in.\<close>

fun host_vars :: "css_rule \<Rightarrow> (string \<times> string) list" where
  "host_vars (Rule sels ds) =
     (if sels = [[(Desc, [SPseudo ''host''])]]
      then concat (map (\<lambda>(k, v). case v of [Tx s] \<Rightarrow> [(drop 2 k, s)] | _ \<Rightarrow> []) ds) else [])"
| "host_vars _ = []"

definition sheet_env :: "css_sheet \<Rightarrow> (string \<times> string) list" where
  "sheet_env s = concat (map host_vars s)"

section \<open>Facts about colours\<close>

lemma hex_not_space: "isHex a \<Longrightarrow> \<not> isSpace a \<and> a \<notin> {CHR ''-'', CHR ''+'', CHR ''x'', CHR ''X''}"
  by (auto simp: isHex_def isDigit_def isSpace_def less_eq_char_def)

lemma parseInt16_hex2:
  "isHex a \<Longrightarrow> isHex b \<Longrightarrow> parseInt16 [a, b] = Some (int (16 * hexVal a + hexVal b))"
  using hex_not_space [of a] hex_not_space [of b] by (auto simp: parseInt16_def hex_prefix_def numVal_def)

lemma hexVal_less: "isHex a \<Longrightarrow> hexVal a < 16"
  by (auto simp: isHex_def isDigit_def hexVal_def less_eq_char_def)

definition rgb_ok :: "Rgb \<Rightarrow> bool" where
  "rgb_ok c \<longleftrightarrow> (\<forall>x\<in>{c_r c, c_g c, c_b c}. \<exists>i. x = Some i \<and> 0 \<le> i \<and> i \<le> 255)"

lemma parseInt16_byte:
  "isHex a \<Longrightarrow> isHex b \<Longrightarrow> \<exists>i. parseInt16 [a, b] = Some i \<and> 0 \<le> i \<and> i \<le> 255"
  using hexVal_less [of a] hexVal_less [of b] by (auto simp: parseInt16_hex2)

lemma getRgb_six:
  assumes "list_all isHex ds" and "length ds = 6"
  shows "\<exists>c. getRgb (CHR ''#'' # ds @ rest) = Some c \<and> rgb_ok c"
proof -
  obtain a b c d e f where ds: "ds = [a, b, c, d, e, f]"
    using assms(2) by (auto simp: length_Suc_conv numeral_eq_Suc)
  with assms(1) show ?thesis
    by (auto simp: getRgb_def js_slice_def rgb_ok_def numeral_eq_Suc parseInt16_byte)
qed

lemma getRgb_hexColor:
  assumes "isHexColor e"
  shows "\<exists>c. getRgb e = Some c \<and> rgb_ok c"
proof -
  obtain ds where e: "e = CHR ''#'' # ds" and h: "list_all isHex ds" and l: "length ds \<in> {3, 4, 6, 8}"
    using assms by (cases e) (auto simp: isHexColor_def)
  show ?thesis
  proof (cases "length ds \<ge> 6")
    case True
    then have "list_all isHex (take 6 ds)" "length (take 6 ds) = 6"
      using h by (auto simp: list_all_iff dest: in_set_takeD)
    from getRgb_six [OF this, of "drop 6 ds"] show ?thesis by (simp add: e)
  next
    case False
    then obtain a b c r where "ds = a # b # c # r" "r = [] \<or> (\<exists>d. r = [d])"
      using l by (auto simp: length_Suc_conv numeral_eq_Suc)
    with h show ?thesis by (auto simp: e getRgb_def js_slice_def rgb_ok_def numeral_eq_Suc parseInt16_byte)
  qed
qed

lemma isHex_hexDigit: "n < 16 \<Longrightarrow> isHex (hexDigit n) \<and> hexVal (hexDigit n) = n"
proof -
  assume "n < 16"
  moreover have "\<forall>n\<in>set [0..<16]. isHex (hexDigit n) \<and> hexVal (hexDigit n) = n" by code_simp
  ultimately show ?thesis by simp
qed

definition clamp :: "int \<Rightarrow> int" where
  "clamp i = max 0 (min 255 i)"

lemma brighten_clamp: "brighten t (Some i) = Some (clamp (i + t))"
  by (auto simp: brighten_def clamp_def Let_def)

lemma clamp_bounds: "0 \<le> clamp i" "clamp i \<le> 255" "nat (clamp i) div 16 < 16"
  by (auto simp: clamp_def)

lemma hex2_clamp:
  "\<exists>a b. hex2 (Some (clamp i)) = [a, b] \<and> isHex a \<and> isHex b \<and> parseInt16 [a, b] = Some (clamp i)"
proof -
  let ?n = "nat (clamp i)"
  have h: "isHex (hexDigit (?n div 16))" "hexVal (hexDigit (?n div 16)) = ?n div 16"
    "isHex (hexDigit (?n mod 16))" "hexVal (hexDigit (?n mod 16)) = ?n mod 16"
    using isHex_hexDigit clamp_bounds(3) by auto
  have "int (16 * (?n div 16) + ?n mod 16) = clamp i" using clamp_bounds(1) by simp
  with h show ?thesis by (auto simp: hex2_def parseInt16_hex2)
qed

text \<open>A brightened colour is a colour again, each component moved and kept in range.\<close>

lemma brightness_components:
  assumes "isHexColor e"
  shows "\<exists>s r g b. brightness e t = Some s \<and> isHexColor s \<and>
    getRgb e = Some \<lparr>c_r = Some r, c_g = Some g, c_b = Some b\<rparr> \<and>
    getRgb s = Some \<lparr>c_r = Some (clamp (r + t)), c_g = Some (clamp (g + t)), c_b = Some (clamp (b + t))\<rparr>"
proof -
  from getRgb_hexColor [OF assms] obtain c where c: "getRgb e = Some c" "rgb_ok c" by auto
  then obtain r g b where rgb: "c = \<lparr>c_r = Some r, c_g = Some g, c_b = Some b\<rparr>"
    by (cases c) (auto simp: rgb_ok_def)
  obtain a1 a2 b1 b2 c1 c2 where
    "hex2 (Some (clamp (r + t))) = [a1, a2]" "isHex a1" "isHex a2" "parseInt16 [a1, a2] = Some (clamp (r + t))"
    "hex2 (Some (clamp (g + t))) = [b1, b2]" "isHex b1" "isHex b2" "parseInt16 [b1, b2] = Some (clamp (g + t))"
    "hex2 (Some (clamp (b + t))) = [c1, c2]" "isHex c1" "isHex c2" "parseInt16 [c1, c2] = Some (clamp (b + t))"
    using hex2_clamp by metis
  then show ?thesis using c(1) rgb
    by (auto simp: brightness_def brighten_clamp isHexColor_def getRgb_def [of "_ # _"] js_slice_def numeral_eq_Suc)
qed

section \<open>The theme does not fail\<close>

text \<open>Total versions of the colour functions, for accepted colours.\<close>

definition bright :: "string \<Rightarrow> int \<Rightarrow> string" where "bright e t = the (brightness e t)"
definition inverse_color :: "string \<Rightarrow> string" where "inverse_color e = the (invert e)"
definition opaque :: "string \<Rightarrow> string \<Rightarrow> string" where "opaque e t = the (opacity e t)"
definition pick :: "jsobj \<Rightarrow> string \<Rightarrow> string \<Rightarrow> string" where "pick t k d = the (choose_or t k (Some d))"

definition opts_ok :: "jsobj \<Rightarrow> bool" where
  "opts_ok t \<longleftrightarrow> (\<forall>k v. map_of t k = Some v \<longrightarrow> v = [] \<or> isHexColor v)"

lemma choose_Some: "choose_or t k (Some d) = Some (pick t k d)"
  by (auto simp: pick_def choose_or_def split: option.splits list.splits)

lemma pick_color: "opts_ok t \<Longrightarrow> isHexColor d \<Longrightarrow> isHexColor (pick t k d)"
  by (auto simp: pick_def choose_or_def opts_ok_def split: option.splits list.splits)

lemma brightness_Some: "isHexColor e \<Longrightarrow> brightness e t = Some (bright e t)"
  and bright_color: "isHexColor e \<Longrightarrow> isHexColor (bright e t)"
  using brightness_components [of e t] by (auto simp: bright_def)

lemma invert_Some: "isHexColor e \<Longrightarrow> invert e = Some (inverse_color e)"
  and inverse_color_color: "isHexColor e \<Longrightarrow> isHexColor (inverse_color e)"
proof -
  assume "isHexColor e"
  then obtain c where c: "getRgb e = Some c" using getRgb_hexColor by blast
  then show "invert e = Some (inverse_color e)" by (simp add: inverse_color_def invert_def luminanace_def)
  have "isHexColor ''#000''" "isHexColor ''#fff''" by code_simp+
  with c show "isHexColor (inverse_color e)"
    by (auto simp: inverse_color_def invert_def luminanace_def split: option.splits)
qed

lemma opacity_Some: "isHexColor e \<Longrightarrow> opacity e t = Some (opaque e t)"
  using getRgb_hexColor [of e] by (auto simp: opacity_def opaque_def)

definition accent_text :: "jsobj \<Rightarrow> string \<Rightarrow> string" where
  "accent_text t w = (if truthy t ''navAccentTextColor'' then js_string (map_of t ''navAccenttextColor'') else inverse_color w)"

lemma navAccentText_Some: "isHexColor w \<Longrightarrow> navAccentText t w = Some (accent_text t w)"
  by (simp add: navAccentText_def accent_text_def invert_Some)

lemma theme_literals:
  "isHexColor ''#2a2b2c''" "isHexColor ''#bbb''" "isHexColor ''#fafbfc''" "isHexColor ''#444444''"
  "isHexColor ''#f76b39''" "isHexColor ''#ff591e''"
  by code_simp+

lemmas theme_total = choose_Some pick_color brightness_Some bright_color invert_Some inverse_color_color opacity_Some
  navAccentText_Some theme_literals

lemma dark_theme_accent:
  assumes "opts_ok t" and "isHexColor n"
  shows "\<exists>r. dark_theme t n o' a = Some r \<and>
    map_of r ''navAccentTextColor'' = Some (accent_text t (pick t ''navAccentColor'' (bright n 25)))"
  unfolding dark_theme_def by (simp add: theme_total assms)

lemma light_theme_accent:
  assumes "opts_ok t" and "isHexColor n"
  shows "\<exists>r. light_theme t n o' a = Some r \<and>
    map_of r ''navAccentTextColor'' = Some (accent_text t (pick t ''navAccentColor'' (bright n 25)))"
  unfolding light_theme_def by (simp add: theme_total assms)

definition primary :: "string \<Rightarrow> jsobj \<Rightarrow> string" where
  "primary e t = pick t ''primaryColor'' (if e = ''dark'' then ''#f76b39'' else ''#ff591e'')"

lemma theme_colors_accent:
  assumes "opts_ok t"
  shows "\<exists>r. theme_colors e t = Some r \<and>
    map_of r ''navAccentTextColor'' = Some (accent_text t (pick t ''navAccentColor'' (bright (primary e t) 25)))"
proof -
  have n: "isHexColor (primary e t)" using assms by (simp add: primary_def theme_total)
  have c: "choose_or t ''primaryColor'' (Some (if e = ''dark'' then ''#f76b39'' else ''#ff591e'')) = Some (primary e t)"
    unfolding primary_def by (rule choose_Some)
  have "theme_colors e t =
      (if e = ''dark'' then dark_theme t (primary e t) (inverse_color (primary e t)) (opaque (primary e t) ''0.4'')
       else light_theme t (primary e t) (inverse_color (primary e t)) (opaque (primary e t) ''0.4''))"
    unfolding theme_colors_def c by (simp add: invert_Some [OF n] opacity_Some [OF n])
  then show ?thesis using dark_theme_accent [OF assms n] light_theme_accent [OF assms n] by presburger
qed

lemma color_attr_ok: "color_attr this k = [] \<or> isHexColor (color_attr this k)"
  by (auto simp: color_attr_def split: option.splits)

lemma options_ok: "opts_ok (wR_options this)" "opts_ok (ER_options this)"
  unfolding opts_ok_def wR_options_def ER_options_def common_options_def using color_attr_ok by auto

lemma theme_vars_names: "map fst (theme_vars this r) = theme_names"
  by (simp add: theme_vars_def theme_names_def)

lemma sheet_env_theme: "xR this e t = Some s \<Longrightarrow> \<exists>r. theme_colors e t = Some r \<and> sheet_env s = theme_vars this r"
proof -
  assume "xR this e t = Some s"
  then obtain r where r: "theme_colors e t = Some r" and s: "s =
     [Rule [[(Desc, [SStar])], [(Desc, [SStar, SPseudoEl ''before''])], [(Desc, [SStar, SPseudoEl ''after''])]]
        [(''box-sizing'', [Tx ''border-box''])],
      Rule [[(Desc, [SPseudo ''host''])]] (map (\<lambda>(k, v). (''--'' @ k, [Tx v])) (theme_vars this r))]"
    by (auto simp: xR_def)
  have "concat (map (\<lambda>(k, v). case v of [Tx s] \<Rightarrow> [(drop 2 k, s)] | _ \<Rightarrow> [])
      (map (\<lambda>(k, v). (''--'' @ k, [Tx v])) kvs)) = kvs" for kvs :: "(string \<times> string) list"
    by (induction kvs) auto
  then have "sheet_env s = theme_vars this r" by (simp add: sheet_env_def s)
  with r show ?thesis by blast
qed

section \<open>The sheets are closed but for one name\<close>

lemma closed_sheets:
  "closed_sheet Ke_styles" "closed_sheet Je_styles" "closed_sheet Qe_styles" "closed_sheet tt_styles"
  "closed_sheet UP_styles" "closed_sheet (rapi_doc_styles nav_width)"
  by (simp_all add: Ke_styles_def Je_styles_def Qe_styles_def tt_styles_def UP_styles_def rapi_doc_styles_def
      Ke_styles_1_closed Ke_styles_2_closed Ke_styles_3_closed Je_styles_1_closed Je_styles_2_closed
      Qe_styles_1_closed Qe_styles_2_closed tt_styles_1_closed tt_styles_2_closed UP_styles_1_closed UP_styles_2_closed
      rapi_doc_styles_1_closed rapi_doc_styles_2_closed rapi_doc_styles_3_closed)

lemmas all_closed = closed_sheets Ye_styles_closed Ze_styles_closed Xe_styles_closed et_styles_closed rt_styles_closed
  nt_styles_closed SP_styles_closed json_tree_styles_closed schema_tree_styles_closed tag_input_styles_closed
  schema_table_styles_closed api_response_styles_closed yR_styles_closed rapi_doc_mini_styles_closed
  json_schema_viewer_styles_closed

lemma api_request_needs: "set (needed_vars api_request_styles) - set theme_names = {''smal-font-size''}"
proof -
  have "remdups (filter (\<lambda>x. \<not> List.member theme_names x) (needed_vars api_request_styles)) = [''smal-font-size'']"
    by code_simp
  then have "set (filter (\<lambda>x. \<not> List.member theme_names x) (needed_vars api_request_styles)) = {''smal-font-size''}"
    by (metis set_remdups list.set(1) list.set(2))
  then show ?thesis by auto
qed

text \<open>All sheets of an element of the page.\<close>

definition sheets_of :: "string option \<Rightarrow> css_sheet list" where
  "sheets_of classFontSize = concat (map snd (element_sheets classFontSize))"

lemma sheets_of_closed: "s \<in> set (sheets_of cfs) \<Longrightarrow> s = api_request_styles \<or> closed_sheet s"
  by (auto simp: sheets_of_def element_sheets_def page_sheets_def all_closed)

lemma closed_sheet_names: "closed_sheet s \<longleftrightarrow> set (needed_vars s) \<subseteq> set theme_names"
  by (auto simp: closed_sheet_def list_all_iff)

section \<open>Properties\<close>

text \<open>
  C19. The page always has a theme, and the theme defines what the style sheets use. Whatever
  the attributes of the element are, also malformed colours, computing the theme does not
  throw, for the page and for the schema viewer alike, and the custom properties that some
  sheet of some element uses without a fallback and that the theme does not define are exactly
  one: \<open>--smal-font-size\<close>, a misspelling in the sheet of \<open>api-request\<close>.
\<close>

theorem theme_defines_variables:
  "\<exists>page viewer. page_theme this = Some page \<and> viewer_theme this = Some viewer \<and>
     map fst (sheet_env page) = map fst (sheet_env viewer) \<and>
     (\<Union>s\<in>set (sheets_of classFontSize). set (needed_vars s)) - set (map fst (sheet_env page)) = {''smal-font-size''}"
proof -
  let ?e = "if map_of this ''theme'' = Some ''dark'' then ''dark'' else ''light''"
  obtain page where p: "page_theme this = Some page"
    using theme_colors_accent [OF options_ok(1), of ?e this] by (auto simp: page_theme_def xR_def)
  obtain viewer where v: "viewer_theme this = Some viewer"
    using theme_colors_accent [OF options_ok(2), of ?e this] by (auto simp: viewer_theme_def xR_def)
  have names: "map fst (sheet_env page) = theme_names" "map fst (sheet_env viewer) = theme_names"
    using sheet_env_theme p v theme_vars_names unfolding page_theme_def viewer_theme_def by metis+
  have "api_request_styles \<in> set (sheets_of classFontSize)" by (simp add: sheets_of_def element_sheets_def)
  moreover have "set (needed_vars s) - set theme_names \<subseteq> {''smal-font-size''}" if "s \<in> set (sheets_of classFontSize)" for s
    using sheets_of_closed [OF that] api_request_needs by (auto simp: closed_sheet_names)
  ultimately have "(\<Union>s\<in>set (sheets_of classFontSize). set (needed_vars s)) - set theme_names = {''smal-font-size''}"
    using api_request_needs by blast
  then show ?thesis by (intro exI [of _ page] exI [of _ viewer] conjI p v) (simp_all only: names)
qed

text \<open>
  C32. Colours keep their range. Brightening an accepted colour by any amount gives a colour
  that is accepted again, and each of its components is the one of the original plus the
  amount, cut off at 0 and 255.
\<close>

theorem brightness_stays_in_range:
  assumes "isHexColor e"
  shows "\<exists>s r g b. brightness e t = Some s \<and> isHexColor s \<and>
    getRgb e = Some \<lparr>c_r = Some r, c_g = Some g, c_b = Some b\<rparr> \<and>
    getRgb s = Some \<lparr>c_r = Some (max 0 (min 255 (r + t))), c_g = Some (max 0 (min 255 (g + t))),
      c_b = Some (max 0 (min 255 (b + t)))\<rparr>"
  using brightness_components [OF assms, of t] unfolding clamp_def .

theorem brightness_stays_in_range_witness:
  "\<exists>s. brightness ''#fafbfc'' 10 = Some s \<and> isHexColor s \<and>
     getRgb s = Some \<lparr>c_r = Some 255, c_g = Some 255, c_b = Some 255\<rparr>"
proof -
  have "isHexColor ''#fafbfc''" "getRgb ''#fafbfc'' = Some \<lparr>c_r = Some 250, c_g = Some 251, c_b = Some 252\<rparr>"
    by code_simp+
  then show ?thesis using brightness_stays_in_range [of "''#fafbfc''" 10] by auto
qed

text \<open>
  The colour configured for the text on the accent colour never takes effect. A misspelt
  property makes the page show \<open>undefined\<close> in its place, and the schema viewer the colour
  computed from the accent colour, whatever accepted colour the attribute has.
\<close>

theorem nav_accent_text_color_is_lost:
  assumes "map_of this ''navAccentTextColor'' = Some color" and "isHexColor color"
  shows "\<exists>page viewer w. page_theme this = Some page \<and> viewer_theme this = Some viewer \<and>
    map_of (sheet_env page) ''nav-accent-text-color'' = Some ''undefined'' \<and>
    map_of (sheet_env viewer) ''nav-accent-text-color'' = invert w \<and>
    w = pick (ER_options this) ''navAccentColor'' (bright (primary
      (if map_of this ''theme'' = Some ''dark'' then ''dark'' else ''light'') (ER_options this)) 25)"
proof -
  let ?e = "if map_of this ''theme'' = Some ''dark'' then ''dark'' else ''light''"
  let ?w = "\<lambda>t. pick t ''navAccentColor'' (bright (primary ?e t) 25)"
  have ne: "color \<noteq> []" using assms(2) by (auto simp: isHexColor_def)
  have attr: "color_attr this ''navAccentTextColor'' = color" using assms by (simp add: color_attr_def)
  have lookup: "map_of (theme_vars this r) ''nav-accent-text-color'' = Some (js_string (map_of r ''navAccentTextColor''))" for r
    by (simp add: theme_vars_def)
  have col: "isHexColor (?w t)" if "opts_ok t" for t
    using that by (simp add: primary_def theme_total)
  obtain r1 where r1: "theme_colors ?e (wR_options this) = Some r1"
    "map_of r1 ''navAccentTextColor'' = Some (accent_text (wR_options this) (?w (wR_options this)))"
    using theme_colors_accent [OF options_ok(1)] by blast
  obtain r2 where r2: "theme_colors ?e (ER_options this) = Some r2"
    "map_of r2 ''navAccentTextColor'' = Some (accent_text (ER_options this) (?w (ER_options this)))"
    using theme_colors_accent [OF options_ok(2)] by blast
  obtain page where p: "page_theme this = Some page" "sheet_env page = theme_vars this r1"
    using sheet_env_theme [of this ?e "wR_options this"] r1(1) by (force simp: page_theme_def xR_def)
  obtain viewer where v: "viewer_theme this = Some viewer" "sheet_env viewer = theme_vars this r2"
    using sheet_env_theme [of this ?e "ER_options this"] r2(1) by (force simp: viewer_theme_def xR_def)
  have "accent_text (wR_options this) w = ''undefined''" for w
    using attr ne by (cases color)
      (simp_all add: accent_text_def truthy_def wR_options_def common_options_def js_string_def)
  moreover have "accent_text (ER_options this) w = inverse_color w" for w
    by (simp add: accent_text_def truthy_def ER_options_def common_options_def)
  ultimately show ?thesis
    using p v r1(2) r2(2) lookup invert_Some [OF col [OF options_ok(2)]] by (simp add: js_string_def)
qed

theorem nav_accent_text_color_is_lost_witness:
  "\<exists>page. page_theme [(''navAccentTextColor'', ''#123456'')] = Some page \<and>
    map_of (sheet_env page) ''nav-accent-text-color'' = Some ''undefined''"
proof -
  have "isHexColor ''#123456''" by code_simp
  then show ?thesis using nav_accent_text_color_is_lost [of "[(''navAccentTextColor'', ''#123456'')]" "''#123456''"] by auto
qed

end
