(* ===== verification/Web_Cascade.thy ===== *)
theory Web_Cascade
  imports Web_Element_Styles
begin

text \<open>
  What the style sheet for endpoints of the documentation page shows: the colour of the HTTP
  method in the places where the page displays an endpoint.
\<close>

section \<open>An endpoint on the page\<close>

definition div_el :: "string list \<Rightarrow> css_element" where
  "div_el classes = \<lparr>el_tag = ''div'', el_id = [], el_classes = classes, el_attrs = [], el_states = [], el_pseudo = None\<rparr>"

text \<open>The methods of an endpoint, and the custom property with the colour of each.\<close>

definition http_methods :: "string list" where
  "http_methods = [''get'', ''put'', ''post'', ''delete'', ''head'', ''patch'', ''options'']"

definition method_color :: "string \<Rightarrow> string" where
  "method_color m =
     (if m = ''get'' then ''blue'' else if m = ''put'' then ''orange'' else if m = ''post'' then ''green''
      else if m = ''delete'' then ''red'' else ''yellow'')"

text \<open>
  The places: the head of an expanded endpoint, its body, the label of the method in the head,
  and the request panel of the body.
\<close>

definition endpoint_places :: "string \<Rightarrow> (css_context \<times> string \<times> css_value) list" where
  "endpoint_places m =
     (let endpoint = (div_el [''m-endpoint'', ''expanded''], []); col = Va (method_color m);
          hd_el = (div_el [''endpoint-head'', m, ''expanded''], []);
          bd_el = (div_el [''endpoint-body'', m], []) in
      [([hd_el, endpoint], ''border-color'', [col]),
       ([hd_el, endpoint], ''background-color'', [Va (''light-'' @ method_color m)]),
       ([bd_el, endpoint], ''border-color'', [col]),
       ([(div_el [''method'', m], []), hd_el, endpoint], ''border'', [Tx ''2px solid '', col]),
       ([(div_el [''view-mode-request''], []), bd_el, endpoint], ''border-color'', [col])])"

definition displays :: "bool \<Rightarrow> css_sheet list \<Rightarrow> css_context \<times> string \<times> css_value \<Rightarrow> bool" where
  "displays large sheets place = (case place of (ctx, p, v) \<Rightarrow> css_cascade (\<lambda>_. large) sheets ctx p = Some v)"

section \<open>The rules of the page, by property\<close>

definition part_rules :: "bool \<Rightarrow> string \<Rightarrow> css_sheet \<Rightarrow> (css_selector list \<times> css_value) list" where
  "part_rules large p s = relevant p (concat (map (active_rules (\<lambda>_. large)) s))"

lemma part_rules_append: "part_rules large p (a @ b) = part_rules large p a @ part_rules large p b"
  by (simp add: part_rules_def relevant_append)

definition border_color_Qe_1 :: "(css_selector list \<times> css_value) list" where
  \<open>border_color_Qe_1 =
     [([[(Desc, [SCls ''m-endpoint'']), (Child, [SCls ''endpoint-head''])]],
       [Tx ''transparent'']),
      ([[(Desc, [SCls ''m-endpoint'']), (Child, [SCls ''endpoint-head'', SCls ''put'', SPseudo ''hover''])], [(Desc, [SCls ''m-endpoint'']), (Child, [SCls ''endpoint-head'', SCls ''put'', SCls ''expanded''])]],
       [Va ''orange'']),
      ([[(Desc, [SCls ''m-endpoint'']), (Child, [SCls ''endpoint-head'', SCls ''post'', SPseudo ''hover''])], [(Desc, [SCls ''m-endpoint'']), (Child, [SCls ''endpoint-head'', SCls ''post'', SCls ''expanded''])]],
       [Va ''green'']),
      ([[(Desc, [SCls ''m-endpoint'']), (Child, [SCls ''endpoint-head'', SCls ''get'', SPseudo ''hover''])], [(Desc, [SCls ''m-endpoint'']), (Child, [SCls ''endpoint-head'', SCls ''get'', SCls ''expanded''])]],
       [Va ''blue'']),
      ([[(Desc, [SCls ''m-endpoint'']), (Child, [SCls ''endpoint-head'', SCls ''delete'', SPseudo ''hover''])], [(Desc, [SCls ''m-endpoint'']), (Child, [SCls ''endpoint-head'', SCls ''delete'', SCls ''expanded''])]],
       [Va ''red'']),
      ([[(Desc, [SCls ''m-endpoint'']), (Child, [SCls ''endpoint-head'', SCls ''head'', SPseudo ''hover''])], [(Desc, [SCls ''m-endpoint'']), (Child, [SCls ''endpoint-head'', SCls ''head'', SCls ''expanded''])], [(Desc, [SCls ''m-endpoint'']), (Child, [SCls ''endpoint-head'', SCls ''patch'', SPseudo ''hover''])], [(Desc, [SCls ''m-endpoint'']), (Child, [SCls ''endpoint-head'', SCls ''patch'', SCls ''expanded''])], [(Desc, [SCls ''m-endpoint'']), (Child, [SCls ''endpoint-head'', SCls ''options'', SPseudo ''hover''])], [(Desc, [SCls ''m-endpoint'']), (Child, [SCls ''endpoint-head'', SCls ''options'', SCls ''expanded''])]],
       [Va ''yellow'']),
      ([[(Desc, [SCls ''m-endpoint'']), (Child, [SCls ''endpoint-head'', SCls ''deprecated'', SPseudo ''hover''])], [(Desc, [SCls ''m-endpoint'']), (Child, [SCls ''endpoint-head'', SCls ''deprecated'', SCls ''expanded''])]],
       [Va ''border-color'']),
      ([[(Desc, [SCls ''m-endpoint'']), (Desc, [SCls ''endpoint-body'', SCls ''delete''])]],
       [Va ''red'']),
      ([[(Desc, [SCls ''m-endpoint'']), (Desc, [SCls ''endpoint-body'', SCls ''put''])]],
       [Va ''orange'']),
      ([[(Desc, [SCls ''m-endpoint'']), (Desc, [SCls ''endpoint-body'', SCls ''post''])]],
       [Va ''green'']),
      ([[(Desc, [SCls ''m-endpoint'']), (Desc, [SCls ''endpoint-body'', SCls ''get''])]],
       [Va ''blue'']),
      ([[(Desc, [SCls ''m-endpoint'']), (Desc, [SCls ''endpoint-body'', SCls ''head''])], [(Desc, [SCls ''m-endpoint'']), (Desc, [SCls ''endpoint-body'', SCls ''patch''])], [(Desc, [SCls ''m-endpoint'']), (Desc, [SCls ''endpoint-body'', SCls ''options''])]],
       [Va ''yellow'']),
      ([[(Desc, [SCls ''m-endpoint'']), (Desc, [SCls ''endpoint-body'', SCls ''deprecated''])]],
       [Va ''border-color''])]\<close>

definition border_color_Qe_2 :: "(css_selector list \<times> css_value) list" where
  \<open>border_color_Qe_2 =
     [([[(Desc, [SCls ''head'']), (Desc, [SCls ''view-mode-request''])], [(Desc, [SCls ''patch'']), (Desc, [SCls ''view-mode-request''])], [(Desc, [SCls ''options'']), (Desc, [SCls ''view-mode-request''])]],
       [Va ''yellow'']),
      ([[(Desc, [SCls ''put'']), (Desc, [SCls ''view-mode-request''])]],
       [Va ''orange'']),
      ([[(Desc, [SCls ''post'']), (Desc, [SCls ''view-mode-request''])]],
       [Va ''green'']),
      ([[(Desc, [SCls ''get'']), (Desc, [SCls ''view-mode-request''])]],
       [Va ''blue'']),
      ([[(Desc, [SCls ''delete'']), (Desc, [SCls ''view-mode-request''])]],
       [Va ''red''])]\<close>

definition background_color_Qe_1 :: "(css_selector list \<times> css_value) list" where
  \<open>background_color_Qe_1 =
     [([[(Desc, [SCls ''m-endpoint'']), (Child, [SCls ''endpoint-head'', SCls ''put'', SPseudo ''hover''])], [(Desc, [SCls ''m-endpoint'']), (Child, [SCls ''endpoint-head'', SCls ''put'', SCls ''expanded''])]],
       [Va ''light-orange'']),
      ([[(Desc, [SCls ''m-endpoint'']), (Child, [SCls ''endpoint-head'', SCls ''post'', SPseudo ''hover''])], [(Desc, [SCls ''m-endpoint'']), (Child, [SCls ''endpoint-head'', SCls ''post'', SCls ''expanded''])]],
       [Va ''light-green'']),
      ([[(Desc, [SCls ''m-endpoint'']), (Child, [SCls ''endpoint-head'', SCls ''get'', SPseudo ''hover''])], [(Desc, [SCls ''m-endpoint'']), (Child, [SCls ''endpoint-head'', SCls ''get'', SCls ''expanded''])]],
       [Va ''light-blue'']),
      ([[(Desc, [SCls ''m-endpoint'']), (Child, [SCls ''endpoint-head'', SCls ''delete'', SPseudo ''hover''])], [(Desc, [SCls ''m-endpoint'']), (Child, [SCls ''endpoint-head'', SCls ''delete'', SCls ''expanded''])]],
       [Va ''light-red'']),
      ([[(Desc, [SCls ''m-endpoint'']), (Child, [SCls ''endpoint-head'', SCls ''head'', SPseudo ''hover''])], [(Desc, [SCls ''m-endpoint'']), (Child, [SCls ''endpoint-head'', SCls ''head'', SCls ''expanded''])], [(Desc, [SCls ''m-endpoint'']), (Child, [SCls ''endpoint-head'', SCls ''patch'', SPseudo ''hover''])], [(Desc, [SCls ''m-endpoint'']), (Child, [SCls ''endpoint-head'', SCls ''patch'', SCls ''expanded''])], [(Desc, [SCls ''m-endpoint'']), (Child, [SCls ''endpoint-head'', SCls ''options'', SPseudo ''hover''])], [(Desc, [SCls ''m-endpoint'']), (Child, [SCls ''endpoint-head'', SCls ''options'', SCls ''expanded''])]],
       [Va ''light-yellow''])]\<close>

definition border_Qe_2 :: "(css_selector list \<times> css_value) list" where
  \<open>border_Qe_2 =
     [([[(Desc, [SCls ''endpoint-head'']), (Desc, [SCls ''method'', SCls ''delete''])]],
       [Tx ''2px solid '', Va ''red'']),
      ([[(Desc, [SCls ''endpoint-head'']), (Desc, [SCls ''method'', SCls ''put''])]],
       [Tx ''2px solid '', Va ''orange'']),
      ([[(Desc, [SCls ''endpoint-head'']), (Desc, [SCls ''method'', SCls ''post''])]],
       [Tx ''2px solid '', Va ''green'']),
      ([[(Desc, [SCls ''endpoint-head'']), (Desc, [SCls ''method'', SCls ''get''])]],
       [Tx ''2px solid '', Va ''blue'']),
      ([[(Desc, [SCls ''endpoint-head'']), (Desc, [SCls ''method'', SCls ''get'', SCls ''deprecated''])]],
       [Tx ''2px solid '', Va ''border-color'']),
      ([[(Desc, [SCls ''endpoint-head'']), (Desc, [SCls ''method'', SCls ''head''])], [(Desc, [SCls ''endpoint-head'']), (Desc, [SCls ''method'', SCls ''patch''])], [(Desc, [SCls ''endpoint-head'']), (Desc, [SCls ''method'', SCls ''options''])]],
       [Tx ''2px solid '', Va ''yellow''])]\<close>

lemma border_color_Qe_1_True: "part_rules True ''border-color'' Qe_styles_1 = border_color_Qe_1"
  by code_simp

lemma border_color_Qe_1_False: "part_rules False ''border-color'' Qe_styles_1 = border_color_Qe_1"
  by code_simp

lemma border_color_Qe_1_rules: "part_rules large ''border-color'' Qe_styles_1 = border_color_Qe_1"
  by (cases large) (simp_all only: border_color_Qe_1_True border_color_Qe_1_False)

lemma border_color_Qe_2_True: "part_rules True ''border-color'' Qe_styles_2 = border_color_Qe_2"
  by code_simp

lemma border_color_Qe_2_False: "part_rules False ''border-color'' Qe_styles_2 = border_color_Qe_2"
  by code_simp

lemma border_color_Qe_2_rules: "part_rules large ''border-color'' Qe_styles_2 = border_color_Qe_2"
  by (cases large) (simp_all only: border_color_Qe_2_True border_color_Qe_2_False)

lemma background_color_Qe_1_True: "part_rules True ''background-color'' Qe_styles_1 = background_color_Qe_1"
  by code_simp

lemma background_color_Qe_1_False: "part_rules False ''background-color'' Qe_styles_1 = background_color_Qe_1"
  by code_simp

lemma background_color_Qe_1_rules: "part_rules large ''background-color'' Qe_styles_1 = background_color_Qe_1"
  by (cases large) (simp_all only: background_color_Qe_1_True background_color_Qe_1_False)

lemma background_color_Qe_2_True: "part_rules True ''background-color'' Qe_styles_2 = []"
  by code_simp

lemma background_color_Qe_2_False: "part_rules False ''background-color'' Qe_styles_2 = []"
  by code_simp

lemma background_color_Qe_2_rules: "part_rules large ''background-color'' Qe_styles_2 = []"
  by (cases large) (simp_all only: background_color_Qe_2_True background_color_Qe_2_False)

lemma border_Qe_1_True: "part_rules True ''border'' Qe_styles_1 = []"
  by code_simp

lemma border_Qe_1_False: "part_rules False ''border'' Qe_styles_1 = []"
  by code_simp

lemma border_Qe_1_rules: "part_rules large ''border'' Qe_styles_1 = []"
  by (cases large) (simp_all only: border_Qe_1_True border_Qe_1_False)

lemma border_Qe_2_True: "part_rules True ''border'' Qe_styles_2 = border_Qe_2"
  by code_simp

lemma border_Qe_2_False: "part_rules False ''border'' Qe_styles_2 = border_Qe_2"
  by code_simp

lemma border_Qe_2_rules: "part_rules large ''border'' Qe_styles_2 = border_Qe_2"
  by (cases large) (simp_all only: border_Qe_2_True border_Qe_2_False)

lemma endpoint_cascade:
  "css_cascade (\<lambda>_. large) [Qe_styles] ctx p =
     map_option snd (fold (cascade_step ctx) (part_rules large p Qe_styles_1 @ part_rules large p Qe_styles_2) None)"
  by (simp only: css_cascade_def sheet_rules_def Qe_styles_def concat.simps append_Nil2
      part_rules_append [unfolded part_rules_def] part_rules_def)

lemmas endpoint_rules = border_color_Qe_1_rules border_color_Qe_2_rules background_color_Qe_1_rules
  background_color_Qe_2_rules border_Qe_1_rules border_Qe_2_rules

definition endpoint_property_rules :: "string \<Rightarrow> (css_selector list \<times> css_value) list" where
  "endpoint_property_rules p =
     (if p = ''border-color'' then border_color_Qe_1 @ border_color_Qe_2
      else if p = ''background-color'' then background_color_Qe_1 else border_Qe_2)"

lemma endpoint_cascade_property:
  "p \<in> {''border-color'', ''background-color'', ''border''} \<Longrightarrow>
   css_cascade (\<lambda>_. large) [Qe_styles] ctx p =
     map_option snd (fold (cascade_step ctx) (endpoint_property_rules p) None)"
  by (auto simp: endpoint_cascade endpoint_rules endpoint_property_rules_def)

definition displays_by_property :: "css_context \<times> string \<times> css_value \<Rightarrow> bool" where
  "displays_by_property place = (case place of (ctx, p, v) \<Rightarrow>
     p \<in> {''border-color'', ''background-color'', ''border''} \<and>
     map_option snd (fold (cascade_step ctx) (endpoint_property_rules p) None) = Some v)"

lemma displays_by_property: "displays_by_property place \<Longrightarrow> displays large [Qe_styles] place"
  by (auto simp: displays_by_property_def displays_def endpoint_cascade_property split: prod.splits)

lemma endpoint_get: "list_all displays_by_property (endpoint_places ''get'')"
  by code_simp

lemma endpoint_put: "list_all displays_by_property (endpoint_places ''put'')"
  by code_simp

lemma endpoint_post: "list_all displays_by_property (endpoint_places ''post'')"
  by code_simp

lemma endpoint_delete: "list_all displays_by_property (endpoint_places ''delete'')"
  by code_simp

lemma endpoint_head: "list_all displays_by_property (endpoint_places ''head'')"
  by code_simp

lemma endpoint_patch: "list_all displays_by_property (endpoint_places ''patch'')"
  by code_simp

lemma endpoint_options: "list_all displays_by_property (endpoint_places ''options'')"
  by code_simp

lemmas endpoint_methods = endpoint_get endpoint_put endpoint_post endpoint_delete endpoint_head endpoint_patch
  endpoint_options

section \<open>Properties\<close>

text \<open>
  A method has one colour. For every HTTP method and on every screen, the head of an
  expanded endpoint, its body, the label of its method and its request panel get a border in the
  colour of the method, the head gets the light variant as its background, and no rule of the
  sheet for another method or for hovering wins against this.
\<close>

theorem endpoint_method_colors:
  assumes "m \<in> set http_methods" and "place \<in> set (endpoint_places m)"
  shows "displays large [Qe_styles] place"
proof (rule displays_by_property)
  have "list_all displays_by_property (endpoint_places m)"
    using assms(1) endpoint_methods by (auto simp: http_methods_def)
  with assms(2) show "displays_by_property place" by (auto simp: list_all_iff)
qed

theorem endpoint_method_colors_witness:
  "css_cascade (\<lambda>_. False) [Qe_styles]
     [(div_el [''endpoint-body'', ''delete''], []), (div_el [''m-endpoint'', ''expanded''], [])] ''border-color'' =
   Some [Va ''red'']"
proof -
  have "displays False [Qe_styles]
      ([(div_el [''endpoint-body'', ''delete''], []), (div_el [''m-endpoint'', ''expanded''], [])], ''border-color'', [Va ''red''])"
    by (rule endpoint_method_colors [of "''delete''"])
      (simp_all add: http_methods_def endpoint_places_def method_color_def Let_def)
  then show ?thesis by (simp add: displays_def)
qed

end
