(* ===== verification/Web_Values.thy ===== *)
theory Web_Values
  imports Net_IP
begin

text \<open>
  JavaScript values and rendered elements, for the elements of the API documentation page
  (web/static/rapidoc-min.js), and the element \<open>json-tree\<close>, which displays a value.

  A number is represented by the text it prints as. The entries of an object are in the
  order of \<open>Object.keys\<close>. Text outside ASCII is in UTF-8. White space of a template that
  does not separate words is left out of the rendered elements.
\<close>

section \<open>Values\<close>

datatype js =
    JUndef | JNull | JBool bool | JNum string | JStr string
  | JArr "js list"
  | JObj "(string \<times> js) list"

text \<open>Conversion to a boolean and to a string.\<close>

fun js_truthy :: "js \<Rightarrow> bool" where
  "js_truthy JUndef = False" | "js_truthy JNull = False" | "js_truthy (JBool b) = b"
| "js_truthy (JNum n) = (n \<noteq> ''0'' \<and> n \<noteq> ''NaN'')" | "js_truthy (JStr s) = (s \<noteq> [])"
| "js_truthy (JArr _) = True" | "js_truthy (JObj _) = True"

fun js_toString :: "js \<Rightarrow> string" where
  "js_toString JUndef = ''undefined''" | "js_toString JNull = ''null''"
| "js_toString (JBool b) = (if b then ''true'' else ''false'')"
| "js_toString (JNum n) = n" | "js_toString (JStr s) = s"
| "js_toString (JArr xs) =
     joinStr '','' (map (\<lambda>x. if x = JUndef \<or> x = JNull then [] else js_toString x) xs)"
| "js_toString (JObj _) = ''[object Object]''"

text \<open>\<open>a || b\<close>\<close>

definition js_or :: "js \<Rightarrow> js \<Rightarrow> js" where
  "js_or a b = (if js_truthy a then a else b)"

text \<open>Reading a property of an object; of \<open>undefined\<close> and \<open>null\<close> it throws, which \<open>?.\<close> avoids.\<close>

fun js_get :: "js \<Rightarrow> string \<Rightarrow> js" where
  "js_get (JObj m) k = (case map_of m k of None \<Rightarrow> JUndef | Some v \<Rightarrow> v)"
| "js_get (JArr xs) k = (if k = ''length'' then JNum (showNat (length xs)) else JUndef)"
| "js_get (JStr s) k = (if k = ''length'' then JNum (showNat (length s)) else JUndef)"
| "js_get _ k = JUndef"

definition js_has_props :: "js \<Rightarrow> bool" where
  "js_has_props v \<longleftrightarrow> v \<noteq> JUndef \<and> v \<noteq> JNull"

fun js_keys :: "js \<Rightarrow> string list" where
  "js_keys (JObj m) = map fst m"
| "js_keys (JArr xs) = map showNat [0..<length xs]"
| "js_keys _ = []"

fun js_is_array :: "js \<Rightarrow> bool" where
  "js_is_array (JArr _) = True" | "js_is_array _ = False"

definition js_join :: "string \<Rightarrow> js list \<Rightarrow> string" where
  "js_join sep xs = joinStr sep (map (\<lambda>x. if x = JUndef \<or> x = JNull then [] else js_toString x) xs)"

fun js_typeof :: "js \<Rightarrow> string" where
  "js_typeof JUndef = ''undefined''" | "js_typeof JNull = ''object''" | "js_typeof (JBool _) = ''boolean''"
| "js_typeof (JNum _) = ''number''" | "js_typeof (JStr _) = ''string''"
| "js_typeof (JArr _) = ''object''" | "js_typeof (JObj _) = ''object''"

section \<open>Rendered elements\<close>

datatype html = Elem string "(string \<times> string) list" "html list" | Text string

fun html_text :: "html \<Rightarrow> string" where
  "html_text (Text s) = s"
| "html_text (Elem _ _ xs) = concat (map html_text xs)"

definition text_of :: "html list \<Rightarrow> string" where
  "text_of hs = concat (map html_text hs)"

lemma text_of_simps [simp]:
  "text_of [] = []" "text_of (h # hs) = html_text h @ text_of hs" "text_of (as @ bs) = text_of as @ text_of bs"
  by (simp_all add: text_of_def)

lemma html_text_Elem [simp]: "html_text (Elem t as hs) = text_of hs"
  by (simp add: text_of_def)

declare html_text.simps(2) [simp del]

section \<open>The element json-tree\<close>

definition comma_unless :: "bool \<Rightarrow> html list" where
  "comma_unless t = (if t then [] else [Text '',''])"

text \<open>\<open>generateTree(e, t)\<close>: \<open>t\<close> says that the value is the last one of its container.\<close>

lemma entries_size: "(\<Sum>(k, y)\<leftarrow>m. size y) \<le> sum_list (map (size_prod (\<lambda>x. 0) size) m)"
  by (rule sum_list_mono) (auto simp: size_prod_simp)

function generateTree :: "js \<Rightarrow> bool \<Rightarrow> html list"
  and generateItems :: "(string \<times> js) list \<Rightarrow> bool \<Rightarrow> html list" where
  "generateTree JNull t = [Elem ''div'' [(''class'', ''null''), (''style'', ''display:inline;'')] [Text ''null'']]"
| "generateTree (JArr xs) t =
     (if xs = [] then [Text ''[ ],'']
      else [Elem ''div'' [(''class'', ''open-bracket expanded array'')] [Text ''[''],
            Elem ''div'' [(''class'', ''inside-bracket'')]
              (generateItems (map (Pair []) xs) False),
            Elem ''div'' [(''class'', ''close-bracket'')] (Text '']'' # comma_unless t)])"
| "generateTree (JObj m) t =
     (if m = [] then [Text ''{ },'']
      else [Elem ''div'' [(''class'', ''open-bracket expanded object'')] [Text ''{''],
            Elem ''div'' [(''class'', ''inside-bracket'')] (generateItems m True),
            Elem ''div'' [(''class'', ''close-bracket'')] (Text ''}'' # comma_unless t)])"
| "generateTree (JStr s) t =
     Elem ''span'' [(''class'', ''string'')] [Text (''\"'' @ s @ ''\"'')] # comma_unless t"
| "generateTree JUndef t = Elem ''span'' [(''class'', ''undefined'')] [Text ''undefined''] # comma_unless t"
| "generateTree (JBool b) t =
     Elem ''span'' [(''class'', ''boolean'')] [Text (js_toString (JBool b))] # comma_unless t"
| "generateTree (JNum n) t = Elem ''span'' [(''class'', ''number'')] [Text n] # comma_unless t"
| "generateItems [] obj = []"
| "generateItems ((k, v) # m) obj =
     Elem ''div'' [(''class'', ''item'')]
       ((if obj then [Text (''\"'' @ k @ ''\":'')] else []) @ generateTree v (m = [])) # generateItems m obj"
  by pat_completeness auto
termination
  by (relation "measure (\<lambda>x. case x of Inl (v, t) \<Rightarrow> 2 * size v | Inr (m, b) \<Rightarrow> 1 + 2 * size_list (\<lambda>(k, v). size v) m)")
    (auto simp: size_list_conv_sum_list o_def less_Suc_eq_le entries_size)

section \<open>Facts\<close>

text \<open>
  The text of a value as JSON, and the values for which the element shows it: no \<open>null\<close>, no
  empty array or object, and no text that JSON would have to escape.
\<close>

definition json_char :: "char \<Rightarrow> string" where
  "json_char c =
     (if c = CHR 0x22 \<or> c = CHR 0x5C then [CHR 0x5C, c]
      else if of_char c < (32 :: nat)
      then [CHR 0x5C, CHR ''u'', CHR ''0'', CHR ''0'', hexDigit (of_char c div 16), hexDigit (of_char c mod 16)]
      else [c])"

definition json_string :: "string \<Rightarrow> string" where
  "json_string s = ''\"'' @ concat (map json_char s) @ ''\"''"

definition plain_char :: "char \<Rightarrow> bool" where
  "plain_char c \<longleftrightarrow> c \<noteq> CHR 0x22 \<and> c \<noteq> CHR 0x5C \<and> of_char c \<ge> (32 :: nat)"

lemma json_string_plain: "list_all plain_char s \<Longrightarrow> json_string s = ''\"'' @ s @ ''\"''"
proof -
  assume "list_all plain_char s"
  then have "concat (map json_char s) = s" by (induction s) (auto simp: json_char_def plain_char_def)
  then show ?thesis by (simp add: json_string_def)
qed

function json_text :: "js \<Rightarrow> string" and json_items :: "(string \<times> js) list \<Rightarrow> bool \<Rightarrow> string" where
  "json_text JNull = ''null''" | "json_text JUndef = ''undefined''" | "json_text (JBool b) = js_toString (JBool b)"
| "json_text (JNum n) = n" | "json_text (JStr s) = json_string s"
| "json_text (JArr xs) = ''['' @ json_items (map (Pair []) xs) False @ '']''"
| "json_text (JObj m) = ''{'' @ json_items m True @ ''}''"
| "json_items [] obj = []"
| "json_items ((k, v) # m) obj =
     (if obj then json_string k @ '':'' else []) @ json_text v @ (if m = [] then [] else '','') @ json_items m obj"
  by pat_completeness auto
termination
  by (relation "measure (\<lambda>x. case x of Inl v \<Rightarrow> 2 * size v | Inr (m, b) \<Rightarrow> 1 + 2 * size_list (\<lambda>(k, v). size v) m)")
    (auto simp: size_list_conv_sum_list o_def less_Suc_eq_le entries_size)

fun displayable :: "js \<Rightarrow> bool" where
  "displayable JNull = False" | "displayable JUndef = False" | "displayable (JBool _) = True"
| "displayable (JNum _) = True" | "displayable (JStr s) = list_all plain_char s"
| "displayable (JArr xs) = (xs \<noteq> [] \<and> list_all displayable xs)"
| "displayable (JObj m) = (m \<noteq> [] \<and> list_all (\<lambda>(k, v). list_all plain_char k \<and> displayable v) m)"

lemma generateTree_text:
  "displayable v \<Longrightarrow> text_of (generateTree v t) = json_text v @ (if t then [] else '','')"
  and "list_all (\<lambda>(k, v). (obj \<longrightarrow> list_all plain_char k) \<and> displayable v) m \<Longrightarrow>
    text_of (generateItems m obj) = json_items m obj"
  by (induction v t and m obj rule: generateTree_generateItems.induct)
    (auto simp: comma_unless_def list_all_iff json_string_plain)

section \<open>Properties\<close>

text \<open>
  C21. The JSON tree shows JSON. The text of the rendered tree of a value is the JSON text of
  the value (up to white space), provided that the value has no \<open>null\<close>, no empty array or
  object and no text with characters that JSON escapes.
\<close>

theorem json_tree_shows_json:
  assumes "displayable v"
  shows "text_of (generateTree v True) = json_text v"
  using generateTree_text(1) [OF assms, of True] by simp

definition example_json :: js where
  "example_json = JObj [(''a'', JArr [JNum ''1'', JObj [(''b'', JStr ''x''), (''c'', JBool True)]]), (''d'', JStr ''y'')]"

theorem json_tree_shows_json_witness:
  "text_of (generateTree example_json True) = ''{\"a\":[1,{\"b\":\"x\",\"c\":true}],\"d\":\"y\"}''"
proof -
  have "displayable example_json" by code_simp
  moreover have "json_text example_json = ''{\"a\":[1,{\"b\":\"x\",\"c\":true}],\"d\":\"y\"}''" by code_simp
  ultimately show ?thesis using json_tree_shows_json by simp
qed

text \<open>
  Without the provisos it does not: after \<open>null\<close> the comma is missing, and after an empty
  array or object there is always one.
\<close>

theorem json_tree_commas:
  "text_of (generateTree (JArr [JNull, JNum ''1'']) True) = ''[null1]''"
  "text_of (generateTree (JObj [(''a'', JArr [])]) True) = ''{\"a\":[ ],}''"
  by code_simp+

end
