(* ===== verification/Web_Base64.thy ===== *)
theory Web_Base64
  imports Web_Values
begin

unbundle bit_operations_syntax

text \<open>
  Base 64, as the API documentation page (web/static/rapidoc-min.js) encodes the credentials of
  a request. The bytes of a \<open>Uint8Array\<close> have eight bits; the bit operators of JavaScript work
  on 32 bits, and they read \<open>undefined\<close> as zero.
\<close>

section \<open>Tables\<close>

definition code64 :: string where
  "code64 = ''ABCDEFGHIJKLMNOPQRSTUVWXYZabcdefghijklmnopqrstuvwxyz0123456789+/''"

definition lookup64 :: "32 word \<Rightarrow> char" where
  "lookup64 i = code64 ! unat i"

fun index_of :: "char \<Rightarrow> string \<Rightarrow> nat" where
  "index_of c [] = 0"
| "index_of c (d # s) = (if c = d then 0 else Suc (index_of c s))"

definition revLookup :: "char \<Rightarrow> 32 word" where
  "revLookup c =
     (if c = CHR ''-'' then 62 else if c = CHR ''_'' then 63
      else if c \<in> set code64 then of_nat (index_of c code64) else 0)"

definition byte_at :: "8 word list \<Rightarrow> nat \<Rightarrow> 32 word" where
  "byte_at e i = (if i < length e then ucast (e ! i) else 0)"

definition char_at :: "string \<Rightarrow> nat \<Rightarrow> 32 word" where
  "char_at e i = (if i < length e then revLookup (e ! i) else 0)"

section \<open>Encoding\<close>

definition tripletToBase64 :: "32 word \<Rightarrow> string" where
  "tripletToBase64 a =
     [lookup64 (drop_bit 18 a AND 63), lookup64 (drop_bit 12 a AND 63), lookup64 (drop_bit 6 a AND 63), lookup64 (63 AND a)]"

function encodeChunk :: "8 word list \<Rightarrow> nat \<Rightarrow> nat \<Rightarrow> string" where
  "encodeChunk e s n =
     (if s < n
      then tripletToBase64 ((push_bit 16 (byte_at e s) AND 16711680) + (push_bit 8 (byte_at e (s + 1)) AND 65280)
             + (255 AND byte_at e (s + 2))) @ encodeChunk e (s + 3) n
      else [])"
  by pat_completeness auto
termination by (relation "measure (\<lambda>(e, s, n). n - s)") auto

declare encodeChunk.simps [simp del]

definition maxChunkLength :: nat where "maxChunkLength = 16383"

function encodeChunks :: "8 word list \<Rightarrow> nat \<Rightarrow> nat \<Rightarrow> string" where
  "encodeChunks e s len2 =
     (if s < len2
      then encodeChunk e s (if s + maxChunkLength > len2 then len2 else s + maxChunkLength)
             @ encodeChunks e (s + maxChunkLength) len2
      else [])"
  by pat_completeness auto
termination by (relation "measure (\<lambda>(e, s, n). n - s)") (auto simp: maxChunkLength_def)

declare encodeChunks.simps [simp del]

definition fromByteArray :: "8 word list \<Rightarrow> string" where
  "fromByteArray e =
     (let n = length e; extra = n mod 3 in
      encodeChunks e 0 (n - extra) @
      (if extra = 1 then let t = byte_at e (n - 1) in
         [lookup64 (drop_bit 2 t), lookup64 (push_bit 4 t AND 63)] @ ''==''
       else if extra = 2 then let t = push_bit 8 (byte_at e (n - 2)) + byte_at e (n - 1) in
         [lookup64 (drop_bit 10 t), lookup64 (drop_bit 4 t AND 63), lookup64 (push_bit 2 t AND 63)] @ ''=''
       else []))"

text \<open>\<open>Buffer.from(s, "utf8").toString("base64")\<close>: a string is the list of the bytes of its UTF-8 encoding.\<close>

definition toBase64 :: "string \<Rightarrow> string" where
  "toBase64 s = fromByteArray (map of_char s)"

section \<open>Decoding\<close>

text \<open>\<open>None\<close>: an error is thrown.\<close>

definition getLens :: "string \<Rightarrow> (nat \<times> nat) option" where
  "getLens b64 =
     (let len = length b64; validLen = index_of (CHR ''='') b64 in
      if 0 < len mod 4 then None
      else Some (validLen, if validLen = len then 0 else 4 - validLen mod 4))"

definition byteLength :: "string \<Rightarrow> int option" where
  "byteLength b64 = map_option (\<lambda>(v, p). 3 * (int v + int p) div 4 - int p) (getLens b64)"

text \<open>
  The array of the result has its length fixed: a write behind its end is ignored, and a negative
  length is an error.
\<close>

definition decode4 :: "string \<Rightarrow> nat \<Rightarrow> 8 word list" where
  "decode4 e r =
     (let t = push_bit 18 (char_at e r) OR push_bit 12 (char_at e (r + 1)) OR push_bit 6 (char_at e (r + 2)) OR char_at e (r + 3) in
      [ucast (drop_bit 16 t AND 255), ucast (drop_bit 8 t AND 255), ucast (255 AND t)])"

function decodeLoop :: "string \<Rightarrow> nat \<Rightarrow> nat \<Rightarrow> 8 word list" where
  "decodeLoop e r d = (if r < d then decode4 e r @ decodeLoop e (r + 4) d else [])"
  by pat_completeness auto
termination by (relation "measure (\<lambda>(e, s, n). n - s)") auto

declare decodeLoop.simps [simp del]

definition loop_end :: "nat \<Rightarrow> nat" where "loop_end d = 4 * ((d + 3) div 4)"

definition decodeTail :: "string \<Rightarrow> nat \<Rightarrow> nat \<Rightarrow> 8 word list" where
  "decodeTail e r p =
     (if p = 2 then
        let t = push_bit 2 (char_at e r) OR drop_bit 4 (char_at e (r + 1)) in [ucast (255 AND t)]
      else if p = 1 then
        let t = push_bit 10 (char_at e r) OR push_bit 4 (char_at e (r + 1)) OR drop_bit 2 (char_at e (r + 2)) in
        [ucast (drop_bit 8 t AND 255), ucast (255 AND t)]
      else [])"

definition toByteArray :: "string \<Rightarrow> 8 word list option" where
  "toByteArray e =
     (case getLens e of
        None \<Rightarrow> None
      | Some (validLen, p) \<Rightarrow>
          if 3 * (validLen + p) div 4 < p then None
          else let n = 3 * (validLen + p) div 4 - p; d = (if 0 < p then validLen - 4 else validLen);
              out = decodeLoop e 0 d @ decodeTail e (loop_end d) p in
          Some (take n (out @ replicate n 0)))"

section \<open>Encoding by groups of three bytes\<close>

definition triple :: "8 word \<Rightarrow> 8 word \<Rightarrow> 8 word \<Rightarrow> 32 word" where
  "triple a b c = (push_bit 16 (ucast a) AND 16711680) + (push_bit 8 (ucast b) AND 65280) + (255 AND ucast c)"

fun encode_full :: "8 word list \<Rightarrow> string" where
  "encode_full (a # b # c # bs) = tripletToBase64 (triple a b c) @ encode_full bs"
| "encode_full _ = []"

definition encode_rest :: "8 word list \<Rightarrow> string" where
  "encode_rest bs =
     (case bs of
        [a] \<Rightarrow> let t = ucast a in [lookup64 (drop_bit 2 t), lookup64 (push_bit 4 t AND 63)] @ ''==''
      | [a, b] \<Rightarrow> let t = push_bit 8 (ucast a) + ucast b in
          [lookup64 (drop_bit 10 t), lookup64 (drop_bit 4 t AND 63), lookup64 (push_bit 2 t AND 63)] @ ''=''
      | _ \<Rightarrow> [])"

section \<open>Facts\<close>

lemma revLookup_lookup64: "i < 64 \<Longrightarrow> revLookup (lookup64 i) = i"
proof -
  assume "i < 64"
  then have "unat i < 64" by (simp add: word_less_nat_alt)
  moreover have "\<forall>k<64. revLookup (code64 ! k) = of_nat k" by code_simp
  ultimately show ?thesis by (simp add: lookup64_def)
qed

lemma and_63: "(y :: 32 word) AND 63 < 64"
proof -
  have "y AND 63 = take_bit 6 y" by (simp add: take_bit_eq_mask mask_eq_exp_minus_1)
  moreover have "unat (take_bit 6 y) < 64" using take_bit_nat_less_exp [of 6 "unat y"] by (simp add: unsigned_take_bit_eq)
  ultimately show ?thesis by (simp add: word_less_nat_alt)
qed

lemma masks: "(16711680 :: 32 word) = push_bit 16 (mask 8)" "(65280 :: 32 word) = push_bit 8 (mask 8)"
  "(255 :: 32 word) = mask 8" "(63 :: 32 word) = mask 6"
  by (simp_all add: mask_eq_exp_minus_1 push_bit_eq_mult)

lemma triple_or: "triple a b c = push_bit 16 (ucast a) OR push_bit 8 (ucast b) OR ucast c"
proof -
  let ?A = "push_bit 16 (ucast a) :: 32 word" and ?B = "push_bit 8 (ucast b) :: 32 word" and ?C = "ucast c :: 32 word"
  have m: "?A AND 16711680 = ?A" "?B AND 65280 = ?B" "255 AND ?C = ?C"
    unfolding masks by (rule bit_word_eqI; auto simp: bit_simps dest: bit_imp_le_length)+
  have d: "?A AND ?B = 0" "(?A OR ?B) AND ?C = 0"
    by (rule bit_word_eqI; auto simp: bit_simps dest: bit_imp_le_length)+
  have "?A + ?B = ?A OR ?B" by (rule disjunctive_add_eq_or [OF d(1)])
  moreover have "(?A OR ?B) + ?C = (?A OR ?B) OR ?C" by (rule disjunctive_add_eq_or [OF d(2)])
  ultimately show ?thesis unfolding triple_def m by (simp add: or.assoc)
qed

lemma bit_triple: "bit (triple a b c) n \<longleftrightarrow>
    (if n < 8 then bit c n else if n < 16 then bit b (n - 8) else if n < 24 then bit a (n - 16) else False)"
  by (auto simp: triple_or bit_simps dest: bit_imp_le_length)

lemma triple_groups:
  assumes "t = triple a b c"
  shows "push_bit 18 (drop_bit 18 t AND 63) OR push_bit 12 (drop_bit 12 t AND 63) OR push_bit 6 (drop_bit 6 t AND 63) OR (63 AND t) = t"
proof (rule bit_word_eqI)
  fix n assume "n < LENGTH(32)"
  consider "n < 6" | "6 \<le> n" "n < 12" | "12 \<le> n" "n < 18" | "18 \<le> n" "n < 24" | "24 \<le> n" by linarith
  then show "bit (push_bit 18 (drop_bit 18 t AND 63) OR push_bit 12 (drop_bit 12 t AND 63) OR push_bit 6 (drop_bit 6 t AND 63) OR (63 AND t)) n = bit t n"
    using \<open>n < LENGTH(32)\<close> unfolding masks assms by cases (auto simp: bit_simps bit_triple)
qed

lemma triple_bytes:
  "ucast (drop_bit 16 (triple a b c) AND 255) = a" "ucast (drop_bit 8 (triple a b c) AND 255) = b"
  "ucast (255 AND triple a b c) = c"
  unfolding masks by (rule bit_word_eqI; simp add: bit_simps bit_triple)+

lemma double_triple: "push_bit 8 (ucast a) + ucast b = triple 0 a b"
proof -
  have "push_bit 8 (ucast a) AND (ucast b :: 32 word) = 0"
    by (rule bit_word_eqI) (auto simp: bit_simps dest: bit_imp_le_length)
  then show ?thesis by (simp add: triple_or disjunctive_add_eq_or)
qed

lemma single_bytes:
  fixes a :: "8 word" and t :: "32 word"
  assumes "t = ucast a"
  shows "ucast (255 AND (push_bit 2 (drop_bit 2 t) OR drop_bit 4 (push_bit 4 t AND 63))) = a"
proof (rule bit_word_eqI)
  fix n assume "n < LENGTH(8)"
  consider "n < 2" | "2 \<le> n" by linarith
  then show "bit (ucast (255 AND (push_bit 2 (drop_bit 2 t) OR drop_bit 4 (push_bit 4 t AND 63))) :: 8 word) n = bit a n"
    using \<open>n < LENGTH(8)\<close> le_add_diff_inverse [of 2 n] unfolding masks assms by cases (auto simp: bit_simps)
qed

lemma double_bytes:
  fixes a b :: "8 word" and t :: "32 word"
  assumes "t = push_bit 8 (ucast a) + ucast b"
    and "u = push_bit 10 (drop_bit 10 t) OR push_bit 4 (drop_bit 4 t AND 63) OR drop_bit 2 (push_bit 2 t AND 63)"
  shows "ucast (drop_bit 8 u AND 255) = a" "ucast (255 AND u) = b"
proof -
  have t: "t = triple 0 a b" by (simp add: assms(1) double_triple)
  have "u = t"
  proof (rule bit_word_eqI)
    fix n assume "n < LENGTH(32)"
    consider "n < 4" | "4 \<le> n" "n < 10" | "10 \<le> n" "n < 16" | "16 \<le> n" by linarith
    then show "bit u n = bit t n"
      using \<open>n < LENGTH(32)\<close> unfolding masks assms(2) t by cases (auto simp: bit_simps bit_triple)
  qed
  then show "ucast (drop_bit 8 u AND 255) = a" "ucast (255 AND u) = b"
    unfolding t masks by (auto intro!: bit_word_eqI simp: bit_simps bit_triple)
qed

lemma revLookup_and: "revLookup (lookup64 (x AND 63)) = x AND 63" "revLookup (lookup64 (63 AND x)) = 63 AND x"
  using and_63 [of x] by (simp_all add: revLookup_lookup64 and.commute)

lemma lookup64_ne_pad: "i < 64 \<Longrightarrow> lookup64 i \<noteq> CHR ''=''"
proof -
  assume "i < 64"
  then have "unat i < 64" by (simp add: word_less_nat_alt)
  moreover have "\<forall>k<64. code64 ! k \<noteq> CHR ''=''" by code_simp
  ultimately show ?thesis by (simp add: lookup64_def)
qed

lemma lookup64_and_ne_pad: "lookup64 (x AND 63) \<noteq> CHR ''=''" "lookup64 (63 AND x) \<noteq> CHR ''=''"
  using lookup64_ne_pad [OF and_63, of x] by (simp_all add: and.commute)

lemma encodeChunk_full:
  "3 dvd length full \<Longrightarrow>
    encodeChunk (pre @ full @ suf) (length pre) (length pre + length full) = encode_full full"
proof (induction full arbitrary: pre rule: encode_full.induct)
  case (1 a b c bs)
  from 1(2) have "3 dvd length bs" by simp presburger
  with 1(1) [of "pre @ [a, b, c]"]
  have "encodeChunk (pre @ a # b # c # bs @ suf) (length pre + 3) (length pre + length (a # b # c # bs)) = encode_full bs" by (simp add: add.commute add.left_commute numeral_3_eq_3)
  moreover have "byte_at (pre @ a # b # c # bs @ suf) (length pre) = ucast a"
    "byte_at (pre @ a # b # c # bs @ suf) (length pre + 1) = ucast b"
    "byte_at (pre @ a # b # c # bs @ suf) (length pre + 2) = ucast c"
    by (simp_all add: byte_at_def nth_append numeral_2_eq_2)
  ultimately show ?case by (simp add: encodeChunk.simps [of _ "length pre"] triple_def)
qed (simp_all add: encodeChunk.simps, presburger+)

lemma encodeChunk_split:
  "s \<le> m \<Longrightarrow> m \<le> n \<Longrightarrow> 3 dvd (m - s) \<Longrightarrow> encodeChunk e s m @ encodeChunk e m n = encodeChunk e s n"
proof (induction e s m rule: encodeChunk.induct)
  case (1 e s m)
  show ?case
  proof (cases "s < m")
    case True
    have "s + 3 \<le> m" "3 dvd m - (s + 3)" using True 1(4) by (auto elim!: dvdE) presburger+
    with 1 True show ?thesis
      by (simp add: encodeChunk.simps [of e s])
  next
    case False
    with 1 have "s = m" by simp
    then show ?thesis by (simp add: encodeChunk.simps [of e m m])
  qed
qed

lemma encodeChunks_full:
  "3 dvd (n - s) \<Longrightarrow> encodeChunks e s n = encodeChunk e s n"
proof (induction e s n rule: encodeChunks.induct)
  case (1 e s n)
  show ?case
  proof (cases "s < n \<and> \<not> s + maxChunkLength > n")
    case True
    have "3 dvd n - (s + maxChunkLength)" using 1(2) True by (simp add: maxChunkLength_def) presburger
    with 1(1) True show ?thesis
      by (simp add: encodeChunks.simps [of e s n] encodeChunk_split) (simp add: maxChunkLength_def encodeChunk_split)
  next
    case False
    then show ?thesis
      by (auto simp: encodeChunks.simps [of e s n] encodeChunks.simps [of e "s + maxChunkLength" n] encodeChunk.simps [of e s n])
  qed
qed

lemma split_full: "\<exists>full rest. (e :: 'a list) = full @ rest \<and> 3 dvd length full \<and> length rest = length e mod 3"
  by (rule exI [of _ "take (length e - length e mod 3) e"], rule exI [of _ "drop (length e - length e mod 3) e"])
    (auto simp: minus_mod_eq_mult_div modulo_nat_def)

lemma fromByteArray_encode:
  assumes "3 dvd length full" "length rest < 3"
  shows "fromByteArray (full @ rest) = encode_full full @ encode_rest rest"
proof -
  have m: "length (full @ rest) mod 3 = length rest" using assms by (auto elim!: dvdE)
  have c: "encodeChunks (full @ rest) 0 (length full) = encode_full full"
    using encodeChunk_full [OF assms(1), of "[]" rest] encodeChunks_full [of "length full" 0] assms(1) by simp
  have "rest = [] \<or> (\<exists>a. rest = [a]) \<or> (\<exists>a b. rest = [a, b])"
    using assms(2) by (cases rest; cases "tl rest"; cases "tl (tl rest)"; auto)
  then show ?thesis using m c
    by (elim disjE exE) (auto simp: fromByteArray_def encode_rest_def Let_def byte_at_def nth_append)
qed

lemma encode_full_no_pad: "CHR ''='' \<notin> set (encode_full full)"
  by (induction full rule: encode_full.induct) (auto simp: tripletToBase64_def lookup64_and_ne_pad [symmetric] dest: sym)

lemma length_encode_full: "4 dvd length (encode_full full)" "3 dvd length full \<Longrightarrow> 3 * length (encode_full full) = 4 * length full"
  by (induction full rule: encode_full.induct) (auto simp: tripletToBase64_def elim!: dvdE, presburger+)

lemma decode4_triple:
  "decode4 (pre @ tripletToBase64 (triple a b c) @ suf) (length pre) = [a, b, c]"
proof -
  have "char_at (pre @ tripletToBase64 (triple a b c) @ suf) (length pre) = drop_bit 18 (triple a b c) AND 63"
    "char_at (pre @ tripletToBase64 (triple a b c) @ suf) (length pre + 1) = drop_bit 12 (triple a b c) AND 63"
    "char_at (pre @ tripletToBase64 (triple a b c) @ suf) (length pre + 2) = drop_bit 6 (triple a b c) AND 63"
    "char_at (pre @ tripletToBase64 (triple a b c) @ suf) (length pre + 3) = 63 AND triple a b c"
    by (simp_all add: char_at_def tripletToBase64_def nth_append revLookup_and numeral_2_eq_2 numeral_3_eq_3)
  note ch = this
  show ?thesis unfolding decode4_def Let_def ch triple_groups [OF refl] triple_bytes ..
qed

lemma decodeLoop_full:
  "3 dvd length full \<Longrightarrow>
    decodeLoop (pre @ encode_full full @ suf) (length pre) (length pre + length (encode_full full)) = full"
proof (induction full arbitrary: pre rule: encode_full.induct)
  case (1 a b c bs)
  from 1(2) have "3 dvd length bs" by simp presburger
  let ?t = "tripletToBase64 (triple a b c)"
  have l: "length ?t = 4" by (simp add: tripletToBase64_def)
  have "decodeLoop (pre @ ?t @ encode_full bs @ suf) (length pre + 4) (length pre + 4 + length (encode_full bs)) = bs"
    using 1(1) [of "pre @ ?t", OF \<open>3 dvd length bs\<close>] by (simp add: l)
  then show ?case
    using decode4_triple [of pre a b c "encode_full bs @ suf"] l
    by (simp add: decodeLoop.simps [of _ "length pre"] add.assoc [symmetric])
qed (simp_all add: decodeLoop.simps, presburger+)

lemma index_of_append: "c \<notin> set s \<Longrightarrow> index_of c (s @ s') = length s + index_of c s'"
  by (induction s) auto

lemma drop_bit_bound: "(t :: 32 word) = triple 0 0 a \<Longrightarrow> drop_bit 2 t < 64" "t = triple 0 a b \<Longrightarrow> drop_bit 10 t < 64"
proof -
  have "drop_bit 2 t = drop_bit 2 t AND 63" if "t = triple 0 0 a"
    unfolding masks that by (rule bit_word_eqI) (auto simp: bit_simps bit_triple)
  then show "t = triple 0 0 a \<Longrightarrow> drop_bit 2 t < 64" using and_63 [of "drop_bit 2 t"] by metis
  have "drop_bit 10 t = drop_bit 10 t AND 63" if "t = triple 0 a b"
    unfolding masks that by (rule bit_word_eqI) (auto simp: bit_simps bit_triple)
  then show "t = triple 0 a b \<Longrightarrow> drop_bit 10 t < 64" using and_63 [of "drop_bit 10 t"] by metis
qed
lemma single_triple: "ucast a = triple 0 0 a"
  by (simp add: triple_or)

lemma decodeTail_single:
  "decodeTail (pre @ encode_rest [a]) (length pre) 2 = [a]"
proof -
  have r: "revLookup (lookup64 (drop_bit 2 (ucast a))) = drop_bit 2 (ucast a :: 32 word)"
    using drop_bit_bound(1) [OF single_triple] by (simp add: revLookup_lookup64)
  have ch: "char_at (pre @ encode_rest [a]) (length pre) = drop_bit 2 (ucast a)"
    "char_at (pre @ encode_rest [a]) (length pre + 1) = push_bit 4 (ucast a) AND 63"
    by (simp_all add: char_at_def encode_rest_def Let_def nth_append r revLookup_and)
  show ?thesis unfolding decodeTail_def Let_def ch single_bytes [OF refl] by simp
qed

lemma decodeTail_double:
  "decodeTail (pre @ encode_rest [a, b]) (length pre) 1 = [a, b]"
proof -
  let ?t = "push_bit 8 (ucast a) + ucast b :: 32 word"
  have r: "revLookup (lookup64 (drop_bit 10 ?t)) = drop_bit 10 ?t"
    using drop_bit_bound(2) [OF double_triple] by (simp add: revLookup_lookup64)
  have ch: "char_at (pre @ encode_rest [a, b]) (length pre) = drop_bit 10 ?t"
    "char_at (pre @ encode_rest [a, b]) (length pre + 1) = drop_bit 4 ?t AND 63"
    "char_at (pre @ encode_rest [a, b]) (length pre + 2) = push_bit 2 ?t AND 63"
    by (simp_all add: char_at_def encode_rest_def Let_def nth_append r revLookup_and numeral_2_eq_2)
  show ?thesis unfolding decodeTail_def Let_def ch double_bytes [OF refl refl] by simp
qed

lemma encode_rest_lens:
  "length (encode_rest [a]) = 4" "index_of (CHR ''='') (encode_rest [a]) = 2"
  "length (encode_rest [a, b]) = 4" "index_of (CHR ''='') (encode_rest [a, b]) = 3" "encode_rest [] = []"
proof -
  have "lookup64 (drop_bit 2 (ucast a)) \<noteq> CHR ''=''"
    using drop_bit_bound(1) [OF single_triple] by (rule lookup64_ne_pad)
  moreover have "lookup64 (drop_bit 10 (push_bit 8 (ucast a) + ucast b)) \<noteq> CHR ''=''"
    using drop_bit_bound(2) [OF double_triple] by (rule lookup64_ne_pad)
  ultimately show "length (encode_rest [a]) = 4" "index_of (CHR ''='') (encode_rest [a]) = 2"
    "length (encode_rest [a, b]) = 4" "index_of (CHR ''='') (encode_rest [a, b]) = 3" "encode_rest [] = []"
    using lookup64_and_ne_pad(1) [THEN not_sym] by (auto simp: encode_rest_def Let_def)
qed

lemma getLens_encode:
  assumes "E = encode_full full"
  shows "getLens (E @ encode_rest []) = Some (length E, 0)"
    "getLens (E @ encode_rest [a]) = Some (length E + 2, 2)"
    "getLens (E @ encode_rest [a, b]) = Some (length E + 3, 1)"
proof -
  have i: "index_of (CHR ''='') (E @ s) = length E + index_of (CHR ''='') s" for s
    using encode_full_no_pad by (simp add: assms index_of_append)
  obtain k where k: "length E = 4 * k" using length_encode_full(1) [of full] assms by (auto elim!: dvdE)
  have m: "(4 * k + 2) mod 4 = 2" "(4 * k + 3) mod 4 = 3" "(4 * k + 4) mod 4 = 0" by presburger+
  have "index_of (CHR ''='') E = length E" using i [of "[]"] by simp
  with i k m
  show "getLens (E @ encode_rest []) = Some (length E, 0)"
    "getLens (E @ encode_rest [a]) = Some (length E + 2, 2)"
    "getLens (E @ encode_rest [a, b]) = Some (length E + 3, 1)"
    by (simp_all add: getLens_def Let_def encode_rest_lens del: add_2_eq_Suc')
qed

lemma loop_end_near: "4 dvd n \<Longrightarrow> k < 4 \<Longrightarrow> loop_end (n - k) = n"
  by (auto simp: loop_end_def elim!: dvdE)

lemma decodeLoop_end: "4 dvd r \<Longrightarrow> decodeLoop e r d = decodeLoop e r (loop_end d)"
proof (induction e r d rule: decodeLoop.induct)
  case (1 e r d)
  have "r < loop_end d \<longleftrightarrow> r < d" using 1(2) by (auto simp: loop_end_def elim!: dvdE)
  with 1 show ?case by (simp add: decodeLoop.simps [of e r])
qed

lemma toByteArray_fromByteArray: "toByteArray (fromByteArray e) = Some e"
proof -
  obtain full rest where e: "e = full @ rest" "3 dvd length full" "length rest = length e mod 3"
    using split_full by blast
  define E where "E = encode_full full"
  have d: "4 dvd length E" and n: "3 * length E = 4 * length full"
    using length_encode_full e(2) by (simp_all add: E_def)
  have f: "fromByteArray e = E @ encode_rest rest" using e fromByteArray_encode by (simp add: E_def)
  have loop: "decodeLoop (E @ suf) 0 (length E - k) = full" if "k < 4" for suf k
    using decodeLoop_full [OF e(2), of "[]"] decodeLoop_end [of 0 "E @ suf" "length E - k"]
      loop_end_near [OF d that] by (simp add: E_def)
  note L = getLens_encode [OF E_def]
  consider "rest = []" | a where "rest = [a]" | a b where "rest = [a, b]"
    using e(3) by (cases rest; cases "tl rest"; cases "tl (tl rest)"; auto)
  then show ?thesis
  proof cases
    case 1
    have "3 * length E div 4 = length full" using n by simp
    with 1 show ?thesis unfolding f toByteArray_def using loop [of 0 "[]"] L(1) by (simp add: Let_def e(1) decodeTail_def encode_rest_def)
  next
    case 2
    have "3 * (length E + 4) div 4 = length full + 3" using n by simp
    with 2 show ?thesis unfolding f toByteArray_def using L(2) [of a] loop [of 2] loop_end_near [OF d, of 2] decodeTail_single [of E a]
      by (simp add: Let_def e(1))
  next
    case 3
    have "3 * (length E + 4) div 4 = length full + 3" using n by simp
    with 3 show ?thesis unfolding f toByteArray_def using L(3) [of a b] loop [of 1] loop_end_near [OF d, of 1] decodeTail_double [of E a b]
      by (simp add: Let_def e(1))
  qed
qed

lemma inj_of_char8: "inj (of_char :: char \<Rightarrow> 8 word)"
proof (rule injI)
  fix c d :: char
  assume "of_char c = (of_char d :: 8 word)"
  moreover have "unat (of_char x :: 8 word) = (of_char x :: nat)" for x :: char
  proof -
    have "(of_char x :: 8 word) = of_nat (of_char x)" by (simp add: of_nat_of_char)
    then show ?thesis by (simp add: unsigned_of_nat take_bit_eq_mod del: of_nat_of_char)
  qed
  ultimately have "(of_char c :: nat) = of_char d" by metis
  then show "c = d" by simp
qed

lemma toBase64_inj: "toBase64 s = toBase64 s' \<Longrightarrow> s = s'"
  unfolding toBase64_def
  by (drule arg_cong [of _ _ toByteArray]) (simp add: toByteArray_fromByteArray inj_map_eq_map [OF inj_of_char8])

section \<open>Properties\<close>

text \<open>
  C18. Base 64 loses nothing. Decoding the encoding of any bytes returns these bytes, whatever
  their number: for none, one or two bytes in the last group, and across the chunks in which the
  encoder works. The decoder does not throw on an encoding.
\<close>

theorem base64_roundtrip: "toByteArray (fromByteArray e) = Some e"
  by (rule toByteArray_fromByteArray)

end
