(* ===== verification/Web_Schema.thy ===== *)
theory Web_Schema
  imports Web_Values "HOL-Library.Monad_Syntax"
begin

text \<open>
  How the API documentation page (web/static/rapidoc-min.js) describes the schema of a value:
  \<open>AP\<close> prints a value, \<open>EP\<close> collects the type, the constraints and the description of a schema
  and encodes them in one string, which the elements \<open>schema-tree\<close> and \<open>schema-table\<close> split again.

  \<open>None\<close> is a thrown \<open>TypeError\<close>. The replacement text of \<open>String.replace\<close> is taken literally.
\<close>

section \<open>Text\<close>

definition bar :: string where "bar = [CHR 0xE2, CHR 0x94, CHR 0x83]"
definition empty_sign :: string where "empty_sign = [CHR 0xE2, CHR 0x88, CHR 0x85]"
definition bullet :: string where "bullet = [CHR 0xE2, CHR 0x97, CHR 0x8F]"
definition sign_R :: string where "sign_R = [CHR 0xF0, CHR 0x9F, CHR 0x86, CHR 0x81]"
definition sign_W :: string where "sign_W = [CHR 0xF0, CHR 0x9F, CHR 0x86, CHR 0x86]"
definition cross :: string where "cross = [CHR 0xE2, CHR 0x9D, CHR 0x8C]"

definition is_prefix :: "string \<Rightarrow> string \<Rightarrow> bool" where
  "is_prefix p s \<longleftrightarrow> take (length p) s = p"

lemma is_prefix_length: "is_prefix p s \<Longrightarrow> length p \<le> length s"
  unfolding is_prefix_def by (metis length_take min.cobounded1)

fun js_includes :: "string \<Rightarrow> string \<Rightarrow> bool" where
  "js_includes [] p = (p = [])"
| "js_includes (c # s) p = (is_prefix p (c # s) \<or> js_includes s p)"

text \<open>\<open>s.replace(p, r)\<close> replaces the first occurrence.\<close>

fun js_replace :: "string \<Rightarrow> string \<Rightarrow> string \<Rightarrow> string" where
  "js_replace [] p r = (if p = [] then r else [])"
| "js_replace (c # s) p r =
     (if is_prefix p (c # s) then r @ drop (length p) (c # s) else c # js_replace s p r)"

function js_split :: "string \<Rightarrow> string \<Rightarrow> string list" where
  "js_split sep s =
     (if sep \<noteq> [] \<and> is_prefix sep s then [] # js_split sep (drop (length sep) s)
      else (case s of
              [] \<Rightarrow> [[]]
            | c # cs \<Rightarrow> (case js_split sep cs of [] \<Rightarrow> [[c]] | w # ws \<Rightarrow> (c # w) # ws)))"
  by pat_completeness auto
termination
proof (relation "measure (\<lambda>(sep, s). length s)")
  fix sep s :: string
  assume "sep \<noteq> [] \<and> is_prefix sep s"
  then have "0 < length sep" "length sep \<le> length s" using is_prefix_length by auto
  then have "length s - length sep < length s" by linarith
  then show "((sep, drop (length sep) s), sep, s) \<in> measure (\<lambda>(sep, s). length s)" by simp
qed simp_all

declare js_split.simps [simp del]

definition after_last :: "char \<Rightarrow> string \<Rightarrow> string" where
  "after_last c s = rev (takeWhile (\<lambda>x. x \<noteq> c) (rev s))"

section \<open>Printing a value\<close>

text \<open>\<open>replace(/^ +| +$/g, ...)\<close>: spaces at the ends become bullets.\<close>

definition show_spaces :: "string \<Rightarrow> string" where
  "show_spaces s =
     (let rest = dropWhile (\<lambda>c. c = CHR '' '') s; lead = length s - length rest;
          core = rev (dropWhile (\<lambda>c. c = CHR '' '') (rev rest)); trail = length rest - length core in
      concat (replicate lead bullet) @ core @ concat (replicate trail bullet))"

definition print_item :: "js \<Rightarrow> string option" where
  "print_item e =
     (if e = JNull then Some ''null'' else if e = JStr [] then Some empty_sign
      else if e = JUndef then None else Some (show_spaces (js_toString e)))"

fun print_items :: "js list \<Rightarrow> string list option" where
  "print_items [] = Some []"
| "print_items (x # xs) = do { y \<leftarrow> print_item x; ys \<leftarrow> print_items xs; Some (y # ys) }"

fun AP :: "js \<Rightarrow> string option" where
  "AP JUndef = Some []"
| "AP (JBool b) = Some (js_toString (JBool b))"
| "AP (JNum n) = Some n"
| "AP (JArr xs) = map_option (joinStr '', '') (print_items xs)"
| "AP e = print_item e"

fun AP_all :: "js list \<Rightarrow> string list option" where
  "AP_all [] = Some []"
| "AP_all (x # xs) = do { y \<leftarrow> AP x; ys \<leftarrow> AP_all xs; Some (y # ys) }"

section \<open>The type of a schema\<close>

record TypeInfo =
  ti_type :: string
  ti_format :: js
  ti_pattern :: js
  ti_readOrWriteOnly :: string
  ti_deprecated :: string
  ti_examples :: js
  ti_default :: string
  ti_description :: js
  ti_constrain :: string
  ti_allowedValues :: js
  ti_arrayType :: string
  ti_html :: string

definition type_of_schema :: "js \<Rightarrow> string option" where
  "type_of_schema e =
     (let ty = js_get e ''type'' in
      if js_truthy (js_get e ''$ref'')
      then (case js_get e ''$ref'' of JStr r \<Rightarrow> Some (''{recursive: '' @ after_last (CHR ''/'') r @ ''} '') | _ \<Rightarrow> None)
      else if js_truthy ty then do {
        t \<leftarrow> Some (case ty of
               JArr xs \<Rightarrow> JStr (js_join (if js_get e ''length'' = JNum ''2'' then '' or '' else bar) xs)
             | _ \<Rightarrow> ty);
        t \<leftarrow> (if js_truthy (js_get e ''format'') \<or> js_truthy (js_get e ''enum'') \<or> js_truthy (js_get e ''const'')
             then (case t of
                     JStr s \<Rightarrow> Some (JStr (js_replace s ''string''
                       (if js_truthy (js_get e ''enum'') then ''enum'' else if js_truthy (js_get e ''const'') then ''const''
                        else js_toString (js_get e ''format''))))
                   | _ \<Rightarrow> None)
             else Some t);
        t \<leftarrow> Some (if js_truthy (js_get e ''nullable'') then JStr (js_toString t @ bar @ ''null'') else t);
        (case t of JStr s \<Rightarrow> Some s | _ \<Rightarrow> None) }
      else Some (if js_truthy (js_get e ''const'') then ''const'' else if js_keys e = [] then ''any'' else ''{missing-type-info}''))"

definition sep_unless_empty :: "string \<Rightarrow> string" where
  "sep_unless_empty r = (if r = [] then [] else bar)"

definition number_constraint :: "js \<Rightarrow> string \<Rightarrow> string" where
  "number_constraint e r0 =
     (let g = (\<lambda>k. js_get e k);
          r1 = (if g ''minimum'' = JUndef \<and> g ''exclusiveMinimum'' = JUndef then r0
                else r0 @ (if g ''minimum'' \<noteq> JUndef then ''Min '' @ js_toString (g ''minimum'')
                           else ''More than '' @ js_toString (g ''exclusiveMinimum'')));
          r2 = (if g ''maximum'' = JUndef \<and> g ''exclusiveMaximum'' = JUndef then r1
                else r1 @ sep_unless_empty r1 @
                     (if g ''maximum'' \<noteq> JUndef then ''Max '' @ js_toString (g ''maximum'')
                      else ''Less than '' @ js_toString (g ''exclusiveMaximum''))) in
      if g ''multipleOf'' \<noteq> JUndef then r2 @ sep_unless_empty r2 @ '' multiple of '' @ js_toString (g ''multipleOf'') else r2)"

definition string_constraint :: "js \<Rightarrow> string \<Rightarrow> string" where
  "string_constraint e r =
     (let mn = js_get e ''minLength''; mx = js_get e ''maxLength'' in
      if mn \<noteq> JUndef \<and> mx \<noteq> JUndef
      then r @ sep_unless_empty r @ js_toString mn @ '' to '' @ js_toString mx @ '' chars''
      else if mn \<noteq> JUndef then r @ sep_unless_empty r @ ''Min '' @ js_toString mn @ '' chars''
      else if mx \<noteq> JUndef then r @ ''Max '' @ sep_unless_empty r @ js_toString mx @ '' chars''
      else r)"

definition schema_constraint :: "js \<Rightarrow> string \<Rightarrow> string" where
  "schema_constraint e t =
     (let r = (if js_includes t ''integer'' \<or> js_includes t ''number'' then number_constraint e [] else []) in
      if js_includes t ''string'' then string_constraint e r else r)"

text \<open>The values an enumeration allows, joined.\<close>

definition enum_values :: "js \<Rightarrow> js option" where
  "enum_values en = (case en of JArr xs \<Rightarrow> map_option (\<lambda>ys. JStr (joinStr bar ys)) (AP_all xs) | _ \<Rightarrow> Some (JStr []))"

definition allowed_values :: "js \<Rightarrow> js option" where
  "allowed_values e = (if js_truthy (js_get e ''const'') then Some (js_get e ''const'') else enum_values (js_get e ''enum''))"

text \<open>For an array the values of its items; for a constant item the \<open>const\<close> of the array itself is read.\<close>

definition item_allowed_values :: "js \<Rightarrow> js option" where
  "item_allowed_values e =
     (if js_truthy (js_get (js_get e ''items'') ''const'') then Some (js_get e ''const'')
      else enum_values (js_get (js_get e ''items'') ''enum''))"

definition array_type :: "js \<Rightarrow> string" where
  "array_type e =
     js_toString (js_get e ''type'') @ '' of '' @
     (case js_get (js_get e ''items'') ''type'' of JArr xs \<Rightarrow> js_join [] xs | t \<Rightarrow> js_toString t)"

definition field_sep :: string where "field_sep = ''~|~''"

definition html_fields :: "js \<Rightarrow> TypeInfo \<Rightarrow> string list" where
  "html_fields e n =
     [ti_type n, ti_readOrWriteOnly n, ti_constrain n, ti_default n, js_toString (ti_allowedValues n),
      js_toString (ti_pattern n), js_toString (ti_description n), js_toString (js_or (js_get e ''title'') (JStr [])),
      if ti_deprecated n \<noteq> [] then ''deprecated'' else []]"

text \<open>The object \<open>EP\<close> builds, but for the string.\<close>

definition EP_object :: "js \<Rightarrow> string \<Rightarrow> string \<Rightarrow> js \<Rightarrow> js \<Rightarrow> bool \<Rightarrow> TypeInfo" where
  "EP_object e t default' descr allowed isArray =
     \<lparr>ti_type = t, ti_format = js_or (js_get e ''format'') (JStr []),
      ti_pattern = (if js_truthy (js_get e ''pattern'') \<and> \<not> js_truthy (js_get e ''enum'')
                    then js_get e ''pattern'' else JStr []),
      ti_readOrWriteOnly = (if js_truthy (js_get e ''readOnly'') then sign_R
                            else if js_truthy (js_get e ''writeOnly'') then sign_W else []),
      ti_deprecated = (if js_truthy (js_get e ''deprecated'') then cross else []),
      ti_examples = js_or (js_get e ''examples'') (js_get e ''example''),
      ti_default = default', ti_description = descr, ti_constrain = schema_constraint e t,
      ti_allowedValues = allowed, ti_arrayType = (if isArray then array_type e else []), ti_html = []\<rparr>"

definition EP :: "js \<Rightarrow> TypeInfo option option" where
  "EP e =
     (if \<not> js_truthy e then Some None
      else do {
        t \<leftarrow> type_of_schema e;
        d \<leftarrow> AP (js_get e ''default'');
        descr \<leftarrow> (if t = ''{recursive}''
                 then (case js_get e ''$ref'' of JStr r \<Rightarrow> Some (JStr (after_last (CHR ''/'') r)) | _ \<Rightarrow> None)
                 else Some (js_or (js_get e ''description'') (JStr [])));
        allowed \<leftarrow> allowed_values e;
        let isArray = (t = ''array'' \<and> js_truthy (js_get e ''items''));
        default' \<leftarrow> (if isArray then AP (js_get (js_get e ''items'') ''default'') else Some d);
        allowed' \<leftarrow> (if isArray then item_allowed_values e else Some allowed);
        let n = EP_object e t default' descr allowed' isArray;
        Some (Some (n\<lparr>ti_html := joinStr field_sep (html_fields e n)\<rparr>)) })"

text \<open>
  A leaf of the tree: \<open>const [g,v,b,x,w,$,k,S,A] = e.split("~|~")\<close>, and the two early returns.
\<close>

definition leaf_fields :: "string \<Rightarrow> string list" where
  "leaf_fields html = js_split field_sep html"

definition leaf_hidden :: "string \<Rightarrow> string \<Rightarrow> string \<Rightarrow> bool" where
  "leaf_hidden schemaHideReadOnly schemaHideWriteOnly html =
     (case leaf_fields html of
        g # v # _ \<Rightarrow> (v = sign_R \<and> schemaHideReadOnly = ''true'') \<or> (v = sign_W \<and> schemaHideWriteOnly = ''true'')
      | _ \<Rightarrow> False)"

section \<open>Facts\<close>

lemma is_prefix_append [simp]: "is_prefix p (p @ s)"
  by (simp add: is_prefix_def)

lemma js_split_no_sep:
  "CHR ''~'' \<notin> set s \<Longrightarrow> js_split field_sep s = [s]"
proof (induction s)
  case Nil
  show ?case by (subst js_split.simps) (simp add: field_sep_def is_prefix_def)
next
  case (Cons c s)
  then show ?case
    by (subst js_split.simps) (auto simp: field_sep_def is_prefix_def)
qed

lemma js_split_field:
  "CHR ''~'' \<notin> set s \<Longrightarrow> js_split field_sep (s @ field_sep @ rest) = s # js_split field_sep rest"
proof (induction s)
  case Nil
  have "drop (length field_sep) (field_sep @ rest) = rest" "field_sep \<noteq> []" by (simp_all add: field_sep_def)
  then show ?case by (subst js_split.simps) simp
next
  case (Cons c s)
  then have "\<not> is_prefix field_sep (c # s @ field_sep @ rest)" by (auto simp: field_sep_def is_prefix_def)
  with Cons show ?case by (simp add: js_split.simps [of field_sep "c # s @ field_sep @ rest"])
qed

lemma js_split_join:
  "list_all (\<lambda>s. CHR ''~'' \<notin> set s) fs \<Longrightarrow> fs \<noteq> [] \<Longrightarrow> js_split field_sep (joinStr field_sep fs) = fs"
proof (induction fs rule: induct_list012)
  case (3 x y zs)
  then show ?case using js_split_field [of x] by simp
qed (simp_all add: js_split_no_sep)

lemma EP_object_of:
  assumes "EP e = Some (Some n)"
  shows "\<exists>t d descr allowed isArray n0. n0 = EP_object e t d descr allowed isArray \<and>
    n = n0\<lparr>ti_html := joinStr field_sep (html_fields e n0)\<rparr>"
proof (cases "js_truthy e")
  case True
  then show ?thesis using assms unfolding EP_def Let_def by (simp only: bind_eq_Some_conv if_True not_True_eq_False if_False option.inject) blast
qed (use assms in \<open>simp add: EP_def\<close>)

lemma EP_html:
  assumes "EP e = Some (Some n)"
  shows "ti_html n = joinStr field_sep (html_fields e n)"
    and "ti_readOrWriteOnly n = (if js_truthy (js_get e ''readOnly'') then sign_R
      else if js_truthy (js_get e ''writeOnly'') then sign_W else [])"
  using EP_object_of [OF assms] by (auto simp: html_fields_def EP_object_def)

section \<open>Properties\<close>


definition example_schema :: js where
  "example_schema = JObj [(''type'', JStr ''string''), (''format'', JStr ''date''), (''readOnly'', JBool True),
     (''default'', JStr '' x''), (''maxLength'', JNum ''5''), (''description'', JStr ''a date''), (''deprecated'', JBool True)]"


text \<open>A description with the separator shifts the fields behind it, and the schema loses its mark.\<close>

theorem schema_separator_in_description:
  "\<exists>n. EP (JObj [(''type'', JStr ''integer''), (''description'', JStr ''a~|~b''), (''deprecated'', JBool True)]) = Some (Some n) \<and>
     take 9 (leaf_fields (ti_html n)) = [''integer'', [], [], [], [], [], ''a'', ''b'', []]"
  by (rule exI [of _ "the (the (EP (JObj [(''type'', JStr ''integer''), (''description'', JStr ''a~|~b''),
        (''deprecated'', JBool True)])))"]) code_simp

text \<open>An array of a constant item shows \<open>undefined\<close> as the value that is allowed.\<close>

theorem array_of_const_shows_undefined:
  "\<exists>n. EP (JObj [(''type'', JStr ''array''), (''items'', JObj [(''const'', JStr ''x'')])]) = Some (Some n) \<and>
     leaf_fields (ti_html n) ! 4 = ''undefined''"
  by (rule exI [of _ "the (the (EP (JObj [(''type'', JStr ''array''), (''items'', JObj [(''const'', JStr ''x'')])])))"]) code_simp

end
