(* ===== verification/Web_Keys.thy ===== *)
theory Web_Keys
  imports Web_Base64 Web_Schema
begin

text \<open>
  The API keys of the documentation page (web/static/rapidoc-min.js): the security schemes of a
  specification, the operations that apply, remove, keep and restore a key, and the keys that a
  request carries.

  A scheme is the list of the properties of its object. The item of the local storage is
  represented by the value that its JSON text denotes. \<open>None\<close> is a thrown \<open>TypeError\<close>. What the
  user has typed is an argument. Redrawing the page, which \<open>requestUpdate\<close> asks for, is the
  operation \<open>render_page\<close>.
\<close>

section \<open>Objects\<close>

type_synonym obj = "(string \<times> js) list"

definition field :: "obj \<Rightarrow> string \<Rightarrow> js" where
  "field m k = js_get (JObj m) k"

definition with_str :: "string \<Rightarrow> string \<Rightarrow> obj \<Rightarrow> obj" where
  "with_str k s m = upd_assoc k (JStr s) m"

text \<open>\<open>{...a, ...b}\<close>\<close>

definition spread :: "obj \<Rightarrow> obj \<Rightarrow> obj" where
  "spread a b = fold (\<lambda>(k, v) m. upd_assoc k v m) b a"

text \<open>\<open>x?.toLowerCase()\<close>\<close>

fun opt_lower :: "js \<Rightarrow> js option" where
  "opt_lower JUndef = Some JUndef" | "opt_lower JNull = Some JUndef"
| "opt_lower (JStr s) = Some (JStr (toLower s))"
| "opt_lower _ = None"

text \<open>\<open>JSON.parse(JSON.stringify(v))\<close> for a value that is not \<open>undefined\<close>.\<close>

function json_copy :: "js \<Rightarrow> js" and json_copy_items :: "js list \<Rightarrow> js list" and json_copy_entries :: "obj \<Rightarrow> obj" where
  "json_copy JUndef = JNull" | "json_copy JNull = JNull" | "json_copy (JBool b) = JBool b"
| "json_copy (JNum n) = (if n \<in> {''NaN'', ''Infinity'', ''-Infinity''} then JNull else JNum n)"
| "json_copy (JStr s) = JStr s"
| "json_copy (JArr xs) = JArr (json_copy_items xs)"
| "json_copy (JObj m) = JObj (json_copy_entries m)"
| "json_copy_items [] = []"
| "json_copy_items (x # xs) = json_copy x # json_copy_items xs"
| "json_copy_entries [] = []"
| "json_copy_entries ((k, v) # m) =
     (if v = JUndef then json_copy_entries m else (k, json_copy v) # json_copy_entries m)"
  by pat_completeness auto
termination
  by (relation "measure (\<lambda>x. case x of Inl v \<Rightarrow> size v | Inr (Inl xs) \<Rightarrow> size_list size xs
        | Inr (Inr m) \<Rightarrow> size_list (\<lambda>(k, v). size v) m)")
    (auto simp: size_list_conv_sum_list o_def less_Suc_eq_le entries_size)

section \<open>The schemes of a specification\<close>

definition api_key_id :: string where "api_key_id = ''_rapidoc_api_key''"

definition scheme_of :: "string \<Rightarrow> js \<Rightarrow> obj option" where
  "scheme_of i d =
     (case d of
        JObj m \<Rightarrow>
          let r = with_str ''finalKeyValue'' [] (with_str ''value'' [] (spread [(''securitySchemeId'', JStr i)] m)) in
          if field m ''type'' = JStr ''apiKey'' \<or> field m ''type'' = JStr ''http''
          then Some (with_str ''password'' [] (with_str ''user'' []
                 (upd_assoc ''name'' (js_or (field m ''name'') (JStr ''Authorization''))
                   (upd_assoc ''in'' (js_or (field m ''in'') (JStr ''header'')) r))))
          else if field m ''type'' = JStr ''oauth2''
          then Some (with_str ''clientSecret'' [] (with_str ''clientId'' []
                 (with_str ''name'' ''Authorization'' (with_str ''in'' ''header'' r))))
          else Some r
      | _ \<Rightarrow> None)"

fun schemes_of :: "(string \<times> js) list \<Rightarrow> obj list option" where
  "schemes_of [] = Some []"
| "schemes_of ((i, d) # m) = do { r \<leftarrow> scheme_of i d; rs \<leftarrow> schemes_of m; Some (r # rs) }"

definition attribute_scheme :: "string \<Rightarrow> string \<Rightarrow> string \<Rightarrow> obj list" where
  "attribute_scheme keyName keyLocation keyValue =
     (if keyName \<noteq> [] \<and> keyLocation \<noteq> [] \<and> keyValue \<noteq> [] then
        [[(''securitySchemeId'', JStr api_key_id),
          (''description'', JStr ''api-key provided in rapidoc element attributes''),
          (''type'', JStr ''apiKey''), (''oAuthFlow'', JStr []), (''name'', JStr keyName), (''in'', JStr keyLocation),
          (''value'', JStr keyValue), (''finalKeyValue'', JStr keyValue)]]
      else [])"

definition typeDisplay :: "obj \<Rightarrow> js" where
  "typeDisplay e =
     (if field e ''type'' = JStr ''http''
      then JStr (if field e ''scheme'' = JStr ''basic'' then ''HTTP Basic'' else ''HTTP Bearer'')
      else if field e ''type'' = JStr ''apiKey'' then JStr (''API Key ('' @ js_toString (field e ''name'') @ '')'')
      else if field e ''type'' = JStr ''oauth2'' then JStr (''OAuth ('' @ js_toString (field e ''securitySchemeId'') @ '')'')
      else js_or (field e ''type'') (JStr ''None''))"

text \<open>The schemes of \<open>components.securitySchemes\<close>, and the key of the attributes of the element.\<close>

definition securitySchemes :: "js \<Rightarrow> string \<Rightarrow> string \<Rightarrow> string \<Rightarrow> obj list option" where
  "securitySchemes defs keyName keyLocation keyValue = do {
     rs \<leftarrow> (if js_truthy defs then (case defs of JObj m \<Rightarrow> schemes_of m | _ \<Rightarrow> Some []) else Some []);
     Some (map (\<lambda>e. upd_assoc ''typeDisplay'' (typeDisplay e) e) (rs @ attribute_scheme keyName keyLocation keyValue)) }"

section \<open>State\<close>

record page =
  pg_schemes :: "obj list option"
  pg_persistAuth :: string
  pg_storage :: "js option"

definition has_id :: "js \<Rightarrow> obj \<Rightarrow> bool" where
  "has_id i e \<longleftrightarrow> field e ''securitySchemeId'' = i"

definition find_scheme :: "js \<Rightarrow> page \<Rightarrow> obj option" where
  "find_scheme i p = (case pg_schemes p of None \<Rightarrow> None | Some ss \<Rightarrow> find (has_id i) ss)"

fun update_first :: "('a \<Rightarrow> bool) \<Rightarrow> ('a \<Rightarrow> 'a) \<Rightarrow> 'a list \<Rightarrow> 'a list" where
  "update_first P f [] = []"
| "update_first P f (x # xs) = (if P x then f x # xs else x # update_first P f xs)"

definition update_scheme :: "js \<Rightarrow> (obj \<Rightarrow> obj) \<Rightarrow> page \<Rightarrow> page" where
  "update_scheme i f p = p\<lparr>pg_schemes := map_option (update_first (has_id i) f) (pg_schemes p)\<rparr>"

section \<open>Applying a key\<close>

definition key_prefix :: "js \<Rightarrow> string" where
  "key_prefix lowered = (if lowered = JStr ''bearer'' then ''Bearer '' else [])"

definition basic_key :: "js \<Rightarrow> js \<Rightarrow> string" where
  "basic_key user password = ''Basic '' @ toBase64 (js_toString user @ '':'' @ js_toString password)"

definition default_str :: "js \<Rightarrow> js" where
  "default_str v = (if v = JUndef then JStr [] else v)"

text \<open>\<open>tP\<close>: the result says whether a key has been applied.\<close>

definition tP :: "js \<Rightarrow> js \<Rightarrow> js \<Rightarrow> js \<Rightarrow> page \<Rightarrow> (bool \<times> page) option" where
  "tP i user password key p =
     (let t = default_str user; r = default_str password; n = default_str key in
      case find_scheme i p of
        None \<Rightarrow> Some (False, p)
      | Some e \<Rightarrow> do {
          lowered \<leftarrow> opt_lower (field e ''scheme'');
          let basic = (lowered = JStr ''basic'');
          let s = (if basic then (if js_truthy t then basic_key t r else [])
                   else if js_truthy n then key_prefix lowered @ js_toString n else []);
          let p1 = (if \<not> basic \<and> js_truthy n then update_scheme i (upd_assoc ''value'' n) p else p);
          Some (if s \<noteq> [] then (True, update_scheme i (with_str ''finalKeyValue'' s) p1) else (False, p1)) })"

text \<open>\<open>setApiKey\<close>, \<open>setHttpUserNameAndPassword\<close>\<close>

definition setApiKey :: "string \<Rightarrow> string \<Rightarrow> page \<Rightarrow> (bool \<times> page) option" where
  "setApiKey i key p = tP (JStr i) (JStr []) (JStr []) (JStr key) p"

definition setHttpUserNameAndPassword :: "string \<Rightarrow> string \<Rightarrow> string \<Rightarrow> page \<Rightarrow> (bool \<times> page) option" where
  "setHttpUserNameAndPassword i user password p = tP (JStr i) (JStr user) (JStr password) JUndef p"

definition clear_fields :: "obj \<Rightarrow> obj" where
  "clear_fields e = with_str ''finalKeyValue'' [] (with_str ''value'' [] (with_str ''password'' [] (with_str ''user'' [] e)))"

definition rP :: "page \<Rightarrow> page" where
  "rP p = p\<lparr>pg_schemes := map_option (map clear_fields) (pg_schemes p)\<rparr>"

section \<open>The local storage\<close>

definition nP :: "page \<Rightarrow> js" where
  "nP p = (case pg_storage p of None \<Rightarrow> JObj [] | Some v \<Rightarrow> js_or v (JObj []))"

definition oP :: "js \<Rightarrow> page \<Rightarrow> page" where
  "oP v p = p\<lparr>pg_storage := Some (json_copy v)\<rparr>"

fun js_values :: "js \<Rightarrow> js list" where
  "js_values (JObj m) = map snd m" | "js_values (JArr xs) = xs" | "js_values _ = []"

fun restore_all :: "js list \<Rightarrow> page \<Rightarrow> page option" where
  "restore_all [] p = Some p"
| "restore_all (e # es) p =
     (if \<not> js_has_props e then None
      else do {
        (b, p') \<leftarrow> tP (js_get e ''securitySchemeId'') (js_get e ''username'') (js_get e ''password'') (js_get e ''value'') p;
        restore_all es p' })"

definition aP :: "page \<Rightarrow> page option" where
  "aP p = restore_all (js_values (nP p)) p"

text \<open>\<open>t[i] = e\<close> and \<open>delete t[i]\<close> on the object of the stored keys.\<close>

definition set_entry :: "string \<Rightarrow> js \<Rightarrow> js \<Rightarrow> js" where
  "set_entry i e t = (case t of JObj m \<Rightarrow> JObj (upd_assoc i e m) | _ \<Rightarrow> t)"

definition delete_entry :: "string \<Rightarrow> js \<Rightarrow> js" where
  "delete_entry i t = (case t of JObj m \<Rightarrow> JObj (del_assoc i m) | _ \<Rightarrow> t)"

section \<open>The buttons SET and REMOVE\<close>

text \<open>The inputs in the row of a scheme: \<open>None\<close> if the row does not have the input.\<close>

record row =
  row_user :: "string option"
  row_password :: "string option"
  row_key :: "string option"

definition is_basic :: "obj \<Rightarrow> bool option" where
  "is_basic e =
     (if js_truthy (field e ''type'') \<and> js_truthy (field e ''scheme'') \<and> field e ''type'' = JStr ''http''
      then (case field e ''scheme'' of JStr s \<Rightarrow> Some (toLower s = ''basic'') | _ \<Rightarrow> None)
      else Some False)"

definition iP :: "string \<Rightarrow> row option \<Rightarrow> page \<Rightarrow> page option" where
  "iP i n p =
     (if pg_schemes p = None then None
      else case find_scheme (JStr i) p of
        None \<Rightarrow> Some p
      | Some r \<Rightarrow>
          (case n of
             None \<Rightarrow> Some p
           | Some inputs \<Rightarrow> do {
               basic \<leftarrow> is_basic r;
               (b, p1) \<leftarrow>
                 (if basic then do {
                    u \<leftarrow> row_user inputs; w \<leftarrow> row_password inputs;
                    tP (JStr i) (JStr (trimSpace u)) (JStr (trimSpace w)) JUndef p }
                  else do {
                    k \<leftarrow> row_key inputs;
                    tP (JStr i) (JStr []) (JStr []) (JStr (trimSpace k)) p });
               Some (if pg_persistAuth p1 = ''true''
                     then (case find_scheme (JStr i) p1 of
                             Some r' \<Rightarrow> oP (set_entry i (JObj r') (nP p1)) p1
                           | None \<Rightarrow> p1)
                     else p1) }))"

definition uP :: "string \<Rightarrow> page \<Rightarrow> page option" where
  "uP i p =
     (case find_scheme (JStr i) p of
        None \<Rightarrow> None
      | Some r \<Rightarrow>
          let p1 = update_scheme (JStr i) clear_fields p in
          Some (if pg_persistAuth p1 = ''true'' then oP (delete_entry i (nP p1)) p1 else p1))"

text \<open>The page restores the stored keys whenever it is drawn.\<close>

definition render_page :: "page \<Rightarrow> page option" where
  "render_page p = (if pg_persistAuth p = ''true'' then aP p else Some p)"

section \<open>OAuth tokens\<close>

definition token_key :: "string \<Rightarrow> string \<Rightarrow> string" where
  "token_key tokenType token =
     (if toLower tokenType = ''bearer'' then ''Bearer'' else if toLower tokenType = ''mac'' then ''MAC'' else tokenType) @ '' '' @ token"

definition sP :: "string \<Rightarrow> js \<Rightarrow> js \<Rightarrow> page \<Rightarrow> page option" where
  "sP i token tokenType p =
     (case find_scheme (JStr i) p of
        None \<Rightarrow> None
      | Some _ \<Rightarrow>
          (case (if tokenType = JUndef then JStr ''Bearer'' else tokenType) of
             JStr r \<Rightarrow> Some (update_scheme (JStr i) (with_str ''finalKeyValue'' (token_key r (js_toString token))) p)
           | _ \<Rightarrow> None))"

type_synonym params = "(string \<times> string) list"

text \<open>\<open>URLSearchParams.set\<close>\<close>

definition params_set :: "string \<Rightarrow> string \<Rightarrow> params \<Rightarrow> params" where
  "params_set k v ps =
     (if k \<in> fst ` set ps
      then takeWhile (\<lambda>(k', _). k' \<noteq> k) ps @ (k, v) # filter (\<lambda>(k', _). k' \<noteq> k) (dropWhile (\<lambda>(k', _). k' \<noteq> k) ps)
      else ps @ [(k, v)])"

definition pkce_verifier :: string where "pkce_verifier = ''731DB1C3F7EA533B85E29492D26AA-1234567890-1234567890''"
definition pkce_challenge :: string where "pkce_challenge = ''4FatVDBJKPAo4JgLLaaQFMUcQPn5CrPRvLlaob9PTYc''"

definition js_of_opt :: "string option \<Rightarrow> js" where
  "js_of_opt x = (case x of None \<Rightarrow> JNull | Some s \<Rightarrow> JStr s)"

text \<open>The body and the headers of the request for a token (\<open>lP\<close>).\<close>

definition token_request ::
    "string \<Rightarrow> string \<Rightarrow> string \<Rightarrow> string \<Rightarrow> js \<Rightarrow> string \<Rightarrow> string option \<Rightarrow> string option \<Rightarrow> string option \<Rightarrow> params \<times> params" where
  "token_request clientId clientSecret redirectUrl grantType authCode sendIn scope username password =
     ([(''grant_type'', grantType)]
      @ (if grantType = ''authorization_code'' then [(''client_id'', clientId), (''client_secret'', clientSecret)] else [])
      @ (if grantType \<noteq> ''client_credentials'' \<and> grantType \<noteq> ''password'' then [(''redirect_uri'', redirectUrl)] else [])
      @ (if js_truthy authCode then [(''code'', js_toString authCode), (''code_verifier'', pkce_verifier)] else [])
      @ (if sendIn = ''header'' then [] else [(''client_id'', clientId), (''client_secret'', clientSecret)])
      @ (if grantType = ''password''
         then [(''username'', js_toString (js_of_opt username)), (''password'', js_toString (js_of_opt password))] else [])
      @ (case scope of Some c \<Rightarrow> if c \<noteq> [] then [(''scope'', c)] else [] | None \<Rightarrow> []),
      if sendIn = ''header'' then [(''Authorization'', ''Basic '' @ toBase64 (clientId @ '':'' @ clientSecret))] else [])"

text \<open>
  The answer: no answer, or the status and the body, \<open>None\<close> if it is not JSON. \<open>lP\<close> returns
  \<open>true\<close>, \<open>false\<close> or nothing, and shows a message.
\<close>

datatype reply = NoReply | Reply bool "js option"

definition token_message :: "string \<Rightarrow> string \<Rightarrow> string" where
  "token_message colour s = ''<span style=\"color:var(--'' @ colour @ '')\">'' @ s @ ''</span>''"

definition token_failed :: "page \<Rightarrow> bool option \<times> string option \<times> page" where
  "token_failed p = (Some False, Some (token_message ''red'' ''Failed to get access token''), p)"

definition lP_reply :: "string \<Rightarrow> reply \<Rightarrow> page \<Rightarrow> bool option \<times> string option \<times> page" where
  "lP_reply i r p =
     (case r of
        Reply ok (Some v) \<Rightarrow>
          if \<not> ok then
            (if js_has_props v
             then (Some False, Some (token_message ''red''
                     (js_toString (js_or (js_get v ''error_description'') (JStr ''Unable to get access token'')))), p)
             else token_failed p)
          else if \<not> js_has_props v then token_failed p
          else if js_truthy (js_get v ''token_type'') \<and> js_truthy (js_get v ''access_token'') then
            (case sP i (js_get v ''access_token'') (js_get v ''token_type'') p of
               Some p' \<Rightarrow> (Some True, Some (token_message ''green'' ''Access Token Received''), p')
             | None \<Rightarrow> token_failed p)
          else (None, None, p)
      | _ \<Rightarrow> token_failed p)"

text \<open>The message of the window that asked for the permission (\<open>cP\<close>).\<close>

datatype message_action = IgnoreMessage | AskToken js | TakeToken js js

definition cP :: "js \<Rightarrow> message_action option" where
  "cP d =
     (if \<not> js_has_props d then None
      else if js_truthy (js_get d ''fake'') then Some IgnoreMessage
      else if \<not> js_truthy d then Some IgnoreMessage
      else if js_get d ''responseType'' = JStr ''code'' then Some (AskToken (js_get d ''code''))
      else if js_get d ''responseType'' = JStr ''token'' then Some (TakeToken (js_get d ''access_token'') (js_get d ''token_type''))
      else Some IgnoreMessage)"

text \<open>
  The button GET TOKEN (\<open>pP\<close>): the flow opens a window with these parameters, which remembers the
  kind of grant, or asks for the token at once. \<open>existing\<close> are the parameters that the
  authorization URL has already; the scopes are the checked ones.
\<close>

datatype oauth_action =
    OpenWindow params string
  | RequestToken string string "string option" "string option"
  | NoAction

definition pP :: "string \<Rightarrow> params \<Rightarrow> string \<Rightarrow> string list \<Rightarrow> string \<Rightarrow> string \<Rightarrow> string \<Rightarrow> bool \<Rightarrow> string \<Rightarrow> string \<Rightarrow> oauth_action" where
  "pP flow existing clientId scopes redirectUrl state' nonce pkce username password =
     (let scope = joinStr '' '' scopes in
      if flow = ''authorizationCode'' \<or> flow = ''implicit'' then
        (let p1 = (if scope \<noteq> [] then params_set ''scope'' scope existing else existing);
             p2 = params_set ''redirect_uri'' redirectUrl (params_set ''client_id'' clientId p1);
             p3 = params_set ''response_type'' (if flow = ''authorizationCode'' then ''code'' else ''token'') p2;
             p4 = params_set ''nonce'' nonce (params_set ''state'' state' p3);
             p5 = (if pkce then params_set ''code_challenge_method'' ''S256'' (params_set ''code_challenge'' pkce_challenge p4) else p4) in
         OpenWindow (params_set ''show_dialog'' ''true'' p5) (if flow = ''authorizationCode'' then ''authorization_code'' else []))
      else if flow = ''clientCredentials'' then RequestToken ''client_credentials'' scope None None
      else if flow = ''password'' then RequestToken ''password'' scope (Some username) (Some password)
      else NoAction)"

section \<open>The keys of an operation\<close>

definition key_required :: "js \<Rightarrow> obj \<Rightarrow> bool" where
  "key_required security e =
     (case security of
        JArr rs \<Rightarrow> list_ex (\<lambda>r. js_toString (field e ''securitySchemeId'') \<in> set (js_keys r)) rs
      | _ \<Rightarrow> False)"

definition operation_keys :: "js \<Rightarrow> obj list \<Rightarrow> obj list" where
  "operation_keys security ss =
     filter (\<lambda>e. js_truthy (field e ''finalKeyValue'') \<and> key_required security e) ss
     @ (case find (\<lambda>e. has_id (JStr api_key_id) e \<and> field e ''value'' \<noteq> JStr ''-'') ss of None \<Rightarrow> [] | Some y \<Rightarrow> [y])"

end
