(* ===== verification/Web_Key_State.thy ===== *)
theory Web_Key_State
  imports Web_Keys
begin

text \<open>
  The state of the API keys: what applying, removing, storing and restoring a key does to the
  schemes of the page, as a step relation with its invariant, and what the stored keys are worth
  when the page is drawn again.
\<close>

section \<open>The invariant of the page\<close>

definition keeps_id :: "(obj \<Rightarrow> obj) \<Rightarrow> bool" where
  "keeps_id f \<longleftrightarrow> (\<forall>e. field (f e) ''securitySchemeId'' = field e ''securitySchemeId'')"

definition set_key :: "js \<Rightarrow> string \<Rightarrow> obj \<Rightarrow> obj" where
  "set_key l s e = with_str ''finalKeyValue'' (key_prefix l @ s) (upd_assoc ''value'' (JStr s) e)"

definition is_str :: "js \<Rightarrow> bool" where
  "is_str v = (case v of JStr _ \<Rightarrow> True | _ \<Rightarrow> False)"

text \<open>
  The value of a scheme is a text. Unless the scheme is an OAuth scheme, its key is empty, or it is
  made of its value (with the word \<open>Bearer\<close> for that scheme), or it begins with the word \<open>Basic\<close>
  for that scheme.
\<close>

definition key_consistent :: "obj \<Rightarrow> bool" where
  "key_consistent e \<longleftrightarrow>
     is_str (field e ''value'') \<and> is_str (field e ''finalKeyValue'') \<and>
     (field e ''type'' = JStr ''oauth2'' \<or>
      (case opt_lower (field e ''scheme'') of
         None \<Rightarrow> True
       | Some l \<Rightarrow>
           if l = JStr ''basic'' then field e ''finalKeyValue'' = JStr [] \<or> is_prefix ''Basic '' (js_toString (field e ''finalKeyValue''))
           else js_toString (field e ''finalKeyValue'') =
             (if js_toString (field e ''value'') = [] then [] else key_prefix l @ js_toString (field e ''value''))))"

text \<open>The stored keys: every entry is a scheme with its name, and its value is a text.\<close>

definition stored_entry :: "string \<times> js \<Rightarrow> bool" where
  "stored_entry = (\<lambda>(k, v). case v of JObj e \<Rightarrow> field e ''securitySchemeId'' = JStr k \<and> is_str (field e ''value'') | _ \<Rightarrow> False)"

definition stored_ok :: "js option \<Rightarrow> bool" where
  "stored_ok s = (case s of None \<Rightarrow> True | Some (JObj m) \<Rightarrow> distinct (map fst m) \<and> list_all stored_entry m | _ \<Rightarrow> False)"

definition page_ok :: "page \<Rightarrow> bool" where
  "page_ok p \<longleftrightarrow> stored_ok (pg_storage p) \<and> (case pg_schemes p of None \<Rightarrow> False | Some ss \<Rightarrow> list_all key_consistent ss)"

definition scheme_ids :: "page \<Rightarrow> js list" where
  "scheme_ids p = (case pg_schemes p of None \<Rightarrow> [] | Some ss \<Rightarrow> map (\<lambda>e. field e ''securitySchemeId'') ss)"

inductive key_step :: "page \<Rightarrow> page \<Rightarrow> bool" where
  set_button: "iP i n p = Some p' \<Longrightarrow> key_step p p'"
| remove_button: "uP i p = Some p' \<Longrightarrow> key_step p p'"
| clear_button: "key_step p (rP p)"
| api_key: "setApiKey i k p = Some (b, p') \<Longrightarrow> key_step p p'"
| api_user: "setHttpUserNameAndPassword i u w p = Some (b, p') \<Longrightarrow> key_step p p'"
| token: "find_scheme (JStr i) p = Some e \<Longrightarrow> field e ''type'' = JStr ''oauth2'' \<Longrightarrow> sP i t ty p = Some p' \<Longrightarrow> key_step p p'"
| draw: "render_page p = Some p' \<Longrightarrow> key_step p p'"

definition same_page :: "page \<Rightarrow> page \<Rightarrow> bool" where
  "same_page p p' \<longleftrightarrow> scheme_ids p' = scheme_ids p \<and> pg_persistAuth p' = pg_persistAuth p"

definition lowered_ok :: "page \<Rightarrow> bool" where
  "lowered_ok p = (case pg_schemes p of None \<Rightarrow> False | Some ss \<Rightarrow> list_all (\<lambda>e. opt_lower (field e ''scheme'') \<noteq> None) ss)"

section \<open>Facts about objects and schemes\<close>

lemma field_upd [simp]: "field (upd_assoc k v m) k' = (if k' = k then v else field m k')"
  by (simp add: field_def)

lemma field_with_str [simp]: "field (with_str k s m) k' = (if k' = k then JStr s else field m k')"
  by (simp add: with_str_def)

lemma field_Nil [simp]: "field [] k = JUndef"
  by (simp add: field_def)

lemma field_Cons [simp]: "field ((k, v) # m) k' = (if k' = k then v else field m k')"
  by (simp add: field_def)

lemma field_json_copy:
  "field m k = JStr s \<Longrightarrow> field (json_copy_entries m) k = JStr s"
  by (induction m) (auto split: if_splits)

lemma keys_json_copy: "fst ` set (json_copy_entries m) \<subseteq> fst ` set m"
proof (induction m)
  case (Cons x m)
  then show ?case by (cases x) (auto split: if_splits)
qed simp

lemma distinct_json_copy: "distinct (map fst m) \<Longrightarrow> distinct (map fst (json_copy_entries m))"
proof (induction m)
  case (Cons x m)
  then show ?case using keys_json_copy [of m] by (cases x) auto
qed simp

lemma keeps_id_intros [simp, intro]:
  "k \<noteq> ''securitySchemeId'' \<Longrightarrow> keeps_id (upd_assoc k v)"
  "k \<noteq> ''securitySchemeId'' \<Longrightarrow> keeps_id (with_str k s)"
  "keeps_id clear_fields"
  by (auto simp: keeps_id_def clear_fields_def)

lemma has_id_keeps: "keeps_id f \<Longrightarrow> has_id i (f e) = has_id i e"
  by (simp add: keeps_id_def has_id_def)

lemma find_update_first:
  "keeps_id f \<Longrightarrow> find (has_id j) (update_first (has_id i) f ss) =
     (if j = i then map_option f (find (has_id i) ss) else find (has_id j) ss)"
  by (induction ss) (auto simp: has_id_keeps, auto simp: has_id_def)

lemma find_map_keeps:
  "keeps_id f \<Longrightarrow> find (has_id j) (map f ss) = map_option f (find (has_id j) ss)"
  by (induction ss) (auto simp: has_id_keeps)

lemma find_scheme_update [simp]:
  "keeps_id f \<Longrightarrow> find_scheme j (update_scheme i f p) =
     (if j = i then map_option f (find_scheme i p) else find_scheme j p)"
  by (auto simp: find_scheme_def update_scheme_def find_update_first split: option.split)

lemma find_scheme_storage [simp]: "find_scheme i (p\<lparr>pg_storage := s\<rparr>) = find_scheme i p"
  by (simp add: find_scheme_def)

lemma update_scheme_frame [simp]:
  "pg_storage (update_scheme i f p) = pg_storage p" "pg_persistAuth (update_scheme i f p) = pg_persistAuth p"
  "pg_schemes (update_scheme i f p) = map_option (update_first (has_id i) f) (pg_schemes p)"
  by (simp_all add: update_scheme_def)

lemma find_scheme_id: "find_scheme i p = Some e \<Longrightarrow> field e ''securitySchemeId'' = i"
  by (auto simp: find_scheme_def has_id_def find_Some_iff split: option.splits)

lemma list_all_update_first:
  "list_all P xs \<Longrightarrow> (\<And>x. x \<in> set xs \<Longrightarrow> Q x \<Longrightarrow> P x \<Longrightarrow> P (f x)) \<Longrightarrow> list_all P (update_first Q f xs)"
  by (induction xs) auto

lemma map_update_first:
  "(\<And>x. g (f x) = g x) \<Longrightarrow> map g (update_first Q f xs) = map g xs"
  by (induction xs) auto

section \<open>What applying a key does\<close>

lemma tP_unknown: "find_scheme i p = None \<Longrightarrow> tP i u w k p = Some (False, p)"
  by (simp add: tP_def)

lemma tP_basic:
  assumes "find_scheme i p = Some e" "opt_lower (field e ''scheme'') = Some (JStr ''basic'')"
  shows "tP i u w k p =
    Some (if js_truthy (default_str u)
          then (True, update_scheme i (with_str ''finalKeyValue'' (basic_key (default_str u) (default_str w))) p)
          else (False, p))"
  using assms by (simp add: tP_def basic_key_def Let_def)

lemma tP_key:
  assumes "find_scheme i p = Some e" "opt_lower (field e ''scheme'') = Some l" "l \<noteq> JStr ''basic''"
    and "k = JStr s \<or> k = JUndef \<and> s = []"
  shows "tP i u w k p =
    Some (if s = [] then (False, p)
          else (True, update_scheme i (with_str ''finalKeyValue'' (key_prefix l @ s)) (update_scheme i (upd_assoc ''value'' (JStr s)) p)))"
  using assms by (auto simp: tP_def default_str_def Let_def)

lemma update_scheme_twice:
  assumes "keeps_id f" "keeps_id g"
  shows "update_scheme i g (update_scheme i f p) = update_scheme i (\<lambda>e. g (f e)) p"
proof -
  have "update_first (has_id i) g (update_first (has_id i) f ss) = update_first (has_id i) (\<lambda>e. g (f e)) ss" for ss
    using assms by (induction ss) (auto simp: has_id_keeps)
  then show ?thesis by (simp add: update_scheme_def option.map_comp o_def)
qed

lemma tP_set_key:
  assumes "find_scheme i p = Some e" "opt_lower (field e ''scheme'') = Some l" "l \<noteq> JStr ''basic''" "s \<noteq> []"
  shows "tP i u w (JStr s) p = Some (True, update_scheme i (set_key l s) p)"
  using tP_key [OF assms(1-3), of "JStr s" s] assms(4) by (simp add: update_scheme_twice set_key_def [abs_def])

section \<open>The invariant\<close>

lemma is_strE: "is_str v \<Longrightarrow> (\<And>s. v = JStr s \<Longrightarrow> P) \<Longrightarrow> P"
  by (auto simp: is_str_def split: js.splits)

lemma is_str_JStr [simp]: "is_str (JStr s)" "\<not> is_str JUndef"
  by (simp_all add: is_str_def)

lemma consistent_clear: "key_consistent e \<Longrightarrow> key_consistent (clear_fields e)"
  by (auto simp: key_consistent_def clear_fields_def split: option.splits)

lemma consistent_set_key:
  "key_consistent e \<Longrightarrow> opt_lower (field e ''scheme'') = Some l \<Longrightarrow> l \<noteq> JStr ''basic'' \<Longrightarrow> s \<noteq> [] \<Longrightarrow> key_consistent (set_key l s e)"
  by (auto simp: key_consistent_def set_key_def)

lemma consistent_basic:
  "key_consistent e \<Longrightarrow> opt_lower (field e ''scheme'') = Some (JStr ''basic'') \<Longrightarrow>
     key_consistent (with_str ''finalKeyValue'' (basic_key u w) e)"
  by (auto simp: key_consistent_def basic_key_def is_prefix_def)

lemma consistent_token:
  "key_consistent e \<Longrightarrow> field e ''type'' = JStr ''oauth2'' \<Longrightarrow> key_consistent (with_str ''finalKeyValue'' s e)"
  by (auto simp: key_consistent_def)

text \<open>An update of the first scheme with a name keeps the invariant.\<close>

lemma page_ok_update:
  assumes "page_ok p" "keeps_id f" "find_scheme i p = Some e" "key_consistent e \<Longrightarrow> key_consistent (f e)"
  shows "page_ok (update_scheme i f p)"
proof -
  obtain ss where ss: "pg_schemes p = Some ss" "list_all key_consistent ss"
    using assms(1) by (auto simp: page_ok_def split: option.splits)
  have "list_all key_consistent (update_first (has_id i) f ss)"
    using ss(2) assms(3,4) unfolding find_scheme_def ss(1) by (induction ss) (auto split: if_splits)
  then show ?thesis using assms(1) ss by (simp add: page_ok_def)
qed

lemma scheme_ids_update [simp]: "keeps_id f \<Longrightarrow> scheme_ids (update_scheme i f p) = scheme_ids p"
  by (auto simp: scheme_ids_def keeps_id_def map_update_first split: option.split)

lemma set_key_keeps [simp]: "keeps_id (set_key l s)"
  by (simp add: keeps_id_def set_key_def)

lemma tP_ok:
  assumes "page_ok p" "tP i u w k p = Some (b, p')" "k = JUndef \<or> is_str k"
  shows "page_ok p' \<and> scheme_ids p' = scheme_ids p \<and> pg_storage p' = pg_storage p \<and> pg_persistAuth p' = pg_persistAuth p"
proof (cases "find_scheme i p")
  case (Some e)
  obtain l where l: "opt_lower (field e ''scheme'') = Some l"
    using assms(2) Some by (cases "opt_lower (field e ''scheme'')") (auto simp: tP_def Let_def)
  obtain s where k: "k = JStr s \<or> k = JUndef \<and> s = []" using assms(3) by (auto elim!: is_strE)
  show ?thesis
  proof (cases "l = JStr ''basic''")
    case True
    with assms(1,2) l Some page_ok_update [OF assms(1) _ Some] consistent_basic show ?thesis
      by (auto simp: tP_basic [OF Some] split: if_splits)
  next
    case False
    note t = tP_key [OF Some l False k, of u w]
    show ?thesis
    proof (cases "s = []")
      case True
      then show ?thesis using t assms by simp
    next
      case s: False
      then have "p' = update_scheme i (set_key l s) p"
        using t assms(2) by (simp add: update_scheme_twice set_key_def [abs_def])
      then show ?thesis
        using page_ok_update [OF assms(1) set_key_keeps Some] consistent_set_key [OF _ l False s] by simp
    qed
  qed
qed (use assms in \<open>simp add: tP_unknown\<close>)

lemma stored_entry_args:
  assumes "stored_entry (k, v)"
  shows "js_has_props v" "js_get v ''securitySchemeId'' = JStr k" "is_str (js_get v ''value'')"
  using assms by (auto simp: stored_entry_def field_def js_has_props_def split: js.splits)

lemma restore_all_ok:
  assumes "page_ok p" "list_all stored_entry m" "restore_all (map snd m) p = Some p'"
  shows "page_ok p' \<and> scheme_ids p' = scheme_ids p \<and> pg_storage p' = pg_storage p \<and> pg_persistAuth p' = pg_persistAuth p"
  using assms
proof (induction m arbitrary: p)
  case (Cons x m)
  obtain k v where x: "x = (k, v)" by (cases x)
  with Cons.prems(2) have e: "stored_entry (k, v)" by simp
  from Cons.prems(3) x stored_entry_args(1) [OF e] obtain b q where
    q: "tP (js_get v ''securitySchemeId'') (js_get v ''username'') (js_get v ''password'') (js_get v ''value'') p = Some (b, q)"
    "restore_all (map snd m) q = Some p'" by (auto simp: bind_eq_Some_conv)
  from tP_ok [OF Cons.prems(1) q(1)] stored_entry_args(3) [OF e]
  have q': "page_ok q \<and> scheme_ids q = scheme_ids p \<and> pg_storage q = pg_storage p \<and> pg_persistAuth q = pg_persistAuth p" by blast
  with Cons.IH [of q] Cons.prems(2) q(2) show ?case by simp
qed simp

lemma stored_values: "stored_ok (pg_storage p) \<Longrightarrow> \<exists>m. nP p = JObj m \<and> distinct (map fst m) \<and> list_all stored_entry m"
  by (auto simp: stored_ok_def nP_def js_or_def split: option.splits js.splits)

lemma aP_ok:
  assumes "page_ok p" "aP p = Some p'"
  shows "page_ok p' \<and> scheme_ids p' = scheme_ids p \<and> pg_storage p' = pg_storage p \<and> pg_persistAuth p' = pg_persistAuth p"
proof -
  obtain m where "nP p = JObj m" "list_all stored_entry m" using stored_values assms(1) by (auto simp: page_ok_def)
  then show ?thesis using restore_all_ok [OF assms(1)] assms(2) by (simp add: aP_def)
qed

lemma stored_entry_copy: "stored_entry (k, v) \<Longrightarrow> v \<noteq> JUndef \<and> stored_entry (k, json_copy v)"
  by (auto simp: stored_entry_def field_json_copy elim!: is_strE split: js.splits)

lemma stored_entries_copy: "list_all stored_entry m \<Longrightarrow> list_all stored_entry (json_copy_entries m)"
  using stored_entry_copy by (induction m) auto

lemma stored_ok_oP:
  "distinct (map fst m) \<Longrightarrow> list_all stored_entry m \<Longrightarrow> stored_ok (pg_storage (oP (JObj m) p))"
  by (simp add: oP_def stored_ok_def distinct_json_copy stored_entries_copy)

lemma page_ok_oP: "page_ok p \<Longrightarrow> stored_ok (pg_storage (oP v p)) \<Longrightarrow> page_ok (oP v p)"
  by (simp add: page_ok_def oP_def)

lemma oP_frame [simp]: "scheme_ids (oP v p) = scheme_ids p" "pg_persistAuth (oP v p) = pg_persistAuth p"
  "pg_schemes (oP v p) = pg_schemes p" "find_scheme i (oP v p) = find_scheme i p"
  by (simp_all add: oP_def scheme_ids_def)

lemma list_all_upd_assoc: "list_all P m \<Longrightarrow> P (k, v) \<Longrightarrow> list_all P (upd_assoc k v m)"
  by (induction k v m rule: upd_assoc.induct) auto

lemma find_scheme_consistent: "page_ok p \<Longrightarrow> find_scheme i p = Some e \<Longrightarrow> key_consistent e"
  by (auto simp: page_ok_def find_scheme_def list_all_iff find_Some_iff split: option.splits)

lemma stored_ok_set:
  assumes "page_ok p" "find_scheme (JStr i) p = Some e"
  shows "stored_ok (pg_storage (oP (set_entry i (JObj e) (nP p)) p))"
proof -
  obtain m where m: "nP p = JObj m" "distinct (map fst m)" "list_all stored_entry m"
    using stored_values assms(1) by (auto simp: page_ok_def)
  have "stored_entry (i, JObj e)"
    using find_scheme_id [OF assms(2)] find_scheme_consistent [OF assms] by (simp add: stored_entry_def key_consistent_def)
  then show ?thesis
    using m stored_ok_oP [of "upd_assoc i (JObj e) m"] by (simp add: set_entry_def distinct_upd_assoc list_all_upd_assoc)
qed

lemma stored_ok_delete:
  assumes "stored_ok (pg_storage p)"
  shows "stored_ok (pg_storage (oP (delete_entry i (nP p)) p))"
proof -
  obtain m where m: "nP p = JObj m" "distinct (map fst m)" "list_all stored_entry m"
    using stored_values assms by blast
  then show ?thesis
    using stored_ok_oP [of "del_assoc i m"] by (simp add: delete_entry_def distinct_del_assoc) (auto simp: del_assoc_def list_all_iff)
qed

text \<open>What \<open>iP\<close> does: it applies a key, and it stores the scheme.\<close>

lemma iP_cases:
  assumes "iP i n p = Some p'"
  shows "p' = p \<or> (\<exists>u w k b p1. tP (JStr i) u w k p = Some (b, p1) \<and> (k = JUndef \<or> is_str k) \<and>
    (p' = p1 \<or> (\<exists>r. find_scheme (JStr i) p1 = Some r \<and> p' = oP (set_entry i (JObj r) (nP p1)) p1)))"
  using assms unfolding iP_def
  by (fastforce simp: bind_eq_Some_conv split: if_splits option.splits)

lemma iP_ok:
  assumes "page_ok p" "iP i n p = Some p'"
  shows "page_ok p' \<and> same_page p p'"
proof (cases "p' = p")
  case False
  with iP_cases [OF assms(2)] obtain u w k b p1 where
    t: "tP (JStr i) u w k p = Some (b, p1)" "k = JUndef \<or> is_str k" and
    c: "p' = p1 \<or> (\<exists>r. find_scheme (JStr i) p1 = Some r \<and> p' = oP (set_entry i (JObj r) (nP p1)) p1)" by blast
  note ok = tP_ok [OF assms(1) t]
  with c show ?thesis using stored_ok_set page_ok_oP by (auto simp: same_page_def)
qed (use assms in \<open>simp add: same_page_def\<close>)

lemma uP_ok:
  assumes "page_ok p" "uP i p = Some p'"
  shows "page_ok p' \<and> same_page p p'"
proof -
  obtain r where r: "find_scheme (JStr i) p = Some r" using assms(2) by (auto simp: uP_def split: option.splits)
  define p1 where "p1 = update_scheme (JStr i) clear_fields p"
  have ok: "page_ok p1" using page_ok_update [OF assms(1) _ r] consistent_clear by (simp add: p1_def)
  then have st: "stored_ok (pg_storage p1)" by (simp add: page_ok_def)
  have same: "same_page p p1" by (simp add: p1_def same_page_def)
  have "p' = (if pg_persistAuth p1 = ''true'' then oP (delete_entry i (nP p1)) p1 else p1)"
    using assms(2) r by (auto simp: uP_def p1_def Let_def)
  then show ?thesis using ok same page_ok_oP [OF ok stored_ok_delete [OF st]] by (auto simp: same_page_def)
qed

lemma rP_ok: "page_ok p \<Longrightarrow> page_ok (rP p) \<and> same_page p (rP p)"
proof -
  assume "page_ok p"
  moreover have "field (clear_fields e) ''securitySchemeId'' = field e ''securitySchemeId''" for e
    by (simp add: clear_fields_def)
  ultimately show ?thesis
    by (cases "pg_schemes p") (auto simp: page_ok_def rP_def same_page_def scheme_ids_def list_all_iff consistent_clear)
qed

lemma sP_update: "sP i t ty p = Some p' \<Longrightarrow> \<exists>s. p' = update_scheme (JStr i) (with_str ''finalKeyValue'' s) p"
  unfolding sP_def by (cases "if ty = JUndef then JStr ''Bearer'' else ty") (auto split: option.splits)

lemma key_step_ok: "key_step p p' \<Longrightarrow> page_ok p \<Longrightarrow> page_ok p' \<and> same_page p p'"
proof (induction rule: key_step.induct)
  case (token i p e t ty p')
  obtain s where p': "p' = update_scheme (JStr i) (with_str ''finalKeyValue'' s) p" using sP_update [OF token(3)] by blast
  have "page_ok p'" unfolding p'
    by (rule page_ok_update [OF token(4) _ token(1)]) (auto intro: consistent_token token(2))
  then show ?case by (simp add: p' same_page_def)
next
  case (draw p p')
  show ?case
  proof (cases "pg_persistAuth p = ''true''")
    case True
    with draw show ?thesis using aP_ok [of p p'] by (simp add: render_page_def same_page_def)
  qed (use draw in \<open>simp add: render_page_def same_page_def\<close>)
next
  case (api_key i k p b p')
  then show ?case using tP_ok [of p _ _ _ _ b p'] by (simp add: setApiKey_def same_page_def)
next
  case (api_user i u w p b p')
  then show ?case using tP_ok [of p _ _ _ _ b p'] by (simp add: setHttpUserNameAndPassword_def same_page_def)
qed (use iP_ok uP_ok rP_ok in blast)+

lemma key_steps_ok: "key_step\<^sup>*\<^sup>* p p' \<Longrightarrow> page_ok p \<Longrightarrow> page_ok p' \<and> same_page p p'"
  by (induction rule: rtranclp_induct) (auto simp: same_page_def dest: key_step_ok)

section \<open>Restoring\<close>

lemma lowered_ok_find: "lowered_ok p \<Longrightarrow> find_scheme i p = Some e \<Longrightarrow> \<exists>l. opt_lower (field e ''scheme'') = Some l"
  by (auto simp: lowered_ok_def find_scheme_def list_all_iff find_Some_iff split: option.splits)

lemma lowered_ok_update:
  "lowered_ok p \<Longrightarrow> (\<And>e. field (f e) ''scheme'' = field e ''scheme'') \<Longrightarrow> lowered_ok (update_scheme i f p)"
  by (auto simp: lowered_ok_def intro: list_all_update_first split: option.splits)

text \<open>Applying a key to a scheme does not throw, and it leaves the other schemes as they are.\<close>

lemma tP_total:
  assumes "lowered_ok p" "k = JUndef \<or> is_str k"
  shows "\<exists>b p'. tP i u w k p = Some (b, p') \<and> lowered_ok p' \<and> (\<forall>j. j \<noteq> i \<longrightarrow> find_scheme j p' = find_scheme j p)"
proof (cases "find_scheme i p")
  case (Some e)
  obtain l where l: "opt_lower (field e ''scheme'') = Some l" using lowered_ok_find [OF assms(1) Some] by blast
  obtain s where k: "k = JStr s \<or> k = JUndef \<and> s = []" using assms(2) by (auto elim!: is_strE)
  show ?thesis
  proof (cases "l = JStr ''basic''")
    case True
    with l assms(1) show ?thesis by (auto simp: tP_basic [OF Some] lowered_ok_update)
  next
    case False
    with assms(1) show ?thesis by (auto simp: tP_key [OF Some l False k] lowered_ok_update)
  qed
qed (use assms in \<open>auto simp: tP_unknown\<close>)

lemma restore_all_other:
  assumes "lowered_ok p" "list_all stored_entry m" "i \<notin> fst ` set m"
  shows "\<exists>p'. restore_all (map snd m) p = Some p' \<and> find_scheme (JStr i) p' = find_scheme (JStr i) p"
  using assms
proof (induction m arbitrary: p)
  case (Cons x m)
  obtain k v where x: "x = (k, v)" by (cases x)
  with Cons.prems(2) have e: "stored_entry (k, v)" by simp
  obtain b q where q: "tP (js_get v ''securitySchemeId'') (js_get v ''username'') (js_get v ''password'') (js_get v ''value'') p = Some (b, q)"
    "lowered_ok q" "\<forall>j. j \<noteq> js_get v ''securitySchemeId'' \<longrightarrow> find_scheme j q = find_scheme j p"
    using tP_total [OF Cons.prems(1)] stored_entry_args(3) [OF e] by blast
  obtain p' where "restore_all (map snd m) q = Some p'" "find_scheme (JStr i) p' = find_scheme (JStr i) q"
    using Cons.IH [OF q(2)] Cons.prems(2,3) by auto
  moreover have "find_scheme (JStr i) q = find_scheme (JStr i) p"
    using q(3) Cons.prems(3) stored_entry_args(2) [OF e] x by auto
  ultimately show ?case using q(1) x stored_entry_args(1) [OF e] by auto
qed simp

text \<open>The stored entry of a scheme decides what becomes of its key.\<close>

lemma restore_all_entry:
  assumes "lowered_ok p" "list_all stored_entry m" "distinct (map fst m)" "map_of m i = Some (JObj r)"
    and "find_scheme (JStr i) p = Some e" "opt_lower (field e ''scheme'') = Some l" "field r ''value'' = JStr s"
  shows "\<exists>p'. restore_all (map snd m) p = Some p' \<and>
    (l \<noteq> JStr ''basic'' \<longrightarrow> s \<noteq> [] \<longrightarrow> find_scheme (JStr i) p' = Some (set_key l s e)) \<and>
    (l \<noteq> JStr ''basic'' \<longrightarrow> s = [] \<longrightarrow> find_scheme (JStr i) p' = Some e) \<and>
    (l = JStr ''basic'' \<longrightarrow> field r ''username'' = JUndef \<longrightarrow> find_scheme (JStr i) p' = Some e)"
  using assms
proof (induction m arbitrary: p)
  case (Cons x m)
  obtain k v where x: "x = (k, v)" by (cases x)
  with Cons.prems(2) have e: "stored_entry (k, v)" by simp
  obtain b q where q: "tP (js_get v ''securitySchemeId'') (js_get v ''username'') (js_get v ''password'') (js_get v ''value'') p = Some (b, q)"
    "lowered_ok q" "\<forall>j. j \<noteq> js_get v ''securitySchemeId'' \<longrightarrow> find_scheme j q = find_scheme j p"
    using tP_total [OF Cons.prems(1)] stored_entry_args(3) [OF e] by blast
  note args = stored_entry_args [OF e]
  show ?case
  proof (cases "k = i")
    case True
    with Cons.prems(4) x have v: "v = JObj r" by simp
    from True Cons.prems(3) x have "i \<notin> fst ` set m" by auto
    then obtain p' where p': "restore_all (map snd m) q = Some p'" "find_scheme (JStr i) p' = find_scheme (JStr i) q"
      using restore_all_other [OF q(2), of m i] Cons.prems(2) by auto
    have t: "tP (JStr i) (field r ''username'') (field r ''password'') (JStr s) p = Some (b, q)"
      using q(1) v args(2) True Cons.prems(7) by (simp add: field_def)
    note find = Cons.prems(5)
    have "find_scheme (JStr i) q = Some (set_key l s e)" if "l \<noteq> JStr ''basic''" "s \<noteq> []"
      using t tP_set_key [OF find Cons.prems(6) that] find by auto
    moreover have "find_scheme (JStr i) q = Some e" if "l \<noteq> JStr ''basic''" "s = []"
      using t tP_key [OF find Cons.prems(6) that(1), of "JStr s" s] that find by auto
    moreover have "find_scheme (JStr i) q = Some e" if "l = JStr ''basic''" "field r ''username'' = JUndef"
      using t tP_basic [OF find, of "field r ''username''"] Cons.prems(6) that find by (auto simp: default_str_def)
    ultimately show ?thesis using p' q(1) x args(1) by auto
  next
    case False
    with args(2) q(3) Cons.prems(5) have "find_scheme (JStr i) q = Some e" by auto
    with Cons.IH [OF q(2)] Cons.prems False x q(1) args(1) show ?thesis by auto
  qed
qed simp

lemma is_basic_no: "opt_lower (field e ''scheme'') = Some l \<Longrightarrow> l \<noteq> JStr ''basic'' \<Longrightarrow> is_basic e = Some False"
  by (cases "field e ''scheme''") (auto simp: is_basic_def)

lemma nP_frame: "pg_storage p = pg_storage q \<Longrightarrow> nP p = nP q"
  by (simp add: nP_def)

lemma map_of_json_copy: "map_of m k = Some v \<Longrightarrow> v \<noteq> JUndef \<Longrightarrow> map_of (json_copy_entries m) k = Some (json_copy v)"
  by (induction m) (auto split: if_splits)

text \<open>What SET leaves in the store: an entry with the properties of the scheme.\<close>

lemma stored_by_set:
  assumes "page_ok p" "find_scheme (JStr i) p = Some r" "q = oP (set_entry i (JObj r) (nP p)) p"
  shows "\<exists>m. nP q = JObj m \<and> list_all stored_entry m \<and> distinct (map fst m) \<and> map_of m i = Some (JObj (json_copy_entries r))"
proof -
  obtain m where m: "nP p = JObj m" using stored_values assms(1) by (auto simp: page_ok_def)
  have "stored_ok (pg_storage q)" using stored_ok_set assms by simp
  moreover have "nP q = JObj (json_copy_entries (upd_assoc i (JObj r) m))"
    unfolding assms(3) m set_entry_def by (simp add: oP_def nP_def js_or_def)
  moreover have "map_of (json_copy_entries (upd_assoc i (JObj r) m)) i = Some (JObj (json_copy_entries r))"
    by (simp add: map_of_json_copy)
  ultimately show ?thesis using stored_values [of q] by fastforce
qed

lemma iP_set_key:
  assumes "page_ok p" "pg_persistAuth p = ''true''" "find_scheme (JStr i) p = Some e"
    and "opt_lower (field e ''scheme'') = Some l" "l \<noteq> JStr ''basic''"
    and "row_key n = Some k" "trimSpace k \<noteq> []"
  shows "\<exists>p' m. iP i (Some n) p = Some p' \<and> page_ok p' \<and> pg_persistAuth p' = ''true'' \<and>
    find_scheme (JStr i) p' = Some (set_key l (trimSpace k) e) \<and>
    nP p' = JObj m \<and> list_all stored_entry m \<and> distinct (map fst m) \<and>
    map_of m i = Some (JObj (json_copy_entries (set_key l (trimSpace k) e)))"
proof -
  define p1 where "p1 = update_scheme (JStr i) (set_key l (trimSpace k)) p"
  have ss: "pg_schemes p \<noteq> None" using assms(1) by (auto simp: page_ok_def split: option.splits)
  have t: "tP (JStr i) (JStr []) (JStr []) (JStr (trimSpace k)) p = Some (True, p1)"
    using tP_set_key [OF assms(3-5) assms(7)] by (simp add: p1_def)
  have ok: "page_ok p1" using tP_ok [OF assms(1) t] by simp
  have f: "find_scheme (JStr i) p1 = Some (set_key l (trimSpace k) e)" using assms(3) by (simp add: p1_def)
  define p' where "p' = oP (set_entry i (JObj (set_key l (trimSpace k) e)) (nP p1)) p1"
  have "pg_persistAuth p1 = ''true''" using assms(2) by (simp add: p1_def)
  then have "iP i (Some n) p = Some p'"
    using ss assms(3,6) is_basic_no [OF assms(4,5)] t f by (simp add: iP_def p'_def)
  moreover have "page_ok p'" using page_ok_oP [OF ok] stored_ok_set [OF ok f] by (simp add: p'_def)
  moreover have "pg_persistAuth p' = ''true''" using assms(2) by (simp add: p'_def p1_def)
  ultimately show ?thesis using stored_by_set [OF ok f p'_def] f p'_def by fastforce
qed

lemma restore_set_key:
  assumes "nP q = JObj m" "list_all stored_entry m" "distinct (map fst m)"
    and "map_of m i = Some (JObj (json_copy_entries (set_key l s e)))" "s \<noteq> []" "l \<noteq> JStr ''basic''"
    and "pg_persistAuth q = ''true''" "lowered_ok q"
    and "find_scheme (JStr i) q = Some e'" "opt_lower (field e' ''scheme'') = Some l"
  shows "\<exists>q'. render_page q = Some q' \<and> find_scheme (JStr i) q' = Some (set_key l s e')"
proof -
  have "field (json_copy_entries (set_key l s e)) ''value'' = JStr s"
    by (rule field_json_copy) (simp add: set_key_def)
  from restore_all_entry [OF assms(8,2,3,4,9,10) this] assms show ?thesis
    by (auto simp: render_page_def aP_def)
qed

lemma field_set_key: "field (set_key l s e) ''finalKeyValue'' = JStr (key_prefix l @ s)"
  by (simp add: set_key_def)

lemma lowered_ok_ids:
  "lowered_ok p \<Longrightarrow> lowered_ok (rP p)"
  by (cases "pg_schemes p") (auto simp: lowered_ok_def rP_def list_all_iff clear_fields_def)

lemma rP_find: "find_scheme i (rP p) = map_option clear_fields (find_scheme i p)"
  by (cases "pg_schemes p") (auto simp: find_scheme_def rP_def find_map_keeps)

lemma rP_frame [simp]: "pg_persistAuth (rP p) = pg_persistAuth p" "nP (rP p) = nP p"
  by (simp_all add: rP_def nP_def)

lemma uP_find:
  assumes "uP i p = Some p'"
  shows "\<exists>e. find_scheme (JStr i) p = Some e \<and> find_scheme (JStr i) p' = Some (clear_fields e)"
  using assms by (auto simp: uP_def Let_def split: option.splits if_splits)

lemma key_consistent_fresh:
  "field e ''value'' = JStr v \<Longrightarrow> field e ''finalKeyValue'' = JStr v \<Longrightarrow>
     v = [] \<or> field e ''scheme'' = JUndef \<Longrightarrow> key_consistent e"
  by (auto simp: key_consistent_def key_prefix_def split: option.splits)

lemma scheme_of_consistent: "scheme_of i d = Some e \<Longrightarrow> key_consistent e"
  by (rule key_consistent_fresh [of _ "[]"]; cases d) (auto simp: scheme_of_def Let_def split: if_splits)

lemma schemes_of_consistent: "schemes_of m = Some ss \<Longrightarrow> list_all key_consistent ss"
  by (induction m arbitrary: ss) (auto simp: bind_eq_Some_conv scheme_of_consistent)

lemma attribute_scheme_consistent: "list_all key_consistent (attribute_scheme kn kl kv)"
  by (auto simp: attribute_scheme_def intro!: key_consistent_fresh)

lemma key_consistent_display: "key_consistent e \<Longrightarrow> key_consistent (upd_assoc ''typeDisplay'' v e)"
  by (auto simp: key_consistent_def split: option.splits)

lemma securitySchemes_consistent:
  assumes "securitySchemes defs kn kl kv = Some ss"
  shows "list_all key_consistent ss"
proof -
  from assms obtain rs where r: "(if js_truthy defs then (case defs of JObj m \<Rightarrow> schemes_of m | _ \<Rightarrow> Some []) else Some []) = Some rs"
    and ss: "ss = map (\<lambda>e. upd_assoc ''typeDisplay'' (typeDisplay e) e) (rs @ attribute_scheme kn kl kv)"
    unfolding securitySchemes_def bind_eq_Some_conv by blast
  have rs: "list_all key_consistent rs" using r schemes_of_consistent by (auto split: if_splits js.splits)
  have "list_all key_consistent (rs @ attribute_scheme kn kl kv)" using rs attribute_scheme_consistent by simp
  then show ?thesis unfolding ss by (auto simp: list_all_iff key_consistent_display)
qed

section \<open>Examples\<close>

definition example_defs :: js where
  "example_defs = JObj
     [(''token'', JObj [(''type'', JStr ''http''), (''scheme'', JStr ''Bearer'')]),
      (''login'', JObj [(''type'', JStr ''http''), (''scheme'', JStr ''basic'')]),
      (''key'', JObj [(''type'', JStr ''apiKey''), (''name'', JStr ''X-Key''), (''in'', JStr ''query'')])]"

definition example_page :: page where
  "example_page = \<lparr>pg_schemes = securitySchemes example_defs [] [] [], pg_persistAuth = ''true'', pg_storage = None\<rparr>"

definition example_row :: row where
  "example_row = \<lparr>row_user = Some ''joe'', row_password = Some ''pw'', row_key = Some '' abc ''\<rparr>"

definition shown_key :: "string \<Rightarrow> page \<Rightarrow> js option" where
  "shown_key i p = map_option (\<lambda>e. field e ''finalKeyValue'') (find_scheme (JStr i) p)"

lemma example_page_ok: "page_ok example_page" "lowered_ok example_page" "pg_persistAuth example_page = ''true''"
  by code_simp+

lemma example_token: "\<exists>e. find_scheme (JStr ''token'') example_page = Some e \<and> opt_lower (field e ''scheme'') = Some (JStr ''bearer'')"
  by (rule exI [of _ "the (find_scheme (JStr ''token'') example_page)"]) code_simp

section \<open>Properties\<close>





text \<open>
  CLEAR ALL API KEYS does not clear a stored key. It empties the schemes and leaves the store
  alone; with \<open>persist-auth\<close> the page that is drawn next applies the key that SET has stored, as if
  nothing had been cleared.
\<close>

theorem clear_all_undone:
  assumes "page_ok p" "lowered_ok p" "pg_persistAuth p = ''true''" "find_scheme (JStr i) p = Some e"
    and "opt_lower (field e ''scheme'') = Some l" "l \<noteq> JStr ''basic''"
    and "row_key n = Some k" "trimSpace k \<noteq> []"
  shows "\<exists>p' q. iP i (Some n) p = Some p' \<and> render_page (rP p') = Some q \<and>
    map_option (\<lambda>r. field r ''finalKeyValue'') (find_scheme (JStr i) q) = Some (JStr (key_prefix l @ trimSpace k))"
proof -
  obtain p' m where p': "iP i (Some n) p = Some p'" "find_scheme (JStr i) p' = Some (set_key l (trimSpace k) e)"
    "nP p' = JObj m" "list_all stored_entry m" "distinct (map fst m)"
    "map_of m i = Some (JObj (json_copy_entries (set_key l (trimSpace k) e)))" "pg_persistAuth p' = ''true''"
    using iP_set_key [OF assms(1,3-8)] by blast
  have "pg_schemes p' = map_option (update_first (has_id (JStr i)) (set_key l (trimSpace k))) (pg_schemes p)"
    using p'(1) assms tP_set_key [OF assms(4-6) assms(8), of "JStr []" "JStr []"] is_basic_no [OF assms(5,6)]
    by (auto simp: iP_def page_ok_def split: option.splits)
  then have "lowered_ok (update_scheme (JStr i) (set_key l (trimSpace k)) p) = lowered_ok p'"
    by (simp add: lowered_ok_def)
  then have low: "lowered_ok p'"
    using lowered_ok_update [OF assms(2), of "set_key l (trimSpace k)" "JStr i"] by (simp add: set_key_def)
  have f: "find_scheme (JStr i) (rP p') = Some (clear_fields (set_key l (trimSpace k) e))" by (simp add: rP_find p'(2))
  have "opt_lower (field (clear_fields (set_key l (trimSpace k) e)) ''scheme'') = Some l"
    using assms(5) by (simp add: clear_fields_def set_key_def)
  with restore_set_key [of "rP p'" m, OF _ p'(4-6) assms(8,6) _ _ f] p'(1,3,7) low show ?thesis
    by (force simp: field_set_key lowered_ok_ids)
qed

theorem clear_all_undone_witness:
  "\<exists>p' q. iP ''token'' (Some example_row) example_page = Some p' \<and> render_page (rP p') = Some q \<and>
     shown_key ''token'' (rP p') = Some (JStr []) \<and> shown_key ''token'' q = Some (JStr ''Bearer abc'')"
proof -
  obtain e where e: "find_scheme (JStr ''token'') example_page = Some e" "opt_lower (field e ''scheme'') = Some (JStr ''bearer'')"
    using example_token by blast
  have r: "row_key example_row = Some '' abc ''" by code_simp
  have t: "trimSpace '' abc '' = ''abc''" by code_simp
  have "shown_key ''token'' (rP (the (iP ''token'' (Some example_row) example_page))) = Some (JStr [])" by code_simp
  with clear_all_undone [OF example_page_ok e _ r] t show ?thesis
    by (auto simp: shown_key_def key_prefix_def)
qed

text \<open>
  REMOVE removes a key for good: it empties the scheme and deletes its entry of the store, and
  the page that is drawn next shows the scheme without a key, whatever other keys are stored.
\<close>

theorem removed_key_stays_removed:
  assumes "page_ok p" "lowered_ok p" "pg_persistAuth p = ''true''" "find_scheme (JStr i) p = Some e"
  shows "\<exists>p' q. uP i p = Some p' \<and> render_page p' = Some q \<and> find_scheme (JStr i) q = Some (clear_fields e)"
proof -
  define p1 where "p1 = update_scheme (JStr i) clear_fields p"
  have st: "stored_ok (pg_storage p1)" using assms(1) by (simp add: p1_def page_ok_def)
  obtain m where m: "nP p1 = JObj m" "distinct (map fst m)" "list_all stored_entry m"
    using stored_values [OF st] by blast
  define p' where "p' = oP (delete_entry i (nP p1)) p1"
  have u: "uP i p = Some p'" using assms(3,4) by (simp add: uP_def p'_def p1_def Let_def)
  have n: "nP p' = JObj (json_copy_entries (del_assoc i m))"
    unfolding p'_def m delete_entry_def by (simp add: oP_def nP_def js_or_def)
  have "list_all stored_entry (json_copy_entries (del_assoc i m))"
    using m(3) by (intro stored_entries_copy) (auto simp: del_assoc_def list_all_iff)
  moreover have "i \<notin> fst ` set (json_copy_entries (del_assoc i m))"
    using keys_json_copy [of "del_assoc i m"] by (auto simp: del_assoc_def)
  moreover have "lowered_ok p'"
    using lowered_ok_update [OF assms(2), of clear_fields "JStr i"] by (simp add: p'_def p1_def lowered_ok_def clear_fields_def)
  ultimately obtain q where "restore_all (map snd (json_copy_entries (del_assoc i m))) p' = Some q"
    "find_scheme (JStr i) q = find_scheme (JStr i) p'"
    using restore_all_other by blast
  moreover have "find_scheme (JStr i) p' = Some (clear_fields e)" using assms(4) by (simp add: p'_def p1_def)
  moreover have "pg_persistAuth p' = ''true''" using assms(3) by (simp add: p'_def p1_def)
  ultimately show ?thesis using u n by (simp add: render_page_def aP_def)
qed

theorem removed_key_stays_removed_witness:
  "\<exists>p p' q. iP ''token'' (Some example_row) example_page = Some p \<and> uP ''token'' p = Some p' \<and>
     render_page p' = Some q \<and> shown_key ''token'' p = Some (JStr ''Bearer abc'') \<and> shown_key ''token'' q = Some (JStr [])"
proof -
  define p where "p = the (iP ''token'' (Some example_row) example_page)"
  have p: "iP ''token'' (Some example_row) example_page = Some p" "page_ok p" "lowered_ok p" "pg_persistAuth p = ''true''"
    "shown_key ''token'' p = Some (JStr ''Bearer abc'')" unfolding p_def by code_simp+
  have "find_scheme (JStr ''token'') p = Some (the (find_scheme (JStr ''token'') p))" unfolding p_def by code_simp
  from removed_key_stays_removed [OF p(2-4) this] p(1,5) show ?thesis
    by (auto simp: shown_key_def clear_fields_def)
qed

text \<open>
  A stored key for HTTP Basic does not come back: the scheme has its credentials in the key only,
  and the property \<open>username\<close> that is read does not exist.
\<close>

theorem basic_key_lost:
  "shown_key ''login'' (the (iP ''login'' (Some example_row) example_page)) = Some (JStr ''Basic am9lOnB3'')"
  "shown_key ''login'' (the (render_page (example_page\<lparr>pg_storage :=
     pg_storage (the (iP ''login'' (Some example_row) example_page))\<rparr>))) = Some (JStr [])"
  by code_simp+

text \<open>With the authorization code and the credentials in the body, the request for a token has them twice.\<close>

theorem token_request_twice:
  "filter (\<lambda>(k, _). k = ''client_secret'') (fst (token_request ''id'' ''secret'' ''url'' ''authorization_code'' (JStr ''c'')
     ''request-body'' None None None)) = [(''client_secret'', ''secret''), (''client_secret'', ''secret'')]"
  by code_simp

end
