(* ===== verification/Web_Template.thy ===== *)
theory Web_Template
  imports Web_Keys
begin

text \<open>
  The elements that the templates of the documentation page (web/static/rapidoc-min.js) describe.

  An element has its attributes, the properties that a template sets with a dot, and its
  contents. The conventions of the template library are \<open>lit_str\<close> for an expression in an
  attribute and \<open>shown\<close> for one in the contents: \<open>undefined\<close> and \<open>null\<close> show nothing, and an array
  shows its elements. Event handlers are not part of an element; the operations that they call are
  definitions of their own. White space that does not separate words is left out.

  The element whose template is drawn is a function \<open>this\<close> from the names of its properties. The
  templates read properties of \<open>undefined\<close> as \<open>undefined\<close>; the page throws there, and the theorems
  speak of data that have these properties.

  The Markdown renderer and the syntax highlighter are bundled libraries and parameters (\<open>lib\<close>); so
  are the origin of a URL and the regular expressions that a user types. The examples that the page
  makes up for a schema are a parameter here as well (\<open>BP\<close>), which \<open>Web_Example\<close> defines.
\<close>

section \<open>Elements\<close>

datatype dom = El string "(string \<times> string) list" "(string \<times> js) list" "dom list" | Tx string

type_synonym element = "string \<Rightarrow> js"

record lib =
  We :: "string \<Rightarrow> dom list"
  We_headings :: "string \<Rightarrow> string \<Rightarrow> dom list"
  slug :: "string \<Rightarrow> string"
  highlight :: "string \<Rightarrow> string \<Rightarrow> dom list"
  knows_language :: "string \<Rightarrow> bool"
  url_origin :: "string \<Rightarrow> string"
  regex_test :: "string \<Rightarrow> string \<Rightarrow> bool"
  BP :: "js \<Rightarrow> js \<Rightarrow> js \<Rightarrow> js \<Rightarrow> bool \<Rightarrow> bool \<Rightarrow> js \<Rightarrow> js \<Rightarrow> js"

text \<open>Libraries that show every text as it is, for examples.\<close>

definition text_lib :: lib where
  "text_lib = \<lparr>We = \<lambda>s. [Tx s], We_headings = \<lambda>p s. [Tx s], slug = id, highlight = \<lambda>s l. [Tx s],
     knows_language = \<lambda>l. False, url_origin = id, regex_test = \<lambda>r s. False,
     BP = \<lambda>e t r n o1 a i s. JArr [JObj [(''exampleId'', JStr ''Example''), (''exampleValue'', JStr ''{}'')]]\<rparr>"

fun lit_str :: "js \<Rightarrow> string" where
  "lit_str JUndef = []" | "lit_str JNull = []" | "lit_str v = js_toString v"

fun shown :: "js \<Rightarrow> dom list" where
  "shown JUndef = []" | "shown JNull = []" | "shown (JArr xs) = concat (map shown xs)"
| "shown v = (if js_toString v = [] then [] else [Tx (js_toString v)])"

definition only_if :: "bool \<Rightarrow> dom list \<Rightarrow> dom list" where
  "only_if b ns = (if b then ns else [])"

definition flag :: "bool \<Rightarrow> string \<Rightarrow> (string \<times> string) list" where
  "flag b k = (if b then [(k, [])] else [])"

section \<open>Values\<close>

definition js_and :: "js \<Rightarrow> js \<Rightarrow> js" where
  "js_and a b = (if js_truthy a then b else a)"

fun js_list :: "js \<Rightarrow> js list" where
  "js_list (JArr xs) = xs" | "js_list _ = []"

definition js_nth :: "js \<Rightarrow> nat \<Rightarrow> js" where
  "js_nth v n = (if n < length (js_list v) then js_list v ! n else JUndef)"

fun js_len :: "js \<Rightarrow> nat" where
  "js_len (JArr xs) = length xs" | "js_len (JStr s) = length s" | "js_len _ = 0"

fun js_entries :: "js \<Rightarrow> js list" where
  "js_entries (JObj m) = map (\<lambda>(k, v). JArr [JStr k, v]) m"
| "js_entries (JArr xs) = map (\<lambda>(i, v). JArr [JStr (showNat i), v]) (enumerate 0 xs)"
| "js_entries _ = []"

definition js_contains :: "js \<Rightarrow> js \<Rightarrow> bool" where
  "js_contains v x \<longleftrightarrow> x \<in> set (js_list v)"

definition upper_char :: "char \<Rightarrow> char" where
  "upper_char c = (if CHR ''a'' \<le> c \<and> c \<le> CHR ''z'' then char_of (of_char c - 32 :: nat) else c)"

definition toUpper :: "string \<Rightarrow> string" where
  "toUpper s = map upper_char s"

text \<open>\<open>s.replace(/\*$/, "")\<close>\<close>

definition drop_star :: "string \<Rightarrow> string" where
  "drop_star s = trimSuffix s ''*''"

definition nbsp :: string where "nbsp = [CHR 0xC2, CHR 0xA0]"
definition ballot_x :: string where "ballot_x = [CHR 0xE2, CHR 0x9C, CHR 0x97]"

section \<open>Searching elements\<close>

fun attr :: "string \<Rightarrow> dom \<Rightarrow> string option" where
  "attr k (El t as ps ns) = map_of as k" | "attr k (Tx s) = None"

fun property :: "string \<Rightarrow> dom \<Rightarrow> js" where
  "property k (El t as ps ns) = (case map_of ps k of Some v \<Rightarrow> v | None \<Rightarrow> JUndef)" | "property k (Tx s) = JUndef"

fun tag_of :: "dom \<Rightarrow> string" where
  "tag_of (El t as ps ns) = t" | "tag_of (Tx s) = []"

text \<open>All elements in document order, as \<open>querySelectorAll\<close> returns them.\<close>

fun elements :: "dom \<Rightarrow> dom list" where
  "elements (Tx s) = []"
| "elements (El t as ps ns) = El t as ps ns # concat (map elements ns)"

definition all_elements :: "dom list \<Rightarrow> dom list" where
  "all_elements ns = concat (map elements ns)"

definition select :: "(dom \<Rightarrow> bool) \<Rightarrow> dom list \<Rightarrow> dom list" where
  "select P ns = filter P (all_elements ns)"

definition by_attr :: "string \<Rightarrow> string \<Rightarrow> dom list \<Rightarrow> dom list" where
  "by_attr k v ns = select (\<lambda>n. attr k n = Some v) ns"

fun node_text :: "dom \<Rightarrow> string" where
  "node_text (Tx s) = s" | "node_text (El t as ps ns) = concat (map node_text ns)"

section \<open>Facts\<close>

lemma only_if_simps [simp]: "only_if True ns = ns" "only_if False ns = []"
  by (simp_all add: only_if_def)

lemma all_elements_simps [simp]:
  "all_elements [] = []" "all_elements (ns @ ms) = all_elements ns @ all_elements ms"
  "all_elements (El t as ps ns # ms) = El t as ps ns # all_elements ns @ all_elements ms"
  "all_elements (Tx s # ms) = all_elements ms"
  "all_elements (concat nss) = concat (map all_elements nss)"
  by (induction nss) (simp_all add: all_elements_def)

lemma all_elements_shown [simp]: "all_elements (shown v) = []"
  by (induction v rule: shown.induct) auto

lemma select_simps [simp]:
  "select P [] = []" "select P (ns @ ms) = select P ns @ select P ms"
  "select P (El t as ps ns # ms) = (if P (El t as ps ns) then [El t as ps ns] else []) @ select P ns @ select P ms"
  "select P (Tx s # ms) = select P ms" "select P (shown v) = []"
  "select P (concat nss) = concat (map (select P) nss)"
  by (simp_all add: select_def [abs_def] filter_concat o_def)

lemma select_map: "select P (map f xs) = concat (map (\<lambda>x. select P [f x]) xs)"
  by (induction xs) (simp_all add: select_def all_elements_def)

lemma select_only_if [simp]: "select P (only_if b ns) = (if b then select P ns else [])"
  by (simp add: only_if_def)

end
