(* ===== verification/Web_Schema_Model.thy ===== *)
theory Web_Schema_Model
  imports Web_Template
begin

text \<open>
  The model of a schema that the documentation page (web/static/rapidoc-min.js) draws: \<open>DP\<close> turns a
  schema into an object whose leaves are the strings of \<open>EP\<close> and whose other entries are named by
  the properties, with a star for a required one, or by two colons.

  \<open>None\<close> is a thrown \<open>TypeError\<close>, or an object that contains itself, which cannot be drawn.
\<close>

section \<open>Descriptions\<close>

definition arrow_toggle :: string where
  "arrow_toggle = ''<span class=\"descr-expand-toggle\">'' @ [CHR 0xE2, CHR 0x9E, CHR 0x94] @ ''</span>''"

definition FP :: "js \<Rightarrow> nat \<Rightarrow> string" where
  "FP e t =
     (let g = js_get e; has = (\<lambda>k. js_truthy (js_get e k)); str = (\<lambda>k. js_toString (js_get e k));
          it = js_get e ''items'';
          n0 = (if (has ''description'' \<or> has ''title'') \<and> (has ''minItems'' \<or> has ''maxItems'') then arrow_toggle else []);
          n1 = (if has ''title''
                then (if has ''description'' then n0 @ '' <b>'' @ str ''title'' @ '':</b> '' @ str ''description'' @ ''<br/>''
                      else n0 @ '' '' @ str ''title'' @ ''<br/>'')
                else if has ''description'' then n0 @ '' '' @ str ''description'' @ ''<br/>'' else n0);
          n2 = (if has ''minItems'' then n1 @ '' <b>Min Items:</b> '' @ str ''minItems'' else n1);
          n3 = (if has ''maxItems'' then n2 @ '' <b>Max Items:</b> '' @ str ''maxItems'' else n2) in
      if 0 < t \<and> js_truthy (js_get it ''description'') then
        (let p1 = (if js_truthy (js_get it ''minProperties'') then ''<b>Min Properties:</b> '' @ js_toString (js_get it ''minProperties'') else []);
             p2 = (if js_truthy (js_get it ''maxProperties'') then p1 @ '' <b>Max Properties:</b> '' @ js_toString (js_get it ''maxProperties'') else p1) in
         n3 @ '' '' @ [CHR 0xE2, CHR 0xAE, CHR 0x95] @ '' '' @ p2 @ '' [ '' @ js_toString (js_get it ''description'') @ '' ] '')
      else n3)"

section \<open>Helpers\<close>

text \<open>The entries that \<open>for ... in\<close> visits in an object or an array.\<close>

fun js_fields :: "js \<Rightarrow> obj" where
  "js_fields (JObj m) = m"
| "js_fields (JArr xs) = map (\<lambda>(i, v). (showNat i, v)) (enumerate 0 xs)"
| "js_fields _ = []"

text \<open>\<open>Object.assign(n, a)\<close>: of a string the characters are copied.\<close>

definition assign_to :: "obj \<Rightarrow> js \<Rightarrow> obj" where
  "assign_to n a =
     (case a of
        JStr s \<Rightarrow> spread n (map (\<lambda>(i, c). (showNat i, JStr [c])) (enumerate 0 s))
      | _ \<Rightarrow> spread n (js_fields a))"

text \<open>\<open>EP(e).html\<close>\<close>

definition schema_html :: "js \<Rightarrow> js option" where
  "schema_html e = do { i \<leftarrow> EP e; n \<leftarrow> i; Some (JStr (ti_html n)) }"

text \<open>\<open>r && r.includes(k)\<close>\<close>

fun requires :: "js \<Rightarrow> string \<Rightarrow> bool option" where
  "requires (JArr xs) k = Some (JStr k \<in> set xs)"
| "requires (JStr s) k = Some (s \<noteq> [] \<and> js_includes s k)"
| "requires v k = (if js_truthy v then None else Some False)"

definition star_name :: "bool \<Rightarrow> string \<Rightarrow> string" where
  "star_name b k = (if b then k @ ''*'' else k)"

definition is_object_schema :: "js \<Rightarrow> bool" where
  "is_object_schema e \<longleftrightarrow> js_get e ''type'' = JStr ''object'' \<or> js_truthy (js_get e ''properties'')"

definition is_array_schema :: "js \<Rightarrow> bool" where
  "is_array_schema e \<longleftrightarrow> js_get e ''type'' = JStr ''array'' \<or> js_truthy (js_get e ''items'')"

definition is_composed :: "js \<Rightarrow> bool" where
  "is_composed e \<longleftrightarrow> js_truthy (js_get e ''allOf'') \<or> js_truthy (js_get e ''anyOf'') \<or> js_truthy (js_get e ''oneOf'')"

definition option_key :: "nat \<Rightarrow> js \<Rightarrow> string" where
  "option_key i e = ''::OPTION~'' @ showNat i @ (if js_truthy (js_get e ''title'') then ''~'' @ js_toString (js_get e ''title'') else [])"

text \<open>\<open>o[k] = r; o[k]["::readwrite"] = ""\<close>: on a string or on \<open>undefined\<close> the second assignment throws.\<close>

definition put_option :: "string \<Rightarrow> js \<Rightarrow> string \<Rightarrow> obj \<Rightarrow> obj option" where
  "put_option k r kind o1 =
     (case r of
        JObj m \<Rightarrow> Some (with_str ''::type'' kind (upd_assoc k (JObj (with_str ''::readwrite'' [] m)) o1))
      | _ \<Rightarrow> None)"

definition readwrite :: "js \<Rightarrow> string" where
  "readwrite e = (if js_truthy (js_get e ''readOnly'') then ''readonly'' else if js_truthy (js_get e ''writeOnly'') then ''writeonly'' else [])"

definition nullable_label :: "js \<Rightarrow> string \<Rightarrow> obj \<Rightarrow> obj" where
  "nullable_label e kind t = (if js_truthy (js_get e ''nullable'') then with_str ''::dataTypeLabel'' (kind @ '' or null'') t else t)"

text \<open>The entries that an object or an array has before its properties.\<close>

definition head_entries :: "js \<Rightarrow> nat \<Rightarrow> string \<Rightarrow> obj" where
  "head_entries e r kind =
     (let t = nullable_label e kind
        [(''::title'', js_or (js_get e ''title'') (JStr [])), (''::description'', JStr (FP e r)), (''::type'', JStr kind)] in
      with_str ''::readwrite'' (readwrite e) (upd_assoc ''::deprecated'' (js_or (js_get e ''deprecated'') (JBool False)) t))"

section \<open>A list of types\<close>

definition is_primitive :: "string \<Rightarrow> bool" where
  "is_primitive t \<longleftrightarrow> list_ex (js_includes t) [''integer'', ''number'', ''string'', ''null'', ''boolean'']"

text \<open>The primitive types of a schema with several types, and the other ones. A type that is no text throws.\<close>

fun split_types :: "js \<Rightarrow> js list \<Rightarrow> (string list \<times> string list) option" where
  "split_types items [] = Some ([], [])"
| "split_types items (JStr t # ts) = do {
     (i, s) \<leftarrow> split_types items ts;
     (if is_primitive t then Some (t # i, s)
      else (case js_get items ''type'' of
              JStr u \<Rightarrow>
                if t = ''array'' \<and> is_primitive u
                then Some ((''['' @ (if u = ''string'' \<and> js_truthy (js_get items ''format'') then js_toString (js_get items ''format'') else u) @ '']'') # i, s)
                else Some (i, t # s)
            | _ \<Rightarrow> Some (i, t # s))) }"
| "split_types items (_ # ts) = None"

definition with_type :: "string \<Rightarrow> js \<Rightarrow> js" where
  "with_type t n = (case n of JObj m \<Rightarrow> JObj (with_str ''type'' t m) | _ \<Rightarrow> n)"

definition join_types :: "string list \<Rightarrow> string" where
  "join_types i = joinStr (if length i = 2 then '' or '' else bar) i"

section \<open>The model\<close>

fun js_size :: "js \<Rightarrow> nat" where
  "js_size JUndef = 1" | "js_size JNull = 1" | "js_size (JBool _) = 2" | "js_size (JNum _) = 2" | "js_size (JStr _) = 2"
| "js_size (JArr xs) = 2 + sum_list (map js_size xs)"
| "js_size (JObj m) = 2 + sum_list (map (\<lambda>(k, v). js_size v) m)"

definition list_size :: "js list \<Rightarrow> nat" where
  "list_size xs = sum_list (map js_size xs)"

definition entries_js_size :: "obj \<Rightarrow> nat" where
  "entries_js_size m = sum_list (map (\<lambda>(k, v). js_size v) m)"

lemma js_size_sums [simp]:
  "list_size [] = 0" "list_size (x # xs) = js_size x + list_size xs"
  "entries_js_size [] = 0" "entries_js_size ((k, v) # m) = js_size v + entries_js_size m"
  by (simp_all add: list_size_def entries_js_size_def)

lemma js_size_pos [simp]: "0 < js_size v"
  by (cases v) auto

lemma js_size_get: "js_truthy e \<Longrightarrow> k \<noteq> ''length'' \<Longrightarrow> js_size (js_get e k) < js_size e"
proof (cases e)
  case (JObj m)
  have "js_size v \<le> sum_list (map (\<lambda>(k, v). js_size v) m)" if "map_of m k = Some v" for v
    using map_of_SomeD [OF that] by (induction m) auto
  then show ?thesis using JObj by (auto split: option.split simp: less_Suc_eq_le)
qed auto

lemma js_size_list: "list_size (js_list v) \<le> js_size v"
  by (cases v) (auto simp: list_size_def)

lemma js_size_fields: "entries_js_size (js_fields v) \<le> js_size v"
proof (cases v)
  case (JArr xs)
  have "entries_js_size (map (\<lambda>(i, v). (showNat i, v)) (enumerate n xs)) = list_size xs" for n
    by (induction xs arbitrary: n) auto
  then show ?thesis using JArr by (simp add: list_size_def)
qed (auto simp: entries_js_size_def)

lemma js_size_parts:
  assumes "js_truthy e" "k \<noteq> ''length''"
  shows "list_size (js_list (js_get e k)) < js_size e" "entries_js_size (js_fields (js_get e k)) < js_size e"
  using js_size_get [OF assms] js_size_list [of "js_get e k"] js_size_fields [of "js_get e k"] by linarith+

lemma double_less: "a < b \<Longrightarrow> Suc (2 * a) < 2 * (b :: nat)"
  by simp

function DP :: "js \<Rightarrow> nat \<Rightarrow> string \<Rightarrow> js option"
  and DP_props :: "js \<Rightarrow> obj \<Rightarrow> nat \<Rightarrow> obj \<Rightarrow> obj option"
  and DP_patterns :: "obj \<Rightarrow> nat \<Rightarrow> obj \<Rightarrow> obj option"
  and DP_allOf :: "js list \<Rightarrow> nat \<Rightarrow> nat \<Rightarrow> obj \<Rightarrow> obj option"
  and DP_options :: "js list \<Rightarrow> nat \<Rightarrow> obj \<Rightarrow> obj option" where
  "DP e r n =
     (if \<not> js_truthy e then Some JUndef
      else if js_truthy (js_get e ''allOf'') then
        (let xs = js_list (js_get e ''allOf'') in
         if length xs = 1 \<and> \<not> js_truthy (js_get (hd xs) ''properties'') \<and> \<not> js_truthy (js_get (hd xs) ''items'')
         then schema_html (hd xs)
         else map_option JObj (DP_allOf xs 0 r []))
      else if js_truthy (js_get e ''anyOf'') \<or> js_truthy (js_get e ''oneOf'') then do {
        let d = js_or (js_get e ''description'') (JStr []);
        t \<leftarrow> (if is_object_schema e
             then DP_props (js_get e ''required'') (js_fields (js_get e ''properties'')) r
                    [(''::description'', d), (''::type'', JStr ''object'')]
             else Some [(''::description'', d)]);
        let anyOf = js_truthy (js_get e ''anyOf'');
        o1 \<leftarrow> DP_options (js_list (if anyOf then js_get e ''anyOf'' else js_get e ''oneOf'')) 1 [];
        Some (JObj (with_str ''::type'' ''object'' (upd_assoc ((if anyOf then ''::ANY~OF '' else ''::ONE~OF '') @ n) (JObj o1) t))) }
      else if js_is_array (js_get e ''type'') then do {
        (i, s) \<leftarrow> split_types (js_get e ''items'') (js_list (js_get e ''type''));
        l \<leftarrow> (if i = [] then Some (JStr []) else schema_html (with_type (join_types i) (json_copy e)));
        (if s = [] then Some (if i = [] then JObj [] else l)
         else do {
           props \<leftarrow> (if ''object'' \<in> set s
                    then DP_props (js_get e ''required'') (js_fields (js_get e ''properties'')) r
                           [(''::title'', js_or (js_get e ''title'') (JStr [])), (''::description'', js_or (js_get e ''description'') (JStr [])),
                            (''::type'', JStr ''object''), (''::deprecated'', js_or (js_get e ''deprecated'') (JBool False))]
                    else Some []);
           items \<leftarrow> (if ''array'' \<in> set s then DP (js_get e ''items'') (r + 1) [] else Some JUndef);
           let one = (\<lambda>t.
             if t = ''null'' then Some (Some (JStr ''NULL~|~~|~~|~~|~~|~~|~~|~~|~''))
             else if js_includes ''integer, number, string, boolean,'' (t @ '','') then map_option Some (schema_html (with_type t (json_copy e)))
             else if t = ''object'' then Some (Some (JObj props))
             else if t = ''array'' then Some (Some (JObj [(''::title'', js_or (js_get e ''title'') (JStr [])),
               (''::description'', js_or (js_get e ''description'') (JStr [])), (''::type'', JStr ''array''), (''::props'', items)]))
             else Some None);
           o1 \<leftarrow> fold (\<lambda>(a, t) acc. do {
                   m \<leftarrow> acc; x \<leftarrow> one t;
                   Some (case x of None \<Rightarrow> m | Some v \<Rightarrow> upd_assoc (''::OPTION~'' @ showNat (a + 1)) v m) })
                 (enumerate 0 s) (Some [(''::type'', JStr ''xxx-of-option'')]);
           Some (JObj [(''::type'', JStr ''object''), (''::ONE~OF'', JObj (upd_assoc (''::OPTION~'' @ showNat (length s + 1)) l o1))]) }) }
      else if is_object_schema e then do {
        t1 \<leftarrow> DP_props (js_get e ''required'') (js_fields (js_get e ''properties'')) r (head_entries e r ''object'');
        t2 \<leftarrow> DP_patterns (js_fields (js_get e ''patternProperties'')) r t1;
        (if js_truthy (js_get e ''additionalProperties'')
         then do { d \<leftarrow> DP (js_get e ''additionalProperties'') 0 []; Some (JObj (upd_assoc ''[any-key]'' d t2)) }
         else Some (JObj t2)) }
      else if \<not> is_array_schema e then do {
        i \<leftarrow> EP e;
        Some (case i of None \<Rightarrow> JStr [] | Some x \<Rightarrow> JStr (ti_html x)) }
      else do {
        let inner = js_get (js_get e ''items'') ''items'';
        let t = (if js_truthy inner then upd_assoc ''::array-type'' (js_get inner ''type'') (head_entries e r ''array'')
                 else head_entries e r ''array'');
        d \<leftarrow> DP (js_get e ''items'') (r + 1) [];
        Some (JObj (upd_assoc ''::props'' d t)) })"
| "DP_props req [] r t = Some t"
| "DP_props req ((k, v) # m) r t = do {
     b \<leftarrow> requires req k;
     d \<leftarrow> DP v (r + 1) [];
     DP_props req m r (upd_assoc (star_name b k) d t) }"
| "DP_patterns [] r t = Some t"
| "DP_patterns ((k, v) # m) r t = do {
     d \<leftarrow> DP v (r + 1) [];
     (if js_truthy v \<and> \<not> js_truthy (js_get v ''allOf'') \<and> js_typeof d = ''object'' then None
      else DP_patterns m r (upd_assoc (''[pattern: '' @ k @ '']'') d t)) }"
| "DP_allOf [] i r t = Some t"
| "DP_allOf (e # es) i r t =
     (if is_object_schema e \<or> is_composed e then do {
        a \<leftarrow> DP e (r + 1) (if (js_truthy (js_get e ''anyOf'') \<or> js_truthy (js_get e ''oneOf'')) \<and> 0 < i then showNat i else []);
        DP_allOf es (i + 1) r (assign_to t a) }
      else if is_array_schema e then do { a \<leftarrow> DP e (r + 1) []; DP_allOf es (i + 1) r (assign_to t a) }
      else if \<not> js_truthy (js_get e ''type'') then DP_allOf es (i + 1) r t
      else do { h \<leftarrow> schema_html e; DP_allOf es (i + 1) r (upd_assoc (''prop'' @ showNat (length t)) h t) })"
| "DP_options [] i t = Some t"
| "DP_options (e # es) i t =
     (if is_object_schema e \<or> is_composed e
      then do { d \<leftarrow> DP e 0 []; t' \<leftarrow> put_option (option_key i e) d ''xxx-of-option'' t; DP_options es (i + 1) t' }
      else if is_array_schema e
      then do { d \<leftarrow> DP e 0 []; t' \<leftarrow> put_option (option_key i e) d ''xxx-of-array'' t; DP_options es (i + 1) t' }
      else do { h \<leftarrow> schema_html e; DP_options es (i + 1) (with_str ''::type'' ''xxx-of-option'' (upd_assoc (option_key i e) h t)) })"
  by pat_completeness auto
termination
  by (relation "measure (\<lambda>x. case x of
        Inl (Inl (e, r, n)) \<Rightarrow> 2 * js_size e
      | Inl (Inr (req, m, r, t)) \<Rightarrow> 1 + 2 * entries_js_size m
      | Inr (Inl (m, r, t)) \<Rightarrow> 1 + 2 * entries_js_size m
      | Inr (Inr (Inl (es, i, r, t))) \<Rightarrow> 1 + 2 * list_size es
      | Inr (Inr (Inr (es, i, t))) \<Rightarrow> 1 + 2 * list_size es)")
    (auto simp: js_size_get js_size_parts intro!: double_less)

end
