(* ===== verification/Web_Schema_View.thy ===== *)
theory Web_Schema_View
  imports Web_Schema_Model
begin

text \<open>
  The elements \<open>schema-tree\<close> and \<open>schema-table\<close> of the documentation page
  (web/static/rapidoc-min.js), which draw the model of a schema as a tree and as a table.

  \<open>lev\<close> is the property \<open>schemaExpandLevel\<close>. The rows of an object take its contents as an argument,
  and the recursive functions \<open>tree\<close> and \<open>rows\<close> put them together.
\<close>

section \<open>Reading the model\<close>

definition show_int :: "int \<Rightarrow> string" where
  "show_int n = (if n < 0 then ''-'' @ showNat (nat (- n)) else showNat (nat n))"

definition or_default :: "string \<Rightarrow> js \<Rightarrow> string" where
  "or_default d v = (if v = JUndef then d else js_toString v)"

definition entry_type :: "js \<Rightarrow> string" where
  "entry_type e = lit_str (js_get e ''::type'')"

definition has_keys :: "js \<Rightarrow> bool" where
  "has_keys e = (case e of JStr s \<Rightarrow> s \<noteq> [] | _ \<Rightarrow> js_keys e \<noteq> [])"

text \<open>The name of an entry: the options of a choice carry their number and their title.\<close>

definition entry_name :: "string \<Rightarrow> js \<times> js" where
  "entry_name n =
     (if is_prefix ''::ONE~OF'' n \<or> is_prefix ''::ANY~OF'' n then (JStr (js_replace (js_replace n ''::'' []) ''~'' '' ''), JStr [])
      else if is_prefix ''::OPTION'' n then (let e = JArr (map JStr (js_split ''~'' n)) in (js_nth e 1, js_nth e 2))
      else (JStr n, JStr []))"

text \<open>The two early returns for entries that the page hides.\<close>

definition hidden_entry :: "element \<Rightarrow> js \<Rightarrow> string \<Rightarrow> string \<Rightarrow> bool" where
  "hidden_entry this e t s \<longleftrightarrow>
     this ''schemaHideReadOnly'' = JStr ''true'' \<and> (t = ''array'' \<and> s = ''readonly'' \<or> js_get e ''::readwrite'' = JStr ''readonly'') \<or>
     this ''schemaHideWriteOnly'' = JStr ''true'' \<and> (t = ''array'' \<and> s = ''writeonly'' \<or> js_get e ''::readwrite'' = JStr ''writeonly'')"

definition child_level :: "js \<Rightarrow> nat \<Rightarrow> nat" where
  "child_level e a = (if is_prefix ''xxx-of'' (entry_type e) then a else a + 1)"

definition child_indent :: "js \<Rightarrow> string \<Rightarrow> string \<Rightarrow> nat \<Rightarrow> nat" where
  "child_indent e t n i = (if t = ''xxx-of-option'' \<or> entry_type e = ''xxx-of-option'' \<or> is_prefix ''::OPTION'' n then i else i + 1)"

text \<open>The short name of a type: the first four letters, digits or plus signs before the first bar.\<close>

definition css_type :: "string \<Rightarrow> string" where
  "css_type g = toLower (take 4 (filter (\<lambda>c. alphanumeric c \<or> c = CHR ''+'') (hd (js_split bar g))))"

definition meta_keys :: "string list" where
  "meta_keys = [''::title'', ''::description'', ''::type'', ''::props'', ''::deprecated'', ''::array-type'', ''::readwrite'', ''::dataTypeLabel'']"

definition leaf_field :: "string list \<Rightarrow> nat \<Rightarrow> js" where
  "leaf_field fs n = (if n < length fs then JStr (fs ! n) else JUndef)"

section \<open>The tree\<close>

definition tree_render :: "element \<Rightarrow> lib \<Rightarrow> dom list \<Rightarrow> dom list" where
  "tree_render this L kids =
     [El ''div'' [(''class'', ''tree '' @ (if this ''schemaDescriptionExpanded'' = JStr ''true''
         then ''expanded-all-descr'' else ''collapsed-all-descr''))] []
        ([El ''div'' [(''class'', ''toolbar'')] []
            ([El ''div'' [(''class'', ''toolbar-item schema-root-type '' @
                js_toString (js_or (js_get (this ''data'') ''::type'') (JStr [])) @ '' '')] []
                (shown (js_or (js_get (this ''data'') ''::type'') (JStr [])))] @
             only_if (this ''allowSchemaDescriptionExpandToggle'' = JStr ''true'')
               [El ''div'' [(''style'', ''flex:1'')] [] [],
                 El ''div'' [(''part'', ''schema-toolbar-item schema-multiline-toggle''),
                     (''class'', ''toolbar-item schema-multiline-toggle'')] []
                   ((if this ''schemaDescriptionExpanded'' = JStr ''true'' then
                       [Tx ''Single line description'']
                     else
                       [Tx ''Multiline description'']))]),
          El ''span'' [(''part'', ''schema-description''), (''class'', ''m-markdown'')] []
            (We L (js_toString (js_or (js_get (this ''data'') ''::description'') (JStr []))))] @
         (if js_truthy (this ''data'') then
            kids
          else
            [El ''span'' [(''class'', ''mono-font''), (''style'', ''color:var(--red)'')] [] [Tx
                ''Schema not found'']]))]"

definition tree_null :: "string \<Rightarrow> string \<Rightarrow> dom list" where
  "tree_null t n =
     [El ''div'' [(''class'', ''null''), (''style'', ''display:inline;'')] []
        ([El ''span'' [(''class'', ''key-label xxx-of-key'')] [] [Tx (js_replace n ''::OPTION~'' [])]] @
         (if t = ''array'' then
            [El ''span'' [(''class'', ''mono-font'')] [] [Tx ''[ ]'']]
          else
            (if t = ''object'' then
               [El ''span'' [(''class'', ''mono-font'')] [] [Tx ''{ }'']]
             else
               [El ''span'' [(''class'', ''mono-font'')] [] [Tx ''schema undefined'']])))]"

definition open_bracket :: "nat \<Rightarrow> js \<Rightarrow> string \<Rightarrow> string \<Rightarrow> nat
    \<Rightarrow> dom list" where
  "open_bracket lev e t r a =
     (let q = (if r \<noteq> ''object'' then r else []) in
      if entry_type e = ''object'' then
        (if t = ''array'' then
        (if a < lev then
           [El ''span'' [(''class'', ''open-bracket array-of-object'')] [] [Tx ''[{'']]
         else
           [El ''span'' [(''class'', ''open-bracket array-of-object'')] [] [Tx ''[{...}]'']])
        else
        (if a < lev then
           [El ''span'' [(''class'', ''open-bracket object'')] [] [Tx ''{'']]
         else
           [El ''span'' [(''class'', ''open-bracket object'')] [] [Tx ''{...}'']]))
      else if entry_type e = ''array'' then
        (if t = ''array'' then
        (if a < lev then
           [El ''span'' [(''class'', ''open-bracket array-of-array''), (''data-array-type'',
               q)] [] [Tx ''[[ '', Tx q]]
         else
           [El ''span'' [(''class'', ''open-bracket array-of-array''), (''data-array-type'',
               q)] [] [Tx ''[[...]]'']])
        else
        (if a < lev then
           [El ''span'' [(''class'', ''open-bracket array'')] [] [Tx ''['']]
         else
           [El ''span'' [(''class'', ''open-bracket array'')] [] [Tx ''[...]'']]))
      else [])"

definition close_bracket :: "js \<Rightarrow> string \<Rightarrow> string" where
  "close_bracket e t =
     (if entry_type e = ''object'' then (if t = ''array'' then ''}]'' else ''}'')
      else if entry_type e = ''array'' then (if t = ''array'' then '']]'' else '']'') else [])"

definition tree_object :: "nat \<Rightarrow> lib \<Rightarrow> js \<Rightarrow> string \<Rightarrow> string
    \<Rightarrow> string \<Rightarrow> string \<Rightarrow> nat \<Rightarrow> nat \<Rightarrow> string
    \<Rightarrow> dom list \<Rightarrow> dom list" where
  "tree_object lev L e t r n o1 a i s kids =
     (let (c, p) = entry_name n; d = show_int (400 - 12 * int i); u = open_bracket lev e t r a; h =
         close_bracket e t in
      [El ''div'' [(''class'', ''tr '' @ (if a < lev \<or> is_prefix ''xxx-of'' (js_toString (js_get e
          ''::type'')) then ''expanded'' else ''collapsed'') @ '' '' @
          js_toString (js_or (js_get e ''::type'') (JStr ''no-type-info''))), (''title'',
          if js_truthy (js_get e ''::deprecated'') then ''Deprecated'' else [])] []
         [El ''div'' [(''class'', ''td key '' @ (if js_truthy (js_get e ''::deprecated'') then ''deprecated''
             else [])), (''style'', ''min-width:'' @ d @ ''px'')] []
             ((if (js_get e ''::type'' = JStr ''xxx-of-option''
                 \<or> js_get e ''::type'' = JStr ''xxx-of-array'') \<or> is_prefix ''::OPTION'' n then
                 [El ''span'' [(''class'', ''key-label xxx-of-key'')] [] (shown c),
                  El ''span'' [(''class'', ''xxx-of-descr'')] [] (shown p)]
               else
                 only_if (\<not> (c = JStr ''::props'' \<or> c = JStr ''::ARRAY~OF''))
                   (only_if (a > 0)
                      [El ''span'' [(''class'', ''key-label''), (''title'', if s = ''readonly''
                          then ''Read-Only'' else if s = ''writeonly'' then ''Write-Only'' else [])] []
                          (only_if (js_truthy (js_get e ''::deprecated''))
                             [Tx ballot_x] @
                           [Tx (drop_star (js_toString c))] @
                           only_if (hasSuffix (js_toString c) ''*'')
                             [El ''span'' [(''style'', ''color:var(--red)'')] [] [Tx ''*'']] @
                           (if s = ''readonly'' then
                              [Tx sign_R]
                            else
                              (if s = ''writeonly'' then
                                 [Tx sign_W]
                               else
                                 [Tx s])) @
                           [Tx '':''])])) @
              u),
           El ''div'' [(''class'', ''td key-descr m-markdown-small'')] []
             (We L (js_toString (js_or (JStr o1) (JStr []))))],
       El ''div'' [(''class'', ''inside-bracket '' @ js_toString (js_or (js_get e ''::type'') (JStr
           ''no-type-info''))), (''style'', ''padding-left:'' @
           (if js_get e ''::type'' = JStr ''xxx-of-option'' \<or> js_get e ''::type'' = JStr ''xxx-of-array''
           then showNat 0 else showNat 12) @ ''px;'')] []
         (kids)] @
      only_if (\<not> (js_truthy (js_get e ''::type'') \<and> js_includes (js_toString (js_get e ''::type''))
          ''xxx-of''))
        [El ''div'' [(''class'', ''close-bracket'')] [] [Tx h]])"

definition tree_leaf :: "element \<Rightarrow> lib \<Rightarrow> string \<Rightarrow> string \<Rightarrow>
    string \<Rightarrow> string \<Rightarrow> nat \<Rightarrow> string \<Rightarrow> dom list" where
  "tree_leaf this L e t n o1 i s =
     (let (c, p) = entry_name n; fs = leaf_fields e; f = leaf_field fs;
          g = f 0; v = f 1; b = f 2; x = f 3; w = f 4; pat = f 5; k = f 6; ttl = f 7; dep = f 8;
          d = show_int (400 - 12 * int i); cls = css_type (js_toString g);
          tog = (if js_truthy b \<or> js_truthy x \<or> js_truthy w \<or> js_truthy pat
                 then ''<span class=\"descr-expand-toggle '' @
                     (if this ''schemaDescriptionExpanded'' = JStr ''true'' then ''expanded-descr'' else [])
                      @ ''\">'' @ [CHR 0xE2, CHR 0x9E, CHR 0x94] @ ''</span>'' else []);
          ro = (if t = ''array'' then s = ''readonly'' else v = JStr sign_R); wo = (if t = ''array''
              then s = ''writeonly'' else v = JStr sign_W);
          mark = (if ro then sign_R else if wo then sign_W else []); hint = (if ro then ''Read-Only''
              else if wo then ''Write-Only'' else []) in
      if leaf_hidden (lit_str (this ''schemaHideReadOnly'')) (lit_str (this ''schemaHideWriteOnly'')) e then []
      else [El ''div'' [(''class'', ''tr primitive''), (''title'', if js_truthy dep then ''Deprecated''
          else [])] []
         [El ''div'' [(''class'', ''td key '' @ lit_str dep), (''style'', ''min-width:'' @ d @ ''px'')] []
             (only_if (js_truthy dep)
                [El ''span'' [(''style'', ''color:var(--red);'')] [] [Tx ballot_x]] @
              (if hasSuffix (js_toString c) ''*'' then
                 [El ''span'' [(''class'', ''key-label'')] [] [Tx (take ((js_len c) - 1) (js_toString c))],
                  El ''span'' [(''style'', ''color:var(--red);'')] [] [Tx ''*''],
                  Tx '':'']
               else
                 (if is_prefix ''::OPTION'' n then
                    [El ''span'' [(''class'', ''key-label xxx-of-key'')] [] (shown c),
                     El ''span'' [(''class'', ''xxx-of-descr'')] [] (shown p)]
                  else
                    [El ''span'' [(''class'', ''key-label'')] [] (shown c @ [Tx '':''])])) @
              [El ''span'' [(''class'', cls), (''title'', hint)] []
                 ((if t = ''array'' then
                     [Tx (''['' @ js_toString g @ '']'')]
                   else
                     [Tx (js_toString g)]) @
                  [Tx mark])]),
           El ''div'' [(''class'', ''td key-descr'')] []
             (only_if ((o1 \<noteq> [] \<or> js_truthy ttl) \<or> js_truthy k)
                [El ''span'' [(''class'', ''m-markdown-small'')] []
                    (We L (if t = ''array'' then tog @ '' '' @ o1 else if js_truthy ttl then tog @ '' <b>'' @
                        js_toString ttl @ '':</b> '' @ js_toString k else tog @ '' '' @ js_toString k))] @
              only_if (js_truthy b)
                [El ''div'' [(''style'', ''display:inline-block; line-break:anywhere; margin-right:8px'')] []
                    ([El ''span'' [(''class'', ''bold-text'')] [] [Tx ''Constraints:'']] @
                     shown b)] @
              only_if (js_truthy x)
                [El ''div'' [(''style'', ''display:inline-block; line-break:anywhere; margin-right:8px'')] []
                    ([El ''span'' [(''class'', ''bold-text'')] [] [Tx ''Default:'']] @
                     shown x)] @
              only_if (js_truthy w)
                [El ''div'' [(''style'', ''display:inline-block; line-break:anywhere; margin-right:8px'')] []
                    ([El ''span'' [(''class'', ''bold-text'')] []
                        ((if g = JStr ''const'' then
                            [Tx ''Value'']
                          else
                            [Tx ''Allowed'']) @
                         [Tx '':''])] @
                     shown w)] @
              only_if (js_truthy pat)
                [El ''div'' [(''style'', ''display:inline-block; line-break: anywhere; margin-right:8px'')] []
                    ([El ''span'' [(''class'', ''bold-text'')] [] [Tx ''Pattern:'']] @
                     shown pat)])]])"

section \<open>The table\<close>

definition table_render :: "element \<Rightarrow> lib \<Rightarrow> dom list \<Rightarrow> dom list" where
  "table_render this L kids =
     [El ''div'' [(''class'', ''table '' @ (if this ''schemaDescriptionExpanded'' = JStr ''true''
         then ''expanded-all-descr'' else ''collapsed-all-descr''))] []
        [El ''div'' [(''class'', ''toolbar'')] []
            ([El ''div'' [(''class'', ''toolbar-item schema-root-type '' @
                js_toString (js_or (js_get (this ''data'') ''::type'') (JStr [])) @ '' '')] []
                (shown (js_or (js_get (this ''data'') ''::type'') (JStr [])))] @
             only_if (this ''allowSchemaDescriptionExpandToggle'' = JStr ''true'')
               [El ''div'' [(''style'', ''flex:1'')] [] [],
                 El ''div'' [(''part'', ''schema-multiline-toggle''),
                     (''class'', ''toolbar-item schema-multiline-toggle'')] []
                   ((if this ''schemaDescriptionExpanded'' = JStr ''true'' then
                       [Tx ''Single line description'']
                     else
                       [Tx ''Multiline description'']))]),
          El ''span'' [(''part'', ''schema-description''), (''class'', ''m-markdown'')] []
            (We L (js_toString (js_or (js_get (this ''data'') ''::description'') (JStr [])))),
          El ''div'' [(''style'', ''border:1px solid var(--light-border-color)'')] []
            ([El ''div'' [(''style'',
                ''display:flex; background-color: var(--bg2); padding:8px 4px; border-bottom:1px solid var(--light-border-color);'')]
                []
                [El ''div'' [(''class'', ''key''), (''style'',
                    ''font-family:var(--font-regular); font-weight:bold; color:var(--fg);'')] []
                    [Tx ''Field''],
                  El ''div'' [(''class'', ''key-type''), (''style'',
                      ''font-family:var(--font-regular); font-weight:bold; color:var(--fg);'')] []
                    [Tx ''Type''],
                  El ''div'' [(''class'', ''key-descr''), (''style'',
                      ''font-family:var(--font-regular); font-weight:bold; color:var(--fg);'')] []
                    [Tx ''Description'']]] @
             only_if (js_truthy (this ''data''))
               (kids))]]"

definition table_null :: "string \<Rightarrow> string \<Rightarrow> nat \<Rightarrow> dom list" where
  "table_null t n a =
     [El ''div'' [(''class'', ''null''), (''style'', ''display:inline;'')] []
        ([El ''span'' [(''style'', ''margin-left:'' @ showNat (16 * (a + 1)) @ ''px'')] [] [Tx nbsp],
          El ''span'' [(''class'', ''key-label xxx-of-key'')] [] [Tx (js_replace n ''::OPTION~'' [])]] @
         (if t = ''array'' then
            [El ''span'' [(''class'', ''mono-font'')] [] [Tx ''[ ]'']]
          else
            (if t = ''object'' then
               [El ''span'' [(''class'', ''mono-font'')] [] [Tx ''{ }'']]
             else
               [El ''span'' [(''class'', ''mono-font'')] [] [Tx ''schema undefined'']])))]"

definition table_object :: "nat \<Rightarrow> lib \<Rightarrow> js \<Rightarrow> string \<Rightarrow> string
    \<Rightarrow> string \<Rightarrow> string \<Rightarrow> nat \<Rightarrow> nat \<Rightarrow> dom list
    \<Rightarrow> dom list" where
  "table_object lev L e t r n o1 a i kids =
     (let (h, f) = entry_name n; p = child_level e a; u = showNat (16 * child_indent e t n i);
          m = (is_prefix ''::ONE~OF'' n \<or> is_prefix ''::ANY~OF'' n);
          y = (if entry_type e = ''object''
               then (if t = ''array'' then ''array of object''
                   else js_toString (js_or (js_get e ''::dataTypeLabel'') (js_get e ''::type'')))
               else if entry_type e = ''array''
               then (if t = ''array'' then ''array of array '' @ (if r \<noteq> ''object'' then ''of '' @ r
                   else [])
                     else js_toString (js_or (js_get e ''::dataTypeLabel'') (js_get e ''::type'')))
               else []) in
      (if p \<ge> 0 \<and> n \<noteq> [] then
         [El ''div'' [(''class'', ''tr '' @ (if p \<le> lev then ''expanded'' else ''collapsed'') @ '' '' @
             lit_str (js_get e ''::type'')), (''data-obj'', lit_str h), (''title'',
             if js_truthy (js_get e ''::deprecated'') then ''Deprecated'' else [])] []
            [El ''div'' [(''class'', ''td key '' @ (if js_truthy (js_get e ''::deprecated'')
                then ''deprecated'' else [])), (''style'', ''padding-left:'' @ u @ ''px'')] []
                (only_if (js_truthy h \<or> js_truthy f)
                   [El ''span'' [(''class'', ''obj-toggle '' @ (if p < lev then ''expanded''
                       else ''collapsed'')), (''data-obj'', lit_str h)] []
                       ((if a < lev then
                           [Tx ''-'']
                         else
                           [Tx ''+'']))] @
                 (if (js_get e ''::type'' = JStr ''xxx-of-option''
                     \<or> js_get e ''::type'' = JStr ''xxx-of-array'') \<or> is_prefix ''::OPTION'' n then
                    [El ''span'' [(''class'', ''xxx-of-key''), (''style'', ''margin-left:-6px'')] [] (shown h),
                     El ''span'' [(''class'', if m then ''xxx-of-key'' else ''xxx-of-descr'')] [] (shown f)]
                  else
                    (if hasSuffix (js_toString h) ''*'' then
                       [El ''span'' [(''class'', ''key-label''),
                           (''style'', ''display:inline-block; margin-left:-6px;'')] []
                          (only_if (js_truthy (js_get e ''::deprecated''))
                             [Tx ballot_x] @
                           [Tx (take ((js_len h) - 1) (js_toString h))]),
                        El ''span'' [(''style'', ''color:var(--red);'')] [] [Tx ''*'']]
                     else
                       [El ''span'' [(''class'', ''key-label''),
                           (''style'', ''display:inline-block; margin-left:-6px;'')] []
                          (only_if (js_truthy (js_get e ''::deprecated''))
                             [Tx ballot_x] @
                           only_if (\<not> (h = JStr ''::props''))
                             (shown h))])) @
                 only_if (js_get e ''::type'' = JStr ''xxx-of'' \<and> t = ''array'')
                   [El ''span'' [(''style'', ''color:var(--primary-color)'')] [] [Tx ''ARRAY'']]),
              El ''div'' [(''class'', ''td key-type''), (''title'',
                  if js_get e ''::readwrite'' = JStr ''readonly'' then ''Read-Only''
                  else if js_get e ''::readwrite'' = JStr ''writeonly'' then ''Write-Only'' else [])] []
                (only_if (\<not> (js_includes (js_toString (js_or (js_get e ''::type'') (JStr []))) ''xxx-of''))
                   [Tx y] @
                 (if js_get e ''::readwrite'' = JStr ''readonly'' then
                    [Tx ('' '' @ sign_R)]
                  else
                    only_if (js_get e ''::readwrite'' = JStr ''writeonly'')
                      [Tx ('' '' @ sign_W)])),
              El ''div'' [(''class'', ''td key-descr m-markdown-small''), (''style'', ''line-height:1.7'')] []
                (We L (js_toString (js_or (JStr o1) (JStr []))))]]
       else
         only_if (js_get e ''::type'' = JStr ''array'' \<and> t = ''array'')
           [El ''div'' [(''class'', ''tr'')] []
               [El ''div'' [(''class'', ''td key'')] [] [],
                 El ''div'' [(''class'', ''td key-type'')] []
                   ((if r \<noteq> [] \<and> r \<noteq> ''object'' then
                       [Tx (t @ '' of '' @ r)]
                     else
                       [Tx t])),
                 El ''div'' [(''class'', ''td key-descr'')] [] []]]) @
      [El ''div'' [(''class'', ''object-body'')] [] (kids @ [El ''div'' [] [] []])])"

definition table_type :: "string \<Rightarrow> string \<Rightarrow> string \<Rightarrow> dom list" where
  "table_type e t s =
     (let f = leaf_field (leaf_fields e); g = f 0; v = f 1; cls = css_type (js_toString g) in
      (if t = ''array'' then
         [El ''div'' [(''class'', ''td key-type '' @ cls), (''title'', if s = ''readonly'' then ''Read-Only''
             else if v = JStr ''writeonly'' then ''Write-Only'' else [])] []
            ([Tx ''[''] @
             shown g @
             [Tx ''] ''] @
             (if s = ''readonly'' then
                [Tx sign_R]
              else
                only_if (s = ''writeonly'')
                  [Tx sign_W]))]
       else
         [El ''div'' [(''class'', ''td key-type '' @ cls), (''title'', if v = JStr sign_R then ''Read-Only''
             else if v = JStr sign_W then ''Write-Only'' else [])] []
            (shown g @
             shown v)]))"

definition table_leaf :: "element \<Rightarrow> lib \<Rightarrow> string \<Rightarrow> string \<Rightarrow>
    string \<Rightarrow> string \<Rightarrow> nat \<Rightarrow> string \<Rightarrow> dom list" where
  "table_leaf this L e t n o1 indent s =
     (let (h, f) = entry_name n; fs = leaf_fields e; fld = leaf_field fs;
          g = fld 0; b = fld 2; x = fld 3; w = fld 4; pat = fld 5; k = fld 6; ttl = fld 7; dep = fld 8;
          u = showNat (16 * indent);
          tog = (if js_truthy b \<or> js_truthy x \<or> js_truthy w \<or> js_truthy pat then arrow_toggle
              else []) in
      if leaf_hidden (lit_str (this ''schemaHideReadOnly'')) (lit_str (this ''schemaHideWriteOnly'')) e then []
      else [El ''div'' [(''class'', ''tr primitive''), (''title'', if js_truthy dep then ''Deprecated''
          else [])] []
         ([El ''div'' [(''class'', ''td key '' @ lit_str dep), (''style'', ''padding-left:'' @ u @ ''px'')] []
             (only_if (js_truthy dep)
                [El ''span'' [(''style'', ''color:var(--red);'')] [] [Tx ballot_x]] @
              (if hasSuffix (js_toString h) ''*'' then
                 [El ''span'' [(''class'', ''key-label'')] [] [Tx (take ((js_len h) - 1) (js_toString h))],
                  El ''span'' [(''style'', ''color:var(--red);'')] [] [Tx ''*'']]
               else
                 (if is_prefix ''::OPTION'' n then
                    [El ''span'' [(''class'', ''xxx-of-key'')] [] (shown h),
                     El ''span'' [(''class'', ''xxx-of-descr'')] [] (shown f)]
                  else
                    (if js_truthy h then
                       [El ''span'' [(''class'', ''key-label'')] [] (shown h)]
                     else
                       [El ''span'' [(''class'', ''xxx-of-descr'')] [] (shown ttl)]))))] @
          table_type e t s @
          [El ''div'' [(''class'', ''td key-descr''), (''style'', ''font-size: var(--font-size-small)'')] []
             ([El ''span'' [(''class'', ''m-markdown-small'')] []
                 (We L (if t = ''array'' then tog @ '' '' @ o1 else if js_truthy ttl then tog @ '' <b>'' @
                     js_toString ttl @ '':</b> '' @ js_toString k else tog @ '' '' @ js_toString k))] @
              only_if (js_truthy b)
                [El ''div'' [(''class'', []), (''style'',
                    ''display:inline-block; line-break:anywhere; margin-right:8px;'')] []
                    ([El ''span'' [(''class'', ''bold-text'')] [] [Tx ''Constraints:'']] @
                     shown b)] @
              only_if (js_truthy x)
                [El ''div'' [(''style'', ''display:inline-block; line-break:anywhere; margin-right:8px;'')] []
                    ([El ''span'' [(''class'', ''bold-text'')] [] [Tx ''Default:'']] @
                     shown x)] @
              only_if (js_truthy w)
                [El ''div'' [(''style'', ''display:inline-block; line-break:anywhere; margin-right:8px;'')] []
                    ([El ''span'' [(''class'', ''bold-text'')] []
                        ((if g = JStr ''const'' then
                            [Tx ''Value'']
                          else
                            [Tx ''Allowed'']) @
                         [Tx '':''])] @
                     shown w)] @
              only_if (js_truthy pat)
                [El ''div'' [(''style'', ''display:inline-block; line-break:anywhere; margin-right:8px;'')] []
                    ([El ''span'' [(''class'', ''bold-text'')] [] [Tx ''Pattern:'']] @
                     shown pat)])])])"

section \<open>The recursion\<close>

text \<open>What the element does with an entry \<open>v\<close> named \<open>t\<close>: of an array the contents are drawn.\<close>

definition entry_body :: "js \<Rightarrow> js" where
  "entry_body v = (if js_get v ''::type'' = JStr ''array'' then js_get v ''::props'' else v)"

definition draws_entry :: "string \<Rightarrow> js \<Rightarrow> bool" where
  "draws_entry t v \<longleftrightarrow> t \<notin> set meta_keys \<or> js_get v ''::type'' = JStr ''array'' \<or> js_get v ''::type'' = JStr ''object''"

lemma entry_body_size: "js_size (entry_body v) \<le> js_size v"
proof (cases "js_get v ''::type'' = JStr ''array''")
  case True
  then have "js_truthy v" by (cases v) (auto split: if_splits)
  then show ?thesis using js_size_get [of v "''::props''"] by (simp add: entry_body_def)
qed (simp add: entry_body_def)

lemma js_size_head: "js_is_array e \<Longrightarrow> js_truthy (js_nth e 0) \<Longrightarrow> js_size (js_nth e 0) < js_size e"
  by (cases e rule: js_is_array.cases; cases "js_list e") (auto simp: js_nth_def)

lemma js_fields_less: "js_typeof e = ''object'' \<Longrightarrow> entries_js_size (js_fields e) < js_size e"
proof (cases e)
  case (JArr xs)
  have "entries_js_size (map (\<lambda>(i, v). (showNat i, v)) (enumerate n xs)) = list_size xs" for n
    by (induction xs arbitrary: n) auto
  then show ?thesis using JArr by (simp add: list_size_def)
qed (auto simp: entries_js_size_def)

function tree :: "element \<Rightarrow> lib \<Rightarrow> nat \<Rightarrow> js \<Rightarrow> string \<Rightarrow> string \<Rightarrow> string \<Rightarrow> string \<Rightarrow> nat \<Rightarrow> nat \<Rightarrow> string \<Rightarrow> dom list"
  and tree_entries :: "element \<Rightarrow> lib \<Rightarrow> nat \<Rightarrow> obj \<Rightarrow> nat \<Rightarrow> nat \<Rightarrow> dom list" where
  "tree this L lev e t r n o1 a i s =
     (if hidden_entry this e t s then []
      else if \<not> js_truthy e then tree_null t n
      else if \<not> has_keys e then [El ''span'' [(''class'', ''key object'')] [] [Tx n, Tx '':{ }'']]
      else if js_typeof e = ''object'' then
        tree_object lev L e t r n o1 a i s
          (if js_is_array e \<and> js_truthy (js_nth e 0)
           then tree this L lev (js_nth e 0) ''xxx-of-option'' [] ''::ARRAY~OF'' [] (child_level e a) (child_indent e t n i)
                  (or_default [] (js_get (js_nth e 0) ''::readwrite''))
           else tree_entries this L lev (js_fields e) (child_level e a) (child_indent e t n i))
      else tree_leaf this L (js_toString e) t n o1 i s)"
| "tree_entries this L lev [] a i = []"
| "tree_entries this L lev ((t, v) # m) a i =
     (if draws_entry t v
      then tree this L lev (entry_body v) (or_default ''object'' (js_get v ''::type'')) (js_toString (js_or (js_get v ''::array-type'') (JStr [])))
             t (or_default [] (js_get v ''::description'')) a i (js_toString (js_or (js_get v ''::readwrite'') (JStr [])))
      else []) @ tree_entries this L lev m a i"
  by pat_completeness auto
termination
  by (relation "measure (\<lambda>x. case x of Inl (this, L, lev, e, z) \<Rightarrow> 2 * js_size e
        | Inr (this, L, lev, m, z) \<Rightarrow> 1 + 2 * entries_js_size m)")
    (auto simp: js_size_head js_fields_less double_less entry_body_size le_imp_less_Suc trans_le_add1)

function rows :: "element \<Rightarrow> lib \<Rightarrow> nat \<Rightarrow> js \<Rightarrow> string \<Rightarrow> string \<Rightarrow> string \<Rightarrow> string \<Rightarrow> nat \<Rightarrow> nat \<Rightarrow> string \<Rightarrow> dom list"
  and rows_entries :: "element \<Rightarrow> lib \<Rightarrow> nat \<Rightarrow> obj \<Rightarrow> nat \<Rightarrow> nat \<Rightarrow> dom list" where
  "rows this L lev e t r n o1 a i s =
     (if hidden_entry this e t s then []
      else if \<not> js_truthy e then table_null t n a
      else if \<not> has_keys e
      then [El ''span'' [(''class'', ''td key object''), (''style'', ''padding-left:'' @ showNat (16 * child_indent e t n i) @ ''px'')] [] [Tx n]]
      else if js_typeof e = ''object'' then
        table_object lev L e t r n o1 a i
          (if js_is_array e \<and> js_truthy (js_nth e 0)
           then rows this L lev (js_nth e 0) ''xxx-of-option'' [] ''::ARRAY~OF'' [] (child_level e a) (child_indent e t n i) []
           else rows_entries this L lev (js_fields e) (child_level e a) (child_indent e t n i))
      else table_leaf this L (js_toString e) t n o1 (child_indent e t n i) s)"
| "rows_entries this L lev [] a i = []"
| "rows_entries this L lev ((t, v) # m) a i =
     (if draws_entry t v
      then rows this L lev (entry_body v) (or_default ''object'' (js_get v ''::type'')) (js_toString (js_or (js_get v ''::array-type'') (JStr [])))
             t (or_default [] (js_get v ''::description'')) a i (js_toString (js_or (js_get v ''::readwrite'') (JStr [])))
      else []) @ rows_entries this L lev m a i"
  by pat_completeness auto
termination
  by (relation "measure (\<lambda>x. case x of Inl (this, L, lev, e, z) \<Rightarrow> 2 * js_size e
        | Inr (this, L, lev, m, z) \<Rightarrow> 1 + 2 * entries_js_size m)")
    (auto simp: js_size_head js_fields_less double_less entry_body_size le_imp_less_Suc trans_le_add1)

declare tree.simps [simp del] rows.simps [simp del]

text \<open>The whole elements, for the model \<open>data\<close> of a schema.\<close>

definition schema_tree :: "element \<Rightarrow> lib \<Rightarrow> nat \<Rightarrow> dom list" where
  "schema_tree this L lev =
     (let data = this ''data'' in
      tree_render this L (tree this L lev (entry_body data) (or_default ''object'' (js_get data ''::type''))
        (js_toString (js_or (js_get data ''::array-type'') (JStr []))) [] [] 0 0 []))"

definition schema_table :: "element \<Rightarrow> lib \<Rightarrow> nat \<Rightarrow> dom list" where
  "schema_table this L lev =
     (let data = this ''data'' in
      table_render this L (rows this L lev (entry_body data) (or_default ''object'' (js_get data ''::type''))
        (or_default [] (js_get data ''::array-type'')) [] [] 0 0 []))"

end
