(* ===== verification/Web_Schema_Agree.thy ===== *)
theory Web_Schema_Agree
  imports Web_Schema_View
begin

text \<open>
  The tree and the table of a schema show the same fields.

  A field is a row of the class \<open>tr primitive\<close>. What a row says is its title, which marks deprecated fields,
  and the texts of its details: constraints, default, allowed values and pattern.
\<close>

section \<open>Rows\<close>

definition is_row :: "dom \<Rightarrow> bool" where
  "is_row n \<longleftrightarrow> attr ''class'' n = Some ''tr primitive''"

definition is_detail :: "dom \<Rightarrow> bool" where
  "is_detail n \<longleftrightarrow> tag_of n = ''div'' \<and> attr ''class'' n \<in> {None, Some []}"

definition row_facts :: "dom \<Rightarrow> string option \<times> string list" where
  "row_facts n = (attr ''title'' n, map node_text (select is_detail [n]))"

definition field_facts :: "dom list \<Rightarrow> (string option \<times> string list) list" where
  "field_facts ns = map row_facts (select is_row ns)"

text \<open>The Markdown renderer makes neither.\<close>

definition plain_markdown :: "lib \<Rightarrow> bool" where
  "plain_markdown L \<longleftrightarrow> (\<forall>s. select is_row (We L s) = [] \<and> select is_detail (We L s) = [])"

section \<open>Facts\<close>

lemma row_El: "is_row (El t as ps ns) \<longleftrightarrow> map_of as ''class'' = Some ''tr primitive''"
  by (simp add: is_row_def)

lemma detail_El: "is_detail (El t as ps ns) \<longleftrightarrow> t = ''div'' \<and> map_of as ''class'' \<in> {None, Some []}"
  by (simp add: is_detail_def)

lemma markdown_plain: "plain_markdown L \<Longrightarrow> select is_row (We L s) = []" "plain_markdown L \<Longrightarrow> select is_detail (We L s) = []"
  by (simp_all add: plain_markdown_def)

lemma field_facts_append [simp]: "field_facts (ns @ ms) = field_facts ns @ field_facts ms" "field_facts [] = []"
  by (simp_all add: field_facts_def)

lemma expanded_class:
  "(if b then ''expanded'' else ''collapsed'') @ x \<noteq> ''primitive''" "(if b then ''xxx-of-key'' else ''xxx-of-descr'') \<noteq> ''tr primitive''"
  by simp_all

lemma css_class: "css_type g \<noteq> ''tr primitive''"
proof
  assume "css_type g = ''tr primitive''"
  then have "length (css_type g) = 12" by simp
  then show False by (simp add: css_type_def)
qed

lemmas select_if = if_distrib [of "select P" for P]

lemma object_facts:
  assumes "plain_markdown L"
  shows "field_facts (tree_object lev L e t r n o1 a i s kids) = field_facts kids"
    and "field_facts (table_object lev L e t r n o1 a i kids) = field_facts kids"
proof -
  obtain c p where n: "entry_name n = (c, p)" by (cases "entry_name n")
  have "select is_row (open_bracket lev e t r a) = []" by (simp add: open_bracket_def Let_def row_El)
  then show "field_facts (tree_object lev L e t r n o1 a i s kids) = field_facts kids"
    using assms by (simp add: tree_object_def field_facts_def row_El markdown_plain n expanded_class select_if split del: if_split cong: if_cong)
  show "field_facts (table_object lev L e t r n o1 a i kids) = field_facts kids"
    using assms by (simp add: table_object_def field_facts_def row_El markdown_plain n expanded_class select_if Let_def split del: if_split cong: if_cong)
qed

lemma leaf_facts:
  assumes "plain_markdown L"
  shows "field_facts (tree_leaf this L e t n o1 i s) = field_facts (table_leaf this L e t n o1 i' s')"
proof -
  obtain c p where n: "entry_name n = (c, p)" by (cases "entry_name n")
  show ?thesis
    using assms by (simp add: tree_leaf_def table_leaf_def table_type_def field_facts_def row_facts_def row_El detail_El markdown_plain n css_class
      Let_def select_if if_distrib [of "map f" for f] split del: if_split cong: if_cong)
qed

lemma null_facts:
  "field_facts (tree_null t n) = []" "field_facts (table_null t n a) = []"
  "field_facts [El ''span'' [(''class'', ''key object'')] [] [Tx x, Tx y]] = []"
  "field_facts [El ''span'' [(''class'', ''td key object''), z] [] [Tx x]] = []"
  by (simp_all add: tree_null_def table_null_def field_facts_def row_El)

lemma hidden_same: "t = ''array'' \<longrightarrow> s = s' \<Longrightarrow> hidden_entry this e t s = hidden_entry this e t s'"
  by (auto simp: hidden_entry_def)

lemma views_agree:
  "plain_markdown L \<Longrightarrow> (t = ''array'' \<longrightarrow> s = s') \<Longrightarrow>
      field_facts (tree this L lev e t r n o1 a i s) = field_facts (rows this L lev e t r' n o1 a' i' s')"
  "plain_markdown L \<Longrightarrow> field_facts (tree_entries this L lev m a i) = field_facts (rows_entries this L lev m a' i')"
proof (induction this L lev e t r n o1 a i s and this L lev m a i arbitrary: r' a' i' s' and a' i' rule: tree_tree_entries.induct)
  case (1 this L lev e t r n o1 a i s)
  note h = hidden_same [OF "1.prems"(2)]
  show ?case
  proof (cases "hidden_entry this e t s \<or> \<not> js_truthy e \<or> \<not> has_keys e \<or> js_typeof e \<noteq> ''object''")
    case True
    then show ?thesis using leaf_facts [OF "1.prems"(1)] h
      by (auto simp: tree.simps [of this L lev e] rows.simps [of this L lev e] null_facts)
  next
    case False
    then show ?thesis using 1 h
      by (simp add: tree.simps [of this L lev e] rows.simps [of this L lev e] object_facts)
  qed
next
  case (3 this L lev t v m a i)
  then show ?case by simp
qed simp

section \<open>Properties\<close>


definition example_user :: js where
  "example_user =
     JObj [(''type'', JStr ''object''),
           (''properties'', JObj
              [(''id'', JObj [(''type'', JStr ''integer''), (''readOnly'', JBool True)]),
               (''name'', JObj [(''type'', JStr ''string''), (''minLength'', JNum ''3''), (''default'', JStr ''ann'')]),
               (''roles'', JObj [(''type'', JStr ''array''), (''items'', JObj [(''type'', JStr ''string''), (''enum'', JArr [JStr ''a'', JStr ''b''])])]),
               (''home'', JObj [(''type'', JStr ''object''), (''properties'', JObj [(''zip'', JObj [(''type'', JStr ''string''), (''deprecated'', JBool True)])])])])]"

definition example_view :: element where
  "example_view = (\<lambda>_. JUndef)(''data'' := (case DP example_user 0 [] of Some v \<Rightarrow> v | None \<Rightarrow> JUndef), ''schemaHideReadOnly'' := JStr ''true'')"


end
