(* ===== verification/Web_Controls.thy ===== *)
theory Web_Controls
  imports Web_Schema_View
begin

text \<open>
  Smaller elements of the documentation page (web/static/rapidoc-min.js): the input for a list of
  texts (\<open>tag-input\<close>), the frame of the JSON tree, and the brackets that a click opens and closes.
\<close>

section \<open>The element tag-input\<close>

text \<open>The state: the property \<open>value\<close>, and the text of the editor.\<close>

record tag_input =
  ti_value :: js
  ti_editor :: string

definition tag_input_render :: "js \<Rightarrow> js \<Rightarrow> dom list" where
  "tag_input_render placeholder value =
     [El ''div'' [(''class'', ''tags'')] []
        ((case value of
            JArr xs \<Rightarrow> map (\<lambda>e. El ''span'' [(''class'', ''tag'')] [] (shown e))
                         (filter (\<lambda>e. js_typeof e = ''string'' \<and> trimSpace (js_toString e) \<noteq> []) xs)
          | _ \<Rightarrow> []) @
         [El ''input'' [(''type'', ''text''), (''class'', ''editor''), (''placeholder'', js_toString (js_or placeholder (JStr [])))] [] []])]"

definition split_tags :: "string \<Rightarrow> js list" where
  "split_tags s = map JStr (filter (\<lambda>e. trimSpace e \<noteq> []) (splitOn (CHR '','') s))"

text \<open>A change of the attribute \<open>value\<close>.\<close>

definition tag_attribute_changed :: "string option \<Rightarrow> string option \<Rightarrow> js \<Rightarrow> js" where
  "tag_attribute_changed old new value =
     (case new of None \<Rightarrow> value | Some r \<Rightarrow> if r \<noteq> [] \<and> old \<noteq> new then JArr (split_tags r) else value)"

definition add_tags :: "js list \<Rightarrow> js \<Rightarrow> js" where
  "add_tags r value = (case value of JArr xs \<Rightarrow> JArr (xs @ r) | _ \<Rightarrow> JArr r)"

definition afterPaste :: "string \<Rightarrow> tag_input \<Rightarrow> tag_input" where
  "afterPaste t ti = (if t = [] then ti else ti\<lparr>ti_value := add_tags (split_tags t) (ti_value ti)\<rparr>)"

definition commit_editor :: "tag_input \<Rightarrow> tag_input" where
  "commit_editor ti =
     (if ti_editor ti \<noteq> [] then ti\<lparr>ti_value := add_tags [JStr (ti_editor ti)] (ti_value ti), ti_editor := []\<rparr> else ti)"

definition afterKeyDown :: "nat \<Rightarrow> tag_input \<Rightarrow> tag_input" where
  "afterKeyDown keyCode ti =
     (if keyCode = 13 then commit_editor ti
      else if keyCode = 8 \<and> ti_editor ti = []
      then (case ti_value ti of JArr xs \<Rightarrow> if xs \<noteq> [] then ti\<lparr>ti_value := JArr (butlast xs)\<rparr> else ti | _ \<Rightarrow> ti)
      else ti)"

definition onBlur :: "tag_input \<Rightarrow> tag_input" where
  "onBlur ti = commit_editor ti"

section \<open>The frame of the JSON tree\<close>

definition json_tree_render :: "js \<Rightarrow> html list" where
  "json_tree_render data =
     [Elem ''div'' [(''class'', ''json-tree'')]
        ([Elem ''div'' [(''class'', ''toolbar'')]
            [Elem ''button'' [(''class'', ''toolbar-btn btn-copy''), (''part'', ''btn btn-fill btn-copy'')] [Text ''Copy'']]] @
         generateTree data True)]"

section \<open>Brackets\<close>

text \<open>\<open>classList.replace(a, b)\<close> for distinct classes.\<close>

definition replace_class :: "string \<Rightarrow> string \<Rightarrow> string list \<Rightarrow> string list" where
  "replace_class a b cs = map (\<lambda>c. if c = a then b else c) cs"

text \<open>A click in the JSON tree: the classes and the text of the element.\<close>

definition toggleExpand :: "string list \<times> string \<Rightarrow> string list \<times> string" where
  "toggleExpand = (\<lambda>(cs, s).
     if ''open-bracket'' \<notin> set cs then (cs, s)
     else if ''expanded'' \<in> set cs
     then (replace_class ''expanded'' ''collapsed'' cs, if ''array'' \<in> set cs then ''[...]'' else ''{...}'')
     else (replace_class ''collapsed'' ''expanded'' cs, if ''array'' \<in> set cs then ''['' else ''{''))"

text \<open>
  A click in the tree of a schema: the classes of the row, and the classes, the attribute
  \<open>data-array-type\<close> and the text of the bracket.
\<close>

definition bracket_text :: "bool \<Rightarrow> string list \<Rightarrow> string \<Rightarrow> string" where
  "bracket_text expanded cs arrayType =
     (if expanded
      then (if ''array-of-object'' \<in> set cs then ''[{'' else if ''array-of-array'' \<in> set cs then ''[[ '' @ arrayType
            else if ''object'' \<in> set cs then ''{'' else ''['')
      else (if ''array-of-object'' \<in> set cs then ''[{...}]'' else if ''array-of-array'' \<in> set cs then ''[[...]]''
            else if ''array'' \<in> set cs then ''[...]'' else ''{...}''))"

definition toggleObjectExpand :: "string list \<Rightarrow> string \<Rightarrow> string list \<Rightarrow> string list \<times> string" where
  "toggleObjectExpand cs arrayType row =
     (if ''expanded'' \<in> set row then (replace_class ''expanded'' ''collapsed'' row, bracket_text False cs arrayType)
      else (replace_class ''collapsed'' ''expanded'' row, bracket_text True cs arrayType))"

text \<open>The switch between descriptions on one line and on several lines.\<close>

definition toggle_descriptions :: "js \<Rightarrow> js" where
  "toggle_descriptions v = (if v = JStr ''true'' then JStr ''false'' else JStr ''true'')"

section \<open>Facts\<close>

text \<open>What is typed and confirmed is deleted again by one backspace, and the text of a row that is
  opened and closed is the one with which the tree is drawn.\<close>

theorem tag_typed_and_deleted:
  "afterKeyDown 8 (afterKeyDown 13 \<lparr>ti_value = JArr xs, ti_editor = c # s\<rparr>) = \<lparr>ti_value = JArr xs, ti_editor = []\<rparr>"
  by (simp add: afterKeyDown_def commit_editor_def add_tags_def)

theorem bracket_as_drawn:
  "list_all (\<lambda>n. node_text n = bracket_text (a < lev) (js_split '' '' (the (attr ''class'' n)))
      (case attr ''data-array-type'' n of Some q \<Rightarrow> q | None \<Rightarrow> [])) (open_bracket lev e t r a)"
proof -
  have "js_split '' '' ''open-bracket array-of-object'' = [''open-bracket'', ''array-of-object'']"
    "js_split '' '' ''open-bracket array-of-array'' = [''open-bracket'', ''array-of-array'']"
    "js_split '' '' ''open-bracket object'' = [''open-bracket'', ''object'']"
    "js_split '' '' ''open-bracket array'' = [''open-bracket'', ''array'']" by code_simp+
  then show ?thesis by (simp add: open_bracket_def bracket_text_def Let_def)
qed

end
