(* ===== verification/Web_Auth.thy ===== *)
theory Web_Auth
  imports Web_Template
begin

text \<open>
  The templates of the documentation page (web/static/rapidoc-min.js) that show the security
  schemes: the flows of an OAuth scheme (\<open>dP\<close>), the section AUTHENTICATION (\<open>hP\<close>), the
  requirements of an operation (\<open>fP\<close>); and the code samples (\<open>mP\<close>) and the callbacks (\<open>yP\<close>) of an
  operation.
\<close>

section \<open>OAuth flows\<close>

text \<open>A URL that is not absolute is completed with the origin of the selected server.\<close>

definition is_absolute :: "string \<Rightarrow> bool" where
  "is_absolute e \<longleftrightarrow> (js_includes e ''://'' \<and> \<not> is_prefix ''://'' e) \<or> is_prefix ''//'' e"

definition complete_url :: "string \<Rightarrow> string \<Rightarrow> string" where
  "complete_url origin u =
     (if u \<noteq> [] \<and> \<not> is_absolute u then origin @ ''/'' @ trimPrefix u ''/'' else u)"

definition flow_title :: "js \<Rightarrow> js" where
  "flow_title e =
     (if e = JStr ''authorizationCode'' then JStr ''Authorization Code Flow''
      else if e = JStr ''clientCredentials'' then JStr ''Client Credentials Flow''
      else if e = JStr ''implicit'' then JStr ''Implicit Flow''
      else if e = JStr ''password'' then JStr ''Password Flow'' else e)"

definition server_origin :: "element \<Rightarrow> lib \<Rightarrow> string" where
  "server_origin this L = url_origin L (js_toString (js_get (this ''selectedServer'') ''computedUrl''))"

definition dP :: "element \<Rightarrow> lib \<Rightarrow> js \<Rightarrow> js \<Rightarrow> js \<Rightarrow> js
    \<Rightarrow> js \<Rightarrow> js \<Rightarrow> js \<Rightarrow> dom list" where
  "dP this L e t r n flow scopes sendIn =
     (let origin = server_origin this L; a = (if scopes = JUndef then JArr []
         else scopes); i = (if sendIn = JUndef then JStr ''header'' else sendIn);
          p = js_truthy (js_or (js_get flow ''x-pkce-only'') (JBool False)); h = flow_title e;
          s = complete_url origin (lit_str (js_get flow ''authorizationUrl''));
          l = complete_url origin (lit_str (js_get flow ''tokenUrl''));
          c = complete_url origin (lit_str (js_get flow ''refreshUrl'')) in
      [El ''div'' [(''class'', ''oauth-flow '' @ lit_str e), (''style'',
          ''padding: 12px 0; margin-bottom:12px;'')] []
         ([El ''div'' [(''class'', ''tiny-title upper''), (''style'', ''margin-bottom:8px;'')] [] (shown h)] @
          only_if (s \<noteq> [])
            [El ''div'' [(''style'', ''margin-bottom:5px'')] []
                [El ''span'' [(''style'', ''width:75px; display: inline-block;'')] [] [Tx ''Auth URL''],
                  El ''span'' [(''class'', ''mono-font'')] [] [Tx s]]] @
          only_if (l \<noteq> [])
            [El ''div'' [(''style'', ''margin-bottom:5px'')] []
                [El ''span'' [(''style'', ''width:75px; display: inline-block;'')] [] [Tx ''Token URL''],
                  El ''span'' [(''class'', ''mono-font'')] [] [Tx l]]] @
          only_if (c \<noteq> [])
            [El ''div'' [(''style'', ''margin-bottom:5px'')] []
                [El ''span'' [(''style'', ''width:75px; display: inline-block;'')] [] [Tx ''Refresh URL''],
                  El ''span'' [(''class'', ''mono-font'')] [] [Tx c]]] @
          only_if (((e = JStr ''authorizationCode'' \<or> e = JStr ''clientCredentials'')
              \<or> e = JStr ''implicit'') \<or> e = JStr ''password'')
            (only_if (js_truthy (js_get flow ''scopes''))
               [El ''span'' [] [] [Tx ''Scopes''],
                 El ''div'' [(''class'', ''oauth-scopes''), (''part'', ''section-auth-scopes''), (''style'',
                     ''width:100%; display:flex; flex-direction:column; flex-wrap:wrap; margin:0 0 10px 24px'')]
                     []
                   (concat (map (\<lambda>(r, t).
                       [El ''div'' [(''class'', ''m-checkbox''), (''style'',
                           ''display:inline-flex; align-items:center'')] []
                          [El ''input'' ([(''type'', ''checkbox''), (''part'',
                              ''checkbox checkbox-auth-scope''), (''class'', ''scope-checkbox''), (''id'',
                              lit_str n @ lit_str e @ showNat r)] @
                              flag (js_contains a (js_nth t 0)) ''checked'' @ [(''value'',
                              lit_str (js_nth t 0))]) [] [],
                            El ''label'' [(''for'', lit_str n @ lit_str e @ showNat r), (''style'',
                                ''margin-left:5px; cursor:pointer'')] []
                              ([El ''span'' [(''class'', ''mono-font'')] [] (shown (js_nth t 0))] @
                               only_if (js_nth t 0 \<noteq> js_nth t 1)
                                 [Tx ('' - '' @ js_toString (js_or (js_nth t 1) (JStr [])))])]])
                      (enumerate 0 (js_entries (js_get flow ''scopes'')))))] @
             only_if (e = JStr ''password'')
               [El ''div'' [(''style'', ''margin:5px 0'')] []
                   [El ''input'' [(''type'', ''text''), (''value'', []), (''placeholder'', ''username''),
                       (''spellcheck'', ''false''), (''class'', ''oauth2 '' @ lit_str e @ '' '' @ lit_str n @
                       '' api-key-user''), (''part'', ''textbox textbox-username'')] [] [],
                     El ''input'' [(''type'', ''password''), (''value'', []), (''placeholder'', ''password''),
                         (''spellcheck'', ''false''), (''class'', ''oauth2 '' @ lit_str e @ '' '' @ lit_str n @
                         '' api-key-password''), (''style'', ''margin:0 5px;''), (''part'',
                         ''textbox textbox-password'')] [] []]] @
             [El ''div'' [] []
                (only_if (e = JStr ''authorizationCode'')
                   [El ''div'' [(''style'', ''margin: 16px 0 4px'')] []
                       [El ''input'' ([(''type'', ''checkbox''), (''part'', ''checkbox checkbox-auth-scope''),
                           (''id'', lit_str n @ ''-pkce''), (''checked'', [])] @ flag (p) ''disabled'') [] [],
                         El ''label'' [(''for'', lit_str n @ ''-pkce''), (''style'',
                             ''margin:0 16px 0 4px; line-height:24px; cursor:pointer'')] []
                           [Tx ''Send Proof Key for Code Exchange (PKCE)'']]] @
                 [El ''input'' [(''type'', ''text''), (''part'', ''textbox textbox-auth-client-id''),
                     (''value'', js_toString (js_or t (JStr []))), (''placeholder'', ''client-id''),
                     (''spellcheck'', ''false''), (''class'', ''oauth2 '' @ lit_str e @ '' '' @ lit_str n @
                     '' oauth-client-id'')] [] []] @
                 only_if ((e = JStr ''authorizationCode'' \<or> e = JStr ''clientCredentials'')
                     \<or> e = JStr ''password'')
                   [El ''input'' [(''type'', ''password''), (''part'', ''textbox textbox-auth-client-secret''),
                       (''value'', js_toString (js_or r (JStr []))), (''placeholder'', ''client-secret''),
                       (''spellcheck'', ''false''), (''class'', ''oauth2 '' @ lit_str e @ '' '' @ lit_str n @
                       '' oauth-client-secret''), (''style'', ''margin:0 5px;'' @ (if p then ''display:none;''
                       else []))] [] [],
                     El ''select'' [(''style'', ''margin-right:5px;'' @ (if p then ''display:none;'' else [])),
                         (''class'', lit_str e @ '' '' @ lit_str n @ '' oauth-send-client-secret-in'')] []
                       [El ''option'' [(''value'', ''header'')] [(''selected'', JBool (i = JStr ''header''))]
                           [Tx ''Authorization Header''],
                         El ''option'' [(''value'', ''request-body'')] [(''selected'',
                             JBool (i = JStr ''request-body''))]
                           [Tx ''Request Body'']]] @
                 only_if (((e = JStr ''authorizationCode'' \<or> e = JStr ''clientCredentials'')
                     \<or> e = JStr ''implicit'') \<or> e = JStr ''password'')
                   [El ''button'' [(''class'', ''m-btn thin-border''), (''part'', ''btn btn-outline'')] []
                       [Tx ''GET TOKEN'']]),
              El ''div'' [(''class'', ''oauth-resp-display red-text small-font-size'')] [] []]))])"

section \<open>The section AUTHENTICATION\<close>

text \<open>The schemes with a key, \<open>undefined\<close> if there are no schemes.\<close>

definition applied_schemes :: "element \<Rightarrow> js" where
  "applied_schemes this =
     (case js_get (this ''resolvedSpec'') ''securitySchemes'' of
        JArr ss \<Rightarrow> JArr (filter (\<lambda>e. js_truthy (js_get e ''finalKeyValue'')) ss)
      | _ \<Rightarrow> JUndef)"

definition hP :: "element \<Rightarrow> lib \<Rightarrow> dom list" where
  "hP this L =
     (let t = applied_schemes this in
      if \<not> js_truthy (this ''resolvedSpec'') then []
      else (if js_truthy t then
         [El ''section'' [(''id'', ''auth''), (''part'', ''section-auth''), (''style'',
             ''text-align:left; direction:ltr; margin-top:24px; margin-bottom:24px;''), (''class'',
             ''observe-me '' @ (if js_includes ''read focused'' (js_toString (this ''renderStyle''))
             then ''section-gap--read-mode'' else ''section-gap ''))] []
            ([El ''div'' [(''class'', ''sub-title regular-font'')] [] [Tx ''AUTHENTICATION''],
              El ''div'' [(''class'', ''small-font-size''), (''style'',
                  ''display:flex; align-items: center; min-height:30px'')] []
                ((if js_len t > 0 then
                    [El ''div'' [(''class'', ''blue-text'')] [] [Tx (showNat (js_len t)),
                        Tx '' API key applied''],
                     El ''div'' [(''style'', ''flex:1'')] [] [],
                     El ''button'' [(''class'', ''m-btn thin-border''), (''part'', ''btn btn-outline'')] []
                       [Tx ''CLEAR ALL API KEYS'']]
                  else
                    [El ''div'' [(''class'', ''red-text'')] [] [Tx ''No API key applied'']]))] @
             only_if (js_truthy (js_get (this ''resolvedSpec'') ''securitySchemes'')
                 \<and> js_len (js_get (this ''resolvedSpec'') ''securitySchemes'') > 0)
               [El ''table'' [(''role'', ''presentation''), (''id'', ''auth-table''), (''class'',
                   ''m-table padded-12''), (''style'', ''width:100%;'')] []
                   (concat (map (\<lambda>e.
                       [El ''tr'' [(''id'', ''security-scheme-'' @ lit_str (js_get e ''securitySchemeId'')),
                           (''class'', toLower (js_toString (js_get e ''type'')))] []
                          [El ''td'' [(''style'', ''max-width:500px; overflow-wrap: break-word;'')] []
                              ([El ''div'' [(''style'', ''line-height:28px; margin-bottom:5px;'')] []
                                  ([El ''span'' [(''style'',
                                      ''font-weight:bold; font-size:var(--font-size-regular)'')] []
                                      (shown (js_get e ''typeDisplay''))] @
                                   only_if (js_truthy (js_get e ''finalKeyValue''))
                                     [El ''span'' [(''class'', ''blue-text'')] []
                                         (only_if (js_truthy (js_get e ''finalKeyValue''))
                                            [Tx ''Key Applied'']),
                                       El ''button'' [(''class'', ''m-btn thin-border small''), (''part'',
                                           ''btn btn-outline'')] []
                                         [Tx ''REMOVE'']])] @
                               only_if (js_truthy (js_get e ''description''))
                                 [El ''div'' [(''class'', ''m-markdown'')] []
                                     (We L (js_toString (js_or (js_get e ''description'') (JStr []))))] @
                               only_if (toLower (js_toString (js_get e ''type'')) = ''apikey''
                                   \<or> (toLower (js_toString (js_get e ''type'')) = ''http''
                                   \<and> toLower (js_toString (js_get e ''scheme'')) = ''bearer''))
                                 [El ''div'' [(''style'', ''margin-bottom:5px'')] []
                                     ((if toLower (js_toString (js_get e ''type'')) = ''apikey'' then
                                         [Tx ''Send '',
                                          El ''code'' [] [] (shown (js_get e ''name'')),
                                          Tx '' in '',
                                          El ''code'' [] [] (shown (js_get e ''in''))]
                                       else
                                         [Tx ''Send '',
                                          El ''code'' [] [] [Tx ''Authorization''],
                                          Tx '' in '',
                                          El ''code'' [] [] [Tx ''header''],
                                          Tx '' containing the word '',
                                          El ''code'' [] [] [Tx ''Bearer''],
                                          Tx '' followed by a space and a Token String.''])),
                                   El ''div'' [(''style'', ''max-height:28px;'')] []
                                     ((if js_get e ''in'' \<noteq> JStr ''cookie'' then
                                         [El ''input'' [(''type'', ''text''), (''value'',
                                             lit_str (js_get e ''value'')), (''class'',
                                             lit_str (js_get e ''type'') @ '' '' @
                                             lit_str (js_get e ''securitySchemeId'') @ '' api-key-input''),
                                             (''placeholder'', ''api-token''), (''spellcheck'',
                                             ''false'')] [] [],
                                          El ''button'' [(''class'', ''m-btn thin-border''), (''style'',
                                              ''margin-left:5px;''), (''part'', ''btn btn-outline'')] []
                                            ((if js_truthy (js_get e ''finalKeyValue'') then
                                                [Tx ''UPDATE'']
                                              else
                                                [Tx ''SET'']))]
                                       else
                                         [El ''span'' [(''class'', ''gray-text''), (''style'',
                                             ''font-size::var(--font-size-small)'')] []
                                            [Tx ''cookies cannot be set from here'']]))] @
                               only_if (toLower (js_toString (js_get e ''type'')) = ''http''
                                   \<and> toLower (js_toString (js_get e ''scheme'')) = ''basic'')
                                 [El ''div'' [(''style'', ''margin-bottom:5px'')] []
                                     [Tx ''Send '',
                                       El ''code'' [] [] [Tx ''Authorization''],
                                       Tx '' in '',
                                       El ''code'' [] [] [Tx ''header''],
                                       Tx '' containing the word '',
                                       El ''code'' [] [] [Tx ''Basic''],
                                       Tx '' followed by a space and a base64 encoded string of '',
                                       El ''code'' [] [] [Tx ''username:password''],
                                       Tx ''.''],
                                   El ''div'' [] []
                                     [El ''input'' [(''type'', ''text''), (''value'',
                                         lit_str (js_get e ''user'')), (''placeholder'', ''username''),
                                         (''spellcheck'', ''false''), (''class'', lit_str (js_get e ''type'') @
                                         '' '' @ lit_str (js_get e ''securitySchemeId'') @ '' api-key-user''),
                                         (''style'', ''width:100px'')] [] [],
                                       El ''input'' [(''type'', ''password''), (''value'',
                                           lit_str (js_get e ''password'')), (''placeholder'', ''password''),
                                           (''spellcheck'', ''false''), (''class'',
                                           lit_str (js_get e ''type'') @ '' '' @
                                           lit_str (js_get e ''securitySchemeId'') @ '' api-key-password''),
                                           (''style'', ''width:100px; margin:0 5px;'')] [] [],
                                       El ''button'' [(''class'', ''m-btn thin-border''), (''part'',
                                           ''btn btn-outline'')] []
                                         ((if js_truthy (js_get e ''finalKeyValue'') then
                                             [Tx ''UPDATE'']
                                           else
                                             [Tx ''SET'']))]])]] @
                       only_if (toLower (js_toString (js_get e ''type'')) = ''oauth2'')
                         [El ''tr'' [] []
                             [El ''td'' [(''style'', ''border:none; padding-left:48px'')] []
                                 (concat (map (\<lambda>t.
                                     dP this L t (js_or (js_or (js_get (js_get (js_get e ''flows'')
                                         (js_toString t)) ''x-client-id'') (js_get e ''x-client-id'')) (JStr
                                         [])) (js_or (js_or (js_get (js_get (js_get e ''flows'') (js_toString
                                         t)) ''x-client-secret'') (js_get e ''x-client-secret'')) (JStr []))
                                         (js_get e ''securitySchemeId'') (js_get (js_get e ''flows'')
                                         (js_toString t)) (js_or (js_get (js_get (js_get e ''flows'')
                                         (js_toString t)) ''x-default-scopes'') (js_get e
                                         ''x-default-scopes'')) (js_or (js_get (js_get (js_get e ''flows'')
                                         (js_toString t)) ''x-receive-token-in'') (js_get e
                                         ''x-receive-token-in'')))
                                    (map JStr (js_keys (js_get e ''flows'')))))]])
                      (js_list (js_get (this ''resolvedSpec'') ''securitySchemes''))))] @
             [El ''slot'' [(''name'', ''auth'')] [] []])]
       else
         shown JUndef))"

section \<open>The requirements of an operation\<close>

definition find_js_scheme :: "element \<Rightarrow> string \<Rightarrow> js" where
  "find_js_scheme this i =
     (case find (\<lambda>e. js_get e ''securitySchemeId'' = JStr i) (js_list (js_get (this ''resolvedSpec'') ''securitySchemes'')) of
        Some e \<Rightarrow> e | None \<Rightarrow> JUndef)"

text \<open>\<open>{...a, scopes: o}\<close>\<close>

definition with_scopes :: "js \<Rightarrow> string \<Rightarrow> js" where
  "with_scopes a o1 = (case a of JObj m \<Rightarrow> JObj (with_str ''scopes'' o1 m) | _ \<Rightarrow> JObj [(''scopes'', JStr o1)])"

definition required_defs :: "element \<Rightarrow> js \<Rightarrow> js list" where
  "required_defs this e =
     concat (map (\<lambda>t.
       let o1 = (case js_get e t of JArr xs \<Rightarrow> js_join '', '' xs | _ \<Rightarrow> []); a = find_js_scheme this t in
       if js_truthy a then [with_scopes a o1] else []) (js_keys e))"

definition security_types :: "js list \<Rightarrow> js" where
  "security_types n =
     (case n of
        [] \<Rightarrow> JUndef
      | [x] \<Rightarrow> js_get x ''typeDisplay''
      | x # xs \<Rightarrow> JStr (js_toString (js_get x ''typeDisplay'') @ '' + '' @ showNat (length xs) @ '' more''))"

definition security_choice :: "element \<Rightarrow> js \<Rightarrow> js" where
  "security_choice this e =
     (if js_keys e = [] then JObj [(''securityTypes'', JStr ''None''), (''securityDefs'', JArr [])]
      else JObj [(''securityTypes'', security_types (required_defs this e)), (''securityDefs'', JArr (required_defs this e))])"

definition required_scopes :: "js \<Rightarrow> dom list" where
  "required_scopes t =
     only_if (js_get t ''scopes'' \<noteq> JStr [])
       [El ''div'' [] []
           [El ''b'' [] [] [Tx ''Required scopes:''],
             El ''br'' [] [] [],
             El ''div'' [(''style'', ''margin-left:8px'')] []
               (concat (map (\<lambda>(t, e).
                   only_if (\<not> (t = 0))
                     [Tx bar] @
                   [El ''span'' [] [] (shown e)])
                  (enumerate 0 (map JStr (js_split '','' (js_toString (js_get t ''scopes'')))))))]]"

definition required_def :: "js \<Rightarrow> nat \<Rightarrow> js \<Rightarrow> dom list" where
  "required_def e r t =
     (if js_get t ''type'' = JStr ''oauth2'' then
        [El ''div'' [] []
           ((if js_len (js_get e ''securityDefs'') > 1 then
               [El ''b'' [] [] [Tx (showNat (r + 1)), Tx ''.''],
                Tx ('' '' @ nbsp)]
             else
               [Tx ''Needs'']) @
            [Tx '' OAuth Token '',
             El ''span'' [(''style'', ''font-family:var(--font-mono); color:var(--primary-color);'')] []
               (shown (js_get t ''securitySchemeId'')),
             Tx '' in '',
             El ''b'' [] [] [Tx ''Authorization header'']] @
            required_scopes t)]
      else
        (if js_get t ''type'' = JStr ''http'' then
           [El ''div'' [] []
              ((if js_len (js_get e ''securityDefs'') > 1 then
                  [El ''b'' [] [] [Tx (showNat (r + 1)), Tx ''.''],
                   Tx ('' '' @ nbsp)]
                else
                  [Tx ''Requires'']) @
               (if js_get t ''scheme'' = JStr ''basic'' then
                  [Tx ''Base 64 encoded username:password'']
                else
                  [Tx ''Bearer Token'']) @
               [Tx '' in '',
                El ''b'' [] [] [Tx ''Authorization header'']] @
               required_scopes t)]
         else
           [El ''div'' [] []
              ((if js_len (js_get e ''securityDefs'') > 1 then
                  [El ''b'' [] [] [Tx (showNat (r + 1)), Tx ''.''],
                   Tx ('' '' @ nbsp)]
                else
                  [Tx ''Requires'']) @
               [Tx '' Token in '',
                El ''b'' [] [] (shown (js_get t ''name'') @ shown (js_get t ''in''))] @
               required_scopes t)]))"

definition fP :: "element \<Rightarrow> js \<Rightarrow> dom list" where
  "fP this e =
     (if js_truthy (js_get (this ''resolvedSpec'') ''securitySchemes'') \<and> js_truthy e
         \<and> js_list e \<noteq> [] then
        (let t = JArr (map (security_choice this) (js_list e)) in
         [El ''div'' [(''style'',
             ''position:absolute; top:3px; right:2px; font-size:var(--font-size-small); line-height: 1.5;'')] []
            [El ''div'' [(''style'',
                ''position:relative; display:flex; min-width:350px; max-width:700px; justify-content: flex-end;'')]
                []
                ([El ''svg'' [(''width'', ''24''), (''height'', ''24''), (''viewBox'', ''0 0 24 24''),
                    (''stroke-width'', ''1.5''), (''fill'', ''none''), (''style'', ''stroke:var(--fg3)'')] []
                    [El ''rect'' [(''x'', ''5''), (''y'', ''11''), (''width'', ''14''), (''height'', ''10''),
                        (''rx'', ''2'')] [] [],
                      El ''circle'' [(''cx'', ''12''), (''cy'', ''16''), (''r'', ''1'')] [] [],
                      El ''path'' [(''d'', ''M8 11v-4a4 4 0 0 1 8 0v4'')] [] []]] @
                 concat (map (\<lambda>(t, e).
                    only_if (js_truthy (js_get e ''securityTypes''))
                      (only_if (t \<noteq> 0)
                         [El ''div'' [(''style'', ''padding:3px 4px;'')] [] [Tx ''OR'']] @
                       [El ''div'' [(''class'', ''tooltip'')] []
                          [El ''div'' [(''style'',
                              ''padding:2px 4px; white-space:nowrap; text-overflow:ellipsis;max-width:150px; overflow:hidden;'')]
                              []
                              ((if this ''updateRoute'' = JStr ''true''
                                  \<and> this ''allowAuthentication'' = JStr ''true'' then
                                  [El ''a'' [(''part'', ''anchor anchor-operation-security''), (''href'',
                                      ''#auth'')] []
                                     (shown (js_get e ''securityTypes''))]
                                else
                                  shown (js_get e ''securityTypes''))),
                            El ''div'' [(''class'', ''tooltip-text''), (''style'',
                                ''position:absolute; color: var(--fg); top:26px; right:0; border:1px solid var(--border-color);padding:2px 4px; display:block;'')]
                                []
                              (only_if (js_len (js_get e ''securityDefs'') > 1)
                                 [El ''div'' [] []
                                     [Tx ''Requires '',
                                       El ''b'' [] [] [Tx ''all''],
                                       Tx '' of the following'']] @
                               [El ''div'' [(''style'', ''padding-left: 8px'')] []
                                  (concat (map (\<lambda>(r, t). required_def e r t) (enumerate 0 (js_list
                                      (js_get e ''securityDefs'')))))])]]))
                   (enumerate 0 (js_list t))))]])
      else [])"

section \<open>Code samples and callbacks\<close>

definition sample_code :: "lib \<Rightarrow> js \<Rightarrow> dom list" where
  "sample_code L e =
     (let lang = toLower (js_toString (js_get e ''lang'')) in
      if js_has_props (js_get e ''lang'') \<and> knows_language L lang
      then highlight L (js_toString (js_get e ''source'')) lang else shown (js_get e ''source''))"

definition mP :: "lib \<Rightarrow> js \<Rightarrow> dom list" where
  "mP L e =
     [El ''section'' [(''class'', ''table-title''), (''style'', ''margin-top:24px;'')] []
        [Tx ''CODE SAMPLES'',
          El ''div'' [(''class'', ''tab-panel col'')] []
            ([El ''div'' [(''class'', ''tab-buttons row''), (''style'', ''width:100; overflow'')] []
                (concat (map (\<lambda>(t, e).
                    [El ''button'' [(''class'', ''tab-btn '' @ (if t = 0 then ''active'' else [])),
                        (''data-tab'', lit_str (js_get e ''lang'') @ showNat t)] []
                       (shown (js_or (js_get e ''label'') (js_get e ''lang'')))])
                   (enumerate 0 (js_list e))))] @
             concat (map (\<lambda>(t, e).
                [El ''div'' [(''class'', ''tab-content m-markdown''), (''style'', ''display:'' @ (if t = 0
                    then ''block'' else ''none'')), (''data-tab'', lit_str (js_get e ''lang'') @ showNat t)] []
                   [El ''button'' [(''class'', ''toolbar-btn''), (''style'',
                       ''position:absolute; top:12px; right:8px'')] []
                       [Tx ''Copy''],
                     El ''pre'' [] []
                       [El ''code'' [(''class'', ''language'')] [] (sample_code L e)]]])
               (enumerate 0 (js_list e))))]]"

definition yP :: "element \<Rightarrow> js \<Rightarrow> dom list" where
  "yP this e =
     [El ''div'' [(''class'', ''req-res-title''), (''style'', ''margin-top:12px'')] [] [Tx ''CALLBACKS'']] @
     concat (map (\<lambda>e.
        [El ''div'' [(''class'', ''tiny-title''), (''style'',
            ''padding: 12px; border:1px solid var(--light-border-color)'')] []
           (shown (js_nth e 0) @
            concat (map (\<lambda>e.
               [El ''div'' [(''class'', ''mono-font small-font-size''), (''style'',
                   ''display:flex; margin-left:16px;'')] []
                  [El ''div'' [(''style'', ''width:100%'')] []
                      (concat (map (\<lambda>t.
                          [El ''div'' [] []
                             [El ''div'' [(''style'', ''margin-top:12px;'')] []
                                 [El ''div'' [(''class'', ''method method-fg '' @ lit_str (js_nth t 0)),
                                     (''style'',
                                     ''width:70px; border:none; margin:0; padding:0; line-height:20px; vertical-align: baseline;text-align:left'')]
                                     []
                                     ([El ''span'' [(''style'', ''font-size:20px;'')] []
                                         [Tx ([CHR 0xE2, CHR 0xA5, CHR 0x84])]] @
                                      shown (js_nth t 0)),
                                   El ''span'' [(''style'', ''line-height:20px; vertical-align: baseline;'')] []
                                     (shown (js_nth e 0))],
                               El ''div'' [(''class'', ''expanded-req-resp-container'')] []
                                 [El ''api-request'' [(''class'', lit_str (this ''renderStyle'') @
                                     ''-mode callback''), (''style'', ''width:100%;''), (''callback'',
                                     ''true''), (''method'', js_toString (js_or (js_nth t 0) (JStr []))),
                                     (''path'', js_toString (js_or (js_nth e 0) (JStr []))),
                                     (''fill-request-fields-with-example'',
                                     lit_str (this ''fillRequestFieldsWithExample'')), (''allow-try'',
                                     ''false''), (''render-style'', lit_str (this ''renderStyle'')),
                                     (''schema-style'', lit_str (this ''schemaStyle'')),
                                     (''active-schema-tab'', lit_str (this ''defaultSchemaTab'')),
                                     (''schema-expand-level'', lit_str (this ''schemaExpandLevel'')),
                                     (''schema-description-expanded'',
                                     lit_str (this ''schemaDescriptionExpanded'')),
                                     (''allow-schema-description-expand-toggle'',
                                     lit_str (this ''allowSchemaDescriptionExpandToggle'')),
                                     (''schema-hide-read-only'', ''false''), (''schema-hide-write-only'',
                                     if this ''schemaHideWriteOnly'' = JStr ''never'' then ''false''
                                     else ''true''), (''fetch-credentials'',
                                     lit_str (this ''fetchCredentials'')), (''exportparts'',
                                     ''wrap-request-btn:wrap-request-btn, btn:btn, btn-fill:btn-fill, btn-outline:btn-outline, btn-try:btn-try, btn-clear:btn-clear, btn-clear-resp:btn-clear-resp, file-input:file-input, textbox:textbox, textbox-param:textbox-param, textarea:textarea, textarea-param:textarea-param, anchor:anchor, anchor-param-example:anchor-param-example, schema-description:schema-description, schema-multiline-toggle:schema-multiline-toggle'')]
                                     [(''parameters'', js_or (js_get (js_nth t 1) ''parameters'') (JStr [])),
                                     (''request_body'', js_or (js_get (js_nth t 1) ''requestBody'') (JStr []))]
                                     [],
                                   El ''api-response'' [(''style'', ''width:100%;''), (''class'',
                                       lit_str (this ''renderStyle'') @ ''-mode''), (''callback'', ''true''),
                                       (''render-style'', lit_str (this ''renderStyle'')), (''schema-style'',
                                       lit_str (this ''schemaStyle'')), (''active-schema-tab'',
                                       lit_str (this ''defaultSchemaTab'')), (''schema-expand-level'',
                                       lit_str (this ''schemaExpandLevel'')), (''schema-description-expanded'',
                                       lit_str (this ''schemaDescriptionExpanded'')),
                                       (''allow-schema-description-expand-toggle'',
                                       lit_str (this ''allowSchemaDescriptionExpandToggle'')),
                                       (''schema-hide-read-only'',
                                       if this ''schemaHideReadOnly'' = JStr ''never'' then ''false''
                                       else ''true''), (''schema-hide-write-only'', ''false''),
                                       (''exportparts'',
                                       ''btn:btn, btn-response-status:btn-response-status, btn-selected-response-status:btn-selected-response-status, btn-fill:btn-fill, btn-copy:btn-copy, schema-description:schema-description, schema-multiline-toggle:schema-multiline-toggle'')]
                                       [(''responses'', js_get (js_nth t 1) ''responses'')] []]]])
                         (js_entries (js_nth e 1))))]])
              (js_entries (js_nth e 1))))])
       (js_entries e))"

end
