(* ===== verification/Web_Pages.thy ===== *)
theory Web_Pages
  imports Web_Auth Web_Schema_View
begin

text \<open>
  The pages of the documentation (web/static/rapidoc-min.js): an operation as the read and focused
  modes show it (\<open>HP\<close>) and as the view mode shows it (\<open>uR\<close>, \<open>hR\<close>), the tags (\<open>WP\<close>, \<open>fR\<close>), the
  components (\<open>KP\<close>), the overview (\<open>YP\<close>), the servers (\<open>eR\<close>) with the operations that select one
  (\<open>ZP\<close>) and compute its URL (\<open>QP\<close>), the navigation bar (\<open>nR\<close>), the page of the focused element
  (\<open>lR\<close>), the header (\<open>mR\<close>), the search dialog (\<open>gR\<close>) and the whole page (\<open>wR\<close>); and the viewer for
  JSON schemas (\<open>SR\<close>, \<open>AR\<close>, \<open>ER\<close>).
\<close>

section \<open>Helpers\<close>

definition schema_model :: "js \<Rightarrow> js" where
  "schema_model e = (case DP e 0 [] of Some v \<Rightarrow> v | None \<Rightarrow> JUndef)"

text \<open>Whether an operation matches the text of a search.\<close>

definition lt :: "lib \<Rightarrow> string \<Rightarrow> js \<Rightarrow> string \<Rightarrow> bool" where
  "lt L e t r =
     (if r = ''includes''
      then js_includes (toLower (js_toString (js_get t ''method'') @ '' '' @ js_toString (js_get t ''path'') @ '' '' @
             js_toString (js_or (js_or (js_get t ''summary'') (js_get t ''description'')) (JStr [])) @ '' '' @
             js_toString (js_or (js_get t ''operationId'') (JStr [])))) (toLower e)
      else regex_test L e (js_toString (js_get t ''method'') @ '' '' @ js_toString (js_get t ''path'')))"

text \<open>The media types of the responses of an operation, without repetition.\<close>

definition response_types :: "js \<Rightarrow> string list" where
  "response_types e =
     concat (map (\<lambda>(_, r). map (\<lambda>(k, _). trimSpace k) (js_fields (js_get r ''content''))) (js_fields (js_get e ''responses'')))"

definition accept_types :: "js \<Rightarrow> string" where
  "accept_types e = joinStr '', '' (rev (remdups (rev (response_types e))))"

definition obj_of :: "js \<Rightarrow> obj" where
  "obj_of e = (case e of JObj m \<Rightarrow> m | _ \<Rightarrow> [])"

definition request_keys :: "element \<Rightarrow> js \<Rightarrow> js" where
  "request_keys this e =
     JArr (map JObj (operation_keys (js_get e ''security'') (map obj_of (js_list (js_get (this ''resolvedSpec'') ''securitySchemes'')))))"

section \<open>An operation\<close>

definition HP :: "element \<Rightarrow> lib \<Rightarrow> js \<Rightarrow> js \<Rightarrow> js \<Rightarrow>
    dom list" where
  "HP this L e t r =
     (let f = accept_types e; m = request_keys this e;
          g = (if js_truthy (js_get e ''xCodeSamples'') then mP L (js_get e ''xCodeSamples'') else []) in
      only_if (this ''renderStyle'' = JStr ''read'')
        [El ''div'' [(''class'', ''divider''), (''part'', ''operation-divider'')] [] []] @
      [El ''div'' [(''class'', ''expanded-endpoint-body observe-me '' @ lit_str (js_get e ''method'') @ '' '' @
          (if js_truthy (js_get e ''deprecated'') then ''deprecated'' else []) @ '' ''),
          (''part'', ''section-operation '' @ lit_str (js_get e ''elementId'')), (''id'',
          lit_str (js_get e ''elementId''))] []
         (only_if (this ''renderStyle'' = JStr ''focused'' \<and> t \<noteq> JStr (''General '' @ [CHR 0xE2,
             CHR 0xA6, CHR 0x82]))
            [El ''div'' [(''class'', ''tag-container''), (''part'', ''section-operation-tag'')] []
                ([El ''span'' [(''class'', ''upper''), (''style'', ''font-weight:bold; font-size:18px;'')] []
                    (shown t)] @
                 only_if (js_truthy r)
                   [El ''svg'' [(''class'', ''tag-icon collapsed''), (''width'', ''24''), (''height'', ''24''),
                       (''viewBox'', ''0 0 24 24''), (''stroke-width'', ''2''), (''fill'', ''none''),
                       (''style'', ''stroke:var(--primary-color); vertical-align:top; cursor:pointer'')] []
                       [El ''path'' [(''d'', ''M12 20h-6a2 2 0 0 1 -2 -2v-12a2 2 0 0 1 2 -2h8'')] [] [],
                         El ''path'' [(''d'', ''M18 4v17'')] [] [],
                         El ''path'' [(''d'', ''M15 18l3 3l3 -3'')] [] []],
                     El ''div'' [(''class'', ''tag-description collapsed''),
                         (''style'',
                         ''max-height:0px; overflow:hidden; margin-top:16px; border:1px solid var(--border-color)'')]
                         []
                       [El ''div'' [(''class'', ''m-markdown''),
                           (''style'', ''padding:8px'')] [] (We L (lit_str r))]])] @
          only_if (js_truthy (js_get e ''deprecated''))
            [El ''div'' [(''class'', ''bold-text red-text'')] [] [Tx ''DEPRECATED'']] @
          only_if (js_truthy (js_get e ''xBadges'') \<and> js_len (js_get e ''xBadges'') > 0)
            [El ''div'' [(''style'',
                ''display:flex; flex-wrap:wrap; margin-bottom: -24px; font-size: var(--font-size-small);'')] []
                (concat (map (\<lambda>e.
                    [El ''span'' [(''style'',
                        ''margin:1px; margin-right:5px; padding:1px 8px; font-weight:bold; border-radius:12px; background-color: var(--light-''
                        @ lit_str (js_get e ''color'') @ '', var(--input-bg)); color:var(--'' @
                        lit_str (js_get e ''color'') @ ''); border:1px solid var(--'' @
                        lit_str (js_get e ''color'') @ '')'')] []
                       (shown (js_get e ''label''))])
                   (js_list (js_get e ''xBadges''))))] @
          [El ''h2'' [(''part'', ''section-operation-summary'')] []
             (shown (js_or (js_get e ''shortSummary'') (JStr (toUpper (js_toString (js_get e ''method'')) @
                 '' '' @ js_toString (js_get e ''path'')))))] @
          (if js_truthy (js_get e ''isWebhook'') then
             [El ''span'' [(''part'', ''section-operation-webhook''),
                 (''style'',
                 ''color:var(--primary-color); font-weight:bold; font-size: var(--font-size-regular);'')] []
                [Tx ''WEBHOOK'']]
           else
             [El ''div'' [(''part'', ''section-operation-webhook-method''),
                 (''class'', ''mono-font regular-font-size''),
                 (''style'', ''text-align:left; direction:ltr; padding: 8px 0; color:var(--fg3)'')] []
                [El ''span'' [(''part'', ''label-operation-method''),
                    (''class'', ''regular-font upper method-fg bold-text '' @ lit_str (js_get e ''method''))] []
                    (shown (js_get e ''method'')),
                  El ''span'' [(''part'', ''label-operation-path'')] [] (shown (js_get e ''path''))]]) @
          [El ''slot'' [(''name'', lit_str (js_get e ''elementId''))] [] []] @
          only_if (js_truthy (js_get e ''description''))
            [El ''div'' [(''class'', ''m-markdown'')] [] (We L (lit_str (js_get e ''description'')))] @
          fP this (js_get e ''security'') @
          only_if (js_truthy (js_get (js_get e ''externalDocs'') ''url'')
              \<or> js_truthy (js_get (js_get e ''externalDocs'') ''description''))
            [El ''div'' [(''style'',
                ''background-color:var(--bg3); padding:2px 8px 8px 8px; margin:8px 0; border-radius:var(--border-radius)'')]
                []
                ([El ''div'' [(''class'', ''m-markdown'')] []
                    (We L (js_toString (js_or (js_get (js_get e ''externalDocs'') ''description'') (JStr
                        []))))] @
                 only_if (js_truthy (js_get (js_get e ''externalDocs'') ''url''))
                   [El ''a'' [(''style'', ''font-family:var(--font-mono); font-size:var(--font-size-small)''),
                       (''href'', lit_str (js_get (js_get e ''externalDocs'') ''url'')),
                       (''target'', ''_blank'')] []
                       (shown (js_get (js_get e ''externalDocs'') ''url'') @
                        [El ''div'' [(''style'',
                            ''transform: rotate(270deg) scale(1.5); display: inline-block; margin-left:5px'')]
                            []
                           [Tx ([CHR 0xE2, CHR 0x87, CHR 0xB2])]])])] @
          g @
          [El ''div'' [(''class'', ''expanded-req-resp-container'')] []
             ([El ''api-request'' [(''class'', lit_str (this ''renderStyle'') @ ''-mode''),
                 (''style'', ''width:100%;''), (''webhook'', lit_str (js_get e ''isWebhook'')), (''method'',
                 lit_str (js_get e ''method'')), (''path'', lit_str (js_get e ''path'')), (''server-url'',
                 lit_str (js_or (js_get (js_nth (js_get e ''servers'') 0) ''url'') (js_get (this
                 ''selectedServer'') ''computedUrl''))), (''fill-request-fields-with-example'',
                 lit_str (this ''fillRequestFieldsWithExample'')), (''allow-try'',
                 lit_str (this ''allowTry'')), (''show-curl-before-try'',
                 lit_str (this ''showCurlBeforeTry'')), (''accept'', f), (''render-style'',
                 lit_str (this ''renderStyle'')), (''schema-style'', lit_str (this ''schemaStyle'')),
                 (''active-schema-tab'', lit_str (this ''defaultSchemaTab'')), (''schema-expand-level'',
                 lit_str (this ''schemaExpandLevel'')), (''schema-description-expanded'',
                 lit_str (this ''schemaDescriptionExpanded'')), (''allow-schema-description-expand-toggle'',
                 lit_str (this ''allowSchemaDescriptionExpandToggle'')), (''schema-hide-read-only'',
                 if this ''schemaHideReadOnly'' = JStr ''never'' \<or> js_truthy (js_get e ''isWebhook'')
                 then ''false'' else ''true''), (''schema-hide-write-only'',
                 if this ''schemaHideWriteOnly'' = JStr ''never'' then ''false''
                 else if js_truthy (js_get e ''isWebhook'') then ''true'' else ''false''),
                 (''fetch-credentials'', lit_str (this ''fetchCredentials'')),
                 (''exportparts'',
                 ''wrap-request-btn:wrap-request-btn, btn:btn, btn-fill:btn-fill, btn-outline:btn-outline, btn-try:btn-try, btn-clear:btn-clear, btn-clear-resp:btn-clear-resp, file-input:file-input, textbox:textbox, textbox-param:textbox-param, textarea:textarea, textarea-param:textarea-param, anchor:anchor, anchor-param-example:anchor-param-example, schema-description:schema-description, schema-multiline-toggle:schema-multiline-toggle'')]
                 [(''security'', js_get e ''security''), (''parameters'', js_get e ''parameters''),
                 (''request_body'', js_get e ''requestBody''), (''api_keys'', m), (''servers'',
                 js_get e ''servers'')] []] @
              only_if (js_truthy (js_get e ''callbacks''))
                (yP this (js_get e ''callbacks'')) @
              [El ''api-response'' [(''class'', lit_str (this ''renderStyle'') @ ''-mode''),
                  (''style'', ''width:100%;''), (''webhook'', lit_str (js_get e ''isWebhook'')),
                  (''render-style'', lit_str (this ''renderStyle'')), (''schema-style'',
                  lit_str (this ''schemaStyle'')), (''active-schema-tab'',
                  lit_str (this ''defaultSchemaTab'')), (''schema-expand-level'',
                  lit_str (this ''schemaExpandLevel'')), (''schema-description-expanded'',
                  lit_str (this ''schemaDescriptionExpanded'')), (''allow-schema-description-expand-toggle'',
                  lit_str (this ''allowSchemaDescriptionExpandToggle'')), (''schema-hide-read-only'',
                  if this ''schemaHideReadOnly'' = JStr ''never'' then ''false''
                  else if js_truthy (js_get e ''isWebhook'') then ''true'' else ''false''),
                  (''schema-hide-write-only'', if this ''schemaHideWriteOnly'' = JStr ''never''
                  \<or> js_truthy (js_get e ''isWebhook'') then ''false'' else ''true''), (''selected-status'',
                  js_toString (js_or (js_nth (JArr (map JStr (js_keys (js_or (js_get e ''responses'') (JObj
                  []))))) 0) (JStr []))), (''exportparts'',
                  ''btn:btn, btn-response-status:btn-response-status, btn-selected-response-status:btn-selected-response-status, btn-fill:btn-fill, btn-copy:btn-copy, schema-description:schema-description, schema-multiline-toggle:schema-multiline-toggle'')]
                  [(''responses'', js_get e ''responses'')] []])])])"

definition WP :: "element \<Rightarrow> lib \<Rightarrow> dom list" where
  "WP this L =
     only_if (js_truthy (this ''resolvedSpec''))
       (concat (map (\<lambda>e.
           [El ''section'' [(''id'', lit_str (js_get e ''elementId'')), (''part'', ''section-tag''),
               (''class'', ''regular-font section-gap--read-mode observe-me''),
               (''style'', ''border-top:1px solid var(--primary-color);'')] []
              [El ''div'' [(''class'', ''title tag''), (''part'', ''section-tag-title label-tag-title'')] []
                  (shown (js_get e ''name'')),
                El ''slot'' [(''name'', lit_str (js_get e ''elementId''))] [] [],
                El ''div'' [(''class'', ''regular-font-size'')] []
                  [El ''div'' [(''class'', ''m-markdown regular-font'')] []
                      ((if this ''infoDescriptionHeadingsInNavBar'' = JStr ''true''
                          then We_headings L (js_toString (js_get e ''elementId'')) (js_toString (js_or (js_get
                          e ''description'') (JStr []))) else We L (js_toString (js_or (js_get e
                          ''description'') (JStr [])))))]],
            El ''section'' [(''class'', ''regular-font section-gap--read-mode''),
                (''part'', ''section-operations-in-tag'')] []
              (concat (map (\<lambda>e.
                  HP this L e (JStr []) (JStr []))
                 (js_list (js_get e ''paths''))))])
          (js_list (js_get (this ''resolvedSpec'') ''tags''))))"

section \<open>Components\<close>

definition VP :: "element \<Rightarrow> lib \<Rightarrow> js \<Rightarrow> dom list" where
  "VP this L e =
     [El ''div'' [(''class'', ''divider'')] [] [],
      El ''div'' [(''class'', ''expanded-endpoint-body observe-me '' @ lit_str (js_get e ''name'')),
          (''id'', ''cmp--'' @ lit_str (js_get e ''id''))] []
        ([El ''div'' [(''style'', ''font-weight:bold'')] []
            (shown (js_get e ''name'') @
             [El ''span'' [(''style'',
                 ''color:var(--light-fg); font-size:var(--font-size-small); font-weight:400;'')] []
                [Tx ''Schema'']])] @
         (if this ''schemaStyle'' = JStr ''table'' then
            [El ''schema-table'' [(''schema-expand-level'', lit_str (this ''schemaExpandLevel'')),
                (''schema-description-expanded'', lit_str (this ''schemaDescriptionExpanded'')),
                (''allow-schema-description-expand-toggle'', lit_str (this
                ''allowSchemaDescriptionExpandToggle'')), (''schema-hide-read-only'', ''false''),
                (''schema-hide-write-only'', lit_str (this ''schemaHideWriteOnly'')),
                (''exportparts'',
                ''schema-description:schema-description, schema-multiline-toggle:schema-multiline-toggle'')]
                [(''data'', schema_model (js_get e ''component''))] []]
          else
            [El ''schema-tree'' [(''schema-expand-level'', lit_str (this ''schemaExpandLevel'')),
                (''schema-description-expanded'', lit_str (this ''schemaDescriptionExpanded'')),
                (''allow-schema-description-expand-toggle'', lit_str (this
                ''allowSchemaDescriptionExpandToggle'')), (''schema-hide-read-only'', ''false''),
                (''schema-hide-write-only'', lit_str (this ''schemaHideWriteOnly'')),
                (''exportparts'',
                ''schema-description:schema-description, schema-multiline-toggle:schema-multiline-toggle'')]
                [(''data'', schema_model (js_get e ''component''))] []]))]"

definition GP :: "element \<Rightarrow> lib \<Rightarrow> js \<Rightarrow> js \<Rightarrow> dom list" where
  "GP this L e t =
     (if js_includes (js_toString (js_get e ''id'')) ''schemas-'' then
        VP this L e
      else
        [El ''div'' [(''class'', ''divider'')] [] [],
         El ''div'' [(''class'', ''expanded-endpoint-body observe-me '' @ lit_str (js_get e ''name'')),
             (''id'', ''cmp--'' @ lit_str (js_get e ''id''))] []
           ([El ''div'' [(''style'', ''font-weight:bold'')] []
               (shown (js_get e ''name'') @
                [El ''span'' [(''style'',
                    ''color:var(--light-fg); font-size:var(--font-size-small); font-weight:400'')] []
                   (shown t)])] @
            only_if (js_truthy (js_get e ''component''))
              [El ''div'' [(''class'', ''mono-font regular-font-size''),
                  (''style'', ''padding: 8px 0; color:var(--fg2)'')] []
                  [El ''json-tree'' [(''class'', ''border tree''), (''render-style'',
                      lit_str (this ''renderStyle''))] [(''data'', js_get e ''component'')] []]])])"

definition KP :: "element \<Rightarrow> lib \<Rightarrow> dom list" where
  "KP this L =
     only_if (js_truthy (this ''resolvedSpec''))
       (concat (map (\<lambda>e.
           [El ''div'' [(''id'', ''cmp--'' @ toLower (js_toString (js_get e ''name''))),
               (''class'', ''regular-font section-gap--read-mode observe-me''),
               (''style'', ''border-top:1px solid var(--primary-color);'')] []
              [El ''div'' [(''class'', ''title tag'')] [] (shown (js_get e ''name'')),
                El ''div'' [(''class'', ''regular-font-size'')] []
                  [El ''div'' [(''class'', ''m-markdown regular-font'')] []
                      (We L (if js_truthy (js_get e ''description'') then lit_str (js_get e ''description'')
                          else []))]],
            El ''div'' [(''class'', ''regular-font section-gap--read-mode'')] []
              (concat (map (\<lambda>t.
                  GP this L t (js_get e ''name''))
                 (filter (\<lambda>e. JBool False \<noteq> js_get e ''expanded'') (js_list (js_get e
                     ''subComponents'')))))])
          (js_list (js_get (this ''resolvedSpec'') ''components''))))"

section \<open>The overview and the servers\<close>

definition YP :: "element \<Rightarrow> lib \<Rightarrow> dom list" where
  "YP this L =
     [El ''section'' [(''id'', ''overview''), (''part'', ''section-overview''), (''class'', ''observe-me '' @
         (if this ''renderStyle'' = JStr ''view'' then ''section-gap'' else ''section-gap--read-mode''))] []
        (only_if (js_truthy (js_get (this ''resolvedSpec'') ''info''))
           [El ''div'' [(''id'', ''api-title''), (''part'', ''section-overview-title''),
               (''style'', ''font-size:32px'')] []
               (shown (js_get (js_get (this ''resolvedSpec'') ''info'') ''title'') @
                only_if (js_truthy (js_get (js_get (this ''resolvedSpec'') ''info'') ''version''))
                  [El ''span'' [(''style'', ''font-size:var(--font-size-small);font-weight:bold'')] []
                      (shown (js_get (js_get (this ''resolvedSpec'') ''info'') ''version''))]),
             El ''div'' [(''id'', ''api-info''), (''style'',
                 ''font-size:calc(var(--font-size-regular) - 1px); margin-top:8px;'')] []
               (only_if (js_truthy (js_get (js_get (js_get (this ''resolvedSpec'') ''info'') ''contact'')
                   ''email''))
                  [El ''span'' [] []
                      (shown (js_or (js_get (js_get (js_get (this ''resolvedSpec'') ''info'') ''contact'')
                          ''name'') (JStr ''Email'')) @
                       [Tx '':'',
                        El ''a'' [(''href'', ''mailto:'' @ lit_str (js_get (js_get (js_get (this
                            ''resolvedSpec'') ''info'') ''contact'') ''email'')),
                            (''part'', ''anchor anchor-overview'')] []
                          (shown (js_get (js_get (js_get (this ''resolvedSpec'') ''info'') ''contact'')
                              ''email''))])] @
                only_if (js_truthy (js_get (js_get (js_get (this ''resolvedSpec'') ''info'') ''contact'')
                    ''url''))
                  [El ''span'' [] []
                      [Tx ''URL: '',
                        El ''a'' [(''href'', lit_str (js_get (js_get (js_get (this ''resolvedSpec'') ''info'')
                            ''contact'') ''url'')), (''part'', ''anchor anchor-overview'')] []
                          (shown (js_get (js_get (js_get (this ''resolvedSpec'') ''info'') ''contact'')
                              ''url''))]] @
                only_if (js_truthy (js_get (js_get (this ''resolvedSpec'') ''info'') ''license''))
                  [El ''span'' [] []
                      ([Tx ''License: ''] @
                       (if js_truthy (js_get (js_get (js_get (this ''resolvedSpec'') ''info'') ''license'')
                           ''url'') then
                          [El ''a'' [(''href'', lit_str (js_get (js_get (js_get (this ''resolvedSpec'')
                              ''info'') ''license'') ''url'')), (''part'', ''anchor anchor-overview'')] []
                             (shown (js_get (js_get (js_get (this ''resolvedSpec'') ''info'') ''license'')
                                 ''name''))]
                        else
                          shown (js_get (js_get (js_get (this ''resolvedSpec'') ''info'') ''license'')
                              ''name'')))] @
                only_if (js_truthy (js_get (js_get (this ''resolvedSpec'') ''info'') ''termsOfService''))
                  [El ''span'' [] []
                      [El ''a'' [(''href'', lit_str (js_get (js_get (this ''resolvedSpec'') ''info'')
                          ''termsOfService'')), (''part'', ''anchor anchor-overview'')] []
                          [Tx ''Terms of Service'']]] @
                only_if (js_truthy (this ''specUrl'') \<and> this ''allowSpecFileDownload'' = JStr ''true'')
                  [El ''div'' [(''style'', ''display:flex; margin:12px 0; gap:8px; justify-content: start;'')]
                      []
                      ([El ''button'' [(''class'', ''m-btn thin-border''), (''style'', ''min-width:170px''),
                          (''part'', ''btn btn-outline'')] []
                          [Tx ''Download OpenAPI spec'']] @
                       only_if (hasSuffix (toLower (trimSpace (js_toString (this ''specUrl'')))) ''json'')
                         [El ''button'' [(''class'', ''m-btn thin-border''), (''style'', ''width:200px''),
                             (''part'', ''btn btn-outline'')] []
                             [Tx ''View OpenAPI spec (New Tab)'']])]),
             El ''slot'' [(''name'', ''overview'')] [] [],
             El ''div'' [(''id'', ''api-description'')] []
               (only_if (js_truthy (js_get (js_get (this ''resolvedSpec'') ''info'') ''description''))
                  [El ''div'' [(''class'', ''m-markdown regular-font'')] []
                      ((if this ''infoDescriptionHeadingsInNavBar'' = JStr ''true''
                          then We_headings L ''overview'' (lit_str (js_get (js_get (this ''resolvedSpec'')
                          ''info'') ''description'')) else We L (lit_str (js_get (js_get (this
                          ''resolvedSpec'') ''info'') ''description''))))])])]"

text \<open>
  The server that is selected: \<open>None\<close> if no server has the URL. A server is replaced by its update
  where \<open>QP\<close> computes its URL from the values of the inputs.
\<close>

definition ZP :: "element \<Rightarrow> string \<Rightarrow> js option" where
  "ZP this u = find (\<lambda>t. js_get t ''url'' = JStr u) (js_list (js_get (this ''resolvedSpec'') ''servers''))"

text \<open>\<open>n.replace(new RegExp(`{${v}}`, "g"), x)\<close>, for names without special characters and values without a dollar.\<close>

function replace_all :: "string \<Rightarrow> string \<Rightarrow> string \<Rightarrow> string" where
  "replace_all p x s =
     (if p \<noteq> [] \<and> is_prefix p s then x @ replace_all p x (drop (length p) s)
      else (case s of [] \<Rightarrow> [] | c # cs \<Rightarrow> c # replace_all p x cs))"
  by pat_completeness auto
termination
proof (relation "measure (\<lambda>(p, x, s). length s)")
  fix p x s :: string
  assume "p \<noteq> [] \<and> is_prefix p s"
  then have "0 < length p" "length p \<le> length s" using is_prefix_length by auto
  then have "length s - length p < length s" by linarith
  then show "((p, x, drop (length p) s), p, x, s) \<in> measure (\<lambda>(p, x, s). length s)" by simp
qed simp_all

declare replace_all.simps [simp del]

definition computed_url :: "string \<Rightarrow> (string \<times> string) list \<Rightarrow> string" where
  "computed_url url inputs = fold (\<lambda>(v, x) n. replace_all (''{'' @ v @ ''}'') x n) inputs url"

definition QP :: "js \<Rightarrow> (string \<times> string) list \<Rightarrow> js" where
  "QP server inputs =
     JObj (with_str ''computedUrl'' (computed_url (js_toString (js_get server ''url'')) inputs) (obj_of server))"

definition XP :: "element \<Rightarrow> lib \<Rightarrow> dom list" where
  "XP this L =
     only_if (js_truthy (this ''selectedServer'') \<and> js_truthy (js_get (this ''selectedServer'')
         ''variables''))
       [El ''div'' [(''class'', ''table-title'')] [] [Tx ''SERVER VARIABLES''],
         El ''table'' [(''class'', ''m-table''), (''role'', ''presentation'')] []
           (concat (map (\<lambda>e.
               [El ''tr'' [] []
                  [El ''td'' [(''style'', ''vertical-align: middle;'')] [] (shown (js_nth e 0)),
                    El ''td'' [] []
                      ((if js_truthy (js_get (js_nth e 1) ''enum'') then
                          [El ''select'' [(''data-var'', lit_str (js_nth e 0))] []
                             (concat (map (\<lambda>t.
                                 (if js_get (js_nth e 1) ''default'' = js_nth t 1 then
                                    [El ''option'' [(''selected'', []), (''label'', lit_str (js_nth t 1)),
                                        (''value'', lit_str (js_nth t 1))] [] []]
                                  else
                                    [El ''option'' [(''label'', lit_str (js_nth t 1)), (''value'',
                                        lit_str (js_nth t 1))] [] []]))
                                (js_entries (js_get (js_nth e 1) ''enum''))))]
                        else
                          [El ''input'' [(''type'', ''text''), (''part'', ''textbox textbox-server-var''),
                              (''spellcheck'', ''false''), (''data-var'', lit_str (js_nth e 0)), (''value'',
                              lit_str (js_get (js_nth e 1) ''default''))] [] []]))]] @
               only_if (js_truthy (js_get (js_nth e 1) ''description''))
                 [El ''tr'' [] []
                     [El ''td'' [(''colspan'', ''2''), (''style'', ''border:none'')] []
                         [El ''span'' [(''class'', ''m-markdown-small'')] []
                             (We L (lit_str (js_get (js_nth e 1) ''description'')))]]])
              (js_entries (js_get (this ''selectedServer'') ''variables''))))]"

definition eR :: "element \<Rightarrow> lib \<Rightarrow> dom list" where
  "eR this L =
     only_if (\<not> (\<not> (js_truthy (this ''resolvedSpec''))
         \<or> js_truthy (js_get (this ''resolvedSpec'') ''specLoadError'')))
       [El ''section'' [(''id'', ''servers''), (''part'', ''section-servers''),
           (''style'', ''text-align:left; direction:ltr; margin-top:24px; margin-bottom:24px;''),
           (''class'', ''regular-font observe-me '' @ (if js_includes ''read focused'' (js_toString (this
           ''renderStyle'')) then ''section-gap--read-mode'' else ''section-gap''))] []
           ([El ''div'' [(''part'', ''section-servers-title''),
               (''class'', ''sub-title'')] [] [Tx ''API SERVER''],
             El ''div'' [(''class'', ''mono-font''), (''style'',
                 ''margin: 12px 0; font-size:calc(var(--font-size-small) + 1px);'')] []
               (only_if (js_truthy (js_get (this ''resolvedSpec'') ''servers'')
                   \<and> js_len (js_get (this ''resolvedSpec'') ''servers'') \<noteq> 0)
                  (concat (map (\<lambda>(t, e).
                      [El ''input'' [(''type'', ''radio''), (''name'', ''api_server''),
                          (''id'', ''srvr-opt-'' @ showNat t), (''value'', lit_str (js_get e ''url'')),
                          (''style'', ''margin:4px 0; cursor:pointer'')] [(''checked'',
                          JBool (js_get (this ''selectedServer'') ''url'' = js_get e ''url''))] [],
                       El ''label'' [(''style'', ''cursor:pointer''), (''for'', ''srvr-opt-'' @ showNat t)] []
                         (shown (js_get e ''url'') @
                          only_if (js_truthy (js_get e ''description''))
                            [Tx ''- '',
                              El ''span'' [(''class'', ''regular-font'')] [] (shown (js_get e
                                  ''description''))]),
                       El ''br'' [] [] []])
                     (enumerate 0 (js_list (js_get (this ''resolvedSpec'') ''servers''))))) @
                [El ''div'' [(''class'', ''table-title primary-text''),
                    (''part'', ''label-selected-server'')] []
                   ([Tx ''SELECTED: ''] @
                    shown (js_or (js_get (this ''selectedServer'') ''computedUrl'') (JStr ''none'')))]),
             El ''slot'' [(''name'', ''servers'')] [] []] @
            XP this L)]"

section \<open>The navigation bar\<close>

definition nR :: "element \<Rightarrow> lib \<Rightarrow> dom list" where
  "nR this L =
     (if \<not> (js_truthy (this ''resolvedSpec'')) \<or> js_truthy (js_get (this ''resolvedSpec'')
         ''specLoadError'') then
        [El ''nav'' [(''class'', ''nav-bar''), (''part'', ''section-navbar'')] []
           [El ''slot'' [(''name'', ''nav-logo''), (''class'', ''logo'')] [] []]]
      else
        [El ''nav'' [(''class'', ''nav-bar '' @ lit_str (this ''renderStyle'')),
            (''part'', ''section-navbar'')] []
           ([El ''slot'' [(''name'', ''nav-logo''), (''class'', ''logo'')] [] []] @
            only_if (\<not> (this ''allowSearch'' = JStr ''false''
                \<and> this ''allowAdvancedSearch'' = JStr ''false''))
              [El ''div'' [(''style'',
                  ''display:flex; flex-direction:row; justify-content:center; align-items:stretch; padding:8px 24px 12px 24px; ''
                  @ (if this ''allowAdvancedSearch'' = JStr ''false''
                  then ''border-bottom: 1px solid var(--nav-hover-bg-color)'' else [])),
                  (''part'', ''section-navbar-search'')] []
                  (only_if (\<not> (this ''allowSearch'' = JStr ''false''))
                     ([El ''div'' [(''style'', ''display:flex; flex:1; line-height:22px;'')] []
                         [El ''input'' [(''id'', ''nav-bar-search''),
                             (''part'', ''textbox textbox-nav-filter''),
                             (''style'',
                             ''width:100%; padding-right:20px; color:var(--nav-hover-text-color); border-color:var(--nav-accent-color); background-color:var(--nav-hover-bg-color)''),
                             (''type'', ''text''), (''placeholder'', ''Filter''),
                             (''spellcheck'', ''false'')] [] [],
                           El ''div'' [(''style'',
                               ''margin: 6px 5px 0 -24px; font-size:var(--font-size-regular); cursor:pointer;'')]
                               []
                             [Tx ([CHR 0xE2, CHR 0x86, CHR 0xA9])]]] @
                      only_if (js_truthy (this ''matchPaths''))
                        [El ''button'' [(''class'', ''m-btn thin-border''),
                            (''style'',
                            ''margin-left:5px; color:var(--nav-text-color); width:75px; padding:6px 8px;''),
                            (''part'', ''btn btn-outline btn-clear-filter'')] []
                            [Tx ''CLEAR'']]) @
                   only_if (\<not> (this ''allowAdvancedSearch'' = JStr ''false''
                       \<or> js_truthy (this ''matchPaths'')))
                     [El ''button'' [(''class'', ''m-btn primary''), (''part'', ''btn btn-fill btn-search''),
                         (''style'', ''margin-left:5px; padding:6px 8px; width:75px'')] []
                         [Tx ''SEARCH'']])] @
            [El ''nav'' [(''class'', ''nav-scroll''), (''tabindex'', ''-1''),
                (''part'', ''section-navbar-scroll'')] []
               (only_if (this ''showInfo'' \<noteq> JStr ''false''
                   \<and> js_truthy (js_get (this ''resolvedSpec'') ''info''))
                  ((if this ''infoDescriptionHeadingsInNavBar'' = JStr ''true'' then
                      only_if (js_len (js_get (this ''resolvedSpec'') ''infoDescriptionHeaders'') > 0)
                        [El ''div'' [(''class'', ''nav-bar-info '' @ lit_str (this ''navActiveItemMarker'')),
                            (''id'', ''link-overview''), (''data-content-id'', ''overview''),
                            (''data-action'', ''navigate''), (''tabindex'', ''0''),
                            (''part'', ''section-navbar-item section-navbar-overview'')] []
                            (shown (js_or (JStr (trimSpace (js_toString (js_get (js_get (this ''resolvedSpec'')
                                ''info'') ''title'')))) (JStr ''Overview'')))] @
                      [El ''div'' [(''class'', ''overview-headers'')] []
                         (concat (map (\<lambda>e.
                             [El ''div'' [(''class'', ''nav-bar-h'' @ lit_str (js_get e ''depth'') @ '' '' @
                                 lit_str (this ''navActiveItemMarker'')), (''id'', ''link-overview--'' @
                                 slug L (js_toString (js_get e ''text''))), (''data-action'', ''navigate''),
                                 (''data-content-id'', ''overview--'' @
                                 slug L (js_toString (js_get e ''text'')))] []
                                (shown (js_get e ''text''))])
                            (js_list (js_get (this ''resolvedSpec'') ''infoDescriptionHeaders''))))] @
                      only_if (js_len (js_get (this ''resolvedSpec'') ''infoDescriptionHeaders'') > 0)
                        [El ''hr'' [(''style'',
                            ''border-top: 1px solid var(--nav-hover-bg-color); border-width:1px 0 0 0; margin: 15px 0 0 0'')]
                            [] []]
                    else
                      [El ''div'' [(''class'', ''nav-bar-info '' @ lit_str (this ''navActiveItemMarker'')),
                          (''id'', ''link-overview''), (''data-action'', ''navigate''),
                          (''data-content-id'', ''overview''), (''tabindex'', ''0'')] []
                         (shown (js_or (JStr (trimSpace (js_toString (js_get (js_get (this ''resolvedSpec'')
                             ''info'') ''title'')))) (JStr ''Overview'')))])) @
                only_if (\<not> (this ''allowServerSelection'' = JStr ''false''))
                  [El ''div'' [(''class'', ''nav-bar-info '' @ lit_str (this ''navActiveItemMarker'')),
                      (''id'', ''link-servers''), (''data-action'', ''navigate''),
                      (''data-content-id'', ''servers''), (''tabindex'', ''0''),
                      (''part'', ''section-navbar-item section-navbar-servers'')] []
                      [Tx ''API Servers'']] @
                only_if (this ''allowAuthentication'' \<noteq> JStr ''false''
                    \<and> js_truthy (js_get (this ''resolvedSpec'') ''securitySchemes''))
                  [El ''div'' [(''class'', ''nav-bar-info '' @ lit_str (this ''navActiveItemMarker'')),
                      (''id'', ''link-auth''), (''data-action'', ''navigate''),
                      (''data-content-id'', ''auth''), (''tabindex'', ''0''),
                      (''part'', ''section-navbar-item section-navbar-auth'')] []
                      [Tx ''Authentication'']] @
                [El ''div'' [(''id'', ''link-operations-top''), (''class'', ''nav-bar-section operations''),
                    (''data-action'', ''navigate''), (''data-content-id'',
                    if this ''renderStyle'' = JStr ''focused'' then [] else ''operations-top''),
                    (''part'', ''section-navbar-item section-navbar-operations-top'')] []
                   [El ''div'' [(''style'', ''font-size:16px; display:flex; margin-left:10px;'')] []
                       (only_if (this ''renderStyle'' = JStr ''focused'')
                          [El ''div'' [(''class'', ''nav-bar-expand-all''), (''data-action'', ''expand-all''),
                              (''tabindex'', ''0''), (''title'', ''Expand all'')] []
                              [Tx ([CHR 0xE2, CHR 0x96, CHR 0xB8])],
                            El ''div'' [(''class'', ''nav-bar-collapse-all''),
                                (''data-action'', ''collapse-all''), (''tabindex'', ''0''),
                                (''title'', ''Collapse all'')] []
                              [Tx ([CHR 0xE2, CHR 0x96, CHR 0xB8])]]),
                     El ''div'' [(''class'', ''nav-bar-section-title'')] [] [Tx ''OPERATIONS'']]] @
                concat (map (\<lambda>e.
                   [El ''div'' [(''class'', ''nav-bar-tag-and-paths '' @
                       (if this ''renderStyle'' = JStr ''read'' \<or> js_truthy (js_get e ''expanded'')
                       then ''expanded'' else ''collapsed''))] []
                      ((if js_get e ''name'' = JStr (''General '' @ [CHR 0xE2, CHR 0xA6, CHR 0x82]) then
                          [El ''hr'' [(''style'',
                              ''border:none; border-top: 1px dotted var(--nav-text-color); opacity:0.3; margin:-1px 0 0 0;'')]
                              [] []]
                        else
                          [El ''div'' [(''class'', ''nav-bar-tag '' @ lit_str (this ''navActiveItemMarker'')),
                              (''part'', ''section-navbar-item section-navbar-tag''), (''id'', ''link-'' @
                              lit_str (js_get e ''elementId'')), (''data-action'',
                              if this ''renderStyle'' = JStr ''read''
                              \<or> this ''onNavTagClick'' = JStr ''show-description'' then ''navigate''
                              else ''expand-collapse-tag''), (''data-content-id'',
                              if if this ''renderStyle'' = JStr ''read''
                              then js_truthy (JStr (js_toString (js_get e ''elementId'')))
                              else this ''onNavTagClick'' = JStr ''show-description''
                              then js_toString (js_get e ''elementId'') else []), (''data-first-path-id'',
                              lit_str (js_get e ''firstPathId'')), (''tabindex'', ''0'')] []
                             [El ''div'' [(''style'', ''pointer-events:none;'')] [] (shown (js_get e ''name'')),
                               El ''div'' [(''class'', ''nav-bar-tag-icon''), (''tabindex'', ''0''),
                                   (''data-action'', ''expand-collapse-tag'')] [] []]]) @
                       only_if (this ''infoDescriptionHeadingsInNavBar'' = JStr ''true'')
                         (only_if (\<not> (this ''renderStyle'' = JStr ''focused''
                             \<and> this ''onNavTagClick'' = JStr ''expand-collapse''))
                            [El ''div'' [(''class'', ''tag-headers'')] []
                                (concat (map (\<lambda>t.
                                    [El ''div'' [(''class'', ''nav-bar-h'' @ lit_str (js_get t ''depth'') @
                                        '' '' @ lit_str (this ''navActiveItemMarker'')),
                                        (''part'', ''section-navbar-item section-navbar-h'' @
                                        lit_str (js_get t ''depth'')), (''id'', ''link-'' @
                                        lit_str (js_get e ''elementId'') @ ''--'' @
                                        slug L (js_toString (js_get t ''text''))),
                                        (''data-action'', ''navigate''), (''data-content-id'',
                                        lit_str (js_get e ''elementId'') @ ''--'' @
                                        slug L (js_toString (js_get t ''text''))), (''tabindex'', ''0'')] []
                                       (shown (js_get t ''text''))])
                                   (js_list (js_get e ''headers''))))]) @
                       [El ''div'' [(''class'', ''nav-bar-paths-under-tag''), (''style'', ''max-height:'' @
                           showNat (if js_truthy (js_get e ''expanded'')
                           \<or> this ''renderStyle'' = JStr ''read''
                           then 50 * (if js_len (js_get e ''paths'') \<noteq> 0
                           then js_len (js_get e ''paths'') else 1) else 0) @ ''px;'')] []
                          (concat (map (\<lambda>e.
                              [El ''div'' [(''class'', ''nav-bar-path '' @
                                  lit_str (this ''navActiveItemMarker'') @ '' '' @
                                  (if this ''usePathInNavBar'' = JStr ''true'' then ''small-font'' else [])),
                                  (''part'', ''section-navbar-item section-navbar-path''),
                                  (''data-action'', ''navigate''), (''data-content-id'',
                                  lit_str (js_get e ''elementId'')), (''id'', ''link-'' @
                                  lit_str (js_get e ''elementId'')), (''tabindex'', ''0'')] []
                                 [El ''span'' [(''style'',
                                     ''display:flex; pointer-events: none; align-items:start; '' @
                                     (if js_truthy (js_get e ''deprecated'') then ''filter:opacity(0.5)''
                                     else []))] []
                                     ([El ''span'' [(''class'', ''nav-method '' @
                                         lit_str (this ''showMethodInNavBar'') @ '' '' @
                                         lit_str (js_get e ''method'')),
                                         (''style'', ''pointer-events: none;'')] []
                                         ((if this ''showMethodInNavBar'' = JStr ''as-colored-block'' then
                                             [Tx (toUpper (take 3 (js_toString (js_get e ''method''))))]
                                           else
                                             [Tx (toUpper (js_toString (js_get e ''method'')))]))] @
                                      only_if (js_truthy (js_get e ''isWebhook''))
                                        [El ''span'' [(''style'',
                                            ''font-weight:bold; pointer-events: none; margin-right:8px; font-size: calc(var(--font-size-small) - 2px)'')]
                                            []
                                            [Tx ''WEBHOOK'']] @
                                      (if this ''usePathInNavBar'' = JStr ''true'' then
                                         [El ''span'' [(''style'', ''pointer-events: none;''),
                                             (''class'', ''mono-font'')] []
                                            (shown (js_get e ''path''))]
                                       else
                                         shown (js_or (js_get e ''summary'') (js_get e ''shortSummary''))))]])
                             (filter (\<lambda>e. \<not> (js_truthy (this ''matchPaths''))
                                 \<or> lt L (js_toString (this ''matchPaths'')) e (js_toString (this
                                 ''matchType''))) (js_list (js_get e ''paths'')))))])])
                  (filter (\<lambda>e. js_len (JArr (filter (\<lambda>e. lt L (js_toString (this
                      ''matchPaths'')) e (js_toString (this ''matchType''))) (js_list (js_get e ''paths''))))
                      \<noteq> 0) (js_list (js_get (this ''resolvedSpec'') ''tags'')))) @
                only_if ((js_truthy (js_get (this ''resolvedSpec'') ''components'')
                    \<and> this ''showComponents'' = JStr ''true'')
                    \<and> this ''renderStyle'' = JStr ''focused'')
                  ([El ''div'' [(''id'', ''link-components''), (''class'', ''nav-bar-section components'')] []
                      [El ''div'' [] [] [],
                        El ''div'' [(''class'', ''nav-bar-section-title'')] [] [Tx ''COMPONENTS'']]] @
                   concat (map (\<lambda>e.
                      only_if (js_len (js_get e ''subComponents'') \<noteq> 0)
                        ([El ''div'' [(''class'', ''nav-bar-tag''),
                            (''part'', ''section-navbar-item section-navbar-tag''),
                            (''data-action'', ''navigate''), (''data-content-id'', ''cmp--'' @
                            toLower (js_toString (js_get e ''name''))), (''id'', ''link-cmp--'' @
                            toLower (js_toString (js_get e ''name'')))] []
                            (shown (js_get e ''name''))] @
                         concat (map (\<lambda>e.
                            [El ''div'' [(''class'', ''nav-bar-path''), (''data-action'', ''navigate''),
                                (''data-content-id'', ''cmp--'' @ lit_str (js_get e ''id'')),
                                (''id'', ''link-cmp--'' @ lit_str (js_get e ''id''))] []
                               [El ''span'' [] [] (shown (js_get e ''name''))]])
                           (filter (\<lambda>e. JBool False \<noteq> js_get e ''expanded'') (js_list (js_get e
                               ''subComponents''))))))
                     (js_list (js_get (this ''resolvedSpec'') ''components'')))))])])"

section \<open>The focused element\<close>

definition aR :: "dom list \<Rightarrow> dom list" where
  "aR e =
     [El ''div'' [(''class'', ''regular-font section-gap--focused-mode''),
         (''part'', ''section-operations-in-tag'')] []
        (e)]"

definition iR :: "element \<Rightarrow> lib \<Rightarrow> dom list" where
  "iR this L =
     (if this ''showInfo'' = JStr ''true'' then aR (YP this L)
      else let t = js_nth (js_get (this ''resolvedSpec'') ''tags'') 0; r = js_nth (js_get t ''paths'') 0 in
           aR (if js_truthy t \<and> js_truthy r then HP this L r (js_get t ''name'') (JStr []) else []))"

definition sR :: "element \<Rightarrow> lib \<Rightarrow> js \<Rightarrow> dom list" where
  "sR this L e =
     [El ''h1'' [(''id'', lit_str (js_get e ''elementId''))] [] (shown (js_get e ''name''))] @
     only_if (this ''onNavTagClick'' = JStr ''show-description'' \<and> js_truthy (js_get e ''description''))
       [El ''div'' [(''class'', ''m-markdown'')] []
           [El ''div'' [(''class'', ''m-markdown regular-font'')] []
               ((if this ''infoDescriptionHeadingsInNavBar'' = JStr ''true''
                   then We_headings L (js_toString (js_get e ''elementId'')) (js_toString (js_or (js_get e
                   ''description'') (JStr []))) else We L (js_toString (js_or (js_get e ''description'') (JStr
                   [])))))]]"

definition operations_top :: "dom list" where
  "operations_top =
     [El ''div'' [(''id'', ''operations-top''), (''class'', ''observe-me'')] []
        [El ''slot'' [(''name'', ''operations-top'')] [] []]]"

text \<open>\<open>e.indexOf("--", 4) > 0 ? e.substring(0, e.indexOf("--", 5)) : e\<close>\<close>

definition tag_part :: "string \<Rightarrow> string" where
  "tag_part e =
     (if js_includes (drop 4 e) ''--''
      then (if js_includes (drop 5 e) ''--'' then take 5 e @ hd (js_split ''--'' (drop 5 e)) else [])
      else e)"

text \<open>The operation with an element id, with its tag: the first one in the order of the tags.\<close>

fun find_operation :: "string \<Rightarrow> js list \<Rightarrow> (js \<times> js) option" where
  "find_operation i [] = None"
| "find_operation i (n # ns) =
     (case find (\<lambda>t. js_toString (js_get t ''elementId'') = i) (js_list (js_get n ''paths'')) of
        Some r \<Rightarrow> Some (n, r)
      | None \<Rightarrow> find_operation i ns)"

definition lR :: "element \<Rightarrow> lib \<Rightarrow> dom list" where
  "lR this L =
     (let e = js_toString (this ''focusedElementId''); tags = js_list (js_get (this ''resolvedSpec'') ''tags'') in
      if \<not> js_truthy (this ''focusedElementId'') \<or> \<not> js_truthy (this ''resolvedSpec'') then []
      else if is_prefix ''overview'' e \<and> this ''showInfo'' = JStr ''true'' then YP this L
      else if e = ''auth'' \<and> this ''allowAuthentication'' = JStr ''true'' then hP this L
      else if e = ''servers'' \<and> this ''allowServerSelection'' = JStr ''true'' then eR this L
      else if e = ''operations-top'' then operations_top
      else if is_prefix ''cmp--'' e \<and> this ''showComponents'' = JStr ''true'' then KP this L
      else if is_prefix ''tag--'' e then
        (case find (\<lambda>t. js_get t ''elementId'' = JStr (tag_part e)) tags of
           Some n \<Rightarrow> aR (sR this L n) | None \<Rightarrow> iR this L)
      else (case find_operation e tags of
              Some (n, r) \<Rightarrow> aR (HP this L r (js_or (js_get n ''name'') (JStr [])) (js_or (js_get n ''description'') (JStr [])))
            | None \<Rightarrow> iR this L))"

section \<open>The view mode\<close>

definition uR :: "element \<Rightarrow> js \<Rightarrow> bool \<Rightarrow> dom list" where
  "uR this e t =
     [El ''summary'' [(''part'', ''section-endpoint-head-'' @ (if js_truthy (js_get e ''expanded'')
         then ''expanded'' else ''collapsed'')), (''class'', ''endpoint-head '' @
         lit_str (js_get e ''method'') @ '' '' @ (if js_truthy (js_get e ''deprecated'') then ''deprecated''
         else []) @ '' '' @ (if t \<or> js_truthy (js_get e ''expanded'') then ''expanded''
         else ''collapsed''))] []
        ([El ''div'' [(''part'', ''section-endpoint-head-method''), (''class'', ''method '' @
            lit_str (js_get e ''method'') @ '' '' @ (if js_truthy (js_get e ''deprecated'') then ''deprecated''
            else []))] []
            (shown (js_get e ''method'')),
          El ''div'' [(''part'', ''section-endpoint-head-path''), (''class'', ''path '' @
              (if js_truthy (js_get e ''deprecated'') then ''deprecated'' else []))] []
            (shown (js_get e ''path'') @
             only_if (js_truthy (js_get e ''isWebhook''))
               [El ''span'' [(''style'',
                   ''font-family: var(--font-regular); font-size: var(--); font-size: var(--font-size-small); color:var(--primary-color); margin-left: 16px'')]
                   []
                   [Tx ''Webhook'']])] @
         only_if (js_truthy (js_get e ''deprecated''))
           [El ''span'' [(''style'',
               ''font-size:var(--font-size-small); text-transform:uppercase; font-weight:bold; color:var(--red); margin:2px 0 0 5px;'')]
               []
               [Tx ''deprecated'']] @
         only_if (js_truthy (this ''showSummaryWhenCollapsed''))
           [El ''div'' [(''class'', ''only-large-screen''), (''style'', ''min-width:60px; flex:1'')] [] [],
             El ''div'' [(''part'', ''section-endpoint-head-description''), (''class'', ''descr'')] []
               (shown (js_or (js_get e ''summary'') (js_get e ''shortSummary'')))])]"

definition hR :: "element \<Rightarrow> lib \<Rightarrow> js \<Rightarrow> dom list" where
  "hR this L e =
     (let p = accept_types e; d = request_keys this e;
          h = (if js_truthy (js_get e ''xCodeSamples'') then mP L (js_get e ''xCodeSamples'') else []) in
      [El ''div'' [(''part'', ''section-endpoint-body-'' @ (if js_truthy (js_get e ''expanded'')
          then ''expanded'' else ''collapsed'')), (''class'', ''endpoint-body '' @
          lit_str (js_get e ''method'') @ '' '' @ (if js_truthy (js_get e ''deprecated'') then ''deprecated''
          else []))] []
         [El ''div'' [(''class'', ''summary'')] []
             ((if js_truthy (js_get e ''summary'') then
                 [El ''div'' [(''class'', ''title''), (''part'', ''section-endpoint-body-title'')] []
                    (shown (js_get e ''summary'') @
                     [El ''div'' [] [] []])]
               else
                 only_if (js_get e ''shortSummary'' \<noteq> js_get e ''description'')
                   [El ''div'' [(''class'', ''title''), (''part'', ''section-endpoint-body-title'')] []
                       (shown (js_get e ''shortSummary''))]) @
              only_if (js_truthy (js_get e ''xBadges'') \<and> js_len (js_get e ''xBadges'') > 0)
                [El ''div'' [(''style'', ''display:flex; flex-wrap:wrap;font-size: var(--font-size-small);'')]
                    []
                    (concat (map (\<lambda>e.
                        [El ''span'' [(''part'', ''endpoint-badge''),
                            (''style'',
                            ''margin:1px; margin-right:5px; padding:1px 8px; font-weight:bold; border-radius:12px; background-color: var(--light-''
                            @ lit_str (js_get e ''color'') @ '', var(--input-bg)); color:var(--'' @
                            lit_str (js_get e ''color'') @ ''); border:1px solid var(--'' @
                            lit_str (js_get e ''color'') @ '')'')] []
                           (shown (js_get e ''label''))])
                       (js_list (js_get e ''xBadges''))))] @
              only_if (js_truthy (js_get e ''description''))
                [El ''div'' [(''part'', ''section-endpoint-body-description''), (''class'', ''m-markdown'')] []
                    (We L (lit_str (js_get e ''description'')))] @
              only_if (js_truthy (js_get (js_get e ''externalDocs'') ''url'')
                  \<or> js_truthy (js_get (js_get e ''externalDocs'') ''description''))
                [El ''div'' [(''style'',
                    ''background-color:var(--bg3); padding:2px 8px 8px 8px; margin:8px 0; border-radius:var(--border-radius)'')]
                    []
                    ([El ''div'' [(''class'', ''m-markdown'')] []
                        (We L (js_toString (js_or (js_get (js_get e ''externalDocs'') ''description'') (JStr
                            []))))] @
                     only_if (js_truthy (js_get (js_get e ''externalDocs'') ''url''))
                       [El ''a'' [(''style'',
                           ''font-family:var(--font-mono); font-size:var(--font-size-small)''), (''href'',
                           lit_str (js_get (js_get e ''externalDocs'') ''url'')), (''target'', ''_blank'')] []
                           (shown (js_get (js_get e ''externalDocs'') ''url'') @
                            [El ''div'' [(''style'',
                                ''transform: rotate(270deg) scale(1.5); display: inline-block; margin-left:5px'')]
                                []
                               [Tx ([CHR 0xE2, CHR 0x87, CHR 0xB2])]])])] @
              [El ''slot'' [(''name'', lit_str (js_get e ''elementId''))] [] []] @
              fP this (js_get e ''security'') @
              h),
           El ''div'' [(''class'', ''req-resp-container'')] []
             [El ''div'' [(''style'', ''display:flex; flex-direction:column''),
                 (''class'', ''view-mode-request '' @ lit_str (this ''layout'') @ ''-layout'')] []
                 ([El ''api-request'' [(''class'', lit_str (this ''renderStyle'') @ ''-mode '' @
                     lit_str (this ''layout'') @ ''-layout''), (''style'', ''width:100%;''), (''webhook'',
                     lit_str (js_get e ''isWebhook'')), (''method'', lit_str (js_get e ''method'')), (''path'',
                     lit_str (js_get e ''path'')), (''server-url'', if js_truthy (js_get e ''servers'')
                     \<and> js_len (js_get e ''servers'') > 0
                     then lit_str (js_get (js_nth (js_get e ''servers'') 0) ''url'')
                     else lit_str (js_get (this ''selectedServer'') ''computedUrl'')), (''active-schema-tab'',
                     lit_str (this ''defaultSchemaTab'')), (''fill-request-fields-with-example'',
                     lit_str (this ''fillRequestFieldsWithExample'')), (''allow-try'',
                     lit_str (this ''allowTry'')), (''show-curl-before-try'',
                     lit_str (this ''showCurlBeforeTry'')), (''accept'', p), (''render-style'',
                     lit_str (this ''renderStyle'')), (''schema-style'', lit_str (this ''schemaStyle'')),
                     (''schema-expand-level'', lit_str (this ''schemaExpandLevel'')),
                     (''schema-description-expanded'', lit_str (this ''schemaDescriptionExpanded'')),
                     (''allow-schema-description-expand-toggle'',
                     lit_str (this ''allowSchemaDescriptionExpandToggle'')), (''schema-hide-read-only'',
                     if this ''schemaHideReadOnly'' = JStr ''never'' \<or> js_truthy (js_get e ''isWebhook'')
                     then ''false'' else ''true''), (''schema-hide-write-only'',
                     if this ''schemaHideWriteOnly'' = JStr ''never'' then ''false''
                     else if js_truthy (js_get e ''isWebhook'') then ''true'' else ''false''),
                     (''fetch-credentials'', lit_str (this ''fetchCredentials'')),
                     (''exportparts'',
                     ''wrap-request-btn:wrap-request-btn, btn:btn, btn-fill:btn-fill, btn-outline:btn-outline, btn-try:btn-try, btn-clear:btn-clear, btn-clear-resp:btn-clear-resp, file-input:file-input, textbox:textbox, textbox-param:textbox-param, textarea:textarea, textarea-param:textarea-param, anchor:anchor, anchor-param-example:anchor-param-example, schema-description:schema-description, schema-multiline-toggle:schema-multiline-toggle'')]
                     [(''security'', js_get e ''security''), (''parameters'', js_get e ''parameters''),
                     (''request_body'', js_get e ''requestBody''), (''api_keys'', d), (''servers'',
                     js_get e ''servers'')] []] @
                  only_if (js_truthy (js_get e ''callbacks''))
                    (yP this (js_get e ''callbacks''))),
               El ''api-response'' [(''class'', lit_str (this ''renderStyle'') @ ''-mode''),
                   (''style'', ''width:100%;''), (''webhook'', lit_str (js_get e ''isWebhook'')),
                   (''active-schema-tab'', lit_str (this ''defaultSchemaTab'')), (''render-style'',
                   lit_str (this ''renderStyle'')), (''schema-style'', lit_str (this ''schemaStyle'')),
                   (''schema-expand-level'', lit_str (this ''schemaExpandLevel'')),
                   (''schema-description-expanded'', lit_str (this ''schemaDescriptionExpanded'')),
                   (''allow-schema-description-expand-toggle'',
                   lit_str (this ''allowSchemaDescriptionExpandToggle'')), (''schema-hide-read-only'',
                   if this ''schemaHideReadOnly'' = JStr ''never'' then ''false''
                   else if js_truthy (js_get e ''isWebhook'') then ''true'' else ''false''),
                   (''schema-hide-write-only'', if this ''schemaHideWriteOnly'' = JStr ''never''
                   \<or> js_truthy (js_get e ''isWebhook'') then ''false'' else ''true''),
                   (''selected-status'', js_toString (js_or (js_nth (JArr (map JStr (js_keys (js_or (js_get e
                   ''responses'') (JObj []))))) 0) (JStr []))),
                   (''exportparts'',
                   ''btn:btn, btn-fill:btn-fill, btn-outline:btn-outline, btn-try:btn-try, file-input:file-input, textbox:textbox, textbox-param:textbox-param, textarea:textarea, textarea-param:textarea-param, anchor:anchor, anchor-param-example:anchor-param-example, btn-clear-resp:btn-clear-resp, schema-description:schema-description, schema-multiline-toggle:schema-multiline-toggle'')]
                   [(''responses'', js_get e ''responses'')] []]]])"

definition fR :: "element \<Rightarrow> lib \<Rightarrow> bool \<Rightarrow> bool \<Rightarrow> bool
    \<Rightarrow> dom list" where
  "fR this L e t r =
     only_if (js_truthy (this ''resolvedSpec''))
       (only_if e
          [El ''div'' [(''style'', ''display:flex; justify-content:flex-end;'')] []
              [El ''span'' [(''style'', ''color:var(--primary-color); cursor:pointer;'')] [] [Tx
                  ''Expand all''],
                Tx (nbsp @ ''|'' @ nbsp),
                El ''span'' [(''style'', ''color:var(--primary-color); cursor:pointer;'')] [] [Tx
                    ''Collapse all''],
                Tx (nbsp @ '' sections'')]] @
        concat (map (\<lambda>e.
           (if t then
              [El ''div'' [(''class'', ''regular-font section-gap section-tag '' @
                  (if js_truthy (js_get e ''expanded'') then ''expanded'' else ''collapsed''))] []
                 [El ''div'' [(''class'', ''section-tag-header'')] []
                     [El ''div'' [(''id'', lit_str (js_get e ''elementId'')), (''class'', ''sub-title tag''),
                         (''style'', ''color:var(--primary-color)'')] []
                         (shown (js_get e ''name''))],
                   El ''div'' [(''class'', ''section-tag-body'')] []
                     ([El ''slot'' [(''name'', lit_str (js_get e ''elementId''))] [] [],
                       El ''div'' [(''class'', ''regular-font regular-font-size m-markdown''),
                           (''style'', ''padding-bottom:12px'')] []
                         (We L (js_toString (js_or (js_get e ''description'') (JStr []))))] @
                      concat (map (\<lambda>e.
                         [El ''section'' [(''part'', ''section-endpoint''), (''id'',
                             lit_str (js_get e ''elementId'')), (''class'', ''m-endpoint regular-font '' @
                             lit_str (js_get e ''method'') @ '' '' @ (if r
                             \<or> js_truthy (js_get e ''expanded'') then ''expanded'' else ''collapsed''))] []
                            (uR this e r @
                             only_if (r \<or> js_truthy (js_get e ''expanded''))
                               (hR this L e))])
                        (filter (\<lambda>e. \<not> (js_truthy (this ''matchPaths''))
                            \<or> lt L (js_toString (this ''matchPaths'')) e (js_toString (this
                            ''matchType''))) (js_list (js_get e ''paths'')))))]]
            else
              [El ''div'' [(''class'', ''section-tag-body'')] []
                 (concat (map (\<lambda>e.
                     [El ''section'' [(''id'', lit_str (js_get e ''elementId'')),
                         (''class'', ''m-endpoint regular-font '' @ lit_str (js_get e ''method'') @ '' '' @
                         (if r \<or> js_truthy (js_get e ''expanded'') then ''expanded''
                         else ''collapsed''))] []
                        (uR this e r @
                         only_if (r \<or> js_truthy (js_get e ''expanded''))
                           (hR this L e))])
                    (filter (\<lambda>e. \<not> (js_truthy (this ''matchPaths''))
                        \<or> lt L (js_toString (this ''matchPaths'')) e (js_toString (this ''matchType'')))
                        (js_list (js_get e ''paths'')))))]))
          (js_list (js_get (this ''resolvedSpec'') ''tags''))))"

definition mR :: "element \<Rightarrow> dom list" where
  "mR this =
     [El ''header'' [(''class'', ''row main-header regular-font''), (''part'', ''section-header''),
         (''style'', ''padding:8px 4px 8px 4px;min-height:48px;'')] []
        [El ''div'' [(''class'', ''only-large-screen-flex''), (''style'', ''align-items: center;'')] []
            [El ''slot'' [(''name'', ''logo''), (''class'', ''logo''), (''part'', ''section-logo'')] []
                [El ''div'' [(''style'', ''height:36px;width:36px;margin-left:5px'')] []
                    [El ''svg'' [(''xmlns'', ''http://www.w3.org/2000/svg''), (''viewBox'', ''1 0 511 512'')] []
                        [El ''path'' [(''d'',
                            ''M351 411a202 202 0 01-350 0 203 203 0 01333-24 203 203 0 0117 24zm0 0''),
                            (''fill'', ''#adc165'')] [] [],
                          El ''path'' [(''d'',
                              ''M334 387a202 202 0 01-216-69 202 202 0 01216 69zm78 32H85a8 8 0 01-8-8 8 8 0 018-8h327a8 8 0 017 8 8 8 0 01-7 8zm0 0''),
                              (''fill'', ''#99aa52'')] [] [],
                          El ''path'' [(''d'',
                              ''M374 338l-5 30a202 202 0 01-248-248 203 203 0 01253 218zm0 0''),
                              (''fill'', ''#ffc73b'')] [] [],
                          El ''path'' [(''d'',
                              ''M374 338a202 202 0 01-100-197 203 203 0 01100 197zm38 81l-6-2-231-231a8 8 0 0111-11l231 230a8 8 0 01-5 14zm0 0''),
                              (''fill'', ''#efb025'')] [] [],
                          El ''path'' [(''d'',
                              ''M311 175c0 75 40 140 101 175a202 202 0 000-350 202 202 0 00-101 175zm0 0''),
                              (''fill'', ''#ff903e'')] [] [],
                          El ''path'' [(''d'',
                              ''M412 419a8 8 0 01-8-8V85a8 8 0 0115 0v326a8 8 0 01-7 8zm0 0''),
                              (''fill'', ''#e87425'')] [] []]]],
              El ''div'' [(''class'', ''header-title''), (''part'', ''label-header-title'')] []
                (shown (this ''headingText''))],
          El ''div'' [(''style'', ''margin: 0px 8px;display:flex;flex:1'')] []
            (only_if (\<not> (this ''allowSpecUrlLoad'' = JStr ''false''))
               [El ''input'' [(''id'', ''spec-url''), (''type'', ''text''),
                   (''style'', ''font-size:var(--font-size-small)''), (''class'', ''header-input mono-font''),
                   (''part'', ''textbox textbox-spec-url''), (''placeholder'', ''Spec URL''), (''value'',
                   js_toString (js_or (this ''specUrl'') (JStr []))), (''spellcheck'', ''false'')] [] [],
                 El ''div'' [(''style'',
                     ''margin: 6px 5px 0 -24px; font-size:var(--font-size-regular); cursor:pointer;'')] []
                   [Tx ([CHR 0xE2, CHR 0x86, CHR 0xA9])]] @
             only_if (\<not> (this ''allowSpecFileLoad'' = JStr ''false''))
               [El ''input'' [(''id'', ''spec-file''), (''part'', ''file-input''), (''type'', ''file''),
                   (''style'', ''display:none''), (''value'',
                   js_toString (js_or (this ''specFile'') (JStr []))), (''spellcheck'', ''false'')] [] [],
                 El ''button'' [(''class'', ''m-btn primary only-large-screen''),
                     (''style'', ''margin-left:10px;''), (''part'', ''btn btn-fill'')] []
                   [Tx ''LOCAL JSON FILE'']] @
             [El ''slot'' [(''name'', ''header'')] [] []] @
             only_if (\<not> (this ''allowSearch'' = JStr ''false''
                 \<or> js_includes ''read focused'' (js_toString (this ''renderStyle''))))
               [El ''input'' [(''id'', ''search''), (''class'', ''header-input''), (''type'', ''text''),
                   (''part'', ''textbox textbox-header-filter''), (''placeholder'', ''Filter''),
                   (''style'', ''max-width:130px;margin-left:10px;''), (''spellcheck'', ''false'')] [] [],
                 El ''div'' [(''style'',
                     ''margin: 6px 5px 0 -24px; font-size:var(--font-size-regular); cursor:pointer;'')] []
                   [Tx ([CHR 0xE2, CHR 0x86, CHR 0xA9])]] @
             only_if (\<not> (this ''allowAdvancedSearch'' = JStr ''false''
                 \<or> js_includes ''read focused'' (js_toString (this ''renderStyle''))))
               [El ''button'' [(''class'', ''m-btn primary only-large-screen''),
                   (''part'', ''btn btn-fill btn-search''), (''style'', ''margin-left:10px;'')] []
                   [Tx ''Search'']])]]"

section \<open>The search dialog and the whole page\<close>

definition gR :: "element \<Rightarrow> dom list" where
  "gR this =
     [El ''dialog-box'' [(''heading'', ''Search''), (''show'',
         js_toString (JBool (\<not> (\<not> (js_truthy (this ''showAdvancedSearchDialog''))))))] []
        ([El ''span'' [(''class'', ''advanced-search-options'')] []
            [El ''input'' [(''style'', ''width:100%; padding-right:20px;''), (''type'', ''text''),
                (''part'', ''textbox textbox-search-dialog''), (''placeholder'', ''search text...''),
                (''spellcheck'', ''false'')] [] [],
              El ''div'' [(''style'', ''display:flex; margin:8px 0 24px;'')] []
                [El ''div'' [] []
                    [El ''input'' [(''style'', ''cursor:pointer;''), (''type'', ''checkbox''),
                        (''part'', ''checkbox checkbox-search-dialog''), (''id'', ''search-api-path''),
                        (''checked'', [])] [] [],
                      El ''label'' [(''for'', ''search-api-path''), (''style'', ''cursor:pointer;'')] []
                        [Tx ''API Path'']],
                  El ''div'' [(''style'', ''margin-left: 16px;'')] []
                    [El ''input'' [(''style'', ''cursor:pointer;''), (''type'', ''checkbox''),
                        (''part'', ''checkbox checkbox-search-dialog''), (''id'', ''search-api-descr''),
                        (''checked'', [])] [] [],
                      El ''label'' [(''style'', ''cursor:pointer;''), (''for'', ''search-api-descr'')] []
                        [Tx ''API Description'']],
                  El ''div'' [(''style'', ''margin-left: 16px;'')] []
                    [El ''input'' [(''style'', ''cursor:pointer;''), (''type'', ''checkbox''),
                        (''part'', ''checkbox checkbox-search-dialog''), (''id'', ''search-api-params'')] [] [],
                      El ''label'' [(''style'', ''cursor:pointer;''), (''for'', ''search-api-params'')] []
                        [Tx ''API Parameters'']],
                  El ''div'' [(''style'', ''margin-left: 16px;'')] []
                    [El ''input'' [(''style'', ''cursor:pointer;''), (''type'', ''checkbox''),
                        (''part'', ''checkbox checkbox-search-dialog''),
                        (''id'', ''search-api-request-body'')] [] [],
                      El ''label'' [(''style'', ''cursor:pointer;''), (''for'', ''search-api-request-body'')] []
                        [Tx ''Request Body Parameters'']],
                  El ''div'' [(''style'', ''margin-left: 16px;'')] []
                    [El ''input'' [(''style'', ''cursor:pointer;''), (''type'', ''checkbox''),
                        (''part'', ''checkbox checkbox-search-dialog''),
                        (''id'', ''search-api-resp-descr'')] [] [],
                      El ''label'' [(''style'', ''cursor:pointer;''), (''for'', ''search-api-resp-descr'')] []
                        [Tx ''Response Description'']]]]] @
         concat (map (\<lambda>e.
            [El ''div'' [(''class'', ''mono-font small-font-size hover-bg''),
                (''style'',
                ''padding: 5px; cursor: pointer; border-bottom: 1px solid var(--light-border-color); '' @
                (if js_truthy (js_get e ''deprecated'') then ''filter:opacity(0.5);'' else [])),
                (''data-content-id'', lit_str (js_get e ''elementId'')), (''tabindex'', ''0'')] []
               [El ''span'' [(''class'', ''upper bold-text method-fg '' @ lit_str (js_get e ''method''))] []
                   (shown (js_get e ''method'')),
                 El ''span'' [] [] (shown (js_get e ''path'')),
                 El ''span'' [(''class'', ''regular-font gray-text'')] [] (shown (js_get e ''summary''))]])
           (js_list (this ''advancedSearchMatches''))))]"

definition dialog_box :: "element \<Rightarrow> dom list" where
  "dialog_box this =
     only_if (this ''show'' = JStr ''true'')
       [El ''div'' [(''class'', ''dialog-box-overlay'')] []
           [El ''div'' [(''class'', ''dialog-box'')] []
               [El ''header'' [(''class'', ''dialog-box-header'')] []
                   [El ''span'' [(''class'', ''dialog-box-title'')] [] (shown (this ''heading'')),
                     El ''button'' [(''type'', ''button'')] [] [Tx ([CHR 0xC3, CHR 0x97])]],
                 El ''div'' [(''class'', ''dialog-box-content'')] [] [El ''slot'' [] [] []]]]]"

text \<open>\<open>style\<close> is the element with the colours of a theme.\<close>

definition wR :: "element \<Rightarrow> lib \<Rightarrow> (string \<Rightarrow> dom list) \<Rightarrow> bool
    \<Rightarrow> bool \<Rightarrow> bool \<Rightarrow> bool \<Rightarrow> dom list" where
  "wR this L style e t r n =
     (if \<not> js_truthy (this ''resolvedSpec'') then []
      else (if js_truthy (js_get (this ''resolvedSpec'') ''specLoadError'') then
         (if e then
            (if this ''theme'' = JStr ''dark'' then
               style ''dark''
             else
               style ''light'') @
            [El ''div'' [(''style'',
                ''display:flex; align-items:center; border:1px dashed var(--border-color); height:42px; padding:5px; font-size:var(--font-size-small); color:var(--red); font-family:var(--font-mono)'')]
                []
               (shown (js_get (js_get (this ''resolvedSpec'') ''info'') ''description''))]
          else
            (if this ''theme'' = JStr ''dark'' then
               style ''dark''
             else
               style ''light'') @
            mR this @
            [El ''main'' [(''class'', ''main-content regular-font''), (''part'', ''section-main-content'')] []
               [El ''slot'' [] [] [],
                 El ''div'' [(''style'', ''margin:24px; text-align: center;'')] []
                   [El ''h1'' [(''style'', ''color: var(--red)'')] []
                       (shown (js_get (js_get (this ''resolvedSpec'') ''info'') ''title'')),
                     El ''div'' [(''style'', ''font-family:var(--font-mono)'')] []
                       (shown (js_get (js_get (this ''resolvedSpec'') ''info'') ''description''))]]])
       else
         (if js_truthy (js_get (this ''resolvedSpec'') ''isSpecLoading'') then
            (if this ''theme'' = JStr ''dark'' then
               style ''dark''
             else
               style ''light'') @
            [El ''main'' [(''class'', ''main-content regular-font''), (''part'', ''section-main-content'')] []
               [El ''slot'' [] [] [],
                 El ''div'' [(''class'', ''main-content-inner--'' @ lit_str (this ''renderStyle'') @
                     ''-mode'')] []
                   [El ''div'' [(''class'', ''loader'')] [] []]]]
          else
            (if this ''theme'' = JStr ''dark'' then
               style ''dark''
             else
               style ''light'') @
            only_if (\<not> (this ''showHeader'' = JStr ''false''))
              (mR this) @
            only_if (\<not> (this ''allowAdvancedSearch'' = JStr ''false''))
              (gR this) @
            [El ''div'' [(''id'', ''the-main-body''), (''class'', ''body '' @ lit_str (this ''cssClasses'')),
                (''dir'', lit_str (this ''pageDirection''))] []
               (only_if (\<not> (((this ''renderStyle'' \<noteq> JStr ''read''
                   \<and> this ''renderStyle'' \<noteq> JStr ''focused'')
                   \<or> this ''showSideNav'' \<noteq> JStr ''true'')
                   \<or> \<not> (js_truthy (this ''resolvedSpec''))))
                  (nR this L) @
                [El ''main'' [(''class'', ''main-content regular-font''), (''tabindex'', ''-1''),
                    (''part'', ''section-main-content'')] []
                   [El ''slot'' [] [] [],
                     El ''div'' [(''class'', ''main-content-inner--'' @ lit_str (this ''renderStyle'') @
                         ''-mode'')] []
                       ((if JBool True = this ''loading'' then
                           [El ''div'' [(''class'', ''loader'')] [] []]
                         else
                           (if JBool True = this ''loadFailed'' then
                              [El ''div'' [(''style'', ''text-align: center;margin: 16px;'')] []
                                 [Tx ''Unable to load the Spec'']]
                            else
                              [El ''div'' [(''class'', ''operations-root'')] []
                                 ((if this ''renderStyle'' = JStr ''focused'' then
                                     lR this L
                                   else
                                     only_if (this ''showInfo'' = JStr ''true'')
                                       (YP this L) @
                                     only_if (this ''allowServerSelection'' = JStr ''true'')
                                       (eR this L) @
                                     only_if (this ''allowAuthentication'' = JStr ''true'')
                                       (hP this L) @
                                     [El ''div'' [(''id'', ''operations-top''), (''class'', ''observe-me'')] []
                                        [El ''slot'' [(''name'', ''operations-top'')] [] []]] @
                                     (if this ''renderStyle'' = JStr ''read'' then
                                        WP this L
                                      else
                                        fR this L t r n)))]))),
                     El ''slot'' [(''name'', ''footer'')] [] []]])])))"

section \<open>The viewer for JSON schemas\<close>

definition SR :: "element \<Rightarrow> dom list" where
  "SR this =
     [El ''nav'' [(''class'', ''nav-bar''), (''part'', ''section-navbar'')] []
        [El ''slot'' [(''name'', ''nav-logo''), (''class'', ''logo'')] [] [],
          El ''div'' [(''style'', ''display:flex;line-height:22px; padding:8px'')] []
            [El ''input'' [(''id'', ''nav-bar-search''), (''part'', ''textbox textbox-nav-filter''),
                (''style'',
                ''width:100%; height: 26px; padding-right:20px; color:var(--nav-hover-text-color); border-color:var(--nav-accent-color); background-color:var(--nav-hover-bg-color)''),
                (''type'', ''text''), (''placeholder'', ''Filter''), (''spellcheck'', ''false'')] [] [],
              El ''div'' [(''style'',
                  ''margin: 6px 5px 0 -24px; font-size:var(--font-size-regular); cursor:pointer;'')] []
                [Tx ([CHR 0xE2, CHR 0x86, CHR 0xA9])]],
          El ''nav'' [(''style'', ''flex:1''), (''class'', ''nav-scroll''),
              (''part'', ''section-navbar-scroll'')] []
            (concat (map (\<lambda>e.
                [El ''div'' [(''class'', ''nav-bar-path''), (''data-content-id'',
                    lit_str (js_get e ''elementId'')), (''id'', ''link-'' @
                    lit_str (js_get e ''elementId''))] []
                   (shown (js_get e ''name''))])
               (js_list (js_get (this ''resolvedSpec'') ''schemaAndExamples''))))]]"

definition schema_section :: "element \<Rightarrow> lib \<Rightarrow> js \<Rightarrow> dom list" where
  "schema_section this L e0 =
     (let r = BP L (js_get e0 ''schema'') (JStr ''json'') (js_get e0 ''examples'') (js_get e0 ''example'') True
         False (JStr ''json'') (JBool True);
          e = JObj (upd_assoc ''selectedExample'' (js_get (js_nth r 0) ''exampleId'') (obj_of e0)) in
      [El ''section'' [(''id'', lit_str (js_get e ''elementId'')),
          (''class'', ''json-schema-and-example regular-font''),
          (''style'',
          ''display:flex; flex-direction: column; border:1px solid var(--border-color); margin-bottom:32px; border-top: 5px solid var(--border-color)'')]
          []
         [El ''div'' [(''style'', ''padding:16px; border-bottom: 1px solid var(--border-color)'')] []
             [El ''div'' [(''style'', ''font-size:var(--font-size-small); font-weight:bold'')] []
                 (shown (js_get e ''name'')),
               El ''span'' [(''class'', ''json-schema-description m-markdown '')] []
                 (We L (js_toString (js_or (js_get e ''description'') (JStr []))))],
           El ''div'' [(''style'', ''display:flex; flex-direction: row; gap:16px;'')] []
             [El ''div'' [(''class'', ''json-schema-def''), (''style'',
                 ''flex:1; padding:16px 0 16px 16px; '')] []
                 [El ''schema-tree'' [(''schema-expand-level'', lit_str (this ''schemaExpandLevel'')),
                     (''schema-description-expanded'', lit_str (this ''schemaDescriptionExpanded'')),
                     (''allow-schema-description-expand-toggle'',
                     lit_str (this ''allowSchemaDescriptionExpandToggle'')),
                     (''schema-hide-read-only'', ''false''), (''schema-hide-write-only'', ''false'')]
                     [(''data'', schema_model (js_get e ''schema''))] []],
               El ''div'' [(''class'', ''json-schema-example-panel''),
                   (''style'',
                   ''width:400px; background-color: var(--input-bg); padding:16px 0 16px 16px; border-left: 1px dashed var(--border-color);'')]
                   []
                 ((if js_len r > 1 then
                     [El ''select'' [(''style'', ''min-width:100px; max-width:100%'')] []
                        (concat (map (\<lambda>t.
                            [El ''option'' ([(''value'', lit_str (js_get t ''exampleId''))] @
                                flag (js_get t ''exampleId'' = js_get e ''selectedExample'') ''selected'') []
                               ((if js_len (js_get t ''exampleSummary'') > 80 then
                                   shown (js_get t ''exampleId'')
                                 else
                                   shown (js_get t ''exampleSummary'')))])
                           (js_list r)))]
                   else
                     [El ''div'' [(''style'',
                         ''font-size: var(--font-size-small);font-weight:700; margin:5px 0'')] []
                        (shown (js_get (js_nth r 0) ''exampleSummary''))]) @
                  concat (map (\<lambda>t.
                     [El ''json-tree'' [(''data-example'', lit_str (js_get t ''exampleId'')),
                         (''class'', ''example''), (''style'', ''margin-top:16px; display: '' @
                         (if js_get t ''exampleId'' = js_get e ''selectedExample'' then ''flex''
                         else ''none''))] [(''data'', js_get t ''exampleValue'')] []])
                    (js_list r)))]]])"

definition AR :: "element \<Rightarrow> lib \<Rightarrow> dom list" where
  "AR this L =
     only_if (this ''showInfo'' = JStr ''true'')
       (YP this L) @
     [El ''div'' [(''style'', ''font-size:var(--font-size-regular);'')] []
        (concat (map (schema_section this L) (js_list (js_get (this ''resolvedSpec'')
            ''schemaAndExamples''))))]"

definition ER :: "element \<Rightarrow> lib \<Rightarrow> (string \<Rightarrow> dom list) \<Rightarrow> bool
    \<Rightarrow> dom list" where
  "ER this L style e =
     (if \<not> js_truthy (this ''resolvedSpec'') then []
      else (if js_truthy (js_get (this ''resolvedSpec'') ''specLoadError'') then
         (if e then
            (if this ''theme'' = JStr ''dark'' then
               style ''dark''
             else
               style ''light'') @
            [El ''div'' [(''style'',
                ''display:flex; align-items:center; border:1px dashed var(--border-color); height:42px; padding:5px; font-size:var(--font-size-small); color:var(--red); font-family:var(--font-mono)'')]
                []
               (shown (js_get (js_get (this ''resolvedSpec'') ''info'') ''description''))]
          else
            (if this ''theme'' = JStr ''dark'' then
               style ''dark''
             else
               style ''light'') @
            mR this @
            [El ''h1'' [] [] [Tx ''Header''],
             El ''main'' [(''class'', ''main-content regular-font''), (''part'', ''section-main-content'')] []
               [El ''slot'' [] [] [],
                 El ''div'' [(''style'', ''margin:24px; text-align: center;'')] []
                   [El ''h1'' [(''style'', ''color: var(--red)'')] []
                       (shown (js_get (js_get (this ''resolvedSpec'') ''info'') ''title'')),
                     El ''div'' [(''style'', ''font-family:var(--font-mono)'')] []
                       (shown (js_get (js_get (this ''resolvedSpec'') ''info'') ''description''))]]])
       else
         (if js_truthy (js_get (this ''resolvedSpec'') ''isSpecLoading'') then
            (if this ''theme'' = JStr ''dark'' then
               style ''dark''
             else
               style ''light'') @
            [El ''main'' [(''class'', ''main-content regular-font''), (''part'', ''section-main-content'')] []
               [El ''slot'' [] [] [],
                 El ''div'' [(''class'', ''main-content-inner--'' @ lit_str (this ''renderStyle'') @
                     ''-mode'')] []
                   [El ''div'' [(''class'', ''loader'')] [] []]]]
          else
            (if this ''theme'' = JStr ''dark'' then
               style ''dark''
             else
               style ''light'') @
            only_if (\<not> (this ''showHeader'' = JStr ''false''))
              (mR this) @
            [El ''div'' [(''id'', ''the-main-body''), (''class'', ''body '' @ lit_str (this ''cssClasses'')),
                (''dir'', lit_str (this ''pageDirection''))] []
               (SR this @
                [El ''main'' [(''class'', ''main-content regular-font''),
                    (''part'', ''section-main-content'')] []
                   [El ''slot'' [] [] [],
                     El ''div'' [(''class'', ''main-content-inner--'' @ lit_str (this ''renderStyle'') @
                         ''-mode'')] []
                       ((if JBool True = this ''loading'' then
                           [El ''div'' [(''class'', ''loader'')] [] []]
                         else
                           (if JBool True = this ''loadFailed'' then
                              [El ''div'' [(''style'', ''text-align: center;margin: 16px;'')] []
                                 [Tx ''Unable to load the Spec'']]
                            else
                              [El ''div'' [(''class'', ''operations-root'')] [] (AR this L)]))),
                     El ''slot'' [(''name'', ''footer'')] [] []]])])))"

end
