(* ===== verification/Web_Spec.thy ===== *)
theory Web_Spec
  imports Web_Pages
begin

text \<open>
  How the documentation page (web/static/rapidoc-min.js) makes its data from an OpenAPI document: the
  function \<open>M_\<close> with the functions inside it. The document is what the bundled resolver returns for
  it, with all references replaced; lists of parameters, servers and tags are arrays there.

  \<open>None\<close> means that the page throws. The order of texts in a language (\<open>localeCompare\<close>), the headings of
  a Markdown text (\<open>H_\<close>) and the origin of the page are the parameter \<open>site\<close>.
\<close>

record site =
  locale_le :: "string \<Rightarrow> string \<Rightarrow> bool"
  headings :: "js \<Rightarrow> js"
  origin :: string

section \<open>Helpers\<close>

text \<open>\<open>s.replace(/[\s#:?&={}]/g, "-")\<close>\<close>

definition dashed :: "string \<Rightarrow> string" where
  "dashed s = map (\<lambda>c. if isSpace c \<or> c \<in> set ''#:?&={}'' then CHR ''-'' else c) s"

text \<open>\<open>xs.sort((a, b) => ...)\<close>: equal elements keep their order.\<close>

fun insert_by :: "('a \<Rightarrow> 'a \<Rightarrow> bool) \<Rightarrow> 'a \<Rightarrow> 'a list \<Rightarrow> 'a list" where
  "insert_by le x [] = [x]"
| "insert_by le x (y # ys) = (if le x y then x # y # ys else y # insert_by le x ys)"

definition sort_by :: "('a \<Rightarrow> 'a \<Rightarrow> bool) \<Rightarrow> 'a list \<Rightarrow> 'a list" where
  "sort_by le xs = foldr (insert_by le) xs []"

text \<open>The text before the first match of \<open>/[.|!|?]\s|[\r?\n]/\<close>.\<close>

fun first_sentence :: "string \<Rightarrow> string" where
  "first_sentence [] = []"
| "first_sentence (c # s) =
     (if c \<in> set ''.|!?'' \<and> s \<noteq> [] \<and> isSpace (hd s) \<or> c \<in> {CHR 0x0D, CHR ''?'', CHR 0x0A} then [] else c # first_sentence s)"

text \<open>A value that has to be a text.\<close>

fun str_of :: "js \<Rightarrow> string option" where
  "str_of (JStr s) = Some s" | "str_of _ = None"

section \<open>Tags\<close>

record tag =
  tg_name :: string
  tg_description :: js
  tg_headers :: js
  tg_paths :: "js list"
  tg_expanded :: bool

definition tag_id :: "string \<Rightarrow> string" where
  "tag_id name = ''tag--'' @ dashed name"

definition described_tag :: "site \<Rightarrow> string \<Rightarrow> js \<Rightarrow> tag" where
  "described_tag S name e =
     (let d = js_get e ''description'' in
      \<lparr>tg_name = name, tg_description = js_or d (JStr []), tg_headers = (if js_truthy d then headings S d else JArr []),
       tg_paths = [], tg_expanded = (js_get e ''x-tag-expanded'' \<noteq> JBool False)\<rparr>)"

text \<open>The tags that the document declares.\<close>

fun declared_tags :: "site \<Rightarrow> js list \<Rightarrow> tag list option" where
  "declared_tags S [] = Some []"
| "declared_tags S (e # es) = do {
     name \<leftarrow> str_of (js_get e ''name'');
     ts \<leftarrow> declared_tags S es;
     Some (described_tag S name e # ts) }"

definition methods :: "string list" where
  "methods = [''get'', ''put'', ''post'', ''delete'', ''patch'', ''head'', ''options'']"

definition general_tag :: string where
  "general_tag = ''General '' @ [CHR 0xE2, CHR 0xA6, CHR 0x82]"

text \<open>The tags of an operation; one without tags is under the first part of its path or in the general group.\<close>

fun strings_of :: "js list \<Rightarrow> string list option" where
  "strings_of [] = Some []"
| "strings_of (v # vs) = do { s \<leftarrow> str_of v; ss \<leftarrow> strings_of vs; Some (s # ss) }"

definition path_tag :: "string \<Rightarrow> string" where
  "path_tag t = takeWhile (\<lambda>c. c \<noteq> CHR ''/'') (trim t (CHR ''/''))"

definition operation_tags :: "bool \<Rightarrow> string \<Rightarrow> js \<Rightarrow> string list option" where
  "operation_tags generate t op =
     (let c = js_or (js_get op ''tags'') (JArr []) in
      if \<not> js_is_array c then None
      else if js_list c = [] then Some [if generate then path_tag t else general_tag]
      else strings_of (js_list c))"

definition short_summary :: "string \<Rightarrow> string \<Rightarrow> js \<Rightarrow> string option" where
  "short_summary o1 t op = do {
     s \<leftarrow> str_of (js_or (js_get op ''summary'') (js_or (js_get op ''description'') (JStr (toUpper o1 @ '' '' @ t))));
     let h = trimSpace s;
     Some (if length h > 100 then first_sentence h else h) }"

text \<open>The parameters of a path, unless the operation has one with the same name and place, and those of the operation.\<close>

definition merged_parameters :: "js \<Rightarrow> js \<Rightarrow> js list" where
  "merged_parameters n p =
     (if js_truthy n then
        (if js_truthy p
         then filter (\<lambda>e. \<not> list_ex (\<lambda>t. js_get e ''name'' = js_get t ''name'' \<and> js_get e ''in'' = js_get t ''in'') (js_list p)) (js_list n) @ js_list p
         else js_list n)
      else js_list p)"

definition object_callbacks :: "js \<Rightarrow> js" where
  "object_callbacks c =
     (if js_truthy c
      then JObj (map (\<lambda>(k, v). (k, JObj (filter (\<lambda>(_, x). js_typeof x = ''object'') (js_fields v)))) (js_fields c))
      else c)"

definition operation_id :: "string \<Rightarrow> string \<Rightarrow> string" where
  "operation_id o1 t = o1 @ ''-'' @ dashed t"

definition path_entry :: "js \<Rightarrow> string \<Rightarrow> string \<Rightarrow> string \<Rightarrow> js" where
  "path_entry item t o1 h =
     (let op = js_get item o1; g = js_get op in
      JObj [(''show'', JBool True), (''expanded'', JBool False), (''isWebhook'', JBool (js_get item ''_type'' = JStr ''webhook'')),
        (''expandedAtLeastOnce'', JBool False), (''summary'', js_or (g ''summary'') (JStr [])),
        (''description'', js_or (g ''description'') (JStr [])), (''externalDocs'', g ''externalDocs''), (''shortSummary'', JStr h),
        (''method'', JStr o1), (''path'', JStr t), (''operationId'', g ''operationId''), (''elementId'', JStr (operation_id o1 t)),
        (''servers'', JArr (js_list (js_get item ''servers'') @ js_list (g ''servers''))),
        (''parameters'', JArr (merged_parameters (js_get item ''parameters'') (g ''parameters''))),
        (''requestBody'', g ''requestBody''), (''responses'', g ''responses''), (''callbacks'', object_callbacks (g ''callbacks'')),
        (''deprecated'', g ''deprecated''), (''security'', g ''security''), (''xBadges'', js_or (g ''x-badges'') JUndef),
        (''xCodeSamples'', js_or (g ''x-codeSamples'') (js_or (g ''x-code-samples'') (JStr [])))])"

text \<open>An operation is added to its tag; a tag that the document does not declare is made.\<close>

fun add_to_tag :: "string \<Rightarrow> tag \<Rightarrow> js \<Rightarrow> tag list \<Rightarrow> tag list" where
  "add_to_tag r fresh x [] = [fresh\<lparr>tg_paths := [x]\<rparr>]"
| "add_to_tag r fresh x (c # cs) =
     (if tg_name c = r then c\<lparr>tg_paths := tg_paths c @ [x]\<rparr> # cs else c # add_to_tag r fresh x cs)"

definition fresh_tag :: "site \<Rightarrow> js \<Rightarrow> string \<Rightarrow> tag option" where
  "fresh_tag S tags r =
     (if \<not> js_truthy tags then Some (described_tag S r JUndef)
      else if \<not> js_is_array tags then None
      else Some (case find (\<lambda>e. map_option toLower (str_of (js_get e ''name'')) = Some (toLower r)) (js_list tags) of
             Some p \<Rightarrow> described_tag S r p
           | None \<Rightarrow> described_tag S r JUndef))"

definition add_operation :: "site \<Rightarrow> js \<Rightarrow> bool \<Rightarrow> string \<times> js \<Rightarrow> string \<Rightarrow> tag list \<Rightarrow> tag list option" where
  "add_operation S tags generate ti o1 a =
     (case ti of (t, item) \<Rightarrow>
        if \<not> js_truthy (js_get item o1) then Some a
        else do {
          c \<leftarrow> operation_tags generate t (js_get item o1);
          h \<leftarrow> short_summary o1 t (js_get item o1);
          fold (\<lambda>r acc. do {
                  a \<leftarrow> acc; f \<leftarrow> fresh_tag S tags r;
                  Some (add_to_tag r f (path_entry item t o1 h) a) }) c (Some a) })"

definition add_path :: "site \<Rightarrow> js \<Rightarrow> bool \<Rightarrow> string \<times> js \<Rightarrow> tag list \<Rightarrow> tag list option" where
  "add_path S tags generate ti a =
     (if \<not> js_has_props (snd ti) then None
      else fold (\<lambda>o1 acc. do { a \<leftarrow> acc; add_operation S tags generate ti o1 a }) methods (Some a))"

text \<open>The paths with the webhooks. An operation is read again from the paths of the document, which have to exist then.\<close>

definition webhook :: "js \<Rightarrow> js" where
  "webhook v = (case v of JObj m \<Rightarrow> JObj (with_str ''_type'' ''webhook'' m) | _ \<Rightarrow> v)"

definition all_paths :: "js \<Rightarrow> obj option" where
  "all_paths e =
     (let i = js_fields (js_get e ''paths''); w = js_fields (js_get e ''webhooks'') in
      if \<not> list_all (\<lambda>(t, v). js_has_props v) w then None
      else if js_truthy (js_get e ''paths'') \<or> list_all (\<lambda>(t, v). list_all (\<lambda>o1. \<not> js_truthy (js_get v o1)) methods) w
      then Some (spread i (map (\<lambda>(t, v). (t, webhook v)) w)) else None)"

definition method_index :: "js \<Rightarrow> nat" where
  "method_index x = length (takeWhile (\<lambda>o1. js_get x ''method'' \<noteq> JStr o1) methods)"

definition sorted_paths :: "site \<Rightarrow> js \<Rightarrow> js list \<Rightarrow> js list" where
  "sorted_paths S by xs =
     (let text = (\<lambda>k x. js_toString (js_get x k)) in
      if by = JStr ''method'' then sort_by (\<lambda>x y. method_index x \<le> method_index y) xs
      else if by = JStr ''summary'' then sort_by (\<lambda>x y. locale_le S (text ''shortSummary'' x) (text ''shortSummary'' y)) xs
      else if by = JStr ''path'' then sort_by (\<lambda>x y. locale_le S (text ''path'' x) (text ''path'' y)) xs
      else xs)"

definition group_by_tags :: "site \<Rightarrow> js \<Rightarrow> js \<Rightarrow> bool \<Rightarrow> bool \<Rightarrow> tag list option" where
  "group_by_tags S e by generate sortTags = do {
     a \<leftarrow> (if js_is_array (js_get e ''tags'') then declared_tags S (js_list (js_get e ''tags'')) else Some []);
     i \<leftarrow> all_paths e;
     a \<leftarrow> fold (\<lambda>ti acc. do { a \<leftarrow> acc; add_path S (js_get e ''tags'') generate ti a }) i (Some a);
     let s = map (\<lambda>t. t\<lparr>tg_paths := sorted_paths S by (tg_paths t)\<rparr>) (filter (\<lambda>t. tg_paths t \<noteq> []) a);
     Some (if sortTags then sort_by (\<lambda>x y. locale_le S (tg_name x) (tg_name y)) s else s) }"

definition tag_js :: "tag \<Rightarrow> js" where
  "tag_js t =
     JObj [(''show'', JBool True), (''elementId'', JStr (tag_id (tg_name t))), (''name'', JStr (tg_name t)),
       (''description'', tg_description t), (''headers'', tg_headers t), (''paths'', JArr (tg_paths t)),
       (''expanded'', JBool (tg_expanded t)), (''firstPathId'', js_get (hd (tg_paths t)) ''elementId'')]"

section \<open>Components\<close>

definition component_texts :: "string \<Rightarrow> string \<times> string" where
  "component_texts r =
     (case map_of
        [(''schemas'', (''Schemas'', ''Schemas allows the definition of input and output data types. These types can be objects, but also primitives and arrays.'')),
         (''responses'', (''Responses'', ''Describes responses from an API Operation, including design-time, static links to operations based on the response.'')),
         (''parameters'', (''Parameters'', ''Describes operation parameters. A unique parameter is defined by a combination of a name and location.'')),
         (''examples'', (''Examples'', ''List of Examples for operations, can be requests, responses and objects examples.'')),
         (''requestBodies'', (''Request Bodies'', ''Describes common request bodies that are used across the API operations.'')),
         (''headers'', (''Headers'', ''Headers follows the structure of the Parameters but they are explicitly in \"header\"'')),
         (''securitySchemes'', (''Security Schemes'', ''Defines a security scheme that can be used by the operations. Supported schemes are HTTP authentication, an API key (either as a header, a cookie parameter or as a query parameter), OAuth2'' @ [CHR 0x27] @ ''s common flows(implicit, password, client credentials and authorization code) as defined in RFC6749, and OpenID Connect Discovery.'')),
         (''links'', (''Links'', ''Links represent a possible design-time link for a response. The presence of a link does not guarantee the caller'' @ [CHR 0x27] @ ''s ability to successfully invoke it, rather it provides a known relationship and traversal mechanism between responses and other operations.'')),
         (''callbacks'', (''Callbacks'', ''A map of possible out-of band callbacks related to the parent operation. Each value in the map is a Path Item Object that describes a set of requests that may be initiated by the API provider and the expected responses. The key value used to identify the path item object is an expression, evaluated at runtime, that identifies a URL to use for the callback operation.''))] r of
        Some x \<Rightarrow> x | None \<Rightarrow> (r, r))"

definition component_entry :: "string \<Rightarrow> string \<times> js \<Rightarrow> js" where
  "component_entry r tc =
     JObj [(''show'', JBool True), (''id'', JStr (dashed (toLower r @ ''-'' @ toLower (fst tc)))), (''name'', JStr (fst tc)),
       (''component'', snd tc)]"

definition components_list :: "js \<Rightarrow> js list" where
  "components_list e =
     map (\<lambda>(r, c). JObj [(''show'', JBool True), (''name'', JStr (fst (component_texts r))),
            (''description'', JStr (snd (component_texts r))), (''subComponents'', JArr (map (component_entry r) (js_fields c)))])
       (js_fields (js_get e ''components''))"

section \<open>Servers\<close>

text \<open>A relative URL is completed, and the variables of the URL get their default values.\<close>

definition server_variables :: "obj \<Rightarrow> (string \<times> string) list" where
  "server_variables m = map (\<lambda>(k, v). (k, js_toString (js_or (js_get v ''default'') (JStr [])))) m"

definition default_variable :: "string \<times> js \<Rightarrow> string \<times> js" where
  "default_variable kv =
     (case kv of (k, JObj m) \<Rightarrow> (k, JObj (upd_assoc ''value'' (js_or (js_get (JObj m) ''default'') (JStr [])) m)) | _ \<Rightarrow> kv)"

definition server_entry :: "site \<Rightarrow> js \<Rightarrow> js option" where
  "server_entry S e = do {
     url \<leftarrow> str_of (js_get e ''url'');
     let t = trimSpace url;
     let relative = (\<not> hasPrefix t ''http'' \<and> \<not> hasPrefix t ''//'' \<and> \<not> hasPrefix t ''{'' \<and> hasPrefix (origin S) ''http'');
     let url' = (if relative then origin S @ url else url);
     let vars = js_fields (js_get e ''variables'');
     let m = with_str ''url'' url' (obj_of e);
     let m1 = (if vars = [] then m else upd_assoc ''variables'' (JObj (map default_variable vars)) m);
     Some (JObj (with_str ''computedUrl'' (computed_url (if relative then url' else t) (server_variables vars)) m1)) }"

definition plain_server :: "string \<Rightarrow> js" where
  "plain_server u = JObj [(''url'', JStr u), (''computedUrl'', JStr u)]"

fun server_entries :: "site \<Rightarrow> js list \<Rightarrow> js list option" where
  "server_entries S [] = Some []"
| "server_entries S (e # es) = do { x \<leftarrow> server_entry S e; xs \<leftarrow> server_entries S es; Some (x # xs) }"

definition servers_of :: "site \<Rightarrow> js \<Rightarrow> string \<Rightarrow> js list option" where
  "servers_of S e s =
     (if js_is_array (js_get e ''servers'')
      then map_option (\<lambda>xs. xs @ (if s \<noteq> [] then [plain_server s] else [])) (server_entries S (js_list (js_get e ''servers'')))
      else Some [plain_server (if s \<noteq> [] then s else if hasPrefix (origin S) ''http'' then origin S else ''http://localhost'')])"

section \<open>The data of the page\<close>

definition failed_page :: "js \<Rightarrow> js" where
  "failed_page t =
     (let r = js_get t ''response'' in
      JObj [(''specLoadError'', JBool True), (''isSpecLoading'', JBool False),
        (''info'', JObj [(''title'', JStr ''Error loading the spec''),
           (''description'', JStr (if js_truthy (js_get r ''url'')
              then js_toString (js_get r ''url'') @ '' '' @ bar @ '' '' @ js_toString (js_get r ''status'') @ ''  '' @ js_toString (js_get r ''statusText'')
              else ''Unable to load the Spec'')),
           (''version'', JStr '' '')]),
        (''tags'', JArr [])])"

definition schema_page :: "js \<Rightarrow> js" where
  "schema_page r =
     JObj [(''specLoadError'', JBool False), (''isSpecLoading'', JBool False), (''info'', js_get r ''info''),
       (''schemaAndExamples'', JArr (map (\<lambda>(k, v). JObj (spread
          [(''show'', JBool True), (''expanded'', JBool True), (''selectedExample'', JNull), (''name'', JStr k), (''elementId'', JStr (dashed k))]
          (js_fields v))) (js_fields (js_get r ''schemaAndExamples''))))]"

definition page_data :: "site \<Rightarrow> js \<Rightarrow> js \<Rightarrow> bool \<Rightarrow> bool \<Rightarrow> string \<Rightarrow> string \<Rightarrow> string \<Rightarrow> string \<Rightarrow> js option" where
  "page_data S p by generate sortTags keyName keyLocation keyValue serverUrl = do {
     g \<leftarrow> group_by_tags S p by generate sortTags;
     let d = js_get (js_get p ''info'') ''description'';
     x \<leftarrow> securitySchemes (js_get (js_get p ''components'') ''securitySchemes'') keyName keyLocation keyValue;
     w \<leftarrow> servers_of S p serverUrl;
     Some (JObj [(''specLoadError'', JBool False), (''isSpecLoading'', JBool False), (''info'', js_get p ''info''),
       (''infoDescriptionHeaders'', if js_truthy d then headings S d else JArr []), (''tags'', JArr (map tag_js g)),
       (''components'', JArr (components_list p)), (''externalDocs'', js_get p ''externalDocs''),
       (''securitySchemes'', JArr (map JObj x)), (''servers'', JArr w)]) }"

text \<open>\<open>M_\<close>, for what the resolver returns: \<open>None\<close> if it throws, and then the page throws as well.\<close>

definition is_document :: "js \<Rightarrow> bool" where
  "is_document p \<longleftrightarrow> js_truthy p \<and> list_ex (\<lambda>k. js_truthy (js_get p k)) [''components'', ''info'', ''servers'', ''tags'', ''paths'']"

definition M_spec :: "site \<Rightarrow> js option \<Rightarrow> bool \<Rightarrow> bool \<Rightarrow> js \<Rightarrow> string \<Rightarrow> string \<Rightarrow> string \<Rightarrow> string \<Rightarrow> js option" where
  "M_spec S resolved generate sortTags by keyName keyLocation keyValue serverUrl = do {
     t \<leftarrow> resolved;
     let r = js_get t ''resolvedSpec'';
     (if js_truthy (js_get r ''jsonSchemaViewer'') \<and> js_truthy (js_get r ''schemaAndExamples'') then Some (schema_page r)
      else if \<not> is_document (js_get t ''spec'') then Some (failed_page t)
      else page_data S (js_get t ''spec'') by generate sortTags keyName keyLocation keyValue serverUrl) }"

section \<open>Facts\<close>

lemma set_sort_by [simp]: "set (sort_by le xs) = set xs"
proof -
  have "set (insert_by le x ys) = insert x (set ys)" for x :: 'a and ys by (induction ys) auto
  then show ?thesis by (induction xs) (simp_all add: sort_by_def)
qed

lemma set_sorted_paths [simp]: "set (sorted_paths S by xs) = set xs"
  by (simp add: sorted_paths_def Let_def)

lemma sorted_paths_Nil [simp]: "sorted_paths S by xs = [] \<longleftrightarrow> xs = []"
  by (metis set_empty set_sorted_paths)

text \<open>A fold that collects a set step by step.\<close>

lemma fold_collect:
  assumes "\<And>x a b. x \<in> set xs \<Longrightarrow> f x a = Some b \<Longrightarrow> h b = h a \<union> K x"
    and "fold (\<lambda>x acc. do { a \<leftarrow> acc; f x a }) xs (Some a) = Some b"
  shows "h b = h a \<union> (\<Union>x\<in>set xs. K x)"
  using assms
proof (induction xs arbitrary: a)
  case (Cons x xs)
  have "fold (\<lambda>x acc. do { a \<leftarrow> acc; f x a }) ys None = None" for ys by (induction ys) auto
  then obtain a' where a': "f x a = Some a'" "fold (\<lambda>x acc. do { a \<leftarrow> acc; f x a }) xs (Some a') = Some b"
    using Cons.prems(2) by (cases "f x a") auto
  have "h a' = h a \<union> K x" by (rule Cons.prems(1) [OF _ a'(1)]) simp
  moreover have "h b = h a' \<union> (\<Union>x\<in>set xs. K x)" by (rule Cons.IH [OF _ a'(2)]) (simp add: Cons.prems(1))
  ultimately show ?case by auto
qed simp

text \<open>The operations under the tags: the name of the tag, the method and the path.\<close>

definition held :: "tag list \<Rightarrow> (string \<times> js \<times> js) set" where
  "held a = (\<Union>g\<in>set a. (\<lambda>x. (tg_name g, js_get x ''method'', js_get x ''path'')) ` set (tg_paths g))"

lemma held_simps [simp]:
  "held [] = {}"
  "held (g # a) = (\<lambda>x. (tg_name g, js_get x ''method'', js_get x ''path'')) ` set (tg_paths g) \<union> held a"
  by (simp_all add: held_def)

lemma held_add_to_tag:
  "tg_name f = r \<Longrightarrow> held (add_to_tag r f x a) = insert (r, js_get x ''method'', js_get x ''path'') (held a)"
  by (induction a) auto

lemma fresh_tag_name: "fresh_tag S tags r = Some f \<Longrightarrow> tg_name f = r"
  by (auto simp: fresh_tag_def described_tag_def Let_def split: if_splits option.splits)

lemma path_entry_get [simp]:
  "js_get (path_entry item t o1 h) ''method'' = JStr o1" "js_get (path_entry item t o1 h) ''path'' = JStr t"
  "js_get (path_entry item t o1 h) ''elementId'' = JStr (operation_id o1 t)"
  by (simp_all add: path_entry_def Let_def)

text \<open>The places of an operation.\<close>

definition tag_places :: "bool \<Rightarrow> string \<times> js \<Rightarrow> string \<Rightarrow> (string \<times> js \<times> js) set" where
  "tag_places generate ti o1 =
     (case ti of (t, item) \<Rightarrow>
        if js_truthy (js_get item o1)
        then {(r, JStr o1, JStr t) |r rs. operation_tags generate t (js_get item o1) = Some rs \<and> r \<in> set rs} else {})"

lemma held_add_operation:
  assumes "add_operation S tags generate ti o1 a = Some b"
  shows "held b = held a \<union> tag_places generate ti o1"
proof -
  obtain t item where ti: "ti = (t, item)" by force
  show ?thesis
  proof (cases "js_truthy (js_get item o1)")
    case True
    then obtain c h where c: "operation_tags generate t (js_get item o1) = Some c"
      "fold (\<lambda>r acc. do { a \<leftarrow> acc; f \<leftarrow> fresh_tag S tags r; Some (add_to_tag r f (path_entry item t o1 h) a) }) c (Some a) = Some b"
      using assms by (auto simp: add_operation_def ti split: bind_splits)
    have "held b = held a \<union> (\<Union>r\<in>set c. {(r, JStr o1, JStr t)})"
      by (rule fold_collect [OF _ c(2)]) (auto simp: held_add_to_tag fresh_tag_name split: bind_splits)
    then show ?thesis using c(1) True by (auto simp: tag_places_def ti)
  qed (use assms in \<open>simp add: add_operation_def tag_places_def ti\<close>)
qed

lemma held_add_path:
  assumes "add_path S tags generate ti a = Some b"
  shows "held b = held a \<union> (\<Union>o1\<in>set methods. tag_places generate ti o1)"
proof -
  have f: "fold (\<lambda>o1 acc. do { a \<leftarrow> acc; add_operation S tags generate ti o1 a }) methods (Some a) = Some b"
    using assms by (simp add: add_path_def split: if_splits)
  show ?thesis by (rule fold_collect [where f = "add_operation S tags generate ti", OF held_add_operation f])
qed

lemma held_declared: "declared_tags S es = Some a \<Longrightarrow> held a = {}"
  by (induction es arbitrary: a) (auto simp: described_tag_def Let_def split: bind_splits)

lemma group_by_tags_held:
  assumes "group_by_tags S e by generate sortTags = Some ts" "all_paths e = Some i"
  shows "held ts = (\<Union>ti\<in>set i. \<Union>o1\<in>set methods. tag_places generate ti o1) \<and> list_all (\<lambda>g. tg_paths g \<noteq> []) ts"
proof -
  obtain a0 a where a0: "(if js_is_array (js_get e ''tags'') then declared_tags S (js_list (js_get e ''tags'')) else Some []) = Some a0"
    and a: "fold (\<lambda>ti acc. do { a \<leftarrow> acc; add_path S (js_get e ''tags'') generate ti a }) i (Some a0) = Some a"
    and ts: "ts = (let s = map (\<lambda>t. t\<lparr>tg_paths := sorted_paths S by (tg_paths t)\<rparr>) (filter (\<lambda>t. tg_paths t \<noteq> []) a) in
      if sortTags then sort_by (\<lambda>x y. locale_le S (tg_name x) (tg_name y)) s else s)"
    using assms unfolding group_by_tags_def by (simp only: Let_def option.inject option.distinct split: bind_splits)
  have a0: "held a0 = {}" using a0 held_declared by (auto split: if_splits)
  have ts: "set ts = (\<lambda>t. t\<lparr>tg_paths := sorted_paths S by (tg_paths t)\<rparr>) ` {t \<in> set a. tg_paths t \<noteq> []}"
    by (simp add: ts Let_def)
  have "held a = held a0 \<union> (\<Union>ti\<in>set i. \<Union>o1\<in>set methods. tag_places generate ti o1)"
    by (rule fold_collect [where f = "add_path S (js_get e ''tags'') generate", OF held_add_path a])
  moreover have "held ts = held a" by (auto simp: held_def ts)
  ultimately show ?thesis using a0 by (auto simp: list_all_iff ts)
qed

section \<open>Properties\<close>

text \<open>The operations that the page shows under a tag, by the names in its data.\<close>

definition listed_operations :: "js \<Rightarrow> (js \<times> js \<times> js) set" where
  "listed_operations d =
     {(js_get g ''name'', js_get x ''method'', js_get x ''path'') |g x.
        g \<in> set (js_list (js_get d ''tags'')) \<and> x \<in> set (js_list (js_get g ''paths''))}"


definition example_site :: site where
  "example_site = \<lparr>locale_le = (\<le>), headings = \<lambda>_. JArr [], origin = ''http://localhost:4000''\<rparr>"

definition example_document :: js where
  "example_document =
     JObj [(''tags'', JArr [JObj [(''name'', JStr ''lists'')], JObj [(''name'', JStr ''unused'')]]),
       (''paths'', JObj [
         (''/query'', JObj [(''post'', JObj [(''summary'', JStr ''Ask'')])]),
         (''/lists/refresh'', JObj [(''post'', JObj [(''tags'', JArr [JStr ''lists'', JStr ''cache''])])])]),
       (''webhooks'', JObj [(''blocked'', JObj [(''get'', JObj [])])])]"


text \<open>A document with webhooks and without paths is not loaded, although the specification allows it.\<close>

theorem webhooks_need_paths:
  assumes "\<not> js_truthy (js_get p ''paths'')" "(t, v) \<in> set (js_fields (js_get p ''webhooks''))" "o1 \<in> set methods" "js_truthy (js_get v o1)"
  shows "page_data S p by generate sortTags keyName keyLocation keyValue serverUrl = None"
proof -
  have "all_paths p = None" using assms by (auto simp: all_paths_def Let_def list_all_iff)
  then show ?thesis by (simp add: page_data_def group_by_tags_def Let_def)
qed

end
