(* ===== verification/Web_Navigation.thy ===== *)
theory Web_Navigation
  imports Web_Pages
begin

text \<open>
  Navigation on the documentation page (web/static/rapidoc-min.js): the links of the navigation bar and
  their targets, and the element that the focused mode shows.
\<close>

section \<open>Links and targets\<close>

definition has_target :: "string \<Rightarrow> dom list \<Rightarrow> bool" where
  "has_target k ns \<longleftrightarrow> by_attr ''id'' k ns \<noteq> []"

text \<open>The elements of the navigation bar that a click follows, to the element with the id \<open>k\<close>.\<close>

definition leads_to :: "string \<Rightarrow> dom \<Rightarrow> bool" where
  "leads_to k n \<longleftrightarrow> attr ''data-action'' n = Some ''navigate'' \<and> attr ''data-content-id'' n = Some k"

definition tags_of :: "element \<Rightarrow> js list" where
  "tags_of this = js_list (js_get (this ''resolvedSpec'') ''tags'')"

definition element_id :: "js \<Rightarrow> string" where
  "element_id e = lit_str (js_get e ''elementId'')"

text \<open>
  The page is loaded, and its attributes have the values that the page sets for them. The headings of
  the descriptions, which the Markdown renderer makes, are not in the navigation bar.
\<close>

definition is_flag :: "js \<Rightarrow> bool" where
  "is_flag v \<longleftrightarrow> v = JStr ''true'' \<or> v = JStr ''false''"

definition page_ready :: "element \<Rightarrow> bool" where
  "page_ready this \<longleftrightarrow>
     js_truthy (this ''resolvedSpec'') \<and> \<not> js_truthy (js_get (this ''resolvedSpec'') ''specLoadError'') \<and>
     \<not> js_truthy (js_get (this ''resolvedSpec'') ''isSpecLoading'') \<and> this ''loading'' \<noteq> JBool True \<and> this ''loadFailed'' \<noteq> JBool True \<and>
     this ''infoDescriptionHeadingsInNavBar'' \<noteq> JStr ''true'' \<and> is_flag (this ''showInfo'') \<and>
     is_flag (this ''allowServerSelection'') \<and> is_flag (this ''allowAuthentication'') \<and>
     (js_truthy (js_get (this ''resolvedSpec'') ''securitySchemes'') \<longrightarrow> js_is_array (js_get (this ''resolvedSpec'') ''securitySchemes'')) \<and>
     list_all (\<lambda>t. js_typeof (js_get t ''elementId'') = ''string'') (tags_of this)"

section \<open>Facts\<close>

definition has_link :: "string \<Rightarrow> dom list \<Rightarrow> bool" where
  "has_link k ns \<longleftrightarrow> select (leads_to k) ns \<noteq> []"

lemma leads_El: "leads_to k (El t as ps ns) \<longleftrightarrow> map_of as ''data-action'' = Some ''navigate'' \<and> map_of as ''data-content-id'' = Some k"
  by (simp add: leads_to_def)

lemma has_link_simps [simp]:
  "has_link k [] \<longleftrightarrow> False" "has_link k (ns @ ms) \<longleftrightarrow> has_link k ns \<or> has_link k ms" "has_link k (shown v) \<longleftrightarrow> False"
  "has_link k (concat nss) \<longleftrightarrow> (\<exists>ns\<in>set nss. has_link k ns)" "has_link k (only_if b ns) \<longleftrightarrow> b \<and> has_link k ns"
  "has_link k (Tx s # ns) \<longleftrightarrow> has_link k ns" "has_link k (if b then ns else ms) \<longleftrightarrow> (if b then has_link k ns else has_link k ms)"
  "has_link k (El t as ps ns # ms) \<longleftrightarrow>
     map_of as ''data-action'' = Some ''navigate'' \<and> map_of as ''data-content-id'' = Some k \<or> has_link k ns \<or> has_link k ms"
  by (auto simp: has_link_def leads_El)

lemma has_link_map [simp]: "has_link k (map f xs) \<longleftrightarrow> (\<exists>x\<in>set xs. has_link k [f x])"
  by (induction xs) (auto simp: has_link_def select_def all_elements_def)

lemma has_target_simps [simp]:
  "has_target k [] \<longleftrightarrow> False" "has_target k (ns @ ms) \<longleftrightarrow> has_target k ns \<or> has_target k ms"
  "has_target k (concat nss) \<longleftrightarrow> (\<exists>ns\<in>set nss. has_target k ns)" "has_target k (only_if b ns) \<longleftrightarrow> b \<and> has_target k ns"
  by (auto simp: has_target_def by_attr_def)

lemma has_target_El: "has_target k (El t as ps ns # ms) \<longleftrightarrow> map_of as ''id'' = Some k \<or> has_target k ns \<or> has_target k ms"
  by (auto simp: has_target_def by_attr_def)

lemma target_El: "map_of as ''id'' = Some k \<Longrightarrow> has_target k (El t as ps ns # ms)"
  by (simp add: has_target_El)

lemma target_HP: "has_target (element_id e) (HP this L e t r)"
  unfolding HP_def Let_def has_target_simps by (rule disjI2, rule target_El) (simp add: element_id_def)

lemma target_WP:
  assumes ready: "page_ready this" and tag: "t \<in> set (tags_of this)"
  shows "has_target (element_id t) (WP this L)" "p \<in> set (js_list (js_get t ''paths'')) \<Longrightarrow> has_target (element_id p) (WP this L)"
proof -
  note assms = conjunct1 [OF ready [unfolded page_ready_def]] tag
  show "has_target (element_id t) (WP this L)"
    using assms unfolding WP_def has_target_simps tags_of_def by (auto intro!: bexI [of _ t] target_El simp: element_id_def)
  assume "p \<in> set (js_list (js_get t ''paths''))"
  then show "has_target (element_id p) (WP this L)"
    using assms target_HP [of p this L "JStr []" "JStr []"]
    by (simp add: WP_def tags_of_def has_target_El del: split_paired_Ex) blast
qed

lemma target_parts:
  assumes "page_ready this"
  shows "has_target ''overview'' (YP this L)" "has_target ''servers'' (eR this L)"
    "js_truthy (js_get (this ''resolvedSpec'') ''securitySchemes'') \<Longrightarrow> has_target ''auth'' (hP this L)"
proof -
  show "has_target ''overview'' (YP this L)" unfolding YP_def by (rule target_El) simp
  show "has_target ''servers'' (eR this L)"
    using assms unfolding eR_def page_ready_def has_target_simps by (auto intro!: target_El)
  assume "js_truthy (js_get (this ''resolvedSpec'') ''securitySchemes'')"
  then have "js_truthy (applied_schemes this)" "js_truthy (this ''resolvedSpec'')"
    using assms unfolding page_ready_def applied_schemes_def by (auto elim: js_is_array.elims split: js.splits)
  then show "has_target ''auth'' (hP this L)" unfolding hP_def Let_def by (auto intro!: target_El)
qed

text \<open>What a navigation bar can lead to in the read mode.\<close>

lemma nav_links:
  assumes "page_ready this" "this ''renderStyle'' = JStr ''read''" "has_link k (nR this L)"
  shows "k = ''overview'' \<and> this ''showInfo'' \<noteq> JStr ''false'' \<or> k = ''servers'' \<and> this ''allowServerSelection'' \<noteq> JStr ''false'' \<or>
    k = ''auth'' \<and> this ''allowAuthentication'' \<noteq> JStr ''false'' \<and> js_truthy (js_get (this ''resolvedSpec'') ''securitySchemes'') \<or>
    k = ''operations-top'' \<or> k = [] \<or>
    (\<exists>t\<in>set (tags_of this). k = js_toString (js_get t ''elementId'') \<or> (\<exists>p\<in>set (js_list (js_get t ''paths'')). k = element_id p))"
proof -
  have "\<not> (\<not> js_truthy (this ''resolvedSpec'') \<or> js_truthy (js_get (this ''resolvedSpec'') ''specLoadError''))"
    "this ''infoDescriptionHeadingsInNavBar'' \<noteq> JStr ''true''" using assms(1) unfolding page_ready_def by blast+
  then show ?thesis using assms(2,3) unfolding nR_def tags_of_def element_id_def
    by (simp split del: if_split cong: if_cong) (auto split: if_splits)
qed

lemma page_shows:
  assumes "page_ready this"
  shows "this ''renderStyle'' = JStr ''focused'' \<Longrightarrow> has_target k (lR this L) \<Longrightarrow> has_target k (wR this L style e t r n)"
    and "this ''renderStyle'' = JStr ''read'' \<Longrightarrow>
      this ''showInfo'' = JStr ''true'' \<and> has_target k (YP this L) \<or> this ''allowServerSelection'' = JStr ''true'' \<and> has_target k (eR this L) \<or>
      this ''allowAuthentication'' = JStr ''true'' \<and> has_target k (hP this L) \<or> k = ''operations-top'' \<or> has_target k (WP this L) \<Longrightarrow>
      has_target k (wR this L style e t r n)"
proof -
  have p: "js_truthy (this ''resolvedSpec'')" "\<not> js_truthy (js_get (this ''resolvedSpec'') ''specLoadError'')"
     "\<not> js_truthy (js_get (this ''resolvedSpec'') ''isSpecLoading'')" "JBool True \<noteq> this ''loading''" "JBool True \<noteq> this ''loadFailed''"
    using assms unfolding page_ready_def by auto
  show "this ''renderStyle'' = JStr ''focused'' \<Longrightarrow> has_target k (lR this L) \<Longrightarrow> has_target k (wR this L style e t r n)"
    using p by (simp add: wR_def has_target_El)
  show "this ''renderStyle'' = JStr ''read'' \<Longrightarrow>
      this ''showInfo'' = JStr ''true'' \<and> has_target k (YP this L) \<or> this ''allowServerSelection'' = JStr ''true'' \<and> has_target k (eR this L) \<or>
      this ''allowAuthentication'' = JStr ''true'' \<and> has_target k (hP this L) \<or> k = ''operations-top'' \<or> has_target k (WP this L) \<Longrightarrow>
      has_target k (wR this L style e t r n)"
    using p by (simp add: wR_def has_target_El) blast
qed

lemma find_operation_paths:
  assumes "g \<in> set gs" "p \<in> set (js_list (js_get g ''paths''))" "js_toString (js_get p ''elementId'') = i"
  obtains h r where "find_operation i gs = Some (h, r)" "h \<in> set gs" "r \<in> set (js_list (js_get h ''paths''))"
    "js_toString (js_get r ''elementId'') = i"
proof -
  have "\<exists>h r. find_operation i gs = Some (h, r) \<and> h \<in> set gs \<and> r \<in> set (js_list (js_get h ''paths'')) \<and>
    js_toString (js_get r ''elementId'') = i"
    using assms(1)
  proof (induction gs)
    case (Cons n gs)
    let ?P = "\<lambda>t. js_toString (js_get t ''elementId'') = i"
    show ?case
    proof (cases "find ?P (js_list (js_get n ''paths''))")
      case None
      then have "g \<noteq> n" using assms(2,3) by (auto simp: find_None_iff)
      then show ?thesis using Cons None by auto
    next
      case (Some r)
      then have "r \<in> set (js_list (js_get n ''paths''))" "?P r" by (auto simp: find_Some_iff)
      then show ?thesis using Some by auto
    qed
  qed simp
  then show thesis using that by blast
qed

section \<open>Properties\<close>

text \<open>
  The links of the navigation bar lead somewhere. In the read mode, whatever the specification
  and the search, the page has an element with the id that a link of the navigation bar names: the overview,
  the servers, the section on authentication, the list of operations, every tag and every operation. (The headings
  that the Markdown renderer makes are not in the navigation bar here.)
\<close>

theorem navigation_links_have_targets:
  assumes "page_ready this" "this ''renderStyle'' = JStr ''read''" "has_link k (nR this L)" "k \<noteq> []"
  shows "has_target k (wR this L style e t r n)"
proof -
  have ids: "js_toString (js_get g ''elementId'') = element_id g" if "g \<in> set (tags_of this)" for g
  proof -
    have "js_typeof (js_get g ''elementId'') = ''string''" using that assms(1) unfolding page_ready_def list_all_iff by blast
    then show ?thesis by (cases "js_get g ''elementId''") (simp_all add: element_id_def)
  qed
  have p: "js_truthy (this ''resolvedSpec'')" "is_flag (this ''showInfo'')" "is_flag (this ''allowServerSelection'')"
    "is_flag (this ''allowAuthentication'')" using assms(1) unfolding page_ready_def by auto
  note t = target_parts [OF assms(1), of L] target_WP [OF assms(1), where L = L]
  show ?thesis
    using nav_links [OF assms(1-3)] assms(4) p(2-4) t ids
    by (intro page_shows(2) [OF assms(1,2)]) (auto simp: is_flag_def)
qed

text \<open>
  Every operation can be focused. In the focused mode, if the focused id is the one of an operation of the
  specification and names none of the fixed parts of the page, then the page shows an element
  with this id.
\<close>

theorem focused_operation_is_shown:
  assumes "page_ready this" "this ''renderStyle'' = JStr ''focused''" "this ''focusedElementId'' = JStr i" "i \<noteq> []"
    and "g \<in> set (tags_of this)" "p \<in> set (js_list (js_get g ''paths''))" "js_get p ''elementId'' = JStr i" "i \<noteq> ''undefined'' \<and> i \<noteq> ''null''"
    and "i \<notin> {''auth'', ''servers'', ''operations-top''}" "\<not> is_prefix ''overview'' i" "\<not> is_prefix ''cmp--'' i" "\<not> is_prefix ''tag--'' i"
  shows "has_target i (wR this L style e t r n)"
proof -
  have "js_toString (js_get p ''elementId'') = i" using assms(7) by simp
  from find_operation_paths [OF assms(5,6) this] obtain h q
    where q: "find_operation i (tags_of this) = Some (h, q)" "js_toString (js_get q ''elementId'') = i" by blast
  then have "element_id q = i" using assms(8) by (cases "js_get q ''elementId''") (auto simp: element_id_def)
  then have "has_target i (aR (HP this L q a b))" for a b
    using target_HP [of q this L a b] by (simp add: aR_def has_target_El)
  moreover have "js_truthy (this ''resolvedSpec'')" using assms(1) unfolding page_ready_def by blast
  ultimately have "has_target i (lR this L)"
    using q(1) assms by (simp add: lR_def tags_of_def Let_def)
  then show ?thesis by (rule page_shows(1) [OF assms(1,2)])
qed

definition example_tag :: "string \<Rightarrow> string \<Rightarrow> js list \<Rightarrow> js" where
  "example_tag name i paths = JObj [(''name'', JStr name), (''elementId'', JStr i), (''paths'', JArr paths)]"

definition example_path :: js where
  "example_path = JObj [(''method'', JStr ''get''), (''path'', JStr ''/query''), (''elementId'', JStr ''get-/query''), (''summary'', JStr ''query'')]"

definition nav_page :: "string \<Rightarrow> string \<Rightarrow> element" where
  "nav_page mode i = (\<lambda>_. JUndef)
     (''resolvedSpec'' := JObj [(''info'', JObj [(''title'', JStr ''blocky API'')]),
         (''tags'', JArr [example_tag ''query'' ''tag--query'' [example_path], example_tag ''Lists: all'' ''tag--Lists--all'' []])],
      ''renderStyle'' := JStr mode, ''showInfo'' := JStr ''true'', ''allowServerSelection'' := JStr ''false'',
      ''allowAuthentication'' := JStr ''true'', ''allowSearch'' := JStr ''false'', ''allowAdvancedSearch'' := JStr ''false'',
      ''matchPaths'' := JStr [], ''matchType'' := JStr ''includes'', ''focusedElementId'' := JStr i, ''showHeader'' := JStr ''false'')"

lemma nav_page_ready: "page_ready (nav_page m i)"
  by (simp add: page_ready_def nav_page_def is_flag_def tags_of_def example_tag_def)

theorem navigation_links_have_targets_witness:
  "has_link ''get-/query'' (nR (nav_page ''read'' []) text_lib) \<and>
   has_target ''get-/query'' (wR (nav_page ''read'' []) text_lib (\<lambda>_. []) False True True False)"
proof -
  have "has_link ''get-/query'' (nR (nav_page ''read'' []) text_lib)" by code_simp
  then show ?thesis using navigation_links_have_targets [OF nav_page_ready, of "''read''" "[]" "''get-/query''"]
    by (simp add: nav_page_def)
qed

theorem focused_operation_is_shown_witness:
  "has_target ''get-/query'' (wR (nav_page ''focused'' ''get-/query'') text_lib (\<lambda>_. []) False True True False)"
proof (rule focused_operation_is_shown [OF nav_page_ready])
  let ?g = "example_tag ''query'' ''tag--query'' [example_path]"
  show "?g \<in> set (tags_of (nav_page ''focused'' ''get-/query''))" by (simp add: tags_of_def nav_page_def)
  show "example_path \<in> set (js_list (js_get ?g ''paths''))" by (simp add: example_tag_def)
qed (simp_all add: nav_page_def example_path_def is_prefix_def)

text \<open>
  A tag whose id contains two dashes after its prefix, as the tag \<open>Lists: all\<close> has, cannot be focused: only
  the part before the dashes is looked up, and the page shows the overview.
\<close>

theorem tag_with_dashes_is_not_shown:
  "\<not> has_target ''tag--Lists--all'' (lR (nav_page ''focused'' ''tag--Lists--all'') text_lib)"
  "has_target ''tag--query'' (lR (nav_page ''focused'' ''tag--query'') text_lib)"
  by code_simp+

end
