(* ===== verification/Web_Load.thy ===== *)
theory Web_Load
  imports Web_Spec Web_Navigation
begin

text \<open>
  The element \<open>rapi-doc\<close> of the documentation page (web/static/rapidoc-min.js): the values of its
  attributes, loading a document, the selected server, the address of the page, and searching.

  An operation takes the element, a function from the names of its properties, and returns it
  changed. \<open>getAttribute\<close> is a function of its own, because attributes and properties differ: a
  default that the element sets for a property is not an attribute. Focus, scrolling and
  the observer of what is on the screen are left out.
\<close>

section \<open>Attributes\<close>

record browser =
  prefers_light :: bool
  below_one :: "string \<Rightarrow> bool"

text \<open>The attributes with a list of values, as the code writes the list, and their defaults.\<close>

definition listed_defaults :: "(string \<times> string \<times> string) list" where
  "listed_defaults =
     [(''layout'', ''row, column,'', ''row''), (''renderStyle'', ''read, view, focused,'', ''focused''),
      (''schemaStyle'', ''tree, table,'', ''tree''), (''schemaDescriptionExpanded'', ''true, false,'', ''false''),
      (''schemaHideReadOnly'', ''default, never,'', ''default''), (''schemaHideWriteOnly'', ''default, never,'', ''default''),
      (''fillRequestFieldsWithExample'', ''true, false,'', ''true''), (''persistAuth'', ''true, false,'', ''false''),
      (''allowSearch'', ''true, false,'', ''true''), (''allowAdvancedSearch'', ''true, false,'', ''true''),
      (''allowTry'', ''true, false,'', ''true''), (''updateRoute'', ''true, false,'', ''true''),
      (''sortTags'', ''true, false,'', ''false''), (''generateMissingTags'', ''true, false,'', ''false''),
      (''sortEndpointsBy'', ''method, path, summary, none,'', ''path''),
      (''onNavTagClick'', ''expand-collapse, show-description,'', ''expand-collapse''),
      (''navItemSpacing'', ''compact, relaxed, default,'', ''default''),
      (''showMethodInNavBar'', ''false, as-plain-text, as-colored-text, as-colored-block,'', ''false''),
      (''usePathInNavBar'', ''true, false,'', ''false''), (''navActiveItemMarker'', ''left-bar, colored-block'', ''left-bar''),
      (''fontSize'', ''default, large, largest,'', ''default''), (''showInfo'', ''true, false,'', ''true''),
      (''allowServerSelection'', ''true, false,'', ''true''), (''allowAuthentication'', ''true, false,'', ''true''),
      (''allowSchemaDescriptionExpandToggle'', ''true, false,'', ''true''),
      (''infoDescriptionHeadingsInNavBar'', ''true, false,'', ''false''), (''fetchCredentials'', ''omit, same-origin, include,'', [])]"

definition listed_value :: "string \<Rightarrow> string \<Rightarrow> js \<Rightarrow> js" where
  "listed_value values d v = (if js_truthy v \<and> js_includes values (js_toString v @ '','') then v else JStr d)"

text \<open>The attributes whose values are tested without a comma, those with any value, and the other ones.\<close>

definition contained_value :: "string \<Rightarrow> string \<Rightarrow> js \<Rightarrow> js" where
  "contained_value values d v = (if js_truthy v \<and> js_includes values (js_toString v) then v else JStr d)"

definition schema_tab :: "js \<Rightarrow> js" where
  "schema_tab v =
     (let w = listed_value ''example, schema, model,'' ''example'' v in if w = JStr ''model'' then JStr ''schema'' else w)"

definition other_defaults :: "browser \<Rightarrow> (string \<times> (js \<Rightarrow> js)) list" where
  "other_defaults B =
     [(''theme'', listed_value ''light, dark,'' (if prefers_light B then ''light'' else ''dark'')),
      (''defaultSchemaTab'', schema_tab),
      (''schemaExpandLevel'', \<lambda>v. case v of JNum n \<Rightarrow> if n = ''0'' \<or> n = ''NaN'' \<or> below_one B n then JNum ''99999'' else v | _ \<Rightarrow> JNum ''99999''),
      (''responseAreaHeight'', \<lambda>v. js_or v (JStr ''400px'')), (''apiKeyValue'', \<lambda>v. js_or v (JStr ''-'')),
      (''apiKeyLocation'', \<lambda>v. js_or v (JStr ''header'')), (''apiKeyName'', \<lambda>v. js_or v (JStr [])),
      (''oauthReceiver'', \<lambda>v. js_or v (JStr ''oauth-receiver.html'')), (''routePrefix'', \<lambda>v. js_or v (JStr ''#'')),
      (''showSideNav'', contained_value ''true false'' ''true''), (''showComponents'', contained_value ''true false'' ''false''),
      (''matchType'', contained_value ''includes regex'' ''includes''),
      (''showAdvancedSearchDialog'', \<lambda>v. js_or v (JBool False)), (''cssFile'', \<lambda>v. js_or v JNull), (''cssClasses'', \<lambda>v. js_or v (JStr []))]"

definition connectedCallback :: "browser \<Rightarrow> element \<Rightarrow> element" where
  "connectedCallback B this =
     (\<lambda>k. case map_of listed_defaults k of
            Some (values, d) \<Rightarrow> listed_value values d (this k)
          | None \<Rightarrow> (case map_of (other_defaults B) k of Some f \<Rightarrow> f (this k) | None \<Rightarrow> this k))"

section \<open>Loading\<close>

definition loadStart :: "element \<Rightarrow> element" where
  "loadStart this = this(''matchPaths'' := JStr [],
     ''resolvedSpec'' := JObj [(''specLoadError'', JBool False), (''isSpecLoading'', JBool True), (''tags'', JArr [])],
     ''loading'' := JBool True, ''loadFailed'' := JBool False)"

definition selected_server :: "element \<Rightarrow> js \<Rightarrow> js" where
  "selected_server this e =
     (let d = this ''defaultApiServerUrl''; ss = js_get e ''servers'';
          s = (if \<not> js_truthy d then JUndef
               else if d = this ''serverUrl'' then JObj [(''url'', this ''serverUrl''), (''computedUrl'', this ''serverUrl'')]
               else if js_truthy ss then (case find (\<lambda>x. js_get x ''url'' = d) (js_list ss) of Some x \<Rightarrow> x | None \<Rightarrow> JUndef)
               else JUndef) in
      if js_truthy s then s else if js_truthy ss then js_nth ss 0 else JUndef)"

definition afterSpecParsedAndValidated :: "js \<Rightarrow> element \<Rightarrow> element" where
  "afterSpecParsedAndValidated e this = this(''resolvedSpec'' := e, ''selectedServer'' := selected_server this e)"

definition loadEnd :: "js option \<Rightarrow> element \<Rightarrow> element" where
  "loadEnd r this =
     (case r of
        Some e \<Rightarrow> afterSpecParsedAndValidated e (this(''loading'' := JBool False))
      | None \<Rightarrow> this(''loading'' := JBool False, ''loadFailed'' := JBool True, ''resolvedSpec'' := JNull))"

text \<open>\<open>loadSpec\<close>, for what the resolver returns for the document.\<close>

definition loadSpec :: "site \<Rightarrow> (string \<Rightarrow> string) \<Rightarrow> js option \<Rightarrow> element \<Rightarrow> element" where
  "loadSpec S getAttribute resolved this0 =
     (let this = loadStart this0 in
      loadEnd (M_spec S resolved (this ''generateMissingTags'' = JStr ''true'') (this ''sortTags'' = JStr ''true'')
                 (JStr (getAttribute ''sort-endpoints-by'')) (getAttribute ''api-key-name'') (getAttribute ''api-key-location'')
                 (getAttribute ''api-key-value'') (getAttribute ''server-url'')) this)"

section \<open>The address of the page\<close>

text \<open>\<open>routePrefix.replace(/(#|\/)$/, "")\<close>\<close>

definition route_text :: "string \<Rightarrow> string" where
  "route_text p = (if p \<noteq> [] \<and> last p \<in> {CHR ''#'', CHR ''/''} then butlast p else p)"

fun last_index :: "string \<Rightarrow> string \<Rightarrow> nat option" where
  "last_index t [] = (if t = [] then Some 0 else None)"
| "last_index t (c # s) =
     (case last_index t s of Some n \<Rightarrow> Some (n + 1) | None \<Rightarrow> if is_prefix t (c # s) then Some 0 else None)"

definition getComponentBaseURL :: "string \<Rightarrow> string \<Rightarrow> string" where
  "getComponentBaseURL routePrefix href =
     (let t = route_text routePrefix in
      if t = [] then takeWhile (\<lambda>c. c \<noteq> CHR ''#'') href
      else (case last_index t href of None \<Rightarrow> href | Some r \<Rightarrow> take r href))"

definition getElementIDFromURL :: "string \<Rightarrow> string \<Rightarrow> string" where
  "getElementIDFromURL routePrefix href = js_replace href (getComponentBaseURL routePrefix href @ routePrefix) []"

definition replaceHistoryState :: "string \<Rightarrow> string \<Rightarrow> string \<Rightarrow> string" where
  "replaceHistoryState routePrefix href e =
     getComponentBaseURL routePrefix href @ (if routePrefix = [] then ''#'' else routePrefix) @ e"

section \<open>Searching\<close>

definition set_field :: "string \<Rightarrow> js \<Rightarrow> js \<Rightarrow> js" where
  "set_field k v x = (case x of JObj m \<Rightarrow> JObj (upd_assoc k v m) | _ \<Rightarrow> x)"

definition map_field :: "string \<Rightarrow> (js \<Rightarrow> js) \<Rightarrow> js \<Rightarrow> js" where
  "map_field k f x = set_field k (JArr (map f (js_list (js_get x k)))) x"

definition mark_components :: "(js \<Rightarrow> bool) \<Rightarrow> js \<Rightarrow> js" where
  "mark_components P d =
     map_field ''components'' (map_field ''subComponents'' (\<lambda>x. set_field ''expanded'' (JBool (P x)) x)) d"

definition onSearchChange :: "lib \<Rightarrow> string \<Rightarrow> element \<Rightarrow> element" where
  "onSearchChange L v this =
     (let d = map_field ''tags'' (\<lambda>g.
            if v \<noteq> [] \<and> list_ex (\<lambda>x. lt L v x (js_toString (this ''matchType''))) (js_list (js_get g ''paths''))
            then set_field ''expanded'' (JBool True) g else g) (this ''resolvedSpec'') in
      this(''matchPaths'' := JStr v,
        ''resolvedSpec'' := mark_components (\<lambda>x. v = [] \<or> js_includes (toLower (js_toString (js_get x ''name''))) (toLower v)) d))"

definition onClearSearch :: "element \<Rightarrow> element" where
  "onClearSearch this = this(''matchPaths'' := JStr [], ''resolvedSpec'' := mark_components (\<lambda>_. True) (this ''resolvedSpec''))"

text \<open>
  \<open>expandAndGotoOperation(e)\<close>: the operation and its tag are expanded.
\<close>

definition expand_path :: "string \<Rightarrow> js \<Rightarrow> js" where
  "expand_path e g =
     (let ps = js_list (js_get g ''paths''); hit = (\<lambda>x. js_get x ''elementId'' = JStr e) in
      case find hit ps of
        None \<Rightarrow> g
      | Some i \<Rightarrow>
          if js_truthy (js_get i ''expanded'') \<and> js_truthy (js_get g ''expanded'') then g
          else set_field ''expanded'' (JBool True)
                 (set_field ''paths'' (JArr (takeWhile (\<lambda>x. \<not> hit x) ps @ set_field ''expanded'' (JBool True) i # tl (dropWhile (\<lambda>x. \<not> hit x) ps))) g))"

definition top_id :: "string \<Rightarrow> bool" where
  "top_id n \<longleftrightarrow> hasPrefix n ''overview'' \<or> n = ''servers'' \<or> n = ''auth''"

definition expandAndGotoOperation :: "string \<Rightarrow> element \<Rightarrow> element" where
  "expandAndGotoOperation e this =
     (if \<not> js_truthy (this ''resolvedSpec'') \<or> top_id (if CHR ''#'' \<in> set e then tl e else e) then this
      else this(''resolvedSpec'' := map_field ''tags'' (expand_path e) (this ''resolvedSpec'')))"

text \<open>The names of all properties inside a schema, each one once.\<close>

definition add_new :: "'a \<Rightarrow> 'a list \<Rightarrow> 'a list" where
  "add_new x xs = (if x \<in> set xs then xs else xs @ [x])"

lemma js_get_truthy: "js_truthy (js_get v k) \<Longrightarrow> js_truthy v"
proof -
  have "showNat 0 = ''0''" by code_simp
  then show ?thesis if "js_truthy (js_get v k)" using that by (cases v) (auto split: if_splits)
qed

lemma inner_fields:
  "js_truthy (js_get v ''properties'') \<Longrightarrow> entries_js_size (js_fields (js_get v ''properties'')) < js_size v"
  "js_truthy (js_get (js_get v ''items'') ''properties'') \<Longrightarrow>
     entries_js_size (js_fields (js_get (js_get v ''items'') ''properties'')) < js_size v"
proof -
  show "entries_js_size (js_fields (js_get v ''properties'')) < js_size v" if "js_truthy (js_get v ''properties'')"
    using js_size_parts(2) [OF js_get_truthy [OF that]] by simp
  show "entries_js_size (js_fields (js_get (js_get v ''items'') ''properties'')) < js_size v"
    if "js_truthy (js_get (js_get v ''items'') ''properties'')"
  proof -
    have i: "js_truthy (js_get v ''items'')" by (rule js_get_truthy [OF that])
    have "js_size (js_get v ''items'') < js_size v" by (rule js_size_get [OF js_get_truthy [OF i]]) simp
    moreover have "entries_js_size (js_fields (js_get (js_get v ''items'') ''properties'')) < js_size (js_get v ''items'')"
      by (rule js_size_parts(2) [OF i]) simp
    ultimately show ?thesis by simp
  qed
qed

function ct :: "obj \<Rightarrow> string list \<Rightarrow> string list" where
  "ct [] t = t"
| "ct ((r, v) # m) t =
     (let t1 = add_new r t;
          t2 = (if js_truthy (js_get v ''properties'') then ct (js_fields (js_get v ''properties'')) t1
                else if js_truthy (js_get (js_get v ''items'') ''properties'')
                then ct (js_fields (js_get (js_get v ''items'') ''properties'')) t1 else t1) in
      ct m t2)"
  by pat_completeness auto
termination
  by (relation "measure (\<lambda>(m, t). entries_js_size m)") (auto simp: trans_less_add1 inner_fields)

definition body_names :: "js \<Rightarrow> string" where
  "body_names b =
     snd (fold (\<lambda>(k, c) (e, o1).
        let e' = (if js_truthy (js_get (js_get c ''schema'') ''properties'')
                  then ct (js_fields (js_get (js_get c ''schema'') ''properties'')) [] else e) in
        (e', o1 @ '' '' @ joinStr '' '' e')) (js_fields (js_get b ''content'')) ([], []))"

definition searched_text :: "string list \<Rightarrow> js \<Rightarrow> string" where
  "searched_text r t =
     (if ''search-api-path'' \<in> set r then js_toString (js_get t ''path'') else []) @
     (if ''search-api-descr'' \<in> set r
      then '' '' @ js_toString (js_or (js_or (js_get t ''summary'') (js_get t ''description'')) (JStr [])) else []) @
     (if ''search-api-params'' \<in> set r
      then '' '' @ js_join '' '' (map (\<lambda>e. js_get e ''name'') (js_list (js_get t ''parameters''))) else []) @
     (if ''search-api-request-body'' \<in> set r \<and> js_truthy (js_get t ''requestBody'') then body_names (js_get t ''requestBody'') else []) @
     (if ''search-api-resp-descr'' \<in> set r
      then '' '' @ js_join '' '' (map (\<lambda>(k, e). js_or (js_get e ''description'') (JStr [])) (js_fields (js_get t ''responses''))) else [])"

definition search_match :: "js \<Rightarrow> js" where
  "search_match t =
     JObj [(''elementId'', js_get t ''elementId''), (''method'', js_get t ''method''), (''path'', js_get t ''path''),
       (''summary'', js_or (js_or (js_get t ''summary'') (js_get t ''description'')) (JStr [])), (''deprecated'', js_get t ''deprecated'')]"

definition advanced_matches :: "string \<Rightarrow> js list \<Rightarrow> string list \<Rightarrow> js" where
  "advanced_matches e tags r =
     (if trimSpace e = [] \<or> r = [] then JUndef
      else JArr (map search_match (filter (\<lambda>t. js_includes (toLower (searched_text r t)) (toLower (trimSpace e)))
             (concat (map (\<lambda>g. js_list (js_get g ''paths'')) tags)))))"

definition onAdvancedSearch :: "string \<Rightarrow> string list \<Rightarrow> element \<Rightarrow> element" where
  "onAdvancedSearch e r this = this(''advancedSearchMatches'' := advanced_matches e (tags_of this) r)"

section \<open>Keys in attributes\<close>

text \<open>A change of one of the three attributes, when the other two are set: the key of the attributes changes.\<close>

definition attribute_key :: "string \<Rightarrow> string \<Rightarrow> string \<Rightarrow> obj" where
  "attribute_key name loc v =
     [(''securitySchemeId'', JStr api_key_id), (''description'', JStr ''api-key provided in rapidoc element attributes''),
      (''type'', JStr ''apiKey''), (''name'', JStr name), (''in'', JStr loc), (''value'', JStr v), (''finalKeyValue'', JStr v)]"

definition key_attributes_changed :: "(string \<Rightarrow> string) \<Rightarrow> string \<Rightarrow> string \<Rightarrow> obj list \<Rightarrow> obj list" where
  "key_attributes_changed getAttribute k r ss =
     (let read = (\<lambda>a. if a = k then r else getAttribute a);
          name = read ''api-key-name''; loc = read ''api-key-location''; v = read ''api-key-value'' in
      if list_all (\<lambda>a. a = k \<or> getAttribute a \<noteq> []) [''api-key-name'', ''api-key-location'', ''api-key-value''] then
        (if list_ex (has_id (JStr api_key_id)) ss
         then update_first (has_id (JStr api_key_id))
                (\<lambda>e. with_str ''finalKeyValue'' v (with_str ''value'' v (with_str ''in'' loc (with_str ''name'' name e)))) ss
         else ss @ [attribute_key name loc v])
      else ss)"

section \<open>Facts\<close>

lemma ids_no_hash: "CHR ''#'' \<notin> set (tag_id s)" "o1 \<in> set methods \<Longrightarrow> CHR ''#'' \<notin> set (operation_id o1 s)"
  by (auto simp: tag_id_def operation_id_def dashed_def methods_def)

lemma js_replace_prefix: "p \<noteq> [] \<Longrightarrow> js_replace (p @ s) p [] = s"
  by (cases p) (auto simp: is_prefix_def)

lemma last_index_no: "CHR ''#'' \<notin> set s \<Longrightarrow> last_index ''#'' s = None"
  by (induction s) (auto simp: is_prefix_def)

lemma last_index_hash: "CHR ''#'' \<notin> set s \<Longrightarrow> last_index ''#'' (b @ CHR ''#'' # s) = Some (length b)"
  by (induction b) (simp_all add: last_index_no is_prefix_def)

text \<open>The shape of the data of the page.\<close>

lemma page_data_shape:
  assumes "page_data S p by generate sortTags keyName keyLocation keyValue serverUrl = Some d"
  shows "js_truthy d" "\<not> js_truthy (js_get d ''isSpecLoading'')" "js_is_array (js_get d ''securitySchemes'')"
    "list_all (\<lambda>t. js_typeof (js_get t ''elementId'') = ''string'') (js_list (js_get d ''tags''))"
  using assms by (auto simp: page_data_def Let_def tag_js_def list_all_iff split: bind_splits)

lemma M_spec_shape:
  assumes "M_spec S resolved generate sortTags by keyName keyLocation keyValue serverUrl = Some d"
  shows "js_truthy d \<and> \<not> js_truthy (js_get d ''isSpecLoading'') \<and>
    (js_truthy (js_get d ''securitySchemes'') \<longrightarrow> js_is_array (js_get d ''securitySchemes'')) \<and>
    list_all (\<lambda>t. js_typeof (js_get t ''elementId'') = ''string'') (js_list (js_get d ''tags''))"
  using assms page_data_shape
  by (auto simp: M_spec_def Let_def schema_page_def failed_page_def split: bind_splits if_splits)

text \<open>An attribute that is absent or one of the two values for a switch.\<close>

definition switch :: "js \<Rightarrow> bool" where
  "switch v \<longleftrightarrow> \<not> js_truthy v \<or> is_flag v"

lemma connected_flags:
  assumes "switch (this ''showInfo'')" "switch (this ''allowServerSelection'')" "switch (this ''allowAuthentication'')"
  shows "is_flag (connectedCallback B this ''showInfo'')" "is_flag (connectedCallback B this ''allowServerSelection'')"
    "is_flag (connectedCallback B this ''allowAuthentication'')"
  using assms by (auto simp: connectedCallback_def listed_defaults_def listed_value_def switch_def is_flag_def)

lemma loaded_page_ready:
  assumes "this = loadSpec S getAttribute resolved (connectedCallback B this0)"
    and "switch (this0 ''showInfo'')" "switch (this0 ''allowServerSelection'')" "switch (this0 ''allowAuthentication'')"
    and "this0 ''infoDescriptionHeadingsInNavBar'' \<noteq> JStr ''true''" "js_truthy (this ''resolvedSpec'')"
    and "\<not> js_truthy (js_get (this ''resolvedSpec'') ''specLoadError'')"
  shows "page_ready this"
proof -
  let ?c = "connectedCallback B this0"
  obtain r where th: "this = loadEnd r (loadStart ?c)"
    and r: "\<And>d. r = Some d \<Longrightarrow> js_truthy d \<and> \<not> js_truthy (js_get d ''isSpecLoading'') \<and>
      (js_truthy (js_get d ''securitySchemes'') \<longrightarrow> js_is_array (js_get d ''securitySchemes'')) \<and>
      list_all (\<lambda>t. js_typeof (js_get t ''elementId'') = ''string'') (js_list (js_get d ''tags''))"
    using assms(1) M_spec_shape unfolding loadSpec_def Let_def by blast
  obtain d where d: "r = Some d" using assms(6) th by (cases r) (auto simp: loadEnd_def)
  have "?c ''infoDescriptionHeadingsInNavBar'' \<noteq> JStr ''true''"
    using assms(5) by (simp add: connectedCallback_def listed_defaults_def listed_value_def)
  then show ?thesis
    using r [OF d] assms(7) connected_flags [OF assms(2-4)]
    by (simp add: page_ready_def tags_of_def th d loadEnd_def afterSpecParsedAndValidated_def loadStart_def)
qed

section \<open>Properties\<close>


definition example_resolved :: js where
  "example_resolved = JObj [(''spec'', example_document)]"

definition example_attributes :: element where
  "example_attributes = (\<lambda>_. JUndef)(''renderStyle'' := JStr ''read'')"

definition example_browser :: browser where
  "example_browser = \<lparr>prefers_light = True, below_one = \<lambda>_. False\<rparr>"

definition example_loaded :: element where
  "example_loaded = loadSpec example_site (\<lambda>_. []) (Some example_resolved) (connectedCallback example_browser example_attributes)"


text \<open>
  The address leads back. When the page writes the id of an element into its address, the same
  id is read from this address later, whatever the address was before; with the prefix \<open>#/\<close> this holds for ids
  without a number sign, as those of tags and operations are.
\<close>

theorem address_leads_back:
  assumes "p = ''#'' \<or> p = ''#/'' \<and> CHR ''#'' \<notin> set e"
  shows "getElementIDFromURL p (replaceHistoryState p href e) = e"
proof -
  let ?b = "getComponentBaseURL p href"
  have new: "replaceHistoryState p href e = (?b @ p) @ e" using assms by (auto simp: replaceHistoryState_def)
  have "getComponentBaseURL p ((?b @ p) @ e) = ?b"
  proof (cases "p = ''#''")
    case True
    then have "CHR ''#'' \<notin> set ?b" by (auto simp: getComponentBaseURL_def route_text_def dest: set_takeWhileD)
    then have "takeWhile (\<lambda>c. c \<noteq> CHR ''#'') (?b @ CHR ''#'' # e) = ?b" by (auto simp: takeWhile_append)
    then show ?thesis using True by (simp add: getComponentBaseURL_def [of _ "_ @ _"] route_text_def)
  next
    case False
    then have p: "p = ''#/''" "CHR ''#'' \<notin> set e" using assms by auto
    then have "last_index ''#'' (?b @ CHR ''#'' # CHR ''/'' # e) = Some (length ?b)" by (intro last_index_hash) simp
    then show ?thesis using p by (simp add: getComponentBaseURL_def [of _ "_ @ _"] route_text_def)
  qed
  moreover have "js_replace ((?b @ p) @ e) (?b @ p) [] = e" by (rule js_replace_prefix) (use assms in auto)
  ultimately show ?thesis unfolding getElementIDFromURL_def new by simp
qed

theorem address_leads_back_witness:
  "getElementIDFromURL ''#/'' (replaceHistoryState ''#/'' ''http://localhost/docs#/overview'' (operation_id ''get'' ''/lists/{id}'')) = ''get-/lists/-id-''"
proof -
  have "operation_id ''get'' ''/lists/{id}'' = ''get-/lists/-id-''" by code_simp
  then show ?thesis using address_leads_back [of "''#/''" "''get-/lists/-id-''" "''http://localhost/docs#/overview''"] by simp
qed

text \<open>
  The value \<open>colored-block\<close> of the marker of the active item is never accepted, because the list of values
  lacks the comma at its end; and an address without a number sign is taken as the id of an element.
\<close>

theorem colored_block_is_lost:
  "connectedCallback B (this(''navActiveItemMarker'' := JStr ''colored-block'')) ''navActiveItemMarker'' = JStr ''left-bar''"
  "getElementIDFromURL ''#'' ''http://localhost:4000/docs'' = ''http://localhost:4000/docs''"
proof -
  have "\<not> js_includes ''left-bar, colored-block'' ''colored-block,''" by code_simp
  then show "connectedCallback B (this(''navActiveItemMarker'' := JStr ''colored-block'')) ''navActiveItemMarker'' = JStr ''left-bar''"
    by (simp add: connectedCallback_def listed_defaults_def listed_value_def)
  show "getElementIDFromURL ''#'' ''http://localhost:4000/docs'' = ''http://localhost:4000/docs''" by code_simp
qed

end
