(* ===== verification/Web_Response.thy ===== *)
theory Web_Response
  imports Web_Pages
begin

text \<open>
  The element \<open>api-response\<close> of the documentation page (web/static/rapidoc-min.js): the responses of
  an operation, by status and by media type.

  The element keeps what it computes in its properties; here \<open>response_headers\<close> and
  \<open>response_mimes\<close> compute it, and \<open>current_status\<close> and \<open>current_mime\<close> are what is selected when the
  template is drawn. Buttons and the drop-down list set the two (\<open>select_status\<close>, \<open>select_mime\<close>).
\<close>

section \<open>The responses\<close>

definition current_status :: "element \<Rightarrow> js" where
  "current_status this =
     (if js_truthy (this ''selectedStatus'') then this ''selectedStatus''
      else case js_fields (this ''responses'') of [] \<Rightarrow> this ''selectedStatus'' | (n, _) # _ \<Rightarrow> JStr n)"

definition all_mimes :: "element \<Rightarrow> string list" where
  "all_mimes this = concat (map (\<lambda>(n, r). map fst (js_fields (js_get r ''content''))) (js_fields (this ''responses'')))"

definition current_mime :: "element \<Rightarrow> js" where
  "current_mime this =
     (if js_truthy (this ''selectedMimeType'') then this ''selectedMimeType''
      else case filter (\<lambda>m. m \<noteq> []) (all_mimes this) of
             [] \<Rightarrow> (if all_mimes this = [] then this ''selectedMimeType'' else JStr []) | m # _ \<Rightarrow> JStr m)"

definition mime_entry :: "element \<Rightarrow> lib \<Rightarrow> js \<Rightarrow> string \<Rightarrow> js \<Rightarrow> js" where
  "mime_entry this L response r a =
     (let inner = (this ''callback'' = JStr ''true'' \<or> this ''webhook'' = JStr ''true'');
          s = BP L (js_get a ''schema'') (JStr r) (js_get a ''examples'') (js_get a ''example'') (\<not> inner) inner
                (JStr (if js_includes r ''json'' then ''json'' else ''text'')) (JBool False) in
      JObj [(''description'', js_get response ''description''), (''examples'', s),
            (''selectedExample'', js_or (js_get (js_nth s 0) ''exampleId'') (JStr [])), (''schemaTree'', schema_model (js_get a ''schema''))])"

definition response_mimes :: "element \<Rightarrow> lib \<Rightarrow> js" where
  "response_mimes this L =
     JObj (map (\<lambda>(n, r). (n, JObj (map (\<lambda>(m, a). (m, mime_entry this L r m a)) (js_fields (js_get r ''content'')))))
       (js_fields (this ''responses'')))"

definition response_headers :: "element \<Rightarrow> js" where
  "response_headers this =
     JObj (map (\<lambda>(n, r). (n, JArr (map (\<lambda>(k, h). JObj (spread [(''name'', JStr k)] (obj_of h))) (js_fields (js_get r ''headers'')))))
       (js_fields (this ''responses'')))"

text \<open>Clicking a status selects it and the first media type of its response.\<close>

definition select_status :: "string \<Rightarrow> element \<Rightarrow> element" where
  "select_status e this =
     this(''selectedStatus'' := JStr e,
       ''selectedMimeType'' :=
         (case js_keys (js_get (js_get (this ''responses'') e) ''content'') of
            m # _ \<Rightarrow> if m \<noteq> [] then JStr m else JUndef | [] \<Rightarrow> JUndef))"

definition select_mime :: "string \<Rightarrow> element \<Rightarrow> element" where
  "select_mime m this = this(''selectedMimeType'' := JStr m)"

definition resetSelection :: "element \<Rightarrow> element" where
  "resetSelection this = this(''selectedStatus'' := JStr [], ''selectedMimeType'' := JStr [])"

section \<open>Templates\<close>

definition responseHeaderListTemplate :: "lib \<Rightarrow> js \<Rightarrow> dom list" where
  "responseHeaderListTemplate L e =
     [El ''div'' [(''style'', ''padding:16px 0 8px 0''), (''class'',
         ''resp-headers small-font-size bold-text'')] []
        [Tx ''RESPONSE HEADERS''],
      El ''table'' [(''role'', ''presentation''), (''style'',
          ''border-collapse: collapse; margin-bottom:16px; border:1px solid var(--border-color); border-radius: var(--border-radius)''),
          (''class'', ''small-font-size mono-font'')] []
        (concat (map (\<lambda>e.
            [El ''tr'' [] []
               [El ''td'' [(''style'',
                   ''padding:8px; vertical-align: baseline; min-width:120px; border-top: 1px solid var(--light-border-color); text-overflow: ellipsis;'')]
                   []
                   (shown (js_or (js_get e ''name'') (JStr []))),
                 El ''td'' [(''style'',
                     ''padding:4px; vertical-align: baseline; padding:0 5px; border-top: 1px solid var(--light-border-color); text-overflow: ellipsis;'')]
                     []
                   (shown (js_or (js_get (js_get e ''schema'') ''type'') (JStr []))),
                 El ''td'' [(''style'',
                     ''padding:8px; vertical-align: baseline; border-top: 1px solid var(--light-border-color);text-overflow: ellipsis;'')]
                     []
                   [El ''div'' [(''class'', ''m-markdown-small regular-font'')] []
                       (We L (js_toString (js_or (js_get e ''description'') (JStr []))))],
                 El ''td'' [(''style'',
                     ''padding:8px; vertical-align: baseline; border-top: 1px solid var(--light-border-color); text-overflow: ellipsis;'')]
                     []
                   (shown (js_or (js_get (js_get e ''schema'') ''example'') (JStr [])))]])
           (js_list e)))]"

definition mimeTypeDropdownTemplate :: "js \<Rightarrow> js \<Rightarrow> dom list" where
  "mimeTypeDropdownTemplate mime e =
     [El ''select'' [(''aria-label'', ''mime types''), (''style'', ''margin-bottom: -1px; z-index:1'')] []
        (concat (map (\<lambda>e.
            [El ''option'' ([(''value'', lit_str e)] @ flag (mime = e) ''selected'') [] (shown e)])
           (js_list e)))]"

definition mimeExampleTemplate :: "element \<Rightarrow> lib \<Rightarrow> js \<Rightarrow> dom list" where
  "mimeExampleTemplate this L e =
     (if js_truthy e then
        (if js_len (js_get e ''examples'') = 1 then
           (if js_get (js_nth (js_get e ''examples'') 0) ''exampleFormat'' = JStr ''json'' then
              only_if (js_truthy (js_get (js_nth (js_get e ''examples'') 0) ''exampleSummary'')
                  \<and> js_len (js_get (js_nth (js_get e ''examples'') 0) ''exampleSummary'') > 80)
                [El ''div'' [(''style'', ''padding: 4px 0'')] []
                    (shown (js_get (js_nth (js_get e ''examples'') 0) ''exampleSummary''))] @
              only_if (js_truthy (js_get (js_nth (js_get e ''examples'') 0) ''exampleDescription''))
                [El ''div'' [(''class'', ''m-markdown-small''), (''style'', ''padding: 4px 0'')] []
                    (We L (js_toString (js_or (js_get (js_nth (js_get e ''examples'') 0)
                        ''exampleDescription'') (JStr []))))] @
              [El ''json-tree'' [(''render-style'', lit_str (this ''renderStyle'')),
                  (''class'', ''example-panel '' @ (if this ''renderStyle'' = JStr ''read''
                  then ''border pad-8-16'' else ''border-top pad-top-8'')),
                  (''exportparts'', ''btn:btn, btn-fill:btn-fill, btn-copy:btn-copy'')] [(''data'',
                  js_get (js_nth (js_get e ''examples'') 0) ''exampleValue'')] []]
            else
              only_if (js_truthy (js_get (js_nth (js_get e ''examples'') 0) ''exampleSummary'')
                  \<and> js_len (js_get (js_nth (js_get e ''examples'') 0) ''exampleSummary'') > 80)
                [El ''div'' [(''style'', ''padding: 4px 0'')] []
                    (shown (js_get (js_nth (js_get e ''examples'') 0) ''exampleSummary''))] @
              only_if (js_truthy (js_get (js_nth (js_get e ''examples'') 0) ''exampleDescription''))
                [El ''div'' [(''class'', ''m-markdown-small''), (''style'', ''padding: 4px 0'')] []
                    (We L (js_toString (js_or (js_get (js_nth (js_get e ''examples'') 0)
                        ''exampleDescription'') (JStr []))))] @
              [El ''pre'' [(''class'', ''example-panel '' @ (if this ''renderStyle'' = JStr ''read''
                  then ''border pad-8-16'' else ''border-top pad-top-8''))] []
                 (shown (js_get (js_nth (js_get e ''examples'') 0) ''exampleValue''))])
         else
           [El ''span'' [(''class'', ''example-panel '' @ (if this ''renderStyle'' = JStr ''read''
               then ''border pad-8-16'' else ''border-top pad-top-8''))] []
              ([El ''select'' [(''aria-label'', ''response examples''),
                  (''style'', ''min-width:100px; max-width:100%'')] []
                  (concat (map (\<lambda>t.
                      [El ''option'' ([(''value'', lit_str (js_get t ''exampleId''))] @
                          flag (js_get t ''exampleId'' = js_get e ''selectedExample'') ''selected'') []
                         ((if js_len (js_get t ''exampleSummary'') > 80 then
                             shown (js_get t ''exampleId'')
                           else
                             shown (js_get t ''exampleSummary'')))])
                     (js_list (js_get e ''examples''))))] @
               concat (map (\<lambda>t.
                  [El ''div'' [(''class'', ''example''), (''data-example'', lit_str (js_get t ''exampleId'')),
                      (''style'', ''display: '' @ (if js_get t ''exampleId'' = js_get e ''selectedExample''
                      then ''block'' else ''none''))] []
                     (only_if (js_truthy (js_get t ''exampleSummary'')
                         \<and> js_len (js_get t ''exampleSummary'') > 80)
                        [El ''div'' [(''style'', ''padding: 4px 0'')] [] (shown (js_get t ''exampleSummary''))]
                            @
                      only_if (js_truthy (js_get t ''exampleDescription''))
                        [El ''div'' [(''class'', ''m-markdown-small''), (''style'', ''padding: 4px 0'')] []
                            (We L (js_toString (js_or (js_get t ''exampleDescription'') (JStr []))))] @
                      (if js_get t ''exampleFormat'' = JStr ''json'' then
                         [El ''json-tree'' [(''render-style'', lit_str (this ''renderStyle'')),
                             (''exportparts'', ''btn:btn, btn-fill:btn-fill, btn-copy:btn-copy'')] [(''data'',
                             js_get t ''exampleValue'')] []]
                       else
                         [El ''pre'' [] [] (shown (js_get t ''exampleValue''))]))])
                 (js_list (js_get e ''examples''))))])
      else
        [El ''pre'' [(''style'', ''color:var(--red)''), (''class'', if this ''renderStyle'' = JStr ''read''
            then ''read example-panel border pad-8-16'' else ''example-panel border-top'')] []
           [Tx ''No example provided'']])"

definition mimeSchemaTemplate :: "element \<Rightarrow> js \<Rightarrow> dom list" where
  "mimeSchemaTemplate this e =
     (if js_truthy e then
        (if this ''schemaStyle'' = JStr ''table'' then
           [El ''schema-table'' [(''schema-expand-level'', lit_str (this ''schemaExpandLevel'')),
               (''schema-description-expanded'', lit_str (this ''schemaDescriptionExpanded'')),
               (''allow-schema-description-expand-toggle'', lit_str (this
               ''allowSchemaDescriptionExpandToggle'')), (''schema-hide-read-only'',
               lit_str (this ''schemaHideReadOnly'')), (''schema-hide-write-only'',
               lit_str (this ''schemaHideWriteOnly'')), (''exportparts'',
               ''schema-description:schema-description, schema-multiline-toggle:schema-multiline-toggle'')]
               [(''data'', js_get e ''schemaTree'')] []]
         else
           [El ''schema-tree'' [(''schema-expand-level'', lit_str (this ''schemaExpandLevel'')),
               (''schema-description-expanded'', lit_str (this ''schemaDescriptionExpanded'')),
               (''allow-schema-description-expand-toggle'', lit_str (this
               ''allowSchemaDescriptionExpandToggle'')), (''schema-hide-read-only'',
               lit_str (this ''schemaHideReadOnly'')), (''schema-hide-write-only'',
               lit_str (this ''schemaHideWriteOnly'')), (''exportparts'',
               ''schema-description:schema-description, schema-multiline-toggle:schema-multiline-toggle'')]
               [(''data'', js_get e ''schemaTree'')] []])
      else
        [El ''pre'' [(''style'', ''color:var(--red)''), (''class'', if this ''renderStyle'' = JStr ''read''
            then ''border pad-8-16'' else ''border-top'')] []
           [Tx ''Schema not found'']])"

definition responseTemplate :: "element \<Rightarrow> lib \<Rightarrow> dom list" where
  "responseTemplate this L =
     (let status = current_status this; mime = current_mime this; headers = response_headers this; mimes =
         response_mimes this L in
      if \<not> js_truthy (this ''responses'') then []
      else (if js_len (JArr (map JStr (js_keys (this ''responses'')))) > 1 then
         [El ''div'' [(''class'', ''row''), (''style'', ''flex-wrap:wrap'')] []
            (concat (map (\<lambda>e.
                only_if (\<not> (e = JStr ''$$ref''))
                  [El ''button'' [(''class'', ''m-btn small '' @ (if status = e then ''primary'' else [])),
                      (''part'', ''btn '' @ (if status = e then
                      ''btn-response-status btn-selected-response-status'' else '' btn-response-status'')),
                      (''style'', ''margin: 8px 4px 0 0'')] []
                      (shown e)])
               (map JStr (js_keys (this ''responses'')))))]
       else
         [El ''span'' [] []
            (shown (js_nth (JArr (map JStr (js_keys (this ''responses'')))) 0))]) @
      concat (map (\<lambda>e.
         [El ''div'' [(''style'', ''display: '' @ (if status = e then ''block'' else ''none''))] []
            ([El ''div'' [(''class'', ''top-gap'')] []
                ([El ''span'' [(''class'', ''resp-descr m-markdown '')] []
                    (We L (js_toString (js_or (js_get (js_get (this ''responses'') (js_toString e))
                        ''description'') (JStr []))))] @
                 only_if (js_truthy (js_get headers (js_toString e))
                     \<and> js_len (js_get headers (js_toString e)) > 0)
                   (responseHeaderListTemplate L (js_get headers (js_toString e))))] @
             only_if (\<not> (js_len (JArr (map JStr (js_keys (js_get mimes (js_toString e))))) = 0))
               [El ''div'' [(''class'', ''tab-panel col'')] []
                   ([El ''div'' [(''class'', ''tab-buttons row'')] []
                       ([El ''button'' [(''class'', ''tab-btn '' @
                           (if this ''activeSchemaTab'' = JStr ''example'' then ''active'' else [])),
                           (''data-tab'', ''example'')] []
                           [Tx ''EXAMPLE''],
                         El ''button'' [(''class'', ''tab-btn '' @
                             (if this ''activeSchemaTab'' \<noteq> JStr ''example'' then ''active'' else [])),
                             (''data-tab'', ''schema'')] []
                           [Tx ''SCHEMA''],
                         El ''div'' [(''style'', ''flex:1'')] [] []] @
                        (if js_len (JArr (map JStr (js_keys (js_get mimes (js_toString e))))) = 1 then
                           [El ''span'' [(''class'', ''small-font-size gray-text''),
                               (''style'', ''align-self:center; margin-top:8px;'')] []
                              (shown (js_nth (JArr (map JStr (js_keys (js_get mimes (js_toString e))))) 0))]
                         else
                           mimeTypeDropdownTemplate mime (JArr (map JStr (js_keys (js_get mimes (js_toString
                               e)))))))] @
                    (if this ''activeSchemaTab'' = JStr ''example'' then
                       [El ''div'' [(''class'', ''tab-content col''), (''style'', ''flex:1;'')] []
                          (mimeExampleTemplate this L (js_get (js_get mimes (js_toString e)) (js_toString
                              mime)))]
                     else
                       [El ''div'' [(''class'', ''tab-content col''), (''style'', ''flex:1;'')] []
                          (mimeSchemaTemplate this (js_get (js_get mimes (js_toString e)) (js_toString
                              mime)))]))])])
        (map JStr (js_keys (this ''responses'')))))"

definition response_panel :: "element \<Rightarrow> lib \<Rightarrow> dom list" where
  "response_panel this L =
     [El ''div'' [(''class'', ''col regular-font response-panel '' @ lit_str (this ''renderStyle'') @
         ''-mode'')] []
        [El ''div'' [(''class'', '' '' @ (if this ''callback'' = JStr ''true'' then ''tiny-title''
            else ''req-res-title'') @ '' '')] []
            ((if this ''callback'' = JStr ''true'' then
                [Tx ''CALLBACK RESPONSE'']
              else
                [Tx ''RESPONSE''])),
          El ''div'' [] [] (responseTemplate this L @ [El ''div'' [] [] []])]]"

end
