(* ===== verification/Web_Response_State.thy ===== *)
theory Web_Response_State
  imports Web_Response
begin

text \<open>
  What the element \<open>api-response\<close> of the documentation page (web/static/rapidoc-min.js) shows after
  a response has been selected.
\<close>

section \<open>Blocks\<close>

text \<open>The blocks of the responses that are displayed, and the schemas in a block.\<close>

definition displayed :: "dom list \<Rightarrow> dom list" where
  "displayed ns = filter (\<lambda>n. attr ''style'' n = Some ''display: block'') ns"

definition is_schema :: "dom \<Rightarrow> bool" where
  "is_schema n \<longleftrightarrow> tag_of n \<in> {''schema-tree'', ''schema-table''}"

definition no_schemas :: "lib \<Rightarrow> bool" where
  "no_schemas L \<longleftrightarrow> (\<forall>s. select is_schema (We L s) = [])"

section \<open>Facts\<close>

lemma schema_El: "is_schema (El t as ps ns) \<longleftrightarrow> t \<in> {''schema-tree'', ''schema-table''}"
  by (simp add: is_schema_def)

lemma filter_key: "distinct ks \<Longrightarrow> e \<in> set ks \<Longrightarrow> filter (\<lambda>k. e = k) ks = [e]"
  by (induction ks) (auto simp: filter_empty_conv)

lemma response_mimes_get:
  assumes "this ''responses'' = JObj m" "map_of m e = Some r" "js_get r ''content'' = JObj ((t, c) # cs)"
  shows "js_get (response_mimes this L) e = JObj (map (\<lambda>(m, a). (m, mime_entry this L r m a)) ((t, c) # cs))"
proof -
  have "map_of (map (\<lambda>(n, r). (n, f r)) m) e = Some (f r)" for f :: "js \<Rightarrow> js" using assms(2) by (induction m) auto
  then show ?thesis using assms by (simp add: response_mimes_def)
qed

lemma selection:
  assumes "this ''responses'' = JObj m" "map_of m e = Some r" "js_get r ''content'' = JObj ((t, c) # cs)" "e \<noteq> []" "t \<noteq> []"
  shows "current_status (select_status e this) = JStr e" "current_mime (select_status e this) = JStr t"
  using assms by (simp_all add: current_status_def current_mime_def select_status_def)

lemma header_schemas: "no_schemas L \<Longrightarrow> select is_schema (responseHeaderListTemplate L e) = []"
  by (simp add: responseHeaderListTemplate_def schema_El select_map no_schemas_def)

lemma dropdown_schemas: "select is_schema (mimeTypeDropdownTemplate mime e) = []"
  by (simp add: mimeTypeDropdownTemplate_def schema_El select_map)

lemma schema_shown: "js_truthy e \<Longrightarrow> map (property ''data'') (select is_schema (mimeSchemaTemplate this e)) = [js_get e ''schemaTree'']"
  by (simp add: mimeSchemaTemplate_def schema_El)

lemma displayed_append: "displayed (ns @ ms) = displayed ns @ displayed ms"
  by (simp add: displayed_def)

lemma displayed_blocks:
  "displayed (concat (map (\<lambda>k. [El ''div'' [(''style'', ''display: '' @ (if JStr e = k then ''block'' else ''none''))] [] (f k)]) (map JStr ks))) =
     map (\<lambda>k. El ''div'' [(''style'', ''display: block'')] [] (f (JStr k))) (filter (\<lambda>k. e = k) ks)"
  by (induction ks) (auto simp: displayed_def)

section \<open>Properties\<close>


definition example_response :: "string \<Rightarrow> string \<Rightarrow> js" where
  "example_response mime type = JObj [(''content'', JObj [(mime, JObj [(''schema'', JObj [(''type'', JStr type)])])])]"

definition example_statuses :: obj where
  "example_statuses = [(''200'', example_response ''application/json'' ''integer''), (''400'', example_response ''text/plain'' ''string'')]"


end
