(* ===== verification/Web_Json.thy ===== *)
theory Web_Json
  imports Web_Values "HOL-Library.Monad_Syntax"
begin

text \<open>
  \<open>JSON.stringify\<close> and \<open>JSON.parse\<close>, which the documentation page (web/static/rapidoc-min.js) uses for
  the bodies of requests and responses, and the functions of the page that print a value as XML.

  A text is the list of its bytes in UTF-8. What a number prints as after it has been read is a
  parameter (\<open>N\<close>): a number is represented by this text. Reading is bounded by fuel; every
  call that does not read a character is followed by one that does, so that twice the length of
  the text is enough.
\<close>

section \<open>Printing\<close>

text \<open>Characters that are printed as a backslash and a letter.\<close>

definition escapes :: "(char \<times> char) list" where
  "escapes = [(CHR 0x22, CHR 0x22), (CHR 0x5C, CHR 0x5C), (CHR 0x08, CHR ''b''), (CHR 0x09, CHR ''t''),
              (CHR 0x0A, CHR ''n''), (CHR 0x0C, CHR ''f''), (CHR 0x0D, CHR ''r'')]"

definition print_char :: "char \<Rightarrow> string" where
  "print_char c =
     (case map_of escapes c of
        Some e \<Rightarrow> [CHR 0x5C, e]
      | None \<Rightarrow>
          if of_char c < (32 :: nat)
          then [CHR 0x5C, CHR ''u'', CHR ''0'', CHR ''0'', hexDigit (of_char c div 16), hexDigit (of_char c mod 16)]
          else [c])"

definition print_string :: "string \<Rightarrow> string" where
  "print_string s = [CHR 0x22] @ concat (map print_char s) @ [CHR 0x22]"

text \<open>\<open>g\<close> is the indentation of a level and \<open>i\<close> the one of the current line.\<close>

definition line_break :: "string \<Rightarrow> string \<Rightarrow> string" where
  "line_break g i = (if g = [] then [] else CHR 0x0A # i)"

definition colon :: "string \<Rightarrow> string" where
  "colon g = (if g = [] then '':'' else '': '')"

fun json_write :: "string \<Rightarrow> string \<Rightarrow> js \<Rightarrow> string" where
  "json_write g i JUndef = ''null''" | "json_write g i JNull = ''null''"
| "json_write g i (JBool b) = (if b then ''true'' else ''false'')"
| "json_write g i (JNum n) = (if n \<in> {''NaN'', ''Infinity'', ''-Infinity''} then ''null'' else n)"
| "json_write g i (JStr s) = print_string s"
| "json_write g i (JArr xs) =
     (if xs = [] then ''[]''
      else ''['' @ line_break g (i @ g) @ joinStr ('','' @ line_break g (i @ g)) (map (json_write g (i @ g)) xs) @
           line_break g i @ '']'')"
| "json_write g i (JObj m) =
     (let es = filter (\<lambda>(k, s). s \<noteq> None)
                 (map (\<lambda>(k, v). (k, if v = JUndef then None else Some (print_string k @ colon g @ json_write g (i @ g) v))) m) in
      if es = [] then ''{}''
      else ''{'' @ line_break g (i @ g) @ joinStr ('','' @ line_break g (i @ g)) (map (\<lambda>(k, s). the s) es) @
           line_break g i @ ''}'')"

definition json_stringify :: "js \<Rightarrow> string" where
  "json_stringify v = (if v = JUndef then ''undefined'' else json_write [] [] v)"

definition json_pretty :: "js \<Rightarrow> string" where
  "json_pretty v = (if v = JUndef then ''undefined'' else json_write ''  '' [] v)"

section \<open>Reading\<close>

definition json_space :: "char \<Rightarrow> bool" where
  "json_space c \<longleftrightarrow> c \<in> {CHR '' '', CHR 0x09, CHR 0x0A, CHR 0x0D}"

definition skip_ws :: "string \<Rightarrow> string" where
  "skip_ws s = dropWhile json_space s"

definition unescapes :: "(char \<times> char) list" where
  "unescapes = (CHR ''/'', CHR ''/'') # map (\<lambda>(c, e). (e, c)) escapes"

definition utf8 :: "nat \<Rightarrow> string" where
  "utf8 n =
     (if n < 0x80 then [char_of n]
      else if n < 0x800 then [char_of (0xC0 + n div 64), char_of (0x80 + n mod 64)]
      else if n < 0x10000 then [char_of (0xE0 + n div 4096), char_of (0x80 + n div 64 mod 64), char_of (0x80 + n mod 64)]
      else [char_of (0xF0 + n div 262144), char_of (0x80 + n div 4096 mod 64), char_of (0x80 + n div 64 mod 64),
            char_of (0x80 + n mod 64)])"

definition hex4 :: "string \<Rightarrow> (nat \<times> string) option" where
  "hex4 s =
     (if length s \<ge> 4 \<and> list_all isHex (take 4 s)
      then Some (foldl (\<lambda>n c. 16 * n + hexVal c) 0 (take 4 s), drop 4 s) else None)"

text \<open>Two escapes that are a surrogate pair are one character.\<close>

definition unicode_escape :: "string \<Rightarrow> (string \<times> string) option" where
  "unicode_escape s = do {
     (n, r) \<leftarrow> hex4 s;
     Some (if 0xD800 \<le> n \<and> n < 0xDC00 \<and> take 2 r = [CHR 0x5C, CHR ''u'']
           then (case hex4 (drop 2 r) of
                   Some (l, r') \<Rightarrow>
                     if 0xDC00 \<le> l \<and> l < 0xE000 then (utf8 (0x10000 + (n - 0xD800) * 1024 + (l - 0xDC00)), r') else (utf8 n, r)
                 | None \<Rightarrow> (utf8 n, r))
           else (utf8 n, r)) }"

lemma hex4_length: "hex4 s = Some (n, r) \<Longrightarrow> length r < length s"
  by (auto simp: hex4_def split: if_splits)

lemma unicode_escape_length: "unicode_escape s = Some (x, r) \<Longrightarrow> length r < length s"
  by (auto simp: unicode_escape_def split: bind_splits if_splits option.splits dest!: hex4_length)

text \<open>The rest of a string after its quotation mark.\<close>

function read_chars :: "string \<Rightarrow> (string \<times> string) option" where
  "read_chars [] = None"
| "read_chars (c # s) =
     (if c = CHR 0x22 then Some ([], s)
      else if c = CHR 0x5C then
        (case s of
           [] \<Rightarrow> None
         | e # s' \<Rightarrow>
             if e = CHR ''u'' then
               (case unicode_escape s' of None \<Rightarrow> None
                | Some (x, r) \<Rightarrow> map_option (\<lambda>(t, r). (x @ t, r)) (read_chars r))
             else (case map_of unescapes e of None \<Rightarrow> None
                   | Some x \<Rightarrow> map_option (\<lambda>(t, r). (x # t, r)) (read_chars s')))
      else if of_char c < (32 :: nat) then None
      else map_option (\<lambda>(t, r). (c # t, r)) (read_chars s))"
  by pat_completeness auto
termination
proof (relation "measure length")
  fix c s e s' p x r
  assume "s = e # s'" "unicode_escape s' = Some p" "(x, r) = p"
  then have "length r < length s'" using unicode_escape_length by metis
  then show "(r, c # s) \<in> measure length" using \<open>s = e # s'\<close> by simp
qed simp_all

text \<open>\<open>-?(0|[1-9][0-9]*)([.][0-9]+)?([eE][+-]?[0-9]+)?\<close>\<close>

definition digits_only :: "string \<Rightarrow> bool" where
  "digits_only s \<longleftrightarrow> s \<noteq> [] \<and> list_all isDigit s"

definition exponent_ok :: "string \<Rightarrow> bool" where
  "exponent_ok s =
     (case s of
        [] \<Rightarrow> True
      | c # t \<Rightarrow> c \<in> {CHR ''e'', CHR ''E''} \<and>
                 (case t of [] \<Rightarrow> False | d # u \<Rightarrow> digits_only (if d \<in> {CHR ''+'', CHR ''-''} then u else t)))"

definition fraction_ok :: "string \<Rightarrow> bool" where
  "fraction_ok s =
     (case s of
        [] \<Rightarrow> True
      | c # t \<Rightarrow> if c = CHR ''.'' then takeWhile isDigit t \<noteq> [] \<and> exponent_ok (dropWhile isDigit t) else exponent_ok s)"

definition is_number :: "string \<Rightarrow> bool" where
  "is_number s =
     (let t = (case s of c # r \<Rightarrow> if c = CHR ''-'' then r else s | [] \<Rightarrow> []); d = takeWhile isDigit t in
      d \<noteq> [] \<and> (hd d = CHR ''0'' \<longrightarrow> length d = 1) \<and> fraction_ok (dropWhile isDigit t))"

definition number_char :: "char \<Rightarrow> bool" where
  "number_char c \<longleftrightarrow> isDigit c \<or> c \<in> {CHR ''-'', CHR ''+'', CHR ''.'', CHR ''e'', CHR ''E''}"

definition read_number :: "(string \<Rightarrow> string) \<Rightarrow> string \<Rightarrow> (js \<times> string) option" where
  "read_number N s =
     (let n = takeWhile number_char s in if is_number n then Some (JNum (N n), dropWhile number_char s) else None)"

definition read_literal :: "string \<Rightarrow> (js \<times> string) option" where
  "read_literal s =
     (if hasPrefix s ''true'' then Some (JBool True, drop 4 s)
      else if hasPrefix s ''false'' then Some (JBool False, drop 5 s)
      else if hasPrefix s ''null'' then Some (JNull, drop 4 s) else None)"

text \<open>
  The entries of an object: a name that is repeated keeps its place and gets the last value, and
  names that are array indices come first, in the order of their values.
\<close>

definition index_value :: "string \<Rightarrow> int" where
  "index_value k = foldl (\<lambda>n c. 10 * n + int (digitVal c)) 0 k"

definition is_index :: "string \<Rightarrow> bool" where
  "is_index k \<longleftrightarrow> digits_only k \<and> (hd k = CHR ''0'' \<longrightarrow> k = ''0'') \<and> index_value k < 2 ^ 32 - 1"

definition object_of :: "(string \<times> js) list \<Rightarrow> (string \<times> js) list" where
  "object_of es =
     (let m = fold (\<lambda>(k, v) m. upd_assoc k v m) es [] in
      sort_key (\<lambda>(k, v). index_value k) (filter (\<lambda>(k, v). is_index k) m) @
      filter (\<lambda>(k, v). \<not> is_index k) m)"

fun read_value :: "(string \<Rightarrow> string) \<Rightarrow> nat \<Rightarrow> string \<Rightarrow> (js \<times> string) option"
  and read_elements :: "(string \<Rightarrow> string) \<Rightarrow> nat \<Rightarrow> string \<Rightarrow> (js list \<times> string) option"
  and read_members :: "(string \<Rightarrow> string) \<Rightarrow> nat \<Rightarrow> string \<Rightarrow> ((string \<times> js) list \<times> string) option" where
  "read_value N 0 s = None"
| "read_value N (Suc n) s =
     (case skip_ws s of
        [] \<Rightarrow> None
      | c # r \<Rightarrow>
          if c = CHR ''['' then
            (case skip_ws r of
               [] \<Rightarrow> None
             | d # r' \<Rightarrow> if d = CHR '']'' then Some (JArr [], r') else map_option (\<lambda>(xs, t). (JArr xs, t)) (read_elements N n r))
          else if c = CHR ''{'' then
            (case skip_ws r of
               [] \<Rightarrow> None
             | d # r' \<Rightarrow> if d = CHR ''}'' then Some (JObj [], r')
                         else map_option (\<lambda>(es, t). (JObj (object_of es), t)) (read_members N n r))
          else if c = CHR 0x22 then map_option (\<lambda>(t, r). (JStr t, r)) (read_chars r)
          else if number_char c then read_number N (c # r)
          else read_literal (c # r))"
| "read_elements N 0 s = None"
| "read_elements N (Suc n) s = do {
     (v, r) \<leftarrow> read_value N n s;
     (case skip_ws r of
        [] \<Rightarrow> None
      | d # t \<Rightarrow> if d = CHR '']'' then Some ([v], t)
                 else if d = CHR '','' then map_option (\<lambda>(vs, t). (v # vs, t)) (read_elements N n t) else None) }"
| "read_members N 0 s = None"
| "read_members N (Suc n) s =
     (case skip_ws s of
        [] \<Rightarrow> None
      | q # r \<Rightarrow>
          if q \<noteq> CHR 0x22 then None
          else do {
            (k, r1) \<leftarrow> read_chars r;
            (case skip_ws r1 of
               [] \<Rightarrow> None
             | d # r2 \<Rightarrow>
                 if d \<noteq> CHR '':'' then None
                 else do {
                   (v, r3) \<leftarrow> read_value N n r2;
                   (case skip_ws r3 of
                      [] \<Rightarrow> None
                    | e # t \<Rightarrow> if e = CHR ''}'' then Some ([(k, v)], t)
                               else if e = CHR '','' then map_option (\<lambda>(es, t). ((k, v) # es, t)) (read_members N n t) else None) }) })"

definition json_parse :: "(string \<Rightarrow> string) \<Rightarrow> string \<Rightarrow> js option" where
  "json_parse N s = do {
     (v, r) \<leftarrow> read_value N (2 * length s + 2) s;
     if skip_ws r = [] then Some v else None }"

section \<open>XML\<close>

lemma zip_values_size: "length ks = length xs \<Longrightarrow> (\<Sum>(k, y)\<leftarrow>zip ks xs. size y) = sum_list (map size xs)"
  by (induction ks xs rule: list_induct2) simp_all

text \<open>
  \<open>jP(e, t)\<close>: the elements of a value at level \<open>t\<close>. Reading the tag of \<open>null\<close>, or the first character of
  an empty name of an array, throws (\<open>None\<close>).
\<close>

definition repeat_spaces :: "nat \<Rightarrow> string" where
  "repeat_spaces t = concat (replicate t ''  '')"

definition xml_tag :: "string \<Rightarrow> js \<Rightarrow> string option" where
  "xml_tag o1 v =
     (if \<not> js_has_props v \<or> js_is_array v \<and> o1 = [] then None
      else Some (js_toString (js_or (js_get v ''::XML_TAG'') (JStr o1))))"

function jP :: "nat \<Rightarrow> js \<Rightarrow> string option" and jP_entries :: "nat \<Rightarrow> (string \<times> js) list \<Rightarrow> string option" where
  "jP t (JObj m) = jP_entries t m"
| "jP t (JArr xs) = jP_entries t (zip (map showNat [0..<length xs]) xs)"
| "jP t JNull = Some []"
| "jP t JUndef = (if t = 1 then None else Some [])"
| "jP t (JBool b) = (if t = 1 then Some ([CHR 0x0A] @ repeat_spaces t @ js_toString (JBool b)) else Some [])"
| "jP t (JNum n) = (if t = 1 then Some ([CHR 0x0A] @ repeat_spaces t @ n) else Some [])"
| "jP t (JStr s) = (if t = 1 then Some ([CHR 0x0A] @ repeat_spaces t @ s) else Some [])"
| "jP_entries t [] = Some []"
| "jP_entries t ((o1, v) # m) = do {
     i \<leftarrow> xml_tag o1 v;
     x \<leftarrow> (if hasPrefix o1 ''::'' then Some []
           else if js_typeof v = ''object'' then do {
             y \<leftarrow> jP (t + 1) v;
             Some ([CHR 0x0A] @ repeat_spaces t @ ''<'' @ i @ ''>'' @ y @ [CHR 0x0A] @ repeat_spaces t @ ''</'' @ i @ ''>'') }
           else Some ([CHR 0x0A] @ repeat_spaces t @ ''<'' @ i @ ''>'' @ js_toString v @ ''</'' @ i @ ''>''));
     xs \<leftarrow> jP_entries t m;
     Some (x @ xs) }"
  by pat_completeness auto
termination
  by (relation "measure (\<lambda>x. case x of Inl (t, v) \<Rightarrow> 2 * size v | Inr (t, m) \<Rightarrow> 1 + 2 * size_list (\<lambda>(k, v). size v) m)")
    (auto simp: size_list_conv_sum_list o_def less_Suc_eq_le entries_size zip_values_size)

section \<open>Reading what was printed\<close>

text \<open>
  The values that JSON denotes: no \<open>undefined\<close>, numbers that are read as they are printed, and
  objects with their entries in the order that an object has after reading.
\<close>

fun json_ok :: "(string \<Rightarrow> string) \<Rightarrow> js \<Rightarrow> bool" where
  "json_ok N JUndef = False" | "json_ok N JNull = True" | "json_ok N (JBool _) = True"
| "json_ok N (JNum n) = (is_number n \<and> N n = n)" | "json_ok N (JStr _) = True"
| "json_ok N (JArr xs) = list_all (json_ok N) xs"
| "json_ok N (JObj m) = (object_of m = m \<and> list_all (\<lambda>(k, v). json_ok N v) m)"

subsection \<open>Texts\<close>

lemma hexDigit_hex: "n < 16 \<Longrightarrow> isHex (hexDigit n) \<and> hexVal (hexDigit n) = n"
proof -
  have "list_all (\<lambda>n. isHex (hexDigit n) \<and> hexVal (hexDigit n) = n) [0..<16]" by code_simp
  then show "n < 16 \<Longrightarrow> isHex (hexDigit n) \<and> hexVal (hexDigit n) = n" by (simp add: list_all_iff)
qed

lemma escape_inverse: "map_of escapes c = Some e \<Longrightarrow> e \<noteq> CHR ''u'' \<and> map_of unescapes e = Some c"
  by (auto simp: escapes_def unescapes_def split: if_splits)

lemma escapes_quotes: "map_of escapes (CHR 0x22) \<noteq> None" "map_of escapes (CHR 0x5C) \<noteq> None"
  by (simp_all add: escapes_def)

lemma hex4_control:
  assumes "of_char c < (32 :: nat)"
  shows "hex4 (CHR ''0'' # CHR ''0'' # hexDigit (of_char c div 16) # hexDigit (of_char c mod 16) # r) = Some (of_char c, r)"
proof -
  have "of_char c div (16 :: nat) < 16" "of_char c mod (16 :: nat) < 16" using assms by simp_all
  moreover have "isHex (CHR ''0'') \<and> hexVal (CHR ''0'') = 0" by code_simp
  ultimately show ?thesis using hexDigit_hex by (simp add: hex4_def)
qed

lemma unicode_control:
  "of_char c < (32 :: nat) \<Longrightarrow>
   unicode_escape (CHR ''0'' # CHR ''0'' # hexDigit (of_char c div 16) # hexDigit (of_char c mod 16) # r) = Some ([c], r)"
  by (simp add: unicode_escape_def hex4_control utf8_def)

lemma read_print_char: "read_chars (print_char c @ r) = map_option (\<lambda>(t, r'). (c # t, r')) (read_chars r)"
proof (cases "map_of escapes c")
  case (Some e)
  then show ?thesis using escape_inverse [OF Some] by (simp add: print_char_def)
next
  case None
  then have "c \<noteq> CHR 0x22" "c \<noteq> CHR 0x5C" using escapes_quotes by auto
  then show ?thesis using None by (simp add: print_char_def unicode_control del: map_of_eq_None_iff)
qed

lemma read_chars_print: "read_chars (concat (map print_char s) @ CHR 0x22 # r) = Some (s, r)"
  by (induction s) (simp_all add: read_print_char)

subsection \<open>Numbers\<close>

definition no_number :: "string \<Rightarrow> bool" where
  "no_number r \<longleftrightarrow> (case r of [] \<Rightarrow> True | c # _ \<Rightarrow> \<not> number_char c)"

lemma digits_number: "list_all isDigit s \<Longrightarrow> list_all number_char s"
  by (auto simp: list_all_iff number_char_def)

lemma digits_split: "list_all number_char (dropWhile isDigit s) \<Longrightarrow> list_all number_char s"
proof -
  assume "list_all number_char (dropWhile isDigit s)"
  moreover have "list_all number_char (takeWhile isDigit s)"
    using set_takeWhileD [of _ isDigit s] by (auto simp: list_all_iff number_char_def)
  ultimately show ?thesis by (metis list_all_append takeWhile_dropWhile_id)
qed

lemma exponent_number: "exponent_ok s \<Longrightarrow> list_all number_char s"
  by (auto simp: exponent_ok_def digits_only_def number_char_def split: list.splits if_splits intro: digits_number)

lemma fraction_number: "fraction_ok s \<Longrightarrow> list_all number_char s"
  by (auto simp: fraction_ok_def number_char_def split: list.splits if_splits
      dest!: exponent_number intro: digits_split)

lemma is_number_chars: "is_number n \<Longrightarrow> list_all number_char n \<and> n \<noteq> []"
  by (auto simp: is_number_def Let_def number_char_def split: list.splits if_splits
      dest!: fraction_number intro: digits_split)

lemma read_number_print:
  assumes "is_number n" "no_number r"
  shows "read_number N (n @ r) = Some (JNum (N n), r)"
proof -
  have "list_all number_char n" using is_number_chars [OF assms(1)] by simp
  then have "takeWhile number_char (n @ r) = n" "dropWhile number_char (n @ r) = r"
    using assms(2) by (auto simp: takeWhile_append dropWhile_append list_all_iff no_number_def split: list.splits)
  then show ?thesis using assms(1) by (simp add: read_number_def)
qed

lemma number_char_start: "number_char c \<Longrightarrow> \<not> json_space c \<and> c \<notin> {CHR ''['', CHR '']'', CHR ''{'', CHR ''}'', CHR 0x22}"
  by (auto simp: number_char_def json_space_def isDigit_def)

lemma is_number_names: "is_number n \<Longrightarrow> n \<notin> {''NaN'', ''Infinity'', ''-Infinity''}"
proof -
  have "\<not> is_number ''NaN''" "\<not> is_number ''Infinity''" "\<not> is_number ''-Infinity''" by code_simp+
  then show "is_number n \<Longrightarrow> ?thesis" by auto
qed

subsection \<open>White space\<close>

definition blank :: "string \<Rightarrow> bool" where
  "blank s \<longleftrightarrow> list_all json_space s"

lemma skip_blank [simp]: "blank w \<Longrightarrow> skip_ws (w @ s) = skip_ws s"
  by (induction w) (simp_all add: blank_def skip_ws_def)

lemma blank_simps [simp]:
  "blank []" "blank (a @ b) \<longleftrightarrow> blank a \<and> blank b" "blank (c # s) \<longleftrightarrow> json_space c \<and> blank s"
  by (auto simp: blank_def)

lemma blank_line_break [simp]: "blank i \<Longrightarrow> blank (line_break g i)"
  by (simp add: line_break_def json_space_def)

lemma skip_ws_start [simp]: "\<not> json_space c \<Longrightarrow> skip_ws (c # s) = c # s"
  by (simp add: skip_ws_def)

lemma json_space_punct [simp]:
  "\<not> json_space (CHR ''['')" "\<not> json_space (CHR '']'')" "\<not> json_space (CHR ''{'')" "\<not> json_space (CHR ''}'')"
  "\<not> json_space (CHR '','')" "\<not> json_space (CHR '':'')" "\<not> json_space (CHR 0x22)" "json_space (CHR '' '')"
  by (simp_all add: json_space_def)

lemma read_skip_blank:
  "blank w \<Longrightarrow> read_value N n (w @ s) = read_value N n s"
  "blank w \<Longrightarrow> read_elements N n (w @ s) = read_elements N n s"
  "blank w \<Longrightarrow> read_members N n (w @ s) = read_members N n s"
proof -
  show v: "blank w \<Longrightarrow> read_value N n (w @ s) = read_value N n s" for n by (cases n) simp_all
  show "blank w \<Longrightarrow> read_elements N n (w @ s) = read_elements N n s" by (cases n) (simp_all add: v)
  show "blank w \<Longrightarrow> read_members N n (w @ s) = read_members N n s" by (cases n) simp_all
qed

lemma no_number_punct [simp]:
  "no_number []" "no_number (CHR '']'' # r)" "no_number (CHR ''}'' # r)" "no_number (CHR '','' # r)"
  by (simp_all add: no_number_def number_char_def isDigit_def)

lemma no_number_line_break: "no_number r \<Longrightarrow> no_number (line_break g i @ r)"
  by (simp add: line_break_def no_number_def number_char_def isDigit_def)

subsection \<open>Values\<close>

lemma write_start:
  assumes "json_ok N v"
  shows "\<exists>c r. json_write g i v = c # r \<and> \<not> json_space c \<and> c \<notin> {CHR '']'', CHR ''}''}"
proof (cases v)
  case (JNum n)
  then have "list_all number_char n" "n \<noteq> []" "n \<notin> {''NaN'', ''Infinity'', ''-Infinity''}"
    using assms is_number_chars is_number_names by auto
  then obtain c r where "n = c # r" "number_char c" by (cases n) auto
  then show ?thesis using JNum \<open>n \<notin> _\<close> number_char_start [of c] by auto
qed (use assms in \<open>auto simp: print_string_def json_space_def Let_def\<close>)

definition member_text :: "string \<Rightarrow> string \<Rightarrow> string \<times> js \<Rightarrow> string" where
  "member_text g i = (\<lambda>(k, v). print_string k @ colon g @ json_write g i v)"

lemma json_write_object:
  assumes "list_all (\<lambda>(k, v). json_ok N v) m"
  shows "json_write g i (JObj m) =
    (if m = [] then ''{}''
     else ''{'' @ line_break g (i @ g) @ joinStr ('','' @ line_break g (i @ g)) (map (member_text g (i @ g)) m) @
          line_break g i @ ''}'')"
proof -
  let ?f = "\<lambda>(k, v). (k, if v = JUndef then None else Some (print_string k @ colon g @ json_write g (i @ g) v))"
  have m: "filter (\<lambda>(k, s). s \<noteq> None) (map ?f m) = map (\<lambda>p. (fst p, Some (member_text g (i @ g) p))) m"
    using assms by (induction m) (auto simp: member_text_def split: if_splits)
  show ?thesis unfolding json_write.simps m Let_def by (simp add: o_def)
qed

definition reads_back :: "(string \<Rightarrow> string) \<Rightarrow> string \<Rightarrow> js \<Rightarrow> bool" where
  "reads_back N g v \<longleftrightarrow> (\<forall>i n r. blank i \<longrightarrow> no_number r \<longrightarrow> 2 * length (json_write g i v) < n \<longrightarrow>
     read_value N n (json_write g i v @ r) = Some (v, r))"

lemma reads_backD:
  "reads_back N g v \<Longrightarrow> blank i \<Longrightarrow> no_number r \<Longrightarrow> 2 * length (json_write g i v) < n \<Longrightarrow>
   read_value N n (json_write g i v @ r) = Some (v, r)"
  by (simp add: reads_back_def)

lemma read_elements_write:
  assumes "xs \<noteq> []" "list_all (reads_back N g) xs" "blank g" "blank i" "blank j"
    and "2 * length (joinStr ('','' @ line_break g i) (map (json_write g i) xs)) + 1 < n"
  shows "read_elements N n (joinStr ('','' @ line_break g i) (map (json_write g i) xs) @ line_break g j @ CHR '']'' # r)
    = Some (xs, r)"
  using assms
proof (induction xs arbitrary: n rule: induct_list012)
  case (2 x)
  obtain k where n: "n = Suc k" using 2 by (cases n) auto
  show ?case using 2 n reads_backD [of N g x i "line_break g j @ CHR '']'' # r" k]
    by (simp add: no_number_line_break)
next
  case (3 x y xs)
  obtain k where n: "n = Suc k" using 3 by (cases n) auto
  let ?t = "joinStr ('','' @ line_break g i) (map (json_write g i) (y # xs))"
  have "read_value N k (json_write g i x @ CHR '','' # line_break g i @ ?t @ line_break g j @ CHR '']'' # r)
      = Some (x, CHR '','' # line_break g i @ ?t @ line_break g j @ CHR '']'' # r)"
    using 3 n by (intro reads_backD) simp_all
  moreover have "read_elements N k (?t @ line_break g j @ CHR '']'' # r) = Some (y # xs, r)"
    using 3 n by (intro "3.IH"(2)) simp_all
  ultimately show ?case using n 3 by (simp add: read_skip_blank)
qed simp

lemma colon_blank:
  obtains w where "colon g = CHR '':'' # w" "blank w"
  by (cases "g = []") (simp_all add: colon_def)

lemma read_members_write:
  assumes "m \<noteq> []" "list_all (\<lambda>(k, v). reads_back N g v) m" "blank g" "blank i" "blank j"
    and "2 * length (joinStr ('','' @ line_break g i) (map (member_text g i) m)) + 1 < n"
  shows "read_members N n (joinStr ('','' @ line_break g i) (map (member_text g i) m) @ line_break g j @ CHR ''}'' # r)
    = Some (m, r)"
  using assms
proof (induction m arbitrary: n rule: induct_list012)
  case (2 p)
  obtain k v where p: "p = (k, v)" by (cases p)
  obtain l where n: "n = Suc l" using 2 by (cases n) auto
  have "read_value N l (json_write g i v @ line_break g j @ CHR ''}'' # r) = Some (v, line_break g j @ CHR ''}'' # r)"
    using 2 n p by (intro reads_backD) (simp_all add: no_number_line_break member_text_def)
  moreover obtain w where "colon g = CHR '':'' # w" "blank w" by (rule colon_blank)
  ultimately show ?case using 2 n p by (simp add: member_text_def print_string_def read_chars_print read_skip_blank)
next
  case (3 p q m)
  obtain k v where p: "p = (k, v)" by (cases p)
  obtain l where n: "n = Suc l" using 3 by (cases n) auto
  let ?t = "joinStr ('','' @ line_break g i) (map (member_text g i) (q # m))"
  have "read_value N l (json_write g i v @ CHR '','' # line_break g i @ ?t @ line_break g j @ CHR ''}'' # r)
      = Some (v, CHR '','' # line_break g i @ ?t @ line_break g j @ CHR ''}'' # r)"
    using 3 n p by (intro reads_backD) (simp_all add: member_text_def)
  moreover have "read_members N l (?t @ line_break g j @ CHR ''}'' # r) = Some (q # m, r)"
    using 3 n by (intro "3.IH"(2)) simp_all
  moreover obtain w where "colon g = CHR '':'' # w" "blank w" by (rule colon_blank)
  ultimately show ?case using n p 3 by (simp add: member_text_def print_string_def read_chars_print read_skip_blank)
qed simp

lemma joinStr_start: "xs \<noteq> [] \<Longrightarrow> \<exists>t. joinStr sep xs = hd xs @ t"
  by (induction xs rule: induct_list012) auto

lemma read_scalars:
  "0 < n \<Longrightarrow> read_value N n (CHR ''n'' # CHR ''u'' # CHR ''l'' # CHR ''l'' # r) = Some (JNull, r)"
  "0 < n \<Longrightarrow> read_value N n (CHR ''t'' # CHR ''r'' # CHR ''u'' # CHR ''e'' # r) = Some (JBool True, r)"
  "0 < n \<Longrightarrow> read_value N n (CHR ''f'' # CHR ''a'' # CHR ''l'' # CHR ''s'' # CHR ''e'' # r) = Some (JBool False, r)"
  "0 < n \<Longrightarrow> read_value N n (print_string s @ r) = Some (JStr s, r)"
  by (cases n; simp add: read_literal_def hasPrefix_def number_char_def isDigit_def json_space_def print_string_def
      read_chars_print)+

lemma all_read_back: "json_ok N v \<Longrightarrow> blank g \<Longrightarrow> reads_back N g v"
proof (induction v)
  case (JNum n)
  then have ok: "is_number n" "N n = n" and "n \<notin> {''NaN'', ''Infinity'', ''-Infinity''}" using is_number_names by auto
  obtain c s where n: "n = c # s" "number_char c" using is_number_chars [OF ok(1)] by (cases n) auto
  show ?case unfolding reads_back_def
  proof (intro allI impI)
    fix i k r assume "no_number r" "2 * length (json_write g i (JNum n)) < k"
    then obtain l where "k = Suc l" by (cases k) auto
    then show "read_value N k (json_write g i (JNum n) @ r) = Some (JNum n, r)"
      using ok \<open>n \<notin> _\<close> n number_char_start [of c] read_number_print [of n r N] \<open>no_number r\<close> by auto
  qed
next
  case (JArr xs)
  then have all: "list_all (reads_back N g) xs" by (auto simp: list_all_iff)
  show ?case unfolding reads_back_def
  proof (intro allI impI)
    fix i n r assume i: "blank i" and f: "2 * length (json_write g i (JArr xs)) < n"
    obtain l where n: "n = Suc l" using f by (cases n) auto
    show "read_value N n (json_write g i (JArr xs) @ r) = Some (JArr xs, r)"
    proof (cases "xs = []")
      case False
      let ?t = "joinStr ('','' @ line_break g (i @ g)) (map (json_write g (i @ g)) xs)"
      have "json_ok N (hd xs)" using False JArr.prems(1) by (cases xs) auto
      then obtain c s where "json_write g (i @ g) (hd xs) = c # s" "\<not> json_space c" "c \<noteq> CHR '']''"
        using write_start [of N "hd xs" g "i @ g"] by auto
      then obtain u where u: "?t = c # u" using joinStr_start [of "map (json_write g (i @ g)) xs"] False by (auto simp: hd_map)
      have "read_elements N l (?t @ line_break g i @ CHR '']'' # r) = Some (xs, r)"
        using read_elements_write [of xs N g "i @ g" i l r] False all i JArr.prems f n by simp
      then show ?thesis using False n i JArr.prems \<open>\<not> json_space c\<close> \<open>c \<noteq> CHR '']''\<close> u
        by (simp add: read_skip_blank)
    qed (simp add: n)
  qed
next
  case (JObj m)
  then have all: "list_all (\<lambda>(k, v). reads_back N g v) m" "object_of m = m" by (auto simp: list_all_iff)
  note w = json_write_object [of N m]
  show ?case unfolding reads_back_def
  proof (intro allI impI)
    fix i n r assume i: "blank i" and f: "2 * length (json_write g i (JObj m)) < n"
    obtain l where n: "n = Suc l" using f by (cases n) auto
    have ok: "list_all (\<lambda>(k, v). json_ok N v) m" using JObj.prems by simp
    show "read_value N n (json_write g i (JObj m) @ r) = Some (JObj m, r)"
    proof (cases "m = []")
      case False
      let ?t = "joinStr ('','' @ line_break g (i @ g)) (map (member_text g (i @ g)) m)"
      obtain t where "?t = member_text g (i @ g) (hd m) @ t"
        using joinStr_start [of "map (member_text g (i @ g)) m" "'','' @ line_break g (i @ g)"] False by (auto simp: hd_map)
      then obtain u where u: "?t = CHR 0x22 # u" by (cases "hd m") (simp add: member_text_def print_string_def)
      have "read_members N l (?t @ line_break g i @ CHR ''}'' # r) = Some (m, r)"
        using read_members_write [of m N g "i @ g" i l r] False all i JObj.prems f n w [OF ok] by simp
      then show ?thesis using False n i JObj.prems u all w [OF ok, of g i]
        by (simp add: read_skip_blank del: json_write.simps)
    qed (simp add: n)
  qed
qed (simp_all add: reads_back_def read_scalars)

section \<open>Properties\<close>


definition example_value :: js where
  "example_value = JObj [(''7'', JNull), (''a\"b'', JArr [JNum ''-1.5e3'', JStr [CHR 0x0A, CHR 0x01, CHR 0x5C], JArr [], JObj []]), (''c'', JBool True)]"


end
