(* ===== verification/Web_Request.thy ===== *)
theory Web_Request
  imports Web_Template Web_Json
begin

unbundle bit_operations_syntax

text \<open>
  The request that the documentation page (web/static/rapidoc-min.js) sends: the element
  \<open>api-request\<close> reads the controls of its panel and makes the URL, the headers and the body, and the
  command line for curl; and it classifies the answer.

  A panel is the list of its elements. The value of a control is its property \<open>value\<close>, or the text
  that the template has put into a text area. Header names and values are assumed to be acceptable
  to the browser.
\<close>

section \<open>Parameters\<close>

text \<open>
  The text of a number that has been read, the decoder of a character set (\<open>None\<close>: unknown), the
  bundled printer for XML, the completion of a URL by the address of the page, and the texts of the
  exceptions that the browser throws.
\<close>

record web =
  number_text :: "string \<Rightarrow> string"
  decode_text :: "string \<Rightarrow> string \<Rightarrow> string option"
  xml_pretty :: "string \<Rightarrow> string"
  absolute_url :: "string \<Rightarrow> string"
  type_error :: string
  syntax_error :: string

section \<open>Encodings\<close>

definition upper_hex :: "nat \<Rightarrow> char" where
  "upper_hex n = upper_char (hexDigit n)"

definition percent :: "char \<Rightarrow> string" where
  "percent c = [CHR ''%'', upper_hex (of_char c div 16), upper_hex (of_char c mod 16)]"

text \<open>\<open>encodeURIComponent\<close> and the serializer of \<open>URLSearchParams\<close>, on the bytes of a text.\<close>

definition uri_char :: "char \<Rightarrow> string" where
  "uri_char c = (if alphanumeric c \<or> c \<in> set ''-_.!~*()'' \<or> c = CHR 0x27 then [c] else percent c)"

definition encodeURIComponent :: "string \<Rightarrow> string" where
  "encodeURIComponent s = concat (map uri_char s)"

definition form_char :: "char \<Rightarrow> string" where
  "form_char c = (if alphanumeric c \<or> c \<in> set ''*-._'' then [c] else if c = CHR '' '' then ''+'' else percent c)"

definition params_toString :: "params \<Rightarrow> string" where
  "params_toString ps =
     joinStr ''&'' (map (\<lambda>(k, v). concat (map form_char k) @ ''='' @ concat (map form_char v)) ps)"

section \<open>Controls\<close>

definition data_of :: "string \<Rightarrow> dom \<Rightarrow> js" where
  "data_of k n = (case attr (''data-'' @ k) n of Some v \<Rightarrow> JStr v | None \<Rightarrow> JUndef)"

definition pname :: "dom \<Rightarrow> string" where
  "pname n = js_toString (data_of ''pname'' n)"

definition control_value :: "dom \<Rightarrow> js" where
  "control_value n =
     (if property ''value'' n \<noteq> JUndef then property ''value'' n
      else if property ''textContent'' n \<noteq> JUndef then JStr (lit_str (property ''textContent'' n))
      else JStr (case attr ''value'' n of Some v \<Rightarrow> v | None \<Rightarrow> []))"

definition with_value :: "js \<Rightarrow> dom \<Rightarrow> dom" where
  "with_value v n = (case n of El t as ps ns \<Rightarrow> El t as (upd_assoc ''value'' v ps) ns | Tx s \<Rightarrow> Tx s)"

definition has_class :: "string \<Rightarrow> dom \<Rightarrow> bool" where
  "has_class c n = (case attr ''class'' n of Some s \<Rightarrow> c \<in> set (js_split '' '' s) | None \<Rightarrow> False)"

definition is_control :: "dom \<Rightarrow> bool" where
  "is_control n \<longleftrightarrow> tag_of n \<in> {''input'', ''tag-input''} \<or> tag_of n = ''textarea'' \<and> \<not> has_class ''is-hidden'' n"

fun map_elements :: "(dom \<Rightarrow> dom) \<Rightarrow> dom \<Rightarrow> dom" where
  "map_elements f (Tx s) = Tx s"
| "map_elements f (El t as ps ns) = f (El t as ps (map (map_elements f) ns))"

text \<open>The buttons FILL EXAMPLE and CLEAR.\<close>

definition fill_control :: "dom \<Rightarrow> dom" where
  "fill_control n =
     (if is_control n \<and> js_truthy (data_of ''example'' n)
      then with_value (if tag_of n = ''tag-input'' then JArr (map JStr (js_split ''~|~'' (js_toString (data_of ''example'' n))))
                       else data_of ''example'' n) n
      else n)"

definition onFillRequestData :: "dom list \<Rightarrow> dom list" where
  "onFillRequestData panel = map (map_elements fill_control) panel"

definition onClearRequestData :: "dom list \<Rightarrow> dom list" where
  "onClearRequestData panel = map (map_elements (\<lambda>n. if is_control n then with_value (JStr []) n else n)) panel"

section \<open>The URL\<close>

definition ptype :: "string \<Rightarrow> dom list \<Rightarrow> dom list" where
  "ptype k panel = by_attr ''data-ptype'' k panel"

definition fill_path :: "string \<Rightarrow> dom list \<Rightarrow> string" where
  "fill_path path es =
     fold (\<lambda>e t. js_replace t (''{'' @ pname e @ ''}'') (encodeURIComponent (js_toString (control_value e)))) es path"

text \<open>\<open>replace(/^c|c$/g, "")\<close>: one character at each end.\<close>

definition strip_ends :: "(char \<Rightarrow> bool) \<Rightarrow> string \<Rightarrow> string" where
  "strip_ends P s =
     (let s1 = (case s of c # cs \<Rightarrow> if P c then cs else s | [] \<Rightarrow> []) in
      if s1 \<noteq> [] \<and> P (last s1) then butlast s1 else s1)"

definition items_of :: "js \<Rightarrow> js list" where
  "items_of v = filter (\<lambda>x. x \<noteq> JStr []) (js_list v)"

definition array_params :: "string \<Rightarrow> js \<Rightarrow> js \<Rightarrow> js list \<Rightarrow> params" where
  "array_params name style explode xs =
     (if xs = [] then []
      else if style = JStr ''spaceDelimited'' then [(name, strip_ends isSpace (js_join '' '' xs))]
      else if style = JStr ''pipeDelimited'' then [(name, strip_ends (\<lambda>c. c = CHR ''|'') (js_join ''|'' xs))]
      else if explode = JStr ''true'' then map (\<lambda>x. (name, js_toString x)) xs
      else [(name, strip_ends (\<lambda>c. c = CHR '','') (js_join '','' xs))])"

definition query_params :: "dom \<Rightarrow> params" where
  "query_params e =
     (if data_of ''array'' e = JStr ''false''
      then (if control_value e \<noteq> JStr [] then [(pname e, js_toString (control_value e))] else [])
      else array_params (pname e) (data_of ''param-serialize-style'' e) (data_of ''param-serialize-explode'' e)
             (items_of (control_value e)))"

text \<open>White space is collapsed before a text is parsed.\<close>

fun collapse_ws :: "bool \<Rightarrow> string \<Rightarrow> string" where
  "collapse_ws b [] = []"
| "collapse_ws b (c # s) =
     (if isSpace c then (if b then [] else '' '') @ collapse_ws True s else c # collapse_ws False s)"

definition collapse :: "string \<Rightarrow> string" where
  "collapse s = collapse_ws False s"

definition entry_params :: "js \<Rightarrow> js \<Rightarrow> string \<times> js \<Rightarrow> params" where
  "entry_params style explode = (\<lambda>(k, v).
     case v of
       JArr xs \<Rightarrow>
         if style = JStr ''spaceDelimited'' then [(k, js_join '' '' xs)]
         else if style = JStr ''pipeDelimited'' then [(k, js_join ''|'' xs)]
         else if explode = JStr ''true'' then map (\<lambda>x. (k, js_toString x)) xs
         else [(k, js_toString v)]
     | JObj _ \<Rightarrow> [] | JNull \<Rightarrow> []
     | _ \<Rightarrow> [(k, js_toString v)])"

definition object_params :: "web \<Rightarrow> dom \<Rightarrow> params" where
  "object_params W e =
     (case json_parse (number_text W) (collapse (js_toString (control_value e))) of
        None \<Rightarrow> []
      | Some v \<Rightarrow>
          let m = (case v of JObj m \<Rightarrow> m | JArr xs \<Rightarrow> map (\<lambda>(i, x). (showNat i, x)) (enumerate 0 xs)
                   | JStr s \<Rightarrow> map (\<lambda>(i, c). (showNat i, JStr [c])) (enumerate 0 s) | _ \<Rightarrow> []);
              style = data_of ''param-serialize-style'' e in
          if js_includes ''json xml'' (js_toString style)
          then (if style = JStr ''json'' then [(pname e, json_stringify (JObj m))]
                else if style = JStr ''xml'' then (case jP 1 (JObj m) of Some x \<Rightarrow> [(pname e, x)] | None \<Rightarrow> []) else [])
          else concat (map (entry_params style (data_of ''param-serialize-explode'' e)) m))"

definition is_reserved :: "dom \<Rightarrow> bool" where
  "is_reserved e \<longleftrightarrow> data_of ''param-allow-reserved'' e = JStr ''true''"

text \<open>The parameters by name, in the order of the first control with the name; the last control wins.\<close>

definition add_params :: "(dom \<Rightarrow> params) \<Rightarrow> dom \<Rightarrow> (string \<times> params) list \<Rightarrow> (string \<times> params) list" where
  "add_params f e a = (if params_toString (f e) \<noteq> [] then upd_assoc (pname e) (f e) a else a)"

definition get_all :: "string \<Rightarrow> params \<Rightarrow> string list" where
  "get_all k ps = map snd (filter (\<lambda>(k', _). k' = k) ps)"

definition reserved_text :: "string \<Rightarrow> params \<Rightarrow> string" where
  "reserved_text k ps = k @ ''='' @ joinStr (''&'' @ k @ ''='') (get_all k ps)"

definition query_string :: "string list \<Rightarrow> (string \<times> params) list \<Rightarrow> string" where
  "query_string reserved a =
     joinStr ''&'' (map (\<lambda>(k, ps). if k \<in> set reserved then reserved_text k ps else params_toString ps) a)"

definition add_query :: "string \<Rightarrow> string \<Rightarrow> string" where
  "add_query t s = t @ (if CHR ''?'' \<in> set t then ''&'' else ''?'') @ s"

definition key_query :: "obj list \<Rightarrow> string \<Rightarrow> string" where
  "key_query keys t =
     fold (\<lambda>e t. add_query t (js_toString (field e ''name'') @ ''='' @ encodeURIComponent (js_toString (field e ''finalKeyValue''))))
       (filter (\<lambda>e. field e ''in'' = JStr ''query'') keys) t"

definition parsed_reserved :: "web \<Rightarrow> dom list \<Rightarrow> string list" where
  "parsed_reserved W os =
     map pname (filter (\<lambda>e. is_reserved e \<and> json_parse (number_text W) (collapse (js_toString (control_value e))) \<noteq> None) os)"

definition buildFetchURL :: "web \<Rightarrow> string \<Rightarrow> string \<Rightarrow> obj list \<Rightarrow> dom list \<Rightarrow> string" where
  "buildFetchURL W path serverUrl keys panel =
     (let n = ptype ''query'' panel; os = ptype ''query-object'' panel;
          t = fill_path path (ptype ''path'' panel);
          a = fold (add_params (object_params W)) os (fold (add_params query_params) n []);
          s = query_string (map pname (filter is_reserved n) @ parsed_reserved W os) a;
          t' = (if s \<noteq> [] then add_query t s else t) in
      trimSuffix serverUrl ''/'' @ key_query keys t')"

section \<open>Headers\<close>

text \<open>\<open>Headers.append\<close>, and the iteration over headers: names in lower case, sorted, values joined.\<close>

definition headers_entries :: "params \<Rightarrow> params" where
  "headers_entries hs =
     map (\<lambda>k. (k, joinStr '', '' (map snd (filter (\<lambda>(k', _). toLower k' = k) hs)))) (sort (remdups (map (\<lambda>(k, _). toLower k) hs)))"

definition body_type :: "dom list \<Rightarrow> string option" where
  "body_type panel =
     (case select (has_class ''request-body-container'') panel of
        [] \<Rightarrow> None
      | c # _ \<Rightarrow> Some (js_toString (data_of ''selected-request-body-type'' c)))"

text \<open>\<open>selected\<close> is the media type that the responses of the operation show.\<close>

definition buildFetchHeaders :: "js \<Rightarrow> string \<Rightarrow> obj list \<Rightarrow> dom list \<Rightarrow> params" where
  "buildFetchHeaders selected accept keys panel =
     (if js_truthy selected then [(''Accept'', js_toString selected)] else if accept \<noteq> [] then [(''Accept'', accept)] else [])
     @ map (\<lambda>e. (js_toString (field e ''name''), js_toString (field e ''finalKeyValue''))) (filter (\<lambda>e. field e ''in'' = JStr ''header'') keys)
     @ map (\<lambda>e. (pname e, js_toString (control_value e))) (filter (\<lambda>e. js_truthy (control_value e)) (ptype ''header'' panel))
     @ (case body_type panel of Some e \<Rightarrow> if js_includes e ''form-data'' then [] else [(''Content-Type'', e)] | None \<Rightarrow> [])"

section \<open>The body\<close>

datatype form_value = FText string | FFile string
datatype request_body = NoBody | Params params | Form "(string \<times> form_value) list" | FileBody string | Raw string

text \<open>The names of the files that a control has been given.\<close>

definition files_of :: "dom \<Rightarrow> string list" where
  "files_of n = map js_toString (js_list (property ''files'' n))"

definition is_file :: "dom \<Rightarrow> bool" where
  "is_file n \<longleftrightarrow> attr ''type'' n = Some ''file''"

definition urlencoded_params :: "dom \<Rightarrow> params" where
  "urlencoded_params e =
     (if data_of ''array'' e = JStr ''false''
      then (if js_truthy (control_value e) then [(pname e, js_toString (control_value e))] else [])
      else [(pname e, case control_value e of JArr xs \<Rightarrow> js_join '','' xs | _ \<Rightarrow> [])])"

definition dynamic_form :: "web \<Rightarrow> dom \<Rightarrow> request_body" where
  "dynamic_form W t =
     (if \<not> js_truthy (control_value t) then NoBody
      else case json_parse (number_text W) (js_toString (control_value t)) of
             None \<Rightarrow> NoBody
           | Some (JObj m) \<Rightarrow> Params (map (\<lambda>(k, v). (k, json_stringify v)) m)
           | Some (JArr xs) \<Rightarrow> Params (map (\<lambda>(i, v). (showNat i, json_stringify v)) (enumerate 0 xs))
           | Some (JStr s) \<Rightarrow> Params (map (\<lambda>(i, c). (showNat i, json_stringify (JStr [c]))) (enumerate 0 s))
           | Some _ \<Rightarrow> Params [])"

definition form_data :: "dom \<Rightarrow> (string \<times> form_value) list" where
  "form_data e =
     (if data_of ''array'' e = JStr ''false''
      then (if is_file e \<and> files_of e \<noteq> [] then [(pname e, FFile (hd (files_of e)))]
            else if js_truthy (control_value e) then [(pname e, FText (js_toString (control_value e)))] else [])
      else (case control_value e of JArr xs \<Rightarrow> [(pname e, FText (js_join '','' xs))] | _ \<Rightarrow> []))"

definition starts_or_ends :: "string list \<Rightarrow> string list \<Rightarrow> string \<Rightarrow> bool" where
  "starts_or_ends ps ss s \<longleftrightarrow> list_ex (\<lambda>p. is_prefix p s) ps \<or> list_ex (hasSuffix s) ss"

definition binary_endings :: "string list" where
  "binary_endings = [''tar'', ''zip'', ''7z'', ''rtf'', ''msword'', ''excel'', ''/pdf'', ''/octet-stream'']"

definition is_binary_type :: "string \<Rightarrow> bool" where
  "is_binary_type n = starts_or_ends [''audio/'', ''image/'', ''video/'', ''font/''] binary_endings n"

definition buildFetchBody :: "web \<Rightarrow> dom list \<Rightarrow> request_body" where
  "buildFetchBody W panel =
     (case body_type panel of
        None \<Rightarrow> NoBody
      | Some n \<Rightarrow>
          if js_includes n ''form-urlencoded'' then
            (case ptype ''dynamic-form'' panel of
               t # _ \<Rightarrow> dynamic_form W t
             | [] \<Rightarrow> Params (concat (map urlencoded_params (filter (\<lambda>e. \<not> is_file e) (ptype ''form-urlencode'' panel)))))
          else if js_includes n ''form-data'' then Form (concat (map form_data (ptype ''form-data'' panel)))
          else if is_binary_type n then
            (case select (has_class ''request-body-param-file'') panel of
               t # _ \<Rightarrow> (case files_of t of f # _ \<Rightarrow> FileBody f | [] \<Rightarrow> NoBody)
             | [] \<Rightarrow> NoBody)
          else if js_includes n ''json'' \<or> js_includes n ''xml'' \<or> js_includes n ''text'' then
            (case select (has_class ''request-body-param-user-input'') panel of
               t # _ \<Rightarrow> if js_truthy (control_value t) then Raw (js_toString (control_value t)) else NoBody
             | [] \<Rightarrow> NoBody)
          else NoBody)"

section \<open>The command line\<close>

definition curl_end :: string where "curl_end = '' '' @ [CHR 0x5C, CHR 0x0A]"

text \<open>\<open>r.match(/([^,],)/gm)\<close>: every character that is followed by a comma, with the comma.\<close>

fun comma_matches :: "string \<Rightarrow> string list" where
  "comma_matches (c # d # s) = (if c \<noteq> CHR '','' \<and> d = CHR '','' then [c, d] # comma_matches s else comma_matches (d # s))"
| "comma_matches _ = []"

definition curl_form :: "string \<times> form_value \<Rightarrow> string list" where
  "curl_form = (\<lambda>(t, r).
     case r of
       FFile f \<Rightarrow> ['' -F \"'' @ t @ ''=@'' @ f @ ''\"'']
     | FText v \<Rightarrow> (case comma_matches v of
                    [] \<Rightarrow> ['' -F \"'' @ t @ ''='' @ v @ ''\"'']
                  | n \<Rightarrow> map (\<lambda>e. ''-F \"'' @ t @ ''[]='' @ e @ ''\"'') n))"

text \<open>\<open>replace(/'/g, ...)\<close> closes the quotation, adds the quote in double quotation marks and opens it again.\<close>

definition shell_quote :: "string \<Rightarrow> string" where
  "shell_quote s = concat (map (\<lambda>c. if c = CHR 0x27 then [CHR 0x27, CHR 0x22, CHR 0x27, CHR 0x22, CHR 0x27] else [c]) s)"

definition curl_data :: "web \<Rightarrow> dom list \<Rightarrow> string" where
  "curl_data W panel =
     (case (body_type panel, select (has_class ''request-body-param-user-input'') panel) of
        (Some e, t # _) \<Rightarrow>
          if e \<noteq> [] \<and> js_truthy (control_value t) then
            (let v = js_toString (control_value t);
                 s = (if js_includes e ''json''
                      then (case json_parse (number_text W) v of Some x \<Rightarrow> '' -d '' @ [CHR 0x27] @ json_stringify x @ [CHR 0x27] @ curl_end | None \<Rightarrow> [])
                      else []) in
             if s \<noteq> [] then s else '' -d '' @ [CHR 0x27] @ shell_quote v @ [CHR 0x27] @ curl_end)
          else []
      | _ \<Rightarrow> [])"

definition generateCURLSyntax :: "web \<Rightarrow> string \<Rightarrow> string \<Rightarrow> params \<Rightarrow> request_body \<Rightarrow> dom list \<Rightarrow> string" where
  "generateCURLSyntax W method e t r panel =
     (let url = (if is_prefix ''http'' e then e else absolute_url W e);
          a = ''curl -X '' @ toUpper method @ '' \"'' @ url @ ''\"'' @ curl_end;
          h = joinStr [CHR 0x5C, CHR 0x0A] (map (\<lambda>(k, v). '' -H \"'' @ k @ '': '' @ v @ ''\"'') (headers_entries t));
          i = (if h \<noteq> [] then h @ curl_end else []) in
      a @ i @
      (case r of
         Params ps \<Rightarrow> '' -d '' @ params_toString ps @ curl_end
       | FileBody f \<Rightarrow> '' --data-binary @'' @ f @ curl_end
       | Form fs \<Rightarrow> joinStr [CHR 0x5C, CHR 0x0A] (concat (map curl_form fs))
       | _ \<Rightarrow> curl_data W panel))"

text \<open>
  The body that is sent: for a type that \<open>buildFetchBody\<close> leaves out, the generation of the command
  line sets it.
\<close>

definition sent_body :: "dom list \<Rightarrow> request_body \<Rightarrow> request_body" where
  "sent_body panel r =
     (case (r, body_type panel, select (has_class ''request-body-param-user-input'') panel) of
        (Params ps, _, _) \<Rightarrow> r | (FileBody f, _, _) \<Rightarrow> r | (Form fs, _, _) \<Rightarrow> r
      | (_, Some e, t # _) \<Rightarrow> if e \<noteq> [] \<and> js_truthy (control_value t) then Raw (js_toString (control_value t)) else r
      | _ \<Rightarrow> r)"

section \<open>The element api-request\<close>

record operation =
  op_method :: string
  op_path :: string
  op_serverUrl :: string
  op_accept :: string
  op_keys :: "obj list"
  op_selected :: js
  op_credentials :: string

record http_request =
  rq_url :: string
  rq_method :: string
  rq_headers :: params
  rq_credentials :: string
  rq_body :: request_body

definition request_of :: "web \<Rightarrow> operation \<Rightarrow> dom list \<Rightarrow> http_request" where
  "request_of W q panel =
     \<lparr>rq_url = buildFetchURL W (op_path q) (op_serverUrl q) (op_keys q) panel, rq_method = toUpper (op_method q),
      rq_headers = buildFetchHeaders (op_selected q) (op_accept q) (op_keys q) panel, rq_credentials = op_credentials q,
      rq_body = sent_body panel (buildFetchBody W panel)\<rparr>"

definition applyCURLSyntax :: "web \<Rightarrow> operation \<Rightarrow> dom list \<Rightarrow> string" where
  "applyCURLSyntax W q panel =
     generateCURLSyntax W (op_method q) (buildFetchURL W (op_path q) (op_serverUrl q) (op_keys q) panel)
       (buildFetchHeaders (op_selected q) (op_accept q) (op_keys q) panel) (buildFetchBody W panel) panel"

text \<open>The constructor of a request throws if a method without a body gets one.\<close>

definition request_throws :: "http_request \<Rightarrow> bool" where
  "request_throws r \<longleftrightarrow> rq_method r \<in> {''GET'', ''HEAD''} \<and> rq_body r \<noteq> NoBody"

text \<open>The state: what the answer shows, whether TRY is disabled, and the blob URLs that are not revoked.\<close>

record answer_state =
  curlSyntax :: string
  responseUrl :: string
  responseHeaders :: string
  responseText :: string
  responseStatus :: string
  responseMessage :: "dom list"
  responseIsBlob :: bool
  responseBlobType :: string
  respContentDisposition :: string
  responseBlobUrl :: string
  try_disabled :: bool
  blob_urls :: "string list"

definition revoke_blob :: "answer_state \<Rightarrow> answer_state" where
  "revoke_blob st =
     (if responseBlobUrl st \<noteq> [] then st\<lparr>blob_urls := filter (\<lambda>u. u \<noteq> responseBlobUrl st) (blob_urls st), responseBlobUrl := []\<rparr>
      else st)"

definition hourglass :: string where "hourglass = [CHR 0xE2, CHR 0x8C, CHR 0x9B]"

text \<open>A click on TRY, up to the call of \<open>fetch\<close>.\<close>

definition onTryClick :: "web \<Rightarrow> operation \<Rightarrow> dom list \<Rightarrow> answer_state \<Rightarrow> answer_state \<times> http_request option" where
  "onTryClick W q panel st =
     (let r = request_of W q panel;
          st1 = revoke_blob (st\<lparr>responseUrl := [], responseHeaders := [], curlSyntax := applyCURLSyntax W q panel,
                  responseStatus := ''success'', responseIsBlob := False, respContentDisposition := []\<rparr>) in
      if request_throws r then (st1, None)
      else (st1\<lparr>try_disabled := True, responseText := hourglass, responseMessage := []\<rparr>, Some r))"

subsection \<open>The answer\<close>

datatype answer_class = EmptyAnswer | Lines | JsonCharset string | JsonAnswer | Download | View | Xml | Plain

text \<open>\<open>/charset=[^"']+/\<close>\<close>

definition has_charset :: "string \<Rightarrow> bool" where
  "has_charset l \<longleftrightarrow>
     list_ex (\<lambda>i. is_prefix ''charset='' (drop i l) \<and>
                  (case drop (i + 8) l of [] \<Rightarrow> False | c # _ \<Rightarrow> c \<noteq> CHR 0x22 \<and> c \<noteq> CHR 0x27)) [0..<length l]"

definition answer_kind :: "string \<Rightarrow> string option \<Rightarrow> answer_class" where
  "answer_kind body contentType =
     (if body = [] then EmptyAnswer
      else case contentType of
        None \<Rightarrow> Plain
      | Some l \<Rightarrow>
          if l = [] then Plain
          else if l = ''application/x-ndjson'' then Lines
          else if js_includes l ''json'' then (if has_charset l then JsonCharset (js_split ''charset='' l ! 1) else JsonAnswer)
          else if starts_or_ends [''font/'', ''application/vnd.''] binary_endings l then Download
          else if starts_or_ends [''audio'', ''image'', ''video''] [] l then View
          else if js_includes l ''xml'' then Xml else Plain)"

text \<open>The file name in a \<open>content-disposition\<close>; \<open>None\<close>: it has none, and reading it throws.\<close>

definition file_name :: "string option \<Rightarrow> string option" where
  "file_name disposition =
     (case disposition of
        None \<Rightarrow> Some ''filename''
      | Some t \<Rightarrow> if t = [] then Some ''filename''
                  else (case js_split ''filename='' t of
                          _ # x # _ \<Rightarrow> Some (filter (\<lambda>c. c \<noteq> CHR 0x22 \<and> c \<noteq> CHR 0x27) x)
                        | _ \<Rightarrow> None))"

text \<open>
  What \<open>fetch\<close> resolves to, or why it is rejected; the headers are as \<open>Headers.forEach\<close> visits them,
  the last two are the elapsed time and the URL that \<open>createObjectURL\<close> returns for the body.
\<close>

record http_answer =
  an_status :: nat
  an_statusText :: string
  an_url :: string
  an_headers :: params
  an_body :: string
  an_millis :: nat
  an_blob :: string

datatype try_outcome = Answered http_answer | Aborted | Failed string

text \<open>The state after an answer, and the text of an exception if one is thrown on the way.\<close>

definition take_blob :: "web \<Rightarrow> http_answer \<Rightarrow> string \<Rightarrow> answer_state \<Rightarrow> answer_state \<times> string option" where
  "take_blob W a kind st =
     (let st1 = st\<lparr>responseIsBlob := True, responseBlobType := kind\<rparr> in
      case file_name (map_of (an_headers a) ''content-disposition'') of
        None \<Rightarrow> (st1, Some (type_error W))
      | Some f \<Rightarrow> (st1\<lparr>respContentDisposition := f, responseBlobUrl := an_blob a, blob_urls := an_blob a # blob_urls st1\<rparr>, None))"

definition take_answer :: "web \<Rightarrow> http_answer \<Rightarrow> answer_state \<Rightarrow> answer_state \<times> string option" where
  "take_answer W a st =
     (case answer_kind (an_body a) (map_of (an_headers a) ''content-type'') of
        EmptyAnswer \<Rightarrow> (st\<lparr>responseText := []\<rparr>, None)
      | Lines \<Rightarrow> (st\<lparr>responseText := an_body a\<rparr>, None)
      | JsonCharset c \<Rightarrow>
          (let n = (case decode_text W c (an_body a) of Some n \<Rightarrow> n | None \<Rightarrow> an_body a) in
           (st\<lparr>responseText := (case json_parse (number_text W) n of Some v \<Rightarrow> json_pretty v | None \<Rightarrow> n)\<rparr>, None))
      | JsonAnswer \<Rightarrow>
          (case json_parse (number_text W) (an_body a) of
             Some v \<Rightarrow> (st\<lparr>responseText := json_pretty v\<rparr>, None)
           | None \<Rightarrow> (st, Some (syntax_error W)))
      | Download \<Rightarrow> take_blob W a ''download'' st
      | View \<Rightarrow> take_blob W a ''view'' st
      | Xml \<Rightarrow> (st\<lparr>responseText := xml_pretty W (an_body a)\<rparr>, None)
      | Plain \<Rightarrow> (st\<lparr>responseText := an_body a\<rparr>, None))"

definition status_message :: "http_answer \<Rightarrow> dom list" where
  "status_message a =
     [Tx (if an_statusText a \<noteq> [] then an_statusText a @ '':'' @ showNat (an_status a) else showNat (an_status a)),
      El ''div'' [(''style'', ''color:var(--light-fg)'')] [] [Tx (''Took '' @ showNat (an_millis a) @ '' milliseconds'')]]"

definition failed_message :: "string \<Rightarrow> dom list" where
  "failed_message m = [Tx (m @ '' (CORS or Network Issue)'')]"

definition onTryEnd :: "web \<Rightarrow> try_outcome \<Rightarrow> answer_state \<Rightarrow> answer_state" where
  "onTryEnd W x st =
     (let st1 = st\<lparr>try_disabled := False\<rparr> in
      case x of
        Aborted \<Rightarrow> st1\<lparr>responseMessage := [Tx ''Request Aborted''], responseText := ''Request Aborted''\<rparr>
      | Failed m \<Rightarrow> st1\<lparr>responseMessage := failed_message m\<rparr>
      | Answered a \<Rightarrow>
          (case take_answer W a (st1\<lparr>responseMessage := status_message a, responseUrl := an_url a,
                  responseHeaders := responseHeaders st1 @ concat (map (\<lambda>(t, e). t @ '': '' @ e @ [CHR 0x0A]) (an_headers a))\<rparr>) of
             (st2, None) \<Rightarrow> st2
           | (st2, Some m) \<Rightarrow> st2\<lparr>responseMessage := failed_message m\<rparr>))"

definition clearResponseData :: "answer_state \<Rightarrow> answer_state" where
  "clearResponseData st =
     revoke_blob (st\<lparr>responseUrl := [], responseHeaders := [], responseText := [], responseStatus := ''success'',
       responseMessage := [], responseIsBlob := False, responseBlobType := [], respContentDisposition := []\<rparr>)"

definition disconnectedCallback :: "answer_state \<Rightarrow> answer_state" where
  "disconnectedCallback st = revoke_blob (st\<lparr>curlSyntax := []\<rparr>)"

section \<open>File inputs\<close>

text \<open>
  The buttons of a list of file inputs: a click on a remove button takes its set away, another
  button adds a set before it. The list is the contents of the container.
\<close>

definition file_set :: "string \<Rightarrow> string \<Rightarrow> dom" where
  "file_set name mime =
     El ''div'' [(''class'', ''input-set row'')] []
       [El ''input'' [(''type'', ''file''), (''style'', ''width:200px; margin-top:2px;''), (''data-pname'', name),
          (''data-ptype'', if js_includes mime ''form-urlencode'' then ''form-urlencode'' else ''form-data''),
          (''data-array'', ''false''), (''data-file-array'', ''true'')] [] [],
        El ''button'' [(''class'', ''file-input-remove-btn'')] [] [Tx [CHR 0xE2, CHR 0x9C, CHR 0x95]]]"

definition remove_nth :: "nat \<Rightarrow> 'a list \<Rightarrow> 'a list" where
  "remove_nth i xs = take i xs @ drop (Suc i) xs"

definition onAddFileInput :: "string \<Rightarrow> string \<Rightarrow> nat \<Rightarrow> dom list \<Rightarrow> dom list" where
  "onAddFileInput name mime i kids = take i kids @ file_set name mime # drop i kids"

definition onRemoveFileInput :: "nat \<Rightarrow> dom list \<Rightarrow> dom list" where
  "onRemoveFileInput i kids = remove_nth i kids"

end
