(* ===== verification/Web_Form.thy ===== *)
theory Web_Form
  imports Web_Pages Web_Request
begin

text \<open>
  The form of the element \<open>api-request\<close> of the documentation page (web/static/rapidoc-min.js): the
  controls for the parameters and the body of an operation, the button TRY and the answer.

  The element keeps the selected media type and example of the body in its properties; here
  \<open>selected_body_type\<close> and \<open>selected_body_example\<close> are what is selected when the form is drawn. A
  parameter whose schema cannot be described has no row: the page throws there.
\<close>

section \<open>Examples of a parameter\<close>

text \<open>The description of a schema as an object.\<close>

definition type_info :: "TypeInfo \<Rightarrow> js" where
  "type_info i =
     JObj [(''type'', JStr (ti_type i)), (''format'', ti_format i), (''pattern'', ti_pattern i),
           (''readOrWriteOnly'', JStr (ti_readOrWriteOnly i)), (''deprecated'', JStr (ti_deprecated i)), (''examples'', ti_examples i),
           (''default'', JStr (ti_default i)), (''description'', ti_description i), (''constrain'', JStr (ti_constrain i)),
           (''allowedValues'', ti_allowedValues i), (''arrayType'', JStr (ti_arrayType i)), (''html'', JStr (ti_html i))]"

definition printable :: "js \<Rightarrow> js" where
  "printable v = (case AP v of Some s \<Rightarrow> JStr s | None \<Rightarrow> JUndef)"

definition one_example :: "js \<Rightarrow> js" where
  "one_example v = JObj [(''Example'', JObj [(''value'', v)])]"

definition OP :: "js \<Rightarrow> js" where
  "OP e =
     (if js_typeof e = ''boolean'' \<or> js_typeof e = ''number'' then one_example (JStr (js_toString e))
      else if e = JStr [] \<or> js_truthy e then one_example e else e)"

definition example_entry :: "js \<Rightarrow> js" where
  "example_entry e =
     (let v = js_get e ''value'' in
      JObj [(''value'', if js_typeof v = ''boolean'' \<or> js_typeof v = ''number'' then JStr (js_toString v) else js_or v (JStr [])),
            (''printableValue'', printable v), (''summary'', js_or (js_get e ''summary'') (JStr [])),
            (''description'', js_or (js_get e ''description'') (JStr []))])"

definition examples_result :: "js \<Rightarrow> js list \<Rightarrow> js" where
  "examples_result v es = JObj [(''exampleVal'', v), (''exampleList'', JArr es)]"

definition TP :: "js \<Rightarrow> js \<Rightarrow> js" where
  "TP e t =
     (if \<not> js_truthy e then examples_result (JStr []) []
      else case e of
        JObj m \<Rightarrow>
          let es = map example_entry (filter (\<lambda>e. js_get e ''x-example-show-value'' \<noteq> JBool False) (map snd m)) in
          examples_result (JStr (case es of [] \<Rightarrow> [] | x # _ \<Rightarrow> js_toString (js_get x ''value''))) es
      | _ \<Rightarrow>
          (case (case e of JArr xs \<Rightarrow> xs | _ \<Rightarrow> [e]) of
             [] \<Rightarrow> examples_result (JStr []) []
           | x # xs \<Rightarrow>
               if t = JStr ''array''
               then examples_result x (map (\<lambda>e. JObj [(''value'', e), (''printableValue'', printable e)]) (x # xs))
               else examples_result (JStr (js_toString x))
                      (map (\<lambda>e. JObj [(''value'', JStr (js_toString e)), (''printableValue'', printable e)]) (x # xs))))"

text \<open>The schema of a parameter, its format and the media type object that it comes from.\<close>

definition NP :: "string \<Rightarrow> js" where
  "NP e = (if e = ''application/json'' then JStr ''json'' else if e = ''application/xml'' then JStr ''xml'' else JNull)"

definition qP :: "js \<Rightarrow> js \<times> js \<times> js" where
  "qP e =
     (if js_truthy (js_get e ''schema'') then (js_get e ''schema'', JNull, JNull)
      else case find (\<lambda>(t, c). js_truthy (js_get c ''schema'')) (js_fields (js_get e ''content'')) of
             Some (t, c) \<Rightarrow> (js_get c ''schema'', NP t, c)
           | None \<Rightarrow> (JNull, JNull, JNull))"

definition inner_request :: "element \<Rightarrow> bool" where
  "inner_request this \<longleftrightarrow> this ''callback'' = JStr ''true'' \<or> this ''webhook'' = JStr ''true''"

definition renderExample :: "element \<Rightarrow> js \<Rightarrow> js \<Rightarrow> js \<Rightarrow> dom
    list" where
  "renderExample this e t r =
     only_if (t = JStr ''array'')
       [Tx ''[''] @
     [El ''a'' [(''part'', ''anchor anchor-param-example''), (''style'',
         ''display:inline-block; min-width:24px; text-align:center''), (''class'',
         if this ''allowTry'' = JStr ''true'' then [] else ''inactive-link''), (''data-example-type'',
         if t = JStr ''array'' then lit_str t else ''string''), (''data-example'',
         if js_truthy (js_get e ''value'') \<and> js_is_array (js_get e ''value'')
         then js_join ''~|~'' (js_list (js_get e ''value'')) else js_toString (js_or (js_get e ''value'') (JStr
         [])))] []
        (shown (js_or (js_get e ''printableValue'') (js_get e ''value'')))] @
     only_if (t = JStr ''array'')
       [Tx ''] '']"

definition renderShortFormatExamples :: "element \<Rightarrow> js \<Rightarrow> js \<Rightarrow> js
    \<Rightarrow> dom list" where
  "renderShortFormatExamples this e t r =
     concat (map (\<lambda>(n, e).
        only_if (\<not> (n = 0))
          [Tx bar] @
        renderExample this e t r)
       (enumerate 0 (js_list e)))"

definition renderLongFormatExamples :: "element \<Rightarrow> lib \<Rightarrow> js \<Rightarrow> js
    \<Rightarrow> js \<Rightarrow> dom list" where
  "renderLongFormatExamples this L e t r =
     [El ''ul'' [(''style'', ''list-style-type: disclosure-closed;'')] []
        (concat (map (\<lambda>e.
            [El ''li'' [] []
               (renderExample this e t r @
                only_if (js_len (js_get e ''summary'') > 0)
                  [El ''span'' [] [] ([Tx ''(''] @ shown (js_get e ''summary'') @ [Tx '')''])] @
                only_if (js_len (js_get e ''description'') > 0)
                  [El ''p'' [] [] (We L (lit_str (js_get e ''description'')))])])
           (js_list e)))]"

definition described :: "js \<Rightarrow> bool" where
  "described e \<longleftrightarrow> js_len (js_get e ''summary'') > 0 \<or> js_len (js_get e ''description'') > 0"

definition exampleListTemplate :: "element \<Rightarrow> lib \<Rightarrow> js \<Rightarrow> js \<Rightarrow> js
    \<Rightarrow> dom list" where
  "exampleListTemplate this L e t r =
     only_if (js_len r > 0)
       ([El ''span'' [(''style'', ''font-weight:bold'')] [] [Tx ''Examples:'']] @
        (if list_ex described (js_list r) then
           renderLongFormatExamples this L r t e
         else
           renderShortFormatExamples this r t e))"

section \<open>Parameters\<close>

definition param_examples :: "element \<Rightarrow> lib \<Rightarrow> js \<Rightarrow> js \<Rightarrow> js \<Rightarrow> js \<Rightarrow> js \<Rightarrow> js" where
  "param_examples this L r t o1 a i =
     (let d = TP (js_or (js_or (js_or (js_or (js_or (js_get r ''examples'') (OP (js_get r ''example'')))
                    (OP (js_get a ''example''))) (js_get a ''examples'')) (OP (js_get i ''examples''))) (OP (js_get i ''example'')))
                (js_get i ''type'') in
      if js_truthy (js_get d ''exampleVal'') \<or> js_get i ''type'' \<noteq> JStr ''object'' then d
      else examples_result
             (js_get (js_nth (BP L t (js_or o1 (JStr ''json'')) (JStr []) (JStr []) (inner_request this) (\<not> inner_request this)
                (JBool True) (JStr ''text'')) 0) ''exampleValue'')
             (js_list (js_get d ''exampleList'')))"

definition param_style :: "string \<Rightarrow> js \<Rightarrow> js \<Rightarrow> js" where
  "param_style e r o1 =
     (if e \<noteq> ''query'' then JStr ''form''
      else if js_truthy (js_get r ''style'') \<and> js_includes ''form spaceDelimited pipeDelimited'' (js_toString (js_get r ''style''))
      then js_get r ''style'' else if js_truthy o1 then o1 else JStr ''form'')"

definition bool_option :: "string \<Rightarrow> js \<Rightarrow> string \<Rightarrow> bool \<Rightarrow> bool" where
  "bool_option e r k d = (case js_get r k of JBool b \<Rightarrow> if e = ''query'' then b else d | _ \<Rightarrow> d)"

definition column_width :: "element \<Rightarrow> string" where
  "column_width this = (if js_includes ''read focused'' (js_toString (this ''renderStyle'')) then ''200px'' else ''160px'')"

definition parameter_row :: "element \<Rightarrow> lib \<Rightarrow> string \<Rightarrow> js \<Rightarrow> js
    \<Rightarrow> js \<Rightarrow> js \<Rightarrow> js \<Rightarrow> bool \<Rightarrow> bool \<Rightarrow> dom
    list" where
  "parameter_row this L e r i s d l c p =
     [El ''tr'' [(''title'', if js_truthy (js_get r ''deprecated'') then ''Deprecated'' else [])] []
        ([El ''td'' [(''rowspan'', if this ''allowTry'' = JStr ''true'' then ''1'' else ''2''),
            (''style'', ''width:'' @ column_width this @ ''; min-width:100px;'')] []
            [El ''div'' [(''class'', ''param-name '' @ (if js_truthy (js_get r ''deprecated'')
                then ''deprecated'' else []))] []
                (only_if (js_truthy (js_get r ''deprecated''))
                   [El ''span'' [(''style'', ''color:var(--red);'')] [] [Tx ballot_x]] @
                 only_if (js_truthy (js_get r ''required''))
                   [El ''span'' [(''style'', ''color:var(--red)'')] [] [Tx ''*'']] @
                 shown (js_get r ''name'')),
              El ''div'' [(''class'', ''param-type'')] []
                ((if js_get i ''type'' = JStr ''array'' then
                    [Tx (js_toString (js_get i ''arrayType''))]
                  else
                    [Tx (if js_truthy (js_get i ''format'') then js_toString (js_get i ''format'')
                        else js_toString (js_get i ''type''))]))]] @
         only_if (this ''allowTry'' = JStr ''true'')
           [El ''td'' [(''style'', ''min-width:100px;''), (''colspan'', if ((js_truthy (js_get i ''default'')
               \<or> js_truthy (js_get i ''constrain'')) \<or> js_truthy (js_get i ''allowedValues''))
               \<or> js_truthy (js_get i ''pattern'') then ''1'' else ''2'')] []
               ((if js_get i ''type'' = JStr ''array'' then
                   [El ''tag-input'' [(''class'', ''request-param''), (''style'', ''width:100%''),
                       (''data-ptype'', e), (''data-pname'', lit_str (js_get r ''name'')), (''data-example'',
                       if js_is_array (js_get d ''exampleVal'')
                       then js_join ''~|~'' (js_list (js_get d ''exampleVal''))
                       else lit_str (js_get d ''exampleVal'')), (''data-param-serialize-style'', lit_str l),
                       (''data-param-serialize-explode'', js_toString (JBool (c))),
                       (''data-param-allow-reserved'', js_toString (JBool (p))), (''data-x-fill-example'',
                       js_toString (js_or (js_get r ''x-fill-example'') (JStr ''yes''))),
                       (''data-array'', ''true''), (''placeholder'', (''add-multiple '' @ [CHR 0xE2, CHR 0x86,
                       CHR 0xA9]))] [(''value'', if js_get r ''x-fill-example'' = JStr ''no'' then JArr []
                       else if this ''fillRequestFieldsWithExample'' = JStr ''true''
                       then if js_is_array (js_get d ''exampleVal'') then js_get d ''exampleVal''
                       else JArr [js_get d ''exampleVal''] else JArr [])] []]
                 else
                   (if js_get i ''type'' = JStr ''object'' then
                      [El ''div'' [(''class'', ''tab-panel col''), (''style'', ''border-width:0 0 1px 0;'')] []
                         ([El ''div'' [(''class'', ''tab-buttons row'')] []
                             [El ''button'' [(''class'', ''tab-btn '' @
                                 (if js_get (this ''activeParameterSchemaTabs'') (js_toString (js_get r
                                 ''name'')) = JStr ''example'' then ''active'' else [])),
                                 (''data-tab'', ''example'')] []
                                 [Tx ''EXAMPLE''],
                               El ''button'' [(''class'', ''tab-btn '' @
                                   (if js_get (this ''activeParameterSchemaTabs'') (js_toString (js_get r
                                   ''name'')) \<noteq> JStr ''example'' then ''active'' else [])),
                                   (''data-tab'', ''schema'')] []
                                 [Tx ''SCHEMA'']]] @
                          (if js_get (this ''activeParameterSchemaTabs'') (js_toString (js_get r ''name'')) =
                              JStr ''example'' then
                             [El ''div'' [(''class'', ''tab-content col'')] []
                                [El ''textarea'' [(''class'', ''textarea request-param''),
                                    (''part'', ''textarea textarea-param''), (''data-ptype'', e @ ''-object''),
                                    (''data-pname'', lit_str (js_get r ''name'')), (''data-example'',
                                    lit_str (js_get d ''exampleVal'')), (''data-param-serialize-style'',
                                    lit_str l), (''data-param-serialize-explode'', js_toString (JBool (c))),
                                    (''data-param-allow-reserved'', js_toString (JBool (p))),
                                    (''data-x-fill-example'',
                                    js_toString (js_or (js_get r ''x-fill-example'') (JStr ''yes''))),
                                    (''spellcheck'', ''false''),
                                    (''style'', ''resize:vertical; width:100%; height: '' @
                                    (if js_includes ''read focused'' (js_toString (this ''renderStyle''))
                                    then ''180px'' else ''120px'') @ '';'')] [(''textContent'',
                                    if js_get r ''x-fill-example'' = JStr ''no'' then JStr []
                                    else if this ''fillRequestFieldsWithExample'' = JStr ''true''
                                    then js_get d ''exampleVal'' else JStr [])] []]]
                           else
                             [El ''div'' [(''class'', ''tab-content col'')] []
                                [El ''schema-tree'' [(''class'', ''json''), (''style'', ''display: block''),
                                    (''schema-expand-level'', lit_str (this ''schemaExpandLevel'')),
                                    (''schema-description-expanded'',
                                    lit_str (this ''schemaDescriptionExpanded'')),
                                    (''allow-schema-description-expand-toggle'',
                                    lit_str (this ''allowSchemaDescriptionExpandToggle'')),
                                    (''schema-hide-read-only'',
                                    js_toString (JBool (js_includes (js_toString (this ''schemaHideReadOnly''))
                                    (js_toString (this ''method''))))), (''schema-hide-write-only'',
                                    js_toString (JBool (js_includes (js_toString (this
                                    ''schemaHideWriteOnly'')) (js_toString (this ''method''))))),
                                    (''exportparts'',
                                    ''wrap-request-btn:wrap-request-btn, btn:btn, btn-fill:btn-fill, btn-outline:btn-outline, btn-try:btn-try, btn-clear:btn-clear, btn-clear-resp:btn-clear-resp, file-input:file-input, textbox:textbox, textbox-param:textbox-param, textarea:textarea, textarea-param:textarea-param, anchor:anchor, anchor-param-example:anchor-param-example'')]
                                    [(''data'', s)] []]]))]
                    else
                      [El ''input'' [(''type'', if js_get i ''format'' = JStr ''password'' then ''password''
                          else ''text''), (''spellcheck'', ''false''), (''style'', ''width:100%''),
                          (''class'', ''request-param''), (''part'', ''textbox textbox-param''),
                          (''data-ptype'', e), (''data-pname'', lit_str (js_get r ''name'')),
                          (''data-example'', if js_is_array (js_get d ''exampleVal'')
                          then js_join ''~|~'' (js_list (js_get d ''exampleVal''))
                          else lit_str (js_get d ''exampleVal'')), (''data-param-allow-reserved'',
                          js_toString (JBool (p))), (''data-x-fill-example'',
                          js_toString (js_or (js_get r ''x-fill-example'') (JStr ''yes''))),
                          (''data-array'', ''false'')] [(''value'',
                          if js_get r ''x-fill-example'' = JStr ''no'' then JStr []
                          else if this ''fillRequestFieldsWithExample'' = JStr ''true''
                          then js_get d ''exampleVal'' else JStr [])] []])))] @
         (if ((js_truthy (js_get i ''default'') \<or> js_truthy (js_get i ''constrain''))
             \<or> js_truthy (js_get i ''allowedValues'')) \<or> js_truthy (js_get i ''pattern'') then
            [El ''td'' [(''colspan'', if this ''allowTry'' = JStr ''true'' then ''1'' else ''2'')] []
               [El ''div'' [(''class'', ''param-constraint'')] []
                   (only_if (js_truthy (js_get i ''default''))
                      ([El ''span'' [(''style'', ''font-weight:bold'')] [] [Tx ''Default:'']] @
                       shown (js_get i ''default'') @
                       [El ''br'' [] [] []]) @
                    only_if (js_truthy (js_get i ''pattern''))
                      ([El ''span'' [(''style'', ''font-weight:bold'')] [] [Tx ''Pattern:'']] @
                       shown (js_get i ''pattern'') @
                       [El ''br'' [] [] []]) @
                    only_if (js_truthy (js_get i ''constrain''))
                      (shown (js_get i ''constrain'') @
                       [El ''br'' [] [] []]) @
                    (if js_truthy (js_get i ''allowedValues'') then
                       concat (map (\<lambda>(t, e).
                          (if t > 0 then
                             [Tx bar]
                           else
                             [El ''span'' [(''style'', ''font-weight:bold'')] [] [Tx ''Allowed:'']]) @
                          [El ''a'' [(''part'', ''anchor anchor-param-constraint''), (''class'',
                              if this ''allowTry'' = JStr ''true'' then [] else ''inactive-link''),
                              (''data-type'', if js_get i ''type'' = JStr ''array''
                              then lit_str (js_get i ''type'') else ''string''), (''data-enum'',
                              trimSpace (js_toString e))] []
                             (shown e)])
                         (enumerate 0 (map JStr (js_split bar (js_toString (js_get i ''allowedValues''))))))
                     else shown (js_get i ''allowedValues'')))]]
          else
            [El ''td'' [] [] []])),
      El ''tr'' [] []
        (only_if (this ''allowTry'' = JStr ''true'')
           [El ''td'' [(''style'', ''border:none'')] [] []] @
         [El ''td'' [(''colspan'', ''2''), (''style'', ''border:none'')] []
            ([El ''span'' [(''class'', ''m-markdown-small'')] []
                (We L (js_toString (js_or (js_get r ''description'') (JStr []))))] @
             exampleListTemplate this L (js_get r ''name'') (js_get i ''type'') (js_get d ''exampleList''))])]"

definition parameter_rows :: "element \<Rightarrow> lib \<Rightarrow> string \<Rightarrow> js \<Rightarrow> dom list" where
  "parameter_rows this L e r =
     (case qP r of (t, o1, a) \<Rightarrow>
        if \<not> js_truthy t then []
        else case EP t of
          Some (Some i) \<Rightarrow>
            parameter_row this L e r (type_info i) (schema_model t) (param_examples this L r t o1 a (type_info i))
              (param_style e r o1) (bool_option e r ''explode'' True) (bool_option e r ''allowReserved'' False)
        | _ \<Rightarrow> [])"

definition parameters_in :: "element \<Rightarrow> string \<Rightarrow> js list" where
  "parameters_in this e = filter (\<lambda>t. js_get t ''in'' = JStr e) (js_list (this ''parameters''))"

definition parameters_title :: "string \<Rightarrow> string" where
  "parameters_title e =
     (if e = ''path'' then ''PATH PARAMETERS'' else if e = ''query'' then ''QUERY-STRING PARAMETERS''
      else if e = ''header'' then ''REQUEST HEADERS'' else if e = ''cookie'' then ''COOKIES'' else [])"

definition inputParametersTemplate :: "element \<Rightarrow> lib \<Rightarrow> string \<Rightarrow> dom list"
    where
  "inputParametersTemplate this L e =
     (if parameters_in this e = [] then []
      else [El ''div'' [(''class'', ''table-title top-gap'')] [] [Tx (parameters_title e)],
       El ''div'' [(''style'', ''display:block; overflow-x:auto; max-width:100%;'')] []
         [El ''table'' [(''role'', ''presentation''), (''class'', ''m-table''),
             (''style'', ''width:100%; word-break:break-word;'')] []
             (concat (map (parameter_rows this L e) (parameters_in this e)))]])"

section \<open>The body\<close>

definition subtype :: "string \<Rightarrow> string" where
  "subtype s = (case indexByte s (CHR ''/'') of None \<Rightarrow> s | Some n \<Rightarrow> drop (Suc n) s)"

definition body_mimes :: "element \<Rightarrow> js list" where
  "body_mimes this =
     map (\<lambda>(m, c). JObj [(''mimeType'', JStr m), (''schema'', js_get c ''schema''), (''example'', js_get c ''example''),
                         (''examples'', js_get c ''examples'')]) (js_fields (js_get (this ''request_body'') ''content''))"

definition selected_body_type :: "element \<Rightarrow> string" where
  "selected_body_type this =
     (if js_truthy (this ''selectedRequestBodyType'') then js_toString (this ''selectedRequestBodyType'')
      else case filter (\<lambda>m. m \<noteq> []) (map (\<lambda>e. js_toString (js_get e ''mimeType'')) (body_mimes this)) of [] \<Rightarrow> [] | m # _ \<Rightarrow> m)"

definition is_text_type :: "string \<Rightarrow> bool" where
  "is_text_type s \<longleftrightarrow> js_includes s ''json'' \<or> js_includes s ''xml'' \<or> js_includes s ''text'' \<or> js_includes s ''jose''"

definition body_examples :: "element \<Rightarrow> lib \<Rightarrow> js \<Rightarrow> js" where
  "body_examples this L e =
     BP L (js_get e ''schema'') (js_get e ''mimeType'') (js_get e ''examples'') (js_get e ''example'') (inner_request this)
       (\<not> inner_request this) (JStr ''text'') (JBool False)"

definition selected_body_example :: "element \<Rightarrow> js \<Rightarrow> js" where
  "selected_body_example this i =
     (if js_truthy (this ''selectedRequestBodyExample'') then this ''selectedRequestBodyExample''
      else if js_len i > 0 then js_get (js_nth i 0) ''exampleId'' else JStr [])"

definition mime_select :: "element \<Rightarrow> dom list" where
  "mime_select this =
     only_if (\<not> (js_len (JArr (body_mimes this)) = 1))
       [El ''select'' [(''style'', ''min-width:100px; max-width:100%; margin-bottom:-1px;'')] []
           (concat (map (\<lambda>e.
               [El ''option'' ([(''value'', lit_str (js_get e ''mimeType''))] @
                   flag (js_get e ''mimeType'' = JStr (selected_body_type this)) ''selected'') []
                  (shown (js_get e ''mimeType''))])
              (js_list (JArr (body_mimes this)))))]"

definition example_panel :: "element \<Rightarrow> lib \<Rightarrow> js \<Rightarrow> dom list" where
  "example_panel this L e =
     (let i = body_examples this L e; chosen = selected_body_example this i in
      [] @
      [El ''div'' [(''class'', ''example-panel border-top pad-top-8'')] []
         (only_if (\<not> (js_len i = 1))
            [El ''select'' [(''style'', ''min-width:100px; max-width:100%; margin-bottom:-1px;'')] []
                (concat (map (\<lambda>e.
                    [El ''option'' ([(''value'', lit_str (js_get e ''exampleId''))] @
                        flag (js_get e ''exampleId'' = chosen) ''selected'') []
                       ((if js_len (js_get e ''exampleSummary'') > 80 then
                           shown (js_get e ''exampleId'')
                         else
                           (if js_truthy (js_get e ''exampleSummary'') then
                              shown (js_get e ''exampleSummary'')
                            else
                              shown (js_get e ''exampleId''))))])
                   (js_list i)))] @
          concat (map (\<lambda>t.
             [El ''div'' [(''class'', ''example '' @ (if js_get t ''exampleId'' = chosen
                 then ''example-selected'' else [])), (''data-example'', lit_str (js_get t ''exampleId''))] []
                (only_if (js_truthy (js_get t ''exampleSummary'')
                    \<and> js_len (js_get t ''exampleSummary'') > 80)
                   [El ''div'' [(''style'', ''padding: 4px 0'')] [] (shown (js_get t ''exampleSummary''))] @
                 only_if (js_truthy (js_get t ''exampleDescription''))
                   [El ''div'' [(''class'', ''m-markdown-small''), (''style'', ''padding: 4px 0'')] []
                       (We L (js_toString (js_or (js_get t ''exampleDescription'') (JStr []))))] @
                 [El ''pre'' [(''class'', ''textarea is-hidden request-body-param '' @
                     subtype (js_toString (js_get e ''mimeType''))), (''spellcheck'', ''false''),
                     (''data-ptype'', lit_str (js_get e ''mimeType'')),
                     (''style'', ''width:100%; resize:vertical; display:none'')] []
                    ((if js_get t ''exampleFormat'' = JStr ''text'' then
                        shown (js_get t ''exampleValue'')
                      else
                        [Tx (json_pretty (js_get t ''exampleValue''))])),
                  El ''textarea'' [(''class'', ''textarea request-body-param-user-input''),
                      (''part'', ''textarea textarea-param''), (''spellcheck'', ''false''), (''data-ptype'',
                      lit_str (js_get e ''mimeType'')), (''data-example'',
                      if js_get t ''exampleFormat'' = JStr ''text'' then lit_str (js_get t ''exampleValue'')
                      else json_pretty (js_get t ''exampleValue'')), (''data-example-format'',
                      lit_str (js_get t ''exampleFormat'')), (''style'', ''width:100%; resize:vertical;'')]
                      [(''textContent'', if this ''fillRequestFieldsWithExample'' = JStr ''true''
                      then if js_get t ''exampleFormat'' = JStr ''text'' then js_get t ''exampleValue''
                      else JStr (json_pretty (js_get t ''exampleValue'')) else JStr [])] []])])
            (filter (\<lambda>e. js_get e ''exampleId'' = chosen) (js_list i))))])"

definition file_input :: "js \<Rightarrow> dom list" where
  "file_input e =
     [El ''div'' [(''class'', ''small-font-size bold-text row'')] []
        [El ''input'' [(''type'', ''file''), (''part'', ''file-input''), (''style'', ''max-width:100%''),
            (''class'', ''request-body-param-file''), (''data-ptype'', lit_str (js_get e ''mimeType'')),
            (''spellcheck'', ''false'')] [] []]]"

definition body_schema :: "element \<Rightarrow> js \<Rightarrow> dom list" where
  "body_schema this e =
     (if this ''schemaStyle'' = JStr ''table'' then
        [] @
        [El ''schema-table'' [(''class'', subtype (js_toString (js_get e ''mimeType''))),
            (''style'', ''display: '' @ (if JStr (selected_body_type this) = js_get e ''mimeType''
            then ''block'' else ''none'') @ '';''), (''schema-expand-level'',
            lit_str (this ''schemaExpandLevel'')), (''schema-description-expanded'',
            lit_str (this ''schemaDescriptionExpanded'')), (''allow-schema-description-expand-toggle'',
            lit_str (this ''allowSchemaDescriptionExpandToggle'')), (''schema-hide-read-only'',
            lit_str (this ''schemaHideReadOnly'')), (''schema-hide-write-only'',
            lit_str (this ''schemaHideWriteOnly'')), (''exportparts'',
            ''schema-description:schema-description, schema-multiline-toggle:schema-multiline-toggle'')]
            [(''data'', schema_model (js_get e ''schema''))] []]
      else
        only_if (this ''schemaStyle'' = JStr ''tree'')
          ([] @
           [El ''schema-tree'' [(''class'', subtype (js_toString (js_get e ''mimeType''))),
               (''style'', ''display: '' @ (if JStr (selected_body_type this) = js_get e ''mimeType''
               then ''block'' else ''none'') @ '';''), (''schema-expand-level'',
               lit_str (this ''schemaExpandLevel'')), (''schema-description-expanded'',
               lit_str (this ''schemaDescriptionExpanded'')), (''allow-schema-description-expand-toggle'',
               lit_str (this ''allowSchemaDescriptionExpandToggle'')), (''schema-hide-read-only'',
               lit_str (this ''schemaHideReadOnly'')), (''schema-hide-write-only'',
               lit_str (this ''schemaHideWriteOnly'')), (''exportparts'',
               ''schema-description:schema-description, schema-multiline-toggle:schema-multiline-toggle'')]
               [(''data'', schema_model (js_get e ''schema''))] []]))"

definition formDataParamAsObjectTemplate :: "element \<Rightarrow> lib \<Rightarrow> string \<Rightarrow> js
    \<Rightarrow> string \<Rightarrow> dom list" where
  "formDataParamAsObjectTemplate this L e t r =
     (let o1 = schema_model t;
          a = BP L t (JStr ''json'') (js_get t ''examples'') (js_get t ''example'') (inner_request this)
              (\<not> inner_request this)
                (JStr ''text'') (JBool False) in
      [El ''div'' [(''class'', ''tab-panel row''), (''style'',
          ''min-height:220px; border-left: 6px solid var(--light-border-color); align-items: stretch;'')] []
         [El ''div'' [(''style'', ''width:24px; background-color:var(--light-border-color)'')] []
             [El ''div'' [(''class'', ''row''), (''style'',
                 ''flex-direction:row-reverse; width:160px; height:24px; transform:rotate(270deg) translateX(-160px); transform-origin:top left; display:block;'')]
                 []
                 [El ''button'' [(''class'', ''v-tab-btn '' @ (if this ''activeSchemaTab'' = JStr ''example''
                     then ''active'' else [])), (''data-tab'', ''example'')] []
                     [Tx ''EXAMPLE''],
                   El ''button'' [(''class'', ''v-tab-btn '' @
                       (if this ''activeSchemaTab'' \<noteq> JStr ''example'' then ''active'' else [])),
                       (''data-tab'', ''schema'')] []
                     [Tx ''SCHEMA'']]],
           El ''div'' [(''class'', ''tab-content col''), (''data-tab'', ''example''),
               (''style'', ''display:'' @ (if this ''activeSchemaTab'' = JStr ''example'' then ''block''
               else ''none'') @ ''; padding-left:5px; width:100%'')] []
             [El ''textarea'' [(''class'', ''textarea''), (''part'', ''textarea textarea-param''),
                 (''style'', ''width:100%; border:none; resize:vertical;''), (''data-array'', ''false''),
                 (''data-ptype'', if js_includes r ''form-urlencode'' then ''form-urlencode''
                 else ''form-data''), (''data-pname'', e), (''data-example'',
                 js_toString (js_or (js_get (js_nth a 0) ''exampleValue'') (JStr []))),
                 (''spellcheck'', ''false'')] [(''textContent'',
                 if this ''fillRequestFieldsWithExample'' = JStr ''true''
                 then js_get (js_nth a 0) ''exampleValue'' else JStr [])] []],
           El ''div'' [(''class'', ''tab-content col''), (''data-tab'', ''schema''), (''style'', ''display:'' @
               (if this ''activeSchemaTab'' \<noteq> JStr ''example'' then ''block'' else ''none'') @
               ''; padding-left:5px; width:100%;'')] []
             [El ''schema-tree'' [(''schema-expand-level'', lit_str (this ''schemaExpandLevel'')),
                 (''schema-description-expanded'', lit_str (this ''schemaDescriptionExpanded'')),
                 (''allow-schema-description-expand-toggle'',
                 lit_str (this ''allowSchemaDescriptionExpandToggle''))] [(''data'', o1)] []]]])"

definition form_row :: "element \<Rightarrow> lib \<Rightarrow> js \<Rightarrow> string \<Rightarrow> string
    \<Rightarrow> js \<Rightarrow> js \<Rightarrow> dom list" where
  "form_row this L e t r i c =
     (let s = js_or (js_or (js_get i ''examples'') (js_get i ''example'')) (JStr []); l = js_get i ''type'';
          d = TP (js_or (js_get c ''examples'') (js_get c ''example'')) (js_get c ''type'') in
      [El ''tr'' [(''title'', if js_truthy (js_get i ''deprecated'') then ''Deprecated'' else [])] []
         ([El ''td'' [(''style'', ''width:'' @ column_width this @ ''; min-width:100px;'')] []
             [El ''div'' [(''class'', ''param-name '' @ (if js_truthy (js_get i ''deprecated'')
                 then ''deprecated'' else []))] []
                 ([Tx r] @
                  only_if (js_contains (js_get e ''required'') (JStr r) \<or> js_truthy (js_get i ''required''))
                    [El ''span'' [(''style'', ''color:var(--red);'')] [] [Tx ''*'']]),
               El ''div'' [(''class'', ''param-type'')] [] (shown (js_get c ''type''))],
           El ''td'' [(''style'', (if l = JStr ''object'' then ''width:100%; padding:0;''
               else if this ''allowTry'' = JStr ''true'' then [] else ''display:none;'') @
               '' min-width:100px;''), (''colspan'', showNat (if l = JStr ''object'' then 2 else 1))] []
             ((if l = JStr ''array'' then
                 (if js_get (js_get i ''items'') ''format'' = JStr ''binary'' then
                    [El ''div'' [(''class'', ''file-input-container col''),
                        (''style'', ''align-items:flex-end;'')] []
                       [El ''div'' [(''class'', ''input-set row'')] []
                           [El ''input'' [(''type'', ''file''), (''part'', ''file-input''),
                               (''style'', ''width:100%''), (''data-pname'', r), (''data-ptype'',
                               if js_includes t ''form-urlencode'' then ''form-urlencode'' else ''form-data''),
                               (''data-array'', ''false''), (''data-file-array'', ''true'')] [] [],
                             El ''button'' [(''class'', ''file-input-remove-btn'')] []
                               [Tx ([CHR 0xE2, CHR 0x9C, CHR 0x95])]],
                         El ''button'' [(''class'', ''m-btn primary file-input-add-btn''),
                             (''part'', ''btn btn-fill''), (''style'',
                             ''margin:2px 25px 0 0; padding:2px 6px;'')] []
                           [Tx ''ADD'']]]
                  else
                    [El ''tag-input'' [(''style'', ''width:100%''), (''data-ptype'',
                        if js_includes t ''form-urlencode'' then ''form-urlencode'' else ''form-data''),
                        (''data-pname'', r), (''data-example'', if js_is_array s
                        then js_join ''~|~'' (js_list s) else lit_str s), (''data-array'', ''true''),
                        (''placeholder'', (''add-multiple '' @ [CHR 0xE2, CHR 0x86, CHR 0xA9]))] [(''value'',
                        if js_is_array s then if js_is_array (js_nth s 0) then js_nth s 0
                        else JArr [js_nth s 0] else JArr [s])] []])
               else
                 (if l = JStr ''object'' then
                    formDataParamAsObjectTemplate this L r i t
                  else
                    only_if (this ''allowTry'' = JStr ''true'')
                      [El ''input'' [(''spellcheck'', ''false''), (''type'',
                          if js_get i ''format'' = JStr ''binary'' then ''file''
                          else if js_get i ''format'' = JStr ''password'' then ''password'' else ''text''),
                          (''part'', ''textbox textbox-param''), (''style'', ''width:100%''), (''data-ptype'',
                          if js_includes t ''form-urlencode'' then ''form-urlencode'' else ''form-data''),
                          (''data-pname'', r), (''data-example'', if js_is_array s then lit_str (js_nth s 0)
                          else lit_str s), (''data-array'', ''false'')] [(''value'',
                          if this ''fillRequestFieldsWithExample'' = JStr ''true'' then js_get d ''exampleVal''
                          else JStr [])] []])))] @
          only_if (\<not> (l = JStr ''object''))
            [El ''td'' [] []
                (only_if (((js_truthy (js_get c ''default'') \<or> js_truthy (js_get c ''constrain''))
                    \<or> js_truthy (js_get c ''allowedValues'')) \<or> js_truthy (js_get c ''pattern''))
                   [El ''div'' [(''class'', ''param-constraint'')] []
                       (only_if (js_truthy (js_get c ''default''))
                          ([El ''span'' [(''style'', ''font-weight:bold'')] [] [Tx ''Default:'']] @
                           shown (js_get c ''default'') @
                           [El ''br'' [] [] []]) @
                        only_if (js_truthy (js_get c ''pattern''))
                          ([El ''span'' [(''style'', ''font-weight:bold'')] [] [Tx ''Pattern:'']] @
                           shown (js_get c ''pattern'') @
                           [El ''br'' [] [] []]) @
                        only_if (js_truthy (js_get c ''constrain''))
                          (shown (js_get c ''constrain'') @
                           [El ''br'' [] [] []]) @
                        (if js_truthy (js_get c ''allowedValues'') then
                           concat (map (\<lambda>(t, e).
                              (if t > 0 then
                                 [Tx bar]
                               else
                                 [El ''span'' [(''style'', ''font-weight:bold'')] [] [Tx ''Allowed:'']]) @
                              [El ''a'' [(''part'', ''anchor anchor-param-constraint''), (''class'',
                                  if this ''allowTry'' = JStr ''true'' then [] else ''inactive-link''),
                                  (''data-type'', if js_get c ''type'' = JStr ''array''
                                  then lit_str (js_get c ''type'') else ''string''), (''data-enum'',
                                  trimSpace (js_toString e))] []
                                 (shown e)])
                             (enumerate 0 (map JStr (js_split bar (js_toString (js_get c ''allowedValues''))))))
                         else shown (js_get c ''allowedValues'')))])])] @
      only_if (\<not> (l = JStr ''object''))
        [El ''tr'' [] []
            [El ''td'' [(''style'', ''border:none'')] [] [],
              El ''td'' [(''colspan'', ''2''), (''style'',
                  ''border:none; margin-top:0; padding:0 5px 8px 5px;'')] []
                ([El ''span'' [(''class'', ''m-markdown-small'')] []
                    (We L (js_toString (js_or (js_get i ''description'') (JStr []))))] @
                 exampleListTemplate this L (JStr r) (js_get c ''type'') (js_get d ''exampleList''))]])"

definition form_rows :: "element \<Rightarrow> lib \<Rightarrow> js \<Rightarrow> string \<Rightarrow> string \<times> js \<Rightarrow> dom list" where
  "form_rows this L e t =
     (\<lambda>(r, i). if js_truthy (js_get i ''readOnly'') then []
       else case EP i of Some (Some c) \<Rightarrow> form_row this L e t r i (type_info c) | _ \<Rightarrow> [])"

definition formDataTemplate :: "element \<Rightarrow> lib \<Rightarrow> js \<Rightarrow> string \<Rightarrow>
    js \<Rightarrow> dom list" where
  "formDataTemplate this L e t r =
     (if js_truthy (js_get e ''properties'') then
        [El ''table'' [(''role'', ''presentation''), (''style'', ''width:100%;''), (''class'', ''m-table'')] []
           (concat (map (form_rows this L e t) (js_fields (js_get e ''properties''))))]
      else
        [El ''textarea'' [(''class'', ''textarea dynamic-form-param '' @ t),
            (''part'', ''textarea textarea-param''), (''spellcheck'', ''false''),
            (''data-pname'', ''dynamic-form''), (''data-ptype'', t),
            (''style'', ''width:100%'')] [(''textContent'', r)] []] @
        only_if (js_truthy (js_get e ''description''))
          [El ''span'' [(''class'', ''m-markdown-small'')] [] (We L (lit_str (js_get e ''description'')))])"

text \<open>The parts of the body for a media type: examples, form, file and schema.\<close>

definition is_selected :: "element \<Rightarrow> js \<Rightarrow> bool" where
  "is_selected this e \<longleftrightarrow> js_get e ''mimeType'' = JStr (selected_body_type this)"

definition body_example_part :: "element \<Rightarrow> lib \<Rightarrow> dom list" where
  "body_example_part this L =
     concat (map (\<lambda>e. only_if (is_text_type (selected_body_type this) \<and> is_selected this e) (example_panel this L e)) (body_mimes this))"

definition is_form_type :: "string \<Rightarrow> bool" where
  "is_form_type s \<longleftrightarrow> \<not> is_text_type s \<and> (js_includes s ''form-urlencoded'' \<or> js_includes s ''form-data'')"

text \<open>Of several media types with the same text the last one would be shown; the keys of an object are distinct.\<close>

definition body_form_part :: "element \<Rightarrow> lib \<Rightarrow> dom list" where
  "body_form_part this L =
     concat (map (\<lambda>e. only_if (is_form_type (selected_body_type this) \<and> is_selected this e \<and> js_truthy (js_get e ''schema''))
       (formDataTemplate this L (js_get e ''schema'') (js_toString (js_get e ''mimeType''))
          (let t = body_examples this L e in
           if js_truthy (js_nth t 0) then js_get (js_nth t 0) ''exampleValue'' else JStr []))) (body_mimes this))"

definition body_file_part :: "element \<Rightarrow> dom list" where
  "body_file_part this =
     (let s = selected_body_type this in
      concat (map (\<lambda>e. only_if (\<not> is_text_type s \<and> \<not> is_form_type s \<and> is_binary_type s \<and> is_selected this e) (file_input e)) (body_mimes this)))"

definition body_schema_part :: "element \<Rightarrow> dom list" where
  "body_schema_part this =
     concat (map (\<lambda>e. let m = js_toString (js_get e ''mimeType'') in
       only_if (js_includes m ''json'' \<or> js_includes m ''xml'' \<or> js_includes m ''text'' \<or> js_includes (selected_body_type this) ''jose'')
         (body_schema this e)) (body_mimes this))"

definition requestBodyTemplate :: "element \<Rightarrow> lib \<Rightarrow> dom list" where
  "requestBodyTemplate this L =
     (if \<not> js_truthy (this ''request_body'') \<or> js_keys (this ''request_body'') = [] then []
      else [El ''div'' [(''class'', ''request-body-container''), (''data-selected-request-body-type'',
          lit_str (JStr (selected_body_type this)))] []
         ([El ''div'' [(''class'', ''table-title top-gap row'')] []
             ([Tx ''REQUEST BODY ''] @
              only_if (js_truthy (js_get (this ''request_body'') ''required''))
                [El ''span'' [(''class'', ''mono-font''), (''style'', ''color:var(--red)'')] [] [Tx ''*'']] @
              [El ''span'' [(''style'', ''font-weight:normal; margin-left:5px'')] []
                 (shown (JStr (selected_body_type this))),
               El ''span'' [(''style'', ''flex:1'')] [] []] @
              mime_select this)] @
          only_if (js_truthy (js_get (this ''request_body'') ''description''))
            [El ''div'' [(''class'', ''m-markdown''), (''style'', ''margin-bottom:12px'')] []
                (We L (lit_str (js_get (this ''request_body'') ''description'')))] @
          (if ((js_includes (js_toString (JStr (selected_body_type this))) ''json''
              \<or> js_includes (js_toString (JStr (selected_body_type this))) ''xml'')
              \<or> js_includes (js_toString (JStr (selected_body_type this))) ''text'')
              \<or> js_includes (js_toString (JStr (selected_body_type this))) ''jose'' then
             [El ''div'' [(''class'', ''tab-panel col''), (''style'', ''border-width:0 0 1px 0;'')] []
                [El ''div'' [(''class'', ''tab-buttons row'')] []
                    [El ''button'' [(''class'', ''tab-btn '' @ (if this ''activeSchemaTab'' = JStr ''example''
                        then ''active'' else [])), (''data-tab'', ''example'')] []
                        [Tx ''EXAMPLE''],
                      El ''button'' [(''class'', ''tab-btn '' @
                          (if this ''activeSchemaTab'' \<noteq> JStr ''example'' then ''active'' else [])),
                          (''data-tab'', ''schema'')] []
                        [Tx ''SCHEMA'']],
                  El ''div'' [(''class'', ''tab-content col''), (''style'', ''display:'' @
                      (if this ''activeSchemaTab'' = JStr ''example'' then ''block'' else ''none'') @ '';'')] []
                    (body_example_part this L),
                  El ''div'' [(''class'', ''tab-content col''), (''style'', ''display:'' @
                      (if this ''activeSchemaTab'' = JStr ''example'' then ''none'' else ''block'') @ '';'')] []
                    (body_schema_part this)]]
           else
             body_file_part this @
             body_form_part this L))])"

section \<open>The answer and the buttons\<close>

definition drop_backslash :: "string \<Rightarrow> string" where
  "drop_backslash s = trimSuffix s [CHR 0x5C]"

definition curlSyntaxTemplate :: "element \<Rightarrow> lib \<Rightarrow> string \<Rightarrow> dom list" where
  "curlSyntaxTemplate this L e =
     [El ''div'' [(''class'', ''col m-markdown''), (''style'', ''flex:1; display:'' @ e @
         ''; position:relative; max-width: 100%;'')] []
        [El ''button'' [(''class'', ''toolbar-btn''), (''style'', ''position:absolute; top:12px; right:8px''),
            (''part'', ''btn btn-fill'')] []
            [Tx ''Copy''],
          El ''pre'' [(''style'', ''white-space:pre'')] []
            [El ''code'' [] []
                (highlight L (drop_backslash (trimSpace (js_toString (this ''curlSyntax'')))) ''shell'')]]]"

text \<open>The text of the answer, highlighted by its media type.\<close>

definition response_code :: "element \<Rightarrow> lib \<Rightarrow> dom list" where
  "response_code this L =
     (let h = js_toString (this ''responseHeaders''); t = js_toString (this ''responseText'') in
      if js_truthy (this ''responseIsBlob'') then []
      else if js_includes h ''application/x-ndjson''
      then [El ''code'' [] [] (concat (map (\<lambda>(i, l). (if i = 0 then [] else [Tx [CHR 0x0A]]) @ highlight L l ''json'')
             (enumerate 0 (js_split [CHR 0x0A] t))))]
      else if js_includes h ''json'' then [El ''code'' [] [] (highlight L t ''json'')]
      else if js_includes h ''html'' \<or> js_includes h ''xml'' then [El ''code'' [] [] (highlight L t ''html'')]
      else [El ''code'' [] [] [Tx t]])"

text \<open>\<open>message\<close> is the property \<open>responseMessage\<close>, a template.\<close>

definition apiResponseTabTemplate :: "element \<Rightarrow> lib \<Rightarrow> dom list \<Rightarrow> dom
    list" where
  "apiResponseTabTemplate this L message =
     [El ''div'' [(''class'', ''row''), (''style'', ''font-size:var(--font-size-small); margin:5px 0'')] []
        [El ''div'' [(''class'', ''response-message '' @ lit_str (this ''responseStatus''))] []
            ([Tx ''Response Status: ''] @
             message),
          El ''div'' [(''style'', ''flex:1'')] [] [],
          El ''button'' [(''class'', ''m-btn''), (''part'', ''btn btn-outline btn-clear-response'')] []
            [Tx ''CLEAR RESPONSE'']],
      El ''div'' [(''class'', ''tab-panel col''), (''style'', ''border-width:0 0 1px 0;'')] []
        ([El ''div'' [(''id'', ''tab_buttons''), (''class'', ''tab-buttons row'')] []
            ([El ''button'' [(''class'', ''tab-btn '' @ (if this ''activeResponseTab'' = JStr ''response''
                then ''active'' else [])), (''data-tab'', ''response'')] []
                [Tx ''RESPONSE''],
              El ''button'' [(''class'', ''tab-btn '' @ (if this ''activeResponseTab'' = JStr ''headers''
                  then ''active'' else [])), (''data-tab'', ''headers'')] []
                [Tx ''RESPONSE HEADERS'']] @
             only_if (\<not> (this ''showCurlBeforeTry'' = JStr ''true''))
               [El ''button'' [(''class'', ''tab-btn '' @ (if this ''activeResponseTab'' = JStr ''curl''
                   then ''active'' else [])), (''data-tab'', ''curl'')] []
                   [Tx ''CURL'']])] @
         (if js_truthy (this ''responseIsBlob'') then
            [El ''div'' [(''class'', ''tab-content col''), (''style'', ''flex:1; display:'' @
                (if this ''activeResponseTab'' = JStr ''response'' then ''flex'' else ''none'') @ '';'')] []
               ([El ''button'' [(''class'', ''m-btn thin-border mar-top-8''), (''style'', ''width:135px''),
                   (''part'', ''btn btn-outline'')] []
                   [Tx ''DOWNLOAD'']] @
                only_if (this ''responseBlobType'' = JStr ''view'')
                  [El ''button'' [(''class'', ''m-btn thin-border mar-top-8''), (''style'', ''width:135px''),
                      (''part'', ''btn btn-outline'')] []
                      [Tx ''VIEW (NEW TAB)'']])]
          else
            [El ''div'' [(''class'', ''tab-content col m-markdown''), (''style'', ''flex:1; display:'' @
                (if this ''activeResponseTab'' = JStr ''response'' then ''flex'' else ''none'') @ '';'')] []
               [El ''button'' [(''class'', ''toolbar-btn''), (''style'',
                   ''position:absolute; top:12px; right:8px''), (''part'', ''btn btn-fill'')] []
                   [Tx ''Copy''],
                 El ''pre'' [(''style'',
                     ''white-space:pre; min-height:50px; height:var(--resp-area-height, 400px); resize:vertical; overflow:auto'')]
                     []
                   (response_code this L)]]) @
         [El ''div'' [(''class'', ''tab-content col m-markdown''), (''style'', ''flex:1; display:'' @
             (if this ''activeResponseTab'' = JStr ''headers'' then ''flex'' else ''none'') @ '';'')] []
            [El ''button'' [(''class'', ''toolbar-btn''), (''style'',
                ''position:absolute; top:12px; right:8px''), (''part'', ''btn btn-fill'')] []
                [Tx ''Copy''],
              El ''pre'' [(''style'', ''white-space:pre'')] []
                [El ''code'' [] []
                    (highlight L (js_toString (this ''responseHeaders'')) ''css'')]]] @
         only_if (\<not> (this ''showCurlBeforeTry'' = JStr ''true''))
           (curlSyntaxTemplate this L (if this ''activeResponseTab'' = JStr ''curl'' then ''flex''
               else ''none'')))]"

definition server_select :: "element \<Rightarrow> dom list" where
  "server_select this =
     only_if (js_truthy (this ''servers'') \<and> js_len (this ''servers'') > 0)
       [El ''select'' [(''style'', ''min-width:100px;'')] []
           (concat (map (\<lambda>e.
               [El ''option'' [(''value'', lit_str (js_get e ''url''))] []
                  (shown (js_get e ''url'') @
                   [Tx '' - ''] @
                   shown (js_get e ''description''))])
              (js_list (this ''servers''))))]"

definition server_line :: "element \<Rightarrow> dom list" where
  "server_line this =
     [El ''div'' [(''style'', ''display:flex; flex-direction:column;'')] []
        (server_select this @
         only_if (js_truthy (this ''serverUrl''))
           [El ''div'' [(''style'', ''display:flex; align-items:baseline;'')] []
               [El ''div'' [(''style'', ''font-weight:bold; padding-right:5px;'')] [] [Tx ''API Server''],
                 El ''span'' [(''class'', ''gray-text'')] [] (shown (this ''serverUrl''))]])]"

definition apiCallTemplate :: "element \<Rightarrow> lib \<Rightarrow> dom list \<Rightarrow> dom list" where
  "apiCallTemplate this L message =
     [El ''div'' [(''style'',
         ''display:flex; align-items:flex-end; margin:16px 0; font-size:var(--font-size-small);''),
         (''part'', ''wrap-request-btn'')] []
        ([El ''div'' [(''class'', ''hide-in-small-screen''), (''style'',
            ''flex-direction:column; margin:0; width:calc(100% - 60px);'')] []
            [El ''div'' [(''style'',
                ''display:flex; flex-direction:row; align-items:center; overflow:hidden;'')] []
                (server_line this),
              El ''div'' [(''style'', ''display:flex;'')] []
                ([El ''div'' [(''style'', ''font-weight:bold; padding-right:5px;'')] [] [Tx
                    ''Authentication'']] @
                 (if js_len (this ''security'') > 0 then
                    (if js_len (this ''api_keys'') > 0 then
                       [El ''div'' [(''style'', ''color:var(--blue); overflow:hidden;'')] []
                          ((if js_len (this ''api_keys'') = 1 then
                              [Tx (js_toString (js_get (js_nth (this ''api_keys'') 0) ''typeDisplay'') @
                                  '' in '' @ js_toString (js_get (js_nth (this ''api_keys'') 0) ''in''))]
                            else
                              [Tx (showNat (js_len (this ''api_keys'')) @ '' API keys applied'')]))]
                     else
                       [El ''div'' [(''class'', ''gray-text'')] []
                          [Tx ''Required '',
                            El ''span'' [(''style'', ''color:var(--red)'')] [] [Tx ''(None Applied)'']]])
                  else
                    [El ''span'' [(''class'', ''gray-text'')] [] [Tx ''Not Required'']]))]] @
         only_if (js_len (this ''parameters'') > 0 \<or> js_truthy (this ''request_body''))
           [El ''button'' [(''class'', ''m-btn thin-border''), (''part'', ''btn btn-outline btn-fill''),
               (''style'', ''margin-right:5px;''), (''title'', ''Fills with example data (if provided)'')] []
               [Tx ''FILL EXAMPLE''],
             El ''button'' [(''class'', ''m-btn thin-border''), (''part'', ''btn btn-outline btn-clear''),
                 (''style'', ''margin-right:5px;'')] []
               [Tx ''CLEAR'']] @
         [El ''button'' [(''class'', ''m-btn primary thin-border''),
             (''part'', ''btn btn-try'')] [] [Tx ''TRY'']]),
      El ''div'' [(''class'', ''row''), (''style'', ''font-size:var(--font-size-small); margin:5px 0'')] []
        (only_if (this ''showCurlBeforeTry'' = JStr ''true'')
           (curlSyntaxTemplate this L ''flex''))] @
     only_if (message \<noteq> []) (apiResponseTabTemplate this L message)"

definition request_panel :: "element \<Rightarrow> lib \<Rightarrow> dom list \<Rightarrow> dom list" where
  "request_panel this L message =
     [El ''div'' [(''class'', ''col regular-font request-panel '' @
         (if js_includes ''read focused'' (js_toString (this ''renderStyle''))
         \<or> this ''callback'' = JStr ''true'' then ''read-mode'' else ''view-mode''))] []
        [El ''div'' [(''class'', '' '' @ (if this ''callback'' = JStr ''true'' then ''tiny-title''
            else ''req-res-title'') @ '' '')] []
            ((if this ''callback'' = JStr ''true'' then
                [Tx ''CALLBACK REQUEST'']
              else
                [Tx ''REQUEST''])),
          El ''div'' [] []
            (inputParametersTemplate this L ''path'' @
             inputParametersTemplate this L ''query'' @
             requestBodyTemplate this L @
             inputParametersTemplate this L ''header'' @
             inputParametersTemplate this L ''cookie'' @
             only_if (\<not> (this ''allowTry'' = JStr ''false''))
               (apiCallTemplate this L message))]]"

section \<open>Operations of the form\<close>

definition with_attr :: "string \<Rightarrow> string \<Rightarrow> dom \<Rightarrow> dom" where
  "with_attr k v n = (case n of El t as ps ns \<Rightarrow> El t (upd_assoc k v as) ps ns | Tx s \<Rightarrow> Tx s)"

text \<open>The text areas whose contents survive the navigation in the focused mode.\<close>

definition is_example_area :: "dom \<Rightarrow> bool" where
  "is_example_area n \<longleftrightarrow> tag_of n = ''textarea'' \<and> (has_class ''request-body-param-user-input'' n \<or> attr ''data-ptype'' n = Some ''form-data'')"

definition saveExampleState :: "js \<Rightarrow> dom list \<Rightarrow> dom list" where
  "saveExampleState renderStyle panel =
     (if renderStyle = JStr ''focused''
      then map (map_elements (\<lambda>n. if is_example_area n then with_attr ''data-user_example'' (js_toString (control_value n)) n else n)) panel
      else panel)"

definition updateExamplesFromDataAttr :: "js \<Rightarrow> dom list \<Rightarrow> dom list" where
  "updateExamplesFromDataAttr renderStyle panel =
     (if renderStyle = JStr ''focused''
      then map (map_elements (\<lambda>n. if is_example_area n then with_value (js_or (data_of ''user_example'' n) (data_of ''example'' n)) n else n)) panel
      else panel)"

definition afterNavigationFocusedMode :: "element \<Rightarrow> dom list \<Rightarrow> answer_state \<Rightarrow> element \<times> dom list \<times> answer_state" where
  "afterNavigationFocusedMode this panel st =
     (this(''selectedRequestBodyType'' := JStr [], ''selectedRequestBodyExample'' := JStr []),
      updateExamplesFromDataAttr (this ''renderStyle'') panel, clearResponseData st)"

text \<open>Selecting an example or a media type; the text area then gets the text of the example.\<close>

definition onSelectExample :: "string \<Rightarrow> element \<Rightarrow> element" where
  "onSelectExample v this = this(''selectedRequestBodyExample'' := JStr v)"

definition onMimeTypeChange :: "string \<Rightarrow> element \<Rightarrow> element" where
  "onMimeTypeChange v this = this(''selectedRequestBodyType'' := JStr v, ''selectedRequestBodyExample'' := JStr [])"

fun update_first_element :: "(dom \<Rightarrow> bool) \<Rightarrow> (dom \<Rightarrow> dom) \<Rightarrow> dom \<Rightarrow> dom"
  and update_first_of :: "(dom \<Rightarrow> bool) \<Rightarrow> (dom \<Rightarrow> dom) \<Rightarrow> dom list \<Rightarrow> dom list" where
  "update_first_element P f (Tx s) = Tx s"
| "update_first_element P f (El t as ps ns) =
     (if P (El t as ps ns) then f (El t as ps ns) else El t as ps (update_first_of P f ns))"
| "update_first_of P f [] = []"
| "update_first_of P f (n # ns) =
     (if select P [n] \<noteq> [] then update_first_element P f n # ns else n # update_first_of P f ns)"

definition copy_example :: "dom list \<Rightarrow> dom list" where
  "copy_example panel =
     (case select (has_class ''request-body-param'') panel of
        [] \<Rightarrow> panel
      | t # _ \<Rightarrow> update_first_of (has_class ''request-body-param-user-input'') (with_value (JStr (node_text t))) panel)"

text \<open>A click on an example of a parameter.\<close>

definition click_example :: "string \<Rightarrow> string \<Rightarrow> string \<Rightarrow> dom list \<Rightarrow> dom list" where
  "click_example r kind example table =
     update_first_of (\<lambda>n. attr ''data-pname'' n = Some r)
       (with_value (if kind = ''array'' then JArr (map JStr (js_split ''~|~'' example)) else JStr example)) table"

text \<open>The tabs EXAMPLE and SCHEMA, of a parameter and of the body.\<close>

definition select_param_tab :: "string \<Rightarrow> string \<Rightarrow> element \<Rightarrow> element" where
  "select_param_tab name tab this =
     this(''activeParameterSchemaTabs'' := JObj (upd_assoc name (JStr tab) (obj_of (this ''activeParameterSchemaTabs''))))"

definition select_schema_tab :: "string \<Rightarrow> element \<Rightarrow> element" where
  "select_schema_tab tab this = this(''activeSchemaTab'' := JStr tab)"

end
