(* ===== verification/Web_Try.thy ===== *)
theory Web_Try
  imports Web_Request
begin

text \<open>
  What the requests of the documentation page (web/static/rapidoc-min.js) carry, and the states of the
  element \<open>api-request\<close>.

  The interface \<open>byte_encoding\<close> is what the two encodings of the page promise: a character stands for
  itself or is written in hexadecimal, so that decoding returns every text. The step relation
  \<open>try_step\<close> interleaves the clicks of a user with the answers to requests.
\<close>

section \<open>Decoding\<close>

text \<open>Percent-decoding; \<open>b\<close> says that a plus sign stands for a space.\<close>

fun decode_bytes :: "bool \<Rightarrow> string \<Rightarrow> string" where
  "decode_bytes b [] = []"
| "decode_bytes b (c # s) =
     (if c = CHR ''%'' \<and> 2 \<le> length s \<and> isHex (s ! 0) \<and> isHex (s ! 1)
      then char_of (16 * hexVal (s ! 0) + hexVal (s ! 1)) # decode_bytes b (drop 2 s)
      else (if b \<and> c = CHR ''+'' then CHR '' '' else c) # decode_bytes b s)"

text \<open>The parameters of a query, as \<open>URLSearchParams\<close> and servers read them.\<close>

definition parse_pair :: "string \<Rightarrow> string \<times> string" where
  "parse_pair s =
     (decode_bytes True (takeWhile (\<lambda>c. c \<noteq> CHR ''='') s), decode_bytes True (drop 1 (dropWhile (\<lambda>c. c \<noteq> CHR ''='') s)))"

definition parse_query :: "string \<Rightarrow> params" where
  "parse_query q = map parse_pair (filter (\<lambda>s. s \<noteq> []) (splitOn (CHR ''&'') q))"

section \<open>States of the element\<close>

definition initial_answer :: answer_state where
  "initial_answer =
     \<lparr>curlSyntax = [], responseUrl = [], responseHeaders = [], responseText = [], responseStatus = ''success'',
      responseMessage = [], responseIsBlob = False, responseBlobType = [], respContentDisposition = [], responseBlobUrl = [],
      try_disabled = False, blob_urls = []\<rparr>"

text \<open>\<open>createObjectURL\<close> returns a new URL.\<close>

definition new_blob :: "try_outcome \<Rightarrow> answer_state \<Rightarrow> bool" where
  "new_blob x st = (case x of Answered a \<Rightarrow> an_blob a \<noteq> [] \<and> an_blob a \<notin> set (blob_urls st) | _ \<Rightarrow> True)"

inductive try_step :: "web \<Rightarrow> answer_state \<Rightarrow> answer_state \<Rightarrow> bool" for W where
  click: "\<not> try_disabled st \<Longrightarrow> try_step W st (fst (onTryClick W q panel st))"
| answer: "try_disabled st \<Longrightarrow> new_blob x st \<Longrightarrow> try_step W st (onTryEnd W x st)"
| clear: "try_step W st (clearResponseData st)"
| disconnect: "try_step W st (disconnectedCallback st)"

inductive try_reachable :: "web \<Rightarrow> answer_state \<Rightarrow> bool" for W where
  start: "try_reachable W initial_answer"
| step: "try_reachable W st \<Longrightarrow> try_step W st st' \<Longrightarrow> try_reachable W st'"

text \<open>The blob URLs that are alive are the one that the buttons of the answer offer.\<close>

definition blob_inv :: "answer_state \<Rightarrow> bool" where
  "blob_inv st \<longleftrightarrow>
     blob_urls st = (if responseBlobUrl st = [] then [] else [responseBlobUrl st]) \<and>
     (responseBlobUrl st \<noteq> [] \<longrightarrow> responseIsBlob st \<and> \<not> try_disabled st)"

section \<open>Encodings\<close>

locale byte_encoding =
  fixes enc :: "char \<Rightarrow> string" and plus :: bool
  assumes enc_cases: "enc c = percent c \<or> enc c = [c] \<and> (alphanumeric c \<or> c \<in> set ''-_.!~*()'' \<or> c = CHR 0x27) \<or>
    plus \<and> c = CHR '' '' \<and> enc c = ''+''"
begin

definition encode :: "string \<Rightarrow> string" where
  "encode s = concat (map enc s)"

end

lemma upper_hex_hex: "n < 16 \<Longrightarrow> isHex (upper_hex n) \<and> hexVal (upper_hex n) = n \<and> alphanumeric (upper_hex n)"
proof -
  have "list_all (\<lambda>n. isHex (upper_hex n) \<and> hexVal (upper_hex n) = n \<and> alphanumeric (upper_hex n)) [0..<16]" by code_simp
  then show "n < 16 \<Longrightarrow> ?thesis" by (simp add: list_all_iff)
qed

lemma nibbles: "of_char c div (16 :: nat) < 16" "of_char c mod (16 :: nat) < 16"
  by (rule less_mult_imp_div_less, simp) simp

lemma decode_percent: "decode_bytes b (percent c @ r) = c # decode_bytes b r"
  using nibbles [of c] upper_hex_hex by (simp add: percent_def)

lemma decode_plain: "c \<noteq> CHR ''%'' \<Longrightarrow> (b \<longrightarrow> c \<noteq> CHR ''+'') \<Longrightarrow> decode_bytes b (c # r) = c # decode_bytes b r"
  by simp

text \<open>The characters that an encoding writes.\<close>

definition code_char :: "char \<Rightarrow> bool" where
  "code_char c \<longleftrightarrow> alphanumeric c \<or> c \<in> set ''-_.!~*()%+'' \<or> c = CHR 0x27"

lemma code_char_percent: "list_all code_char (percent c)"
  using nibbles [of c] upper_hex_hex by (simp add: percent_def code_char_def)

lemma code_char_separators: "code_char c \<Longrightarrow> c \<notin> set ''/?#&={} ''"
  by (auto simp: code_char_def alphanumeric_def)

context byte_encoding
begin

lemma decode_enc: "decode_bytes plus (enc c @ r) = c # decode_bytes plus r"
proof -
  have "alphanumeric c \<or> c \<in> set ''-_.!~*()'' \<or> c = CHR 0x27 \<Longrightarrow> c \<noteq> CHR ''%'' \<and> c \<noteq> CHR ''+''"
    by (auto simp: alphanumeric_def)
  then show ?thesis using enc_cases [of c] decode_percent [of plus c r] by auto
qed

lemma decode_encode: "decode_bytes plus (encode s) = s"
  by (induction s) (simp_all add: encode_def decode_enc)

lemma encode_chars: "list_all code_char (encode s)"
proof -
  have "list_all code_char (enc c)" for c
    using enc_cases [of c] code_char_percent [of c] by (auto simp: code_char_def)
  then show ?thesis by (induction s) (simp_all add: encode_def)
qed

lemma encode_separators: "set (encode s) \<inter> set ''/?#&={} '' = {}"
  using encode_chars [of s] code_char_separators by (fastforce simp: list_all_iff)

end

interpretation form: byte_encoding form_char True
  by unfold_locales (auto simp: form_char_def)

interpretation uri: byte_encoding uri_char False
  by unfold_locales (auto simp: uri_char_def)

lemma encodeURIComponent_uri: "encodeURIComponent s = uri.encode s"
  by (simp add: encodeURIComponent_def uri.encode_def)

section \<open>The query\<close>

definition pair_text :: "string \<times> string \<Rightarrow> string" where
  "pair_text = (\<lambda>(k, v). form.encode k @ ''='' @ form.encode v)"

lemma params_toString_pairs: "params_toString ps = joinStr ''&'' (map pair_text ps)"
  by (simp add: params_toString_def pair_text_def form.encode_def)

lemma form_no_sep: "CHR ''&'' \<notin> set (form.encode s)" "CHR ''='' \<notin> set (form.encode s)"
  using form.encode_separators [of s] by auto

lemma pair_text_facts: "pair_text p \<noteq> []" "CHR ''&'' \<notin> set (pair_text p)" "parse_pair (pair_text p) = p"
proof -
  obtain k v where p: "p = (k, v)" by (cases p)
  have "takeWhile (\<lambda>c. c \<noteq> CHR ''='') (form.encode k @ CHR ''='' # form.encode v) = form.encode k"
    "dropWhile (\<lambda>c. c \<noteq> CHR ''='') (form.encode k @ CHR ''='' # form.encode v) = CHR ''='' # form.encode v"
    using form_no_sep(2) [of k] by (auto simp: takeWhile_append dropWhile_append)
  then show "parse_pair (pair_text p) = p" by (simp add: p pair_text_def parse_pair_def form.decode_encode)
  show "pair_text p \<noteq> []" "CHR ''&'' \<notin> set (pair_text p)" using form_no_sep(1) by (auto simp: p pair_text_def)
qed

lemma split_join: "xs \<noteq> [] \<Longrightarrow> list_all (\<lambda>x. c \<notin> set x) xs \<Longrightarrow> splitOn c (joinStr [c] xs) = xs"
  by (induction xs rule: induct_list012) (simp_all add: splitOn_no splitOn_append_sep)

lemma parse_params: "parse_query (params_toString ps) = ps"
proof (cases "ps = []")
  case False
  have "list_all (\<lambda>x. CHR ''&'' \<notin> set x) (map pair_text ps)" using pair_text_facts(2) by (simp add: list_all_iff)
  then have "splitOn (CHR ''&'') (params_toString ps) = map pair_text ps"
    using split_join [of "map pair_text ps"] False by (simp add: params_toString_pairs)
  then show ?thesis using pair_text_facts by (simp add: parse_query_def filter_map o_def)
qed (simp add: params_toString_def parse_query_def)

lemma params_toString_Nil [simp]: "params_toString ps = [] \<longleftrightarrow> ps = []"
  by (metis parse_params params_toString_pairs joinStr.simps(1) list.map(1))

lemma joinStr_concat:
  "list_all (\<lambda>ps. ps \<noteq> []) pss \<Longrightarrow> joinStr ''&'' (map params_toString pss) = params_toString (concat pss)"
proof (induction pss rule: induct_list012)
  case (3 ps qs pss)
  have "joinStr [c] (xs @ ys) = joinStr [c] xs @ c # joinStr [c] ys" if "xs \<noteq> []" "ys \<noteq> []" for c xs ys
    using that by (induction xs rule: induct_list012) (simp_all, cases ys, simp_all)
  then have "params_toString (ps @ rs) = params_toString ps @ CHR ''&'' # params_toString rs" if "ps \<noteq> []" "rs \<noteq> []" for ps rs
    using that by (simp add: params_toString_pairs)
  then show ?case using 3 by simp
qed (simp_all add: params_toString_def)

text \<open>With distinct names, the parameters are collected in the order of the controls.\<close>

lemma add_params_fold:
  assumes "distinct (map pname es)" "set (map fst a) \<inter> set (map pname es) = {}"
  shows "fold (add_params f) es a = a @ map (\<lambda>e. (pname e, f e)) (filter (\<lambda>e. f e \<noteq> []) es)"
  using assms
proof (induction es arbitrary: a)
  case (Cons e es)
  have "upd_assoc k v a = a @ [(k, v)]" if "k \<notin> set (map fst a)" for k and v :: params
    using that by (induction a) auto
  then show ?case using Cons by (auto simp: add_params_def)
qed simp

lemma query_string_plain:
  assumes "list_all (\<lambda>(k, ps). ps \<noteq> [] \<and> k \<notin> set R) a"
  shows "query_string R a = params_toString (concat (map snd a))"
proof -
  have "map (\<lambda>(k, ps). if k \<in> set R then reserved_text k ps else params_toString ps) a = map params_toString (map snd a)"
    using assms by (induction a) auto
  moreover have "list_all (\<lambda>ps. ps \<noteq> []) (map snd a)" using assms by (induction a) auto
  ultimately show ?thesis unfolding query_string_def using joinStr_concat by metis
qed

section \<open>The path\<close>

lemma is_prefix_split: "is_prefix p s \<Longrightarrow> s = p @ drop (length p) s"
  by (metis append_take_drop_id is_prefix_def)

lemma js_replace_count:
  assumes "c \<notin> set p" "c \<notin> set r"
  shows "countByte (js_replace s p r) c = countByte s c"
proof (induction s)
  case (Cons x s)
  have "countByte p c = 0" "countByte r c = 0" using assms by (auto simp: countByte_def filter_empty_conv)
  then show ?case using Cons is_prefix_split [of p "x # s"] assms
    by (metis (no_types, lifting) countByte_def filter.simps(2) filter_append js_replace.simps(2) length_append list.size(3) length_0_conv append_Nil length_Cons)
qed (use assms in \<open>auto simp: countByte_def filter_empty_conv\<close>)

lemma countByte_0: "countByte s c = 0 \<longleftrightarrow> c \<notin> set s"
  by (auto simp: countByte_def filter_empty_conv)

lemma fill_path_count:
  assumes "c \<in> set ''/?#''" "list_all (\<lambda>e. c \<notin> set (pname e)) es"
  shows "countByte (fill_path path es) c = countByte path c"
  using assms(2)
proof (induction es arbitrary: path)
  case (Cons e es)
  have "c \<notin> set (encodeURIComponent s)" for s
    using uri.encode_separators [of s] assms(1) by (auto simp: encodeURIComponent_uri)
  moreover have "c \<notin> set (''{'' @ pname e @ ''}'')" using Cons.prems assms(1) by auto
  ultimately show ?case using Cons by (simp add: fill_path_def js_replace_count)
qed (simp add: fill_path_def)

section \<open>Properties of the request\<close>


definition example_controls :: "dom list" where
  "example_controls =
     [El ''input'' [(''data-ptype'', ''path''), (''data-pname'', ''id''), (''data-array'', ''false'')] [(''value'', JStr ''a/b?'')] [],
      El ''input'' [(''data-ptype'', ''query''), (''data-pname'', ''q''), (''data-array'', ''false'')] [(''value'', JStr ''x & y=1'')] [],
      El ''tag-input'' [(''data-ptype'', ''query''), (''data-pname'', ''tag''), (''data-array'', ''true''),
        (''data-param-serialize-explode'', ''true'')] [(''value'', JArr [JStr ''1'', JStr [], JStr ''2''])] []]"

definition example_web :: web where
  "example_web = \<lparr>number_text = id, decode_text = \<lambda>_ _. None, xml_pretty = id, absolute_url = \<lambda>u. ''http://localhost'' @ u,
     type_error = ''TypeError'', syntax_error = ''SyntaxError''\<rparr>"


text \<open>
  C8. A value typed for a path parameter stays inside its segment of the path: it is sent in a form
  from which the server gets it back, and however the controls are filled in, the path has the same
  number of slashes, question marks and number signs.
\<close>

theorem path_values_stay_inside:
  assumes "c \<in> set ''/?#''" "list_all (\<lambda>e. c \<notin> set (pname e)) es"
  shows "decode_bytes False (encodeURIComponent s) = s \<and> countByte (fill_path path es) c = countByte path c"
  using fill_path_count [OF assms] uri.decode_encode by (simp add: encodeURIComponent_uri)

theorem path_values_stay_inside_witness:
  "decode_bytes False ''a%2Fb%3F'' = ''a/b?'' \<and>
   countByte (fill_path ''/items/{id}'' (ptype ''path'' example_controls)) (CHR ''/'') = 2"
proof -
  have "list_all (\<lambda>e. CHR ''/'' \<notin> set (pname e)) (ptype ''path'' example_controls)" by code_simp
  then have "decode_bytes False (encodeURIComponent ''a/b?'') = ''a/b?'' \<and>
     countByte (fill_path ''/items/{id}'' (ptype ''path'' example_controls)) (CHR ''/'') = countByte ''/items/{id}'' (CHR ''/'')"
    by (intro path_values_stay_inside) simp
  moreover have "encodeURIComponent ''a/b?'' = ''a%2Fb%3F''" "countByte ''/items/{id}'' (CHR ''/'') = 2" by code_simp+
  ultimately show ?thesis by simp
qed

text \<open>
  A path with the same parameter twice keeps the second placeholder, since only the first
  occurrence is replaced; and a query parameter that allows reserved characters and holds an
  object loses the object, since its entries are looked up by the name of the parameter.
\<close>

theorem second_placeholder_stays:
  "fill_path ''/{id}/x/{id}'' (ptype ''path'' example_controls) = ''/a%2Fb%3F/x/{id}''"
  by code_simp

theorem reserved_object_is_lost:
  "query_string [''filter''] [(''filter'', entry_params (JStr ''form'') (JStr ''true'') (''name'', JStr ''x''))] = ''filter=''"
  by code_simp

section \<open>Properties of the states\<close>

lemma blob_inv_revoke:
  "blob_inv st \<Longrightarrow> responseBlobUrl (revoke_blob st) = [] \<and> blob_urls (revoke_blob st) = []"
  by (auto simp: blob_inv_def revoke_blob_def)

lemma blob_inv_click: "blob_inv st \<Longrightarrow> blob_inv (fst (onTryClick W q panel st))"
  by (auto simp: onTryClick_def Let_def blob_inv_def revoke_blob_def)

lemma take_answer_blobs:
  assumes "take_answer W a st = (st', m)" "blob_urls st = []" "responseBlobUrl st = []" "an_blob a \<noteq> []" "\<not> try_disabled st"
  shows "blob_inv st' \<and> \<not> try_disabled st'"
  using assms by (auto simp: take_answer_def take_blob_def Let_def blob_inv_def split: answer_class.splits option.splits)

lemma blob_inv_answer: "blob_inv st \<Longrightarrow> try_disabled st \<Longrightarrow> new_blob x st \<Longrightarrow> blob_inv (onTryEnd W x st) \<and> \<not> try_disabled (onTryEnd W x st)"
  by (auto simp: onTryEnd_def Let_def new_blob_def blob_inv_def [of st] split: try_outcome.splits prod.splits option.splits
      dest!: take_answer_blobs) (auto simp: blob_inv_def)

lemma blob_inv_step: "try_step W st st' \<Longrightarrow> blob_inv st \<Longrightarrow> blob_inv st'"
proof (induction rule: try_step.induct)
  case (answer st x)
  then show ?case using blob_inv_answer by blast
qed (auto simp: blob_inv_click, auto simp: blob_inv_def clearResponseData_def disconnectedCallback_def revoke_blob_def)

lemma blob_inv_reachable: "try_reachable W st \<Longrightarrow> blob_inv st"
  by (induction rule: try_reachable.induct) (auto simp: blob_inv_step, simp add: blob_inv_def initial_answer_def)


definition example_operation :: operation where
  "example_operation = \<lparr>op_method = ''get'', op_path = ''/report'', op_serverUrl = [], op_accept = [], op_keys = [],
     op_selected = JUndef, op_credentials = []\<rparr>"

definition http_example :: "params \<Rightarrow> http_answer" where
  "http_example hs = \<lparr>an_status = 200, an_statusText = ''OK'', an_url = ''http://localhost/report'', an_headers = hs,
     an_body = ''data'', an_millis = 7, an_blob = ''blob:1''\<rparr>"

definition after_pdf :: answer_state where
  "after_pdf = onTryEnd example_web (Answered (http_example [(''content-type'', ''application/pdf'')]))
     (fst (onTryClick example_web example_operation [] initial_answer))"


text \<open>
  An answer that is to be downloaded and whose \<open>content-disposition\<close> names no file is lost: the state
  says that there is a download, but it has no URL, and the message blames the network although the
  server has answered.
\<close>

theorem download_without_file_name_is_lost:
  assumes "answer_kind (an_body a) (map_of (an_headers a) ''content-type'') = Download"
    and "map_of (an_headers a) ''content-disposition'' = Some d" "d \<noteq> []" "js_split ''filename='' d = [d]"
    and "responseBlobUrl st = []"
  shows "responseIsBlob (onTryEnd W (Answered a) st) \<and> responseBlobUrl (onTryEnd W (Answered a) st) = [] \<and>
    responseMessage (onTryEnd W (Answered a) st) = [Tx (type_error W @ '' (CORS or Network Issue)'')]"
  using assms by (simp add: onTryEnd_def take_answer_def take_blob_def file_name_def failed_message_def Let_def)

theorem download_without_file_name_is_lost_witness:
  "responseMessage (onTryEnd example_web (Answered (http_example
      [(''content-disposition'', ''attachment''), (''content-type'', ''application/pdf'')])) initial_answer)
   = [Tx ''TypeError (CORS or Network Issue)'']"
proof -
  let ?a = "http_example [(''content-disposition'', ''attachment''), (''content-type'', ''application/pdf'')]"
  have "answer_kind (an_body ?a) (map_of (an_headers ?a) ''content-type'') = Download"
    "map_of (an_headers ?a) ''content-disposition'' = Some ''attachment''" "js_split ''filename='' ''attachment'' = [''attachment'']"
    "responseBlobUrl initial_answer = []" by code_simp+
  then show ?thesis
    using download_without_file_name_is_lost [of ?a "''attachment''" initial_answer example_web] by (simp add: example_web_def)
qed

text \<open>
  The command line for a form: of a value with commas the last part is lost and the others
  keep one character and the comma; a quote in a JSON body ends the quotation.
\<close>

theorem curl_form_values: "curl_form (''tags'', FText ''red,green,blue'') = [''-F \"tags[]=d,\"'', ''-F \"tags[]=n,\"'']"
  by code_simp

theorem curl_json_quote:
  "curl_data example_web
     [El ''div'' [(''class'', ''request-body-container''), (''data-selected-request-body-type'', ''application/json'')] []
        [El ''textarea'' [(''class'', ''textarea request-body-param-user-input'')] [(''value'', JStr (''[\"it'' @ [CHR 0x27] @ ''s\"]''))] []]]
   = '' -d '' @ [CHR 0x27] @ ''[\"it'' @ [CHR 0x27] @ ''s\"]'' @ [CHR 0x27] @ curl_end"
  by code_simp

end
