(* ===== verification/Web_Form_Request.thy ===== *)
theory Web_Form_Request
  imports Web_Form Web_Try
begin

text \<open>
  The form of the documentation page (web/static/rapidoc-min.js) and the request that is made from it.
\<close>

section \<open>Libraries without controls\<close>

definition is_input :: "dom \<Rightarrow> bool" where
  "is_input n \<longleftrightarrow> attr ''data-ptype'' n \<noteq> None"

text \<open>The Markdown renderer and the highlighter make no controls.\<close>

definition plain_lib :: "lib \<Rightarrow> bool" where
  "plain_lib L \<longleftrightarrow> (\<forall>s. select is_input (We L s) = []) \<and> (\<forall>s l. select is_input (highlight L s l) = [])"

text \<open>The parameters with a control of their own, and the ones whose control holds an object.\<close>

definition param_type :: "js \<Rightarrow> string option" where
  "param_type r =
     (case qP r of (t, _, _) \<Rightarrow>
        if \<not> js_truthy t then None else (case EP t of Some (Some i) \<Rightarrow> Some (ti_type i) | _ \<Rightarrow> None))"

definition has_control :: "js \<Rightarrow> bool" where
  "has_control r \<longleftrightarrow> (case param_type r of None \<Rightarrow> False | Some t \<Rightarrow> t \<noteq> ''object'')"

definition shows_object :: "element \<Rightarrow> js \<Rightarrow> bool" where
  "shows_object this r \<longleftrightarrow>
     param_type r = Some ''object'' \<and>
     js_get (this ''activeParameterSchemaTabs'') (js_toString (js_get r ''name'')) = JStr ''example''"

definition param_name :: "js \<Rightarrow> string" where
  "param_name r = lit_str (js_get r ''name'')"

definition can_try :: "element \<Rightarrow> bool" where
  "can_try this \<longleftrightarrow> this ''allowTry'' = JStr ''true''"

section \<open>Facts\<close>

lemma ptype_inputs: "ptype k ns = filter (\<lambda>n. attr ''data-ptype'' n = Some k) (select is_input ns)"
  by (auto simp: ptype_def by_attr_def select_def is_input_def intro: filter_cong)

lemma inputs_lib: "plain_lib L \<Longrightarrow> select is_input (We L s) = []" "plain_lib L \<Longrightarrow> select is_input (highlight L s l) = []"
  by (simp_all add: plain_lib_def)

lemma is_input_El: "is_input (El t as ps ns) \<longleftrightarrow> map_of as ''data-ptype'' \<noteq> None"
  by (simp add: is_input_def)

lemma inputs_renderExample: "select is_input (renderExample this e t r) = []"
  by (simp add: renderExample_def is_input_El)

lemma inputs_exampleList: "plain_lib L \<Longrightarrow> select is_input (exampleListTemplate this L e t r) = []"
  by (auto simp: exampleListTemplate_def renderShortFormatExamples_def renderLongFormatExamples_def is_input_El
      inputs_renderExample inputs_lib select_map o_def split_def split: if_splits)

lemma type_info_type: "js_get (type_info i) ''type'' = JStr (ti_type i)"
  by (simp add: type_info_def)

lemma inputs_parameter_row:
  assumes "plain_lib L" "can_try this"
  shows "map (\<lambda>n. (attr ''data-ptype'' n, pname n)) (select is_input (parameter_row this L e r i s d l c p)) =
    (if js_get i ''type'' = JStr ''object''
     then if js_get (this ''activeParameterSchemaTabs'') (js_toString (js_get r ''name'')) = JStr ''example''
          then [(Some (e @ ''-object''), param_name r)] else []
     else [(Some e, param_name r)])"
  using assms
  by (simp add: can_try_def parameter_row_def is_input_El inputs_lib inputs_exampleList o_def split_def pname_def data_of_def param_name_def)

lemma inputs_parameter_rows:
  assumes "plain_lib L" "can_try this"
  shows "map (\<lambda>n. (attr ''data-ptype'' n, pname n)) (select is_input (parameter_rows this L e r)) =
    (if has_control r then [(Some e, param_name r)]
     else if shows_object this r then [(Some (e @ ''-object''), param_name r)] else [])"
  using inputs_parameter_row [OF assms]
  by (auto simp: parameter_rows_def has_control_def shows_object_def param_type_def type_info_type
      split: prod.splits option.splits simp del: map_is_Nil_conv list.map_disc_iff)

definition row_inputs :: "element \<Rightarrow> string \<Rightarrow> js \<Rightarrow> (string option \<times> string) list" where
  "row_inputs this e r =
     (if has_control r then [(Some e, param_name r)]
      else if shows_object this r then [(Some (e @ ''-object''), param_name r)] else [])"

definition table_inputs :: "element \<Rightarrow> string \<Rightarrow> (string option \<times> string) list" where
  "table_inputs this e = concat (map (row_inputs this e) (parameters_in this e))"

lemma inputs_table:
  assumes "plain_lib L" "can_try this"
  shows "map (\<lambda>n. (attr ''data-ptype'' n, pname n)) (select is_input (inputParametersTemplate this L e)) = table_inputs this e"
proof -
  have "map (\<lambda>n. (attr ''data-ptype'' n, pname n)) (concat (map (\<lambda>r. select is_input (parameter_rows this L e r)) rs)) =
    concat (map (row_inputs this e) rs)" for rs
    by (induction rs) (simp_all add: inputs_parameter_rows [OF assms] row_inputs_def)
  then show ?thesis by (auto simp: inputParametersTemplate_def table_inputs_def is_input_El o_def)
qed

lemma inputs_answer:
  assumes "plain_lib L" "select is_input message = []"
  shows "select is_input (apiCallTemplate this L message) = []"
  using assms
  by (simp add: apiCallTemplate_def apiResponseTabTemplate_def curlSyntaxTemplate_def response_code_def server_line_def
      server_select_def is_input_El inputs_lib select_map o_def split_def Let_def)

lemma inputs_panel:
  assumes "plain_lib L" "can_try this" "select is_input message = []" "\<not> js_truthy (this ''request_body'')"
  shows "map (\<lambda>n. (attr ''data-ptype'' n, pname n)) (select is_input (request_panel this L message)) =
    table_inputs this ''path'' @ table_inputs this ''query'' @ table_inputs this ''header'' @ table_inputs this ''cookie''"
  using assms inputs_table [OF assms(1,2)]
  by (simp add: request_panel_def is_input_El requestBodyTemplate_def inputs_answer)

lemma names_of_inputs:
  "map pname (ptype k ns) = map snd (filter (\<lambda>p. fst p = Some k) (map (\<lambda>n. (attr ''data-ptype'' n, pname n)) (select is_input ns)))"
  by (simp add: ptype_inputs filter_map o_def split_def)

lemma table_names:
  "map snd (filter (\<lambda>p. fst p = Some k) (table_inputs this e)) =
     (if k = e then map param_name (filter has_control (parameters_in this e))
      else if k = e @ ''-object'' then map param_name (filter (shows_object this) (parameters_in this e)) else [])"
proof -
  have "\<not> (has_control r \<and> shows_object this r)" for r by (auto simp: has_control_def shows_object_def)
  moreover have "e \<noteq> e @ ''-object''" by simp
  ultimately have "map snd (filter (\<lambda>p. fst p = Some k) (concat (map (row_inputs this e) rs))) =
     (if k = e then map param_name (filter has_control rs)
      else if k = e @ ''-object'' then map param_name (filter (shows_object this) rs) else [])" for rs
    by (induction rs) (auto simp: row_inputs_def)
  then show ?thesis by (simp add: table_inputs_def)
qed

text \<open>Typing into controls keeps the attributes of all elements.\<close>

lemma typed_attrs:
  "map (attr k) (elements (map_elements (\<lambda>n. if P n then with_value v n else n) m)) = map (attr k) (elements m)"
proof (induction m)
  case (El t as ps ns)
  then show ?case by (auto simp: with_value_def map_concat o_def intro!: arg_cong [of _ _ concat])
qed simp

lemma typed_ptype:
  assumes "ptype k ns = []"
  shows "ptype k (map (map_elements (\<lambda>n. if P n then with_value v n else n)) ns) = []"
proof -
  have "map (attr ''data-ptype'') (all_elements (map (map_elements (\<lambda>n. if P n then with_value v n else n)) ns)) =
    map (attr ''data-ptype'') (all_elements ns)"
    by (simp add: all_elements_def map_concat o_def typed_attrs)
  from arg_cong [OF this, of set] have "attr ''data-ptype'' ` set (all_elements (map (map_elements (\<lambda>n. if P n then with_value v n else n)) ns)) =
    attr ''data-ptype'' ` set (all_elements ns)" by (simp only: list.set_map)
  moreover have "ptype k ms = [] \<longleftrightarrow> Some k \<notin> attr ''data-ptype'' ` set (all_elements ms)" for ms
    by (auto simp: ptype_def by_attr_def select_def filter_empty_conv image_iff)
  ultimately show ?thesis using assms by simp
qed

lemma container_class: "''request-body-container'' \<in> set (js_split '' '' ''request-body-container'')"
  by code_simp

section \<open>Properties\<close>


definition example_param :: "string \<Rightarrow> string \<Rightarrow> string \<Rightarrow> js" where
  "example_param name place type =
     JObj [(''name'', JStr name), (''in'', JStr place), (''schema'', JObj [(''type'', JStr type)])]"

definition example_element :: "js \<Rightarrow> element" where
  "example_element tabs = (\<lambda>_. JUndef)
     (''allowTry'' := JStr ''true'', ''activeParameterSchemaTabs'' := tabs, ''schemaHideReadOnly'' := JStr ''default'',
      ''parameters'' := JArr [example_param ''id'' ''path'' ''integer'', example_param ''filter'' ''query'' ''object'',
        example_param ''limit'' ''query'' ''integer'', example_param ''session'' ''cookie'' ''string''])"


text \<open>
  The values of cookie parameters are shown in the form and never sent, and an object in the path
  leaves its placeholder in the URL: no part of the request reads their controls.
\<close>

theorem object_in_path_is_not_sent:
  "buildFetchURL example_web ''/a/{id}'' [] []
     (inputParametersTemplate
        ((\<lambda>_. JUndef)(''allowTry'' := JStr ''true'', ''schemaHideReadOnly'' := JStr ''default'',
           ''activeParameterSchemaTabs'' := JObj [(''id'', JStr ''example'')], ''fillRequestFieldsWithExample'' := JStr ''true'',
           ''parameters'' := JArr [example_param ''id'' ''path'' ''object''])) text_lib ''path'')
   = ''/a/{id}''"
  by code_simp

text \<open>
  A form without declared fields is never sent. The form for a body in \<open>application/x-www-form-urlencoded\<close> whose schema
  has no properties is a text area; whatever is typed there, the request has an empty body,
  because the text area carries the mark by which the request looks for it under another attribute.
\<close>

theorem free_form_is_not_sent:
  assumes "plain_lib L" "\<not> js_truthy (js_get e ''properties'')" "t = ''application/x-www-form-urlencoded''"
    and "panel = [El ''div'' [(''class'', ''request-body-container''), (''data-selected-request-body-type'', t)] []
      (map (map_elements (\<lambda>n. if is_control n then with_value v n else n)) (formDataTemplate this L e t r))]"
  shows "buildFetchBody W panel = Params []"
proof -
  let ?ns = "formDataTemplate this L e t r" and ?f = "\<lambda>n. if is_control n then with_value v n else n"
  have "ptype k ?ns = []" if "k \<in> {''dynamic-form'', ''form-urlencode''}" for k
    using assms(2,3) that inputs_lib(1) [OF assms(1)] by (auto simp: ptype_inputs formDataTemplate_def is_input_El)
  then have "ptype k panel = []" if "k \<in> {''dynamic-form'', ''form-urlencode''}" for k
    using that typed_ptype [of k ?ns is_control v] by (auto simp: assms(4) ptype_def by_attr_def)
  moreover have "body_type panel = Some t"
    using container_class by (simp add: assms(4) body_type_def has_class_def data_of_def)
  moreover have "js_includes t ''form-urlencoded''" unfolding assms(3) by code_simp
  ultimately show ?thesis by (simp add: buildFetchBody_def)
qed

theorem free_form_is_not_sent_witness:
  "buildFetchBody example_web
     [El ''div'' [(''class'', ''request-body-container''), (''data-selected-request-body-type'', ''application/x-www-form-urlencoded'')] []
        (map (map_elements (\<lambda>n. if is_control n then with_value (JStr ''{\"a\":1}'') n else n))
          (formDataTemplate (example_element JUndef) text_lib (JObj [(''type'', JStr ''object'')]) ''application/x-www-form-urlencoded'' (JStr [])))]
   = Params []"
  by (rule free_form_is_not_sent [where L = text_lib]) (simp_all add: plain_lib_def text_lib_def)

end
