(* ===== verification/Web_Example.thy ===== *)
theory Web_Example
  imports Web_Schema_Model Web_Json
begin

text \<open>
  The examples that the documentation page makes up for a schema (web/static/rapidoc-min.js): \<open>CP\<close>
  for a primitive schema, \<open>LP\<close> for all the others, \<open>BP\<close> for the list of examples of a media type.

  The result of \<open>LP\<close> is an object with the names \<open>example-0\<close>, \<open>example-1\<close>, ..., and in a few cases a plain
  value (\<open>Value\<close>); \<open>None\<close> means that the page throws. Titles and XML names travel inside an
  example under names that start with two colons. An array has such marks besides its
  elements, so an example is a value with the marks it has if it is an array; marks of an array
  inside an example are neither printed nor read, and left out.

  Objects are values here. The page writes marks into the examples of the document itself and
  deletes them in the end, so a document is meant that does not use the same example object twice.
  The arithmetic of floating-point numbers and the random text of an identifier are a parameter.
\<close>

section \<open>Values\<close>

text \<open>Assigning a property: names that are array indices stand in front, in their order.\<close>

definition put :: "string \<Rightarrow> 'v \<Rightarrow> (string \<times> 'v) list \<Rightarrow> (string \<times> 'v) list" where
  "put k v m =
     (if k \<in> fst ` set m then upd_assoc k v m
      else if is_index k
      then takeWhile (\<lambda>(k', _). is_index k' \<and> index_value k' < index_value k) m @ [(k, v)] @
           dropWhile (\<lambda>(k', _). is_index k' \<and> index_value k' < index_value k) m
      else m @ [(k, v)])"

definition put_all :: "(string \<times> 'v) list \<Rightarrow> (string \<times> 'v) list \<Rightarrow> (string \<times> 'v) list" where
  "put_all m es = fold (\<lambda>(k, v). put k v) es m"

text \<open>What \<open>for ... in\<close> visits; of a string these are the characters.\<close>

definition for_in :: "js \<Rightarrow> obj" where
  "for_in v = (case v of JStr s \<Rightarrow> map (\<lambda>(i, c). (showNat i, JStr [c])) (enumerate 0 s) | _ \<Rightarrow> js_fields v)"

definition is_object :: "js \<Rightarrow> bool" where
  "is_object v \<longleftrightarrow> js_typeof v = ''object'' \<and> v \<noteq> JNull"

definition js_first :: "js \<Rightarrow> js" where
  "js_first v = (case map_of (for_in v) ''0'' of Some x \<Rightarrow> x | None \<Rightarrow> JUndef)"

record numbers =
  num_parse :: "string \<Rightarrow> string option"
  num_add :: "string \<Rightarrow> string \<Rightarrow> string"
  num_ge :: "string \<Rightarrow> string \<Rightarrow> bool"
  num_divides :: "string \<Rightarrow> string \<Rightarrow> bool"
  num_round_up :: "string \<Rightarrow> string \<Rightarrow> string"
  num_count :: "string \<Rightarrow> nat option"
  num_text :: "string \<Rightarrow> string"
  hex_clock :: string
  hex_random :: string

text \<open>\<open>Number(v)\<close>, without the value \<open>NaN\<close>.\<close>

definition to_number :: "numbers \<Rightarrow> js \<Rightarrow> string option" where
  "to_number N v =
     (case v of
        JUndef \<Rightarrow> None | JNull \<Rightarrow> Some ''0'' | JBool b \<Rightarrow> Some (if b then ''1'' else ''0'')
      | JNum n \<Rightarrow> if n = ''NaN'' then None else Some n
      | _ \<Rightarrow> num_parse N (js_toString v))"

text \<open>A number that counts as true.\<close>

definition nonzero :: "string option \<Rightarrow> string option" where
  "nonzero n = (if n = Some ''0'' then None else n)"

section \<open>Primitive schemas\<close>

definition number_example :: "numbers \<Rightarrow> string \<Rightarrow> js \<Rightarrow> string" where
  "number_example N r e =
     (let t = to_number N (js_get e ''multipleOf''); n = to_number N (js_get e ''maximum'');
          o1 = (case to_number N (js_get e ''minimum'') of
                  Some x \<Rightarrow> x
                | None \<Rightarrow>
                    (case to_number N (js_get e ''exclusiveMinimum'') of
                       Some x \<Rightarrow> num_add N x (if hasPrefix r ''integer'' then ''1'' else ''0.001'')
                     | None \<Rightarrow> (case nonzero n of Some x \<Rightarrow> x | None \<Rightarrow> ''0''))) in
      case nonzero t of
        None \<Rightarrow> o1
      | Some t \<Rightarrow> if num_ge N t o1 then t else if num_divides N t o1 then o1 else num_round_up N o1 t)"

definition text_example :: "numbers \<Rightarrow> js \<Rightarrow> string option" where
  "text_example N e =
     (let t = nonzero (to_number N (js_get e ''minLength'')); r = nonzero (to_number N (js_get e ''maxLength''));
          n = (case t of
                 Some x \<Rightarrow> Some x
               | None \<Rightarrow> (case r of None \<Rightarrow> None | Some x \<Rightarrow> Some (if num_ge N ''6'' x then x else ''6''))) in
      case n of None \<Rightarrow> Some ''string'' | Some x \<Rightarrow> map_option (\<lambda>n. replicate n (CHR ''A'')) (num_count N x))"

definition substr :: "string \<Rightarrow> nat \<Rightarrow> nat \<Rightarrow> string" where
  "substr s i n = take n (drop i s)"

definition epoch_day :: string where "epoch_day = ''1970-01-01''"
definition epoch_time :: string where "epoch_time = ''00:00:00.000Z''"

definition format_example :: "numbers \<Rightarrow> string \<Rightarrow> string" where
  "format_example N f =
     (let t = concat (replicate 16 (hex_clock N @ hex_random N @ ''0'')) in
      if f \<in> {''url'', ''uri''} then ''http://example.com''
      else if f = ''date'' then epoch_day
      else if f = ''time'' then epoch_time
      else if f = ''date-time'' then epoch_day @ ''T'' @ epoch_time
      else if f = ''duration'' then ''P3Y6M4DT12H30M5S''
      else if f \<in> {''email'', ''idn-email''} then ''user@example.com''
      else if f \<in> {''hostname'', ''idn-hostname''} then ''www.example.com''
      else if f = ''ipv4'' then ''198.51.100.42''
      else if f = ''ipv6'' then ''2001:0db8:5b96:0000:0000:426f:8e17:642a''
      else if f = ''uuid'' then joinStr ''-'' [substr t 0 8, substr t 8 4, ''4000-8'' @ substr t 13 3, substr t 16 12]
      else [])"

definition string_example :: "numbers \<Rightarrow> js \<Rightarrow> js option" where
  "string_example N e =
     (if js_truthy (js_get e ''enum'') then Some (js_first (js_get e ''enum''))
      else if js_truthy (js_get e ''pattern'') then Some (js_get e ''pattern'')
      else if \<not> js_truthy (js_get e ''format'') then map_option JStr (text_example N e)
      else (case js_get e ''format'' of JStr f \<Rightarrow> Some (JStr (format_example N (toLower f))) | _ \<Rightarrow> None))"

definition no_keys :: "js \<Rightarrow> bool" where
  "no_keys e \<longleftrightarrow> for_in e = []"

text \<open>A value that is given: not \<open>undefined\<close> and not \<open>NaN\<close>.\<close>

definition given :: "js \<Rightarrow> bool" where
  "given v \<longleftrightarrow> v \<noteq> JUndef \<and> v \<noteq> JNum ''NaN''"

definition CP :: "numbers \<Rightarrow> js \<Rightarrow> js option" where
  "CP N e =
     (if \<not> js_has_props e then None
      else
        let t = (if js_truthy (js_get e ''examples'') then js_first (js_get e ''examples'')
                 else if js_get e ''example'' = JNull then JNull else js_or (js_get e ''example'') JUndef) in
        if given t then Some t
        else if no_keys e then Some JNull
        else if js_truthy (js_get e ''$ref'') then Some (js_get e ''$ref'')
        else if given (js_get e ''const'') then Some (js_get e ''const'')
        else
          let r = (if js_is_array (js_get e ''type'') then js_nth (js_get e ''type'') 0 else js_get e ''type'') in
          if \<not> js_truthy r then Some (JStr ''?'')
          else (case r of
                  JStr r \<Rightarrow>
                    if hasPrefix r ''integer'' \<or> hasPrefix r ''number'' then Some (JNum (number_example N r e))
                    else if hasPrefix r ''boolean'' then Some (JBool False)
                    else if hasPrefix r ''null'' then Some JNull
                    else if hasPrefix r ''string'' then string_example N e
                    else Some (JStr ''?'')
                | _ \<Rightarrow> None))"

section \<open>Examples\<close>

type_synonym ex = "obj \<times> js"
type_synonym exs = "(string \<times> ex) list"

datatype lp = Examples exs | Value js

definition ex_name :: "nat \<Rightarrow> string" where
  "ex_name n = ''example-'' @ showNat n"

definition plain :: "js \<Rightarrow> ex" where
  "plain v = ([], v)"

text \<open>The properties of an example, and those of a result of \<open>LP\<close>.\<close>

definition ex_fields :: "ex \<Rightarrow> obj" where
  "ex_fields x = for_in (snd x) @ fst x"

fun each :: "lp \<Rightarrow> exs" where
  "each (Examples m) = m" | "each (Value v) = map (\<lambda>(k, x). (k, plain x)) (for_in v)"

fun lp_js :: "lp \<Rightarrow> js" where
  "lp_js (Examples m) = JObj (map (\<lambda>(k, x). (k, snd x)) m)" | "lp_js (Value v) = v"

text \<open>\<open>IP(e, t)\<close>: the marks of a schema on its example.\<close>

definition mark :: "string \<Rightarrow> js \<Rightarrow> obj \<Rightarrow> obj" where
  "mark k v m = (if js_truthy v then put k v m else m)"

definition marks :: "js \<Rightarrow> obj \<Rightarrow> obj" where
  "marks e m =
     (let x = js_get e ''xml''; w = js_get x ''wrapped'' in
      mark ''::XML_WRAP'' (if js_truthy w then JStr (js_toString w) else JUndef)
        (mark ''::XML_TAG'' (js_get x ''name'') (mark ''::DESCRIPTION'' (js_get e ''description'') (mark ''::TITLE'' (js_get e ''title'') m))))"

definition IP_marks :: "js \<Rightarrow> ex \<Rightarrow> ex" where
  "IP_marks e x = (case x of (g, JObj m) \<Rightarrow> (g, JObj (marks e m)) | (g, JArr xs) \<Rightarrow> (marks e g, JArr xs) | _ \<Rightarrow> x)"

text \<open>\<open>_P(e)\<close>: the marks are deleted.\<close>

definition mark_names :: "string list" where
  "mark_names = [''::TITLE'', ''::DESCRIPTION'', ''::XML_TAG'', ''::XML_WRAP'']"

fun unmark :: "js \<Rightarrow> js" where
  "unmark (JObj m) = JObj (map (\<lambda>(k, v). (k, unmark v)) (filter (\<lambda>(k, v). k \<notin> set mark_names) m))"
| "unmark (JArr xs) = JArr (map unmark xs)"
| "unmark v = v"

text \<open>\<open>PP(e, t, r)\<close>: every example gets a property.\<close>

definition set_property :: "string \<Rightarrow> js \<Rightarrow> ex \<Rightarrow> ex" where
  "set_property k v x = (case x of (g, JObj m) \<Rightarrow> (g, JObj (put k v m)) | (g, y) \<Rightarrow> (put k v g, y))"

definition PP :: "js \<Rightarrow> exs \<Rightarrow> string \<Rightarrow> exs" where
  "PP e t r = map (\<lambda>(k, x). (k, set_property r e x)) t"

text \<open>\<open>RP(e, t, r)\<close>: every example is combined with every value of a property, until there are ten.\<close>

fun RP_values :: "ex \<Rightarrow> string \<Rightarrow> exs \<Rightarrow> nat \<times> exs \<Rightarrow> nat \<times> exs" where
  "RP_values b t [] (n, o1) = (n, o1)"
| "RP_values b t ((i, x) # r) (n, o1) =
     (let o2 = put (ex_name n) (plain (JObj (put t (snd x) (put_all [] (ex_fields b))))) o1 in
      if 10 \<le> n + 1 then (n + 1, o2) else RP_values b t r (n + 1, o2))"

fun RP_examples :: "exs \<Rightarrow> string \<Rightarrow> exs \<Rightarrow> nat \<times> exs \<Rightarrow> exs" where
  "RP_examples [] t r (n, o1) = o1"
| "RP_examples ((a, b) # e) t r (n, o1) =
     (let (n', o2) = RP_values b t r (n, o1) in if 10 \<le> n' then o2 else RP_examples e t r (n', o2))"

definition RP :: "exs \<Rightarrow> string \<Rightarrow> exs \<Rightarrow> exs" where
  "RP e t r = RP_examples e t r (0, [])"

section \<open>Schemas\<close>

record ex_options =
  includeReadOnly :: bool
  includeWriteOnly :: bool
  includeDeprecated :: bool
  useXmlTagForProp :: bool

definition visible :: "ex_options \<Rightarrow> js \<Rightarrow> bool" where
  "visible T p \<longleftrightarrow> (js_truthy (js_get p ''deprecated'') \<longrightarrow> includeDeprecated T) \<and>
     (js_truthy (js_get p ''readOnly'') \<longrightarrow> includeReadOnly T) \<and> (js_truthy (js_get p ''writeOnly'') \<longrightarrow> includeWriteOnly T)"

text \<open>One example of an option of \<open>oneOf\<close>: the properties beside the options are added to objects, others are skipped.\<close>

definition one_example_of :: "obj \<Rightarrow> js \<Rightarrow> string \<times> ex \<Rightarrow> nat \<times> exs \<Rightarrow> nat \<times> exs" where
  "one_example_of n v kx st =
     (case (kx, st) of ((k, g, x), (o1, r)) \<Rightarrow>
        if n = [] then (o1 + 1, put (ex_name o1) (IP_marks v (g, x)) r)
        else if is_object x
        then (o1 + 1, put (ex_name o1) (IP_marks v (fold (\<lambda>(k, y). set_property k y) n (g, x))) r)
        else (o1, r))"

text \<open>
  One example of an option of \<open>anyOf\<close>: it is added to the last one of the examples of the properties
  beside the options.
\<close>

definition any_example_of :: "exs option \<Rightarrow> js \<Rightarrow> string \<times> ex \<Rightarrow> nat \<times> exs \<Rightarrow> nat \<times> exs" where
  "any_example_of n v kx st =
     (case (kx, st) of ((k, x), (o1, r)) \<Rightarrow>
        (o1 + 1,
         case n of
           None \<Rightarrow> put (ex_name o1) (IP_marks v x) r
         | Some ns \<Rightarrow>
             if ns = [] then r
             else put (ex_name o1) (IP_marks v (plain (JObj (put_all (put_all [] (ex_fields (snd (last ns)))) (ex_fields x))))) r))"

text \<open>The value of a wrapped XML property: \<open>{t: {t: example}}\<close>, made as text and read again.\<close>

definition wrapped_example :: "numbers \<Rightarrow> string \<Rightarrow> lp \<Rightarrow> exs option" where
  "wrapped_example N t o1 =
     (if o1 = Value JUndef then None
      else do {
        v \<leftarrow> json_parse (num_text N) (''{ \"'' @ t @ ''\" : { \"'' @ t @ ''\" : '' @
               json_stringify (js_get (lp_js o1) ''example-0'') @ '' } }'');
        Some (each (Value v)) })"

definition array_property :: "js \<Rightarrow> bool" where
  "array_property p \<longleftrightarrow> js_get p ''type'' = JStr ''array'' \<or> js_truthy (js_get p ''items'')"

text \<open>The examples of a property that is an array, given those of its items.\<close>

definition array_examples :: "ex_options \<Rightarrow> numbers \<Rightarrow> exs \<Rightarrow> string \<Rightarrow> js \<Rightarrow> lp \<Rightarrow> exs option" where
  "array_examples T N r k p o1 =
     (if js_truthy (js_get p ''example'') then Some (PP (js_get p ''example'') r k)
      else if js_truthy (js_get (js_get p ''items'') ''example'') then Some (PP (JArr [js_get (js_get p ''items'') ''example'']) r k)
      else if useXmlTagForProp T then
        (let t = js_toString (js_or (js_get (js_get p ''xml'') ''name'') (JStr k)) in
         if js_truthy (js_get (js_get p ''xml'') ''wrapped'') then map_option (RP r t) (wrapped_example N t o1)
         else Some (RP r t (each o1)))
      else Some (RP r k (map (\<lambda>(k, x). (k, plain (JArr [snd x]))) (each o1))))"

lemma js_size_get_le: "k \<noteq> ''length'' \<Longrightarrow> js_size (js_get e k) \<le> js_size e"
proof (cases "js_truthy e")
  case False
  then have "js_get e k = JUndef" if "k \<noteq> ''length''" using that by (cases e) auto
  moreover have "1 \<le> js_size e" using js_size_pos [of e] by linarith
  ultimately show ?thesis if "k \<noteq> ''length''" using that by simp
qed (simp add: js_size_get less_imp_le)

function LP :: "ex_options \<Rightarrow> numbers \<Rightarrow> js \<Rightarrow> lp option"
  and LP_allOf :: "ex_options \<Rightarrow> numbers \<Rightarrow> js list \<Rightarrow> exs \<Rightarrow> exs option"
  and LP_beside :: "ex_options \<Rightarrow> numbers \<Rightarrow> obj \<Rightarrow> obj \<Rightarrow> obj option"
  and LP_oneOf :: "ex_options \<Rightarrow> numbers \<Rightarrow> obj \<Rightarrow> js list \<Rightarrow> nat \<times> exs \<Rightarrow> exs option"
  and LP_combined :: "ex_options \<Rightarrow> numbers \<Rightarrow> obj \<Rightarrow> exs \<Rightarrow> exs option"
  and LP_anyOf :: "ex_options \<Rightarrow> numbers \<Rightarrow> exs option \<Rightarrow> obj \<Rightarrow> nat \<times> exs \<Rightarrow> exs option"
  and LP_props :: "ex_options \<Rightarrow> numbers \<Rightarrow> obj \<Rightarrow> exs \<Rightarrow> exs option" where
  "LP T N e =
     (if \<not> js_truthy e then Some (Value JUndef)
      else if js_truthy (js_get e ''allOf'') then
        (let xs = js_list (js_get e ''allOf'') in
         if \<not> js_is_array (js_get e ''allOf'') then None
         else if length xs = 1 \<and> \<not> js_truthy (js_get (hd xs) ''properties'') \<and> \<not> js_truthy (js_get (hd xs) ''items'') then
           (if \<not> js_has_props (hd xs) then None
            else if js_truthy (js_get (hd xs) ''$ref'') then Some (Value (JStr ''{  }''))
            else if js_truthy (js_get (hd xs) ''readOnly'') \<and> includeReadOnly T then map_option Value (CP N (hd xs))
            else Some (Value JUndef))
         else map_option Examples (LP_allOf T N xs []))
      else if js_truthy (js_get e ''oneOf'') then do {
        n \<leftarrow> LP_beside T N (js_fields (js_get e ''properties'')) [];
        map_option Examples (LP_oneOf T N n (js_list (js_get e ''oneOf'')) (0, [])) }
      else if js_truthy (js_get e ''anyOf'') then do {
        n \<leftarrow> (if \<not> is_object_schema e then Some None
             else if js_fields (js_get e ''properties'') \<noteq> [] \<and> js_truthy (js_get e ''example'')
             then Some (Some (map (\<lambda>(k, v). (k, plain v)) (js_fields e)))
             else map_option Some (LP_combined T N (js_fields (js_get e ''properties'')) [(ex_name 0, plain (JObj []))]));
        map_option Examples (LP_anyOf T N n (js_fields (js_get e ''anyOf'')) (0, [])) }
      else if is_object_schema e then
        (if js_truthy (js_get e ''example'') then Some (Examples [(ex_name 0, plain (js_get e ''example''))])
         else map_option Examples (LP_props T N (js_fields (js_get e ''properties'')) [(ex_name 0, plain (JObj (marks e [])))]))
      else if \<not> is_array_schema e then map_option (\<lambda>v. Examples [(ex_name 0, plain v)]) (CP N e)
      else if js_truthy (js_get e ''example'') then Some (Examples [(ex_name 0, plain (js_get e ''example''))])
      else if \<not> js_truthy (js_get e ''items'') then Some (Examples [(ex_name 0, plain (JArr []))])
      else if js_truthy (js_get (js_get e ''items'') ''example'')
      then Some (Examples [(ex_name 0, plain (JArr [js_get (js_get e ''items'') ''example'']))])
      else do {
        n \<leftarrow> LP T N (js_get e ''items'');
        Some (Examples (map (\<lambda>(i, k, x). (ex_name i, IP_marks (js_get e ''items'') (plain (JArr [snd x])))) (enumerate 0 (each n)))) })"
| "LP_allOf T N [] a = Some a"
| "LP_allOf T N (e # es) a =
     (if \<not> js_has_props e then None
      else if is_object_schema e \<or> is_composed e then do { r \<leftarrow> LP T N e; LP_allOf T N es (put_all a (each r)) }
      else if is_array_schema e then do { r \<leftarrow> LP T N e; LP_allOf T N es (put ''0'' (plain (lp_js r)) a) }
      else if \<not> js_truthy (js_get e ''type'') then LP_allOf T N es a
      else do { v \<leftarrow> CP N e; LP_allOf T N es (put (''prop'' @ showNat (length a)) (plain v) a) })"
| "LP_beside T N [] n = Some n"
| "LP_beside T N ((k, p) # m) n = do {
     v \<leftarrow> (if \<not> js_has_props p then None
          else if js_truthy (js_get p ''properties'') then map_option lp_js (LP T N p) else CP N p);
     LP_beside T N m (put k v n) }"
| "LP_oneOf T N n [] st = Some (snd st)"
| "LP_oneOf T N n (v # vs) st = do { i \<leftarrow> LP T N v; LP_oneOf T N n vs (fold (one_example_of n v) (each i) st) }"
| "LP_combined T N [] n = Some n"
| "LP_combined T N ((k, p) # m) n =
     (if \<not> js_has_props p then None
      else if \<not> visible T p then LP_combined T N m n
      else do { i \<leftarrow> LP T N p; LP_combined T N m (RP n k (each i)) })"
| "LP_anyOf T N n [] st = Some (snd st)"
| "LP_anyOf T N n ((a, v) # vs) st = do { i \<leftarrow> LP T N v; LP_anyOf T N n vs (fold (any_example_of n v) (each i) st) }"
| "LP_props T N [] r = Some r"
| "LP_props T N ((k, p) # m) r =
     (if \<not> visible T p then LP_props T N m r
      else if array_property p then do {
        o1 \<leftarrow> (if js_truthy (js_get p ''example'') \<or> js_truthy (js_get (js_get p ''items'') ''example'') then Some (Value JUndef)
              else LP T N (js_get p ''items''));
        r1 \<leftarrow> array_examples T N r k p o1;
        LP_props T N m r1 }
      else do { i \<leftarrow> LP T N p; LP_props T N m (RP r k (each i)) })"
  by pat_completeness auto
termination
  by (relation "measure (\<lambda>x. case x of
        Inl (Inl (T, N, e)) \<Rightarrow> 2 * js_size e
      | Inl (Inr (Inl (T, N, es, a))) \<Rightarrow> 1 + 2 * list_size es
      | Inl (Inr (Inr (T, N, m, n))) \<Rightarrow> 1 + 2 * entries_js_size m
      | Inr (Inl (Inl (T, N, n, es, st))) \<Rightarrow> 1 + 2 * list_size es
      | Inr (Inl (Inr (T, N, m, n))) \<Rightarrow> 1 + 2 * entries_js_size m
      | Inr (Inr (Inl (T, N, n, m, st))) \<Rightarrow> 1 + 2 * entries_js_size m
      | Inr (Inr (Inr (T, N, m, r))) \<Rightarrow> 1 + 2 * entries_js_size m)")
    (auto simp: js_size_get js_size_parts js_size_get_le le_imp_less_Suc trans_le_add1 intro!: double_less)

declare LP.simps [simp del]

section \<open>The examples of a media type\<close>

definition mime_has :: "js \<Rightarrow> string \<Rightarrow> bool" where
  "mime_has t k = (case t of JStr x \<Rightarrow> js_includes (toLower x) k | _ \<Rightarrow> False)"

definition example_of :: "string \<Rightarrow> js \<Rightarrow> js \<Rightarrow> js \<Rightarrow> js \<times> js \<Rightarrow> js" where
  "example_of i summary description t vf =
     JObj [(''exampleId'', JStr i), (''exampleSummary'', summary), (''exampleDescription'', description), (''exampleType'', t),
           (''exampleValue'', fst vf), (''exampleFormat'', snd vf)]"

definition as_text :: "js \<Rightarrow> js" where
  "as_text v = (if js_typeof v = ''string'' \<or> v = JUndef then v else JStr (json_pretty v))"

definition read_text :: "numbers \<Rightarrow> string \<Rightarrow> js \<times> js" where
  "read_text N s = (case json_parse (num_text N) s of Some x \<Rightarrow> (x, JStr ''json'') | None \<Rightarrow> (JStr s, JStr ''text''))"

text \<open>An example of the list \<open>examples\<close> of the document, and the one under \<open>example\<close>.\<close>

definition listed_example :: "numbers \<Rightarrow> js \<Rightarrow> js \<Rightarrow> js \<Rightarrow> js \<times> js" where
  "listed_example N t i v =
     (if \<not> mime_has t ''json'' then (v, JStr ''text'')
      else if i = JStr ''text'' then (as_text v, JStr ''text'')
      else case v of JStr s \<Rightarrow> read_text N s | _ \<Rightarrow> (v, JStr ''json''))"

definition single_example :: "numbers \<Rightarrow> js \<Rightarrow> js \<Rightarrow> js \<Rightarrow> js \<times> js" where
  "single_example N t i v =
     (if \<not> mime_has t ''json'' then (v, JStr ''text'')
      else if i = JStr ''text'' then (as_text v, JStr ''text'')
      else if js_typeof v = ''object'' then (v, JStr ''json'')
      else case v of JStr s \<Rightarrow> read_text N s | _ \<Rightarrow> (JStr [], JStr ''json''))"

definition ex_get :: "ex \<Rightarrow> string \<Rightarrow> js" where
  "ex_get x k = (case snd x of JArr _ \<Rightarrow> js_get (JObj (fst x)) k | v \<Rightarrow> js_get v k)"

definition xml_document :: "js \<Rightarrow> js \<Rightarrow> js option" where
  "xml_document e v =
     (let name = js_get (js_get e ''xml'') ''name''; ns = js_get (js_get e ''xml'') ''namespace'';
          r = (if js_truthy name
               then ''<'' @ js_toString name @ '' '' @ (if js_truthy ns then ''xmlns=\"'' @ js_toString ns @ ''\"'' else []) @ ''>''
               else ''<root>'');
          n = (if js_truthy name then ''</'' @ js_toString name @ ''>'' else ''</root>'') in
      map_option (\<lambda>x. JStr (''<?xml version=\"1.0\" encoding=\"UTF-8\"?>'' @ [CHR 0x0A] @ r @ x @ [CHR 0x0A] @ n)) (jP 1 v))"

fun made_examples :: "js \<Rightarrow> js \<Rightarrow> js \<Rightarrow> nat \<Rightarrow> exs \<Rightarrow> js list option" where
  "made_examples e t i h [] = Some []"
| "made_examples e t i h ((k, x) # m) =
     (if \<not> js_truthy (snd x) then made_examples e t i h m
      else do {
        let o1 = ex_get x ''::TITLE'';
        let h' = (if js_truthy o1 then h else h + 1);
        vf \<leftarrow> (if mime_has t ''xml'' then map_option (\<lambda>d. (d, JStr ''text'')) (xml_document e (snd x))
              else Some (if i = JStr ''text'' then JStr (json_pretty (unmark (snd x))) else unmark (snd x), i));
        xs \<leftarrow> made_examples e t i h' m;
        Some (example_of k (if js_truthy o1 then o1 else JStr (''Example '' @ showNat h'))
                (js_or (ex_get x ''::DESCRIPTION'') (JStr [])) t vf # xs) })"

definition lone_example :: "js \<Rightarrow> js \<Rightarrow> js \<Rightarrow> string \<Rightarrow> js" where
  "lone_example summary t v f = example_of ''Example'' summary (JStr []) t (v, JStr f)"

definition BP_options :: "bool \<Rightarrow> bool \<Rightarrow> js \<Rightarrow> ex_options" where
  "BP_options o1 a t =
     \<lparr>includeReadOnly = o1, includeWriteOnly = a, includeDeprecated = False, useXmlTagForProp = mime_has t ''xml''\<rparr>"

definition schema_examples :: "numbers \<Rightarrow> js \<Rightarrow> js \<Rightarrow> bool \<Rightarrow> bool \<Rightarrow> js \<Rightarrow> js list option" where
  "schema_examples N e t o1 a i =
     (if \<not> js_truthy e then Some [lone_example (JStr []) t (JStr []) ''text'']
      else if js_truthy (js_get e ''example'')
      then Some [lone_example (JStr []) t (js_get e ''example'')
                   (if mime_has t ''json'' \<and> js_typeof (js_get e ''example'') = ''object'' then ''json'' else ''text'')]
      else if list_ex (mime_has t) [''json'', ''text'', ''*/*'', ''xml'']
      then do { u \<leftarrow> LP (BP_options o1 a t) N e; made_examples e t i 0 (each u) }
      else if mime_has t ''jose''
      then Some [lone_example (JStr ''Base64 Encoded'') t (js_or (js_get e ''pattern'') (JStr ''bXJpbg=='')) ''text'']
      else Some [lone_example (JStr []) t (JStr []) ''text''])"

definition BP_examples :: "numbers \<Rightarrow> js \<Rightarrow> js \<Rightarrow> js \<Rightarrow> js \<Rightarrow> bool \<Rightarrow> bool \<Rightarrow> js \<Rightarrow> js \<Rightarrow> js list option" where
  "BP_examples N e t r n o1 a i0 s = do {
     let i = (if i0 = JUndef then JStr ''json'' else i0);
     l \<leftarrow> (if js_truthy r
          then those (map (\<lambda>(k, x). if js_has_props x
                 then Some (example_of k (js_or (js_get x ''summary'') (JStr k)) (js_or (js_get x ''description'') (JStr [])) t
                              (listed_example N t i (js_get x ''value'')))
                 else None) (for_in r))
          else Some (if js_truthy n then [example_of ''Example'' (JStr []) (JStr []) t (single_example N t i n)] else []));
     (if l = [] \<or> s = JBool True then do { xs \<leftarrow> schema_examples N e t o1 a i; Some (l @ xs) } else Some l) }"

text \<open>The libraries of the page with its own examples; where these throw there is no list.\<close>

definition with_examples :: "numbers \<Rightarrow> lib \<Rightarrow> lib" where
  "with_examples N L = L\<lparr>BP := \<lambda>e t r n o1 a i s. case BP_examples N e t r n o1 a i s of Some xs \<Rightarrow> JArr xs | None \<Rightarrow> JUndef\<rparr>"

end
