(* ===== verification/Web_Example_Shown.thy ===== *)
theory Web_Example_Shown
  imports Web_Example
begin

text \<open>
  What the examples of an object schema hold: the properties of the schema that are not hidden, at
  most ten examples, and none at all if one property has no example.
\<close>

section \<open>Names of properties\<close>

definition names :: "(string \<times> 'v) list \<Rightarrow> string set" where
  "names m = fst ` set m"

lemma names_simps [simp]:
  "names [] = {}" "names ((k, v) # m) = insert k (names m)" "names (a @ b) = names a \<union> names b"
  by (auto simp: names_def)

lemma names_upd_assoc [simp]: "names (upd_assoc k v m) = insert k (names m)"
  by (induction m) (auto split: if_splits)

lemma names_put [simp]: "names (put k v m) = insert k (names m)"
proof -
  have "names (takeWhile P m) \<union> names (dropWhile P m) = names m" for P
    by (metis names_simps(3) takeWhile_dropWhile_id)
  then show ?thesis by (auto simp: put_def)
qed

lemma length_put: "length (put k v m) \<le> length m + 1"
proof -
  have "length (upd_assoc k v m) \<le> length m + 1" by (induction m) auto
  moreover have "length (takeWhile P m) + length (dropWhile P m) = length m" for P
    by (metis length_append takeWhile_dropWhile_id)
  ultimately show ?thesis by (simp add: put_def)
qed

lemma set_put: "set (put k v m) \<subseteq> insert (k, v) (set m)"
proof -
  have "set (upd_assoc k v m) \<subseteq> insert (k, v) (set m)" by (induction m) (auto split: if_splits)
  then show ?thesis by (auto simp: put_def dest: set_takeWhileD set_dropWhileD)
qed

lemma names_put_all [simp]: "names (put_all m es) = names m \<union> names es"
  by (induction es arbitrary: m) (auto simp: put_all_def)

lemma names_marks: "names (marks e m) - set mark_names = names m - set mark_names"
  by (auto simp: marks_def mark_def mark_names_def Let_def)

lemma names_unmark: "set (js_keys (unmark (JObj m))) = names m - set mark_names"
  by (force simp: names_def)

section \<open>Combining examples\<close>

text \<open>Examples that are objects with the given names, besides their marks.\<close>

definition shows_names :: "string set \<Rightarrow> exs \<Rightarrow> bool" where
  "shows_names S r \<longleftrightarrow> length r \<le> 10 \<and> list_all (\<lambda>(k, g, v). g = [] \<and> (\<exists>m. v = JObj m \<and> names m - set mark_names = S)) r"

definition combined :: "string \<Rightarrow> ex \<Rightarrow> (string \<times> ex) set" where
  "combined t b = {(k, plain (JObj (put t v (put_all [] (ex_fields b))))) |k v. True}"

lemma RP_values_spec:
  assumes "RP_values b t r (n, o1) = (n', o2)" "length o1 \<le> n" "n < 10"
  shows "length o2 \<le> n' \<and> n' \<le> 10 \<and> (r = [] \<longrightarrow> n' = n \<and> o2 = o1) \<and>
    set o2 \<subseteq> set o1 \<union> combined t b"
  using assms
proof (induction b t r "(n, o1)" arbitrary: n o1 rule: RP_values.induct)
  case (2 b t i x r n o1)
  let ?o = "put (ex_name n) (plain (JObj (put t (snd x) (put_all [] (ex_fields b))))) o1"
  have "length ?o \<le> n + 1" using "2.prems"(2) length_put [of "ex_name n" _ o1] by (meson add_le_mono1 le_trans)
  moreover have "set ?o \<subseteq> insert (ex_name n, plain (JObj (put t (snd x) (put_all [] (ex_fields b))))) (set o1)" by (rule set_put)
  ultimately show ?case
    using 2 by (cases "10 \<le> n + 1") (simp_all add: Let_def combined_def, blast+)
qed simp

lemma RP_examples_spec:
  assumes "length o1 \<le> n" "n < 10"
  shows "length (RP_examples e t r (n, o1)) \<le> 10 \<and>
    set (RP_examples e t r (n, o1)) \<subseteq> set o1 \<union> \<Union> (combined t ` snd ` set e) \<and>
    (r = [] \<longrightarrow> RP_examples e t r (n, o1) = o1)"
  using assms
proof (induction e t r "(n, o1)" arbitrary: n o1 rule: RP_examples.induct)
  case (2 a b e t r n o1)
  obtain n' o2 where o2: "RP_values b t r (n, o1) = (n', o2)" by force
  note s = RP_values_spec [OF o2 "2.prems"]
  show ?case
  proof (cases "10 \<le> n'")
    case True
    then show ?thesis using s o2 "2.prems" by (auto simp: Let_def)
  next
    case False
    then have "length o2 \<le> n'" "n' < 10" using s by auto
    from "2.hyps" [OF refl o2 [symmetric] False this] show ?thesis
      using s o2 False by (auto simp: Let_def)
  qed
qed simp

lemma RP_empty: "RP [] t r = []" "RP e t [] = []"
  using RP_examples_spec [of "[]" 0 e t "[]"] by (simp_all add: RP_def)

lemma combined_names:
  assumes "shows_names S e" "b \<in> snd ` set e" "t \<notin> set mark_names" "(k, g, v) \<in> combined t b"
  shows "g = [] \<and> (\<exists>m. v = JObj m \<and> names m - set mark_names = insert t S)"
  using assms by (auto simp: combined_def plain_def shows_names_def list_all_iff ex_fields_def for_in_def)

lemma RP_shows:
  assumes "shows_names S e" "t \<notin> set mark_names"
  shows "shows_names (insert t S) (RP e t r)"
proof -
  have RP: "length (RP e t r) \<le> 10" "set (RP e t r) \<subseteq> \<Union> (combined t ` snd ` set e)"
    using RP_examples_spec [of "[]" 0 e t r] by (simp_all add: RP_def)
  have "g = [] \<and> (\<exists>m. v = JObj m \<and> names m - set mark_names = insert t S)" if x: "(k, g, v) \<in> set (RP e t r)" for k g v
    using subsetD [OF RP(2) x] combined_names [OF assms(1) _ assms(2)] by blast
  then show ?thesis using RP(1) by (auto simp: shows_names_def list_all_iff)
qed

lemma PP_shows: "shows_names S r \<Longrightarrow> k \<notin> set mark_names \<Longrightarrow> shows_names (insert k S) (PP v r k)"
  by (fastforce simp: shows_names_def list_all_iff PP_def set_property_def split: prod.splits js.splits)

lemma PP_empty: "PP v [] k = []"
  by (simp add: PP_def)

lemma array_examples_shows:
  assumes "array_examples T N r k p o1 = Some r1" "\<not> useXmlTagForProp T" "k \<notin> set mark_names" "shows_names S r"
  shows "shows_names (insert k S) r1"
  using assms by (auto simp: array_examples_def RP_shows PP_shows split: if_splits)

lemma array_examples_empty: "array_examples T N [] k p o1 = Some r1 \<Longrightarrow> r1 = []"
  by (auto simp: array_examples_def RP_empty PP_empty Let_def split: if_splits)

section \<open>Object schemas\<close>

definition visible_names :: "ex_options \<Rightarrow> obj \<Rightarrow> string set" where
  "visible_names T m = {k. \<exists>p. (k, p) \<in> set m \<and> visible T p}"

lemma visible_names_simps [simp]:
  "visible_names T [] = {}"
  "visible_names T ((k, p) # m) = (if visible T p then insert k (visible_names T m) else visible_names T m)"
  by (auto simp: visible_names_def)

lemma LP_props_shows:
  assumes "LP_props T N m r = Some r'" "\<not> useXmlTagForProp T" "names m \<inter> set mark_names = {}" "shows_names S r"
  shows "shows_names (S \<union> visible_names T m) r'"
  using assms
proof (induction m arbitrary: r S)
  case (Cons kp m)
  obtain k p where kp: "kp = (k, p)" by force
  show ?case
  proof (cases "visible T p")
    case True
    obtain r1 where r1: "LP_props T N m r1 = Some r'" "shows_names (insert k S) r1"
      using Cons.prems True unfolding kp
      by (auto simp: RP_shows array_examples_shows split: if_splits bind_splits)
    then show ?thesis using Cons.IH [OF r1(1) Cons.prems(2) _ r1(2)] Cons.prems(3) True by (simp add: kp)
  qed (use Cons kp in auto)
qed simp

lemma LP_props_empty: "LP_props T N m [] = Some r' \<Longrightarrow> r' = []"
  by (induction m) (auto simp: RP_empty dest!: array_examples_empty split: if_splits bind_splits)

lemma LP_props_missing:
  assumes "LP_props T N m r = Some r'" "(k, p) \<in> set m" "visible T p" "\<not> array_property p" "LP T N p = Some i" "each i = []"
  shows "r' = []"
  using assms
proof (induction m arbitrary: r)
  case (Cons kp m)
  show ?case
  proof (cases "kp = (k, p)")
    case True
    then show ?thesis using Cons.prems LP_props_empty by (auto simp: RP_empty)
  next
    case False
    then show ?thesis using Cons by (cases kp) (auto split: if_splits bind_splits)
  qed
qed simp

text \<open>The case of an object in \<open>LP\<close>.\<close>

definition made_up_object :: "js \<Rightarrow> bool" where
  "made_up_object e \<longleftrightarrow> is_object_schema e \<and> \<not> is_composed e \<and> \<not> js_truthy (js_get e ''example'')"

lemma object_schema_truthy: "is_object_schema e \<Longrightarrow> js_truthy e"
  by (cases e) (auto simp: is_object_schema_def)

lemma LP_object:
  assumes "made_up_object e"
  shows "LP T N e = map_option Examples (LP_props T N (js_fields (js_get e ''properties'')) [(ex_name 0, plain (JObj (marks e [])))])"
  using assms object_schema_truthy by (subst LP.simps) (auto simp: made_up_object_def is_composed_def)

lemma start_shows: "shows_names {} [(ex_name 0, plain (JObj (marks e [])))]"
  using names_marks [of e "[]"] by (simp add: shows_names_def plain_def)

lemma made_examples_object:
  assumes "made_examples e t i h m = Some xs" "shows_names S m" "\<not> mime_has t ''xml''" "i \<noteq> JStr ''text''"
  shows "length xs \<le> length m \<and> (\<forall>x\<in>set xs. set (js_keys (js_get x ''exampleValue'')) = S)"
  using assms
proof (induction m arbitrary: h xs)
  case (Cons kx m)
  obtain k g v where kx: "kx = (k, g, v)" by (cases kx) auto
  from Cons.prems(2) obtain p where p: "v = JObj p" "names p - set mark_names = S" "shows_names S m"
    by (auto simp: kx shows_names_def)
  then obtain h' ys y where "made_examples e t i h' m = Some ys" "xs = y # ys" "js_get y ''exampleValue'' = unmark v"
    using Cons.prems unfolding kx by (auto simp: Let_def example_of_def split: bind_splits)
  then show ?case using Cons.IH [of h' ys] Cons.prems p names_unmark [of p] by auto
qed simp

definition json_like :: "js \<Rightarrow> bool" where
  "json_like t \<longleftrightarrow> list_ex (mime_has t) [''json'', ''text'', ''*/*''] \<and> \<not> mime_has t ''xml''"

lemma BP_object:
  assumes "made_up_object e" "json_like t" "BP_examples N e t JUndef JUndef o1 a i s = Some xs"
  obtains r where "LP_props (BP_options o1 a t) N (js_fields (js_get e ''properties'')) [(ex_name 0, plain (JObj (marks e [])))] = Some r"
    "made_examples e t (if i = JUndef then JStr ''json'' else i) 0 r = Some xs"
  using assms object_schema_truthy [of e] LP_object [OF assms(1)]
  by (auto simp: BP_examples_def schema_examples_def json_like_def made_up_object_def Let_def split: bind_splits if_splits)

section \<open>Properties\<close>


text \<open>Whole numbers, for examples.\<close>

definition whole_numbers :: numbers where
  "whole_numbers = \<lparr>num_parse = Some, num_add = \<lambda>x y. showNat (nat (index_value x + index_value y)),
     num_ge = \<lambda>x y. index_value y \<le> index_value x, num_divides = \<lambda>x y. index_value y mod index_value x = 0,
     num_round_up = \<lambda>x y. showNat (nat ((index_value x + index_value y - 1) div index_value y * index_value y)),
     num_count = \<lambda>x. Some (nat (index_value x)), num_text = id, hex_clock = ''18c'', hex_random = ''0.8''\<rparr>"

definition example_group :: "js \<Rightarrow> js" where
  "example_group kind =
     JObj [(''type'', JStr ''object''), (''title'', JStr ''Group''),
       (''properties'', JObj [
          (''id'', JObj [(''type'', JStr ''integer''), (''readOnly'', JBool True)]),
          (''name'', JObj [(''type'', JStr ''string''), (''minLength'', JNum ''3'')]),
          (''kind'', kind),
          (''lists'', JObj [(''type'', JStr ''array''), (''items'', JObj [(''type'', JStr ''string'')])])])]"

definition example_kind :: js where
  "example_kind = JObj [(''oneOf'', JArr [JObj [(''type'', JStr ''string''), (''enum'', JArr [JStr ''deny''])],
     JObj [(''type'', JStr ''integer''), (''minimum'', JNum ''5''), (''multipleOf'', JNum ''4'')]])]"

definition group_example :: "js \<Rightarrow> js" where
  "group_example kind = JObj [(''name'', JStr ''AAA''), (''kind'', kind), (''lists'', JArr [JStr ''string''])]"


text \<open>
  One property without an example leaves the whole object without examples. A property whose
  schema is \<open>allOf\<close> of one schema without properties and items, the usual way to add a
  description to a referenced enumeration, has no example unless that schema is read-only; then the
  list of examples is empty, whatever the other properties are.
\<close>

theorem example_of_object_vanishes:
  assumes "made_up_object e" "json_like t" "(k, p) \<in> set (js_fields (js_get e ''properties''))" "visible (BP_options o1 a t) p"
    and "\<not> array_property p" "js_get p ''allOf'' = JArr [q]" "js_has_props q" "\<not> js_truthy (js_get q ''properties'')"
    and "\<not> js_truthy (js_get q ''items'')" "\<not> js_truthy (js_get q ''$ref'')" "\<not> js_truthy (js_get q ''readOnly'')"
    and "BP_examples N e t JUndef JUndef o1 a i s = Some xs"
  shows "xs = []"
proof -
  obtain r where r: "LP_props (BP_options o1 a t) N (js_fields (js_get e ''properties'')) [(ex_name 0, plain (JObj (marks e [])))] = Some r"
    "made_examples e t (if i = JUndef then JStr ''json'' else i) 0 r = Some xs"
    using BP_object [OF assms(1,2,12)] .
  have "js_truthy p" using assms(6) by (cases p) auto
  then have "LP (BP_options o1 a t) N p = Some (Value JUndef)" using assms(6-11) by (subst LP.simps) simp
  moreover have "each (Value JUndef) = []" by (simp add: for_in_def)
  ultimately have "r = []" by (rule LP_props_missing [OF r(1) assms(3-5)])
  then show ?thesis using r(2) by simp
qed

theorem example_of_object_vanishes_witness:
  "BP_examples whole_numbers (example_group (JObj [(''allOf'', JArr [JObj [(''type'', JStr ''string''), (''enum'', JArr [JStr ''deny''])]])]))
     (JStr ''application/json'') JUndef JUndef False True JUndef JUndef = Some []"
proof -
  let ?q = "JObj [(''type'', JStr ''string''), (''enum'', JArr [JStr ''deny''])]"
  let ?p = "JObj [(''allOf'', JArr [?q])]" and ?t = "JStr ''application/json''"
  have "map_option length (BP_examples whole_numbers (example_group ?p) ?t JUndef JUndef False True JUndef JUndef) = Some 0" by code_simp
  then obtain xs where xs: "BP_examples whole_numbers (example_group ?p) ?t JUndef JUndef False True JUndef JUndef = Some xs"
    by (auto simp: map_option_eq_Some)
  have e: "made_up_object (example_group ?p)" "json_like ?t" "visible (BP_options False True ?t) ?p" "\<not> array_property ?p" by code_simp+
  have "xs = []"
    by (rule example_of_object_vanishes [OF e(1,2) _ e(3,4) _ _ _ _ _ _ xs, where k = "''kind''" and q = ?q])
      (simp_all add: example_group_def js_has_props_def)
  with xs show ?thesis by simp
qed

text \<open>
  A primitive schema whose example is \<open>0\<close> or \<open>false\<close> has none, and a number that the document gives as the
  example of a media type with JSON is shown as an empty text.
\<close>

theorem false_has_no_example:
  "BP_examples N (JObj [(''type'', JStr ''boolean'')]) (JStr ''application/json'') JUndef JUndef o1 a JUndef s = Some []"
  "single_example N (JStr ''application/json'') (JStr ''json'') (JNum ''5'') = (JStr [], JStr ''json'')"
proof -
  have "mime_has (JStr ''application/json'') ''json''" by code_simp
  moreover have "LP T N (JObj [(''type'', JStr ''boolean'')]) = Some (Examples [(ex_name 0, plain (JBool False))])" for T
    by (subst LP.simps) (simp add: is_object_schema_def is_array_schema_def CP_def js_has_props_def given_def no_keys_def for_in_def js_or_def hasPrefix_iff)
  ultimately show "BP_examples N (JObj [(''type'', JStr ''boolean'')]) (JStr ''application/json'') JUndef JUndef o1 a JUndef s = Some []"
    "single_example N (JStr ''application/json'') (JStr ''json'') (JNum ''5'') = (JStr [], JStr ''json'')"
    by (simp_all add: BP_examples_def schema_examples_def single_example_def plain_def Let_def)
qed

text \<open>The examples of several objects under \<open>allOf\<close> replace each other by their numbers instead of being merged.\<close>

theorem all_of_examples_replace:
  "map_option (map (\<lambda>x. js_get x ''exampleValue'')) (BP_examples whole_numbers
     (JObj [(''allOf'', JArr [example_group example_kind, JObj [(''properties'', JObj [(''note'', JObj [(''type'', JStr ''string'')])])]])])
     (JStr ''application/json'') JUndef JUndef False True JUndef JUndef)
   = Some [JObj [(''note'', JStr ''string'')], group_example (JNum ''8'')]"
  by code_simp

end
