(* ===== verification/Spec2Isabelle.thy ===== *)
theory Spec2Isabelle
  imports Http_Api Web_Theme Web_Cascade
    Web_Key_State Web_Schema_Agree Web_Controls Web_Load Web_Response_State Web_Form_Request Web_Example_Shown
begin

text \<open>
  Verification of blocky, a DNS proxy that blocks names from lists, and of the page that
  shows its API.

  \<^bold>\<open>The program.\<close> A query enters at the server (server/server.go) and runs through a chain of
  resolvers (resolver/*.go): filtering by type, fully qualified names only, client subnet,
  client names, extended errors, query log, metrics, custom DNS behind a rewriter, hosts file,
  blocking, cache, conditional upstreams behind a rewriter, special-use names, and the groups of
  upstream servers. Lists and hosts files are downloaded and parsed (lists), stored in
  string caches (cache/stringcache, trie) and looked up by the blocking resolver. The file
  web/static/rapidoc-min.js is the page served at /docs: the custom elements, style sheets and
  schema functions of RapiDoc in one bundle, with the libraries it uses.

  \<^bold>\<open>How it is modelled.\<close> A resolver is a function from a request and the world to an outcome
  (a response, an error, or a panic), the request as it was changed, and the new world; a
  resolver with state of its own adds that state to the world. Go maps are association lists
  in iteration order, \<open>nil\<close> is \<^const>\<open>None\<close> or the empty list, machine integers are words, a
  nil dereference, a slice or an index out of range is a value of \<open>go_panic\<close>. Third-party code
  is an argument: the DNS library (record \<open>dnslib\<close>, relied on by \<open>dnslib_ok\<close>), the regular
  expression compiler, the job groups (\<open>parcour\<close>), the expiration cache (locale
  \<open>expiring_cache\<close>), the random choice and the order of concurrent results.

  \<^item> \<open>Prelude\<close>: strings, sorted slices and maps of Go.
  \<^item> \<open>Domain_Trie\<close> (trie): the wildcard trie; it reports exactly the domains below an inserted one.
    Its loops are partial functions, shown to return for every split function that shortens.
  \<^item> \<open>String_Caches\<close> (cache/stringcache): the caches by kind of entry, the grouped and the chained
    cache, all instances of one interface, the locale \<open>string_cache\<close>.
  \<^item> \<open>Net_IP\<close>: addresses and networks of package \<open>net\<close>.
  \<^item> \<open>Parsers\<close> (lists/parsers): line parsers and error limits, instances of \<open>progress_parser\<close>, whose
    loops return; which hosts a list contributes.
  \<^item> \<open>List_Cache\<close> (lists, config/bytes_source.go): refreshing the groups; what a refresh replaces
    and when it crashes.
  \<^item> \<open>Dns\<close> (model, util): messages, requests, EDNS options, cache keys, reverse lookup names.
  \<^item> \<open>Blocking\<close>, \<open>Blocking_Status\<close> (resolver/blocking_resolver.go): the decision, the groups of a
    client, block handlers; enabling and disabling as a step relation with its invariant, and
    the locks.
  \<^item> \<open>Simple_Resolvers\<close>: filtering, fully qualified names, extended errors, special-use names,
    client subnets.
  \<^item> \<open>Routing_Resolvers\<close>: conditional upstreams and the rewriter. \<open>Custom_Dns\<close>: custom records and
    aliases, whose recursion ends because the aliases left to follow decrease.
  \<^item> \<open>Caching\<close> (resolver/caching_resolver.go, cache/prefetching): what is cached, for how long, and
    what is prefetched; the prefetching cache is an expiring cache if those below it are.
  \<^item> \<open>Client_Names\<close>, \<open>Hosts_File\<close>, \<open>Upstreams\<close>: the resolvers of these names.
  \<^item> \<open>Server\<close>: query log, metrics, the whole chain, and what the server writes: an answer in every
    case, and a blocked one for a denied name whatever lies behind the blocking resolver.
  \<^item> \<open>Http_Api\<close> (server/server_endpoints.go, api): DNS over HTTPS, where both methods do the same, and
    the handlers of the API.
  \<^item> \<open>Web_Css\<close>, \<open>Web_Styles\<close>, \<open>Web_Element_Styles\<close>: the style sheets of the page as data. \<open>Web_Theme\<close>:
    the colour functions and the theme, which defines every property the sheets use but one.
    \<open>Web_Cascade\<close>: the colours of HTTP methods by the rules of the cascade. \<open>Web_Values\<close>,
    \<open>Web_Schema\<close>: the JSON tree, and the string of a schema with how it is split again.
  \<^item> \<open>Web_Template\<close>: what a template of the page yields, a list of nodes (type \<open>dom\<close>) with attributes
    and properties; an element is the function from its property names to their values, and the
    libraries that templates call (Markdown, highlighting) are the record \<open>lib\<close>.
  \<^item> \<open>Web_Base64\<close>, \<open>Web_Json\<close>: base64 as bundled, and reading and printing of JSON; both round trips.
  \<^item> \<open>Web_Keys\<close>, \<open>Web_Auth\<close>, \<open>Web_Key_State\<close> (functions \<open>tP\<close> to \<open>yP\<close>): security schemes, keys and tokens. Entering,
    storing, clearing and restoring keys are the steps \<open>key_step\<close>, with the invariant \<open>page_ok\<close>.
  \<^item> \<open>Web_Schema_Model\<close>, \<open>Web_Schema_View\<close>, \<open>Web_Schema_Agree\<close> (\<open>DP\<close>, elements schema-tree and schema-table): the
    nested model of a schema and its two views, which show the same facts. \<open>Web_Controls\<close>: tag-input
    and the toggles of the trees.
  \<^item> \<open>Web_Pages\<close>, \<open>Web_Navigation\<close> (\<open>HP\<close> to \<open>ER\<close>): the templates of the whole page; the entries of its
    navigation bar have targets, and a focused operation is shown.
  \<^item> \<open>Web_Spec\<close>, \<open>Web_Load\<close> (\<open>M_\<close> and the element rapi-doc): the data of the page made from a document,
    in which every operation is listed; attributes, loading, the address of the page and searching. A
    page that is loaded satisfies what the theorems on navigation assume.
  \<^item> \<open>Web_Example\<close>, \<open>Web_Example_Shown\<close> (\<open>BP\<close>, \<open>LP\<close>, \<open>CP\<close>): the examples made up for a schema and what they show.
  \<^item> \<open>Web_Response\<close>, \<open>Web_Response_State\<close> (element api-response): the selected status and media type.
  \<^item> \<open>Web_Form\<close>, \<open>Web_Request\<close>, \<open>Web_Try\<close>, \<open>Web_Form_Request\<close> (element api-request): the form of an operation, the
    request made from its controls, and the answer. The encodings of the address are instances of the
    locale \<open>byte_encoding\<close>; the answer is a step relation \<open>try_step\<close> with the invariant \<open>blob_inv\<close>; the last
    theory composes form and request.

  \<^bold>\<open>Bounds.\<close> No definition of the resolvers uses fuel. Loops over text are partial functions in
  the option type, and the interpretations of \<open>progress_parser\<close> and \<open>label_split\<close> show that
  they return. Decimal numbers are printed with fuel equal to the number, more than its digits.
  The reader of JSON has fuel twice the length of the text and two, which is enough for every
  printed text, as its round trip shows.

  \<^bold>\<open>Not modelled.\<close> Sockets, TLS, routing and the generated code of the API; deadlines of requests; the clients of one
  upstream server and the bootstrap resolver; Redis, the query log writers, Prometheus and log
  output; YAML decoding and migration of the configuration; the command line. Of the page:
  what the browser does (layout, focus, scrolling, \<open>fetch\<close>, floating-point numbers, which are arguments
  where a result is used), the element rapi-doc-mini, and the bundled libraries, among them the
  resolver of references. A panic in a goroutine started for an upstream server ends the process;
  only panics on the way of the query are modelled.
\<close>

end
